(* ===== verification/Encoding.thy ===== *)
theory Encoding
  imports Prelude
begin

text \<open>
  \<open>encoding/base64\<close> of Go's standard library, as far as the room uses it:
  \<open>StdEncoding\<close> and \<open>URLEncoding\<close>, both padded and not strict. The decoder skips
  carriage returns and newlines, wants whole groups of four symbols, takes padding in the last
  group only and ignores the unused bits of a padded group. Invite tokens, password reset
  tokens, challenges and signatures all pass through these functions.
\<close>

subsection \<open>The two alphabets\<close>

text \<open>The alphabets differ in the symbols of 62 and 63, given here by their codes.\<close>

type_synonym alphabet = "nat \<times> nat"

definition std_alphabet :: alphabet where "std_alphabet = (43, 47)"
definition url_alphabet :: alphabet where "url_alphabet = (45, 95)"

definition sym_code :: "alphabet \<Rightarrow> nat \<Rightarrow> nat" where
  "sym_code al n =
     (if n < 26 then 65 + n else if n < 52 then 71 + n else if n < 62 then n - 4
      else if n = 62 then fst al else snd al)"

definition sym :: "alphabet \<Rightarrow> nat \<Rightarrow> char" where
  "sym al n = char_of (sym_code al n)"

definition code_val :: "alphabet \<Rightarrow> nat \<Rightarrow> nat option" where
  "code_val al k =
     (if 65 \<le> k \<and> k \<le> 90 then Some (k - 65)
      else if 97 \<le> k \<and> k \<le> 122 then Some (k - 71)
      else if 48 \<le> k \<and> k \<le> 57 then Some (k + 4)
      else if k = fst al then Some 62
      else if k = snd al then Some 63 else None)"

definition sym_val :: "alphabet \<Rightarrow> char \<Rightarrow> nat option" where
  "sym_val al c = code_val al (of_char c)"

definition pad :: char where "pad = CHR ''=''"

definition std_or_url :: "alphabet \<Rightarrow> bool" where
  "std_or_url al \<longleftrightarrow> al = std_alphabet \<or> al = url_alphabet"

lemma std_or_url_simps [simp]: "std_or_url std_alphabet" "std_or_url url_alphabet"
  by (simp_all add: std_or_url_def)

lemma sym_code_small: "std_or_url al \<Longrightarrow> n < 64 \<Longrightarrow> sym_code al n < 256"
  by (auto simp: std_or_url_def std_alphabet_def url_alphabet_def sym_code_def)

lemma symbols_ok:
  "list_all (\<lambda>n. code_val std_alphabet (sym_code std_alphabet n) = Some n) [0..<64]"
  "list_all (\<lambda>n. code_val url_alphabet (sym_code url_alphabet n) = Some n) [0..<64]"
  "list_all (\<lambda>n. sym_code std_alphabet n \<notin> {61, 10, 13}) [0..<64]"
  "list_all (\<lambda>n. sym_code url_alphabet n \<notin> {61, 10, 13}) [0..<64]"
  by code_simp+

lemma code_val_sym_code: "std_or_url al \<Longrightarrow> n < 64 \<Longrightarrow> code_val al (sym_code al n) = Some n"
  using symbols_ok(1,2) by (auto simp: std_or_url_def list_all_iff)

lemma sym_code_special: "std_or_url al \<Longrightarrow> n < 64 \<Longrightarrow> sym_code al n \<notin> {61, 10, 13}"
  using symbols_ok(3,4) by (auto simp: std_or_url_def list_all_iff)

lemma of_char_sym: "std_or_url al \<Longrightarrow> n < 64 \<Longrightarrow> of_char (sym al n) = sym_code al n"
  using sym_code_small [of al n] by (simp add: sym_def of_char_of take_bit_eq_mod)

lemma sym_val_sym: "std_or_url al \<Longrightarrow> n < 64 \<Longrightarrow> sym_val al (sym al n) = Some n"
  by (simp add: sym_val_def of_char_sym code_val_sym_code)

lemma sym_not_special:
  assumes "std_or_url al" "n < 64"
  shows "sym al n \<noteq> pad" "sym al n \<noteq> CHR 0x0A" "sym al n \<noteq> CHR 0x0D"
proof -
  have "of_char (sym al n) = sym_code al n" using assms by (rule of_char_sym)
  moreover have "sym_code al n \<notin> {61, 10, 13}"
    using assms by (rule sym_code_special)
  ultimately show "sym al n \<noteq> pad" "sym al n \<noteq> CHR 0x0A" "sym al n \<noteq> CHR 0x0D"
    by (auto simp: pad_def)
qed

subsection \<open>Encoding and decoding\<close>

definition nat_byte :: "nat \<Rightarrow> char" where "nat_byte n = char_of n"
definition byte_nat :: "char \<Rightarrow> nat" where "byte_nat c = of_char c"

lemma byte_nat_less [simp]: "byte_nat c < 256"
  by (simp add: byte_nat_def)

lemma nat_byte_nat [simp]: "nat_byte (byte_nat c) = c"
  by (simp add: byte_nat_def nat_byte_def)

fun b64_encode :: "alphabet \<Rightarrow> bytes \<Rightarrow> string" where
  "b64_encode al [] = []"
| "b64_encode al [a] =
     [sym al (byte_nat a div 4), sym al (byte_nat a mod 4 * 16), pad, pad]"
| "b64_encode al [a, b] =
     [sym al (byte_nat a div 4), sym al (byte_nat a mod 4 * 16 + byte_nat b div 16),
      sym al (byte_nat b mod 16 * 4), pad]"
| "b64_encode al (a # b # c # bs) =
     [sym al (byte_nat a div 4), sym al (byte_nat a mod 4 * 16 + byte_nat b div 16),
      sym al (byte_nat b mod 16 * 4 + byte_nat c div 64), sym al (byte_nat c mod 64)]
     @ b64_encode al bs"

definition quad_bytes :: "nat \<Rightarrow> nat \<Rightarrow> nat \<Rightarrow> nat \<Rightarrow> bytes" where
  "quad_bytes w x y z =
     [nat_byte (w * 4 + x div 16), nat_byte (x mod 16 * 16 + y div 4), nat_byte (y mod 4 * 64 + z)]"

fun decode_quads :: "alphabet \<Rightarrow> string \<Rightarrow> bytes option" where
  "decode_quads al [] = Some []"
| "decode_quads al (a # b # c # d # cs) =
     (case (sym_val al a, sym_val al b) of
        (Some w, Some x) \<Rightarrow>
          (if c = pad then (if d = pad \<and> cs = [] then Some (take 1 (quad_bytes w x 0 0)) else None)
           else case sym_val al c of None \<Rightarrow> None | Some y \<Rightarrow>
             (if d = pad then (if cs = [] then Some (take 2 (quad_bytes w x y 0)) else None)
              else case sym_val al d of None \<Rightarrow> None | Some z \<Rightarrow>
                map_option (\<lambda>bs. quad_bytes w x y z @ bs) (decode_quads al cs)))
      | _ \<Rightarrow> None)"
| "decode_quads al cs = None"

definition b64_decode :: "alphabet \<Rightarrow> string \<Rightarrow> bytes option" where
  "b64_decode al s = decode_quads al (filter (\<lambda>c. c \<noteq> CHR 0x0A \<and> c \<noteq> CHR 0x0D) s)"

lemma quad_arith:
  fixes a b c :: nat
  assumes "a < 256" "b < 256" "c < 256"
  shows "a div 4 < 64" "a mod 4 * 16 + b div 16 < 64" "b mod 16 * 4 + c div 64 < 64"
    "c mod 64 < 64" "a mod 4 * 16 < 64" "b mod 16 * 4 < 64"
  using assms by auto

lemma quad_arith_inv:
  fixes a b c :: nat
  assumes "a < 256" "b < 256" "c < 256"
  shows "a div 4 * 4 + (a mod 4 * 16 + b div 16) div 16 = a"
    "(a mod 4 * 16 + b div 16) mod 16 * 16 + (b mod 16 * 4 + c div 64) div 4 = b"
    "(b mod 16 * 4 + c div 64) mod 4 * 64 + c mod 64 = c"
  using assms by auto

lemma encode_symbols:
  "std_or_url al \<Longrightarrow> c \<in> set (b64_encode al bs) \<Longrightarrow> c \<noteq> CHR 0x0A \<and> c \<noteq> CHR 0x0D"
proof (induction al bs rule: b64_encode.induct)
  case (2 al a)
  then show ?case using quad_arith [of "byte_nat a" 0 0] sym_not_special [of al]
    by (auto simp: pad_def)
next
  case (3 al a b)
  then show ?case using quad_arith [of "byte_nat a" "byte_nat b" 0] sym_not_special [of al]
    by (auto simp: pad_def)
next
  case (4 al a b c bs)
  then show ?case using quad_arith [of "byte_nat a" "byte_nat b" "byte_nat c"] sym_not_special [of al]
    by auto
qed auto

lemma quad_bytes_encoded:
  "quad_bytes (byte_nat a div 4) (byte_nat a mod 4 * 16 + byte_nat b div 16)
     (byte_nat b mod 16 * 4 + byte_nat c div 64) (byte_nat c mod 64) = [a, b, c]"
  by (simp only: quad_bytes_def quad_arith_inv [OF byte_nat_less byte_nat_less byte_nat_less]
      nat_byte_nat)

lemma decode_quads_encode: "std_or_url al \<Longrightarrow> decode_quads al (b64_encode al bs) = Some bs"
proof (induction al bs rule: b64_encode.induct)
  case (2 al a)
  have "w * 4 + w' * 16 div 16 = w * 4 + w'" for w w' :: nat by simp
  then show ?case using 2 quad_arith [of "byte_nat a" 0 0]
    by (simp add: sym_val_sym quad_bytes_def)
next
  case (3 al a b)
  note ar = quad_arith [OF byte_nat_less [of a] byte_nat_less [of b], of 0]
  have "nat_byte ((byte_nat a mod 4 * 16 + byte_nat b div 16) mod 16 * 16 + byte_nat b mod 16 * 4 div 4) = b"
    using quad_arith_inv(2) [OF byte_nat_less [of a] byte_nat_less [of b], of 0] by simp
  moreover have "nat_byte (byte_nat a div 4 * 4 + (byte_nat a mod 4 * 16 + byte_nat b div 16) div 16) = a"
    using quad_arith_inv(1) [OF byte_nat_less [of a] byte_nat_less [of b], of 0] by simp
  ultimately show ?case using 3 ar sym_not_special(1) [of al]
    by (simp add: sym_val_sym quad_bytes_def del: mod_mult_self1 mod_mult_self2 div_mult_self1 div_mult_self2)
next
  case (4 al a b c bs)
  note ar = quad_arith [OF byte_nat_less [of a] byte_nat_less [of b] byte_nat_less [of c]]
  have "decode_quads al (b64_encode al bs) = Some bs" using 4 by simp
  then show ?case using 4 ar sym_not_special(1) [of al]
    by (simp add: sym_val_sym quad_bytes_encoded)
qed simp

theorem b64_decode_encode: "std_or_url al \<Longrightarrow> b64_decode al (b64_encode al bs) = Some bs"
proof -
  assume al: "std_or_url al"
  then have "filter (\<lambda>c. c \<noteq> CHR 0x0A \<and> c \<noteq> CHR 0x0D) (b64_encode al bs) = b64_encode al bs"
    by (intro filter_True ballI) (rule encode_symbols)
  with al show ?thesis by (simp add: b64_decode_def decode_quads_encode)
qed

end
