(* ===== verification/Refs.thy ===== *)
theory Refs
  imports Encoding
begin

text \<open>
  The feed references of \<open>go-ssb-refs\<close> and the cryptographic functions the room calls. Both
  come from packages outside the repository: a reference is known by its canonical text, and
  the functions are the fields of a record \<open>lib\<close> that the operations take as an argument.
  What the room relies on is stated as predicates on that record; \<open>sample_lib\<close> is a concrete
  record that satisfies all of them.
\<close>

subsection \<open>Feed references\<close>

datatype feed_ref = FeedRef (ref_string: string)

lemma ref_string_inject [simp]: "ref_string a = ref_string b \<longleftrightarrow> a = b"
  by (cases a; cases b) simp

lemma inj_ref_string: "inj ref_string"
  by (rule injI) simp

text \<open>References are ordered by their text, the order \<open>sort.Strings\<close> gives their lists.\<close>

instantiation feed_ref :: linorder
begin

definition less_eq_feed_ref :: "feed_ref \<Rightarrow> feed_ref \<Rightarrow> bool" where
  "less_eq_feed_ref a b \<longleftrightarrow> ref_string a \<le> ref_string b"

definition less_feed_ref :: "feed_ref \<Rightarrow> feed_ref \<Rightarrow> bool" where
  "less_feed_ref a b \<longleftrightarrow> ref_string a < ref_string b"

instance
  by standard (auto simp: less_eq_feed_ref_def less_feed_ref_def less_le_not_le)

end

subsection \<open>Third-party functions\<close>

record lib =
  parse_ref :: "string \<Rightarrow> feed_ref option"
  pub_key :: "feed_ref \<Rightarrow> bytes"
  ed_sign :: "bytes \<Rightarrow> bytes \<Rightarrow> bytes"
  ed_public :: "bytes \<Rightarrow> bytes"
  ed_verify :: "bytes \<Rightarrow> bytes \<Rightarrow> bytes \<Rightarrow> bool"
  sha256 :: "bytes \<Rightarrow> bytes"
  bcrypt_hash :: "bytes \<Rightarrow> bytes \<Rightarrow> bytes option"
  bcrypt_ok :: "bytes \<Rightarrow> bytes \<Rightarrow> bool"

text \<open>Parsing the text of a parsed reference gives the reference back.\<close>

definition parse_canonical :: "lib \<Rightarrow> bool" where
  "parse_canonical L \<longleftrightarrow> (\<forall>s r. parse_ref L s = Some r \<longrightarrow> parse_ref L (ref_string r) = Some r)"

text \<open>A signature made with a private key verifies under its public key.\<close>

definition sign_verifies :: "lib \<Rightarrow> bool" where
  "sign_verifies L \<longleftrightarrow> (\<forall>k m. ed_verify L (ed_public L k) m (ed_sign L k m))"

text \<open>A password is accepted against its own hash, whatever the salt.\<close>

definition bcrypt_accepts :: "lib \<Rightarrow> bool" where
  "bcrypt_accepts L \<longleftrightarrow> (\<forall>salt p h. bcrypt_hash L salt p = Some h \<longrightarrow> bcrypt_ok L h p)"

text \<open>No two of the tokens considered collide under SHA-256.\<close>

definition no_collision :: "lib \<Rightarrow> bytes set \<Rightarrow> bool" where
  "no_collision L S \<longleftrightarrow> inj_on (sha256 L) S"

definition sample_lib :: lib where
  "sample_lib =
     \<lparr>parse_ref = (\<lambda>s. if has_prefix s ''@'' then Some (FeedRef s) else None),
      pub_key = (\<lambda>r. drop 1 (ref_string r)),
      ed_sign = (\<lambda>k m. k @ ''/'' @ m),
      ed_public = (\<lambda>k. k),
      ed_verify = (\<lambda>p m s. s = p @ ''/'' @ m),
      sha256 = (\<lambda>b. b),
      bcrypt_hash = (\<lambda>salt p. if length p \<le> 72 then Some (''$'' @ p) else None),
      bcrypt_ok = (\<lambda>h p. h = ''$'' @ p)\<rparr>"

lemma sample_parse [simp]: "parse_ref sample_lib s = (if has_prefix s ''@'' then Some (FeedRef s) else None)"
  by (simp add: sample_lib_def)

lemma sample_sha [simp]: "sha256 sample_lib b = b"
  by (simp add: sample_lib_def)

lemma sample_bcrypt [simp]:
  "bcrypt_hash sample_lib salt p = (if length p \<le> 72 then Some (''$'' @ p) else None)"
  "bcrypt_ok sample_lib h p \<longleftrightarrow> h = ''$'' @ p"
  by (simp_all add: sample_lib_def)

lemma sample_ed [simp]:
  "ed_sign sample_lib k m = k @ ''/'' @ m" "ed_public sample_lib k = k"
  "ed_verify sample_lib p m s \<longleftrightarrow> s = p @ ''/'' @ m"
  "pub_key sample_lib r = drop 1 (ref_string r)"
  by (simp_all add: sample_lib_def)

lemma sample_laws [simp]:
  "parse_canonical sample_lib" "sign_verifies sample_lib" "bcrypt_accepts sample_lib"
  "no_collision sample_lib S"
  by (auto simp: parse_canonical_def sign_verifies_def bcrypt_accepts_def no_collision_def
      inj_on_def split: if_splits)

end
