(* ===== verification/Errors.thy ===== *)
theory Errors
  imports Refs
begin

text \<open>
  The errors of the program as one datatype, and the two ways Go inspects them:
  \<open>errors.Is\<close> and \<open>errors.As\<close>, which follow \<open>Unwrap\<close> from an error to the one it wraps.
  An error built with \<open>%w\<close> is \<open>Wrapped\<close>; one built with \<open>%s\<close> or \<open>%v\<close> from other errors
  is \<open>Fmt\<close> and hides them from that search. A run-time panic is the value \<open>Panic\<close>.
\<close>

datatype err =
    ErrNotFound
  | ErrNoRows
  | AlreadyAdded feed_ref
  | AliasTaken string
  | Msg string
  | Fmt string "err list"
  | Wrapped string err
  | SqliteErr int string
  | Driver string
  | BadLogin
  | EOF
  | NotAuthorized
  | Denied
  | GenericLocalized string
  | WebNotFound string
  | BadRequest string err
  | Forbidden err
  | Redirect string "err option"
  | PageNotFound string
  | DatabaseError err
  | ManyErrors "err list"
  | Panic string

text \<open>\<open>errors.Unwrap\<close>: the types with an \<open>Unwrap\<close> method and the \<open>%w\<close> wrappers.\<close>

fun unwrap :: "err \<Rightarrow> err option" where
  "unwrap (Wrapped _ e) = Some e"
| "unwrap (BadRequest _ e) = Some e"
| "unwrap (Redirect _ r) = r"
| "unwrap _ = None"

lemma unwrap_size: "unwrap e = Some e' \<Longrightarrow> size e' < size e"
  by (cases e) auto

function chain :: "err \<Rightarrow> err list" where
  "chain e = e # (case unwrap e of None \<Rightarrow> [] | Some e' \<Rightarrow> chain e')"
  by auto
termination by (relation "measure size") (auto dest: unwrap_size)

declare chain.simps [simp del]

lemma chain_simps [simp]:
  "chain (Wrapped s e) = Wrapped s e # chain e"
  "chain (BadRequest s e) = BadRequest s e # chain e"
  "chain (Redirect p (Some e)) = Redirect p (Some e) # chain e"
  "unwrap e = None \<Longrightarrow> chain e = [e]"
  by (subst chain.simps; simp)+

definition errors_is :: "err \<Rightarrow> err \<Rightarrow> bool" where
  "errors_is e target \<longleftrightarrow> target \<in> set (chain e)"

definition errors_as :: "(err \<Rightarrow> 'a option) \<Rightarrow> err \<Rightarrow> 'a option" where
  "errors_as sel e = (case List.find (\<lambda>x. sel x \<noteq> None) (chain e) of None \<Rightarrow> None | Some x \<Rightarrow> sel x)"

lemma errors_is_simps [simp]:
  "errors_is e e"
  "errors_is (Wrapped s e) t \<longleftrightarrow> t = Wrapped s e \<or> errors_is e t"
  "errors_is (BadRequest s e) t \<longleftrightarrow> t = BadRequest s e \<or> errors_is e t"
  "errors_is (Redirect p (Some e)) t \<longleftrightarrow> t = Redirect p (Some e) \<or> errors_is e t"
  "unwrap e = None \<Longrightarrow> errors_is e t \<longleftrightarrow> t = e"
      apply (simp_all add: errors_is_def)
  apply (subst chain.simps; simp)
  done

lemma errors_as_simps [simp]:
  "errors_as sel (Wrapped s e) =
     (case sel (Wrapped s e) of None \<Rightarrow> errors_as sel e | Some x \<Rightarrow> Some x)"
  "errors_as sel (BadRequest s e) =
     (case sel (BadRequest s e) of None \<Rightarrow> errors_as sel e | Some x \<Rightarrow> Some x)"
  "errors_as sel (Redirect p (Some e)) =
     (case sel (Redirect p (Some e)) of None \<Rightarrow> errors_as sel e | Some x \<Rightarrow> Some x)"
  "unwrap e = None \<Longrightarrow> errors_as sel e = sel e"
  by (auto simp: errors_as_def split: option.splits)

text \<open>What the handlers look for with \<open>errors.As\<close>.\<close>

fun sqlite_code :: "err \<Rightarrow> int option" where
  "sqlite_code (SqliteErr c _) = Some c" | "sqlite_code _ = None"

fun already_added :: "err \<Rightarrow> feed_ref option" where
  "already_added (AlreadyAdded r) = Some r" | "already_added _ = None"

fun alias_taken :: "err \<Rightarrow> string option" where
  "alias_taken (AliasTaken n) = Some n" | "alias_taken _ = None"

fun redirect_to :: "err \<Rightarrow> (string \<times> err option) option" where
  "redirect_to (Redirect p r) = Some (p, r)" | "redirect_to _ = None"

fun generic_localized :: "err \<Rightarrow> string option" where
  "generic_localized (GenericLocalized l) = Some l" | "generic_localized _ = None"

fun page_not_found :: "err \<Rightarrow> string option" where
  "page_not_found (PageNotFound p) = Some p" | "page_not_found _ = None"

fun bad_request :: "err \<Rightarrow> (string \<times> err) option" where
  "bad_request (BadRequest w e) = Some (w, e)" | "bad_request _ = None"

fun forbidden :: "err \<Rightarrow> err option" where
  "forbidden (Forbidden e) = Some e" | "forbidden _ = None"

text \<open>The codes of SQLite's constraint errors the program tells apart.\<close>

definition SQLITE_CONSTRAINT_UNIQUE :: int where "SQLITE_CONSTRAINT_UNIQUE = 2067"
definition SQLITE_CONSTRAINT_PRIMARYKEY :: int where "SQLITE_CONSTRAINT_PRIMARYKEY = 1555"
definition SQLITE_CONSTRAINT_FOREIGNKEY :: int where "SQLITE_CONSTRAINT_FOREIGNKEY = 787"
definition SQLITE_CONSTRAINT_CHECK :: int where "SQLITE_CONSTRAINT_CHECK = 275"

lemmas sqlite_codes = SQLITE_CONSTRAINT_UNIQUE_def SQLITE_CONSTRAINT_PRIMARYKEY_def
  SQLITE_CONSTRAINT_FOREIGNKEY_def SQLITE_CONSTRAINT_CHECK_def

subsection \<open>Results\<close>

type_synonym 'a res = "err + 'a"

fun is_ok :: "'a res \<Rightarrow> bool" where
  "is_ok (Inr _) = True" | "is_ok (Inl _) = False"

fun map_res :: "('a \<Rightarrow> 'b) \<Rightarrow> 'a res \<Rightarrow> 'b res" where
  "map_res f (Inr x) = Inr (f x)" | "map_res f (Inl e) = Inl e"

lemma map_res_Inr [simp]: "map_res f r = Inr y \<longleftrightarrow> (\<exists>x. r = Inr x \<and> y = f x)"
  by (cases r) auto

lemma map_res_Inl [simp]: "map_res f r = Inl e \<longleftrightarrow> r = Inl e"
  by (cases r) auto

text \<open>\<open>if errors.Is(err, sql.ErrNoRows) \<open>then\<close> ErrNotFound \<open>else\<close> err\<close>, the translation most lookups end with.\<close>

definition norows_to_notfound :: "err \<Rightarrow> err" where
  "norows_to_notfound e = (if errors_is e ErrNoRows then ErrNotFound else e)"

lemma norows_simps [simp]: "norows_to_notfound ErrNoRows = ErrNotFound"
  "norows_to_notfound (SqliteErr c d) = SqliteErr c d" "norows_to_notfound (Driver d) = Driver d"
  by (simp_all add: norows_to_notfound_def)

end
