(* ===== verification/Types.thy ===== *)
theory Types
  imports Errors
begin

text \<open>
  \<open>roomdb/types.go\<close> with the generated \<open>role_string.go\<close> and \<open>privacymode_string.go\<close>:
  roles and privacy modes as 64-bit unsigned integers with their validity, text and SQL
  conversions, the names of the pinned notices and the sorted view of them.
\<close>

subsection \<open>Roles\<close>

type_synonym role = "64 word"

definition RoleUnknown :: role where "RoleUnknown = 0"
definition RoleMember :: role where "RoleMember = 1"
definition RoleModerator :: role where "RoleModerator = 2"
definition RoleAdmin :: role where "RoleAdmin = 3"

lemmas role_defs = RoleUnknown_def RoleMember_def RoleModerator_def RoleAdmin_def

definition role_valid :: "role \<Rightarrow> unit res" where
  "role_valid r =
     (if r = RoleUnknown then Inl (Msg ''unknown member role'')
      else if RoleAdmin < r then Inl (Msg ''invalid member role'')
      else Inr ())"

definition valid_roles :: "role list" where
  "valid_roles = [RoleMember, RoleModerator, RoleAdmin]"

lemma word_le3_cases: "(w :: 64 word) \<le> 3 \<Longrightarrow> w = 0 \<or> w = 1 \<or> w = 2 \<or> w = 3"
proof -
  assume "w \<le> 3"
  then have "unat w \<le> 3" by (simp add: word_le_nat_alt)
  then have "unat w = 0 \<or> unat w = 1 \<or> unat w = 2 \<or> unat w = 3" by arith
  then show ?thesis by (auto simp: word_unat_eq_iff)
qed

lemma role_valid_iff: "role_valid r = Inr () \<longleftrightarrow> r \<in> set valid_roles"
proof -
  have "r \<noteq> 0 \<and> \<not> 3 < r \<longleftrightarrow> r = 1 \<or> r = 2 \<or> r = 3"
    using word_le3_cases [of r] by (auto simp: not_less)
  then show ?thesis by (auto simp: role_valid_def valid_roles_def role_defs)
qed

text \<open>\<open>Role.String\<close> as \<open>stringer\<close> writes it: a slice of one text between two indexes.\<close>

definition Role_name :: string where
  "Role_name = ''RoleUnknownRoleMemberRoleModeratorRoleAdmin''"

definition Role_index :: "nat list" where
  "Role_index = [0, 11, 21, 34, 43]"

definition slice :: "nat \<Rightarrow> nat \<Rightarrow> 'a list \<Rightarrow> 'a list" where
  "slice i j xs = take (j - i) (drop i xs)"

definition role_string :: "role \<Rightarrow> string" where
  "role_string i =
     (if of_nat (length Role_index - 1) \<le> i then ''Role('' @ show_int (sint i) @ '')''
      else slice (Role_index ! unat i) (Role_index ! (unat i + 1)) Role_name)"

lemma role_strings [simp]:
  "role_string RoleUnknown = ''RoleUnknown''" "role_string RoleMember = ''RoleMember''"
  "role_string RoleModerator = ''RoleModerator''" "role_string RoleAdmin = ''RoleAdmin''"
  by (simp_all add: role_string_def role_defs slice_def Role_index_def Role_name_def word_le_nat_alt)

definition role_unmarshal :: "string \<Rightarrow> role res" where
  "role_unmarshal s =
     (if s = role_string RoleAdmin then Inr RoleAdmin
      else if s = role_string RoleModerator then Inr RoleModerator
      else if s = role_string RoleMember then Inr RoleMember
      else Inl (Msg (''unknown member role: '' @ s)))"

subsection \<open>Privacy modes\<close>

type_synonym privacy_mode = "64 word"

definition ModeUnknown :: privacy_mode where "ModeUnknown = 0"
definition ModeOpen :: privacy_mode where "ModeOpen = 1"
definition ModeCommunity :: privacy_mode where "ModeCommunity = 2"
definition ModeRestricted :: privacy_mode where "ModeRestricted = 3"

lemmas mode_defs = ModeUnknown_def ModeOpen_def ModeCommunity_def ModeRestricted_def

definition AllPrivacyModes :: "privacy_mode list" where
  "AllPrivacyModes = [ModeOpen, ModeCommunity, ModeRestricted]"

definition mode_valid :: "privacy_mode \<Rightarrow> unit res" where
  "mode_valid pm =
     (if pm = ModeUnknown \<or> ModeRestricted < pm then Inl (Msg ''No such privacy mode'') else Inr ())"

lemma mode_valid_iff: "mode_valid pm = Inr () \<longleftrightarrow> pm \<in> set AllPrivacyModes"
proof -
  have "pm \<noteq> 0 \<and> \<not> 3 < pm \<longleftrightarrow> pm = 1 \<or> pm = 2 \<or> pm = 3"
    using word_le3_cases [of pm] by (auto simp: not_less)
  then show ?thesis by (auto simp: mode_valid_def AllPrivacyModes_def mode_defs)
qed

definition parse_privacy_mode :: "string \<Rightarrow> privacy_mode" where
  "parse_privacy_mode val =
     (if val = ''ModeOpen'' \<or> val = ''open'' then ModeOpen
      else if val = ''ModeCommunity'' \<or> val = ''community'' then ModeCommunity
      else if val = ''ModeRestricted'' \<or> val = ''restricted'' then ModeRestricted
      else ModeUnknown)"

definition PrivacyMode_name :: string where
  "PrivacyMode_name = ''ModeUnknownModeOpenModeCommunityModeRestricted''"

definition PrivacyMode_index :: "nat list" where
  "PrivacyMode_index = [0, 11, 19, 32, 46]"

definition mode_string :: "privacy_mode \<Rightarrow> string" where
  "mode_string i =
     (if of_nat (length PrivacyMode_index - 1) \<le> i then ''PrivacyMode('' @ show_int (sint i) @ '')''
      else slice (PrivacyMode_index ! unat i) (PrivacyMode_index ! (unat i + 1)) PrivacyMode_name)"

lemma mode_strings [simp]:
  "mode_string ModeUnknown = ''ModeUnknown''" "mode_string ModeOpen = ''ModeOpen''"
  "mode_string ModeCommunity = ''ModeCommunity''" "mode_string ModeRestricted = ''ModeRestricted''"
  by (simp_all add: mode_string_def mode_defs slice_def PrivacyMode_index_def PrivacyMode_name_def
      word_le_nat_alt)

text \<open>
  The SQL conversions. A column value that is not an integer is the case \<open>DbText\<close>;
  \<open>PrivacyMode(dbValue)\<close> wraps modulo \<open>2 ^ 64\<close>.
\<close>

datatype db_value = DbInt int64 | DbText string

definition mode_scan :: "db_value \<Rightarrow> privacy_mode res" where
  "mode_scan src =
     (case src of
        DbInt v \<Rightarrow>
          (case mode_valid (word_of_int v) of Inl e \<Rightarrow> Inl e | Inr _ \<Rightarrow> Inr (word_of_int v))
      | _ \<Rightarrow> Inl (Msg ''unexpected type''))"

definition mode_value :: "privacy_mode \<Rightarrow> db_value" where
  "mode_value pm = DbInt (sint pm)"

definition feed_scan :: "lib \<Rightarrow> db_value \<Rightarrow> feed_ref res" where
  "feed_scan L src =
     (case src of
        DbText s \<Rightarrow> (case parse_ref L s of None \<Rightarrow> Inl (Msg ''refs: invalid reference'') | Some r \<Rightarrow> Inr r)
      | _ \<Rightarrow> Inl (Msg ''unexpected type''))"

definition feed_value :: "feed_ref \<Rightarrow> db_value" where
  "feed_value r = DbText (ref_string r)"

subsection \<open>Pinned notices\<close>

definition pinned_valid :: "string \<Rightarrow> bool" where
  "pinned_valid n \<longleftrightarrow> n = ''NoticeNews'' \<or> n = ''NoticeDescription''
     \<or> n = ''NoticePrivacyPolicy'' \<or> n = ''NoticeCodeOfConduct''"

record notice =
  n_id :: int64
  n_title :: string
  n_content :: string
  n_language :: string

type_synonym pinned_notices = "string \<Rightarrow> notice list option"

text \<open>
  \<open>Sorted\<close> lists the entries of the map and sorts them by name. The map is given by the list
  of its entries in the order the runtime happens to iterate them.
\<close>

definition sorted_notices :: "(string \<times> notice list) list \<Rightarrow> (string \<times> notice list) list" where
  "sorted_notices entries = sort_key fst entries"

end
