(* ===== verification/Tables.thy ===== *)
theory Tables
  imports Types
begin

text \<open>
  Database tables with an \<open>INTEGER PRIMARY KEY AUTOINCREMENT\<close> column: the rows in the order
  of their ids, and the largest id given out so far, which is never used again. The facts are
  about any row type; \<open>Database\<close> has the tables of the room.
\<close>

type_synonym 'r keyed = "int64 \<times> 'r"

record 'r table =
  rows :: "(int64 \<times> 'r) list"
  seq :: int64

definition empty_table :: "'r table" where
  "empty_table = \<lparr>rows = [], seq = 0\<rparr>"

definition ids :: "'r table \<Rightarrow> int64 set" where
  "ids t = fst ` set (rows t)"

definition has_id :: "int64 \<Rightarrow> 'r table \<Rightarrow> bool" where
  "has_id i t \<longleftrightarrow> list_ex (\<lambda>r. fst r = i) (rows t)"

definition row :: "int64 \<Rightarrow> 'r table \<Rightarrow> 'r option" where
  "row i t = map_of (rows t) i"

definition find_row :: "('r \<Rightarrow> bool) \<Rightarrow> 'r table \<Rightarrow> (int64 \<times> 'r) option" where
  "find_row P t = List.find (\<lambda>r. P (snd r)) (rows t)"

definition select_rows :: "('r \<Rightarrow> bool) \<Rightarrow> 'r table \<Rightarrow> (int64 \<times> 'r) list" where
  "select_rows P t = filter (\<lambda>r. P (snd r)) (rows t)"

definition exists_row :: "('r \<Rightarrow> bool) \<Rightarrow> 'r table \<Rightarrow> bool" where
  "exists_row P t \<longleftrightarrow> list_ex (\<lambda>r. P (snd r)) (rows t)"

definition add_row :: "'r \<Rightarrow> 'r table \<Rightarrow> 'r table" where
  "add_row r t = t\<lparr>rows := rows t @ [(seq t + 1, r)], seq := seq t + 1\<rparr>"

definition delete_rows :: "('r \<Rightarrow> bool) \<Rightarrow> 'r table \<Rightarrow> 'r table" where
  "delete_rows P t = t\<lparr>rows := filter (\<lambda>r. \<not> P (snd r)) (rows t)\<rparr>"

definition delete_id :: "int64 \<Rightarrow> 'r table \<Rightarrow> 'r table" where
  "delete_id i t = t\<lparr>rows := filter (\<lambda>r. fst r \<noteq> i) (rows t)\<rparr>"

definition update_id :: "int64 \<Rightarrow> ('r \<Rightarrow> 'r) \<Rightarrow> 'r table \<Rightarrow> 'r table" where
  "update_id i f t = t\<lparr>rows := map (\<lambda>(j, r). if j = i then (j, f r) else (j, r)) (rows t)\<rparr>"

subsection \<open>Well-formed tables\<close>

definition table_ok :: "'r table \<Rightarrow> bool" where
  "table_ok t \<longleftrightarrow> distinct (map fst (rows t)) \<and> (\<forall>i \<in> ids t. 0 < i \<and> i \<le> seq t) \<and> 0 \<le> seq t"

definition uniq :: "('r \<Rightarrow> 'k) \<Rightarrow> 'r table \<Rightarrow> bool" where
  "uniq k t \<longleftrightarrow> distinct (map (\<lambda>r. k (snd r)) (rows t))"

definition all_rows :: "('r \<Rightarrow> bool) \<Rightarrow> 'r table \<Rightarrow> bool" where
  "all_rows P t \<longleftrightarrow> (\<forall>r \<in> set (rows t). P (snd r))"

lemma ids_simps [simp]:
  "ids empty_table = {}"
  "ids (add_row r t) = insert (seq t + 1) (ids t)"
  "ids (delete_id i t) = ids t - {i}"
  "ids (update_id i f t) = ids t"
  by (auto simp: ids_def empty_table_def add_row_def delete_id_def update_id_def image_iff
      split: prod.splits if_splits) force+

lemma ids_delete_rows: "ids (delete_rows P t) \<subseteq> ids t"
  by (auto simp: ids_def delete_rows_def)

lemma has_id_iff [simp]: "has_id i t \<longleftrightarrow> i \<in> ids t"
  by (auto simp: has_id_def ids_def list_ex_iff)

lemma row_None [simp]: "row i t = None \<longleftrightarrow> i \<notin> ids t"
  by (simp add: row_def ids_def map_of_eq_None_iff)

lemma row_absent [simp]: "i \<notin> ids t \<Longrightarrow> row i t = None"
  by simp

lemma row_Some_in: "row i t = Some r \<Longrightarrow> (i, r) \<in> set (rows t)"
  by (simp add: row_def map_of_SomeD)

lemma row_Some_ids: "row i t = Some r \<Longrightarrow> i \<in> ids t"
  by (metis option.distinct(1) row_None)

lemma row_in: "table_ok t \<Longrightarrow> (i, r) \<in> set (rows t) \<Longrightarrow> row i t = Some r"
  by (simp add: row_def table_ok_def)

lemma row_unique: "table_ok t \<Longrightarrow> (i, r) \<in> set (rows t) \<Longrightarrow> (i, s) \<in> set (rows t) \<Longrightarrow> r = s"
  using row_in [of t i r] row_in [of t i s] by simp

lemma new_id_fresh [simp]: "table_ok t \<Longrightarrow> seq t + 1 \<notin> ids t"
  by (auto simp: table_ok_def)

lemma exists_row_iff: "exists_row P t \<longleftrightarrow> find_row P t \<noteq> None"
  by (auto simp: exists_row_def find_row_def list_ex_iff find_None_conv)

lemma find_row_None: "find_row P t = None \<longleftrightarrow> \<not> exists_row P t"
  unfolding exists_row_iff by blast

lemma exists_row_conv: "exists_row P t \<longleftrightarrow> (\<exists>i r. (i, r) \<in> set (rows t) \<and> P r)"
  by (simp add: exists_row_def list_ex_iff) (metis prod.collapse snd_conv)

lemma find_rowD: "find_row P t = Some (i, r) \<Longrightarrow> (i, r) \<in> set (rows t) \<and> P r"
  by (auto simp: find_row_def dest: find_SomeD)

lemma find_row_row: "table_ok t \<Longrightarrow> find_row P t = Some (i, r) \<Longrightarrow> row i t = Some r"
  by (auto dest: find_rowD intro: row_in)

lemma find_row_key:
  "uniq k t \<Longrightarrow> (i, r) \<in> set (rows t) \<Longrightarrow> k r = x \<Longrightarrow> find_row (\<lambda>r. k r = x) t = Some (i, r)"
  using find_key_unique [of "\<lambda>r. k (snd r)" "rows t" "(i, r)" x] by (simp add: uniq_def find_row_def)

lemma find_row_update:
  "(\<And>r. P (f r) = P r) \<Longrightarrow>
   find_row P (update_id k f t) = map_option (\<lambda>(i, r). if i = k then (i, f r) else (i, r)) (find_row P t)"
proof -
  assume P: "\<And>r. P (f r) = P r"
  have "List.find (\<lambda>r. P (snd r)) (map (\<lambda>(i, r). if i = k then (i, f r) else (i, r)) xs) =
    map_option (\<lambda>(i, r). if i = k then (i, f r) else (i, r)) (List.find (\<lambda>r. P (snd r)) xs)" for xs
    by (subst find_map_same) (auto simp: P split: prod.splits)
  then show ?thesis by (simp add: find_row_def update_id_def)
qed

lemma find_row_add: "find_row P (add_row r t) =
  (case find_row P t of None \<Rightarrow> if P r then Some (seq t + 1, r) else None | Some x \<Rightarrow> Some x)"
  by (simp add: find_row_def add_row_def find_append split: option.split)

lemma select_rows_in [simp]: "(i, r) \<in> set (select_rows P t) \<longleftrightarrow> (i, r) \<in> set (rows t) \<and> P r"
  by (auto simp: select_rows_def)

lemma rows_simps [simp]:
  "set (rows (add_row r t)) = insert (seq t + 1, r) (set (rows t))"
  "(i, r') \<in> set (rows (delete_rows P t)) \<longleftrightarrow> (i, r') \<in> set (rows t) \<and> \<not> P r'"
  "(i, r') \<in> set (rows (delete_id j t)) \<longleftrightarrow> (i, r') \<in> set (rows t) \<and> i \<noteq> j"
  by (auto simp: add_row_def delete_rows_def delete_id_def)

lemma in_update_id [simp]:
  "(i, r') \<in> set (rows (update_id j f t)) \<longleftrightarrow>
     (if i = j then \<exists>r. (i, r) \<in> set (rows t) \<and> r' = f r else (i, r') \<in> set (rows t))"
  by (force simp: update_id_def split: if_splits)

lemma row_add [simp]:
  "table_ok t \<Longrightarrow> row i (add_row r t) = (if i = seq t + 1 then Some r else row i t)"
proof -
  assume ok: "table_ok t"
  have "map_of (rows t) (seq t + 1) = None"
    using new_id_fresh [OF ok] by (simp add: ids_def map_of_eq_None_iff)
  then show ?thesis by (simp add: row_def add_row_def map_add_def split: option.splits)
qed

lemma row_delete_id [simp]: "row i (delete_id j t) = (if i = j then None else row i t)"
proof -
  have "map_of (filter (\<lambda>r. fst r \<noteq> j) xs) i = (if i = j then None else map_of xs i)" for xs :: "(int64 \<times> 'a) list"
    by (induction xs) auto
  then show ?thesis by (simp add: row_def delete_id_def)
qed

lemma row_update [simp]:
  "row i (update_id j f t) = (if i = j then map_option f (row i t) else row i t)"
proof -
  have "map_of (map (\<lambda>(k, r). if k = j then (k, f r) else (k, r)) xs) i =
        (if i = j then map_option f (map_of xs i) else map_of xs i)" for xs
    by (induction xs) (auto split: prod.splits)
  then show ?thesis by (simp add: row_def update_id_def)
qed

lemma row_delete_rows:
  "table_ok t \<Longrightarrow> row i (delete_rows P t) =
     (case row i t of None \<Rightarrow> None | Some r \<Rightarrow> if P r then None else Some r)"
proof -
  have "distinct (map fst xs) \<Longrightarrow> map_of (filter (\<lambda>r. \<not> P (snd r)) xs) i =
     (case map_of xs i of None \<Rightarrow> None | Some r \<Rightarrow> if P r then None else Some r)"
    for xs :: "(int64 \<times> 'a) list"
    by (induction xs) (auto simp: map_of_eq_None_iff image_iff split: option.splits)
  moreover assume "table_ok t"
  ultimately show ?thesis by (simp add: row_def delete_rows_def table_ok_def)
qed

subsection \<open>The operations keep tables well formed\<close>

lemma table_ok_simps [simp]:
  "table_ok empty_table"
  "table_ok t \<Longrightarrow> table_ok (add_row r t)"
  "table_ok t \<Longrightarrow> table_ok (delete_rows P t)"
  "table_ok t \<Longrightarrow> table_ok (delete_id i t)"
proof -
  show "table_ok (empty_table :: 'a table)" by (simp add: table_ok_def) (simp add: empty_table_def)
  assume ok: "table_ok t"
  have fresh: "seq t + 1 \<notin> fst ` set (rows t)" using new_id_fresh [OF ok] by (simp add: ids_def)
  have pos: "0 < seq t + 1" using ok by (simp add: table_ok_def)
  show "table_ok (add_row r t)"
    using ok fresh pos by (auto simp: table_ok_def) (auto simp: add_row_def)
  show "table_ok (delete_rows P t)"
    using ok ids_delete_rows [of P t]
    by (auto simp: table_ok_def delete_rows_def intro: distinct_map_filter')
  show "table_ok (delete_id i t)"
    using ok by (auto simp: table_ok_def) (auto simp: delete_id_def intro: distinct_map_filter')
qed

lemma table_ok_update [simp]: "table_ok (update_id i f t) \<longleftrightarrow> table_ok t"
proof -
  have "map fst (rows (update_id i f t)) = map fst (rows t)"
    by (simp add: update_id_def case_prod_beta)
  then show ?thesis by (simp add: table_ok_def) (simp add: update_id_def)
qed

lemma uniq_simps [simp]:
  "uniq k empty_table"
  "uniq k t \<Longrightarrow> \<not> exists_row (\<lambda>r. k r = k x) t \<Longrightarrow> uniq k (add_row x t)"
  "uniq k t \<Longrightarrow> uniq k (delete_rows P t)"
  "uniq k t \<Longrightarrow> uniq k (delete_id i t)"
  by (auto simp: uniq_def empty_table_def add_row_def delete_rows_def delete_id_def exists_row_def
      list_ex_iff intro: distinct_map_filter')

lemma uniq_update: "(\<And>r. k (f r) = k r) \<Longrightarrow> uniq k (update_id i f t) \<longleftrightarrow> uniq k t"
proof -
  assume k: "\<And>r. k (f r) = k r"
  then have "map (\<lambda>r. k (snd r)) (rows (update_id i f t)) = map (\<lambda>r. k (snd r)) (rows t)"
    by (auto simp: update_id_def split: prod.splits)
  then show ?thesis by (simp add: uniq_def)
qed

lemma all_rows_simps [simp]:
  "all_rows P empty_table"
  "all_rows P (add_row r t) \<longleftrightarrow> P r \<and> all_rows P t"
  "all_rows P t \<Longrightarrow> all_rows P (delete_rows Q t)"
  "all_rows P t \<Longrightarrow> all_rows P (delete_id i t)"
  "(\<And>r. P r \<Longrightarrow> P (f r)) \<Longrightarrow> all_rows P t \<Longrightarrow> all_rows P (update_id i f t)"
  by (auto simp: all_rows_def empty_table_def add_row_def delete_rows_def delete_id_def
      update_id_def split: if_splits)

lemma all_rows_mono: "all_rows P t \<Longrightarrow> (\<And>r. P r \<Longrightarrow> Q r) \<Longrightarrow> all_rows Q t"
  by (auto simp: all_rows_def)

lemma all_rowsD: "all_rows P t \<Longrightarrow> (i, r) \<in> set (rows t) \<Longrightarrow> P r"
  by (auto simp: all_rows_def)

lemma all_rows_delete_other:
  "all_rows P t \<Longrightarrow> (\<And>r. P r \<Longrightarrow> \<not> D r \<Longrightarrow> Q r) \<Longrightarrow> all_rows Q (delete_rows D t)"
  by (auto simp: all_rows_def delete_rows_def)

lemma uniq_key_eq:
  "uniq k t \<Longrightarrow> (i, r) \<in> set (rows t) \<Longrightarrow> (j, s) \<in> set (rows t) \<Longrightarrow> k r = k s \<Longrightarrow> i = j \<and> r = s"
  using distinct_map_key [of "\<lambda>r. k (snd r)" "rows t" "(i, r)" "(j, s)"] by (auto simp: uniq_def)

text \<open>Switching off the row with a key leaves the other keys as they are.\<close>

lemma deactivate_row:
  assumes ok: "table_ok t" and k: "uniq k t" and ir: "(i, r) \<in> set (rows t)"
    and f: "\<And>r. k (f r) = k r" "\<And>r. \<not> act (f r)"
  shows "exists_row (\<lambda>r. act r \<and> k r = h) (update_id i f t) \<longleftrightarrow>
           exists_row (\<lambda>r. act r \<and> k r = h) t \<and> h \<noteq> k r"
proof -
  have A: "j = i" if "(j, s) \<in> set (rows t)" "k s = k r" for j s
    using uniq_key_eq [OF k that(1) ir that(2)] by simp
  have B: "s = r" if "(i, s) \<in> set (rows t)" for s
    using row_unique [OF ok that ir] .
  have "exists_row (\<lambda>r. act r \<and> k r = h) (update_id i f t) \<longleftrightarrow>
      (\<exists>j s. (j, s) \<in> set (rows t) \<and> j \<noteq> i \<and> act s \<and> k s = h)"
    unfolding exists_row_conv using f by (auto split: if_splits)
  also have "\<dots> \<longleftrightarrow> exists_row (\<lambda>r. act r \<and> k r = h) t \<and> h \<noteq> k r"
    unfolding exists_row_conv by (safe; use A B in blast)
  finally show ?thesis .
qed

lemma delete_key_row:
  assumes ok: "table_ok t" and k: "uniq k t" and ir: "(i, r) \<in> set (rows t)"
  shows "exists_row (\<lambda>r. k r = h) (delete_id i t) \<longleftrightarrow> h \<noteq> k r \<and> exists_row (\<lambda>r. k r = h) t"
proof -
  have A: "j = i" if "(j, s) \<in> set (rows t)" "k s = k r" for j s
    using uniq_key_eq [OF k that(1) ir that(2)] by simp
  have B: "s = r" if "(i, s) \<in> set (rows t)" for s
    using row_unique [OF ok that ir] .
  show ?thesis unfolding exists_row_conv rows_simps by (safe; use A B ir in blast)
qed

end
