(* ===== verification/Transact.thy ===== *)
theory Transact
  imports Tables
begin

text \<open>
  Code that talks to the database: state passing over a connection, with errors as results.
  Every statement may fail in the driver; the list \<open>faults\<close> says which of the coming calls
  do (an empty list: none). \<open>transact\<close> is the function of that name in
  \<open>roomdb/sqlite/new.go\<close>: begin, run, then commit or roll back. A transaction that is not
  committed leaves the stored data as it was when it began.
\<close>

record 'd conn =
  data :: 'd
  faults :: "bool list"

type_synonym ('d, 'a) action = "'d conn \<Rightarrow> 'a res \<times> 'd conn"

definition ret :: "'a \<Rightarrow> ('d, 'a) action" where
  "ret x c = (Inr x, c)"

definition fail :: "err \<Rightarrow> ('d, 'a) action" where
  "fail e c = (Inl e, c)"

definition andthen :: "('d, 'a) action \<Rightarrow> ('a \<Rightarrow> ('d, 'b) action) \<Rightarrow> ('d, 'b) action" where
  "andthen m f c = (case m c of (Inl e, c') \<Rightarrow> (Inl e, c') | (Inr x, c') \<Rightarrow> f x c')"

text \<open>\<open>on_error\<close> translates an error on its way out; \<open>attempt\<close> hands the result to the caller.\<close>

definition on_error :: "(err \<Rightarrow> err) \<Rightarrow> ('d, 'a) action \<Rightarrow> ('d, 'a) action" where
  "on_error h m c = (case m c of (Inl e, c') \<Rightarrow> (Inl (h e), c') | (Inr x, c') \<Rightarrow> (Inr x, c'))"

definition attempt :: "('d, 'a) action \<Rightarrow> ('d, 'a res) action" where
  "attempt m c = (case m c of (r, c') \<Rightarrow> (Inr r, c'))"

definition lift_res :: "'a res \<Rightarrow> ('d, 'a) action" where
  "lift_res r c = (r, c)"

text \<open>One call of the driver. A failing call changes nothing.\<close>

definition driver_error :: err where
  "driver_error = Driver ''sqlite: statement failed''"

definition stmt :: "('d \<Rightarrow> ('a \<times> 'd) res) \<Rightarrow> ('d, 'a) action" where
  "stmt f c =
     (if faults c \<noteq> [] \<and> hd (faults c) then (Inl driver_error, c\<lparr>faults := tl (faults c)\<rparr>)
      else case f (data c) of
             Inl e \<Rightarrow> (Inl e, c\<lparr>faults := tl (faults c)\<rparr>)
           | Inr (x, d) \<Rightarrow> (Inr x, c\<lparr>data := d, faults := tl (faults c)\<rparr>))"

definition query :: "('d \<Rightarrow> 'a res) \<Rightarrow> ('d, 'a) action" where
  "query f = stmt (\<lambda>d. map_res (\<lambda>x. (x, d)) (f d))"

definition driver_call :: "('d, unit) action" where
  "driver_call = query (\<lambda>_. Inr ())"

definition transact :: "('d, 'a) action \<Rightarrow> ('d, 'a) action" where
  "transact fn c =
     (case driver_call c of
        (Inl e, c1) \<Rightarrow> (Inl (Wrapped ''transact: could not begin transaction'' e), c1)
      | (Inr _, c1) \<Rightarrow>
          (case fn c1 of
             (Inl e, c2) \<Rightarrow>
               (case driver_call c2 of
                  (Inl e2, c3) \<Rightarrow> (Inl (Fmt ''rollback failed after %s: %s'' [e, e2]), c3\<lparr>data := data c\<rparr>)
                | (Inr _, c3) \<Rightarrow> (Inl (Wrapped ''transaction failed, rolling back'' e), c3\<lparr>data := data c\<rparr>))
           | (Inr x, c2) \<Rightarrow>
               (case driver_call c2 of
                  (Inl e, c3) \<Rightarrow> (Inl (Wrapped ''transact: could not commit transaction'' e), c3\<lparr>data := data c\<rparr>)
                | (Inr _, c3) \<Rightarrow> (Inr x, c3))))"

subsection \<open>Successful runs\<close>

lemma ret_iff [simp]: "ret x c = (r, c') \<longleftrightarrow> r = Inr x \<and> c' = c"
  by (auto simp: ret_def)

lemma fail_iff [simp]: "fail e c = (r, c') \<longleftrightarrow> r = Inl e \<and> c' = c"
  by (auto simp: fail_def)

lemma lift_res_iff [simp]: "lift_res r c = (r', c') \<longleftrightarrow> r' = r \<and> c' = c"
  by (auto simp: lift_res_def)

lemma andthen_ok [simp]:
  "andthen m f c = (Inr y, c') \<longleftrightarrow> (\<exists>x c1. m c = (Inr x, c1) \<and> f x c1 = (Inr y, c'))"
  by (auto simp: andthen_def split: prod.splits sum.splits)

lemma andthen_err:
  "andthen m f c = (Inl e, c') \<longleftrightarrow>
     m c = (Inl e, c') \<or> (\<exists>x c1. m c = (Inr x, c1) \<and> f x c1 = (Inl e, c'))"
  by (auto simp: andthen_def split: prod.splits sum.splits)

lemma on_error_ok [simp]: "on_error h m c = (Inr x, c') \<longleftrightarrow> m c = (Inr x, c')"
  by (auto simp: on_error_def split: prod.splits sum.splits)

lemma on_error_err [simp]: "on_error h m c = (Inl e, c') \<longleftrightarrow> (\<exists>e'. m c = (Inl e', c') \<and> e = h e')"
  by (auto simp: on_error_def split: prod.splits sum.splits)

lemma attempt_iff [simp]: "attempt m c = (r, c') \<longleftrightarrow> (\<exists>r'. m c = (r', c') \<and> r = Inr r')"
  by (auto simp: attempt_def split: prod.splits)

lemma stmt_ok: "stmt f c = (Inr x, c') \<Longrightarrow> f (data c) = Inr (x, data c')"
  by (auto simp: stmt_def split: sum.splits if_splits)

lemma stmt_err: "stmt f c = (Inl e, c') \<Longrightarrow> data c' = data c \<and> (e = driver_error \<or> f (data c) = Inl e)"
  by (auto simp: stmt_def split: sum.splits if_splits)

lemma query_ok: "query f c = (Inr x, c') \<Longrightarrow> f (data c) = Inr x \<and> data c' = data c"
  by (auto simp: query_def dest!: stmt_ok)

lemma query_err: "query f c = (Inl e, c') \<Longrightarrow> data c' = data c \<and> (e = driver_error \<or> f (data c) = Inl e)"
  by (auto simp: query_def dest!: stmt_err)

lemma query_data: "query f c = (r, c') \<Longrightarrow> data c' = data c"
  by (cases r) (auto dest: query_ok query_err)

lemma driver_call_data: "driver_call c = (r, c') \<Longrightarrow> data c' = data c"
  unfolding driver_call_def by (rule query_data)

lemma transact_ok:
  "transact fn c = (Inr x, c') \<Longrightarrow>
     \<exists>c1 c2. data c1 = data c \<and> fn c1 = (Inr x, c2) \<and> data c' = data c2"
  by (auto simp: transact_def split: prod.splits sum.splits)
     (metis driver_call_data)

lemma transact_rollback: "transact fn c = (Inl e, c') \<Longrightarrow> data c' = data c"
  by (auto simp: transact_def dest: driver_call_data split: prod.splits sum.splits)

subsection \<open>Runs without driver faults\<close>

lemma stmt_clean [simp]:
  "faults c = [] \<Longrightarrow> stmt f c = (case f (data c) of Inl e \<Rightarrow> (Inl e, c) | Inr (x, d) \<Rightarrow> (Inr x, c\<lparr>data := d\<rparr>))"
  by (cases c) (auto simp: stmt_def split: sum.splits)

lemma query_clean [simp]: "faults c = [] \<Longrightarrow> query f c = (f (data c), c)"
  by (cases "f (data c)") (simp_all add: query_def)

lemma driver_call_clean [simp]: "faults c = [] \<Longrightarrow> driver_call c = (Inr (), c)"
  by (simp add: driver_call_def)

text \<open>An action is clean when it keeps a connection free of faults free of faults.\<close>

definition keeps_clean :: "('d, 'a) action \<Rightarrow> bool" where
  "keeps_clean m \<longleftrightarrow> (\<forall>c. faults c = [] \<longrightarrow> faults (snd (m c)) = [])"

named_theorems clean_intros \<open>actions that keep a connection free of faults\<close>

lemma keeps_cleanD: "keeps_clean m \<Longrightarrow> m c = (r, c') \<Longrightarrow> faults c = [] \<Longrightarrow> faults c' = []"
  by (metis keeps_clean_def snd_conv)

lemma keeps_clean_basic [clean_intros]:
  "keeps_clean (ret x)" "keeps_clean (fail e)" "keeps_clean (lift_res r)" "keeps_clean (stmt f)"
  "keeps_clean (query g)" "keeps_clean driver_call"
  by (auto simp: keeps_clean_def ret_def fail_def lift_res_def split: sum.splits)

lemma keeps_clean_andthen [clean_intros]:
  "keeps_clean m \<Longrightarrow> (\<And>x. keeps_clean (f x)) \<Longrightarrow> keeps_clean (andthen m f)"
  by (auto simp: keeps_clean_def andthen_def split: prod.splits sum.splits)

lemma keeps_clean_on_error [clean_intros]: "keeps_clean m \<Longrightarrow> keeps_clean (on_error h m)"
  by (auto simp: keeps_clean_def on_error_def split: prod.splits sum.splits)

lemma keeps_clean_attempt [clean_intros]: "keeps_clean m \<Longrightarrow> keeps_clean (attempt m)"
  by (auto simp: keeps_clean_def attempt_def split: prod.splits)

lemma transact_clean:
  "keeps_clean fn \<Longrightarrow> faults c = [] \<Longrightarrow>
   transact fn c =
     (case fn c of
        (Inl e, c') \<Rightarrow> (Inl (Wrapped ''transaction failed, rolling back'' e), c'\<lparr>data := data c\<rparr>)
      | (Inr x, c') \<Rightarrow> (Inr x, c'))"
  by (auto simp: transact_def dest: keeps_cleanD split: prod.splits sum.splits)

lemma transact_clean_ok:
  "keeps_clean fn \<Longrightarrow> faults c = [] \<Longrightarrow> fn c = (Inr x, c') \<Longrightarrow> transact fn c = (Inr x, c')"
  by (simp add: transact_clean)

lemma transact_clean_err:
  "keeps_clean fn \<Longrightarrow> faults c = [] \<Longrightarrow> fn c = (Inl e, c') \<Longrightarrow>
   transact fn c = (Inl (Wrapped ''transaction failed, rolling back'' e), c)"
  by (cases c; cases c') (auto simp: transact_clean dest: keeps_cleanD)

lemma keeps_clean_transact [clean_intros]: "keeps_clean fn \<Longrightarrow> keeps_clean (transact fn)"
  unfolding keeps_clean_def [of "transact fn"]
  by (auto simp: transact_clean dest: keeps_cleanD split: prod.splits sum.splits)

lemma transact_clean_rollback:
  "keeps_clean fn \<Longrightarrow> faults c = [] \<Longrightarrow> transact fn c = (Inl e, c') \<Longrightarrow>
   c' = c \<and> (\<exists>e'. e = Wrapped ''transaction failed, rolling back'' e' \<and> fst (fn c) = Inl e')"
  by (cases c) (auto simp: transact_clean dest: keeps_cleanD split: prod.splits sum.splits)

subsection \<open>Invariants of the stored data\<close>

text \<open>
  \<open>keeps I m\<close>: however the driver behaves, \<open>m\<close> keeps the invariant of the data; rules for
  every way of building an action.
\<close>

definition keeps :: "('d \<Rightarrow> bool) \<Rightarrow> ('d, 'a) action \<Rightarrow> bool" where
  "keeps I m \<longleftrightarrow> (\<forall>c. I (data c) \<longrightarrow> I (data (snd (m c))))"

lemma keepsD: "keeps I m \<Longrightarrow> m c = (r, c') \<Longrightarrow> I (data c) \<Longrightarrow> I (data c')"
  by (metis keeps_def snd_conv)

lemma keeps_ret [keeps_wf]: "keeps I (ret x)"
  by (simp add: keeps_def ret_def)

lemma keeps_fail [keeps_wf]: "keeps I (fail e)"
  by (simp add: keeps_def fail_def)

lemma keeps_lift_res [keeps_wf]: "keeps I (lift_res r)"
  by (simp add: keeps_def lift_res_def)

lemma keeps_andthen [keeps_wf]: "keeps I m \<Longrightarrow> (\<And>x. keeps I (f x)) \<Longrightarrow> keeps I (andthen m f)"
  by (auto simp: keeps_def andthen_def split: prod.splits sum.splits)

lemma keeps_on_error [keeps_wf]: "keeps I m \<Longrightarrow> keeps I (on_error h m)"
  by (auto simp: keeps_def on_error_def split: prod.splits sum.splits)

lemma keeps_attempt [keeps_wf]: "keeps I m \<Longrightarrow> keeps I (attempt m)"
  by (auto simp: keeps_def attempt_def split: prod.splits)

lemma keeps_stmt: "(\<And>d x d'. I d \<Longrightarrow> f d = Inr (x, d') \<Longrightarrow> I d') \<Longrightarrow> keeps I (stmt f)"
  by (auto simp: keeps_def stmt_def split: sum.splits)

lemma keeps_query [keeps_wf]: "keeps I (query f)"
  unfolding query_def by (rule keeps_stmt) auto

lemma keeps_driver_call [keeps_wf]: "keeps I driver_call"
  unfolding driver_call_def by (rule keeps_query)

lemma keeps_transact [keeps_wf]: "keeps I m \<Longrightarrow> keeps I (transact m)"
proof -
  assume m: "keeps I m"
  have "I (data c')" if "transact m c = (r, c')" "I (data c)" for c r c'
  proof (cases r)
    case (Inl e)
    with that show ?thesis by (auto dest: transact_rollback)
  next
    case (Inr x)
    with that obtain c1 c2 where "data c1 = data c" "m c1 = (Inr x, c2)" "data c' = data c2"
      by (auto dest: transact_ok)
    with m that show ?thesis by (auto dest: keepsD)
  qed
  then show ?thesis unfolding keeps_def by (metis prod.collapse)
qed

lemma keeps_if [keeps_wf]: "(b \<Longrightarrow> keeps I m) \<Longrightarrow> (\<not> b \<Longrightarrow> keeps I n) \<Longrightarrow> keeps I (if b then m else n)"
  by simp

lemma keeps_option [keeps_wf]:
  "(x = None \<Longrightarrow> keeps I m) \<Longrightarrow> (\<And>y. x = Some y \<Longrightarrow> keeps I (f y)) \<Longrightarrow>
   keeps I (case x of None \<Rightarrow> m | Some y \<Rightarrow> f y)"
  by (cases x) auto

lemma keeps_sum [keeps_wf]:
  "(\<And>e. x = Inl e \<Longrightarrow> keeps I (g e)) \<Longrightarrow> (\<And>y. x = Inr y \<Longrightarrow> keeps I (f y)) \<Longrightarrow>
   keeps I (case x of Inl e \<Rightarrow> g e | Inr y \<Rightarrow> f y)"
  by (cases x) auto

lemma keeps_prod [keeps_wf]: "(\<And>a b. x = (a, b) \<Longrightarrow> keeps I (f a b)) \<Longrightarrow> keeps I (case x of (a, b) \<Rightarrow> f a b)"
  by (cases x) auto

lemma keeps_clean_if [clean_intros]:
  "(b \<Longrightarrow> keeps_clean m) \<Longrightarrow> (\<not> b \<Longrightarrow> keeps_clean n) \<Longrightarrow> keeps_clean (if b then m else n)"
  by simp

lemma keeps_clean_option [clean_intros]:
  "(x = None \<Longrightarrow> keeps_clean m) \<Longrightarrow> (\<And>y. x = Some y \<Longrightarrow> keeps_clean (f y)) \<Longrightarrow>
   keeps_clean (case x of None \<Rightarrow> m | Some y \<Rightarrow> f y)"
  by (cases x) auto

lemma keeps_clean_sum [clean_intros]:
  "(\<And>e. x = Inl e \<Longrightarrow> keeps_clean (g e)) \<Longrightarrow> (\<And>y. x = Inr y \<Longrightarrow> keeps_clean (f y)) \<Longrightarrow>
   keeps_clean (case x of Inl e \<Rightarrow> g e | Inr y \<Rightarrow> f y)"
  by (cases x) auto

lemma keeps_clean_prod [clean_intros]:
  "(\<And>a b. x = (a, b) \<Longrightarrow> keeps_clean (f a b)) \<Longrightarrow> keeps_clean (case x of (a, b) \<Rightarrow> f a b)"
  by (cases x) auto

subsection \<open>Inserting under a random key\<close>

text \<open>
  The loop of the token services: draw a key, insert the row, draw again when the key is taken
  (\<open>taken\<close> recognises that error), give up after the tries are used. The draws of a call are a
  function from their number to the bytes drawn.
\<close>

fun insert_fresh :: "(err \<Rightarrow> bool) \<Rightarrow> (bytes \<Rightarrow> ('d, 'a) action) \<Rightarrow> (nat \<Rightarrow> bytes) \<Rightarrow> nat \<Rightarrow> nat \<Rightarrow> ('d, bytes option) action" where
  "insert_fresh taken ins draw k 0 c = (Inr None, c)"
| "insert_fresh taken ins draw k (Suc tries) c =
     (case ins (draw k) c of
        (Inr _, c') \<Rightarrow> (Inr (Some (draw k)), c')
      | (Inl e, c') \<Rightarrow> if taken e then insert_fresh taken ins draw (k + 1) tries c' else (Inl e, c'))"

lemma insert_fresh_ok:
  "(\<And>b c e c'. ins b c = (Inl e, c') \<Longrightarrow> data c' = data c) \<Longrightarrow>
   insert_fresh taken ins draw k n c = (Inr (Some b), c') \<Longrightarrow>
   \<exists>j c1 x. k \<le> j \<and> j < k + n \<and> b = draw j \<and> data c1 = data c \<and> ins b c1 = (Inr x, c')"
proof (induction n arbitrary: k c)
  case (Suc n)
  show ?case
  proof (cases "ins (draw k) c")
    case (Pair r c1)
    show ?thesis
    proof (cases r)
      case (Inl e)
      have same: "data c1 = data c" by (rule Suc.prems(1)) (use Pair Inl in simp)
      have "insert_fresh taken ins draw (k + 1) n c1 = (Inr (Some b), c')"
        using Suc.prems(2) Pair Inl by (simp split: if_splits)
      then have "\<exists>j c2 x. k + 1 \<le> j \<and> j < k + 1 + n \<and> b = draw j \<and> data c2 = data c1 \<and> ins b c2 = (Inr x, c')"
        using Suc.prems(1) by (intro Suc.IH)
      then obtain j c2 x where
        "k + 1 \<le> j" "j < k + 1 + n" "b = draw j" "data c2 = data c1" "ins b c2 = (Inr x, c')"
        by blast
      with same show ?thesis by (intro exI [of _ j] exI [of _ c2] exI [of _ x]) simp
    next
      case (Inr x)
      with Suc.prems(2) Pair show ?thesis
        by (intro exI [of _ k] exI [of _ c] exI [of _ x]) simp
    qed
  qed
qed simp

lemma insert_fresh_exhausted:
  "insert_fresh taken ins draw k n c = (Inr None, c') \<Longrightarrow>
   (\<And>b c e c'. ins b c = (Inl e, c') \<Longrightarrow> data c' = data c) \<Longrightarrow> data c' = data c"
proof (induction n arbitrary: k c)
  case (Suc n)
  then show ?case by (auto split: prod.splits sum.splits if_splits)
qed simp

lemma insert_fresh_first:
  "ins (draw k) c = (Inr x, c') \<Longrightarrow> insert_fresh taken ins draw k (Suc n) c = (Inr (Some (draw k)), c')"
  by simp

lemma insert_fresh_hundred:
  "ins (draw 0) c = (Inr x, c') \<Longrightarrow> insert_fresh taken ins draw 0 100 c = (Inr (Some (draw 0)), c')"
  using insert_fresh_first [of ins draw 0 c x c' taken 99] by simp

lemma keeps_insert_fresh [keeps_wf]:
  "(\<And>b. keeps I (ins b)) \<Longrightarrow> keeps I (insert_fresh taken ins draw k n)"
proof -
  assume ins: "\<And>b. keeps I (ins b)"
  have "I (data c) \<Longrightarrow> insert_fresh taken ins draw k n c = (r, c') \<Longrightarrow> I (data c')" for c r c'
  proof (induction n arbitrary: k c)
    case (Suc n)
    then show ?case using keepsD [OF ins, of "draw k" c]
      by (auto split: prod.splits sum.splits if_splits)
  qed simp
  then show ?thesis unfolding keeps_def by (metis prod.collapse)
qed

lemma clean_insert_fresh [clean_intros]:
  "(\<And>b. keeps_clean (ins b)) \<Longrightarrow> keeps_clean (insert_fresh taken ins draw k n)"
proof -
  assume ins: "\<And>b. keeps_clean (ins b)"
  have "faults c = [] \<Longrightarrow> insert_fresh taken ins draw k n c = (r, c') \<Longrightarrow> faults c' = []" for c r c'
  proof (induction n arbitrary: k c)
    case (Suc n)
    then show ?case using keeps_cleanD [OF ins, of "draw k" c]
      by (auto split: prod.splits sum.splits if_splits)
  qed simp
  then show ?thesis unfolding keeps_clean_def by (metis prod.collapse)
qed

subsection \<open>One-time tokens\<close>

text \<open>\<open>run_all\<close> performs a list of requests one after the other and records their results.\<close>

fun run_all :: "('x \<Rightarrow> ('d, 'r) action) \<Rightarrow> 'x list \<Rightarrow> 'd conn \<Rightarrow> ('x \<times> 'r res) list \<times> 'd conn" where
  "run_all f [] c = ([], c)"
| "run_all f (x # xs) c =
     (let (r, c1) = f x c; (rs, c2) = run_all f xs c1 in ((x, r) # rs, c2))"

definition successes :: "('x \<Rightarrow> bool) \<Rightarrow> ('x \<times> 'r res) list \<Rightarrow> nat" where
  "successes P rs = length (filter (\<lambda>(x, r). P x \<and> is_ok r) rs)"

text \<open>
  The contract of a store of one-time tokens: spending succeeds only on a live token, the token
  is dead afterwards, and no spending revives one. Then of any sequence of requests at most
  one spends a given token.
\<close>

locale one_time_token =
  fixes inv :: "'d \<Rightarrow> bool"
    and live :: "'h \<Rightarrow> 'd \<Rightarrow> bool"
    and key :: "'x \<Rightarrow> 'h option"
    and spend :: "'x \<Rightarrow> ('d, 'r) action"
  assumes spend_inv: "keeps inv (spend x)"
    and spend_live: "inv (data c) \<Longrightarrow> spend x c = (Inr r, c') \<Longrightarrow>
          \<exists>h. key x = Some h \<and> live h (data c) \<and> \<not> live h (data c')"
    and spend_dead: "inv (data c) \<Longrightarrow> spend x c = (q, c') \<Longrightarrow> \<not> live h (data c) \<Longrightarrow> \<not> live h (data c')"
begin

lemma dead_fails:
  "inv (data c) \<Longrightarrow> \<not> live h (data c) \<Longrightarrow> run_all spend xs c = (rs, c') \<Longrightarrow>
   successes (\<lambda>x. key x = Some h) rs = 0"
proof (induction xs arbitrary: c rs c')
  case (Cons x xs)
  obtain r c1 where r: "spend x c = (r, c1)" by (cases "spend x c")
  obtain rs1 c2 where rs1: "run_all spend xs c1 = (rs1, c2)" by (cases "run_all spend xs c1")
  have rs: "rs = (x, r) # rs1" using Cons.prems r rs1 by simp
  have "inv (data c1)" using keepsD [OF spend_inv r] Cons.prems by simp
  moreover have "\<not> live h (data c1)" using spend_dead [OF _ r] Cons.prems by simp
  ultimately have "successes (\<lambda>x. key x = Some h) rs1 = 0" using Cons.IH rs1 by simp
  moreover have "key x = Some h \<Longrightarrow> \<not> is_ok r"
    using spend_live [of c x] Cons.prems r by (cases r) fastforce+
  ultimately show ?case by (auto simp: successes_def rs)
qed (simp add: successes_def)

lemma spent_once:
  "inv (data c) \<Longrightarrow> run_all spend xs c = (rs, c') \<Longrightarrow> successes (\<lambda>x. key x = Some h) rs \<le> 1"
proof (induction xs arbitrary: c rs c')
  case (Cons x xs)
  obtain r c1 where r: "spend x c = (r, c1)" by (cases "spend x c")
  obtain rs1 c2 where rs1: "run_all spend xs c1 = (rs1, c2)" by (cases "run_all spend xs c1")
  have rs: "rs = (x, r) # rs1" using Cons.prems r rs1 by simp
  have inv1: "inv (data c1)" using keepsD [OF spend_inv r] Cons.prems by simp
  show ?case
  proof (cases "key x = Some h \<and> is_ok r")
    case True
    then obtain y where "r = Inr y" by (cases r) auto
    with True have "\<not> live h (data c1)" using spend_live [of c x y c1] Cons.prems r by auto
    then have "successes (\<lambda>x. key x = Some h) rs1 = 0" using dead_fails inv1 rs1 by blast
    then show ?thesis by (simp add: successes_def rs)
  next
    case False
    then show ?thesis using Cons.IH [OF inv1 rs1] by (auto simp: successes_def rs)
  qed
qed (simp add: successes_def)

end

end
