(* ===== verification/Database.thy ===== *)
theory Database
  imports Transact
begin

text \<open>
  The stored data of the room: the tables of \<open>roomdb/sqlite/migrations\<close> with their
  constraints, the start data the migrations insert, and the statements the services issue
  through the generated models. A statement checks the constraints in SQLite's order and
  either changes the data or reports the constraint; the generated code wraps that error. The
  data is well formed (\<open>db_wf\<close>) when keys are unique, every reference points to a member and
  the stored roles and modes are valid; every statement keeps it so.
\<close>

subsection \<open>Rows\<close>

record member_row =
  mb_role :: role
  mb_pub_key :: feed_ref

record alias_row =
  al_name :: string
  al_member :: int64
  al_signature :: bytes

record invite_row =
  iv_hash :: string
  iv_by :: int64
  iv_at :: time
  iv_active :: bool

record denied_row =
  dn_pub_key :: feed_ref
  dn_comment :: string
  dn_at :: time

record password_row =
  pw_hash :: bytes
  pw_member :: int64

record reset_row =
  rs_hash :: string
  rs_by :: int64
  rs_at :: time
  rs_for :: int64
  rs_active :: bool

record session_row =
  ss_token :: string
  ss_member :: int64
  ss_at :: time

record notice_row =
  nr_title :: string
  nr_content :: string
  nr_language :: string

record config_row =
  cf_mode :: privacy_mode
  cf_language :: string
  cf_subdomain :: bool

record db =
  members :: "member_row table"
  aliases :: "alias_row table"
  invites :: "invite_row table"
  denied :: "denied_row table"
  passwords :: "password_row table"
  resets :: "reset_row table"
  sessions :: "session_row table"
  notices :: "notice_row table"
  pins :: "(int64 \<times> string) list"
  pin_notices :: "(int64 \<times> int64) list"
  config :: "(int64 \<times> config_row) list"

type_synonym 'a act = "(db, 'a) action"

text \<open>The data after all migrations ran on an empty file.\<close>

definition conduct_text :: string where
  "conduct_text = concat (map (\<lambda>l. l @ [CHR 0x0A])
     [''We expect each other to ...'', ''* be considerate'', ''* be respectful'', ''* be responsible'',
      ''* be dedicated'', ''* be empathetic''])"

definition start_notices :: "notice_row list" where
  "start_notices =
     [\<lparr>nr_title = ''Description'', nr_content = ''Basic description of this Room.'', nr_language = ''en-GB''\<rparr>,
      \<lparr>nr_title = ''News'', nr_content = ''Some recent updates...'', nr_language = ''en-GB''\<rparr>,
      \<lparr>nr_title = ''Code of conduct'', nr_content = conduct_text, nr_language = ''en-GB''\<rparr>,
      \<lparr>nr_title = ''Privacy Policy'', nr_content = ''To be updated'', nr_language = ''en-GB''\<rparr>,
      \<lparr>nr_title = ''Datenschutzrichtlinien'', nr_content = ''Bitte aktualisieren'', nr_language = ''de-DE''\<rparr>,
      \<lparr>nr_title = ''Beschreibung'', nr_content = ''Allgemeine beschreibung des Raumes.'', nr_language = ''de-DE''\<rparr>]"

definition initial_db :: db where
  "initial_db =
     \<lparr>members = empty_table, aliases = empty_table, invites = empty_table, denied = empty_table,
      passwords = empty_table, resets = empty_table, sessions = empty_table,
      notices = foldl (\<lambda>t r. add_row r t) empty_table start_notices,
      pins = [(1, ''NoticeDescription''), (2, ''NoticeNews''), (3, ''NoticeCodeOfConduct''),
              (4, ''NoticePrivacyPolicy'')],
      pin_notices = [(1, 1), (2, 2), (3, 3), (4, 4), (5, 4), (6, 1)],
      config = [(0, \<lparr>cf_mode = ModeCommunity, cf_language = ''en'', cf_subdomain = True\<rparr>)]\<rparr>"

definition start_conn :: "db conn" where
  "start_conn = \<lparr>data = initial_db, faults = []\<rparr>"

subsection \<open>Well-formed data\<close>

definition members_ok :: "member_row table \<Rightarrow> bool" where
  "members_ok t \<longleftrightarrow> table_ok t \<and> uniq mb_pub_key t \<and> all_rows (\<lambda>r. mb_role r \<in> set valid_roles) t"

definition aliases_ok :: "int64 set \<Rightarrow> alias_row table \<Rightarrow> bool" where
  "aliases_ok I t \<longleftrightarrow> table_ok t \<and> uniq al_name t \<and> all_rows (\<lambda>r. al_member r \<in> I) t"

definition invites_ok :: "int64 set \<Rightarrow> invite_row table \<Rightarrow> bool" where
  "invites_ok I t \<longleftrightarrow> table_ok t \<and> uniq iv_hash t \<and> all_rows (\<lambda>r. iv_by r \<in> I) t"

definition denied_ok :: "denied_row table \<Rightarrow> bool" where
  "denied_ok t \<longleftrightarrow> table_ok t \<and> uniq dn_pub_key t"

definition passwords_ok :: "int64 set \<Rightarrow> password_row table \<Rightarrow> bool" where
  "passwords_ok I t \<longleftrightarrow> table_ok t \<and> uniq pw_member t \<and> all_rows (\<lambda>r. pw_member r \<in> I) t"

definition resets_ok :: "int64 set \<Rightarrow> reset_row table \<Rightarrow> bool" where
  "resets_ok I t \<longleftrightarrow> table_ok t \<and> uniq rs_hash t \<and> all_rows (\<lambda>r. rs_by r \<in> I \<and> rs_for r \<in> I) t"

definition sessions_ok :: "int64 set \<Rightarrow> session_row table \<Rightarrow> bool" where
  "sessions_ok I t \<longleftrightarrow> table_ok t \<and> uniq ss_token t \<and> all_rows (\<lambda>r. ss_member r \<in> I) t"

definition pins_ok :: "(int64 \<times> string) list \<Rightarrow> int64 set \<Rightarrow> (int64 \<times> int64) list \<Rightarrow> bool" where
  "pins_ok ps N pns \<longleftrightarrow> distinct (map fst ps) \<and> distinct (map snd ps) \<and> distinct pns
     \<and> fst ` set pns \<subseteq> N \<and> snd ` set pns \<subseteq> fst ` set ps"

definition config_ok :: "(int64 \<times> config_row) list \<Rightarrow> bool" where
  "config_ok cs \<longleftrightarrow> (\<exists>r. cs = [(0, r)] \<and> cf_mode r \<in> set AllPrivacyModes \<and> cf_language r \<noteq> [])"

definition db_wf :: "db \<Rightarrow> bool" where
  "db_wf d \<longleftrightarrow> members_ok (members d) \<and> aliases_ok (ids (members d)) (aliases d)
     \<and> invites_ok (ids (members d)) (invites d) \<and> denied_ok (denied d)
     \<and> passwords_ok (ids (members d)) (passwords d) \<and> resets_ok (ids (members d)) (resets d)
     \<and> sessions_ok (ids (members d)) (sessions d) \<and> table_ok (notices d)
     \<and> pins_ok (pins d) (ids (notices d)) (pin_notices d) \<and> config_ok (config d)"

lemmas tables_ok_defs = members_ok_def aliases_ok_def invites_ok_def denied_ok_def passwords_ok_def
  resets_ok_def sessions_ok_def

subsection \<open>Statements on the members table\<close>

definition unique_error :: "string \<Rightarrow> err" where
  "unique_error col = SqliteErr SQLITE_CONSTRAINT_UNIQUE (''UNIQUE constraint failed: '' @ col)"

definition foreign_error :: err where
  "foreign_error = SqliteErr SQLITE_CONSTRAINT_FOREIGNKEY ''FOREIGN KEY constraint failed''"

definition is_unique_error :: "err \<Rightarrow> bool" where
  "is_unique_error e \<longleftrightarrow> errors_as sqlite_code e = Some SQLITE_CONSTRAINT_UNIQUE"

lemma unique_error_simps [simp]:
  "is_unique_error (unique_error c)" "\<not> is_unique_error foreign_error" "\<not> is_unique_error driver_error"
  "is_unique_error (Wrapped s e) \<longleftrightarrow> is_unique_error e"
  "norows_to_notfound (unique_error c) = unique_error c"
  "norows_to_notfound foreign_error = foreign_error"
  "norows_to_notfound driver_error = driver_error"
  by (simp_all add: is_unique_error_def unique_error_def foreign_error_def driver_error_def sqlite_codes)

definition insert_member :: "member_row \<Rightarrow> db \<Rightarrow> (int64 \<times> db) res" where
  "insert_member r d =
     (if sint (mb_role r) \<le> 0 then Inl (SqliteErr SQLITE_CONSTRAINT_CHECK ''CHECK constraint failed: role > 0'')
      else if exists_row (\<lambda>x. mb_pub_key x = mb_pub_key r) (members d) then Inl (unique_error ''members.pub_key'')
      else Inr (seq (members d) + 1, d\<lparr>members := add_row r (members d)\<rparr>))"

text \<open>Deleting a member takes along every row that refers to it (\<open>ON DELETE CASCADE\<close>).\<close>

definition delete_member :: "int64 \<Rightarrow> db \<Rightarrow> (unit \<times> db) res" where
  "delete_member i d = Inr ((),
     d\<lparr>members := delete_id i (members d),
       aliases := delete_rows (\<lambda>r. al_member r = i) (aliases d),
       invites := delete_rows (\<lambda>r. iv_by r = i) (invites d),
       passwords := delete_rows (\<lambda>r. pw_member r = i) (passwords d),
       resets := delete_rows (\<lambda>r. rs_by r = i \<or> rs_for r = i) (resets d),
       sessions := delete_rows (\<lambda>r. ss_member r = i) (sessions d)\<rparr>)"

definition update_member_role :: "int64 \<Rightarrow> role \<Rightarrow> db \<Rightarrow> (unit \<times> db) res" where
  "update_member_role i role d =
     (if sint role \<le> 0 \<and> has_id i (members d)
      then Inl (SqliteErr SQLITE_CONSTRAINT_CHECK ''CHECK constraint failed: role > 0'')
      else Inr ((), d\<lparr>members := update_id i (\<lambda>r. r\<lparr>mb_role := role\<rparr>) (members d)\<rparr>))"

lemma valid_role_positive [simp]: "r \<in> set valid_roles \<Longrightarrow> \<not> sint r \<le> 0"
  by (auto simp: valid_roles_def role_defs)

subsection \<open>Statements on the tables that refer to members\<close>

definition insert_alias :: "alias_row \<Rightarrow> db \<Rightarrow> (int64 \<times> db) res" where
  "insert_alias r d =
     (if exists_row (\<lambda>x. al_name x = al_name r) (aliases d) then Inl (unique_error ''aliases.name'')
      else if \<not> has_id (al_member r) (members d) then Inl foreign_error
      else Inr (seq (aliases d) + 1, d\<lparr>aliases := add_row r (aliases d)\<rparr>))"

definition delete_alias :: "int64 \<Rightarrow> db \<Rightarrow> (unit \<times> db) res" where
  "delete_alias i d = Inr ((), d\<lparr>aliases := delete_id i (aliases d)\<rparr>)"

definition insert_invite :: "invite_row \<Rightarrow> db \<Rightarrow> (int64 \<times> db) res" where
  "insert_invite r d =
     (if exists_row (\<lambda>x. iv_hash x = iv_hash r) (invites d) then Inl (unique_error ''invites.hashed_token'')
      else if \<not> has_id (iv_by r) (members d) then Inl foreign_error
      else Inr (seq (invites d) + 1, d\<lparr>invites := add_row r (invites d)\<rparr>))"

definition update_invite_active :: "int64 \<Rightarrow> bool \<Rightarrow> db \<Rightarrow> (unit \<times> db) res" where
  "update_invite_active i b d = Inr ((), d\<lparr>invites := update_id i (\<lambda>r. r\<lparr>iv_active := b\<rparr>) (invites d)\<rparr>)"

definition delete_inactive_invites :: "db \<Rightarrow> (unit \<times> db) res" where
  "delete_inactive_invites d = Inr ((), d\<lparr>invites := delete_rows (\<lambda>r. \<not> iv_active r) (invites d)\<rparr>)"

definition insert_password :: "password_row \<Rightarrow> db \<Rightarrow> (int64 \<times> db) res" where
  "insert_password r d =
     (if exists_row (\<lambda>x. pw_member x = pw_member r) (passwords d)
      then Inl (unique_error ''fallback_passwords.member_id'')
      else if \<not> has_id (pw_member r) (members d) then Inl foreign_error
      else Inr (seq (passwords d) + 1, d\<lparr>passwords := add_row r (passwords d)\<rparr>))"

definition update_password_hash :: "int64 \<Rightarrow> bytes \<Rightarrow> db \<Rightarrow> (unit \<times> db) res" where
  "update_password_hash i h d = Inr ((), d\<lparr>passwords := update_id i (\<lambda>r. r\<lparr>pw_hash := h\<rparr>) (passwords d)\<rparr>)"

definition insert_reset :: "reset_row \<Rightarrow> db \<Rightarrow> (int64 \<times> db) res" where
  "insert_reset r d =
     (if exists_row (\<lambda>x. rs_hash x = rs_hash r) (resets d)
      then Inl (unique_error ''fallback_reset_tokens.hashed_token'')
      else if \<not> has_id (rs_by r) (members d) \<or> \<not> has_id (rs_for r) (members d) then Inl foreign_error
      else Inr (seq (resets d) + 1, d\<lparr>resets := add_row r (resets d)\<rparr>))"

definition update_reset_active :: "int64 \<Rightarrow> bool \<Rightarrow> db \<Rightarrow> (unit \<times> db) res" where
  "update_reset_active i b d = Inr ((), d\<lparr>resets := update_id i (\<lambda>r. r\<lparr>rs_active := b\<rparr>) (resets d)\<rparr>)"

definition delete_inactive_resets :: "db \<Rightarrow> (unit \<times> db) res" where
  "delete_inactive_resets d = Inr ((), d\<lparr>resets := delete_rows (\<lambda>r. \<not> rs_active r) (resets d)\<rparr>)"

definition insert_session :: "session_row \<Rightarrow> db \<Rightarrow> (int64 \<times> db) res" where
  "insert_session r d =
     (if exists_row (\<lambda>x. ss_token x = ss_token r) (sessions d)
      then Inl (unique_error ''SIWSSB_sessions.token'')
      else if \<not> has_id (ss_member r) (members d) then Inl foreign_error
      else Inr (seq (sessions d) + 1, d\<lparr>sessions := add_row r (sessions d)\<rparr>))"

definition delete_session :: "int64 \<Rightarrow> db \<Rightarrow> (unit \<times> db) res" where
  "delete_session i d = Inr ((), d\<lparr>sessions := delete_id i (sessions d)\<rparr>)"

definition delete_sessions :: "(session_row \<Rightarrow> bool) \<Rightarrow> db \<Rightarrow> (unit \<times> db) res" where
  "delete_sessions P d = Inr ((), d\<lparr>sessions := delete_rows P (sessions d)\<rparr>)"

subsection \<open>Statements on the other tables\<close>

definition insert_denied :: "denied_row \<Rightarrow> db \<Rightarrow> (int64 \<times> db) res" where
  "insert_denied r d =
     (if exists_row (\<lambda>x. dn_pub_key x = dn_pub_key r) (denied d) then Inl (unique_error ''denied_keys.pub_key'')
      else Inr (seq (denied d) + 1, d\<lparr>denied := add_row r (denied d)\<rparr>))"

definition delete_denied :: "int64 \<Rightarrow> db \<Rightarrow> (unit \<times> db) res" where
  "delete_denied i d = Inr ((), d\<lparr>denied := delete_id i (denied d)\<rparr>)"

definition insert_notice :: "notice_row \<Rightarrow> db \<Rightarrow> (int64 \<times> db) res" where
  "insert_notice r d = Inr (seq (notices d) + 1, d\<lparr>notices := add_row r (notices d)\<rparr>)"

definition update_notice :: "int64 \<Rightarrow> notice_row \<Rightarrow> db \<Rightarrow> (unit \<times> db) res" where
  "update_notice i r d = Inr ((), d\<lparr>notices := update_id i (\<lambda>_. r) (notices d)\<rparr>)"

definition delete_notice :: "int64 \<Rightarrow> db \<Rightarrow> (unit \<times> db) res" where
  "delete_notice i d =
     (if list_ex (\<lambda>p. fst p = i) (pin_notices d) then Inl foreign_error
      else Inr ((), d\<lparr>notices := delete_id i (notices d)\<rparr>))"

definition insert_pin_notice :: "int64 \<Rightarrow> int64 \<Rightarrow> db \<Rightarrow> (unit \<times> db) res" where
  "insert_pin_notice pid nid d =
     (if List.member (pin_notices d) (nid, pid)
      then Inl (SqliteErr SQLITE_CONSTRAINT_PRIMARYKEY ''UNIQUE constraint failed: pin_notices.notice_id, pin_notices.pin_id'')
      else if \<not> has_id nid (notices d) \<or> \<not> list_ex (\<lambda>p. fst p = pid) (pins d) then Inl foreign_error
      else Inr ((), d\<lparr>pin_notices := pin_notices d @ [(nid, pid)]\<rparr>))"

text \<open>An \<open>UPDATE\<close> of the settings row reports how many rows it changed.\<close>

definition update_config :: "int64 \<Rightarrow> config_row \<Rightarrow> db \<Rightarrow> (nat \<times> db) res" where
  "update_config i r d = Inr (length (filter (\<lambda>x. fst x = i) (config d)),
     d\<lparr>config := map (\<lambda>x. if fst x = i then (i, r) else x) (config d)\<rparr>)"

lemmas statement_defs = insert_member_def delete_member_def update_member_role_def insert_alias_def
  delete_alias_def insert_invite_def update_invite_active_def delete_inactive_invites_def
  insert_password_def update_password_hash_def insert_reset_def update_reset_active_def
  delete_inactive_resets_def insert_session_def delete_session_def delete_sessions_def
  insert_denied_def delete_denied_def insert_notice_def update_notice_def delete_notice_def
  insert_pin_notice_def update_config_def

subsection \<open>Every statement keeps the data well formed\<close>

lemma db_wf_members [simp]: "db_wf d \<Longrightarrow> members_ok (members d)"
  by (simp add: db_wf_def)

text \<open>More members keep every reference; a member leaves together with the rows that refer to it.\<close>

lemma refs_more:
  "aliases_ok I ta \<Longrightarrow> aliases_ok (insert x I) ta" "invites_ok I ti \<Longrightarrow> invites_ok (insert x I) ti"
  "passwords_ok I tp \<Longrightarrow> passwords_ok (insert x I) tp" "resets_ok I tr \<Longrightarrow> resets_ok (insert x I) tr"
  "sessions_ok I ts \<Longrightarrow> sessions_ok (insert x I) ts"
  unfolding aliases_ok_def invites_ok_def passwords_ok_def resets_ok_def sessions_ok_def
  by (simp_all add: all_rows_def)

lemma refs_cascade:
  "aliases_ok I ta \<Longrightarrow> aliases_ok (I - {i}) (delete_rows (\<lambda>r. al_member r = i) ta)"
  "invites_ok I ti \<Longrightarrow> invites_ok (I - {i}) (delete_rows (\<lambda>r. iv_by r = i) ti)"
  "passwords_ok I tp \<Longrightarrow> passwords_ok (I - {i}) (delete_rows (\<lambda>r. pw_member r = i) tp)"
  "resets_ok I tr \<Longrightarrow> resets_ok (I - {i}) (delete_rows (\<lambda>r. rs_by r = i \<or> rs_for r = i) tr)"
  "sessions_ok I ts \<Longrightarrow> sessions_ok (I - {i}) (delete_rows (\<lambda>r. ss_member r = i) ts)"
  unfolding aliases_ok_def invites_ok_def passwords_ok_def resets_ok_def sessions_ok_def
  by (simp_all add: all_rows_def, simp_all add: delete_rows_def)

lemma members_ok_statements:
  "members_ok t \<Longrightarrow> members_ok (delete_id i t)"
  "members_ok t \<Longrightarrow> r \<in> set valid_roles \<Longrightarrow> members_ok (update_id i (\<lambda>m. m\<lparr>mb_role := r\<rparr>) t)"
  "members_ok t \<Longrightarrow> mb_role m \<in> set valid_roles \<Longrightarrow> \<not> exists_row (\<lambda>x. mb_pub_key x = mb_pub_key m) t \<Longrightarrow>
   members_ok (add_row m t)"
  by (simp_all add: members_ok_def uniq_update)

text \<open>Replacing one table by a well-formed one.\<close>

lemma db_wf_set:
  "db_wf d \<Longrightarrow> aliases_ok (ids (members d)) ta \<Longrightarrow> db_wf (d\<lparr>aliases := ta\<rparr>)"
  "db_wf d \<Longrightarrow> invites_ok (ids (members d)) ti \<Longrightarrow> db_wf (d\<lparr>invites := ti\<rparr>)"
  "db_wf d \<Longrightarrow> denied_ok td \<Longrightarrow> db_wf (d\<lparr>denied := td\<rparr>)"
  "db_wf d \<Longrightarrow> passwords_ok (ids (members d)) tp \<Longrightarrow> db_wf (d\<lparr>passwords := tp\<rparr>)"
  "db_wf d \<Longrightarrow> resets_ok (ids (members d)) tr \<Longrightarrow> db_wf (d\<lparr>resets := tr\<rparr>)"
  "db_wf d \<Longrightarrow> sessions_ok (ids (members d)) ts \<Longrightarrow> db_wf (d\<lparr>sessions := ts\<rparr>)"
  "db_wf d \<Longrightarrow> table_ok tn \<Longrightarrow> pins_ok (pins d) (ids tn) (pin_notices d) \<Longrightarrow> db_wf (d\<lparr>notices := tn\<rparr>)"
  "db_wf d \<Longrightarrow> pins_ok (pins d) (ids (notices d)) pn \<Longrightarrow> db_wf (d\<lparr>pin_notices := pn\<rparr>)"
  "db_wf d \<Longrightarrow> config_ok cs \<Longrightarrow> db_wf (d\<lparr>config := cs\<rparr>)"
  "db_wf d \<Longrightarrow> members_ok tm \<Longrightarrow> ids tm = ids (members d) \<Longrightarrow> db_wf (d\<lparr>members := tm\<rparr>)"
  by (simp_all add: db_wf_def)

lemma db_wf_parts:
  assumes "db_wf d"
  shows "members_ok (members d)" "aliases_ok (ids (members d)) (aliases d)"
    "invites_ok (ids (members d)) (invites d)" "denied_ok (denied d)"
    "passwords_ok (ids (members d)) (passwords d)" "resets_ok (ids (members d)) (resets d)"
    "sessions_ok (ids (members d)) (sessions d)" "table_ok (notices d)"
    "pins_ok (pins d) (ids (notices d)) (pin_notices d)" "config_ok (config d)"
  using assms by (simp_all add: db_wf_def)

lemma insert_member_wf:
  "db_wf d \<Longrightarrow> mb_role r \<in> set valid_roles \<Longrightarrow> insert_member r d = Inr (i, d') \<Longrightarrow> db_wf d'"
  by (clarsimp simp: insert_member_def split: if_splits)
     (simp add: db_wf_def members_ok_statements refs_more)

lemma delete_member_wf: "db_wf d \<Longrightarrow> delete_member i d = Inr (u, d') \<Longrightarrow> db_wf d'"
  by (clarsimp simp: delete_member_def) (simp add: db_wf_def members_ok_statements refs_cascade)

lemma update_member_role_wf:
  "db_wf d \<Longrightarrow> r \<in> set valid_roles \<Longrightarrow> update_member_role i r d = Inr (u, d') \<Longrightarrow> db_wf d'"
  using members_ok_statements(2) [OF db_wf_parts(1)]
  by (clarsimp simp: update_member_role_def split: if_splits) (simp add: db_wf_set)

lemma alias_statements_wf:
  "db_wf d \<Longrightarrow> insert_alias r d = Inr (i, d') \<Longrightarrow> db_wf d'"
  "db_wf d \<Longrightarrow> delete_alias j d = Inr (u, d') \<Longrightarrow> db_wf d'"
  subgoal by (clarsimp simp: insert_alias_def split: if_splits) (rule db_wf_set(1), assumption, drule db_wf_parts(2), simp add: aliases_ok_def)
  subgoal by (clarsimp simp: delete_alias_def split: if_splits) (rule db_wf_set(1), assumption, drule db_wf_parts(2), simp add: aliases_ok_def)
  done

lemma invite_statements_wf:
  "db_wf d \<Longrightarrow> insert_invite r d = Inr (i, d') \<Longrightarrow> db_wf d'"
  "db_wf d \<Longrightarrow> update_invite_active j b d = Inr (u, d') \<Longrightarrow> db_wf d'"
  "db_wf d \<Longrightarrow> delete_inactive_invites d = Inr (u, d') \<Longrightarrow> db_wf d'"
  subgoal by (clarsimp simp: insert_invite_def split: if_splits) (rule db_wf_set(2), assumption, drule db_wf_parts(3), simp add: invites_ok_def uniq_update)
  subgoal by (clarsimp simp: update_invite_active_def split: if_splits) (rule db_wf_set(2), assumption, drule db_wf_parts(3), simp add: invites_ok_def uniq_update)
  subgoal by (clarsimp simp: delete_inactive_invites_def split: if_splits) (rule db_wf_set(2), assumption, drule db_wf_parts(3), simp add: invites_ok_def uniq_update)
  done

lemma password_statements_wf:
  "db_wf d \<Longrightarrow> insert_password p d = Inr (i, d') \<Longrightarrow> db_wf d'"
  "db_wf d \<Longrightarrow> update_password_hash j h d = Inr (u, d') \<Longrightarrow> db_wf d'"
  subgoal by (clarsimp simp: insert_password_def split: if_splits) (rule db_wf_set(4), assumption, drule db_wf_parts(5), simp add: passwords_ok_def uniq_update)
  subgoal by (clarsimp simp: update_password_hash_def split: if_splits) (rule db_wf_set(4), assumption, drule db_wf_parts(5), simp add: passwords_ok_def uniq_update)
  done

lemma reset_statements_wf:
  "db_wf d \<Longrightarrow> insert_reset r d = Inr (i, d') \<Longrightarrow> db_wf d'"
  "db_wf d \<Longrightarrow> update_reset_active j b d = Inr (u, d') \<Longrightarrow> db_wf d'"
  "db_wf d \<Longrightarrow> delete_inactive_resets d = Inr (u, d') \<Longrightarrow> db_wf d'"
  subgoal by (clarsimp simp: insert_reset_def split: if_splits) (rule db_wf_set(5), assumption, drule db_wf_parts(6), simp add: resets_ok_def uniq_update)
  subgoal by (clarsimp simp: update_reset_active_def split: if_splits) (rule db_wf_set(5), assumption, drule db_wf_parts(6), simp add: resets_ok_def uniq_update)
  subgoal by (clarsimp simp: delete_inactive_resets_def split: if_splits) (rule db_wf_set(5), assumption, drule db_wf_parts(6), simp add: resets_ok_def uniq_update)
  done

lemma session_statements_wf:
  "db_wf d \<Longrightarrow> insert_session r d = Inr (i, d') \<Longrightarrow> db_wf d'"
  "db_wf d \<Longrightarrow> delete_session j d = Inr (u, d') \<Longrightarrow> db_wf d'"
  "db_wf d \<Longrightarrow> delete_sessions P d = Inr (u, d') \<Longrightarrow> db_wf d'"
  subgoal by (clarsimp simp: insert_session_def split: if_splits) (rule db_wf_set(6), assumption, drule db_wf_parts(7), simp add: sessions_ok_def)
  subgoal by (clarsimp simp: delete_session_def split: if_splits) (rule db_wf_set(6), assumption, drule db_wf_parts(7), simp add: sessions_ok_def)
  subgoal by (clarsimp simp: delete_sessions_def split: if_splits) (rule db_wf_set(6), assumption, drule db_wf_parts(7), simp add: sessions_ok_def)
  done

lemma denied_statements_wf:
  "db_wf d \<Longrightarrow> insert_denied r d = Inr (i, d') \<Longrightarrow> db_wf d'"
  "db_wf d \<Longrightarrow> delete_denied j d = Inr (u, d') \<Longrightarrow> db_wf d'"
  subgoal by (clarsimp simp: insert_denied_def split: if_splits) (rule db_wf_set(3), assumption, drule db_wf_parts(4), simp add: denied_ok_def)
  subgoal by (clarsimp simp: delete_denied_def split: if_splits) (rule db_wf_set(3), assumption, drule db_wf_parts(4), simp add: denied_ok_def)
  done

lemma pins_ok_more: "pins_ok ps N pns \<Longrightarrow> N \<subseteq> N' \<Longrightarrow> pins_ok ps N' pns"
  unfolding pins_ok_def by (elim conjE, intro conjI) (assumption | blast)+

lemma pins_ok_less: "pins_ok ps N pns \<Longrightarrow> i \<notin> fst ` set pns \<Longrightarrow> pins_ok ps (N - {i}) pns"
  unfolding pins_ok_def by (elim conjE, intro conjI) (assumption | blast)+

lemma pins_ok_snoc:
  "pins_ok ps N pns \<Longrightarrow> n \<in> N \<Longrightarrow> p \<in> fst ` set ps \<Longrightarrow> (n, p) \<notin> set pns \<Longrightarrow> pins_ok ps N (pns @ [(n, p)])"
  unfolding pins_ok_def by simp

lemma notice_statements_wf:
  "db_wf d \<Longrightarrow> insert_notice r d = Inr (i, d') \<Longrightarrow> db_wf d'"
  "db_wf d \<Longrightarrow> update_notice j r d = Inr (u, d') \<Longrightarrow> db_wf d'"
  subgoal
    by (clarsimp simp: insert_notice_def)
       (rule db_wf_set(7), assumption, simp add: db_wf_parts, erule pins_ok_more [OF db_wf_parts(9)], auto)
  subgoal by (clarsimp simp: update_notice_def) (simp add: db_wf_set(7) db_wf_parts)
  done

lemma delete_notice_wf: "db_wf d \<Longrightarrow> delete_notice j d = Inr (u, d') \<Longrightarrow> db_wf d'"
proof -
  assume wf: "db_wf d" and del: "delete_notice j d = Inr (u, d')"
  from del have free: "j \<notin> fst ` set (pin_notices d)" and d': "d' = d\<lparr>notices := delete_id j (notices d)\<rparr>"
    by (auto simp: delete_notice_def list_ex_iff split: if_splits)
  show ?thesis unfolding d'
    using pins_ok_less [OF db_wf_parts(9) [OF wf] free] by (simp add: db_wf_set(7) wf db_wf_parts)
qed

lemma insert_pin_notice_wf: "db_wf d \<Longrightarrow> insert_pin_notice p n d = Inr (u, d') \<Longrightarrow> db_wf d'"
proof -
  assume wf: "db_wf d" and ins: "insert_pin_notice p n d = Inr (u, d')"
  from ins have "(n, p) \<notin> set (pin_notices d)" "n \<in> ids (notices d)"
    and ex: "list_ex (\<lambda>x. fst x = p) (pins d)" and d': "d' = d\<lparr>pin_notices := pin_notices d @ [(n, p)]\<rparr>"
    by (simp_all add: insert_pin_notice_def split: if_splits)
  moreover from ex have "p \<in> fst ` set (pins d)" by (force simp: list_ex_iff)
  ultimately show ?thesis
    using pins_ok_snoc [OF db_wf_parts(9) [OF wf]] by (simp add: d' db_wf_set(8) wf)
qed

lemma update_config_wf:
  "db_wf d \<Longrightarrow> cf_mode r \<in> set AllPrivacyModes \<Longrightarrow> cf_language r \<noteq> [] \<Longrightarrow>
   update_config i r d = Inr (n, d') \<Longrightarrow> db_wf d'"
proof -
  assume wf: "db_wf d" and r: "cf_mode r \<in> set AllPrivacyModes" "cf_language r \<noteq> []"
    and upd: "update_config i r d = Inr (n, d')"
  have "config_ok (map (\<lambda>x. if fst x = i then (i, r) else x) (config d))"
    using db_wf_parts(10) [OF wf] r by (auto simp: config_ok_def)
  with upd show ?thesis by (clarsimp simp: update_config_def) (simp add: db_wf_set(9) wf)
qed

lemmas statements_wf = delete_member_wf alias_statements_wf invite_statements_wf password_statements_wf reset_statements_wf
  session_statements_wf denied_statements_wf notice_statements_wf delete_notice_wf insert_pin_notice_wf

lemma keeps_statements [keeps_wf]:
  "keeps db_wf (stmt (delete_member i))"
  "keeps db_wf (stmt (insert_alias ar))"
  "keeps db_wf (stmt (delete_alias i))"
  "keeps db_wf (stmt (insert_invite ir))"
  "keeps db_wf (stmt (update_invite_active i b))"
  "keeps db_wf (stmt delete_inactive_invites)"
  "keeps db_wf (stmt (insert_password pr))"
  "keeps db_wf (stmt (update_password_hash i h))"
  "keeps db_wf (stmt (insert_reset rr))"
  "keeps db_wf (stmt (update_reset_active i b))"
  "keeps db_wf (stmt delete_inactive_resets)"
  "keeps db_wf (stmt (insert_session sr))"
  "keeps db_wf (stmt (delete_session i))"
  "keeps db_wf (stmt (delete_sessions P))"
  "keeps db_wf (stmt (insert_denied dr))"
  "keeps db_wf (stmt (delete_denied i))"
  "keeps db_wf (stmt (insert_notice nr))"
  "keeps db_wf (stmt (update_notice i nr))"
  "keeps db_wf (stmt (delete_notice i))"
  "keeps db_wf (stmt (insert_pin_notice p n))"
  by (rule keeps_stmt, erule (1) statements_wf)+

lemma keeps_insert_member [keeps_wf]:
  "mb_role r \<in> set valid_roles \<Longrightarrow> keeps db_wf (stmt (insert_member r))"
  by (rule keeps_stmt, erule (2) insert_member_wf)

lemma keeps_update_member_role [keeps_wf]:
  "r \<in> set valid_roles \<Longrightarrow> keeps db_wf (stmt (update_member_role i r))"
  by (rule keeps_stmt, erule (2) update_member_role_wf)

lemma initial_db_wf [simp]: "db_wf initial_db"
proof -
  let ?n = "notices initial_db"
  have n: "table_ok ?n" by (simp add: initial_db_def start_notices_def)
  have i: "ids ?n = {1, 2, 3, 4, 5, 6}"
    by (simp add: initial_db_def start_notices_def ids_def add_row_def empty_table_def)
  have "pins_ok (pins initial_db) (ids ?n) (pin_notices initial_db)"
    unfolding i by (simp add: initial_db_def pins_ok_def)
  then show ?thesis
    using n by (simp add: db_wf_def) (simp add: initial_db_def tables_ok_defs config_ok_def
        AllPrivacyModes_def)
qed

text \<open>What a successful statement did.\<close>

lemma insert_ok:
  "insert_member m d = Inr (i, d') \<Longrightarrow> i = seq (members d) + 1 \<and> d' = d\<lparr>members := add_row m (members d)\<rparr>
     \<and> \<not> exists_row (\<lambda>x. mb_pub_key x = mb_pub_key m) (members d)"
  "insert_alias al d = Inr (i, d') \<Longrightarrow> i = seq (aliases d) + 1 \<and> d' = d\<lparr>aliases := add_row al (aliases d)\<rparr>
     \<and> \<not> exists_row (\<lambda>x. al_name x = al_name al) (aliases d) \<and> al_member al \<in> ids (members d)"
  "insert_invite iv d = Inr (i, d') \<Longrightarrow> i = seq (invites d) + 1 \<and> d' = d\<lparr>invites := add_row iv (invites d)\<rparr>
     \<and> \<not> exists_row (\<lambda>x. iv_hash x = iv_hash iv) (invites d) \<and> iv_by iv \<in> ids (members d)"
  "insert_password p d = Inr (i, d') \<Longrightarrow> i = seq (passwords d) + 1 \<and> d' = d\<lparr>passwords := add_row p (passwords d)\<rparr>
     \<and> \<not> exists_row (\<lambda>x. pw_member x = pw_member p) (passwords d) \<and> pw_member p \<in> ids (members d)"
  "insert_reset r d = Inr (i, d') \<Longrightarrow> i = seq (resets d) + 1 \<and> d' = d\<lparr>resets := add_row r (resets d)\<rparr>
     \<and> \<not> exists_row (\<lambda>x. rs_hash x = rs_hash r) (resets d) \<and> rs_by r \<in> ids (members d) \<and> rs_for r \<in> ids (members d)"
  "insert_session ss d = Inr (i, d') \<Longrightarrow> i = seq (sessions d) + 1 \<and> d' = d\<lparr>sessions := add_row ss (sessions d)\<rparr>
     \<and> \<not> exists_row (\<lambda>x. ss_token x = ss_token ss) (sessions d) \<and> ss_member ss \<in> ids (members d)"
  "insert_denied dn d = Inr (i, d') \<Longrightarrow> i = seq (denied d) + 1 \<and> d' = d\<lparr>denied := add_row dn (denied d)\<rparr>
     \<and> \<not> exists_row (\<lambda>x. dn_pub_key x = dn_pub_key dn) (denied d)"
  "insert_notice nr d = Inr (i, d') \<Longrightarrow> i = seq (notices d) + 1 \<and> d' = d\<lparr>notices := add_row nr (notices d)\<rparr>"
  "insert_pin_notice pid nid d = Inr (u, d') \<Longrightarrow> d' = d\<lparr>pin_notices := pin_notices d @ [(nid, pid)]\<rparr>
     \<and> (nid, pid) \<notin> set (pin_notices d) \<and> nid \<in> ids (notices d)"
  by (simp_all add: statement_defs split: if_splits)

lemma update_ok:
  "update_member_role i ro d = Inr (u, d') \<Longrightarrow> d' = d\<lparr>members := update_id i (\<lambda>r. r\<lparr>mb_role := ro\<rparr>) (members d)\<rparr>"
  "update_invite_active i b d = Inr (u, d') \<Longrightarrow> d' = d\<lparr>invites := update_id i (\<lambda>r. r\<lparr>iv_active := b\<rparr>) (invites d)\<rparr>"
  "update_password_hash i h d = Inr (u, d') \<Longrightarrow> d' = d\<lparr>passwords := update_id i (\<lambda>r. r\<lparr>pw_hash := h\<rparr>) (passwords d)\<rparr>"
  "update_reset_active i b d = Inr (u, d') \<Longrightarrow> d' = d\<lparr>resets := update_id i (\<lambda>r. r\<lparr>rs_active := b\<rparr>) (resets d)\<rparr>"
  "update_notice i nr d = Inr (u, d') \<Longrightarrow> d' = d\<lparr>notices := update_id i (\<lambda>_. nr) (notices d)\<rparr>"
  by (simp_all add: statement_defs split: if_splits)

lemma delete_ok:
  "delete_alias i d = Inr (u, d') \<Longrightarrow> d' = d\<lparr>aliases := delete_id i (aliases d)\<rparr>"
  "delete_inactive_invites d = Inr (u, d') \<Longrightarrow> d' = d\<lparr>invites := delete_rows (\<lambda>r. \<not> iv_active r) (invites d)\<rparr>"
  "delete_inactive_resets d = Inr (u, d') \<Longrightarrow> d' = d\<lparr>resets := delete_rows (\<lambda>r. \<not> rs_active r) (resets d)\<rparr>"
  "delete_session i d = Inr (u, d') \<Longrightarrow> d' = d\<lparr>sessions := delete_id i (sessions d)\<rparr>"
  "delete_sessions P d = Inr (u, d') \<Longrightarrow> d' = d\<lparr>sessions := delete_rows P (sessions d)\<rparr>"
  "delete_denied i d = Inr (u, d') \<Longrightarrow> d' = d\<lparr>denied := delete_id i (denied d)\<rparr>"
  "delete_notice i d = Inr (u, d') \<Longrightarrow> d' = d\<lparr>notices := delete_id i (notices d)\<rparr> \<and> i \<notin> fst ` set (pin_notices d)"
  by (auto simp: statement_defs list_ex_iff split: if_splits)

lemmas statement_ok = insert_ok update_ok delete_ok

subsection \<open>Reads\<close>

text \<open>
  What the generated \<open>One\<close>, \<open>All\<close>, \<open>Find\<close> and \<open>Count\<close> do: a missing row is \<open>sql.ErrNoRows\<close> as it
  is, any other failure is wrapped in a text.
\<close>

definition wrap_other :: "string \<Rightarrow> err \<Rightarrow> err" where
  "wrap_other s e = (if errors_is e ErrNoRows then ErrNoRows else Wrapped s e)"

definition or_norows :: "'a option \<Rightarrow> 'a res" where
  "or_norows x = (case x of None \<Rightarrow> Inl ErrNoRows | Some y \<Rightarrow> Inr y)"

definition one :: "(db \<Rightarrow> 'a option) \<Rightarrow> 'a act" where
  "one f = on_error (wrap_other ''models: failed to execute a one query'') (query (\<lambda>d. or_norows (f d)))"

definition find_by_id :: "(db \<Rightarrow> 'r table) \<Rightarrow> int64 \<Rightarrow> 'r act" where
  "find_by_id t i = on_error (wrap_other ''models: unable to select'') (query (\<lambda>d. or_norows (row i (t d))))"

definition read_all :: "(db \<Rightarrow> 'a) \<Rightarrow> 'a act" where
  "read_all f = on_error (Wrapped ''models: failed to assign all query results'') (query (\<lambda>d. Inr (f d)))"

definition count :: "(db \<Rightarrow> nat) \<Rightarrow> nat act" where
  "count f = on_error (Wrapped ''models: failed to count rows'') (query (\<lambda>d. Inr (f d)))"

definition exec :: "string \<Rightarrow> (db \<Rightarrow> ('a \<times> db) res) \<Rightarrow> 'a act" where
  "exec s f = on_error (Wrapped s) (stmt f)"

lemma or_norows_simps [simp]: "or_norows None = Inl ErrNoRows" "or_norows (Some x) = Inr x"
  "or_norows y = Inr x \<longleftrightarrow> y = Some x" "or_norows y = Inl e \<longleftrightarrow> y = None \<and> e = ErrNoRows"
  by (auto simp: or_norows_def split: option.splits)

lemma wrap_other_simps [simp]: "wrap_other s ErrNoRows = ErrNoRows"
  "wrap_other s driver_error = Wrapped s driver_error"
  by (simp_all add: wrap_other_def driver_error_def)

lemma norows_wrapped [simp]: "norows_to_notfound (Wrapped s driver_error) = Wrapped s driver_error"
  by (simp add: norows_to_notfound_def driver_error_def)

lemma one_ok: "one f c = (Inr x, c') \<Longrightarrow> f (data c) = Some x \<and> data c' = data c"
  by (auto simp: one_def dest: query_ok)

lemma find_by_id_ok: "find_by_id t i c = (Inr r, c') \<Longrightarrow> row i (t (data c)) = Some r \<and> data c' = data c"
  by (auto simp: find_by_id_def dest: query_ok)

lemma read_all_ok: "read_all f c = (Inr x, c') \<Longrightarrow> x = f (data c) \<and> data c' = data c"
  by (auto simp: read_all_def dest!: query_ok)

lemma count_ok: "count f c = (Inr x, c') \<Longrightarrow> x = f (data c) \<and> data c' = data c"
  by (auto simp: count_def dest!: query_ok)

lemma exec_ok: "exec s f c = (Inr x, c') \<Longrightarrow> f (data c) = Inr (x, data c')"
  by (auto simp: exec_def dest: stmt_ok)

lemma exec_err: "exec s f c = (Inl e, c') \<Longrightarrow>
   data c' = data c \<and> (\<exists>e'. e = Wrapped s e' \<and> (e' = driver_error \<or> f (data c) = Inl e'))"
  by (auto simp: exec_def dest!: stmt_err)

lemmas read_ok = one_ok find_by_id_ok read_all_ok count_ok

lemma one_err: "one f c = (Inl e, c') \<Longrightarrow> data c' = data c \<and> (e = ErrNoRows \<and> f (data c) = None \<or>
   (\<exists>s. e = Wrapped s driver_error))"
  by (auto simp: one_def dest!: query_err)

lemma one_norows:
  "one f c = (Inl e, c') \<Longrightarrow> errors_is e ErrNoRows \<Longrightarrow> f (data c) = None \<and> e = ErrNoRows \<and> data c' = data c"
  by (drule one_err) (auto simp: driver_error_def)

lemma find_by_id_err: "find_by_id t i c = (Inl e, c') \<Longrightarrow> data c' = data c \<and>
   (e = ErrNoRows \<and> i \<notin> ids (t (data c)) \<or> (\<exists>s. e = Wrapped s driver_error))"
  by (auto simp: find_by_id_def dest!: query_err)

lemma read_clean [simp]:
  "faults c = [] \<Longrightarrow> one f c = (or_norows (f (data c)), c)"
  "faults c = [] \<Longrightarrow> find_by_id t i c = (or_norows (row i (t (data c))), c)"
  "faults c = [] \<Longrightarrow> read_all g c = (Inr (g (data c)), c)"
  "faults c = [] \<Longrightarrow> count n c = (Inr (n (data c)), c)"
     apply (cases "f (data c)"; simp add: one_def on_error_def)
    apply (cases "row i (t (data c))"; simp add: find_by_id_def on_error_def)
  by (simp_all add: read_all_def count_def on_error_def)

lemma exec_clean [simp]:
  "faults c = [] \<Longrightarrow> exec s f c =
     (case f (data c) of Inl e \<Rightarrow> (Inl (Wrapped s e), c) | Inr (x, d) \<Rightarrow> (Inr x, c\<lparr>data := d\<rparr>))"
  by (simp add: exec_def on_error_def split: sum.splits prod.splits)

lemma keeps_reads [keeps_wf]:
  "keeps I (one f)" "keeps I (find_by_id t i)" "keeps I (read_all g)" "keeps I (count n)"
  by (auto simp: one_def find_by_id_def read_all_def count_def intro: keeps_wf)

lemma keeps_exec [keeps_wf]: "keeps I (stmt f) \<Longrightarrow> keeps I (exec s f)"
  by (auto simp: exec_def intro: keeps_wf)

lemma clean_access [clean_intros]:
  "keeps_clean (one f)" "keeps_clean (find_by_id t i)" "keeps_clean (read_all g)" "keeps_clean (count n)"
  "keeps_clean (exec s h)"
  by (auto simp: one_def find_by_id_def read_all_def count_def exec_def intro: clean_intros)

end
