(* ===== verification/Members.thy ===== *)
theory Members
  imports Database
begin

text \<open>
  \<open>roomdb/sqlite/members.go\<close>: adding, finding, listing, counting and removing members, and
  changing their role. The reading functions join the aliases of a member; \<open>Members_add\<close> is
  the function \<open>add\<close> that runs inside the caller's transaction.
\<close>

record alias_entry =
  a_id :: int64
  a_name :: string
  a_feed :: feed_ref
  a_signature :: bytes

record member =
  m_id :: int64
  m_role :: role
  m_pub_key :: feed_ref
  m_aliases :: "alias_entry list"

subsection \<open>Operations\<close>

definition getAliases :: "feed_ref \<Rightarrow> (int64 \<times> alias_row) list \<Rightarrow> alias_entry list" where
  "getAliases feed as =
     map (\<lambda>(i, r). \<lparr>a_id = i, a_name = al_name r, a_feed = feed, a_signature = al_signature r\<rparr>) as"

definition aliases_of :: "int64 \<Rightarrow> db \<Rightarrow> (int64 \<times> alias_row) list" where
  "aliases_of i d = select_rows (\<lambda>a. al_member a = i) (aliases d)"

definition to_member :: "int64 \<Rightarrow> member_row \<Rightarrow> (int64 \<times> alias_row) list \<Rightarrow> member" where
  "to_member i r as = \<lparr>m_id = i, m_role = mb_role r, m_pub_key = mb_pub_key r,
                       m_aliases = getAliases (mb_pub_key r) as\<rparr>"

definition Members_add :: "lib \<Rightarrow> feed_ref \<Rightarrow> role \<Rightarrow> int64 act" where
  "Members_add L pubKey role =
     (case role_valid role of
        Inl e \<Rightarrow> fail e
      | Inr _ \<Rightarrow>
          (case parse_ref L (ref_string pubKey) of
             None \<Rightarrow> fail (Msg ''refs: invalid reference'')
           | Some _ \<Rightarrow>
               on_error (\<lambda>e. if is_unique_error e then AlreadyAdded pubKey
                             else Wrapped ''members: failed to insert new user'' e)
                 (exec ''models: unable to insert into members''
                    (insert_member \<lparr>mb_role = role, mb_pub_key = pubKey\<rparr>))))"

definition Members_Add :: "lib \<Rightarrow> feed_ref \<Rightarrow> role \<Rightarrow> int64 act" where
  "Members_Add L pubKey role = transact (Members_add L pubKey role)"

definition Members_GetByID :: "int64 \<Rightarrow> member act" where
  "Members_GetByID mid =
     andthen (on_error norows_to_notfound (find_by_id members mid)) (\<lambda>entry.
     andthen (read_all (aliases_of mid)) (\<lambda>as.
     ret (to_member mid entry as)))"

definition Members_GetByFeed :: "feed_ref \<Rightarrow> member act" where
  "Members_GetByFeed h =
     andthen (on_error norows_to_notfound (one (\<lambda>d. find_row (\<lambda>r. mb_pub_key r = h) (members d)))) (\<lambda>(i, entry).
     andthen (read_all (aliases_of i)) (\<lambda>as.
     ret (to_member i entry as)))"

definition Members_List :: "member list act" where
  "Members_List =
     andthen (read_all (\<lambda>d. rows (members d))) (\<lambda>all.
     if all = [] then ret []
     else andthen (read_all (\<lambda>d. rows (aliases d))) (\<lambda>as.
          ret (map (\<lambda>(i, r). to_member i r (filter (\<lambda>a. al_member (snd a) = i) as)) all)))"

definition Members_Count :: "nat act" where
  "Members_Count = count (\<lambda>d. length (rows (members d)))"

definition Members_RemoveFeed :: "feed_ref \<Rightarrow> unit act" where
  "Members_RemoveFeed r =
     andthen (on_error norows_to_notfound (one (\<lambda>d. find_row (\<lambda>x. mb_pub_key x = r) (members d)))) (\<lambda>(i, _).
     exec ''models: unable to delete from members'' (delete_member i))"

definition Members_RemoveID :: "int64 \<Rightarrow> unit act" where
  "Members_RemoveID i =
     andthen (on_error norows_to_notfound (find_by_id members i)) (\<lambda>_.
     exec ''models: unable to delete from members'' (delete_member i))"

definition other_admins :: "int64 \<Rightarrow> db \<Rightarrow> nat" where
  "other_admins i d = length (filter (\<lambda>(j, r). j \<noteq> i \<and> mb_role r = RoleAdmin) (rows (members d)))"

definition Members_SetRole :: "int64 \<Rightarrow> role \<Rightarrow> unit act" where
  "Members_SetRole i r =
     (case role_valid r of
        Inl e \<Rightarrow> fail e
      | Inr _ \<Rightarrow> transact (
          andthen (on_error norows_to_notfound (find_by_id members i)) (\<lambda>_.
          andthen (count (other_admins i)) (\<lambda>admins.
          if admins < 1 then fail (Msg ''need at least one other admin'')
          else exec ''models: unable to update members row'' (update_member_role i r)))))"

lemmas members_defs = Members_add_def Members_Add_def Members_GetByID_def Members_GetByFeed_def
  Members_List_def Members_Count_def Members_RemoveFeed_def Members_RemoveID_def Members_SetRole_def

declare members_defs [defs_model]

subsection \<open>Facts the other components use\<close>

lemma role_validD: "role_valid r = Inr u \<Longrightarrow> r \<in> set valid_roles"
  using role_valid_iff [of r] by (cases u) simp

lemma keeps_Members [keeps_wf]:
  "keeps db_wf (Members_add L k r)" "keeps db_wf (Members_Add L k r)" "keeps I (Members_GetByID i)"
  "keeps I (Members_GetByFeed k)" "keeps I Members_List" "keeps I Members_Count"
  "keeps db_wf (Members_RemoveFeed k)" "keeps db_wf (Members_RemoveID i)" "keeps db_wf (Members_SetRole i r)"
  unfolding members_defs by (auto intro!: keeps_wf dest: role_validD)

lemma clean_Members [clean_intros]:
  "keeps_clean (Members_add L k r)" "keeps_clean (Members_Add L k r)" "keeps_clean (Members_GetByID i)"
  "keeps_clean (Members_GetByFeed k)" "keeps_clean Members_List" "keeps_clean Members_Count"
  "keeps_clean (Members_RemoveFeed k)" "keeps_clean (Members_RemoveID i)" "keeps_clean (Members_SetRole i r)"
  unfolding members_defs by (auto intro!: clean_intros)

lemma Members_add_ok:
  "Members_add L k r c = (Inr i, c') \<Longrightarrow>
     i = seq (members (data c)) + 1
     \<and> data c' = (data c)\<lparr>members := add_row \<lparr>mb_role = r, mb_pub_key = k\<rparr> (members (data c))\<rparr>
     \<and> \<not> exists_row (\<lambda>x. mb_pub_key x = k) (members (data c)) \<and> r \<in> set valid_roles"
  unfolding Members_add_def
  by (auto split: sum.splits option.splits dest!: exec_ok statement_ok role_validD)

lemma Members_Add_ok:
  "Members_Add L k r c = (Inr i, c') \<Longrightarrow>
     i = seq (members (data c)) + 1
     \<and> data c' = (data c)\<lparr>members := add_row \<lparr>mb_role = r, mb_pub_key = k\<rparr> (members (data c))\<rparr>
     \<and> \<not> exists_row (\<lambda>x. mb_pub_key x = k) (members (data c)) \<and> r \<in> set valid_roles"
  unfolding Members_Add_def by (drule transact_ok) (auto dest!: Members_add_ok)

lemma Members_add_dup:
  "Members_add L k r c = (Inl (AlreadyAdded k'), c') \<Longrightarrow>
     data c' = data c \<and> k' = k \<and> exists_row (\<lambda>x. mb_pub_key x = k) (members (data c))"
  unfolding Members_add_def
  by (auto simp: role_valid_def insert_member_def sqlite_codes is_unique_error_def driver_error_def
      split: sum.splits option.splits if_splits dest!: exec_err)

definition stored_member :: "feed_ref \<Rightarrow> db \<Rightarrow> bool" where
  "stored_member k d \<longleftrightarrow> exists_row (\<lambda>r. mb_pub_key r = k) (members d)"

lemma Members_GetByFeed_ok:
  "Members_GetByFeed h c = (Inr m, c') \<Longrightarrow> data c' = data c \<and> m_pub_key m = h \<and>
     (\<exists>r. (m_id m, r) \<in> set (rows (members (data c))) \<and> mb_pub_key r = h \<and> m_role m = mb_role r)"
  unfolding Members_GetByFeed_def
  by (auto dest!: read_ok find_rowD simp: to_member_def)

lemma Members_GetByFeed_notfound:
  "Members_GetByFeed h c = (Inl ErrNotFound, c') \<Longrightarrow> \<not> exists_row (\<lambda>x. mb_pub_key x = h) (members (data c))"
  unfolding Members_GetByFeed_def
  by (auto simp: andthen_err exists_row_iff norows_to_notfound_def driver_error_def read_all_def
      split: if_splits dest!: one_err query_err)

lemma Members_SetRole_ok:
  "Members_SetRole i r c = (Inr u, c') \<Longrightarrow>
     i \<in> ids (members (data c)) \<and> 0 < other_admins i (data c) \<and> r \<in> set valid_roles
     \<and> data c' = (data c)\<lparr>members := update_id i (\<lambda>m. m\<lparr>mb_role := r\<rparr>) (members (data c))\<rparr>"
  unfolding Members_SetRole_def
  by (auto split: sum.splits if_splits
      dest!: transact_ok read_ok exec_ok statement_ok role_validD row_Some_ids)

lemma Members_RemoveID_ok:
  "Members_RemoveID i c = (Inr u, c') \<Longrightarrow>
     i \<in> ids (members (data c)) \<and> delete_member i (data c) = Inr ((), data c')"
  unfolding Members_RemoveID_def by (auto dest!: read_ok exec_ok row_Some_ids)

subsection \<open>Sample data\<close>

text \<open>A small room the concrete examples start from: an admin, a moderator and a member.\<close>

definition alice :: feed_ref where "alice = FeedRef ''@alice''"
definition bob :: feed_ref where "bob = FeedRef ''@bob''"
definition carol :: feed_ref where "carol = FeedRef ''@carol''"
definition dave :: feed_ref where "dave = FeedRef ''@dave''"

definition sample_db :: db where
  "sample_db = initial_db\<lparr>members :=
     add_row \<lparr>mb_role = RoleMember, mb_pub_key = carol\<rparr>
       (add_row \<lparr>mb_role = RoleModerator, mb_pub_key = bob\<rparr>
         (add_row \<lparr>mb_role = RoleAdmin, mb_pub_key = alice\<rparr> empty_table))\<rparr>"

definition sample_conn :: "db conn" where
  "sample_conn = \<lparr>data = sample_db, faults = []\<rparr>"

lemma sample_refs [simp]:
  "alice \<noteq> bob" "alice \<noteq> carol" "bob \<noteq> carol" "dave \<noteq> alice" "dave \<noteq> bob" "dave \<noteq> carol"
  "bob \<noteq> alice" "carol \<noteq> alice" "carol \<noteq> bob" "alice \<noteq> dave" "bob \<noteq> dave" "carol \<noteq> dave"
  "parse_ref sample_lib (ref_string alice) = Some alice" "parse_ref sample_lib (ref_string bob) = Some bob"
  "parse_ref sample_lib (ref_string carol) = Some carol" "parse_ref sample_lib (ref_string dave) = Some dave"
  "has_prefix (ref_string alice) ''@''" "has_prefix (ref_string bob) ''@''"
  "has_prefix (ref_string carol) ''@''" "has_prefix (ref_string dave) ''@''"
  by (simp_all add: alice_def bob_def carol_def dave_def has_prefix_def)

lemma sample_members [simp]:
  "rows (members sample_db) = [(1, \<lparr>mb_role = RoleAdmin, mb_pub_key = alice\<rparr>),
     (2, \<lparr>mb_role = RoleModerator, mb_pub_key = bob\<rparr>), (3, \<lparr>mb_role = RoleMember, mb_pub_key = carol\<rparr>)]"
  "seq (members sample_db) = 3" "ids (members sample_db) = {1, 2, 3}"
  by (simp_all add: sample_db_def add_row_def empty_table_def ids_def)

lemma sample_tables [simp]:
  "aliases sample_db = empty_table" "invites sample_db = empty_table" "denied sample_db = empty_table"
  "passwords sample_db = empty_table" "resets sample_db = empty_table" "sessions sample_db = empty_table"
  "notices sample_db = notices initial_db" "pins sample_db = pins initial_db"
  "pin_notices sample_db = pin_notices initial_db" "config sample_db = config initial_db"
  by (simp_all add: sample_db_def initial_db_def)

lemma sample_db_wf [simp]: "db_wf sample_db"
proof -
  have "members_ok (members sample_db)"
    unfolding members_ok_def table_ok_def uniq_def all_rows_def by (simp add: valid_roles_def)
  then show ?thesis
    using db_wf_parts [OF initial_db_wf] by (simp add: db_wf_def) (simp add: tables_ok_defs)
qed

lemma sample_conn_simps [simp]: "data sample_conn = sample_db" "faults sample_conn = []"
  by (simp_all add: sample_conn_def)

lemma empty_table_simps [simp]: "rows empty_table = []" "seq empty_table = 0"
  by (simp_all add: empty_table_def)

subsection \<open>Properties\<close>

text \<open>A member that was added is found under its key and under its id, with the role it was
  added with and without aliases.\<close>

lemma members_add_then_get:
  assumes wf: "db_wf (data c)" and clean: "faults c = []" and add: "Members_Add L k r c = (Inr i, c')"
  shows "Members_GetByFeed k c' = (Inr \<lparr>m_id = i, m_role = r, m_pub_key = k, m_aliases = []\<rparr>, c')
     \<and> Members_GetByID i c' = (Inr \<lparr>m_id = i, m_role = r, m_pub_key = k, m_aliases = []\<rparr>, c')"
proof -
  let ?r = "\<lparr>mb_role = r, mb_pub_key = k\<rparr>"
  have d: "i = seq (members (data c)) + 1" "data c' = (data c)\<lparr>members := add_row ?r (members (data c))\<rparr>"
    "\<not> exists_row (\<lambda>x. mb_pub_key x = k) (members (data c))"
    using Members_Add_ok [OF add] by auto
  have clean': "faults c' = []" using keeps_cleanD [OF clean_Members(2) add clean] .
  have tm: "table_ok (members (data c))" using db_wf_parts(1) [OF wf] by (simp add: members_ok_def)
  have "find_row (\<lambda>x. mb_pub_key x = k) (members (data c')) = Some (i, ?r)"
    using d unfolding find_row_None [symmetric] by (simp add: find_row_add)
  moreover have "row i (members (data c')) = Some ?r" using d tm by simp
  moreover have "aliases_of i (data c') = []"
  proof -
    have "al_member a \<noteq> i" if "(j, a) \<in> set (rows (aliases (data c)))" for j a
      using all_rowsD [of "\<lambda>a. al_member a \<in> ids (members (data c))" _ j a] that db_wf_parts(2) [OF wf]
        new_id_fresh [OF tm] d(1) by (auto simp: aliases_ok_def)
    then have "\<forall>x \<in> set (rows (aliases (data c))). al_member (snd x) \<noteq> i" by (metis prod.collapse)
    then show ?thesis using d(2) by (simp add: aliases_of_def select_rows_def filter_empty_conv)
  qed
  ultimately show ?thesis using clean'
    by (simp add: Members_GetByFeed_def Members_GetByID_def andthen_def on_error_def to_member_def getAliases_def ret_def)
qed

lemma members_add_then_get_witness:
  "\<exists>i c'. Members_Add sample_lib dave RoleMember sample_conn = (Inr i, c')
     \<and> Members_GetByFeed dave c' = (Inr \<lparr>m_id = i, m_role = RoleMember, m_pub_key = dave, m_aliases = []\<rparr>, c')
     \<and> Members_GetByID i c' = (Inr \<lparr>m_id = i, m_role = RoleMember, m_pub_key = dave, m_aliases = []\<rparr>, c')"
proof -
  have k: "keeps_clean (Members_add sample_lib dave RoleMember)" by (rule clean_Members)
  have "\<exists>c'. Members_add sample_lib dave RoleMember sample_conn = (Inr 4, c')"
    by (simp add: Members_add_def role_valid_def role_defs on_error_def insert_member_def exists_row_def)
  then obtain c' where "Members_Add sample_lib dave RoleMember sample_conn = (Inr 4, c')"
    unfolding Members_Add_def using transact_clean_ok [OF k] by fastforce
  with members_add_then_get [OF _ _ this] show ?thesis by auto
qed

text \<open>C36: Changing a role never leaves the room without an admin: whenever \<open>SetRole\<close> succeeds, a
  member other than the one changed is an admin, before and after.\<close>

theorem set_role_leaves_admin:
  "db_wf (data c) \<Longrightarrow> Members_SetRole i r c = (Inr (), c') \<Longrightarrow>
   \<exists>j m. j \<noteq> i \<and> row j (members (data c)) = Some m \<and> row j (members (data c')) = Some m \<and> mb_role m = RoleAdmin"
proof -
  assume wf: "db_wf (data c)" and run: "Members_SetRole i r c = (Inr (), c')"
  have d: "0 < other_admins i (data c)"
    "data c' = (data c)\<lparr>members := update_id i (\<lambda>m. m\<lparr>mb_role := r\<rparr>) (members (data c))\<rparr>"
    using Members_SetRole_ok [OF run] by auto
  then obtain j m where jm: "(j, m) \<in> set (rows (members (data c)))" "j \<noteq> i" "mb_role m = RoleAdmin"
    unfolding other_admins_def by (auto simp: filter_empty_conv)
  then have "row j (members (data c)) = Some m"
    using db_wf_parts(1) [OF wf] by (auto simp: members_ok_def intro: row_in)
  with jm d(2) show ?thesis by auto
qed

lemma set_role_leaves_admin_witness:
  "\<exists>c'. Members_SetRole 3 RoleModerator sample_conn = (Inr (), c') \<and>
     (\<exists>j m. j \<noteq> 3 \<and> row j (members (data sample_conn)) = Some m \<and> row j (members (data c')) = Some m \<and> mb_role m = RoleAdmin)"
proof -
  have r: "row 3 (members sample_db) = Some \<lparr>mb_role = RoleMember, mb_pub_key = carol\<rparr>" by (simp add: row_def)
  let ?fn = "andthen (on_error norows_to_notfound (find_by_id members 3)) (\<lambda>_.
          andthen (count (other_admins 3)) (\<lambda>admins.
          if admins < 1 then fail (Msg ''need at least one other admin'')
          else exec ''models: unable to update members row'' (update_member_role 3 RoleModerator)))"
  have k: "keeps_clean ?fn" by (auto intro!: clean_intros)
  have "\<exists>c'. ?fn sample_conn = (Inr (), c')"
    using r by (simp add: andthen_def on_error_def other_admins_def update_member_role_def role_defs)
  then obtain c' where "Members_SetRole 3 RoleModerator sample_conn = (Inr (), c')"
    unfolding Members_SetRole_def using transact_clean_ok [OF k, of sample_conn "()"]
    by (auto simp: role_valid_def role_defs)
  with set_role_leaves_admin [OF _ this] show ?thesis by auto
qed

text \<open>Removing members has no such guard: the only admin can be removed, which leaves the room
  without one.\<close>

lemma last_admin_removed:
  "\<exists>c'. Members_RemoveID 1 sample_conn = (Inr (), c') \<and> \<not> exists_row (\<lambda>m. mb_role m = RoleAdmin) (members (data c'))"
proof -
  have "row 1 (members sample_db) = Some \<lparr>mb_role = RoleAdmin, mb_pub_key = alice\<rparr>"
    by (simp add: row_def)
  then show ?thesis
    by (simp add: Members_RemoveID_def andthen_def on_error_def delete_member_def exists_row_def delete_id_def role_defs)
qed

end
