(* ===== verification/Aliases.thy ===== *)
theory Aliases
  imports Members
begin

text \<open>
  Aliases: the rules on their text (\<open>internal/aliases/names.go\<close>), the signed registration
  (\<open>internal/aliases/confirm.go\<close>) and the table of them (\<open>roomdb/sqlite/aliases.go\<close>).
\<close>

subsection \<open>Text of an alias\<close>

text \<open>
  The loop ranges over the runes of the text. A byte outside ASCII belongs to a rune that is
  neither a digit nor a letter, so going byte by byte finds the same answer.
\<close>

definition alias_char :: "char \<Rightarrow> bool" where
  "alias_char c \<longleftrightarrow> (CHR ''0'' \<le> c \<and> c \<le> CHR ''9'') \<or> (CHR ''a'' \<le> c \<and> c \<le> CHR ''z'')"

fun valid_loop :: "string \<Rightarrow> bool" where
  "valid_loop [] = True"
| "valid_loop (c # cs) = (if alias_char c then valid_loop cs else False)"

definition alias_valid :: "string \<Rightarrow> bool" where
  "alias_valid s = (if length s > 63 then False else valid_loop s)"

lemma valid_loop_iff: "valid_loop s \<longleftrightarrow> list_all alias_char s"
  by (induction s) auto

subsection \<open>Signed registrations\<close>

record registration =
  rg_alias :: string
  rg_user :: feed_ref
  rg_room :: feed_ref

record confirmation =
  cn_registration :: registration
  cn_signature :: bytes

definition createRegistrationMessage :: "registration \<Rightarrow> bytes" where
  "createRegistrationMessage r =
     ''=room-alias-registration:'' @ ref_string (rg_room r) @ '':'' @ ref_string (rg_user r) @ '':''
     @ rg_alias r"

definition sign_registration :: "lib \<Rightarrow> bytes \<Rightarrow> registration \<Rightarrow> confirmation" where
  "sign_registration L privKey r =
     \<lparr>cn_registration = r, cn_signature = ed_sign L privKey (createRegistrationMessage r)\<rparr>"

definition verify_confirmation :: "lib \<Rightarrow> confirmation \<Rightarrow> bool" where
  "verify_confirmation L c =
     ed_verify L (pub_key L (rg_user (cn_registration c)))
       (createRegistrationMessage (cn_registration c)) (cn_signature c)"

subsection \<open>The table\<close>

definition to_alias :: "int64 \<Rightarrow> alias_row \<Rightarrow> feed_ref \<Rightarrow> alias_entry" where
  "to_alias i r feed = \<lparr>a_id = i, a_name = al_name r, a_feed = feed, a_signature = al_signature r\<rparr>"

text \<open>
  \<open>qm.Load("Member")\<close> runs a second query for the members of the rows found; a row without
  one leaves a nil pointer behind that the code dereferences.
\<close>

definition load_member :: "int64 \<Rightarrow> member_row act" where
  "load_member i =
     andthen (read_all (\<lambda>d. row i (members d))) (\<lambda>m.
     case m of None \<Rightarrow> fail (Panic ''nil pointer dereference'') | Some r \<Rightarrow> ret r)"

definition Aliases_findOne :: "(int64 \<times> alias_row \<Rightarrow> bool) \<Rightarrow> alias_entry act" where
  "Aliases_findOne by =
     andthen (on_error norows_to_notfound (one (\<lambda>d. List.find by (rows (aliases d))))) (\<lambda>(i, r).
     andthen (load_member (al_member r)) (\<lambda>m.
     ret (to_alias i r (mb_pub_key m))))"

definition Aliases_Resolve :: "string \<Rightarrow> alias_entry act" where
  "Aliases_Resolve name = Aliases_findOne (\<lambda>r. al_name (snd r) = name)"

definition Aliases_GetByID :: "int64 \<Rightarrow> alias_entry act" where
  "Aliases_GetByID i = Aliases_findOne (\<lambda>r. fst r = i)"

definition Aliases_List :: "alias_entry list act" where
  "Aliases_List =
     andthen (read_all (\<lambda>d. rows (aliases d))) (\<lambda>all.
     if all = [] then ret []
     else andthen (read_all members) (\<lambda>ms.
          if list_all (\<lambda>(i, r). has_id (al_member r) ms) all
          then ret (map (\<lambda>(i, r). to_alias i r (mb_pub_key (the (row (al_member r) ms)))) all)
          else fail (Panic ''nil pointer dereference'')))"

definition Aliases_Register :: "string \<Rightarrow> feed_ref \<Rightarrow> bytes \<Rightarrow> unit act" where
  "Aliases_Register name userFeed sig = transact (
     andthen (on_error norows_to_notfound (one (\<lambda>d. find_row (\<lambda>r. mb_pub_key r = userFeed) (members d)))) (\<lambda>(mid, _).
     andthen (on_error (\<lambda>e. if is_unique_error e then AliasTaken name else e)
       (exec ''models: unable to insert into aliases''
          (insert_alias \<lparr>al_name = name, al_member = mid, al_signature = sig\<rparr>))) (\<lambda>_.
     ret ())))"

text \<open>\<open>Revoke\<close> reads with the database handle and deletes inside its transaction.\<close>

definition Aliases_Revoke :: "string \<Rightarrow> unit act" where
  "Aliases_Revoke name = transact (
     andthen (on_error norows_to_notfound (one (\<lambda>d. find_row (\<lambda>r. al_name r = name) (aliases d)))) (\<lambda>(i, r).
     andthen (read_all (\<lambda>d. row (al_member r) (members d))) (\<lambda>_.
     exec ''models: unable to delete from aliases'' (delete_alias i))))"

lemmas aliases_defs = Aliases_findOne_def Aliases_Resolve_def Aliases_GetByID_def Aliases_List_def
  Aliases_Register_def Aliases_Revoke_def load_member_def

subsection \<open>Facts the other components use\<close>

lemma keeps_Aliases [keeps_wf]:
  "keeps I (Aliases_Resolve n)" "keeps I (Aliases_GetByID i)" "keeps I Aliases_List"
  "keeps db_wf (Aliases_Register n k s)" "keeps db_wf (Aliases_Revoke n)" "keeps I (load_member j)"
  unfolding aliases_defs by (auto intro!: keeps_wf)

lemma clean_Aliases [clean_intros]:
  "keeps_clean (Aliases_Resolve n)" "keeps_clean (Aliases_GetByID i)" "keeps_clean Aliases_List"
  "keeps_clean (Aliases_Register n k s)" "keeps_clean (Aliases_Revoke n)" "keeps_clean (load_member j)"
  unfolding aliases_defs by (auto intro!: clean_intros)

lemma load_member_ok: "load_member i c = (Inr r, c') \<Longrightarrow> row i (members (data c)) = Some r \<and> data c' = data c"
  unfolding load_member_def by (clarsimp split: option.splits) (drule read_all_ok, simp)

lemma load_member_total:
  "i \<in> ids (members (data c)) \<Longrightarrow> faults c = [] \<Longrightarrow>
   load_member i c = (Inr (the (row i (members (data c)))), c)"
  by (cases "row i (members (data c))") (simp_all add: load_member_def andthen_def ret_def)

lemma alias_owner:
  "db_wf d \<Longrightarrow> (i, r) \<in> set (rows (aliases d)) \<Longrightarrow> al_member r \<in> ids (members d)"
  using all_rowsD [of "\<lambda>r. al_member r \<in> ids (members d)" "aliases d"]
  by (simp add: db_wf_def aliases_ok_def)

lemma aliases_named:
  "db_wf d \<Longrightarrow> (i, r) \<in> set (rows (aliases d)) \<Longrightarrow> (j, s) \<in> set (rows (aliases d)) \<Longrightarrow>
   al_name r = al_name s \<Longrightarrow> i = j \<and> r = s"
  using uniq_key_eq [of al_name "aliases d"] by (simp add: db_wf_def aliases_ok_def)

lemma Aliases_Resolve_ok:
  "Aliases_Resolve n c = (Inr a, c') \<Longrightarrow> data c' = data c \<and> a_name a = n \<and>
     (\<exists>r m. (a_id a, r) \<in> set (rows (aliases (data c))) \<and> al_name r = n \<and> al_signature r = a_signature a
        \<and> row (al_member r) (members (data c)) = Some m \<and> mb_pub_key m = a_feed a)"
  unfolding Aliases_Resolve_def Aliases_findOne_def
  by (auto simp: to_alias_def dest!: read_ok load_member_ok find_SomeD)

lemma Aliases_Register_ok:
  "Aliases_Register n k s c = (Inr u, c') \<Longrightarrow>
     \<not> exists_row (\<lambda>r. al_name r = n) (aliases (data c)) \<and>
     (\<exists>mid m. (mid, m) \<in> set (rows (members (data c))) \<and> mb_pub_key m = k \<and>
        data c' = (data c)\<lparr>aliases := add_row \<lparr>al_name = n, al_member = mid, al_signature = s\<rparr> (aliases (data c))\<rparr>)"
  unfolding Aliases_Register_def
  by (clarsimp dest!: transact_ok read_ok exec_ok statement_ok find_rowD)
     (intro exI conjI, assumption, simp_all)

lemma Aliases_Revoke_ok:
  "Aliases_Revoke n c = (Inr u, c') \<Longrightarrow>
     \<exists>i r. (i, r) \<in> set (rows (aliases (data c))) \<and> al_name r = n \<and>
           data c' = (data c)\<lparr>aliases := delete_id i (aliases (data c))\<rparr>"
proof -
  assume "Aliases_Revoke n c = (Inr u, c')"
  then show ?thesis
    unfolding Aliases_Revoke_def
    by (clarsimp dest!: transact_ok read_ok exec_ok statement_ok find_rowD)
       (intro exI conjI, assumption, simp_all)
qed

subsection \<open>Properties\<close>

lemma letter_codes: "map of_char ''0123456789abcdefghijklmnopqrstuvwxyz'' = [48..<58] @ [97..<123::nat]"
  by code_simp
lemma alias_char_letters: "alias_char c \<longleftrightarrow> c \<in> set ''0123456789abcdefghijklmnopqrstuvwxyz''"
proof -
  have "alias_char c \<longleftrightarrow> (of_char c :: nat) \<in> set ([48..<58] @ [97..<123])"
  proof -
    have d: "of_char CHR ''0'' = (48::nat)" "of_char CHR ''9'' = (57::nat)" "of_char CHR ''a'' = (97::nat)" "of_char CHR ''z'' = (122::nat)"
      by simp_all
    show ?thesis unfolding alias_char_def less_eq_char_def d set_append set_upt Un_iff atLeastLessThan_iff
      by linarith
  qed
  also have "\<dots> \<longleftrightarrow> of_char c \<in> (of_char :: char \<Rightarrow> nat) ` set ''0123456789abcdefghijklmnopqrstuvwxyz''"
    by (simp only: letter_codes [symmetric] set_map)
  also have "\<dots> \<longleftrightarrow> c \<in> set ''0123456789abcdefghijklmnopqrstuvwxyz''"
    by (rule inj_image_mem_iff) (simp add: inj_on_def)
  finally show ?thesis .
qed
text \<open>The loop accepts exactly the texts of at most 63 characters, all of them digits or
  lower-case letters; the empty text is among them.\<close>

lemma alias_valid_iff:
  "alias_valid s \<longleftrightarrow> length s \<le> 63 \<and> set s \<subseteq> set ''0123456789abcdefghijklmnopqrstuvwxyz''"
proof -
  have "list_all alias_char s \<longleftrightarrow> set s \<subseteq> set ''0123456789abcdefghijklmnopqrstuvwxyz''"
    unfolding list_all_iff subset_iff using alias_char_letters by blast
  moreover have "alias_valid s \<longleftrightarrow> length s \<le> 63 \<and> list_all alias_char s"
    by (simp add: alias_valid_def valid_loop_iff not_less)
  ultimately show ?thesis by blast
qed

text \<open>A registration signed with the user's private key verifies, and a signature accepted for
  one registration is over a message no other registration shares, as long as the references hold
  no colon.\<close>

lemma registration_sign_verify:
  "sign_verifies L \<Longrightarrow> pub_key L (rg_user r) = ed_public L k \<Longrightarrow> CHR '':'' \<notin> set (ref_string (rg_room r)) \<Longrightarrow>
   CHR '':'' \<notin> set (ref_string (rg_user r)) \<Longrightarrow> CHR '':'' \<notin> set (ref_string (rg_room r')) \<Longrightarrow>
   CHR '':'' \<notin> set (ref_string (rg_user r')) \<Longrightarrow>
   verify_confirmation L (sign_registration L k r) \<and>
   (createRegistrationMessage r = createRegistrationMessage r' \<longleftrightarrow> r = r')"
proof (intro conjI)
  assume "sign_verifies L" "pub_key L (rg_user r) = ed_public L k"
  then show "verify_confirmation L (sign_registration L k r)"
    by (simp add: verify_confirmation_def sign_registration_def sign_verifies_def)
next
  assume c: "CHR '':'' \<notin> set (ref_string (rg_room r))" "CHR '':'' \<notin> set (ref_string (rg_user r))"
    "CHR '':'' \<notin> set (ref_string (rg_room r'))" "CHR '':'' \<notin> set (ref_string (rg_user r'))"
  have "r = r'" if "createRegistrationMessage r = createRegistrationMessage r'"
  proof -
    have "ref_string (rg_room r) @ CHR '':'' # (ref_string (rg_user r) @ CHR '':'' # rg_alias r) =
        ref_string (rg_room r') @ CHR '':'' # (ref_string (rg_user r') @ CHR '':'' # rg_alias r')"
      using that by (simp add: createRegistrationMessage_def)
    from split_at_sep [OF this c(1,3)] have 1: "rg_room r = rg_room r'"
      and "ref_string (rg_user r) @ CHR '':'' # rg_alias r = ref_string (rg_user r') @ CHR '':'' # rg_alias r'" by auto
    from split_at_sep [OF this(2) c(2,4)] 1 show ?thesis by (cases r; cases r') simp
  qed
  then show "createRegistrationMessage r = createRegistrationMessage r' \<longleftrightarrow> r = r'" by blast
qed

lemma registration_sign_verify_witness:
  "verify_confirmation sample_lib (sign_registration sample_lib ''bob'' \<lparr>rg_alias = ''b'', rg_user = bob, rg_room = alice\<rparr>)
   \<and> (createRegistrationMessage \<lparr>rg_alias = ''b'', rg_user = bob, rg_room = alice\<rparr> =
      createRegistrationMessage \<lparr>rg_alias = ''c'', rg_user = bob, rg_room = alice\<rparr> \<longleftrightarrow>
      \<lparr>rg_alias = ''b'', rg_user = bob, rg_room = alice\<rparr> = \<lparr>rg_alias = ''c'', rg_user = bob, rg_room = alice\<rparr>)"
  by (rule registration_sign_verify) (simp_all add: alice_def bob_def)

lemma findOne_clean:
  assumes wf: "db_wf (data c)" and clean: "faults c = []" and ir: "(i, r) \<in> set (rows (aliases (data c)))"
    and m: "row (al_member r) (members (data c)) = Some m"
  shows "Aliases_Resolve (al_name r) c = (Inr (to_alias i r (mb_pub_key m)), c)"
proof -
  have "List.find (\<lambda>x. al_name (snd x) = al_name r) (rows (aliases (data c))) = Some (i, r)"
    using find_row_key [of al_name "aliases (data c)" i r "al_name r"] ir db_wf_parts(2) [OF wf]
    by (simp add: aliases_ok_def find_row_def)
  then show ?thesis using clean m load_member_total [of "al_member r" c] row_Some_ids [OF m]
    by (simp add: Aliases_Resolve_def Aliases_findOne_def andthen_def on_error_def ret_def)
qed

text \<open>C35: A registered alias resolves to the feed and signature it was registered with; while it is
  registered nobody can register it again, and after it is revoked it does not resolve.\<close>

theorem alias_register_resolve_revoke:
  assumes wf: "db_wf (data c)" and clean: "faults c = []" and reg: "Aliases_Register n k s c = (Inr (), c1)"
  shows "(\<exists>a. Aliases_Resolve n c1 = (Inr a, c1) \<and> a_name a = n \<and> a_feed a = k \<and> a_signature a = s)
     \<and> \<not> is_ok (fst (Aliases_Register n k' s' c1))
     \<and> (Aliases_Revoke n c1 = (Inr (), c2) \<longrightarrow> Aliases_Resolve n c2 = (Inl ErrNotFound, c2))"
proof -
  obtain mid m where m: "(mid, m) \<in> set (rows (members (data c)))" "mb_pub_key m = k" and
    d: "data c1 = (data c)\<lparr>aliases := add_row \<lparr>al_name = n, al_member = mid, al_signature = s\<rparr> (aliases (data c))\<rparr>"
    using Aliases_Register_ok [OF reg] by blast
  let ?r = "\<lparr>al_name = n, al_member = mid, al_signature = s\<rparr>"
  have wf1: "db_wf (data c1)" using keepsD [OF keeps_Aliases(4) reg wf] .
  have clean1: "faults c1 = []" using keeps_cleanD [OF clean_Aliases(4) reg clean] .
  have row: "(seq (aliases (data c)) + 1, ?r) \<in> set (rows (aliases (data c1)))" using d by simp
  have "row mid (members (data c)) = Some m" using m db_wf_parts(1) [OF wf] by (auto simp: members_ok_def intro: row_in)
  then have res: "Aliases_Resolve n c1 = (Inr (to_alias (seq (aliases (data c)) + 1) ?r k), c1)"
    using findOne_clean [OF wf1 clean1 row] d m(2) by simp
  have no: "\<not> is_ok (fst (Aliases_Register n k' s' c1))"
  proof (cases "fst (Aliases_Register n k' s' c1)")
    case (Inr u)
    then have "Aliases_Register n k' s' c1 = (Inr u, snd (Aliases_Register n k' s' c1))" by (metis prod.collapse)
    then show ?thesis using Aliases_Register_ok row by (fastforce simp: exists_row_conv)
  qed simp
  have "Aliases_Resolve n c2 = (Inl ErrNotFound, c2)" if rev: "Aliases_Revoke n c1 = (Inr (), c2)"
  proof -
    obtain i r where i: "(i, r) \<in> set (rows (aliases (data c1)))" "al_name r = n"
      "data c2 = (data c1)\<lparr>aliases := delete_id i (aliases (data c1))\<rparr>"
      using Aliases_Revoke_ok [OF rev] by blast
    have "al_name x \<noteq> n" if "(j, x) \<in> set (rows (aliases (data c2)))" for j x
      using that i aliases_named [OF wf1 _ i(1), of j x] by auto
    then have "List.find (\<lambda>x. al_name (snd x) = n) (rows (aliases (data c2))) = None"
      by (intro find_NoneI) (metis prod.collapse)
    moreover have "faults c2 = []" using keeps_cleanD [OF clean_Aliases(5) rev clean1] .
    ultimately show ?thesis by (simp add: Aliases_Resolve_def Aliases_findOne_def andthen_def on_error_def)
  qed
  with res no show ?thesis by (auto simp: to_alias_def)
qed

lemma Aliases_Register_clean:
  assumes clean: "faults c = []" and m: "find_row (\<lambda>r. mb_pub_key r = k) (members (data c)) = Some (mid, m)"
    and new: "\<not> exists_row (\<lambda>r. al_name r = n) (aliases (data c))"
  shows "Aliases_Register n k s c =
    (Inr (), c\<lparr>data := (data c)\<lparr>aliases := add_row \<lparr>al_name = n, al_member = mid, al_signature = s\<rparr> (aliases (data c))\<rparr>\<rparr>)"
proof -
  have "mid \<in> ids (members (data c))" using find_rowD [OF m] by (force simp: ids_def)
  then show ?thesis unfolding Aliases_Register_def using clean m new
    by (intro transact_clean_ok) (auto intro!: clean_intros simp: andthen_def on_error_def insert_alias_def ret_def)
qed

lemma sample_register: "\<exists>c1. Aliases_Register ''carol'' carol ''sig'' sample_conn = (Inr (), c1)"
  using Aliases_Register_clean [of sample_conn carol 3 "\<lparr>mb_role = RoleMember, mb_pub_key = carol\<rparr>" "''carol''" "''sig''"]
  by (auto simp: find_row_def exists_row_def)

lemma alias_register_resolve_revoke_witness:
  "\<exists>c1. (\<exists>a. Aliases_Resolve ''carol'' c1 = (Inr a, c1) \<and> a_name a = ''carol'' \<and> a_feed a = carol \<and> a_signature a = ''sig'')
     \<and> \<not> is_ok (fst (Aliases_Register ''carol'' bob ''other'' c1))
     \<and> (Aliases_Revoke ''carol'' c1 = (Inr (), sample_conn) \<longrightarrow> Aliases_Resolve ''carol'' sample_conn = (Inl ErrNotFound, sample_conn))"
proof -
  obtain c1 where "Aliases_Register ''carol'' carol ''sig'' sample_conn = (Inr (), c1)" using sample_register by blast
  from alias_register_resolve_revoke [OF _ _ this] show ?thesis by (intro exI [of _ c1]) simp
qed

end
