(* ===== verification/Denied.thy ===== *)
theory Denied
  imports Members
begin

text \<open>
  \<open>roomdb/sqlite/denied.go\<close>: the list of keys that must never enter the room, and
  \<open>roomdb/sqlite/roomconfig.go\<close>: the privacy mode and default language, kept in the one row
  of the \<open>config\<close> table.
\<close>

subsection \<open>Denied keys\<close>

record list_entry =
  le_id :: int64
  le_pub_key :: feed_ref
  le_at :: time
  le_comment :: string

definition to_entry :: "int64 \<Rightarrow> denied_row \<Rightarrow> list_entry" where
  "to_entry i r = \<lparr>le_id = i, le_pub_key = dn_pub_key r, le_at = dn_at r, le_comment = dn_comment r\<rparr>"

text \<open>
  The insert names two columns, so \<open>created_at\<close> is SQLite's \<open>CURRENT_TIMESTAMP\<close>: the time of
  the statement in whole seconds.
\<close>

definition current_timestamp :: "time \<Rightarrow> time" where
  "current_timestamp now = now div second * second"

definition Denied_Add :: "lib \<Rightarrow> time \<Rightarrow> feed_ref \<Rightarrow> string \<Rightarrow> unit act" where
  "Denied_Add L now a comment =
     (case parse_ref L (ref_string a) of
        None \<Rightarrow> fail (Msg ''refs: invalid reference'')
      | Some _ \<Rightarrow>
          andthen (on_error (\<lambda>e. if is_unique_error e then AlreadyAdded a
                                else Wrapped ''Denied-list: failed to insert new entry'' e)
            (exec ''models: unable to insert into denied_keys''
               (insert_denied \<lparr>dn_pub_key = a, dn_comment = comment, dn_at = current_timestamp now\<rparr>))) (\<lambda>_.
          ret ()))"

text \<open>\<open>HasFeed\<close> and \<open>HasID\<close> answer false on every error, a missing row or another.\<close>

definition Denied_HasFeed :: "feed_ref \<Rightarrow> bool act" where
  "Denied_HasFeed h =
     andthen (attempt (one (\<lambda>d. find_row (\<lambda>r. dn_pub_key r = h) (denied d)))) (\<lambda>r.
     ret (is_ok r))"

definition Denied_HasID :: "int64 \<Rightarrow> bool act" where
  "Denied_HasID i = andthen (attempt (find_by_id denied i)) (\<lambda>r. ret (is_ok r))"

definition Denied_GetByID :: "int64 \<Rightarrow> list_entry act" where
  "Denied_GetByID i =
     andthen (on_error norows_to_notfound (find_by_id denied i)) (\<lambda>r. ret (to_entry i r))"

definition Denied_List :: "list_entry list act" where
  "Denied_List =
     andthen (read_all (\<lambda>d. rows (denied d))) (\<lambda>all. ret (map (\<lambda>(i, r). to_entry i r) all))"

definition Denied_Count :: "nat act" where
  "Denied_Count = count (\<lambda>d. length (rows (denied d)))"

definition Denied_RemoveFeed :: "feed_ref \<Rightarrow> unit act" where
  "Denied_RemoveFeed r =
     andthen (on_error norows_to_notfound (one (\<lambda>d. find_row (\<lambda>x. dn_pub_key x = r) (denied d)))) (\<lambda>(i, _).
     exec ''models: unable to delete from denied_keys'' (delete_denied i))"

definition Denied_RemoveID :: "int64 \<Rightarrow> unit act" where
  "Denied_RemoveID i =
     andthen (on_error norows_to_notfound (find_by_id denied i)) (\<lambda>_.
     exec ''models: unable to delete from denied_keys'' (delete_denied i))"

lemmas denied_defs = Denied_Add_def Denied_HasFeed_def Denied_HasID_def Denied_GetByID_def
  Denied_List_def Denied_Count_def Denied_RemoveFeed_def Denied_RemoveID_def

lemma keeps_Denied [keeps_wf]:
  "keeps db_wf (Denied_Add L t k s)" "keeps I (Denied_HasFeed k)" "keeps I (Denied_HasID i)"
  "keeps I (Denied_GetByID i)" "keeps I Denied_List" "keeps I Denied_Count"
  "keeps db_wf (Denied_RemoveFeed k)" "keeps db_wf (Denied_RemoveID i)"
  unfolding denied_defs by (auto intro!: keeps_wf)

lemma clean_Denied [clean_intros]:
  "keeps_clean (Denied_Add L t k s)" "keeps_clean (Denied_HasFeed k)" "keeps_clean (Denied_HasID i)"
  "keeps_clean (Denied_GetByID i)" "keeps_clean Denied_List" "keeps_clean Denied_Count"
  "keeps_clean (Denied_RemoveFeed k)" "keeps_clean (Denied_RemoveID i)"
  unfolding denied_defs by (auto intro!: clean_intros)

definition is_denied :: "feed_ref \<Rightarrow> db \<Rightarrow> bool" where
  "is_denied k d \<longleftrightarrow> exists_row (\<lambda>r. dn_pub_key r = k) (denied d)"

lemma is_denied_simps [simp]:
  "is_denied k (d\<lparr>denied := add_row r (denied d)\<rparr>) \<longleftrightarrow> k = dn_pub_key r \<or> is_denied k d"
  by (auto simp: is_denied_def exists_row_def add_row_def)

lemma Denied_HasFeed_result:
  "Denied_HasFeed k c = (r, c') \<Longrightarrow> data c' = data c \<and> (r = Inr True \<longrightarrow> is_denied k (data c))"
proof -
  assume run: "Denied_HasFeed k c = (r, c')"
  obtain x where x: "one (\<lambda>d. find_row (\<lambda>r. dn_pub_key r = k) (denied d)) c = (x, c')" "r = Inr (is_ok x)"
    using run by (auto simp: Denied_HasFeed_def andthen_def attempt_def ret_def split: prod.splits)
  then show ?thesis
    by (cases x) (auto simp: is_denied_def exists_row_iff dest!: one_ok one_err)
qed

lemma Denied_HasFeed_clean:
  "faults c = [] \<Longrightarrow> Denied_HasFeed k c = (Inr (is_denied k (data c)), c)"
  by (cases "find_row (\<lambda>r. dn_pub_key r = k) (denied (data c))")
     (simp_all add: Denied_HasFeed_def andthen_def attempt_def is_denied_def exists_row_iff ret_def)

lemma Denied_Add_ok:
  "Denied_Add L t k s c = (Inr u, c') \<Longrightarrow>
     data c' = (data c)\<lparr>denied := add_row \<lparr>dn_pub_key = k, dn_comment = s, dn_at = current_timestamp t\<rparr> (denied (data c))\<rparr>
     \<and> \<not> is_denied k (data c)"
  unfolding Denied_Add_def
  by (auto simp: is_denied_def split: option.splits dest!: exec_ok statement_ok)

subsection \<open>Room configuration\<close>

definition configRowID :: int64 where "configRowID = 0"

definition find_config :: "config_row act" where
  "find_config = one (\<lambda>d. map_of (config d) configRowID)"

definition Config_GetPrivacyMode :: "privacy_mode act" where
  "Config_GetPrivacyMode = andthen find_config (\<lambda>c. ret (cf_mode c))"

definition Config_SetPrivacyMode :: "privacy_mode \<Rightarrow> unit act" where
  "Config_SetPrivacyMode pm =
     (case mode_valid pm of
        Inl e \<Rightarrow> fail e
      | Inr _ \<Rightarrow> transact (
          andthen find_config (\<lambda>c.
          andthen (exec ''models: unable to update config row''
                    (update_config configRowID (c\<lparr>cf_mode := pm\<rparr>))) (\<lambda>rowsAffected.
          if rowsAffected = 0
          then fail (Msg ''setting privacy mode should have update the settings row, instead 0 rows were updated'')
          else ret ()))))"

definition Config_GetDefaultLanguage :: "string act" where
  "Config_GetDefaultLanguage = andthen find_config (\<lambda>c. ret (cf_language c))"

definition Config_SetDefaultLanguage :: "string \<Rightarrow> unit act" where
  "Config_SetDefaultLanguage langTag =
     (if length langTag = 0 then fail (Msg ''language tag cannot be empty'')
      else transact (
          andthen find_config (\<lambda>c.
          andthen (exec ''models: unable to update config row''
                    (update_config configRowID (c\<lparr>cf_language := langTag\<rparr>))) (\<lambda>rowsAffected.
          if rowsAffected = 0
          then fail (Msg ''setting default language should have update the settings row, instead 0 rows were updated'')
          else ret ()))))"

lemmas config_defs = Config_GetPrivacyMode_def Config_SetPrivacyMode_def
  Config_GetDefaultLanguage_def Config_SetDefaultLanguage_def find_config_def

definition the_config :: "db \<Rightarrow> config_row" where
  "the_config d = the (map_of (config d) configRowID)"

lemma config_wf:
  "db_wf d \<Longrightarrow> config d = [(0, the_config d)] \<and> cf_mode (the_config d) \<in> set AllPrivacyModes
     \<and> cf_language (the_config d) \<noteq> []"
  by (auto simp: db_wf_def config_ok_def the_config_def configRowID_def)

lemma find_config_clean:
  "db_wf (data c) \<Longrightarrow> faults c = [] \<Longrightarrow> find_config c = (Inr (the_config (data c)), c)"
  by (auto simp: find_config_def configRowID_def dest: config_wf)

lemma find_config_ok: "find_config c = (Inr r, c') \<Longrightarrow> r = the_config (data c) \<and> data c' = data c"
  unfolding find_config_def by (auto simp: the_config_def dest!: one_ok)

lemma update_config_fresh:
  "db_wf d \<Longrightarrow> update_config configRowID r d = Inr (1, d\<lparr>config := [(0, r)]\<rparr>)"
  using config_wf [of d] by (simp add: update_config_def configRowID_def)

lemma mode_validD: "mode_valid pm = Inr u \<Longrightarrow> pm \<in> set AllPrivacyModes"
  using mode_valid_iff [of pm] by (cases u) simp

text \<open>The update only meets the invariant because the row it writes back was read from it.\<close>

lemma keeps_set_config:
  assumes f: "\<And>c. cf_mode c \<in> set AllPrivacyModes \<Longrightarrow> cf_language c \<noteq> [] \<Longrightarrow>
      cf_mode (f c) \<in> set AllPrivacyModes \<and> cf_language (f c) \<noteq> []"
  shows "keeps db_wf (andthen find_config (\<lambda>c. andthen (exec s (update_config i (f c)))
           (\<lambda>n. if n = 0 then fail e else ret ())))"
proof -
  have "db_wf (data c')"
    if "andthen find_config (\<lambda>c. andthen (exec s (update_config i (f c)))
           (\<lambda>n. if n = 0 then fail e else ret ())) c = (r, c')" and wf: "db_wf (data c)" for c r c'
  proof (cases "find_config c")
    case (Pair q c1)
    show ?thesis
    proof (cases q)
      case (Inl e')
      with that Pair show ?thesis
        by (auto simp: andthen_def find_config_def dest: one_err)
    next
      case (Inr g)
      with Pair have g: "g = the_config (data c)" "data c1 = data c"
        using find_config_ok [of c g c1] by auto
      then have "keeps db_wf (exec s (update_config i (f g)))"
        using f [of g] config_wf [OF wf] by (intro keeps_exec keeps_stmt) (auto intro: update_config_wf)
      then have "keeps db_wf (andthen (exec s (update_config i (f g))) (\<lambda>n. if n = 0 then fail e else ret ()))"
        by (auto intro!: keeps_andthen keeps_ret keeps_fail)
      then show ?thesis using that Pair Inr g
        by (auto simp: andthen_def [of find_config] dest: keepsD)
    qed
  qed
  then show ?thesis unfolding keeps_def by (metis prod.collapse)
qed

lemma keeps_Config [keeps_wf]:
  "keeps I Config_GetPrivacyMode" "keeps db_wf (Config_SetPrivacyMode pm)"
  "keeps I Config_GetDefaultLanguage" "keeps db_wf (Config_SetDefaultLanguage l)" "keeps I find_config"
  subgoal unfolding config_defs by (auto intro!: keeps_wf)
  subgoal unfolding Config_SetPrivacyMode_def
    by (auto intro!: keeps_fail keeps_transact keeps_set_config split: sum.split dest: mode_validD)
  subgoal unfolding config_defs by (auto intro!: keeps_wf)
  subgoal unfolding Config_SetDefaultLanguage_def
    by (auto intro!: keeps_fail keeps_transact keeps_set_config)
  subgoal unfolding config_defs by (auto intro!: keeps_wf)
  done

lemma clean_Config [clean_intros]:
  "keeps_clean Config_GetPrivacyMode" "keeps_clean (Config_SetPrivacyMode pm)"
  "keeps_clean Config_GetDefaultLanguage" "keeps_clean (Config_SetDefaultLanguage l)" "keeps_clean find_config"
  unfolding config_defs by (auto intro!: clean_intros)

lemma Config_get_clean:
  "db_wf (data c) \<Longrightarrow> faults c = [] \<Longrightarrow> Config_GetPrivacyMode c = (Inr (cf_mode (the_config (data c))), c)"
  "db_wf (data c) \<Longrightarrow> faults c = [] \<Longrightarrow> Config_GetDefaultLanguage c = (Inr (cf_language (the_config (data c))), c)"
  by (simp_all add: Config_GetPrivacyMode_def Config_GetDefaultLanguage_def andthen_def
      find_config_clean ret_def)

lemma Config_GetPrivacyMode_ok:
  "Config_GetPrivacyMode c = (Inr pm, c') \<Longrightarrow> pm = cf_mode (the_config (data c)) \<and> data c' = data c"
  unfolding Config_GetPrivacyMode_def by (auto dest!: find_config_ok)

subsection \<open>Properties\<close>

lemma Denied_RemoveFeed_ok:
  "Denied_RemoveFeed k c = (Inr u, c') \<Longrightarrow> \<exists>i r. (i, r) \<in> set (rows (denied (data c))) \<and> dn_pub_key r = k
     \<and> data c' = (data c)\<lparr>denied := delete_id i (denied (data c))\<rparr>"
  unfolding Denied_RemoveFeed_def
  by (clarsimp dest!: one_ok find_rowD exec_ok delete_ok) (intro exI conjI, assumption, simp_all)

text \<open>A key is denied from the moment it is added to the moment it is removed, whatever happens
  to the list entries of other keys.\<close>

lemma denied_list_tracks_keys:
  assumes wf: "db_wf (data c)" and clean: "faults c = []"
  shows "(Denied_Add L t k s c = (Inr (), c1) \<longrightarrow>
            (\<forall>h. fst (Denied_HasFeed h c1) = Inr (h = k \<or> fst (Denied_HasFeed h c) = Inr True)))
     \<and> (Denied_RemoveFeed k c = (Inr (), c2) \<longrightarrow>
            (\<forall>h. fst (Denied_HasFeed h c2) = Inr (h \<noteq> k \<and> fst (Denied_HasFeed h c) = Inr True)))"
proof (intro conjI impI allI)
  fix h assume add: "Denied_Add L t k s c = (Inr (), c1)"
  have "faults c1 = []" using keeps_cleanD [OF clean_Denied(1) add clean] .
  then show "fst (Denied_HasFeed h c1) = Inr (h = k \<or> fst (Denied_HasFeed h c) = Inr True)"
    using Denied_Add_ok [OF add] clean by (simp add: Denied_HasFeed_clean)
next
  fix h assume del: "Denied_RemoveFeed k c = (Inr (), c2)"
  have clean2: "faults c2 = []" using keeps_cleanD [OF clean_Denied(7) del clean] .
  obtain i r where i: "(i, r) \<in> set (rows (denied (data c)))" "dn_pub_key r = k"
    "data c2 = (data c)\<lparr>denied := delete_id i (denied (data c))\<rparr>"
    using Denied_RemoveFeed_ok [OF del] by blast
  have u: "uniq dn_pub_key (denied (data c))" and tk: "table_ok (denied (data c))"
    using db_wf_parts(4) [OF wf] by (simp_all add: denied_ok_def)
  have "is_denied h (data c2) \<longleftrightarrow> h \<noteq> k \<and> is_denied h (data c)"
    using delete_key_row [OF tk u i(1), of h] i(2) by (simp add: is_denied_def i(3))
  then show "fst (Denied_HasFeed h c2) = Inr (h \<noteq> k \<and> fst (Denied_HasFeed h c) = Inr True)"
    using clean clean2 by (simp add: Denied_HasFeed_clean)
qed

lemma denied_list_tracks_keys_witness:
  "\<exists>c1. Denied_Add sample_lib 0 dave ''spam'' sample_conn = (Inr (), c1)
     \<and> fst (Denied_HasFeed dave c1) = Inr True \<and> fst (Denied_HasFeed bob c1) = Inr False"
proof -
  obtain c1 where add: "Denied_Add sample_lib 0 dave ''spam'' sample_conn = (Inr (), c1)"
    by (simp add: Denied_Add_def andthen_def on_error_def insert_denied_def exists_row_def ret_def)
  have "fst (Denied_HasFeed h c1) = Inr (h = dave \<or> fst (Denied_HasFeed h sample_conn) = Inr True)" for h
    using denied_list_tracks_keys [of sample_conn sample_lib 0 dave "''spam''" c1] add by simp
  then show ?thesis using add by (simp add: Denied_HasFeed_clean is_denied_def exists_row_def)
qed

text \<open>A database failure makes a denied key look allowed: \<open>HasFeed\<close> turns every error into the
  answer no.\<close>

lemma denied_check_fails_open:
  "faults c = True # fs \<Longrightarrow> is_denied k (data c) \<Longrightarrow> fst (Denied_HasFeed k c) = Inr False"
  by (simp add: Denied_HasFeed_def andthen_def attempt_def one_def on_error_def query_def stmt_def ret_def)

lemma denied_check_fails_open_witness:
  "fst (Denied_HasFeed dave \<lparr>data = sample_db\<lparr>denied := add_row \<lparr>dn_pub_key = dave, dn_comment = [], dn_at = 0\<rparr> empty_table\<rparr>,
      faults = [True]\<rparr>) = Inr False"
  by (rule denied_check_fails_open) (simp_all add: is_denied_def exists_row_def add_row_def)

text \<open>The privacy mode that was set is the one that is read, the language is left alone, and only
  the three modes can be set.\<close>

lemma privacy_mode_set_get:
  assumes wf: "db_wf (data c)" and clean: "faults c = []"
  shows "\<exists>r c'. Config_SetPrivacyMode pm c = (r, c') \<and>
     (if pm \<in> set AllPrivacyModes
      then r = Inr () \<and> Config_GetPrivacyMode c' = (Inr pm, c')
           \<and> fst (Config_GetDefaultLanguage c') = fst (Config_GetDefaultLanguage c)
      else \<not> is_ok r \<and> c' = c)"
proof (cases "pm \<in> set AllPrivacyModes")
  case False
  then obtain e where "mode_valid pm = Inl e" using mode_valid_iff [of pm] by (cases "mode_valid pm") auto
  then show ?thesis using False by (simp add: Config_SetPrivacyMode_def fail_def)
next
  case True
  let ?cf = "(the_config (data c))\<lparr>cf_mode := pm\<rparr>"
  let ?c = "c\<lparr>data := (data c)\<lparr>config := [(0, ?cf)]\<rparr>\<rparr>"
  let ?fn = "andthen find_config (\<lambda>c. andthen (exec ''models: unable to update config row''
      (update_config configRowID (c\<lparr>cf_mode := pm\<rparr>))) (\<lambda>rowsAffected. if rowsAffected = 0
      then fail (Msg ''setting privacy mode should have update the settings row, instead 0 rows were updated'')
      else ret ()))"
  have fn: "?fn c = (Inr (), ?c)"
    using clean wf by (simp add: andthen_def find_config_clean update_config_fresh ret_def)
  have k: "keeps_clean ?fn" by (auto intro!: clean_intros clean_Config)
  have ok: "mode_valid pm = Inr ()" using True mode_valid_iff by blast
  have set: "Config_SetPrivacyMode pm c = (Inr (), ?c)"
    using transact_clean_ok [OF k clean fn] by (simp only: Config_SetPrivacyMode_def ok sum.case)
  have wf': "db_wf (data ?c)" using keepsD [OF keeps_Config(2) set wf] .
  show ?thesis using set True wf clean Config_get_clean [OF wf'] Config_get_clean [OF wf]
    by (simp add: the_config_def configRowID_def)
qed

lemma privacy_mode_set_get_witness:
  "\<exists>r c'. Config_SetPrivacyMode ModeRestricted sample_conn = (r, c') \<and>
     (if ModeRestricted \<in> set AllPrivacyModes
      then r = Inr () \<and> Config_GetPrivacyMode c' = (Inr ModeRestricted, c')
           \<and> fst (Config_GetDefaultLanguage c') = fst (Config_GetDefaultLanguage sample_conn)
      else \<not> is_ok r \<and> c' = sample_conn)"
  by (rule privacy_mode_set_get) simp_all

end
