(* ===== verification/Invites.thy ===== *)
theory Invites
  imports Aliases Denied
begin

text \<open>
  \<open>roomdb/sqlite/invites.go\<close>: invites are one-time tokens of fifty random bytes, handed out
  in URL-safe base64 and stored as the hexadecimal SHA-256 of the bytes. Consuming one adds a
  member and marks the invite inactive; inactive rows stay until the next clean-up.
\<close>

subsection \<open>Tokens\<close>

definition inviteTokenLength :: nat where "inviteTokenLength = 50"

definition token_hash :: "lib \<Rightarrow> bytes \<Rightarrow> string" where
  "token_hash L b = hex (sha256 L b)"

definition getHashedToken :: "lib \<Rightarrow> string \<Rightarrow> string res" where
  "getHashedToken L b64tok =
     (case b64_decode url_alphabet b64tok of
        None \<Rightarrow> Inl (Msg ''illegal base64 data'')
      | Some tokenBytes \<Rightarrow>
          if length tokenBytes \<noteq> inviteTokenLength
          then Inl (Msg (''roomdb: invalid invite token length (only got '' @ show_nat (length tokenBytes) @ '' bytes)''))
          else Inr (token_hash L tokenBytes))"

lemma getHashedToken_encode:
  "length b = inviteTokenLength \<Longrightarrow> getHashedToken L (b64_encode url_alphabet b) = Inr (token_hash L b)"
  by (simp add: getHashedToken_def b64_decode_encode)

lemma token_hash_inj: "no_collision L S \<Longrightarrow> a \<in> S \<Longrightarrow> b \<in> S \<Longrightarrow> token_hash L a = token_hash L b \<Longrightarrow> a = b"
  by (auto simp: token_hash_def no_collision_def dest!: hex_inj inj_onD)

subsection \<open>Operations\<close>

record invite =
  i_id :: int64
  i_by :: member
  i_at :: time

text \<open>What the service fills in of the invite's creator differs from function to function.\<close>

definition no_ref :: feed_ref where "no_ref = FeedRef []"

definition creator_brief :: "int64 \<Rightarrow> member_row \<Rightarrow> member" where
  "creator_brief i m = \<lparr>m_id = i, m_role = mb_role m, m_pub_key = no_ref, m_aliases = []\<rparr>"

definition deref :: "'a option \<Rightarrow> 'a act" where
  "deref x = (case x of None \<Rightarrow> fail (Panic ''nil pointer dereference'') | Some y \<Rightarrow> ret y)"

definition insert_invite_row :: "lib \<Rightarrow> time \<Rightarrow> int64 \<Rightarrow> bytes \<Rightarrow> int64 act" where
  "insert_invite_row L now by tokenBytes =
     exec ''models: unable to insert into invites''
       (insert_invite \<lparr>iv_hash = token_hash L tokenBytes, iv_by = by, iv_at = now, iv_active = True\<rparr>)"

definition invite_creator :: "int64 \<Rightarrow> int64 act" where
  "invite_creator createdBy =
     (if createdBy = -1 then
        andthen find_config (\<lambda>config.
        if cf_mode config \<noteq> ModeOpen
        then fail (Msg (''roomdb: privacy mode not set to open but '' @ mode_string (cf_mode config)))
        else andthen (on_error (\<lambda>e. if errors_is e ErrNoRows
                                   then Msg ''roomdb: no admin user available to associate invite to'' else e)
                       (one (\<lambda>d. find_row (\<lambda>r. mb_role r = RoleAdmin) (members d)))) (\<lambda>(i, _).
             ret i))
      else ret createdBy)"

definition Invites_Create :: "lib \<Rightarrow> time \<Rightarrow> (nat \<Rightarrow> bytes) \<Rightarrow> int64 \<Rightarrow> string act" where
  "Invites_Create L now rand createdBy =
     andthen (transact (
       andthen (invite_creator createdBy) (\<lambda>by.
       andthen (insert_fresh is_unique_error (insert_invite_row L now by) rand 0 100) (\<lambda>inserted.
       case inserted of
         None \<Rightarrow> fail (Msg ''roomdb: failed to generate an invite token in a reasonable amount of time'')
       | Some tokenBytes \<Rightarrow> ret tokenBytes)))) (\<lambda>tokenBytes.
     ret (b64_encode url_alphabet tokenBytes))"

definition active_invite :: "(int64 \<times> invite_row \<Rightarrow> bool) \<Rightarrow> (int64 \<times> invite_row \<times> member_row option) act" where
  "active_invite P =
     andthen (one (\<lambda>d. List.find (\<lambda>r. iv_active (snd r) \<and> P r) (rows (invites d)))) (\<lambda>(i, r).
     andthen (read_all (\<lambda>d. row (iv_by r) (members d))) (\<lambda>m.
     ret (i, r, m)))"

text \<open>Adding the new member; one that is known already is no error.\<close>

definition add_or_known :: "lib \<Rightarrow> feed_ref \<Rightarrow> unit act" where
  "add_or_known L newMember =
     andthen (attempt (Members_add L newMember RoleMember)) (\<lambda>added.
     case added of
       Inl e \<Rightarrow> if errors_as already_added e = Some newMember then ret () else fail e
     | Inr _ \<Rightarrow> ret ())"

definition consume_tx :: "lib \<Rightarrow> string \<Rightarrow> feed_ref \<Rightarrow> invite act" where
  "consume_tx L hashedToken newMember =
     andthen (on_error norows_to_notfound (active_invite (\<lambda>r. iv_hash (snd r) = hashedToken))) (\<lambda>(i, r, creator).
     andthen (add_or_known L newMember) (\<lambda>_.
     andthen (exec ''models: unable to update invites row'' (update_invite_active i False)) (\<lambda>_.
     andthen (deref creator) (\<lambda>m.
     ret \<lparr>i_id = i, i_by = creator_brief (iv_by r) m, i_at = iv_at r\<rparr>))))"

definition Invites_Consume :: "lib \<Rightarrow> string \<Rightarrow> feed_ref \<Rightarrow> invite act" where
  "Invites_Consume L token newMember =
     (case getHashedToken L token of
        Inl e \<Rightarrow> fail e
      | Inr hashedToken \<Rightarrow> on_error norows_to_notfound (transact (consume_tx L hashedToken newMember)))"

definition deleteConsumedInvites :: "unit act" where
  "deleteConsumedInvites =
     on_error (Wrapped ''roomdb: failed to delete used invites'')
       (exec ''models: unable to delete all from invites'' delete_inactive_invites)"

definition Invites_GetByToken :: "lib \<Rightarrow> string \<Rightarrow> invite act" where
  "Invites_GetByToken L token =
     (case getHashedToken L token of
        Inl e \<Rightarrow> fail e
      | Inr ht \<Rightarrow>
          andthen (on_error norows_to_notfound (active_invite (\<lambda>r. iv_hash (snd r) = ht))) (\<lambda>(i, r, creator).
          andthen (deref creator) (\<lambda>m.
          ret \<lparr>i_id = i, i_by = creator_brief (iv_by r) m, i_at = iv_at r\<rparr>)))"

text \<open>\<open>GetByID\<close> does not load the creator's aliases, so \<open>getAliases\<close> finds none.\<close>

definition Invites_GetByID :: "int64 \<Rightarrow> invite act" where
  "Invites_GetByID iid =
     andthen (on_error norows_to_notfound (active_invite (\<lambda>r. fst r = iid))) (\<lambda>(i, r, creator).
     andthen (deref creator) (\<lambda>m.
     ret \<lparr>i_id = i, i_by = to_member (iv_by r) m [], i_at = iv_at r\<rparr>))"

text \<open>\<open>List\<close> leaves the creator's role at its zero value.\<close>

definition list_entry_of :: "db \<Rightarrow> int64 \<times> invite_row \<Rightarrow> invite option" where
  "list_entry_of d = (\<lambda>(i, r). map_option (\<lambda>m.
     \<lparr>i_id = i, i_by = (to_member (iv_by r) m (aliases_of (iv_by r) d))\<lparr>m_role := RoleUnknown\<rparr>, i_at = iv_at r\<rparr>)
     (row (iv_by r) (members d)))"

definition Invites_List :: "invite list act" where
  "Invites_List = transact (
     andthen (read_all (\<lambda>d. select_rows iv_active (invites d))) (\<lambda>entries.
     if entries = [] then ret []
     else andthen (read_all (\<lambda>d. d)) (\<lambda>dm.
          andthen (read_all (\<lambda>d. map (list_entry_of d) entries)) (\<lambda>invs.
          if list_all (\<lambda>x. x \<noteq> None) invs then ret (map the invs)
          else fail (Panic ''nil pointer dereference'')))))"

definition Invites_Count :: "bool \<Rightarrow> nat act" where
  "Invites_Count onlyActive =
     count (\<lambda>d. length (if onlyActive then select_rows iv_active (invites d) else rows (invites d)))"

definition Invites_Revoke :: "int64 \<Rightarrow> unit act" where
  "Invites_Revoke iid = transact (
     andthen (on_error norows_to_notfound
       (one (\<lambda>d. List.find (\<lambda>r. iv_active (snd r) \<and> fst r = iid) (rows (invites d))))) (\<lambda>(i, _).
     exec ''models: unable to update invites row'' (update_invite_active i False)))"

lemmas invites_defs = invite_creator_def insert_invite_row_def Invites_Create_def active_invite_def
  deref_def add_or_known_def consume_tx_def Invites_Consume_def deleteConsumedInvites_def Invites_GetByToken_def Invites_GetByID_def
  Invites_List_def Invites_Count_def Invites_Revoke_def

subsection \<open>Facts the other components use\<close>

lemma keeps_invite_parts [keeps_wf]:
  "keeps I (invite_creator b)" "keeps db_wf (insert_invite_row L t j k)" "keeps I (active_invite P)"
  "keeps I (deref x)"
  unfolding invites_defs by (auto intro!: keeps_wf)

lemma keeps_Invites [keeps_wf]:
  "keeps db_wf (Invites_Create L t f b)" "keeps db_wf (Invites_Consume L s k)"
  "keeps db_wf deleteConsumedInvites" "keeps I (Invites_GetByToken L s)" "keeps I (Invites_GetByID i)"
  "keeps I Invites_List" "keeps I (Invites_Count o')" "keeps db_wf (Invites_Revoke i)"
  unfolding Invites_Create_def Invites_Consume_def consume_tx_def add_or_known_def deleteConsumedInvites_def Invites_GetByToken_def
    Invites_GetByID_def Invites_List_def Invites_Count_def Invites_Revoke_def
  by (auto intro!: keeps_wf)

lemma clean_invite_parts [clean_intros]:
  "keeps_clean (invite_creator b)" "keeps_clean (insert_invite_row L t j k)" "keeps_clean (active_invite P)"
  "keeps_clean (deref x)"
  unfolding invites_defs by (auto intro!: clean_intros)

lemma clean_Invites [clean_intros]:
  "keeps_clean (Invites_Create L t f b)" "keeps_clean (Invites_Consume L s k)"
  "keeps_clean deleteConsumedInvites" "keeps_clean (Invites_GetByToken L s)" "keeps_clean (Invites_GetByID i)"
  "keeps_clean Invites_List" "keeps_clean (Invites_Count o')" "keeps_clean (Invites_Revoke i)"
  unfolding Invites_Create_def Invites_Consume_def consume_tx_def add_or_known_def deleteConsumedInvites_def Invites_GetByToken_def
    Invites_GetByID_def Invites_List_def Invites_Count_def Invites_Revoke_def
  by (auto intro!: clean_intros)

text \<open>An invite is live when an active row has the hash.\<close>

definition invite_live :: "string \<Rightarrow> db \<Rightarrow> bool" where
  "invite_live h d \<longleftrightarrow> exists_row (\<lambda>r. iv_active r \<and> iv_hash r = h) (invites d)"

lemma invite_live_iff: "invite_live h d \<longleftrightarrow> (\<exists>i r. (i, r) \<in> set (rows (invites d)) \<and> iv_active r \<and> iv_hash r = h)"
  by (simp add: invite_live_def exists_row_conv)

lemma invites_hashed:
  "db_wf d \<Longrightarrow> (i, r) \<in> set (rows (invites d)) \<Longrightarrow> (j, s) \<in> set (rows (invites d)) \<Longrightarrow>
   iv_hash r = iv_hash s \<Longrightarrow> i = j \<and> r = s"
  using uniq_key_eq [of iv_hash "invites d"] by (simp add: db_wf_def invites_ok_def)

lemma active_invite_ok:
  "active_invite P c = (Inr (i, r, m), c') \<Longrightarrow>
     data c' = data c \<and> (i, r) \<in> set (rows (invites (data c))) \<and> iv_active r \<and> P (i, r)
     \<and> m = row (iv_by r) (members (data c))"
  unfolding active_invite_def by (auto dest!: one_ok find_SomeD dest: read_all_ok)

lemma deref_ok: "deref x c = (Inr y, c') \<Longrightarrow> x = Some y \<and> c' = c"
  by (auto simp: deref_def split: option.splits)

lemma spent_invite_dead:
  "db_wf d \<Longrightarrow> (i, r) \<in> set (rows (invites d)) \<Longrightarrow>
   invite_live h (d\<lparr>invites := update_id i (\<lambda>r. r\<lparr>iv_active := False\<rparr>) (invites d)\<rparr>) \<longleftrightarrow>
   invite_live h d \<and> h \<noteq> iv_hash r"
  using deactivate_row [of "invites d" iv_hash i r "\<lambda>r. r\<lparr>iv_active := False\<rparr>" iv_active h]
  by (simp add: invite_live_def db_wf_def invites_ok_def)

lemma invite_creator_ok:
  "invite_creator b c = (Inr i, c') \<Longrightarrow> data c' = data c \<and>
     (if b = -1 then cf_mode (the_config (data c)) = ModeOpen \<and>
        (\<exists>m. (i, m) \<in> set (rows (members (data c))) \<and> mb_role m = RoleAdmin) else i = b)"
  unfolding invite_creator_def
  by (auto split: if_splits dest!: find_config_ok one_ok find_rowD)

lemma insert_invite_row_ok:
  "insert_invite_row L t b k c = (Inr x, c') \<Longrightarrow>
     data c' = (data c)\<lparr>invites := add_row \<lparr>iv_hash = token_hash L k, iv_by = b, iv_at = t, iv_active = True\<rparr> (invites (data c))\<rparr>
     \<and> b \<in> ids (members (data c)) \<and> \<not> exists_row (\<lambda>x. iv_hash x = token_hash L k) (invites (data c))"
  unfolding insert_invite_row_def by (auto dest!: exec_ok statement_ok)

lemma insert_invite_row_err: "insert_invite_row L t b k c = (Inl e, c') \<Longrightarrow> data c' = data c"
  unfolding insert_invite_row_def by (auto dest!: exec_err)

lemma Invites_Create_ok:
  assumes "Invites_Create L t f b c = (Inr tok, c')"
  obtains j i where "j < 100" "tok = b64_encode url_alphabet (f j)"
    "data c' = (data c)\<lparr>invites := add_row \<lparr>iv_hash = token_hash L (f j), iv_by = i, iv_at = t, iv_active = True\<rparr> (invites (data c))\<rparr>"
    "i \<in> ids (members (data c))"
    "if b = -1 then cf_mode (the_config (data c)) = ModeOpen \<and>
        (\<exists>m. (i, m) \<in> set (rows (members (data c))) \<and> mb_role m = RoleAdmin) else i = b"
proof -
  from assms obtain k c1 c2 i c3 where tr: "data c1 = data c" "data c' = data c3"
    and cr: "invite_creator b c1 = (Inr i, c2)"
    and ins: "insert_fresh is_unique_error (insert_invite_row L t i) f 0 100 c2 = (Inr (Some k), c3)"
    and tok: "tok = b64_encode url_alphabet k"
    unfolding Invites_Create_def by (auto dest!: transact_ok split: option.splits)
  note cr' = invite_creator_ok [OF cr, unfolded tr(1)]
  have "\<exists>j c4 x. 0 \<le> j \<and> j < 0 + 100 \<and> k = f j \<and> data c4 = data c2 \<and> insert_invite_row L t i k c4 = (Inr x, c3)"
    by (rule insert_fresh_ok [OF _ ins]) (rule insert_invite_row_err)
  then obtain j c4 x where
    j: "j < 100" "k = f j" "data c4 = data c2" "insert_invite_row L t i k c4 = (Inr x, c3)" by auto
  from insert_invite_row_ok [OF j(4)] show ?thesis
    using that [of j i] cr' tr tok j by simp
qed

lemma add_or_known_ok:
  "add_or_known L k c = (Inr u, c') \<Longrightarrow>
     data c' = data c \<and> exists_row (\<lambda>x. mb_pub_key x = k) (members (data c)) \<or>
     data c' = (data c)\<lparr>members := add_row \<lparr>mb_role = RoleMember, mb_pub_key = k\<rparr> (members (data c))\<rparr>
       \<and> \<not> exists_row (\<lambda>x. mb_pub_key x = k) (members (data c))"
proof -
  assume run: "add_or_known L k c = (Inr u, c')"
  obtain added where add: "Members_add L k RoleMember c = (added, c')"
    and br: "case added of Inl e \<Rightarrow> errors_as already_added e = Some k | Inr _ \<Rightarrow> True"
    using run unfolding add_or_known_def by (cases "Members_add L k RoleMember c")
      (auto simp: andthen_def attempt_def split: sum.splits if_splits)
  show ?thesis
  proof (cases added)
    case (Inl e)
    then have "e = AlreadyAdded k"
      using add br unfolding Members_add_def
      by (auto simp: role_valid_def role_defs is_unique_error_def driver_error_def insert_member_def
          unique_error_def sqlite_codes split: option.splits if_splits dest!: exec_err)
    then show ?thesis using add Inl Members_add_dup [of L k RoleMember c k c'] by simp
  next
    case (Inr x)
    then show ?thesis using add Members_add_ok [of L k RoleMember c x c'] by simp
  qed
qed

lemma consume_tx_ok:
  assumes "consume_tx L h k c = (Inr iv, c')"
  obtains i r m d where "(i, r) \<in> set (rows (invites (data c)))"
    "iv_active r" "iv_hash r = h" "row (iv_by r) (members (data c)) = Some m"
    "iv = \<lparr>i_id = i, i_by = creator_brief (iv_by r) m, i_at = iv_at r\<rparr>"
    "invites d = invites (data c)" "d = data c \<and> exists_row (\<lambda>x. mb_pub_key x = k) (members (data c)) \<or>
     d = (data c)\<lparr>members := add_row \<lparr>mb_role = RoleMember, mb_pub_key = k\<rparr> (members (data c))\<rparr>
       \<and> \<not> exists_row (\<lambda>x. mb_pub_key x = k) (members (data c))"
    "data c' = d\<lparr>invites := update_id i (\<lambda>r. r\<lparr>iv_active := False\<rparr>) (invites d)\<rparr>"
proof -
  from assms obtain i r cr c2 c3 u u' c4 m c5 where
    act: "active_invite (\<lambda>r. iv_hash (snd r) = h) c = (Inr (i, r, cr), c2)"
    and add: "add_or_known L k c2 = (Inr u, c3)"
    and upd: "exec ''models: unable to update invites row'' (update_invite_active i False) c3 = (Inr u', c4)"
    and der: "deref cr c4 = (Inr m, c5)" and res: "ret \<lparr>i_id = i, i_by = creator_brief (iv_by r) m, i_at = iv_at r\<rparr> c5 = (Inr iv, c')"
    unfolding consume_tx_def by (simp only: andthen_ok on_error_ok case_prod_beta) (metis prod.collapse)
  have "data c4 = (data c3)\<lparr>invites := update_id i (\<lambda>r. r\<lparr>iv_active := False\<rparr>) (invites (data c3))\<rparr>"
    using update_ok(2) [OF exec_ok [OF upd]] .
  moreover have "c4 = c'" using der res by (auto dest: deref_ok)
  ultimately show ?thesis
    using that [of i r m "data c3"] active_invite_ok [OF act] add_or_known_ok [OF add] deref_ok [OF der] res
    by auto
qed

lemma Invites_Consume_ok:
  "Invites_Consume L tok k c = (Inr iv, c') \<Longrightarrow>
     \<exists>h c1 c2. getHashedToken L tok = Inr h \<and> data c1 = data c \<and> data c' = data c2 \<and> consume_tx L h k c1 = (Inr iv, c2)"
  unfolding Invites_Consume_def by (clarsimp split: sum.splits) (drule transact_ok, blast)

subsection \<open>Consuming on a healthy database\<close>

lemma find_active:
  "db_wf d \<Longrightarrow> (i, r) \<in> set (rows (invites d)) \<Longrightarrow> iv_active r \<Longrightarrow>
   List.find (\<lambda>x. iv_active (snd x) \<and> iv_hash (snd x) = iv_hash r) (rows (invites d)) = Some (i, r)"
proof -
  assume wf: "db_wf d" and ir: "(i, r) \<in> set (rows (invites d))" and act: "iv_active r"
  have "List.find (\<lambda>x. iv_active (snd x) \<and> iv_hash (snd x) = iv_hash r) (rows (invites d)) \<noteq> None"
    using ir act by (auto simp: find_None_conv intro!: bexI [of _ "(i, r)"])
  then obtain j s where "List.find (\<lambda>x. iv_active (snd x) \<and> iv_hash (snd x) = iv_hash r) (rows (invites d)) = Some (j, s)"
    by auto
  with invites_hashed [OF wf _ ir, of j s] show ?thesis by (auto dest!: find_SomeD)
qed

lemma invite_creator_exists:
  "db_wf d \<Longrightarrow> (i, r) \<in> set (rows (invites d)) \<Longrightarrow> iv_by r \<in> ids (members d)"
  using all_rowsD [of "\<lambda>r. iv_by r \<in> ids (members d)" "invites d"] by (simp add: db_wf_def invites_ok_def)

lemma add_or_known_clean:
  assumes "faults c = []" "parse_ref L (ref_string k) \<noteq> None"
  shows "\<exists>d. add_or_known L k c = (Inr (), c\<lparr>data := d\<rparr>) \<and> invites d = invites (data c)
           \<and> exists_row (\<lambda>x. mb_pub_key x = k) (members d)"
proof (cases "exists_row (\<lambda>x. mb_pub_key x = k) (members (data c))")
  case True
  then show ?thesis using assms
    by (intro exI [of _ "data c"])
       (auto simp: add_or_known_def Members_add_def andthen_def attempt_def on_error_def insert_member_def
          role_valid_def role_defs ret_def)
next
  case False
  then show ?thesis using assms
    by (intro exI [of _ "(data c)\<lparr>members := add_row \<lparr>mb_role = RoleMember, mb_pub_key = k\<rparr> (members (data c))\<rparr>"])
       (auto simp: add_or_known_def Members_add_def andthen_def attempt_def on_error_def insert_member_def
          role_valid_def role_defs ret_def exists_row_def add_row_def)
qed

lemma Invites_Consume_live:
  assumes wf: "db_wf (data c)" and clean: "faults c = []" and tok: "getHashedToken L tok = Inr (iv_hash r)"
    and ir: "(i, r) \<in> set (rows (invites (data c)))" "iv_active r" and k: "parse_ref L (ref_string k) \<noteq> None"
  shows "\<exists>m d. Invites_Consume L tok k c =
           (Inr \<lparr>i_id = i, i_by = creator_brief (iv_by r) m, i_at = iv_at r\<rparr>, c\<lparr>data := d\<rparr>)
         \<and> exists_row (\<lambda>x. mb_pub_key x = k) (members d) \<and> \<not> invite_live (iv_hash r) d"
proof -
  obtain m where m: "row (iv_by r) (members (data c)) = Some m"
    using invite_creator_exists [OF wf ir(1)] by (cases "row (iv_by r) (members (data c))") auto
  have act: "active_invite (\<lambda>x. iv_hash (snd x) = iv_hash r) c = (Inr (i, r, Some m), c)"
    using clean find_active [OF wf ir] m by (simp add: active_invite_def andthen_def ret_def)
  obtain d where d: "add_or_known L k c = (Inr (), c\<lparr>data := d\<rparr>)" "invites d = invites (data c)"
    "exists_row (\<lambda>x. mb_pub_key x = k) (members d)"
    using add_or_known_clean [OF clean k] by blast
  let ?d = "d\<lparr>invites := update_id i (\<lambda>r. r\<lparr>iv_active := False\<rparr>) (invites d)\<rparr>"
  have "consume_tx L (iv_hash r) k c =
     (Inr \<lparr>i_id = i, i_by = creator_brief (iv_by r) m, i_at = iv_at r\<rparr>, c\<lparr>data := ?d\<rparr>)"
    using clean act d(1) by (simp add: consume_tx_def andthen_def on_error_def deref_def update_invite_active_def ret_def)
  moreover have "keeps_clean (consume_tx L (iv_hash r) k)"
    unfolding consume_tx_def add_or_known_def by (auto intro!: clean_intros)
  ultimately have "Invites_Consume L tok k c =
     (Inr \<lparr>i_id = i, i_by = creator_brief (iv_by r) m, i_at = iv_at r\<rparr>, c\<lparr>data := ?d\<rparr>)"
    using clean tok by (simp add: Invites_Consume_def transact_clean on_error_def)
  moreover have "\<not> invite_live (iv_hash r) ?d"
    using spent_invite_dead [OF wf ir(1), of "iv_hash r"] d(2) by (simp add: invite_live_def)
  ultimately show ?thesis using d(3) by (intro exI [of _ m] exI [of _ ?d]) simp
qed

lemma Invites_Consume_dead:
  assumes clean: "faults c = []" and tok: "getHashedToken L tok = Inr h" and dead: "\<not> invite_live h (data c)"
  shows "Invites_Consume L tok k c = (Inl (Wrapped ''transaction failed, rolling back'' ErrNotFound), c)"
proof -
  have "List.find (\<lambda>x. iv_active (snd x) \<and> iv_hash (snd x) = h) (rows (invites (data c))) = None"
    using dead by (fastforce simp: find_None_conv invite_live_iff)
  then have "consume_tx L h k c = (Inl ErrNotFound, c)"
    using clean by (simp add: consume_tx_def active_invite_def andthen_def on_error_def)
  moreover have "keeps_clean (consume_tx L h k)"
    unfolding consume_tx_def add_or_known_def by (auto intro!: clean_intros)
  ultimately show ?thesis
    using clean tok by (simp add: Invites_Consume_def transact_clean on_error_def norows_to_notfound_def)
qed

text \<open>The hash an attempt presents, and the service as a store of one-time tokens.\<close>

definition token_key :: "lib \<Rightarrow> string \<times> 'x \<Rightarrow> string option" where
  "token_key L a = (case getHashedToken L (fst a) of Inl _ \<Rightarrow> None | Inr h \<Rightarrow> Some h)"

lemma Invites_Consume_spends:
  assumes wf: "db_wf (data c)" and run: "Invites_Consume L tok k c = (Inr x, c')"
  shows "\<exists>h. getHashedToken L tok = Inr h \<and> invite_live h (data c) \<and>
     (\<forall>h'. invite_live h' (data c') \<longleftrightarrow> invite_live h' (data c) \<and> h' \<noteq> h)"
proof -
  obtain h c1 c2 where h: "getHashedToken L tok = Inr h" "data c1 = data c" "data c' = data c2"
    "consume_tx L h k c1 = (Inr x, c2)" using Invites_Consume_ok [OF run] by blast
  obtain i r d where i: "(i, r) \<in> set (rows (invites (data c)))" "iv_active r" "iv_hash r = h"
    "invites d = invites (data c)" "data c2 = d\<lparr>invites := update_id i (\<lambda>r. r\<lparr>iv_active := False\<rparr>) (invites d)\<rparr>"
    by (rule consume_tx_ok [OF h(4), unfolded h(2)]) (rule that; assumption)
  have live: "invite_live h' (data c') \<longleftrightarrow> invite_live h' (data c) \<and> h' \<noteq> h" for h'
    using spent_invite_dead [OF wf i(1), of h'] i h(3) by (simp add: invite_live_def)
  moreover have "invite_live h (data c)" using i by (auto simp: invite_live_iff)
  ultimately show ?thesis using h(1) by blast
qed

lemma Invites_Consume_err: "Invites_Consume L tok k c = (Inl e, c') \<Longrightarrow> data c' = data c"
  unfolding Invites_Consume_def by (auto split: sum.splits dest: transact_rollback)

interpretation invite_tokens: one_time_token db_wf invite_live "token_key L"
  "\<lambda>a. Invites_Consume L (fst a) (snd a)" for L
proof unfold_locales
  fix x show "keeps db_wf (Invites_Consume L (fst x) (snd x))" by (rule keeps_Invites)
next
  fix c x r c'
  assume "db_wf (data c)" "Invites_Consume L (fst x) (snd x) c = (Inr r, c')"
  then show "\<exists>h. token_key L x = Some h \<and> invite_live h (data c) \<and> \<not> invite_live h (data c')"
    using Invites_Consume_spends [of c L "fst x" "snd x" r c'] by (auto simp: token_key_def)
next
  fix c x q c' h
  assume "db_wf (data c)" "Invites_Consume L (fst x) (snd x) c = (q, c')" "\<not> invite_live h (data c)"
  then show "\<not> invite_live h (data c')"
    using Invites_Consume_spends [of c L "fst x" "snd x" _ c'] Invites_Consume_err [of L "fst x" "snd x" c _ c']
    by (cases q) auto
qed

subsection \<open>Examples\<close>

lemma Invites_Create_clean:
  assumes "faults c = []" "by \<noteq> -1" "by \<in> ids (members (data c))"
    "\<not> exists_row (\<lambda>r. iv_hash r = token_hash L (f 0)) (invites (data c))"
  shows "Invites_Create L t f by c = (Inr (b64_encode url_alphabet (f 0)),
     c\<lparr>data := (data c)\<lparr>invites := add_row \<lparr>iv_hash = token_hash L (f 0), iv_by = by, iv_at = t, iv_active = True\<rparr> (invites (data c))\<rparr>\<rparr>)"
proof -
  let ?fn = "andthen (invite_creator by) (\<lambda>i. andthen (insert_fresh is_unique_error (insert_invite_row L t i) f 0 100)
     (case_option (fail (Msg ''roomdb: failed to generate an invite token in a reasonable amount of time'')) ret))"
  have "?fn c = (Inr (f 0), c\<lparr>data := (data c)\<lparr>invites :=
      add_row \<lparr>iv_hash = token_hash L (f 0), iv_by = by, iv_at = t, iv_active = True\<rparr> (invites (data c))\<rparr>\<rparr>)"
    using assms
    by (simp add: andthen_def invite_creator_def insert_invite_row_def insert_invite_def ret_def
        insert_fresh_hundred)
  moreover have "keeps_clean ?fn" by (auto intro!: clean_intros)
  ultimately show ?thesis
    using assms(1) by (simp add: Invites_Create_def andthen_def [of "transact _"] transact_clean_ok ret_def)
qed

definition sample_token :: bytes where "sample_token = replicate 50 CHR ''x''"

definition invited_conn :: "db conn" where
  "invited_conn = sample_conn\<lparr>data := sample_db\<lparr>invites :=
     add_row \<lparr>iv_hash = hex sample_token, iv_by = 1, iv_at = 7, iv_active = True\<rparr> empty_table\<rparr>\<rparr>"

lemma sample_invite_created:
  "Invites_Create sample_lib 7 (\<lambda>_. sample_token) 1 sample_conn = (Inr (b64_encode url_alphabet sample_token), invited_conn)"
  by (simp add: Invites_Create_clean exists_row_def token_hash_def invited_conn_def)

subsection \<open>Properties\<close>

text \<open>C21: However often and by whomever invite tokens are presented, and however the database
  driver fails in between, a token is consumed successfully at most once.\<close>

theorem invite_consumed_once:
  "db_wf (data c) \<Longrightarrow> run_all (\<lambda>a. Invites_Consume L (fst a) (snd a)) xs c = (rs, c') \<Longrightarrow>
   successes (\<lambda>a. getHashedToken L (fst a) = Inr h) rs \<le> 1"
proof -
  assume "db_wf (data c)" "run_all (\<lambda>a. Invites_Consume L (fst a) (snd a)) xs c = (rs, c')"
  then have "successes (\<lambda>a. token_key L a = Some h) rs \<le> 1" by (rule invite_tokens.spent_once)
  moreover have "token_key L a = Some h \<longleftrightarrow> getHashedToken L (fst a) = Inr h" for a :: "string \<times> feed_ref"
    by (simp add: token_key_def split: sum.split)
  ultimately show ?thesis by simp
qed

lemma invite_consumed_once_witness:
  "successes (\<lambda>a. getHashedToken sample_lib (fst a) = Inr (hex sample_token))
     (fst (run_all (\<lambda>a. Invites_Consume sample_lib (fst a) (snd a))
        [(b64_encode url_alphabet sample_token, dave), (b64_encode url_alphabet sample_token, bob)] invited_conn)) \<le> 1"
proof (rule invite_consumed_once [OF _ prod.collapse [symmetric]])
  show "db_wf (data invited_conn)"
    using keepsD [OF keeps_Invites(1) sample_invite_created] by simp
qed

text \<open>The token an invite is created with can be consumed: the invite that comes back was
  made at that time by its creator, the new member is in the room afterwards, and presenting the
  token again is answered with \<open>ErrNotFound\<close>.\<close>

lemma invite_create_then_consume:
  assumes wf: "db_wf (data c)" and clean: "faults c = []" and rand: "\<And>j. length (f j) = inviteTokenLength"
    and create: "Invites_Create L now f by c = (Inr tok, c1)" and k: "parse_ref L (ref_string k) \<noteq> None"
  shows "\<exists>iv c2. Invites_Consume L tok k c1 = (Inr iv, c2) \<and> i_at iv = now
     \<and> (by = -1 \<or> m_id (i_by iv) = by)
     \<and> exists_row (\<lambda>m. mb_pub_key m = k) (members (data c2))
     \<and> Invites_Consume L tok k' c2 = (Inl (Wrapped ''transaction failed, rolling back'' ErrNotFound), c2)"
proof -
  from create obtain j i where j: "tok = b64_encode url_alphabet (f j)"
    "data c1 = (data c)\<lparr>invites := add_row \<lparr>iv_hash = token_hash L (f j), iv_by = i, iv_at = now, iv_active = True\<rparr> (invites (data c))\<rparr>"
    "by = -1 \<or> i = by" by (rule Invites_Create_ok) (auto split: if_splits)
  let ?r = "\<lparr>iv_hash = token_hash L (f j), iv_by = i, iv_at = now, iv_active = True\<rparr>"
  have tok: "getHashedToken L tok = Inr (iv_hash ?r)" using rand j(1) by (simp add: getHashedToken_encode)
  have wf1: "db_wf (data c1)" using keepsD [OF keeps_Invites(1) create wf] .
  have clean1: "faults c1 = []" using keeps_cleanD [OF clean_Invites(1) create clean] .
  have row: "(seq (invites (data c)) + 1, ?r) \<in> set (rows (invites (data c1)))" using j(2) by simp
  from Invites_Consume_live [OF wf1 clean1 tok row _ k] obtain m d where
    run: "Invites_Consume L tok k c1 = (Inr \<lparr>i_id = seq (invites (data c)) + 1, i_by = creator_brief i m, i_at = now\<rparr>, c1\<lparr>data := d\<rparr>)"
    and d: "exists_row (\<lambda>x. mb_pub_key x = k) (members d)" "\<not> invite_live (iv_hash ?r) d" by auto
  have "Invites_Consume L tok k' (c1\<lparr>data := d\<rparr>) = (Inl (Wrapped ''transaction failed, rolling back'' ErrNotFound), c1\<lparr>data := d\<rparr>)"
    using Invites_Consume_dead [OF _ tok, of "c1\<lparr>data := d\<rparr>"] clean1 d(2) by simp
  then show ?thesis using run d j(3) by (auto simp: creator_brief_def)
qed

lemma invite_create_then_consume_witness:
  "\<exists>iv c2. Invites_Consume sample_lib (b64_encode url_alphabet sample_token) dave invited_conn = (Inr iv, c2) \<and> i_at iv = 7
     \<and> ((1::int) = -1 \<or> m_id (i_by iv) = 1) \<and> exists_row (\<lambda>m. mb_pub_key m = dave) (members (data c2))
     \<and> Invites_Consume sample_lib (b64_encode url_alphabet sample_token) bob c2 =
         (Inl (Wrapped ''transaction failed, rolling back'' ErrNotFound), c2)"
  by (rule invite_create_then_consume [OF _ _ _ sample_invite_created])
     (simp_all add: sample_token_def inviteTokenLength_def)

end
