(* ===== verification/AuthFallback.thy ===== *)
theory AuthFallback
  imports Invites
begin

text \<open>
  \<open>roomdb/sqlite/auth_fallback.go\<close>: login with an alias or feed reference and a password,
  setting the password directly or with a one-time reset token. Passwords are hashed by bcrypt,
  which is a parameter.
\<close>

subsection \<open>Operations\<close>

definition redirectPasswordAuthErr :: err where
  "redirectPasswordAuthErr = Redirect ''/fallback/login'' (Some BadLogin)"

text \<open>
  \<open>login_member\<close> is the first half of \<open>Check\<close>. When the lookup of the member fails for another
  reason than a missing row, the code goes on with a nil pointer.
\<close>

definition login_member :: "string \<Rightarrow> int64 act" where
  "login_member login =
     andthen (attempt (one (\<lambda>d. find_row (\<lambda>r. al_name r = login) (aliases d)))) (\<lambda>loginIsAlias.
     case loginIsAlias of
       Inr (_, r) \<Rightarrow> ret (al_member r)
     | Inl e \<Rightarrow>
         if \<not> errors_is e ErrNoRows then fail e
         else andthen (attempt (one (\<lambda>d. find_row (\<lambda>r. ref_string (mb_pub_key r) = login) (members d)))) (\<lambda>m.
              case m of
                Inr (i, _) \<Rightarrow> ret i
              | Inl e2 \<Rightarrow> if errors_is e2 ErrNoRows then fail redirectPasswordAuthErr
                         else fail (Panic ''nil pointer dereference'')))"

definition password_of :: "int64 \<Rightarrow> (int64 \<times> password_row) act" where
  "password_of mid = one (\<lambda>d. find_row (\<lambda>r. pw_member r = mid) (passwords d))"

definition Fallback_Check :: "lib \<Rightarrow> string \<Rightarrow> string \<Rightarrow> int64 act" where
  "Fallback_Check L login password =
     andthen (login_member login) (\<lambda>memberID.
     andthen (on_error (\<lambda>e. if errors_is e ErrNoRows then redirectPasswordAuthErr else e)
               (password_of memberID)) (\<lambda>(_, found).
     if bcrypt_ok L (pw_hash found) password then ret (pw_member found)
     else fail redirectPasswordAuthErr))"

text \<open>The upsert both setters contain, with the text each puts in front of an insert error.\<close>

definition upsert_password :: "string \<Rightarrow> bytes \<Rightarrow> int64 \<Rightarrow> unit act" where
  "upsert_password insert_text hashed memberID =
     andthen (attempt (password_of memberID)) (\<lambda>found.
     case found of
       Inl e \<Rightarrow>
         if \<not> errors_is e ErrNoRows then fail e
         else andthen (on_error (Wrapped insert_text)
                (exec ''models: unable to insert into fallback_passwords''
                   (insert_password \<lparr>pw_hash = hashed, pw_member = memberID\<rparr>))) (\<lambda>_. ret ())
     | Inr (i, _) \<Rightarrow>
         on_error (Wrapped ''auth/fallback: failed to update password for member'')
           (exec ''models: unable to update fallback_passwords row'' (update_password_hash i hashed)))"

definition Fallback_SetPassword :: "lib \<Rightarrow> bytes \<Rightarrow> int64 \<Rightarrow> string \<Rightarrow> unit act" where
  "Fallback_SetPassword L salt memberID password =
     (case bcrypt_hash L salt password of
        None \<Rightarrow> fail (Msg ''auth/fallback: failed to hash password for member'')
      | Some hashed \<Rightarrow>
          transact (upsert_password ''auth/fallback: failed to insert new user'' hashed memberID))"

definition use_reset :: "string \<Rightarrow> bytes \<Rightarrow> unit act" where
  "use_reset hashedTok hashed =
     andthen (on_error (\<lambda>e. if errors_is e ErrNoRows then Msg ''could not find the reset-token'' else e)
       (one (\<lambda>d. find_row (\<lambda>r. rs_active r \<and> rs_hash r = hashedTok) (resets d)))) (\<lambda>(i, resetEntry).
     andthen (upsert_password ''auth/fallback: failed to insert new fallback password for member''
                hashed (rs_for resetEntry)) (\<lambda>_.
     on_error (Wrapped ''auth/fallback: failed to invalidate the reset entry'')
       (exec ''models: unable to update fallback_reset_tokens row'' (update_reset_active i False))))"

definition Fallback_SetPasswordWithToken :: "lib \<Rightarrow> bytes \<Rightarrow> string \<Rightarrow> string \<Rightarrow> unit act" where
  "Fallback_SetPasswordWithToken L salt resetToken password =
     (case bcrypt_hash L salt password of
        None \<Rightarrow> fail (Msg ''auth/fallback: failed to hash password for member'')
      | Some hashed \<Rightarrow>
          (case getHashedToken L resetToken of
             Inl _ \<Rightarrow> fail (Msg ''invalid password reset token'')
           | Inr hashedTok \<Rightarrow> transact (use_reset hashedTok hashed)))"

definition insert_reset_row :: "lib \<Rightarrow> time \<Rightarrow> int64 \<Rightarrow> int64 \<Rightarrow> bytes \<Rightarrow> int64 act" where
  "insert_reset_row L now by for tokenBytes =
     exec ''models: unable to insert into fallback_reset_tokens''
       (insert_reset \<lparr>rs_hash = token_hash L tokenBytes, rs_by = by, rs_at = now, rs_for = for, rs_active = True\<rparr>)"

definition Fallback_CreateResetToken :: "lib \<Rightarrow> time \<Rightarrow> (nat \<Rightarrow> bytes) \<Rightarrow> int64 \<Rightarrow> int64 \<Rightarrow> string act" where
  "Fallback_CreateResetToken L now rand createdByMember forMember =
     andthen (transact (
       andthen (insert_fresh is_unique_error (insert_reset_row L now createdByMember forMember) rand 0 100) (\<lambda>inserted.
       case inserted of
         None \<Rightarrow> fail (Msg ''admindb: failed to generate an invite token in a reasonable amount of time'')
       | Some tokenBytes \<Rightarrow> ret tokenBytes))) (\<lambda>tokenBytes.
     ret (b64_encode url_alphabet tokenBytes))"

definition deleteConsumedResetTokens :: "unit act" where
  "deleteConsumedResetTokens =
     on_error (Wrapped ''admindb: failed to delete used reset tokens'')
       (exec ''models: unable to delete all from fallback_reset_tokens'' delete_inactive_resets)"

lemmas fallback_defs = login_member_def password_of_def Fallback_Check_def upsert_password_def
  Fallback_SetPassword_def use_reset_def Fallback_SetPasswordWithToken_def insert_reset_row_def
  Fallback_CreateResetToken_def deleteConsumedResetTokens_def

lemma keeps_fallback_parts [keeps_wf]:
  "keeps I (login_member s)" "keeps I (password_of i)" "keeps db_wf (upsert_password s h i)"
  "keeps db_wf (insert_reset_row L t i j b)"
  unfolding login_member_def password_of_def upsert_password_def insert_reset_row_def
  by (auto intro!: keeps_wf)

lemma keeps_Fallback [keeps_wf]:
  "keeps I (Fallback_Check L s p)" "keeps db_wf (Fallback_SetPassword L b i p)"
  "keeps db_wf (Fallback_SetPasswordWithToken L b s p)" "keeps db_wf (Fallback_CreateResetToken L t f i j)"
  "keeps db_wf deleteConsumedResetTokens" "keeps db_wf (use_reset h p)"
  unfolding Fallback_Check_def Fallback_SetPassword_def Fallback_SetPasswordWithToken_def
    Fallback_CreateResetToken_def deleteConsumedResetTokens_def use_reset_def
  by (auto intro!: keeps_wf)

lemma clean_fallback_parts [clean_intros]:
  "keeps_clean (login_member s)" "keeps_clean (password_of i)" "keeps_clean (upsert_password s h i)"
  "keeps_clean (insert_reset_row L t i j b)" "keeps_clean (use_reset h p)"
  unfolding login_member_def password_of_def upsert_password_def insert_reset_row_def use_reset_def
  by (auto intro!: clean_intros)

lemma clean_Fallback [clean_intros]:
  "keeps_clean (Fallback_Check L s p)" "keeps_clean (Fallback_SetPassword L b i p)"
  "keeps_clean (Fallback_SetPasswordWithToken L b s p)" "keeps_clean (Fallback_CreateResetToken L t f i j)"
  "keeps_clean deleteConsumedResetTokens"
  unfolding Fallback_Check_def Fallback_SetPassword_def Fallback_SetPasswordWithToken_def
    Fallback_CreateResetToken_def deleteConsumedResetTokens_def
  by (auto intro!: clean_intros)

subsection \<open>Facts the other components use\<close>

definition password_hash_of :: "int64 \<Rightarrow> db \<Rightarrow> bytes option" where
  "password_hash_of mid d = map_option (\<lambda>(_, r). pw_hash r) (find_row (\<lambda>r. pw_member r = mid) (passwords d))"

lemma login_member_ok:
  "login_member login c = (Inr i, c') \<Longrightarrow> data c' = data c \<and>
     ((\<exists>j r. (j, r) \<in> set (rows (aliases (data c))) \<and> al_name r = login \<and> al_member r = i) \<or>
      (\<exists>r. (i, r) \<in> set (rows (members (data c))) \<and> ref_string (mb_pub_key r) = login
           \<and> \<not> exists_row (\<lambda>r. al_name r = login) (aliases (data c))))"
proof -
  assume run: "login_member login c = (Inr i, c')"
  obtain x c1 where x: "one (\<lambda>d. find_row (\<lambda>r. al_name r = login) (aliases d)) c = (x, c1)"
    by (cases "one (\<lambda>d. find_row (\<lambda>r. al_name r = login) (aliases d)) c")
  show ?thesis
  proof (cases x)
    case (Inr jr)
    then show ?thesis using run x
      by (auto simp: login_member_def dest!: one_ok find_rowD split: prod.splits)
  next
    case (Inl e)
    have same: "data c1 = data c" using one_err x Inl by blast
    have e: "errors_is e ErrNoRows" using run x Inl by (auto simp: login_member_def split: if_splits)
    have none: "find_row (\<lambda>r. al_name r = login) (aliases (data c)) = None"
      using one_norows [OF x [unfolded Inl] e] by simp
    obtain z c2 where z: "one (\<lambda>d. find_row (\<lambda>r. ref_string (mb_pub_key r) = login) (members d)) c1 = (z, c2)"
      by (cases "one (\<lambda>d. find_row (\<lambda>r. ref_string (mb_pub_key r) = login) (members d)) c1")
    obtain y where y: "one (\<lambda>d. find_row (\<lambda>r. ref_string (mb_pub_key r) = login) (members d)) c1 = (Inr (i, y), c')"
    proof (cases z)
      case (Inl e2)
      then show ?thesis using run x e z \<open>x = Inl e\<close>
        by (simp add: login_member_def andthen_def attempt_def split: if_splits)
    next
      case (Inr jy)
      then show ?thesis using that run x e z \<open>x = Inl e\<close>
        by (cases jy) (simp add: login_member_def andthen_def attempt_def)
    qed
    show ?thesis using one_ok [OF y] same none by (auto simp: exists_row_iff dest: find_rowD)
  qed
qed

text \<open>Whatever path it takes, a login that succeeds returns the member the name belongs to, and
  the password matches the hash stored for that member.\<close>

lemma Fallback_Check_ok:
  "Fallback_Check L login password c = (Inr i, c') \<Longrightarrow>
     data c' = data c \<and> (\<exists>h. password_hash_of i (data c) = Some h \<and> bcrypt_ok L h password) \<and>
     ((\<exists>j r. (j, r) \<in> set (rows (aliases (data c))) \<and> al_name r = login \<and> al_member r = i) \<or>
      (\<exists>r. (i, r) \<in> set (rows (members (data c))) \<and> ref_string (mb_pub_key r) = login
           \<and> \<not> exists_row (\<lambda>r. al_name r = login) (aliases (data c))))"
proof -
  assume run: "Fallback_Check L login password c = (Inr i, c')"
  obtain mid c1 k r where lm: "login_member login c = (Inr mid, c1)" and
    pw: "password_of mid c1 = (Inr (k, r), c')" and ok: "bcrypt_ok L (pw_hash r) password" "i = pw_member r"
    using run by (auto simp: Fallback_Check_def split: if_splits)
  have found: "find_row (\<lambda>r. pw_member r = mid) (passwords (data c1)) = Some (k, r)" "data c' = data c1"
    using pw by (auto simp: password_of_def dest: one_ok)
  then have "mid = i" using ok by (auto dest: find_rowD)
  then show ?thesis using login_member_ok [OF lm] found ok by (simp add: password_hash_of_def)
qed

lemma password_hash_rows:
  "db_wf d \<Longrightarrow> password_hash_of i d = Some h \<longleftrightarrow> (\<exists>k r. (k, r) \<in> set (rows (passwords d)) \<and> pw_member r = i \<and> pw_hash r = h)"
proof -
  assume "db_wf d"
  then have "uniq pw_member (passwords d)" by (simp add: db_wf_def passwords_ok_def)
  then show ?thesis
    unfolding password_hash_of_def by (auto dest: find_rowD simp: find_row_key)
qed

lemma password_hash_insert:
  "\<not> exists_row (\<lambda>x. pw_member x = i) (passwords d) \<Longrightarrow>
   password_hash_of j (d\<lparr>passwords := add_row \<lparr>pw_hash = h, pw_member = i\<rparr> (passwords d)\<rparr>) =
     (if j = i then Some h else password_hash_of j d)"
  by (cases "j = i") (auto simp: password_hash_of_def find_row_add exists_row_iff split: option.split)

lemma password_hash_update:
  assumes wf: "db_wf d" and found: "find_row (\<lambda>r. pw_member r = i) (passwords d) = Some (k, r)"
  shows "password_hash_of j (d\<lparr>passwords := update_id k (\<lambda>r. r\<lparr>pw_hash := h\<rparr>) (passwords d)\<rparr>) =
     (if j = i then Some h else password_hash_of j d)"
proof -
  have kr: "(k, r) \<in> set (rows (passwords d))" "pw_member r = i" using found by (auto dest: find_rowD)
  have other: "l \<noteq> k" if "j \<noteq> i" "find_row (\<lambda>r. pw_member r = j) (passwords d) = Some (l, s)" for l s
    using find_rowD [OF that(2)] row_unique [OF _ kr(1), of s] that(1) kr(2) db_wf_parts(5) [OF wf]
    by (auto simp: passwords_ok_def)
  show ?thesis
    using found other by (cases "find_row (\<lambda>r. pw_member r = j) (passwords d)")
      (auto simp: password_hash_of_def find_row_update)
qed

lemma upsert_password_ok:
  assumes run: "upsert_password s h i c = (Inr u, c')" and wf: "db_wf (data c)"
  shows "(\<exists>pws. data c' = (data c)\<lparr>passwords := pws\<rparr>) \<and> i \<in> ids (members (data c)) \<and>
     (\<forall>j. password_hash_of j (data c') = (if j = i then Some h else password_hash_of j (data c)))"
proof -
  obtain found c1 where f: "password_of i c = (found, c1)" by (cases "password_of i c")
  show ?thesis
  proof (cases found)
    case (Inl e)
    have norows: "errors_is e ErrNoRows"
      using run f Inl by (auto simp: upsert_password_def andthen_def attempt_def split: if_splits)
    then have none: "find_row (\<lambda>r. pw_member r = i) (passwords (data c)) = None" "data c1 = data c"
      using one_norows [OF f [unfolded Inl password_of_def]] by auto
    obtain x where "exec ''models: unable to insert into fallback_passwords''
        (insert_password \<lparr>pw_hash = h, pw_member = i\<rparr>) c1 = (Inr x, c')"
      using run f Inl norows by (auto simp: upsert_password_def)
    then have "insert_password \<lparr>pw_hash = h, pw_member = i\<rparr> (data c) = Inr (x, data c')"
      using none(2) by (auto dest: exec_ok)
    from insert_ok(4) [OF this] none(1) show ?thesis
      by (auto simp: password_hash_insert exists_row_iff)
  next
    case (Inr kr)
    obtain k r where kr: "kr = (k, r)" by (cases kr)
    have found: "find_row (\<lambda>r. pw_member r = i) (passwords (data c)) = Some (k, r)" "data c1 = data c"
      using one_ok [OF f [unfolded Inr kr password_of_def]] by auto
    have "exec ''models: unable to update fallback_passwords row'' (update_password_hash k h) c1 = (Inr u, c')"
      using run f Inr kr by (auto simp: upsert_password_def)
    then have "update_password_hash k h (data c) = Inr (u, data c')" using found(2) by (auto dest: exec_ok)
    moreover have "i \<in> ids (members (data c))"
      using all_rowsD [of "\<lambda>r. pw_member r \<in> ids (members (data c))" "passwords (data c)" k r]
        db_wf_parts(5) [OF wf] find_rowD [OF found(1)] by (simp add: passwords_ok_def)
    ultimately show ?thesis
      using password_hash_update [OF wf found(1)] by (auto dest: update_ok)
  qed
qed

lemma upsert_password_clean:
  assumes clean: "faults c = []" and wf: "db_wf (data c)" and i: "i \<in> ids (members (data c))"
  shows "\<exists>d. upsert_password s h i c = (Inr (), c\<lparr>data := d\<rparr>)"
proof (cases "find_row (\<lambda>r. pw_member r = i) (passwords (data c))")
  case None
  then show ?thesis using clean i
    by (auto simp: upsert_password_def password_of_def andthen_def attempt_def on_error_def
        insert_password_def exists_row_iff ret_def)
next
  case (Some kr)
  then show ?thesis using clean
    by (cases kr) (auto simp: upsert_password_def password_of_def andthen_def attempt_def on_error_def
        update_password_hash_def ret_def)
qed

subsection \<open>Reset tokens are one-time tokens\<close>

definition reset_live :: "string \<Rightarrow> db \<Rightarrow> bool" where
  "reset_live h d \<longleftrightarrow> exists_row (\<lambda>r. rs_active r \<and> rs_hash r = h) (resets d)"

lemma spent_reset_dead:
  "db_wf d \<Longrightarrow> (i, r) \<in> set (rows (resets d)) \<Longrightarrow>
   reset_live h (d\<lparr>resets := update_id i (\<lambda>r. r\<lparr>rs_active := False\<rparr>) (resets d)\<rparr>) \<longleftrightarrow>
   reset_live h d \<and> h \<noteq> rs_hash r"
  using deactivate_row [of "resets d" rs_hash i r "\<lambda>r. r\<lparr>rs_active := False\<rparr>" rs_active h]
  by (simp add: reset_live_def db_wf_def resets_ok_def)

lemma use_reset_ok:
  assumes run: "use_reset h p c = (Inr u, c')" and wf: "db_wf (data c)"
  obtains i r where "(i, r) \<in> set (rows (resets (data c)))" "rs_active r" "rs_hash r = h"
    "\<And>j. password_hash_of j (data c') = (if j = rs_for r then Some p else password_hash_of j (data c))"
    "resets (data c') = update_id i (\<lambda>r. r\<lparr>rs_active := False\<rparr>) (resets (data c))"
    "members (data c') = members (data c)" "aliases (data c') = aliases (data c)"
proof -
  obtain i r c1 u1 c2 where
    find: "one (\<lambda>d. find_row (\<lambda>r. rs_active r \<and> rs_hash r = h) (resets d)) c = (Inr (i, r), c1)"
    and up: "upsert_password ''auth/fallback: failed to insert new fallback password for member'' p (rs_for r) c1 = (Inr u1, c2)"
    and off: "exec ''models: unable to update fallback_reset_tokens row'' (update_reset_active i False) c2 = (Inr u, c')"
    using run unfolding use_reset_def by clarsimp
  have ir: "(i, r) \<in> set (rows (resets (data c)))" "rs_active r \<and> rs_hash r = h" "data c1 = data c"
    using one_ok [OF find] by (auto dest: find_rowD)
  from upsert_password_ok [OF up] wf ir(3) obtain pws where pws: "data c2 = (data c)\<lparr>passwords := pws\<rparr>"
    "\<And>j. password_hash_of j (data c2) = (if j = rs_for r then Some p else password_hash_of j (data c))" by auto
  have "data c' = (data c2)\<lparr>resets := update_id i (\<lambda>r. r\<lparr>rs_active := False\<rparr>) (resets (data c2))\<rparr>"
    using update_ok(4) [OF exec_ok [OF off]] .
  then show ?thesis using that [of i r] ir pws by (simp add: password_hash_of_def)
qed

lemma SetPassword_err: "Fallback_SetPassword L salt i pw c = (Inl e, c') \<Longrightarrow> data c' = data c"
  unfolding Fallback_SetPassword_def by (auto split: option.splits dest: transact_rollback)

lemma SetPassword_ok:
  assumes wf: "db_wf (data c)" and run: "Fallback_SetPassword L salt i pw c = (Inr u, c')"
  shows "i \<in> ids (members (data c)) \<and> (\<exists>h. bcrypt_hash L salt pw = Some h \<and>
     (\<forall>j. password_hash_of j (data c') = (if j = i then Some h else password_hash_of j (data c))))"
proof -
  obtain h c1 c2 where h: "bcrypt_hash L salt pw = Some h" "data c1 = data c" "data c' = data c2"
    "upsert_password ''auth/fallback: failed to insert new user'' h i c1 = (Inr u, c2)"
    using run unfolding Fallback_SetPassword_def by (auto split: option.splits dest!: transact_ok)
  show ?thesis using upsert_password_ok [OF h(4)] wf h(1-3) by simp
qed

lemma SetPasswordWithToken_ok:
  assumes "Fallback_SetPasswordWithToken L salt tok pw c = (Inr u, c')"
  obtains h p c1 c2 where "getHashedToken L tok = Inr h" "bcrypt_hash L salt pw = Some p"
    "data c1 = data c" "data c' = data c2" "use_reset h p c1 = (Inr u, c2)"
  using assms unfolding Fallback_SetPasswordWithToken_def
  by (clarsimp split: option.splits sum.splits) (drule transact_ok, blast)

lemma SetPasswordWithToken_err:
  "Fallback_SetPasswordWithToken L salt tok pw c = (Inl e, c') \<Longrightarrow> data c' = data c"
  unfolding Fallback_SetPasswordWithToken_def
  by (auto split: option.splits sum.splits dest: transact_rollback)

lemma SetPasswordWithToken_spends:
  assumes wf: "db_wf (data c)" and run: "Fallback_SetPasswordWithToken L salt tok pw c = (Inr u, c')"
  shows "\<exists>h. getHashedToken L tok = Inr h \<and> reset_live h (data c) \<and>
     (\<forall>h'. reset_live h' (data c') \<longleftrightarrow> reset_live h' (data c) \<and> h' \<noteq> h)"
proof -
  obtain h p c1 c2 where h: "getHashedToken L tok = Inr h" "data c1 = data c" "data c' = data c2"
    "use_reset h p c1 = (Inr u, c2)" by (rule SetPasswordWithToken_ok [OF run])
  obtain i r where ir: "(i, r) \<in> set (rows (resets (data c)))" "rs_active r" "rs_hash r = h"
    "resets (data c2) = update_id i (\<lambda>r. r\<lparr>rs_active := False\<rparr>) (resets (data c))"
    by (rule use_reset_ok [OF h(4), unfolded h(2), OF wf]) (rule that; assumption)
  have "reset_live h' (data c') \<longleftrightarrow> reset_live h' (data c) \<and> h' \<noteq> h" for h'
    using spent_reset_dead [OF wf ir(1), of h'] ir h(3) by (simp add: reset_live_def)
  moreover have "reset_live h (data c)" using ir by (auto simp: reset_live_def exists_row_conv)
  ultimately show ?thesis using h(1) by blast
qed

lemma SetPasswordWithToken_sets:
  assumes wf: "db_wf (data c)" and run: "Fallback_SetPasswordWithToken L salt tok pw c = (Inr u, c')"
  shows "\<exists>i h. bcrypt_hash L salt pw = Some h \<and>
     (\<forall>j. password_hash_of j (data c') = (if j = i then Some h else password_hash_of j (data c)))"
proof -
  obtain h p c1 c2 where p: "getHashedToken L tok = Inr h" "bcrypt_hash L salt pw = Some p"
    and h: "data c1 = data c" "data c' = data c2" "use_reset h p c1 = (Inr u, c2)" by (rule SetPasswordWithToken_ok [OF run])
  obtain i where "\<forall>j. password_hash_of j (data c2) = (if j = i then Some p else password_hash_of j (data c))"
  proof (rule use_reset_ok [OF h(3), unfolded h(1), OF wf])
    fix i r
    assume "\<And>j. password_hash_of j (data c2) = (if j = rs_for r then Some p else password_hash_of j (data c))"
    then have "\<forall>j. password_hash_of j (data c2) = (if j = rs_for r then Some p else password_hash_of j (data c))" by blast
    then show thesis by (rule that)
  qed
  then show ?thesis using h(2) p(2) by auto
qed

interpretation reset_tokens: one_time_token db_wf reset_live "token_key L"
  "\<lambda>a. Fallback_SetPasswordWithToken L (fst (snd a)) (fst a) (snd (snd a))" for L
proof unfold_locales
  fix x show "keeps db_wf (Fallback_SetPasswordWithToken L (fst (snd x)) (fst x) (snd (snd x)))"
    by (rule keeps_Fallback)
next
  fix c x r c'
  assume "db_wf (data c)" "Fallback_SetPasswordWithToken L (fst (snd x)) (fst x) (snd (snd x)) c = (Inr r, c')"
  then show "\<exists>h. token_key L x = Some h \<and> reset_live h (data c) \<and> \<not> reset_live h (data c')"
    using SetPasswordWithToken_spends [of c L "fst (snd x)" "fst x" "snd (snd x)" r c'] by (auto simp: token_key_def)
next
  fix c x q c' h
  assume "db_wf (data c)" "Fallback_SetPasswordWithToken L (fst (snd x)) (fst x) (snd (snd x)) c = (q, c')"
    "\<not> reset_live h (data c)"
  then show "\<not> reset_live h (data c')"
    using SetPasswordWithToken_spends [of c L "fst (snd x)" "fst x" "snd (snd x)" _ c']
      SetPasswordWithToken_err [of L "fst (snd x)" "fst x" "snd (snd x)" c _ c']
    by (cases q) auto
qed

lemma insert_reset_row_ok:
  "insert_reset_row L t b f k c = (Inr x, c') \<Longrightarrow>
     data c' = (data c)\<lparr>resets := add_row \<lparr>rs_hash = token_hash L k, rs_by = b, rs_at = t, rs_for = f, rs_active = True\<rparr> (resets (data c))\<rparr>
     \<and> b \<in> ids (members (data c)) \<and> f \<in> ids (members (data c))"
  unfolding insert_reset_row_def by (auto dest!: exec_ok insert_ok(5))

lemma insert_reset_row_err: "insert_reset_row L t b f k c = (Inl e, c') \<Longrightarrow> data c' = data c"
  unfolding insert_reset_row_def by (auto dest!: exec_err)

lemma CreateResetToken_ok:
  assumes "Fallback_CreateResetToken L t f b m c = (Inr tok, c')"
  obtains j where "tok = b64_encode url_alphabet (f j)" "b \<in> ids (members (data c))" "m \<in> ids (members (data c))"
    "data c' = (data c)\<lparr>resets := add_row \<lparr>rs_hash = token_hash L (f j), rs_by = b, rs_at = t, rs_for = m, rs_active = True\<rparr> (resets (data c))\<rparr>"
proof -
  from assms obtain k c1 c3 where tr: "data c1 = data c" "data c' = data c3"
    and ins: "insert_fresh is_unique_error (insert_reset_row L t b m) f 0 100 c1 = (Inr (Some k), c3)"
    and tok: "tok = b64_encode url_alphabet k"
    unfolding Fallback_CreateResetToken_def by (auto dest!: transact_ok split: option.splits)
  have "\<exists>j c4 x. 0 \<le> j \<and> j < 0 + 100 \<and> k = f j \<and> data c4 = data c1 \<and> insert_reset_row L t b m k c4 = (Inr x, c3)"
    by (rule insert_fresh_ok [OF _ ins]) (rule insert_reset_row_err)
  then obtain j c4 x where j: "k = f j" "data c4 = data c1" "insert_reset_row L t b m k c4 = (Inr x, c3)" by auto
  from insert_reset_row_ok [OF j(3)] show ?thesis
    using that [of j] tr tok j by simp
qed

lemma use_reset_clean:
  assumes clean: "faults c = []" and wf: "db_wf (data c)" and ir: "(i, r) \<in> set (rows (resets (data c)))" "rs_active r"
  shows "\<exists>d. use_reset (rs_hash r) p c = (Inr (), c\<lparr>data := d\<rparr>)"
proof -
  have "uniq rs_hash (resets (data c))" using db_wf_parts(6) [OF wf] by (simp add: resets_ok_def)
  then have one: "\<exists>j s. find_row (\<lambda>x. rs_active x \<and> rs_hash x = rs_hash r) (resets (data c)) = Some (j, s)"
    using ir exists_row_conv [of "\<lambda>x. rs_active x \<and> rs_hash x = rs_hash r" "resets (data c)"]
    by (auto simp: exists_row_iff)
  then obtain j s where js: "find_row (\<lambda>x. rs_active x \<and> rs_hash x = rs_hash r) (resets (data c)) = Some (j, s)" by blast
  have "rs_for s \<in> ids (members (data c))"
    using all_rowsD [of "\<lambda>r. rs_by r \<in> ids (members (data c)) \<and> rs_for r \<in> ids (members (data c))" "resets (data c)" j s]
      db_wf_parts(6) [OF wf] find_rowD [OF js] by (simp add: resets_ok_def)
  from upsert_password_clean [OF clean wf this] obtain d where
    "upsert_password ''auth/fallback: failed to insert new fallback password for member'' p (rs_for s) c = (Inr (), c\<lparr>data := d\<rparr>)"
    by blast
  then show ?thesis using clean js
    by (auto simp: use_reset_def andthen_def on_error_def update_reset_active_def)
qed

lemma SetPasswordWithToken_clean:
  assumes "faults c = []" "db_wf (data c)" "(j, r) \<in> set (rows (resets (data c)))" "rs_active r"
    "getHashedToken L tok = Inr (rs_hash r)" "bcrypt_hash L salt pw = Some p"
  obtains d where "use_reset (rs_hash r) p c = (Inr (), c\<lparr>data := d\<rparr>)"
    "Fallback_SetPasswordWithToken L salt tok pw c = (Inr (), c\<lparr>data := d\<rparr>)"
  using use_reset_clean [OF assms(1-3), of p] assms(1,4-6)
  by (auto simp: Fallback_SetPasswordWithToken_def transact_clean clean_fallback_parts)

lemma Check_clean:
  assumes clean: "faults c = []" and wf: "db_wf (data c)" and m: "(i, m) \<in> set (rows (members (data c)))"
    and no_alias: "\<not> exists_row (\<lambda>a. al_name a = ref_string (mb_pub_key m)) (aliases (data c))"
    and pw: "password_hash_of i (data c) = Some h"
  shows "Fallback_Check L (ref_string (mb_pub_key m)) pw c =
           (if bcrypt_ok L h pw then Inr i else Inl redirectPasswordAuthErr, c)"
proof -
  have "uniq (\<lambda>r. ref_string (mb_pub_key r)) (members (data c))"
    using db_wf_parts(1) [OF wf] unfolding members_ok_def uniq_def by (simp add: distinct_map inj_on_def)
  then have "find_row (\<lambda>r. ref_string (mb_pub_key r) = ref_string (mb_pub_key m)) (members (data c)) = Some (i, m)"
    using m by (rule find_row_key) simp
  moreover have "find_row (\<lambda>r. al_name r = ref_string (mb_pub_key m)) (aliases (data c)) = None"
    using no_alias unfolding exists_row_iff by blast
  ultimately have login: "login_member (ref_string (mb_pub_key m)) c = (Inr i, c)"
    using clean by (simp add: login_member_def andthen_def attempt_def ret_def del: ref_string_inject)
  obtain k r where r: "find_row (\<lambda>r. pw_member r = i) (passwords (data c)) = Some (k, r)" "pw_hash r = h"
    using pw by (auto simp: password_hash_of_def)
  then have "pw_member r = i" by (auto dest: find_rowD)
  then show ?thesis
    using clean login r by (simp add: Fallback_Check_def password_of_def andthen_def on_error_def ret_def fail_def)
qed

subsection \<open>Properties\<close>

lemma CreateResetToken_clean:
  assumes "faults c = []" "by \<in> ids (members (data c))" "i \<in> ids (members (data c))"
    "\<not> exists_row (\<lambda>r. rs_hash r = token_hash L (f 0)) (resets (data c))"
  shows "Fallback_CreateResetToken L t f by i c = (Inr (b64_encode url_alphabet (f 0)),
     c\<lparr>data := (data c)\<lparr>resets := add_row \<lparr>rs_hash = token_hash L (f 0), rs_by = by, rs_at = t, rs_for = i, rs_active = True\<rparr> (resets (data c))\<rparr>\<rparr>)"
proof -
  let ?fn = "andthen (insert_fresh is_unique_error (insert_reset_row L t by i) f 0 100)
     (case_option (fail (Msg ''admindb: failed to generate an invite token in a reasonable amount of time'')) ret)"
  have "?fn c = (Inr (f 0), c\<lparr>data := (data c)\<lparr>resets :=
      add_row \<lparr>rs_hash = token_hash L (f 0), rs_by = by, rs_at = t, rs_for = i, rs_active = True\<rparr> (resets (data c))\<rparr>\<rparr>)"
    using assms by (simp add: andthen_def insert_reset_row_def insert_reset_def ret_def insert_fresh_hundred)
  moreover have "keeps_clean ?fn" by (auto intro!: clean_intros)
  ultimately show ?thesis
    using assms(1) by (simp add: Fallback_CreateResetToken_def andthen_def [of "transact _"] transact_clean_ok ret_def)
qed

definition reset_conn :: "db conn" where
  "reset_conn = sample_conn\<lparr>data := sample_db\<lparr>resets :=
     add_row \<lparr>rs_hash = hex sample_token, rs_by = 1, rs_at = 7, rs_for = 3, rs_active = True\<rparr> empty_table\<rparr>\<rparr>"

lemma sample_reset_created:
  "Fallback_CreateResetToken sample_lib 7 (\<lambda>_. sample_token) 1 3 sample_conn =
     (Inr (b64_encode url_alphabet sample_token), reset_conn)"
  by (simp add: CreateResetToken_clean exists_row_def token_hash_def reset_conn_def)

lemma sample_reset_row:
  "(1, \<lparr>rs_hash = hex sample_token, rs_by = 1, rs_at = 7, rs_for = 3, rs_active = True\<rparr>) \<in> set (rows (resets (data reset_conn)))"
  by (simp add: reset_conn_def add_row_def)

text \<open>C22: A password reset token sets a password at most once, whatever requests present it and
  however the database driver fails.\<close>

theorem reset_token_used_once:
  "db_wf (data c) \<Longrightarrow>
   run_all (\<lambda>a. Fallback_SetPasswordWithToken L (fst (snd a)) (fst a) (snd (snd a))) xs c = (rs, c') \<Longrightarrow>
   successes (\<lambda>a. getHashedToken L (fst a) = Inr h) rs \<le> 1"
proof -
  assume "db_wf (data c)"
    "run_all (\<lambda>a. Fallback_SetPasswordWithToken L (fst (snd a)) (fst a) (snd (snd a))) xs c = (rs, c')"
  then have "successes (\<lambda>a. token_key L a = Some h) rs \<le> 1" by (rule reset_tokens.spent_once)
  moreover have "token_key L a = Some h \<longleftrightarrow> getHashedToken L (fst a) = Inr h" for a :: "string \<times> bytes \<times> string"
    by (simp add: token_key_def split: sum.split)
  ultimately show ?thesis by simp
qed

lemma reset_token_used_once_witness:
  "successes (\<lambda>a. getHashedToken sample_lib (fst a) = Inr (hex sample_token))
     (fst (run_all (\<lambda>a. Fallback_SetPasswordWithToken sample_lib (fst (snd a)) (fst a) (snd (snd a)))
        [(b64_encode url_alphabet sample_token, ''s'', ''one''), (b64_encode url_alphabet sample_token, ''s'', ''two'')]
        reset_conn)) \<le> 1"
proof (rule reset_token_used_once [OF _ prod.collapse [symmetric]])
  show "db_wf (data reset_conn)" using keepsD [OF keeps_Fallback(4) sample_reset_created] by simp
qed

text \<open>C23: The reset flow: with the token created for a member the password can be set, after which
  that member logs in with its feed reference and the new password, and the passwords of all
  other members are what they were.\<close>

theorem reset_flow:
  assumes wf: "db_wf (data c)" and clean: "faults c = []" and rand: "\<And>j. length (f j) = inviteTokenLength"
    and create: "Fallback_CreateResetToken L now f by i c = (Inr tok, c1)"
    and hash: "bcrypt_hash L salt pw = Some p" and law: "bcrypt_accepts L"
    and m: "row i (members (data c)) = Some m"
    and no_alias: "\<not> exists_row (\<lambda>a. al_name a = ref_string (mb_pub_key m)) (aliases (data c))"
  shows "\<exists>c2. Fallback_SetPasswordWithToken L salt tok pw c1 = (Inr (), c2)
     \<and> Fallback_Check L (ref_string (mb_pub_key m)) pw c2 = (Inr i, c2)
     \<and> (\<forall>j. j = i \<or> password_hash_of j (data c2) = password_hash_of j (data c))"
proof -
  obtain j where j: "tok = b64_encode url_alphabet (f j)"
    "data c1 = (data c)\<lparr>resets := add_row \<lparr>rs_hash = token_hash L (f j), rs_by = by, rs_at = now, rs_for = i, rs_active = True\<rparr> (resets (data c))\<rparr>"
    by (rule CreateResetToken_ok [OF create]) (rule that; assumption)
  let ?r = "\<lparr>rs_hash = token_hash L (f j), rs_by = by, rs_at = now, rs_for = i, rs_active = True\<rparr>"
  have tok: "getHashedToken L tok = Inr (rs_hash ?r)" using rand j(1) by (simp add: getHashedToken_encode)
  have wf1: "db_wf (data c1)" using keepsD [OF keeps_Fallback(4) create wf] .
  have clean1: "faults c1 = []" using keeps_cleanD [OF clean_Fallback(4) create clean] .
  have row: "(seq (resets (data c)) + 1, ?r) \<in> set (rows (resets (data c1)))" using j(2) by simp
  obtain d where use: "use_reset (rs_hash ?r) p c1 = (Inr (), c1\<lparr>data := d\<rparr>)"
    and set: "Fallback_SetPasswordWithToken L salt tok pw c1 = (Inr (), c1\<lparr>data := d\<rparr>)"
    by (rule SetPasswordWithToken_clean [OF clean1 wf1 row _ tok hash]) simp
  let ?c2 = "c1\<lparr>data := d\<rparr>"
  have wf2: "db_wf d" using keepsD [OF keeps_Fallback(3) set wf1] by simp
  obtain k s where ks: "(k, s) \<in> set (rows (resets (data c1)))" "rs_hash s = rs_hash ?r"
    "\<And>j. password_hash_of j d = (if j = rs_for s then Some p else password_hash_of j (data c1))"
    "members d = members (data c1)" "aliases d = aliases (data c1)"
    by (rule use_reset_ok [OF use wf1]) (rule that; simp)
  have "rs_for s = i"
    using uniq_key_eq [of rs_hash "resets (data c1)" k s "seq (resets (data c)) + 1" ?r] ks(1,2) row
      db_wf_parts(6) [OF wf1] by (auto simp: resets_ok_def)
  with ks(3) j(2) have pws: "password_hash_of l d = (if l = i then Some p else password_hash_of l (data c))" for l
    by (simp add: password_hash_of_def)
  have "bcrypt_ok L p pw" using law hash by (auto simp: bcrypt_accepts_def)
  then have "Fallback_Check L (ref_string (mb_pub_key m)) pw ?c2 = (Inr i, ?c2)"
    using Check_clean [of ?c2 i m p L pw] clean1 wf2 row_Some_in [OF m] no_alias ks(4,5) j(2) pws by simp
  then show ?thesis using set pws by (intro exI [of _ ?c2]) simp
qed

lemma reset_flow_witness:
  "\<exists>c2. Fallback_SetPasswordWithToken sample_lib ''s'' (b64_encode url_alphabet sample_token) ''secret'' reset_conn = (Inr (), c2)
     \<and> Fallback_Check sample_lib (ref_string carol) ''secret'' c2 = (Inr 3, c2)
     \<and> (\<forall>j. j = 3 \<or> password_hash_of j (data c2) = password_hash_of j (data sample_conn))"
  using reset_flow [OF _ _ _ sample_reset_created, of "''s''" "''secret''" "''$secret''" "\<lparr>mb_role = RoleMember, mb_pub_key = carol\<rparr>"]
  by (simp add: sample_token_def inviteTokenLength_def exists_row_def) (simp add: row_def)

text \<open>A password login that succeeds names the member the alias or the feed reference belongs to, an
  alias taking precedence, and the password matches the hash stored for exactly that member.\<close>

lemma password_login_sound:
  "Fallback_Check L login password c = (Inr i, c') \<Longrightarrow>
     data c' = data c \<and> (\<exists>h. password_hash_of i (data c) = Some h \<and> bcrypt_ok L h password) \<and>
     ((\<exists>j r. (j, r) \<in> set (rows (aliases (data c))) \<and> al_name r = login \<and> al_member r = i) \<or>
      (\<exists>r. (i, r) \<in> set (rows (members (data c))) \<and> ref_string (mb_pub_key r) = login
           \<and> \<not> exists_row (\<lambda>r. al_name r = login) (aliases (data c))))"
  by (rule Fallback_Check_ok)

definition login_conn :: "db conn" where
  "login_conn = sample_conn\<lparr>data := sample_db\<lparr>passwords := add_row \<lparr>pw_hash = ''$secret'', pw_member = 3\<rparr> empty_table\<rparr>\<rparr>"

lemma password_login_sound_witness:
  "data login_conn = data login_conn \<and> (\<exists>h. password_hash_of 3 (data login_conn) = Some h \<and> bcrypt_ok sample_lib h ''secret'') \<and>
     ((\<exists>j r. (j, r) \<in> set (rows (aliases (data login_conn))) \<and> al_name r = ref_string carol \<and> al_member r = 3) \<or>
      (\<exists>r. (3, r) \<in> set (rows (members (data login_conn))) \<and> ref_string (mb_pub_key r) = ref_string carol
           \<and> \<not> exists_row (\<lambda>r. al_name r = ref_string carol) (aliases (data login_conn))))"
proof (rule password_login_sound)
  have "db_wf (data login_conn)"
    using password_statements_wf(1) [of sample_db "\<lparr>pw_hash = ''$secret'', pw_member = 3\<rparr>"]
    by (simp add: login_conn_def insert_password_def exists_row_def)
  from Check_clean [OF _ this, of 3 "\<lparr>mb_role = RoleMember, mb_pub_key = carol\<rparr>" "''$secret''" sample_lib "''secret''"]
  show "Fallback_Check sample_lib (ref_string carol) ''secret'' login_conn = (Inr 3, login_conn)"
    by (simp add: login_conn_def exists_row_def password_hash_of_def find_row_def add_row_def)
qed

text \<open>Nobody without a row in the members table gets a password, neither by setting it directly
  nor by any other statement: \<open>SetPassword\<close> for such an id, for example the -1 of a request that is
  not logged in, fails and changes nothing.\<close>

lemma set_password_needs_member:
  "db_wf (data c) \<Longrightarrow> i \<notin> ids (members (data c)) \<Longrightarrow> Fallback_SetPassword L salt i pw c = (r, c') \<Longrightarrow>
   \<not> is_ok r \<and> data c' = data c"
  using SetPassword_ok [of c L salt i pw _ c'] SetPassword_err [of L salt i pw c _ c'] by (cases r) auto

lemma set_password_needs_member_witness:
  "\<not> is_ok (fst (Fallback_SetPassword sample_lib ''s'' (- 1) ''secret'' sample_conn))
   \<and> data (snd (Fallback_SetPassword sample_lib ''s'' (- 1) ''secret'' sample_conn)) = data sample_conn"
  by (rule set_password_needs_member [OF _ _ prod.collapse [symmetric]]) simp_all

end
