(* ===== verification/Sessions.thy ===== *)
theory Sessions
  imports AuthFallback
begin

text \<open>
  \<open>roomdb/sqlite/auth_withssb.go\<close>: the session tokens of sign-in with SSB, with the token
  generator of \<open>internal/randutil\<close>, and the periodic clean-up of \<open>roomdb/sqlite/new.go\<close>. The
  table is seen as a map from tokens to a member and a time; \<open>session_store\<close> is the contract
  the login pages rely on.
\<close>

subsection \<open>Tokens\<close>

text \<open>
  \<open>randutil.String\<close> draws letters with \<open>math/rand\<close>; \<open>intn k\<close> is the value of the k-th call of
  \<open>rand.Intn(62)\<close>, a number below 62.
\<close>

definition alphabet :: string where
  "alphabet = ''abcdefghijklmnopqrstuvwxyzABCDEFGHIJKLMNOPQRSTUVWXYZ0123456789''"

definition randutil_String :: "(nat \<Rightarrow> nat) \<Rightarrow> nat \<Rightarrow> nat \<Rightarrow> string" where
  "randutil_String intn start n = map (\<lambda>i. alphabet ! intn (start + i)) [0..<n]"

definition siwssbTokenLength :: nat where "siwssbTokenLength = 32"

subsection \<open>Operations\<close>

definition insert_session_row :: "time \<Rightarrow> int64 \<Rightarrow> string \<Rightarrow> int64 act" where
  "insert_session_row now mid tok =
     exec ''models: unable to insert into SIWSSB_sessions''
       (insert_session \<lparr>ss_token = tok, ss_member = mid, ss_at = current_timestamp now\<rparr>)"

definition Sessions_CreateToken :: "time \<Rightarrow> (nat \<Rightarrow> nat) \<Rightarrow> int64 \<Rightarrow> string act" where
  "Sessions_CreateToken now intn memberID = transact (
     andthen (on_error norows_to_notfound (find_by_id members memberID)) (\<lambda>_.
     andthen (insert_fresh is_unique_error (insert_session_row now memberID)
                (\<lambda>k. randutil_String intn (k * siwssbTokenLength) siwssbTokenLength) 0 100) (\<lambda>inserted.
     case inserted of
       None \<Rightarrow> fail (Msg ''admindb: failed to generate a fresh token in a reasonable amount of time'')
     | Some tok \<Rightarrow> ret tok)))"

definition sessionTimeout :: time where "sessionTimeout = 24 * hour"

definition session_row :: "string \<Rightarrow> db \<Rightarrow> (int64 \<times> session_row) option" where
  "session_row tok d = find_row (\<lambda>r. ss_token r = tok) (sessions d)"

definition session_expired :: err where
  "session_expired = Msg ''sign-in with ssb: session expired''"

definition Sessions_CheckToken :: "time \<Rightarrow> string \<Rightarrow> int64 act" where
  "Sessions_CheckToken now token = transact (
     andthen (on_error norows_to_notfound (one (session_row token))) (\<lambda>(i, session).
     if now - ss_at session > sessionTimeout
     then andthen (exec ''models: unable to delete from SIWSSB_sessions'' (delete_session i)) (\<lambda>_.
          fail session_expired)
     else ret (ss_member session)))"

definition Sessions_RemoveToken :: "string \<Rightarrow> unit act" where
  "Sessions_RemoveToken token =
     exec ''models: unable to delete all from SIWSSB_sessions'' (delete_sessions (\<lambda>r. ss_token r = token))"

definition Sessions_WipeTokensForMember :: "int64 \<Rightarrow> unit act" where
  "Sessions_WipeTokensForMember memberID = transact (
     on_error norows_to_notfound
       (exec ''models: unable to delete all from SIWSSB_sessions'' (delete_sessions (\<lambda>r. ss_member r = memberID))))"

text \<open>
  \<open>date('now', '-1 day')\<close> is a date without a time of day, and the comparison is one of
  texts: a row is older when it was created before the midnight that began yesterday.
\<close>

definition midnight_yesterday :: "time \<Rightarrow> time" where
  "midnight_yesterday now = (now div (24 * hour) - 1) * (24 * hour)"

definition deleteExpiredSessions :: "time \<Rightarrow> unit act" where
  "deleteExpiredSessions now =
     on_error (Wrapped ''roomdb: failed to delete expired authWithSSB sessions'')
       (exec ''models: unable to delete all from SIWSSB_sessions''
          (delete_sessions (\<lambda>r. ss_at r < midnight_yesterday now)))"

definition cleanup :: "time \<Rightarrow> unit act" where
  "cleanup now =
     andthen (deleteExpiredSessions now) (\<lambda>_.
     andthen deleteConsumedInvites (\<lambda>_.
     deleteConsumedResetTokens))"

lemmas sessions_defs = Sessions_CreateToken_def Sessions_CheckToken_def Sessions_RemoveToken_def
  Sessions_WipeTokensForMember_def deleteExpiredSessions_def insert_session_row_def cleanup_def

lemma keeps_Sessions [keeps_wf]:
  "keeps db_wf (Sessions_CreateToken t f i)" "keeps db_wf (Sessions_CheckToken t s)"
  "keeps db_wf (Sessions_RemoveToken s)" "keeps db_wf (Sessions_WipeTokensForMember i)"
  "keeps db_wf (deleteExpiredSessions t)" "keeps db_wf (cleanup t)" "keeps db_wf (insert_session_row t i s)"
  unfolding sessions_defs by (auto intro!: keeps_wf)

lemma clean_Sessions [clean_intros]:
  "keeps_clean (Sessions_CreateToken t f i)" "keeps_clean (Sessions_CheckToken t s)"
  "keeps_clean (Sessions_RemoveToken s)" "keeps_clean (Sessions_WipeTokensForMember i)"
  "keeps_clean (deleteExpiredSessions t)" "keeps_clean (cleanup t)"
  unfolding sessions_defs by (auto intro!: clean_intros)

subsection \<open>The table as a map\<close>

definition session_map :: "db \<Rightarrow> string \<Rightarrow> (int64 \<times> time) option" where
  "session_map d tok = map_option (\<lambda>(_, r). (ss_member r, ss_at r)) (session_row tok d)"

lemma session_row_None: "session_row tok d = None \<longleftrightarrow> session_map d tok = None"
  by (simp add: session_map_def)

lemma session_map_add:
  "\<not> exists_row (\<lambda>x. ss_token x = tok) (sessions d) \<Longrightarrow>
   session_map (d\<lparr>sessions := add_row \<lparr>ss_token = tok, ss_member = i, ss_at = t\<rparr> (sessions d)\<rparr>) =
     (session_map d)(tok \<mapsto> (i, t)) \<and> session_map d tok = None"
  unfolding find_row_None [symmetric]
  by (auto simp: session_map_def session_row_def find_row_add fun_eq_iff split: option.splits)

lemma find_row_delete:
  "(\<And>r. P r \<Longrightarrow> \<not> Q r) \<Longrightarrow> find_row P (delete_rows Q t) = find_row P t"
  by (auto simp: find_row_def delete_rows_def intro!: find_filter_other)

lemma session_map_delete:
  assumes wf: "db_wf d"
  shows "session_map (d\<lparr>sessions := delete_rows Q (sessions d)\<rparr>) tok =
    (case session_row tok d of None \<Rightarrow> None | Some (_, r) \<Rightarrow> if Q r then None else session_map d tok)"
proof -
  have u: "uniq ss_token (sessions d)" using db_wf_parts(7) [OF wf] by (simp add: sessions_ok_def)
  then have u': "uniq ss_token (delete_rows Q (sessions d))" by simp
  show ?thesis
  proof (cases "session_row tok d")
    case None
    then have "\<not> exists_row (\<lambda>r. ss_token r = tok) (delete_rows Q (sessions d))"
      unfolding session_row_def exists_row_conv using exists_row_iff [of "\<lambda>r. ss_token r = tok" "sessions d"]
      by (auto simp: exists_row_conv)
    with None show ?thesis unfolding find_row_None [symmetric] by (simp add: session_map_def session_row_def)
  next
    case (Some ir)
    obtain i r where ir: "ir = (i, r)" by (cases ir)
    have r: "(i, r) \<in> set (rows (sessions d))" "ss_token r = tok"
      using Some ir by (auto simp: session_row_def dest: find_rowD)
    show ?thesis
    proof (cases "Q r")
      case True
      have "\<not> exists_row (\<lambda>r. ss_token r = tok) (delete_rows Q (sessions d))"
        using uniq_key_eq [OF u _ r(1)] r(2) True by (auto simp: exists_row_conv)
      then show ?thesis using Some ir True unfolding find_row_None [symmetric]
        by (simp add: session_map_def session_row_def)
    next
      case False
      then have "find_row (\<lambda>r. ss_token r = tok) (delete_rows Q (sessions d)) = Some (i, r)"
        using r by (intro find_row_key [OF u']) auto
      with Some ir False show ?thesis by (simp add: session_map_def session_row_def)
    qed
  qed
qed

lemma session_map_remove:
  "db_wf d \<Longrightarrow> session_map (d\<lparr>sessions := delete_rows (\<lambda>r. ss_token r = tok) (sessions d)\<rparr>) = (session_map d)(tok := None)"
  by (rule ext, simp add: session_map_delete)
     (auto simp: session_map_def session_row_def split: option.splits dest: find_rowD)

lemma session_map_wipe:
  "db_wf d \<Longrightarrow> session_map (d\<lparr>sessions := delete_rows (\<lambda>r. ss_member r = i) (sessions d)\<rparr>) tok =
     (case session_map d tok of None \<Rightarrow> None | Some (j, t) \<Rightarrow> if j = i then None else Some (j, t))"
  by (simp add: session_map_delete) (auto simp: session_map_def split: option.splits)

lemma session_map_expire:
  "db_wf d \<Longrightarrow> session_map (d\<lparr>sessions := delete_rows (\<lambda>r. ss_at r < u) (sessions d)\<rparr>) tok =
     (case session_map d tok of None \<Rightarrow> None | Some (j, t) \<Rightarrow> if t < u then None else Some (j, t))"
  by (simp add: session_map_delete) (auto simp: session_map_def split: option.splits)

subsection \<open>What the operations do to the map\<close>

lemma CreateToken_row:
  assumes run: "Sessions_CreateToken t f i c = (Inr tok, c')"
  shows "\<not> exists_row (\<lambda>r. ss_token r = tok) (sessions (data c))
    \<and> data c' = (data c)\<lparr>sessions := add_row \<lparr>ss_token = tok, ss_member = i, ss_at = current_timestamp t\<rparr> (sessions (data c))\<rparr>
    \<and> i \<in> ids (members (data c)) \<and> (\<exists>k. tok = randutil_String f k siwssbTokenLength)"
proof -
  let ?draw = "\<lambda>k. randutil_String f (k * siwssbTokenLength) siwssbTokenLength"
  from run obtain m c1 c2 c3 where tr: "data c1 = data c" "data c' = data c3"
    and m: "find_by_id members i c1 = (Inr m, c2)"
    and ins: "insert_fresh is_unique_error (insert_session_row t i) ?draw 0 100 c2 = (Inr (Some tok), c3)"
    unfolding Sessions_CreateToken_def by (auto dest!: transact_ok split: option.splits)
  have same: "data c2 = data c" "i \<in> ids (members (data c))"
    using find_by_id_ok [OF m] tr by (auto dest: row_Some_ids)
  have "\<exists>j c4 x. 0 \<le> j \<and> j < 0 + 100 \<and> tok = ?draw j \<and> data c4 = data c2 \<and> insert_session_row t i tok c4 = (Inr x, c3)"
    by (rule insert_fresh_ok [OF _ ins]) (auto simp: insert_session_row_def dest: exec_err)
  then obtain j c4 x where j: "tok = ?draw j" "data c4 = data c2" "insert_session_row t i tok c4 = (Inr x, c3)" by blast
  then have "insert_session \<lparr>ss_token = tok, ss_member = i, ss_at = current_timestamp t\<rparr> (data c) = Inr (x, data c3)"
    using same by (auto simp: insert_session_row_def dest: exec_ok)
  from insert_ok(6) [OF this] show ?thesis
    using tr same(2) j(1) by auto
qed

lemma CreateToken_ok:
  assumes run: "Sessions_CreateToken t f i c = (Inr tok, c')"
  shows "session_map (data c) tok = None \<and> session_map (data c') = (session_map (data c))(tok \<mapsto> (i, current_timestamp t))
    \<and> i \<in> ids (members (data c)) \<and> (\<exists>k. tok = randutil_String f k siwssbTokenLength)"
  using CreateToken_row [OF run] session_map_add [of tok "data c" i "current_timestamp t"] by simp

lemma CheckToken_ok:
  "Sessions_CheckToken t tok c = (Inr i, c') \<Longrightarrow>
     data c' = data c \<and> (\<exists>at. session_map (data c) tok = Some (i, at) \<and> t - at \<le> sessionTimeout)"
  unfolding Sessions_CheckToken_def
  by (auto simp: session_map_def split: if_splits dest!: transact_ok one_ok)

lemma CheckToken_err: "Sessions_CheckToken t tok c = (Inl e, c') \<Longrightarrow> data c' = data c"
  unfolding Sessions_CheckToken_def by (rule transact_rollback)

lemma CheckToken_clean:
  assumes clean: "faults c = []"
  shows "Sessions_CheckToken t tok c =
    (case session_map (data c) tok of
       None \<Rightarrow> Inl (Wrapped ''transaction failed, rolling back'' ErrNotFound)
     | Some (i, at) \<Rightarrow> if t - at > sessionTimeout then Inl (Wrapped ''transaction failed, rolling back'' session_expired)
                       else Inr i, c)"
proof -
  let ?fn = "andthen (on_error norows_to_notfound (one (session_row tok))) (\<lambda>(i, session).
     if t - ss_at session > sessionTimeout
     then andthen (exec ''models: unable to delete from SIWSSB_sessions'' (delete_session i)) (\<lambda>_. fail session_expired)
     else ret (ss_member session))"
  have k: "keeps_clean ?fn" by (auto intro!: clean_intros)
  show ?thesis unfolding Sessions_CheckToken_def transact_clean [OF k clean] using clean
    by (cases "session_row tok (data c)")
       (auto simp: andthen_def on_error_def session_map_def delete_session_def ret_def fail_def)
qed

lemma RemoveToken_ok:
  "db_wf (data c) \<Longrightarrow> Sessions_RemoveToken tok c = (Inr u, c') \<Longrightarrow>
   session_map (data c') = (session_map (data c))(tok := None)"
  unfolding Sessions_RemoveToken_def by (auto dest!: exec_ok delete_ok simp: session_map_remove)

lemma WipeTokens_ok:
  "db_wf (data c) \<Longrightarrow> Sessions_WipeTokensForMember i c = (Inr u, c') \<Longrightarrow>
   session_map (data c') tok =
     (case session_map (data c) tok of None \<Rightarrow> None | Some (j, t) \<Rightarrow> if j = i then None else Some (j, t))"
  unfolding Sessions_WipeTokensForMember_def
  by (auto dest!: transact_ok exec_ok delete_ok simp: session_map_wipe)

subsection \<open>The contract of the session service\<close>

locale session_store =
  fixes ok :: "'d \<Rightarrow> bool"
    and view :: "'d \<Rightarrow> string \<Rightarrow> (int64 \<times> time) option"
    and create :: "time \<Rightarrow> (nat \<Rightarrow> nat) \<Rightarrow> int64 \<Rightarrow> ('d, string) action"
    and check :: "time \<Rightarrow> string \<Rightarrow> ('d, int64) action"
    and remove :: "string \<Rightarrow> ('d, unit) action"
    and wipe :: "int64 \<Rightarrow> ('d, unit) action"
    and timeout :: time
    and stamp :: "time \<Rightarrow> time"
  assumes keeps_ok: "keeps ok (create t f i)" "keeps ok (remove tok)" "keeps ok (wipe i)"
    and create_law: "create t f i c = (Inr tok, c') \<Longrightarrow>
          view (data c) tok = None \<and> view (data c') = (view (data c))(tok \<mapsto> (i, stamp t))"
    and create_clean: "keeps_clean (create t f i)"
    and check_law: "check t tok c = (Inr i, c') \<Longrightarrow> \<exists>at. view (data c) tok = Some (i, at) \<and> t - at \<le> timeout"
    and check_live: "faults c = [] \<Longrightarrow> view (data c) tok = Some (i, at) \<Longrightarrow> t - at \<le> timeout \<Longrightarrow> check t tok c = (Inr i, c)"
    and remove_law: "ok (data c) \<Longrightarrow> remove tok c = (Inr u, c') \<Longrightarrow> view (data c') = (view (data c))(tok := None)"
    and wipe_law: "ok (data c) \<Longrightarrow> wipe i c = (Inr u, c') \<Longrightarrow> view (data c') tok =
          (case view (data c) tok of None \<Rightarrow> None | Some (j, t) \<Rightarrow> if j = i then None else Some (j, t))"
begin

lemma created_valid:
  "create t f i c = (Inr tok, c') \<Longrightarrow> faults c = [] \<Longrightarrow> now \<le> stamp t + timeout \<Longrightarrow> check now tok c' = (Inr i, c')"
  using create_law [of t f i c tok c'] keeps_cleanD [OF create_clean, of t f i c]
  by (intro check_live) auto

lemma created_others:
  "create t f i c = (Inr tok, c') \<Longrightarrow> check now tok' c' = (Inr j, c2) \<Longrightarrow> tok' \<noteq> tok \<Longrightarrow>
   \<exists>at. view (data c) tok' = Some (j, at)"
  using create_law [of t f i c tok c'] check_law [of now tok' c' j c2] by auto

lemma removed_invalid:
  "ok (data c) \<Longrightarrow> remove tok c = (Inr u, c') \<Longrightarrow> check now tok c' = (r, c2) \<Longrightarrow> \<not> is_ok r"
  using remove_law [of c tok u c'] check_law [of now tok c'] by (cases r) auto

lemma wiped_invalid:
  "ok (data c) \<Longrightarrow> wipe i c = (Inr u, c') \<Longrightarrow> check now tok c' = (Inr j, c2) \<Longrightarrow> j \<noteq> i"
  using wipe_law [of c i u c' tok] check_law [of now tok c' j c2] by (auto split: option.splits if_splits)

lemma wipe_keeps_others:
  "ok (data c) \<Longrightarrow> wipe i c = (Inr u, c') \<Longrightarrow> j \<noteq> i \<Longrightarrow>
   view (data c') tok = Some (j, at) \<longleftrightarrow> view (data c) tok = Some (j, at)"
  using wipe_law [of c i u c' tok] by (auto split: option.splits)

end

interpretation session_tokens: session_store db_wf session_map Sessions_CreateToken Sessions_CheckToken
  Sessions_RemoveToken Sessions_WipeTokensForMember sessionTimeout current_timestamp
proof unfold_locales
  show "keeps db_wf (Sessions_CreateToken t f i)" "keeps db_wf (Sessions_RemoveToken tok)"
    "keeps db_wf (Sessions_WipeTokensForMember i)" for t f i tok by (rule keeps_Sessions)+
qed (use CreateToken_ok CheckToken_ok in \<open>auto simp: CheckToken_clean RemoveToken_ok WipeTokens_ok intro: clean_Sessions\<close>)

lemma delete_inactive_live:
  "exists_row (\<lambda>r. act r \<and> k r = h) (delete_rows (\<lambda>r. \<not> act r) t) \<longleftrightarrow> exists_row (\<lambda>r. act r \<and> k r = h) t"
  "all_rows act (delete_rows (\<lambda>r. \<not> act r) t)"
  by (auto simp: exists_row_conv all_rows_def)

lemma midnight_yesterday_le: "midnight_yesterday now \<le> now - 24 * hour"
proof -
  have "now div (24 * hour) * (24 * hour) \<le> now"
    using div_mult_mod_eq [of now "24 * hour"] pos_mod_sign [of "24 * hour" now] by (simp add: time_units)
  then show ?thesis by (simp add: midnight_yesterday_def algebra_simps)
qed

lemma session_map_other [simp]:
  "session_map (d\<lparr>invites := iv\<rparr>) = session_map d" "session_map (d\<lparr>resets := rs\<rparr>) = session_map d"
  by (simp_all add: session_map_def session_row_def fun_eq_iff)

subsection \<open>Properties\<close>

lemma CreateToken_clean:
  assumes clean: "faults c = []" and i: "i \<in> ids (members (data c))"
    and new: "\<not> exists_row (\<lambda>r. ss_token r = randutil_String f 0 siwssbTokenLength) (sessions (data c))"
  shows "Sessions_CreateToken t f i c = (Inr (randutil_String f 0 siwssbTokenLength),
     c\<lparr>data := (data c)\<lparr>sessions := add_row \<lparr>ss_token = randutil_String f 0 siwssbTokenLength, ss_member = i, ss_at = current_timestamp t\<rparr> (sessions (data c))\<rparr>\<rparr>)"
proof -
  let ?fn = "andthen (on_error norows_to_notfound (find_by_id members i)) (\<lambda>_.
     andthen (insert_fresh is_unique_error (insert_session_row t i)
                (\<lambda>k. randutil_String f (k * siwssbTokenLength) siwssbTokenLength) 0 100)
     (case_option (fail (Msg ''admindb: failed to generate a fresh token in a reasonable amount of time'')) ret))"
  obtain m where "row i (members (data c)) = Some m" using i by (cases "row i (members (data c))") auto
  then have "?fn c = (Inr (randutil_String f 0 siwssbTokenLength), c\<lparr>data := (data c)\<lparr>sessions :=
      add_row \<lparr>ss_token = randutil_String f 0 siwssbTokenLength, ss_member = i, ss_at = current_timestamp t\<rparr> (sessions (data c))\<rparr>\<rparr>)"
    using assms by (simp add: andthen_def on_error_def insert_session_row_def insert_session_def ret_def insert_fresh_hundred)
  moreover have "keeps_clean ?fn" by (auto intro!: clean_intros simp: insert_session_row_def)
  ultimately show ?thesis
    using clean by (simp only: Sessions_CreateToken_def transact_clean_ok)
qed

definition sample_session :: string where
  "sample_session = randutil_String (\<lambda>k. k mod 62) 0 siwssbTokenLength"

definition session_conn :: "db conn" where
  "session_conn = sample_conn\<lparr>data := sample_db\<lparr>sessions :=
     add_row \<lparr>ss_token = sample_session, ss_member = 3, ss_at = 5 * second\<rparr> empty_table\<rparr>\<rparr>"

lemma sample_session_created:
  "Sessions_CreateToken (5 * second) (\<lambda>k. k mod 62) 3 sample_conn = (Inr sample_session, session_conn)"
  by (simp add: CreateToken_clean exists_row_def sample_session_def session_conn_def current_timestamp_def second_def)

lemma session_conn_simps [simp]: "db_wf (data session_conn)" "faults session_conn = []"
  "session_map (data session_conn) sample_session = Some (3, 5 * second)"
  using keepsD [OF keeps_Sessions(1) sample_session_created]
  by (simp_all add: session_conn_def session_map_def session_row_def find_row_add) (simp add: find_row_def)

text \<open>C24: A session token made for a member is accepted for that member as long as the timeout,
  counted from the second it was made in, has not passed.\<close>

theorem session_valid_until_timeout:
  "Sessions_CreateToken made f i c = (Inr tok, c') \<Longrightarrow> faults c = [] \<Longrightarrow>
   now \<le> current_timestamp made + sessionTimeout \<Longrightarrow> Sessions_CheckToken now tok c' = (Inr i, c')"
  by (rule session_tokens.created_valid)

lemma session_valid_until_timeout_witness:
  "Sessions_CheckToken (20 * hour) sample_session session_conn = (Inr 3, session_conn)"
  by (rule session_valid_until_timeout [OF sample_session_created])
     (simp_all add: current_timestamp_def sessionTimeout_def time_units)

text \<open>Logging out works: after \<open>RemoveToken\<close> no check of the token succeeds, and after
  \<open>WipeTokensForMember\<close> no check succeeds for that member, at any time and under any driver
  fault, while the sessions of the others stay.\<close>

lemma session_logout:
  "db_wf (data c) \<Longrightarrow>
   (Sessions_RemoveToken tok c = (Inr (), c') \<longrightarrow> \<not> is_ok (fst (Sessions_CheckToken now tok c'))) \<and>
   (Sessions_WipeTokensForMember i c = (Inr (), c'') \<longrightarrow>
      (\<forall>j tk. fst (Sessions_CheckToken now tk c'') = Inr j \<longrightarrow> j \<noteq> i) \<and>
      (\<forall>j tk at. j = i \<or> (session_map (data c'') tk = Some (j, at) \<longleftrightarrow> session_map (data c) tk = Some (j, at))))"
proof (intro conjI impI allI)
  assume "db_wf (data c)" "Sessions_RemoveToken tok c = (Inr (), c')"
  then show "\<not> is_ok (fst (Sessions_CheckToken now tok c'))"
    by (rule session_tokens.removed_invalid [OF _ _ prod.collapse [symmetric]])
next
  fix j tk assume "db_wf (data c)" "Sessions_WipeTokensForMember i c = (Inr (), c'')"
    and "fst (Sessions_CheckToken now tk c'') = Inr j"
  then show "j \<noteq> i" using session_tokens.wiped_invalid [of c i "()" c'' now tk j "snd (Sessions_CheckToken now tk c'')"]
    by (metis prod.collapse)
next
  fix j tk at assume "db_wf (data c)" "Sessions_WipeTokensForMember i c = (Inr (), c'')"
  then show "j = i \<or> (session_map (data c'') tk = Some (j, at) \<longleftrightarrow> session_map (data c) tk = Some (j, at))"
    using session_tokens.wipe_keeps_others [of c i _ c'' j tk at] by blast
qed

lemma session_logout_witness:
  "Sessions_RemoveToken sample_session session_conn = (Inr (), snd (Sessions_RemoveToken sample_session session_conn))
   \<and> \<not> is_ok (fst (Sessions_CheckToken (6 * second) sample_session (snd (Sessions_RemoveToken sample_session session_conn))))"
proof -
  have "Sessions_RemoveToken sample_session session_conn = (Inr (), snd (Sessions_RemoveToken sample_session session_conn))"
    by (simp add: Sessions_RemoveToken_def delete_sessions_def)
  then show ?thesis
    using session_logout [of session_conn sample_session "snd (Sessions_RemoveToken sample_session session_conn)" "6 * second"]
    by simp
qed

lemma cleanup_ok:
  "cleanup now c = (Inr u, c') \<Longrightarrow> data c' = (data c)\<lparr>sessions := delete_rows (\<lambda>r. ss_at r < midnight_yesterday now) (sessions (data c)),
      invites := delete_rows (\<lambda>r. \<not> iv_active r) (invites (data c)), resets := delete_rows (\<lambda>r. \<not> rs_active r) (resets (data c))\<rparr>"
  unfolding cleanup_def deleteExpiredSessions_def deleteConsumedInvites_def deleteConsumedResetTokens_def
  by (auto dest!: exec_ok delete_ok)

text \<open>The periodic clean-up removes every consumed invite and reset token, and nothing that can
  still be used: live invites and reset tokens stay, and so does every session within its
  timeout.\<close>

lemma cleanup_keeps_live:
  assumes wf: "db_wf (data c)" and run: "cleanup now c = (Inr (), c')"
  shows "all_rows iv_active (invites (data c')) \<and> all_rows rs_active (resets (data c'))
     \<and> invite_live h (data c') = invite_live h (data c) \<and> reset_live h (data c') = reset_live h (data c)
     \<and> (now - at > sessionTimeout \<or> (session_map (data c') tok = Some (i, at)) = (session_map (data c) tok = Some (i, at)))"
proof -
  let ?s = "delete_rows (\<lambda>r. ss_at r < midnight_yesterday now) (sessions (data c))"
  note d = cleanup_ok [OF run]
  have "now - at > sessionTimeout \<or> \<not> at < midnight_yesterday now"
    using midnight_yesterday_le [of now] by (auto simp: sessionTimeout_def)
  then have "now - at > sessionTimeout \<or> (session_map (data c') tok = Some (i, at)) = (session_map (data c) tok = Some (i, at))"
    using session_map_expire [OF wf, of "midnight_yesterday now" tok] by (auto simp: d split: option.splits)
  then show ?thesis
    by (simp add: d invite_live_def reset_live_def delete_inactive_live)
qed

lemma cleanup_keeps_live_witness:
  "session_map (data (snd (cleanup (20 * hour) session_conn))) sample_session = Some (3, 5 * second)"
proof -
  have "cleanup (20 * hour) session_conn = (Inr (), snd (cleanup (20 * hour) session_conn))"
    by (simp add: cleanup_def deleteExpiredSessions_def deleteConsumedInvites_def deleteConsumedResetTokens_def
        andthen_def on_error_def statement_defs)
  from cleanup_keeps_live [OF _ this, of "[]" "5 * second" sample_session 3]
  show ?thesis by (simp add: sessionTimeout_def time_units)
qed

text \<open>An expired session is refused, but the row stays: the deletion runs in the transaction
  that the expiry error then rolls back, so \<open>CheckToken\<close> never changes the stored data.\<close>

lemma expired_session_stays:
  "Sessions_CheckToken now tok c = (r, c') \<Longrightarrow> data c' = data c \<and>
   (faults c = [] \<and> session_map (data c) tok = Some (i, at) \<and> now - at > sessionTimeout \<longrightarrow>
      r = Inl (Wrapped ''transaction failed, rolling back'' session_expired))"
  by (cases r) (auto simp: CheckToken_clean dest: CheckToken_err CheckToken_ok)

lemma expired_session_stays_witness:
  "data (snd (Sessions_CheckToken (25 * hour) sample_session session_conn)) = data session_conn
   \<and> fst (Sessions_CheckToken (25 * hour) sample_session session_conn) =
       Inl (Wrapped ''transaction failed, rolling back'' session_expired)"
  using expired_session_stays [OF prod.collapse [symmetric], of "25 * hour" sample_session session_conn 3 "5 * second"]
  by (simp add: sessionTimeout_def time_units)

end
