(* ===== verification/Bridge.thy ===== *)
theory Bridge
  imports Errors "HOL-Library.AList"
begin

text \<open>
  \<open>internal/signinwithssb\<close>: the challenges of sign-in with SSB, the message a client signs
  (\<open>challenges.go\<close>), and the bridge that hands the outcome from the muxrpc handler to the page
  that waits for it (\<open>bridge.go\<close>). A waiting page listens on a channel, which receives one event
  and is closed. The calls are functions on the state; \<open>bridge_step\<close> has their critical sections
  as steps of a state in which a sender may hold the mutex.
\<close>

subsection \<open>Challenges\<close>

definition challengeLength :: nat where "challengeLength = 32"

definition DecodeChallengeString :: "string \<Rightarrow> bytes res" where
  "DecodeChallengeString c =
     (case b64_decode url_alphabet c of
        None \<Rightarrow> Inl (Wrapped ''invalid challenge encoding'' (Msg ''illegal base64 data''))
      | Some challengeBytes \<Rightarrow>
          if length challengeBytes \<noteq> challengeLength
          then Inl (Msg (''invalid challenge length: expected '' @ show_nat challengeLength @ '' but got '' @ show_nat (length challengeBytes)))
          else Inr challengeBytes)"

text \<open>\<open>buf\<close> is what \<open>crypto/rand\<close> put into the buffer.\<close>

definition GenerateChallenge :: "bytes \<Rightarrow> string" where
  "GenerateChallenge buf = b64_encode url_alphabet buf"

record client_payload =
  ClientID :: feed_ref
  ServerID :: feed_ref
  ClientChallenge :: string
  ServerChallenge :: string

definition createMessage :: "client_payload \<Rightarrow> bytes" where
  "createMessage cr =
     ''=http-auth-sign-in:'' @ ref_string (ServerID cr) @ '':'' @ ref_string (ClientID cr) @ '':''
     @ ServerChallenge cr @ '':'' @ ClientChallenge cr"

definition payload_sign :: "lib \<Rightarrow> bytes \<Rightarrow> client_payload \<Rightarrow> bytes" where
  "payload_sign L privateKey cr = ed_sign L privateKey (createMessage cr)"

definition payload_validate :: "lib \<Rightarrow> client_payload \<Rightarrow> bytes \<Rightarrow> bool" where
  "payload_validate L cr signature = ed_verify L (pub_key L (ClientID cr)) (createMessage cr) signature"

subsection \<open>The bridge\<close>

record event =
  ev_worked :: bool
  ev_token :: string
  ev_reason :: "err option"

text \<open>
  \<open>waiting\<close> maps a challenge to the number of its channel, \<open>channels\<close> is the number the next channel
  gets, and \<open>taken\<close> lists the events that were received, each with its channel.
\<close>

record bridge =
  waiting :: "(string \<times> nat) list"
  channels :: nat
  taken :: "(nat \<times> event) list"

definition NewSignalBridge :: bridge where
  "NewSignalBridge = \<lparr>waiting = [], channels = 0, taken = []\<rparr>"

definition used :: "string \<Rightarrow> bridge \<Rightarrow> bool" where
  "used c b \<longleftrightarrow> map_of (waiting b) c \<noteq> None"

definition add_session :: "string \<Rightarrow> bridge \<Rightarrow> bridge" where
  "add_session c b = b\<lparr>waiting := AList.update c (channels b) (waiting b), channels := channels b + 1\<rparr>"

text \<open>
  The loop draws challenges until one is not in use; \<open>draw k\<close> is what the k-th read of the random
  source fills the buffer with. \<open>None\<close> stands for a loop that does not end.
\<close>

partial_function (option) register_loop :: "(nat \<Rightarrow> bytes) \<Rightarrow> nat \<Rightarrow> bridge \<Rightarrow> (string \<times> bridge) option" where
  "register_loop draw k b =
     (let c = GenerateChallenge (draw k) in
      if used c b then register_loop draw (k + 1) b else Some (c, add_session c b))"

definition RegisterSession :: "(nat \<Rightarrow> bytes) \<Rightarrow> bridge \<Rightarrow> (string \<times> bridge) option" where
  "RegisterSession draw b = register_loop draw 0 b"

text \<open>What the goroutine of a registration does ten minutes later.\<close>

definition expire_session :: "string \<Rightarrow> bridge \<Rightarrow> bridge" where
  "expire_session c b = b\<lparr>waiting := AList.delete c (waiting b)\<rparr>"

definition GetEventChannel :: "string \<Rightarrow> bridge \<Rightarrow> nat option" where
  "GetEventChannel sc b = map_of (waiting b) sc"

text \<open>
  A send waits for the reader of the channel; \<open>reader ch\<close> says whether somebody reads from channel
  \<open>ch\<close> within the two minutes of the timer. The session ends either way.
\<close>

definition sendAndClose :: "(nat \<Rightarrow> bool) \<Rightarrow> string \<Rightarrow> event \<Rightarrow> bridge \<Rightarrow> err option \<times> bridge" where
  "sendAndClose reader sc evt b =
     (case map_of (waiting b) sc of
        None \<Rightarrow> (Some (Msg ''no such session''), b)
      | Some ch \<Rightarrow>
          (let closed = b\<lparr>waiting := AList.delete sc (waiting b)\<rparr> in
           if reader ch then (None, closed\<lparr>taken := taken b @ [(ch, evt)]\<rparr>)
           else (Some (Msg ''faled to send completed session''), closed)))"

definition SessionWorked :: "(nat \<Rightarrow> bool) \<Rightarrow> string \<Rightarrow> string \<Rightarrow> bridge \<Rightarrow> err option \<times> bridge" where
  "SessionWorked reader sc token = sendAndClose reader sc \<lparr>ev_worked = True, ev_token = token, ev_reason = None\<rparr>"

definition SessionFailed :: "(nat \<Rightarrow> bool) \<Rightarrow> string \<Rightarrow> err \<Rightarrow> bridge \<Rightarrow> err option \<times> bridge" where
  "SessionFailed reader sc reason = sendAndClose reader sc \<lparr>ev_worked = False, ev_token = [], ev_reason = Some reason\<rparr>"

subsection \<open>Steps under the mutex\<close>

text \<open>
  \<open>sender\<close> is the call that waits in its \<open>select\<close>; it holds the mutex. Every other call takes the
  mutex first.
\<close>

record bridge_state =
  bridge_of :: bridge
  sender :: "(string \<times> nat \<times> event) option"

datatype bridge_label =
    Registered string | Expired string | Looked string "nat option"
  | SendBegan string event | SendRefused string | Delivered | TimedOut

inductive bridge_step :: "bridge_state \<Rightarrow> bridge_label \<Rightarrow> bridge_state \<Rightarrow> bool" where
  registered: "sender s = None \<Longrightarrow> \<not> used c (bridge_of s) \<Longrightarrow>
     bridge_step s (Registered c) (s\<lparr>bridge_of := add_session c (bridge_of s)\<rparr>)"
| expired: "sender s = None \<Longrightarrow> bridge_step s (Expired c) (s\<lparr>bridge_of := expire_session c (bridge_of s)\<rparr>)"
| looked: "sender s = None \<Longrightarrow> bridge_step s (Looked c (GetEventChannel c (bridge_of s))) s"
| send_began: "sender s = None \<Longrightarrow> map_of (waiting (bridge_of s)) c = Some ch \<Longrightarrow>
     bridge_step s (SendBegan c e) (s\<lparr>sender := Some (c, ch, e)\<rparr>)"
| send_refused: "sender s = None \<Longrightarrow> map_of (waiting (bridge_of s)) c = None \<Longrightarrow> bridge_step s (SendRefused c) s"
| delivered: "sender s = Some (c, ch, e) \<Longrightarrow>
     bridge_step s Delivered (s\<lparr>bridge_of := (bridge_of s)\<lparr>waiting := AList.delete c (waiting (bridge_of s)),
       taken := taken (bridge_of s) @ [(ch, e)]\<rparr>, sender := None\<rparr>)"
| timed_out: "sender s = Some (c, ch, e) \<Longrightarrow>
     bridge_step s TimedOut (s\<lparr>bridge_of := (bridge_of s)\<lparr>waiting := AList.delete c (waiting (bridge_of s))\<rparr>, sender := None\<rparr>)"

inductive_cases bridge_stepE: "bridge_step s l t"

definition bridge_init :: "bridge_state \<Rightarrow> bool" where
  "bridge_init s \<longleftrightarrow> s = \<lparr>bridge_of = NewSignalBridge, sender = None\<rparr>"

text \<open>
  Channels are numbered once: those that wait and those that received an event are different, and
  none received two.
\<close>

definition bridge_ok :: "bridge \<Rightarrow> bool" where
  "bridge_ok b \<longleftrightarrow> distinct (map fst (waiting b)) \<and> distinct (map snd (waiting b) @ map fst (taken b))
     \<and> (\<forall>ch \<in> set (map snd (waiting b) @ map fst (taken b)). ch < channels b)"

definition state_ok :: "bridge_state \<Rightarrow> bool" where
  "state_ok s \<longleftrightarrow> bridge_ok (bridge_of s) \<and>
     (case sender s of None \<Rightarrow> True | Some (c, ch, e) \<Rightarrow> map_of (waiting (bridge_of s)) c = Some ch)"

subsection \<open>Facts\<close>

lemma decode_generate: "length buf = challengeLength \<Longrightarrow> DecodeChallengeString (GenerateChallenge buf) = Inr buf"
  by (simp add: DecodeChallengeString_def GenerateChallenge_def b64_decode_encode)

lemma GenerateChallenge_inject [simp]: "GenerateChallenge a = GenerateChallenge b \<longleftrightarrow> a = b"
  unfolding GenerateChallenge_def using b64_decode_encode [of url_alphabet] by (metis option.inject std_or_url_simps(2))

lemma used_iff: "used c b \<longleftrightarrow> c \<in> set (map fst (waiting b))"
  by (simp add: used_def map_of_eq_None_iff)

lemma register_loop_finds:
  "\<not> used (GenerateChallenge (draw (k + n))) b \<Longrightarrow>
   \<exists>j. k \<le> j \<and> j \<le> k + n \<and> \<not> used (GenerateChallenge (draw j)) b
     \<and> register_loop draw k b = Some (GenerateChallenge (draw j), add_session (GenerateChallenge (draw j)) b)"
proof (induction n arbitrary: k)
  case 0
  then show ?case by (intro exI [of _ k]) (simp add: register_loop.simps [of draw k] Let_def)
next
  case (Suc n)
  show ?case
  proof (cases "used (GenerateChallenge (draw k)) b")
    case True
    then have "register_loop draw k b = register_loop draw (k + 1) b" by (simp add: register_loop.simps [of draw k] Let_def)
    with Suc.IH [of "k + 1"] Suc.prems show ?thesis by (metis Suc_eq_plus1 Suc_leD add_Suc_shift)
  next
    case False
    then show ?thesis by (intro exI [of _ k]) (simp add: register_loop.simps [of draw k] Let_def)
  qed
qed

lemma update_new: "k \<notin> set (map fst al) \<Longrightarrow> AList.update k v al = al @ [(k, v)]"
  by (induction al) auto

lemma map_snd_delete:
  "distinct (map fst al) \<Longrightarrow> distinct (map snd al) \<Longrightarrow> map_of al c = Some ch \<Longrightarrow>
   distinct (map snd (AList.delete c al)) \<and> set (map snd (AList.delete c al)) = set (map snd al) - {ch}"
proof (induction al)
  case (Cons x al)
  show ?case
  proof (cases "fst x = c")
    case True
    then have "AList.delete c (x # al) = AList.delete c al" by (cases x) simp
    moreover have "AList.delete c al = al"
      using Cons.prems(1) True by (auto intro: AList.delete_id)
    moreover have "snd x = ch" using Cons.prems(3) True by (cases x) simp
    ultimately show ?thesis using Cons.prems(2) by auto
  next
    case False
    then have "map_of al c = Some ch" using Cons.prems(3) by (cases x) auto
    from map_of_SomeD [OF this] have "snd x \<noteq> ch" using Cons.prems(2) by (auto simp: image_iff)
    with False Cons \<open>map_of al c = Some ch\<close> show ?thesis by (cases x) auto
  qed
qed simp

lemma bridge_ok_add: "bridge_ok b \<Longrightarrow> \<not> used c b \<Longrightarrow> bridge_ok (add_session c b)"
proof -
  assume ok: "bridge_ok b" and "\<not> used c b"
  then have "waiting (add_session c b) = waiting b @ [(c, channels b)]"
    by (simp add: add_session_def used_iff update_new)
  then show ?thesis using ok \<open>\<not> used c b\<close>
    by (auto simp: bridge_ok_def add_session_def used_iff less_Suc_eq)
qed

lemma bridge_ok_expire: "bridge_ok b \<Longrightarrow> bridge_ok (expire_session c b)"
proof (cases "map_of (waiting b) c")
  case None
  assume ok: "bridge_ok b"
  from None have "AList.delete c (waiting b) = waiting b" by (simp add: map_of_eq_None_iff AList.delete_id)
  with ok show ?thesis by (simp add: expire_session_def)
next
  case (Some ch)
  assume ok: "bridge_ok b"
  then show ?thesis using map_snd_delete [OF _ _ Some]
    by (auto simp: bridge_ok_def expire_session_def distinct_delete)
qed

lemma bridge_ok_deliver:
  assumes ok: "bridge_ok b" and ch: "map_of (waiting b) c = Some ch"
  shows "bridge_ok (expire_session c b\<lparr>taken := taken b @ [(ch, e)]\<rparr>)"
proof -
  have "ch \<in> set (map snd (waiting b))" using map_of_SomeD [OF ch] by force
  then show ?thesis using ok map_snd_delete [OF _ _ ch]
    by (auto simp: bridge_ok_def expire_session_def distinct_delete)
qed

interpretation bridge_inv: inductive_invariant bridge_init bridge_step state_ok
proof
  fix s assume "bridge_init s"
  then show "state_ok s" by (simp add: bridge_init_def state_ok_def bridge_ok_def NewSignalBridge_def)
next
  fix s l t assume ok: "state_ok s" and "bridge_step s l t"
  from this(2) show "state_ok t"
    by (cases rule: bridge_step.cases)
       (use ok in \<open>auto simp: state_ok_def expire_session_def [symmetric]
          intro: bridge_ok_add bridge_ok_expire bridge_ok_deliver\<close>)
qed

subsection \<open>Properties\<close>



text \<open>However the calls interleave, a channel receives at most one event, and a session that still
  waits has received none; while a sender waits for its reader nothing but the end of that send can
  happen: registrations, look-ups, expirations and other senders all wait for the mutex.\<close>

lemma one_event_per_session:
  assumes "reach bridge_init bridge_step s"
  shows "distinct (map fst (taken (bridge_of s)))
    \<and> (GetEventChannel c (bridge_of s) = Some ch \<longrightarrow> ch \<notin> fst ` set (taken (bridge_of s)))
    \<and> (sender s \<noteq> None \<and> bridge_step s l t \<longrightarrow> (l = Delivered \<or> l = TimedOut) \<and> sender t = None)"
proof -
  have ok: "bridge_ok (bridge_of s)" using bridge_inv.reach_inv [OF assms] by (simp add: state_ok_def)
  have "ch \<notin> fst ` set (taken (bridge_of s))" if "GetEventChannel c (bridge_of s) = Some ch"
  proof -
    have "ch \<in> set (map snd (waiting (bridge_of s)))"
      using map_of_SomeD [OF that [unfolded GetEventChannel_def]] by (force simp: image_iff)
    moreover have "set (map snd (waiting (bridge_of s))) \<inter> set (map fst (taken (bridge_of s))) = {}"
      using ok unfolding bridge_ok_def distinct_append by blast
    ultimately show ?thesis by auto
  qed
  then show ?thesis using ok by (auto simp: bridge_ok_def elim: bridge_stepE)
qed

definition delivered_once :: bridge_state where
  "delivered_once = \<lparr>bridge_of = \<lparr>waiting = [], channels = 1, taken = [(0, \<lparr>ev_worked = True, ev_token = ''t'', ev_reason = None\<rparr>)]\<rparr>, sender = None\<rparr>"

lemma delivered_once_reached: "reach bridge_init bridge_step delivered_once"
proof -
  let ?s0 = "\<lparr>bridge_of = NewSignalBridge, sender = None\<rparr>" and ?e = "\<lparr>ev_worked = True, ev_token = ''t'', ev_reason = None\<rparr>"
  let ?s1 = "\<lparr>bridge_of = add_session ''c'' NewSignalBridge, sender = None\<rparr>"
  let ?s2 = "?s1\<lparr>sender := Some (''c'', 0, ?e)\<rparr>"
  have "reach bridge_init bridge_step ?s0" by (rule reach_init) (simp add: bridge_init_def)
  moreover have "bridge_step ?s0 (Registered ''c'') ?s1" using registered [of ?s0 "''c''"] by (simp add: used_def NewSignalBridge_def)
  moreover have "bridge_step ?s1 (SendBegan ''c'' ?e) ?s2"
    using send_began [of ?s1 "''c''" 0 ?e] by (simp add: add_session_def NewSignalBridge_def)
  moreover have "bridge_step ?s2 Delivered delivered_once"
    using delivered [of ?s2 "''c''" 0 ?e] by (simp add: add_session_def NewSignalBridge_def delivered_once_def)
  ultimately show ?thesis by (blast intro: reach_step)
qed

lemma one_event_per_session_witness: "distinct (map fst (taken (bridge_of delivered_once)))"
  using one_event_per_session [OF delivered_once_reached] by blast

text \<open>A challenge the room makes decodes to the bytes drawn; a payload signed with the client's private
  key validates; and the signed message determines the room, the client and both challenges, as long
  as none of the first three holds a colon, so a signature cannot be taken for another sign-in.\<close>

lemma challenge_sign_validate:
  assumes "length buf = challengeLength" and "sign_verifies L" and "pub_key L (ClientID p) = ed_public L k"
    and c: "CHR '':'' \<notin> set (ref_string (ServerID p) @ ref_string (ClientID p) @ ServerChallenge p)"
      "CHR '':'' \<notin> set (ref_string (ServerID q) @ ref_string (ClientID q) @ ServerChallenge q)"
  shows "DecodeChallengeString (GenerateChallenge buf) = Inr buf \<and> payload_validate L p (payload_sign L k p)
    \<and> (createMessage p = createMessage q \<longleftrightarrow> p = q)"
proof -
  have "p = q" if m: "createMessage p = createMessage q"
  proof -
    let ?tail = "\<lambda>p. ServerChallenge p @ CHR '':'' # ClientChallenge p"
    have "ref_string (ServerID p) @ CHR '':'' # ref_string (ClientID p) @ CHR '':'' # ?tail p
       = ref_string (ServerID q) @ CHR '':'' # ref_string (ClientID q) @ CHR '':'' # ?tail q"
      using m by (simp add: createMessage_def)
    from split_at_sep [OF this] c have 1: "ServerID p = ServerID q"
      and r: "ref_string (ClientID p) @ CHR '':'' # ?tail p = ref_string (ClientID q) @ CHR '':'' # ?tail q" by auto
    from split_at_sep [OF r] c have 2: "ClientID p = ClientID q" and r': "?tail p = ?tail q" by auto
    from split_at_sep [OF r'] c 1 2 show ?thesis by (cases p; cases q) auto
  qed
  then show ?thesis using assms(1-3) by (auto simp: decode_generate payload_validate_def payload_sign_def sign_verifies_def)
qed

definition sample_payload :: client_payload where
  "sample_payload = \<lparr>ClientID = FeedRef ''@bob'', ServerID = FeedRef ''@room'', ClientChallenge = ''cc'', ServerChallenge = ''sc''\<rparr>"

lemma challenge_sign_validate_witness:
  "DecodeChallengeString (GenerateChallenge (replicate 32 CHR ''x'')) = Inr (replicate 32 CHR ''x'')
   \<and> payload_validate sample_lib sample_payload (payload_sign sample_lib ''bob'' sample_payload)
   \<and> (createMessage sample_payload = createMessage (sample_payload\<lparr>ClientChallenge := ''other''\<rparr>) \<longleftrightarrow>
      sample_payload = sample_payload\<lparr>ClientChallenge := ''other''\<rparr>)"
  by (rule challenge_sign_validate) (simp_all add: sample_payload_def challengeLength_def)

end
