(* ===== verification/NetInfo.thy ===== *)
theory NetInfo
  imports Errors
begin

text \<open>
  \<open>internal/network/interface.go\<close>: the addresses of the room and of its peers. A connection's
  address is the chain \<open>netwrap\<close> builds up; what matters of it is the text of the secret-handshake
  address in the chain, if there is one.
\<close>

record address =
  shs_addr :: "string option"

definition GetFeedRefFromAddr :: "lib \<Rightarrow> address \<Rightarrow> feed_ref res" where
  "GetFeedRefFromAddr L addr =
     (case shs_addr addr of
        None \<Rightarrow> Inl (Msg ''no shs-bs address found'')
      | Some s \<Rightarrow> (case parse_ref L s of None \<Rightarrow> Inl (Msg ''refs: invalid reference'') | Some r \<Rightarrow> Inr r))"

lemma GetFeedRefFromAddr_ok: "GetFeedRefFromAddr L a = Inr r \<Longrightarrow> parse_canonical L \<Longrightarrow> parse_ref L (ref_string r) = Some r"
  by (auto simp: GetFeedRefFromAddr_def parse_canonical_def split: option.splits)

subsection \<open>The room's own addresses\<close>

record server_details =
  RoomID :: feed_ref
  ListenAddressMUXRPC :: string
  Domain :: string
  PortHTTPS :: nat
  UseSubdomainForAliases :: bool
  Development :: bool

text \<open>
  \<open>url.URL.String\<close> writes scheme, host and path; bytes the part does not allow are written as a
  percent sign and two upper-case hexadecimal digits.
\<close>

definition unreserved :: "char \<Rightarrow> bool" where
  "unreserved c \<longleftrightarrow> (CHR ''a'' \<le> c \<and> c \<le> CHR ''z'') \<or> (CHR ''A'' \<le> c \<and> c \<le> CHR ''Z'') \<or> (CHR ''0'' \<le> c \<and> c \<le> CHR ''9'')
     \<or> List.member ''-_.~'' c"

definition path_char :: "char \<Rightarrow> bool" where
  "path_char c \<longleftrightarrow> unreserved c \<or> List.member ''$&+,/:;=@'' c"

definition host_char :: "char \<Rightarrow> bool" where
  "host_char c \<longleftrightarrow> unreserved c \<or> List.member (CHR 0x22 # CHR 0x27 # ''!$&()*+,;=:[]<>'') c"

definition hex_upper :: "nat \<Rightarrow> char" where
  "hex_upper d = (if d < 10 then char_of (48 + d) else char_of (55 + d))"

definition percent :: "char \<Rightarrow> string" where
  "percent c = (let n = byte_nat c in [CHR ''%'', hex_upper (n div 16), hex_upper (n mod 16)])"

definition escape :: "(char \<Rightarrow> bool) \<Rightarrow> string \<Rightarrow> string" where
  "escape ok s = concat (map (\<lambda>c. if ok c then [c] else percent c) s)"

definition url_string :: "string \<Rightarrow> string \<Rightarrow> string \<Rightarrow> string" where
  "url_string scheme host path = scheme @ ''://'' @ escape host_char host @ escape path_char path"

definition URLForAlias :: "server_details \<Rightarrow> string \<Rightarrow> string" where
  "URLForAlias sed a =
     (if Development sed then url_string ''http'' (''localhost:'' @ show_nat (PortHTTPS sed)) (''/alias/'' @ a)
      else if UseSubdomainForAliases sed then url_string ''https'' (a @ ''.'' @ Domain sed) []
      else url_string ''https'' (Domain sed) (''/alias/'' @ a))"

text \<open>\<open>tcp_port\<close> stands for \<open>net.ResolveTCPAddr\<close>, which asks the system's resolver.\<close>

definition MultiserverAddress :: "lib \<Rightarrow> (string \<Rightarrow> nat option) \<Rightarrow> server_details \<Rightarrow> string res" where
  "MultiserverAddress L tcp_port sed =
     (case tcp_port (ListenAddressMUXRPC sed) of
        None \<Rightarrow> Inl (Panic ''address does not resolve'')
      | Some port \<Rightarrow> Inr (''net:'' @ Domain sed @ '':'' @ show_nat port @ ''~shs:''
                          @ b64_encode std_alphabet (pub_key L (RoomID sed))))"

lemma escape_id: "list_all ok s \<Longrightarrow> escape ok s = s"
  by (induction s) (simp_all add: escape_def)

lemma escape_append: "escape ok (s @ t) = escape ok s @ escape ok t"
  by (simp add: escape_def)

end
