(* ===== verification/SignIn.thy ===== *)
theory SignIn
  imports Sessions Bridge NetInfo
begin

text \<open>
  \<open>muxrpc/handlers/signinwithssb/withssb.go\<close>: a member's client sends the solution of a challenge
  and gets a session token made, which the bridge hands to the waiting page; a member can also take
  all its sessions back. \<open>unmarshal\<close> is \<open>json.Unmarshal\<close> into a list of texts.
\<close>

record signin_handler =
  sg_self :: feed_ref
  sg_lib :: lib

definition solution_payload :: "signin_handler \<Rightarrow> feed_ref \<Rightarrow> string list \<Rightarrow> client_payload" where
  "solution_payload h clientID params =
     \<lparr>ClientID = clientID, ServerID = sg_self h, ClientChallenge = params ! 1, ServerChallenge = params ! 0\<rparr>"

definition SendSolution ::
  "signin_handler \<Rightarrow> (string \<Rightarrow> string list res) \<Rightarrow> time \<Rightarrow> (nat \<Rightarrow> nat) \<Rightarrow> (nat \<Rightarrow> bool) \<Rightarrow> address \<Rightarrow> string \<Rightarrow>
     bridge \<Rightarrow> db conn \<Rightarrow> bool res \<times> bridge \<times> db conn" where
  "SendSolution h unmarshal now intn reader remote raw b c =
     (case GetFeedRefFromAddr (sg_lib h) remote of
        Inl e \<Rightarrow> (Inl e, b, c)
      | Inr clientID \<Rightarrow>
          (case Members_GetByFeed clientID c of
             (Inl _, c1) \<Rightarrow> (Inl (Msg ''client is not a room member''), b, c1)
           | (Inr member, c1) \<Rightarrow>
               (case unmarshal raw of
                  Inl e \<Rightarrow> (Inl e, b, c1)
                | Inr params \<Rightarrow>
                    if length params \<noteq> 3
                    then (Inl (Msg (''expected 3 arguments (sc, cc, sol) but got '' @ show_nat (length params))), b, c1)
                    else let payload = solution_payload h clientID params in
                      case b64_decode std_alphabet (trim_suffix (params ! 2) ''.sig.ed25519'') of
                        None \<Rightarrow>
                          let e = Msg ''illegal base64 data'' in
                          (Inl (Wrapped ''signature is not valid base64 data'' e),
                           snd (SessionFailed reader (ServerChallenge payload) e b), c1)
                      | Some sig \<Rightarrow>
                          if \<not> payload_validate (sg_lib h) payload sig
                          then let e = Msg ''not a valid solution'' in
                            (Inl e, snd (SessionFailed reader (ServerChallenge payload) e b), c1)
                          else
                            (case Sessions_CreateToken now intn (m_id member) c1 of
                               (Inl e, c2) \<Rightarrow> (Inl e, snd (SessionFailed reader (ServerChallenge payload) e b), c2)
                             | (Inr tok, c2) \<Rightarrow>
                                 (case SessionWorked reader (ServerChallenge payload) tok b of
                                    (Some e, b') \<Rightarrow> (Inl e, b', snd (Sessions_RemoveToken tok c2))
                                  | (None, b') \<Rightarrow> (Inr True, b', c2))))))"

definition InvalidateAllSolutions :: "signin_handler \<Rightarrow> address \<Rightarrow> bool act" where
  "InvalidateAllSolutions h remote =
     andthen (lift_res (GetFeedRefFromAddr (sg_lib h) remote)) (\<lambda>clientID.
     andthen (Members_GetByFeed clientID) (\<lambda>member.
     andthen (Sessions_WipeTokensForMember (m_id member)) (\<lambda>_.
     ret True)))"

subsection \<open>Facts\<close>

definition worked :: "string \<Rightarrow> event" where
  "worked tok = \<lparr>ev_worked = True, ev_token = tok, ev_reason = None\<rparr>"

definition tokens_told :: "bridge \<Rightarrow> (nat \<times> string) list" where
  "tokens_told b = map (\<lambda>(ch, e). (ch, ev_token e)) (filter (\<lambda>(ch, e). ev_worked e) (taken b))"

lemma SessionFailed_told [simp]: "tokens_told (snd (SessionFailed reader sc e b)) = tokens_told b"
  by (simp add: SessionFailed_def sendAndClose_def tokens_told_def Let_def split: option.split)

lemma SessionWorked_none:
  "SessionWorked reader sc tok b = (None, b') \<longleftrightarrow>
     (\<exists>ch. map_of (waiting b) sc = Some ch \<and> reader ch
        \<and> b' = b\<lparr>waiting := AList.delete sc (waiting b), taken := taken b @ [(ch, worked tok)]\<rparr>)"
  by (auto simp: SessionWorked_def sendAndClose_def worked_def Let_def split: option.split)

lemma SessionWorked_some: "SessionWorked reader sc tok b = (Some e, b') \<Longrightarrow> tokens_told b' = tokens_told b"
  by (auto simp: SessionWorked_def sendAndClose_def tokens_told_def Let_def split: option.splits if_splits)

lemma SendSolution_ok:
  assumes "SendSolution h unmarshal now intn reader remote raw b c = (Inr r, b', c')"
  shows "\<exists>clientID m c1 sc cc sol sig tok.
    GetFeedRefFromAddr (sg_lib h) remote = Inr clientID \<and> Members_GetByFeed clientID c = (Inr m, c1)
    \<and> unmarshal raw = Inr [sc, cc, sol] \<and> b64_decode std_alphabet (trim_suffix sol ''.sig.ed25519'') = Some sig
    \<and> payload_validate (sg_lib h) \<lparr>ClientID = clientID, ServerID = sg_self h, ClientChallenge = cc, ServerChallenge = sc\<rparr> sig
    \<and> Sessions_CreateToken now intn (m_id m) c1 = (Inr tok, c') \<and> SessionWorked reader sc tok b = (None, b') \<and> r"
proof -
  obtain clientID where 1: "GetFeedRefFromAddr (sg_lib h) remote = Inr clientID"
    using assms by (auto simp: SendSolution_def split: sum.splits)
  obtain m c1 where 2: "Members_GetByFeed clientID c = (Inr m, c1)"
    using assms 1 by (auto simp: SendSolution_def split: sum.splits prod.splits)
  obtain params where 3: "unmarshal raw = Inr params" "length params = 3"
    using assms 1 2 by (auto simp: SendSolution_def split: sum.splits if_splits)
  obtain sc cc sol where p: "params = [sc, cc, sol]" using 3(2) by (auto simp: numeral_3_eq_3 length_Suc_conv)
  obtain sig where 4: "b64_decode std_alphabet (trim_suffix sol ''.sig.ed25519'') = Some sig"
    using assms 1 2 3 p by (auto simp: SendSolution_def Let_def split: option.splits)
  have 5: "payload_validate (sg_lib h) (solution_payload h clientID params) sig"
    using assms 1 2 3 4 p by (auto simp: SendSolution_def Let_def split: if_splits)
  obtain tok c2 where 6: "Sessions_CreateToken now intn (m_id m) c1 = (Inr tok, c2)"
    using assms 1 2 3 4 5 p by (auto simp: SendSolution_def Let_def split: prod.splits sum.splits)
  have "SessionWorked reader sc tok b = (None, b') \<and> c2 = c' \<and> r"
    using assms 1 2 3 4 5 6 p by (auto simp: SendSolution_def Let_def solution_payload_def split: prod.splits option.splits)
  then show ?thesis using 1 2 3 4 5 6 p by (auto simp: solution_payload_def)
qed

lemma SendSolution_keeps:
  assumes laws: "\<And>t g j. keeps I (Sessions_CreateToken t g j)" "\<And>tok. keeps I (Sessions_RemoveToken tok)"
    and run: "SendSolution h unmarshal now intn reader remote raw b c = (r, b', c')" and wf: "I (data c)"
  shows "I (data c')"
proof -
  have "I (data c1)" if "Members_GetByFeed u c = (q, c1)" for u q c1
    using keepsD [of I, OF keeps_Members(4) that wf] .
  moreover have "I (data c2)" if "Sessions_CreateToken now intn i c1 = (q, c2)" "I (data c1)" for i c1 q c2
    using keepsD [OF laws(1) that] .
  moreover have "I (data (snd (Sessions_RemoveToken tok c2)))" if "I (data c2)" for tok c2
    using keepsD [OF laws(2), of tok c2] that by (cases "Sessions_RemoveToken tok c2") simp
  ultimately show ?thesis using run wf
    by (auto simp: SendSolution_def Let_def split: sum.splits prod.splits if_splits option.splits)
qed

lemma InvalidateAllSolutions_keeps:
  "(\<And>j. keeps I (Sessions_WipeTokensForMember j)) \<Longrightarrow> keeps I (InvalidateAllSolutions h remote)"
  unfolding InvalidateAllSolutions_def by (auto intro!: keeps_wf)

lemma withdrawn_token:
  assumes tok: "Sessions_CreateToken now intn i c = (Inr tok, c2)" and wf: "db_wf (data c)" and clean: "faults c = []"
  shows "session_map (data (snd (Sessions_RemoveToken tok c2))) = session_map (data c)"
proof -
  have "faults c2 = []" using keeps_cleanD [OF clean_Sessions(1) tok clean] .
  then obtain c' where c': "Sessions_RemoveToken tok c2 = (Inr (), c')" by (simp add: Sessions_RemoveToken_def delete_sessions_def)
  have "db_wf (data c2)" using keepsD [OF keeps_Sessions(1) tok wf] .
  then show ?thesis using CreateToken_ok [OF tok] session_tokens.remove_law [of c2 tok "()" c'] c' by (auto simp: fun_eq_iff)
qed

lemma SendSolution_err:
  assumes run: "SendSolution h unmarshal now intn reader remote raw b c = (Inl e, b', c')"
    and wf: "db_wf (data c)" and clean: "faults c = []"
  shows "session_map (data c') = session_map (data c) \<and> tokens_told b' = tokens_told b"
proof -
  show ?thesis
  proof (cases "GetFeedRefFromAddr (sg_lib h) remote")
    case (Inl x)
    then show ?thesis using run by (simp add: SendSolution_def)
  next
    case (Inr clientID)
    note 1 = this
    obtain q c1 where 2: "Members_GetByFeed clientID c = (q, c1)" by (cases "Members_GetByFeed clientID c")
    have d1: "data c1 = data c" using keepsD [OF keeps_Members(4) 2, of "\<lambda>d. d = data c"] by simp
    have f1: "faults c1 = []" using keeps_cleanD [OF clean_Members(4) 2 clean] .
    show ?thesis
    proof (cases "\<exists>m params sig tok c2. q = Inr m \<and> unmarshal raw = Inr params \<and> length params = 3
        \<and> b64_decode std_alphabet (trim_suffix (params ! 2) ''.sig.ed25519'') = Some sig
        \<and> payload_validate (sg_lib h) (solution_payload h clientID params) sig
        \<and> Sessions_CreateToken now intn (m_id m) c1 = (Inr tok, c2)")
      case False
      have "Sessions_CreateToken now intn i c1 = (Inl x, c2) \<Longrightarrow> session_map (data c2) = session_map (data c1)" for i x c2
        unfolding Sessions_CreateToken_def by (drule transact_rollback) simp
      then show ?thesis using False run 1 2 d1
        by (auto simp: SendSolution_def Let_def split: sum.splits if_splits option.splits prod.splits)
    next
      case True
      then obtain m params sig tok c2 where 3: "q = Inr m" "unmarshal raw = Inr params" "length params = 3"
        "b64_decode std_alphabet (trim_suffix (params ! 2) ''.sig.ed25519'') = Some sig"
        "payload_validate (sg_lib h) (solution_payload h clientID params) sig"
        and tok: "Sessions_CreateToken now intn (m_id m) c1 = (Inr tok, c2)" by blast
      then have "SessionWorked reader (params ! 0) tok b = (Some e, b')" "c' = snd (Sessions_RemoveToken tok c2)"
        using run 1 2 3 by (auto simp: SendSolution_def Let_def solution_payload_def split: prod.splits option.splits)
      then show ?thesis using withdrawn_token [OF tok _ f1] wf d1 SessionWorked_some by auto
    qed
  qed
qed

lemma GetByFeed_member_clean:
  assumes clean: "faults c = []" and wf: "db_wf (data c)" and m: "(i, m) \<in> set (rows (members (data c)))" "mb_pub_key m = u"
  shows "\<exists>x. Members_GetByFeed u c = (Inr x, c) \<and> m_id x = i"
proof -
  have "find_row (\<lambda>r. mb_pub_key r = u) (members (data c)) = Some (i, m)"
    using m db_wf_parts(1) [OF wf] by (auto simp: members_ok_def intro: find_row_key)
  then show ?thesis using clean by (simp add: Members_GetByFeed_def andthen_def on_error_def to_member_def ret_def)
qed

lemma SendSolution_runs:
  assumes clean: "faults c = []" and wf: "db_wf (data c)" and law: "sign_verifies (sg_lib h)"
    and caller: "GetFeedRefFromAddr (sg_lib h) remote = Inr u" "pub_key (sg_lib h) u = ed_public (sg_lib h) k"
    and member: "(i, m) \<in> set (rows (members (data c)))" "mb_pub_key m = u"
    and waits: "GetEventChannel sc b = Some ch" "reader ch"
    and tok: "Sessions_CreateToken now intn i c = (Inr tok, c')"
    and args: "unmarshal raw = Inr [sc, cc, b64_encode std_alphabet
       (payload_sign (sg_lib h) k \<lparr>ClientID = u, ServerID = sg_self h, ClientChallenge = cc, ServerChallenge = sc\<rparr>) @ ''.sig.ed25519'']"
  shows "\<exists>b'. SendSolution h unmarshal now intn reader remote raw b c = (Inr True, b', c') \<and> tokens_told b' = tokens_told b @ [(ch, tok)]"
proof -
  obtain x where x: "Members_GetByFeed u c = (Inr x, c)" "m_id x = i" using GetByFeed_member_clean [OF clean wf member] by blast
  have valid: "payload_validate (sg_lib h) \<lparr>ClientID = u, ServerID = sg_self h, ClientChallenge = cc, ServerChallenge = sc\<rparr>
     (payload_sign (sg_lib h) k \<lparr>ClientID = u, ServerID = sg_self h, ClientChallenge = cc, ServerChallenge = sc\<rparr>)"
    using law caller(2) by (simp add: payload_validate_def payload_sign_def sign_verifies_def)
  obtain b' where told: "SessionWorked reader sc tok b = (None, b')" using waits by (auto simp: SessionWorked_none GetEventChannel_def)
  have "SendSolution h unmarshal now intn reader remote raw b c = (Inr True, b', c')"
    using caller(1) x args valid tok told by (simp add: SendSolution_def solution_payload_def b64_decode_encode numeral_3_eq_3)
  moreover have "tokens_told b' = tokens_told b @ [(ch, tok)]"
    using told waits(1) by (auto simp: SessionWorked_none GetEventChannel_def tokens_told_def worked_def)
  ultimately show ?thesis by blast
qed

subsection \<open>Properties\<close>

text \<open>C37: A solution that is answered with true came from a member over its authenticated connection and
  is signed by that member for this room and this challenge; then exactly one new session exists, of
  that member, and its token was told once, to the page that waits on that challenge.\<close>

theorem sign_in_sound:
  assumes run: "SendSolution h unmarshal now intn reader remote raw b c = (Inr r, b', c')"
  shows "\<exists>clientID i m sc cc sol sig tok ch.
    GetFeedRefFromAddr (sg_lib h) remote = Inr clientID \<and> unmarshal raw = Inr [sc, cc, sol]
    \<and> (i, m) \<in> set (rows (members (data c))) \<and> mb_pub_key m = clientID
    \<and> b64_decode std_alphabet (trim_suffix sol ''.sig.ed25519'') = Some sig
    \<and> payload_validate (sg_lib h) \<lparr>ClientID = clientID, ServerID = sg_self h, ClientChallenge = cc, ServerChallenge = sc\<rparr> sig
    \<and> session_map (data c) tok = None \<and> session_map (data c') = (session_map (data c))(tok \<mapsto> (i, current_timestamp now))
    \<and> GetEventChannel sc b = Some ch \<and> tokens_told b' = tokens_told b @ [(ch, tok)] \<and> GetEventChannel sc b' = None"
proof -
  obtain clientID m c1 sc cc sol sig tok where *: "GetFeedRefFromAddr (sg_lib h) remote = Inr clientID"
    "Members_GetByFeed clientID c = (Inr m, c1)" "unmarshal raw = Inr [sc, cc, sol]"
    "b64_decode std_alphabet (trim_suffix sol ''.sig.ed25519'') = Some sig"
    "payload_validate (sg_lib h) \<lparr>ClientID = clientID, ServerID = sg_self h, ClientChallenge = cc, ServerChallenge = sc\<rparr> sig"
    and tok: "Sessions_CreateToken now intn (m_id m) c1 = (Inr tok, c')" and told: "SessionWorked reader sc tok b = (None, b')"
    using SendSolution_ok [OF run] by blast
  obtain row where row: "(m_id m, row) \<in> set (rows (members (data c)))" "mb_pub_key row = clientID" and d1: "data c1 = data c"
    using Members_GetByFeed_ok [OF *(2)] by blast
  have "session_map (data c) tok = None" "session_map (data c') = (session_map (data c))(tok \<mapsto> (m_id m, current_timestamp now))"
    using CreateToken_ok [OF tok] d1 by simp_all
  moreover obtain ch where "GetEventChannel sc b = Some ch" "tokens_told b' = tokens_told b @ [(ch, tok)]" "GetEventChannel sc b' = None"
    using told unfolding SessionWorked_none by (auto simp: GetEventChannel_def tokens_told_def worked_def delete_conv')
  ultimately show ?thesis using * row by blast
qed

text \<open>A solution that is answered with an error leaves no session behind and tells no token: the
  sessions are as before and no page was told of a success.\<close>

lemma sign_in_refused:
  assumes "SendSolution h unmarshal now intn reader remote raw b c = (Inl e, b', c')" and "db_wf (data c)" and "faults c = []"
  shows "session_map (data c') = session_map (data c) \<and> tokens_told b' = tokens_told b"
  using SendSolution_err assms by blast

text \<open>A member that answers a challenge the room still waits for with its own signature, while the
  page reads, is let in: the call returns true, the page is told a token, and the token is accepted
  for that member until the session times out.\<close>

lemma sign_in_accepted:
  assumes clean: "faults c = []" and wf: "db_wf (data c)" and law: "sign_verifies (sg_lib h)"
    and caller: "GetFeedRefFromAddr (sg_lib h) remote = Inr u" "pub_key (sg_lib h) u = ed_public (sg_lib h) k"
    and member: "(i, m) \<in> set (rows (members (data c)))" "mb_pub_key m = u"
    and waits: "GetEventChannel sc b = Some ch" "reader ch"
    and new: "\<not> exists_row (\<lambda>r. ss_token r = randutil_String intn 0 siwssbTokenLength) (sessions (data c))"
    and args: "unmarshal raw = Inr [sc, cc, b64_encode std_alphabet
       (payload_sign (sg_lib h) k \<lparr>ClientID = u, ServerID = sg_self h, ClientChallenge = cc, ServerChallenge = sc\<rparr>) @ ''.sig.ed25519'']"
  shows "\<exists>b' c' tok. SendSolution h unmarshal now intn reader remote raw b c = (Inr True, b', c')
    \<and> tokens_told b' = tokens_told b @ [(ch, tok)]
    \<and> (\<forall>t \<le> current_timestamp now + sessionTimeout. Sessions_CheckToken t tok c' = (Inr i, c'))"
proof -
  let ?tok = "randutil_String intn 0 siwssbTokenLength"
  have "i \<in> ids (members (data c))" using member(1) by (force simp: ids_def)
  then obtain c' where tok: "Sessions_CreateToken now intn i c = (Inr ?tok, c')" using CreateToken_clean [OF clean _ new] by blast
  have "\<forall>t \<le> current_timestamp now + sessionTimeout. Sessions_CheckToken t ?tok c' = (Inr i, c')"
    using session_tokens.created_valid [OF tok clean] by blast
  then show ?thesis using SendSolution_runs [of c h remote u k i m sc b ch reader, OF clean wf law caller member waits tok, of unmarshal raw cc, OF args] by blast
qed

text \<open>After a member took all its solutions back no token logs it in any more, whenever it is
  presented, and the sessions of all other members are untouched.\<close>

lemma invalidate_all_of_member:
  assumes run: "InvalidateAllSolutions h remote c = (Inr r, c')" and wf: "db_wf (data c)"
  shows "\<exists>u i m. GetFeedRefFromAddr (sg_lib h) remote = Inr u \<and> (i, m) \<in> set (rows (members (data c))) \<and> mb_pub_key m = u
    \<and> (\<forall>t tok j c2. Sessions_CheckToken t tok c' = (Inr j, c2) \<longrightarrow> j \<noteq> i)
    \<and> (\<forall>tok j at. j \<noteq> i \<longrightarrow> (session_map (data c') tok = Some (j, at) \<longleftrightarrow> session_map (data c) tok = Some (j, at)))"
proof -
  obtain u x c1 where u: "GetFeedRefFromAddr (sg_lib h) remote = Inr u" and x: "Members_GetByFeed u c = (Inr x, c1)"
    and wipe: "Sessions_WipeTokensForMember (m_id x) c1 = (Inr (), c')"
    using run by (auto simp: InvalidateAllSolutions_def) (metis (full_types))
  obtain m where m: "(m_id x, m) \<in> set (rows (members (data c)))" "mb_pub_key m = u" "data c1 = data c"
    using Members_GetByFeed_ok [OF x] by blast
  then have wf1: "db_wf (data c1)" using wf by simp
  have "\<forall>tok j at. j \<noteq> m_id x \<longrightarrow> (session_map (data c') tok = Some (j, at) \<longleftrightarrow> session_map (data c) tok = Some (j, at))"
    using session_tokens.wipe_keeps_others [OF wf1 wipe] m(3) by simp
  moreover have "\<forall>t tok j c2. Sessions_CheckToken t tok c' = (Inr j, c2) \<longrightarrow> j \<noteq> m_id x"
    using session_tokens.wiped_invalid [OF wf1 wipe] by blast
  ultimately show ?thesis using u m(1,2) by blast
qed

subsection \<open>Witnesses\<close>

definition sample_signin :: signin_handler where
  "sample_signin = \<lparr>sg_self = FeedRef ''@room'', sg_lib = sample_lib\<rparr>"

definition carol_payload :: client_payload where
  "carol_payload = \<lparr>ClientID = carol, ServerID = FeedRef ''@room'', ClientChallenge = ''cc'', ServerChallenge = ''sc''\<rparr>"

definition carol_solution :: "string \<Rightarrow> string list res" where
  "carol_solution raw = Inr [''sc'', ''cc'', b64_encode std_alphabet (payload_sign sample_lib ''carol'' carol_payload) @ ''.sig.ed25519'']"

definition carol_address :: address where
  "carol_address = \<lparr>shs_addr = Some (ref_string carol)\<rparr>"

definition waiting_bridge :: bridge where
  "waiting_bridge = add_session ''sc'' NewSignalBridge"

lemma sample_signin_simps [simp]:
  "sg_lib sample_signin = sample_lib" "sg_self sample_signin = FeedRef ''@room''"
  "GetFeedRefFromAddr sample_lib carol_address = Inr carol"
  "GetEventChannel ''sc'' waiting_bridge = Some 0" "drop (Suc 0) (ref_string carol) = ''carol''"
  using sample_refs(15)
  by (simp_all add: sample_signin_def GetFeedRefFromAddr_def carol_address_def waiting_bridge_def add_session_def
      NewSignalBridge_def GetEventChannel_def carol_def del: sample_parse)

lemma sign_in_accepted_witness:
  "\<exists>b' c' tok. SendSolution sample_signin carol_solution 0 (\<lambda>k. k mod 62) (\<lambda>_. True) carol_address [] waiting_bridge sample_conn = (Inr True, b', c')
    \<and> tokens_told b' = tokens_told waiting_bridge @ [(0, tok)]
    \<and> (\<forall>t \<le> current_timestamp 0 + sessionTimeout. Sessions_CheckToken t tok c' = (Inr 3, c'))"
  by (rule sign_in_accepted [where k = "''carol''" and u = carol and sc = "''sc''" and cc = "''cc''" and m = "\<lparr>mb_role = RoleMember, mb_pub_key = carol\<rparr>"])
     (simp_all add: exists_row_def carol_solution_def carol_payload_def)

lemma sign_in_sound_witness:
  "\<exists>b' c'. SendSolution sample_signin carol_solution (5 * second) (\<lambda>k. k mod 62) (\<lambda>_. True) carol_address [] waiting_bridge sample_conn = (Inr True, b', c')
    \<and> (\<exists>i tok. session_map (data c') = (session_map (data sample_conn))(tok \<mapsto> (i, current_timestamp (5 * second))))"
proof -
  obtain b' where run: "SendSolution sample_signin carol_solution (5 * second) (\<lambda>k. k mod 62) (\<lambda>_. True) carol_address [] waiting_bridge sample_conn
      = (Inr True, b', session_conn)"
    using SendSolution_runs [of sample_conn sample_signin carol_address carol "''carol''" 3 "\<lparr>mb_role = RoleMember, mb_pub_key = carol\<rparr>"
        "''sc''" waiting_bridge 0 "\<lambda>_. True" "5 * second" "\<lambda>k. k mod 62" sample_session session_conn carol_solution "[]" "''cc''"]
      sample_session_created by (auto simp: carol_solution_def carol_payload_def)
  from sign_in_sound [OF run] run show ?thesis by blast
qed

lemma sign_in_refused_witness:
  "\<exists>e b' c'. SendSolution sample_signin (\<lambda>_. Inr []) 0 (\<lambda>k. k mod 62) (\<lambda>_. True) carol_address [] waiting_bridge sample_conn = (Inl e, b', c')
    \<and> session_map (data c') = session_map (data sample_conn) \<and> tokens_told b' = tokens_told waiting_bridge"
proof -
  obtain x where "Members_GetByFeed carol sample_conn = (Inr x, sample_conn)"
    using GetByFeed_member_clean [of sample_conn 3 "\<lparr>mb_role = RoleMember, mb_pub_key = carol\<rparr>" carol] by auto
  then obtain e b' c' where run: "SendSolution sample_signin (\<lambda>_. Inr []) 0 (\<lambda>k. k mod 62) (\<lambda>_. True) carol_address [] waiting_bridge sample_conn = (Inl e, b', c')"
    by (simp add: SendSolution_def)
  from sign_in_refused [OF run] run show ?thesis by auto
qed

lemma session_conn_carol:
  "(3, \<lparr>mb_role = RoleMember, mb_pub_key = carol\<rparr>) \<in> set (rows (members (data session_conn)))"
  "mb_pub_key \<lparr>mb_role = RoleMember, mb_pub_key = carol\<rparr> = carol"
  by (simp_all add: session_conn_def)

lemma invalidate_all_of_member_witness:
  "\<exists>c'. InvalidateAllSolutions sample_signin carol_address session_conn = (Inr True, c')
    \<and> (\<exists>i. \<forall>t tok j c2. Sessions_CheckToken t tok c' = (Inr j, c2) \<longrightarrow> j \<noteq> i)"
proof -
  obtain x where x: "Members_GetByFeed carol session_conn = (Inr x, session_conn)"
    using GetByFeed_member_clean [of session_conn 3 "\<lparr>mb_role = RoleMember, mb_pub_key = carol\<rparr>" carol]
    by (metis session_conn_simps(1,2) session_conn_carol)
  have "\<exists>c'. Sessions_WipeTokensForMember (m_id x) session_conn = (Inr (), c')"
    unfolding Sessions_WipeTokensForMember_def by (intro exI transact_clean_ok clean_intros) (auto simp: on_error_def delete_sessions_def)
  then obtain c' where "InvalidateAllSolutions sample_signin carol_address session_conn = (Inr True, c')"
    using x by (auto simp: InvalidateAllSolutions_def andthen_def ret_def lift_res_def)
  from invalidate_all_of_member [OF this] this show ?thesis by auto
qed

end
