(* ===== verification/Broadcasts.thy ===== *)
theory Broadcasts
  imports Errors "HOL-Library.Multiset"
begin

text \<open>
  \<open>internal/broadcasts\<close>: sinks register for updates and every update goes to all of them; a
  sink that fails is dropped. The two broadcasters of the package differ in their messages only
  (\<open>endpoints.go\<close> sends lists of members, \<open>attendants.go\<close> single joins and leaves), so the sinks and
  the loop over them are stated for any message type. The mutex of a broadcaster is modelled where
  it matters, in \<open>Close\<close>. The theory also has the error lists and closers of
  \<open>internal/maybemod\<close>.
\<close>

subsection \<open>Sinks\<close>

text \<open>
  A sink is a JSON stream to a peer: the messages written so far, how many writes the stream
  accepts before it breaks (\<open>None\<close>: it never breaks), whether it was closed and what closing
  answers.
\<close>

record 'm sink =
  sent :: "'m list"
  limit :: "nat option"
  closed :: bool
  close_err :: "err option"

definition new_sink :: "'m sink" where
  "new_sink = \<lparr>sent = [], limit = None, closed = False, close_err = None\<rparr>"

definition accepts :: "'m sink \<Rightarrow> bool" where
  "accepts s \<longleftrightarrow> \<not> closed s \<and> (case limit s of None \<Rightarrow> True | Some n \<Rightarrow> length (sent s) < n)"

definition sink_send :: "'m \<Rightarrow> 'm sink \<Rightarrow> 'm sink \<times> err option" where
  "sink_send m s =
     (if accepts s then (s\<lparr>sent := sent s @ [m]\<rparr>, None) else (s, Some (Msg ''stream closed'')))"

definition sink_close :: "'m sink \<Rightarrow> 'm sink \<times> err option" where
  "sink_close s = (s\<lparr>closed := True\<rparr>, close_err s)"

subsection \<open>A broadcaster\<close>

text \<open>
  Every registration stores the address of a fresh variable in the set of sinks, so the same sink
  may be registered twice. \<open>sinks\<close> lists the registrations, \<open>objects\<close> the sinks ever seen, by the
  number they were given.
\<close>

record 'm broadcast =
  next_id :: nat
  sinks :: "nat list"
  objects :: "nat \<Rightarrow> 'm sink"

definition new_broadcast :: "'m broadcast" where
  "new_broadcast = \<lparr>next_id = 0, sinks = [], objects = (\<lambda>_. new_sink)\<rparr>"

definition register :: "'m sink \<Rightarrow> 'm broadcast \<Rightarrow> nat \<times> 'm broadcast" where
  "register s b = (next_id b,
     b\<lparr>next_id := next_id b + 1, sinks := sinks b @ [next_id b], objects := (objects b)(next_id b := s)\<rparr>)"

text \<open>The function \<open>Register\<close> returns: forget the registration and close the sink.\<close>

definition unregister :: "nat \<Rightarrow> 'm broadcast \<Rightarrow> 'm broadcast" where
  "unregister i b = b\<lparr>sinks := removeAll i (sinks b), objects := (objects b)(i := fst (sink_close (objects b i)))\<rparr>"

text \<open>The loop of \<open>Update\<close>, \<open>Joined\<close> and \<open>Left\<close>; the map is visited in the order \<open>order\<close>.\<close>

fun emit_loop :: "'m \<Rightarrow> nat list \<Rightarrow> 'm broadcast \<Rightarrow> 'm broadcast" where
  "emit_loop m [] b = b"
| "emit_loop m (i # order) b =
     (case sink_send m (objects b i) of
        (s, None) \<Rightarrow> emit_loop m order (b\<lparr>objects := (objects b)(i := s)\<rparr>)
      | (s, Some e) \<Rightarrow> emit_loop m order (b\<lparr>sinks := removeAll i (sinks b), objects := (objects b)(i := s)\<rparr>))"

definition emit :: "'m \<Rightarrow> 'm broadcast \<Rightarrow> 'm broadcast" where
  "emit m b = emit_loop m (sinks b) b"

datatype attendance = Joined feed_ref | Left feed_ref

definition Endpoints_Update :: "string list \<Rightarrow> string list broadcast \<Rightarrow> string list broadcast" where
  "Endpoints_Update members = emit members"

definition Attendants_Joined :: "feed_ref \<Rightarrow> attendance broadcast \<Rightarrow> attendance broadcast" where
  "Attendants_Joined who = emit (Joined who)"

definition Attendants_Left :: "feed_ref \<Rightarrow> attendance broadcast \<Rightarrow> attendance broadcast" where
  "Attendants_Left who = emit (Left who)"

lemma emit_loop_objects:
  "distinct order \<Longrightarrow> objects (emit_loop m order b) i = (if i \<in> set order then fst (sink_send m (objects b i)) else objects b i)"
  by (induction m order b rule: emit_loop.induct) (auto simp: sink_send_def)

lemma emit_loop_sinks:
  "distinct order \<Longrightarrow> sinks (emit_loop m order b) = filter (\<lambda>i. i \<in> set order \<longrightarrow> accepts (objects b i)) (sinks b)"
proof (induction m order b rule: emit_loop.induct)
  case (2 m i order b)
  then show ?case
    by (auto simp: sink_send_def removeAll_filter_not_eq intro!: filter_cong)
qed simp

lemma emit_loop_next: "next_id (emit_loop m order b) = next_id b"
  by (induction m order b rule: emit_loop.induct) (auto simp: sink_send_def)

lemma emit_loop_same_order:
  "distinct xs \<Longrightarrow> distinct ys \<Longrightarrow> set xs = set ys \<Longrightarrow> emit_loop m xs b = emit_loop m ys b"
  by (rule broadcast.equality)
     (auto simp: emit_loop_objects emit_loop_sinks emit_loop_next fun_eq_iff)

subsection \<open>Invariant and contract\<close>

definition broadcast_ok :: "'m broadcast \<Rightarrow> bool" where
  "broadcast_ok b \<longleftrightarrow> distinct (sinks b) \<and> (\<forall>i \<in> set (sinks b). i < next_id b)"

lemma broadcast_ok_simps [simp]:
  "broadcast_ok new_broadcast"
  "broadcast_ok b \<Longrightarrow> broadcast_ok (snd (register s b))"
  "broadcast_ok b \<Longrightarrow> broadcast_ok (unregister i b)"
  "broadcast_ok b \<Longrightarrow> broadcast_ok (emit m b)"
  by (auto simp: broadcast_ok_def new_broadcast_def register_def unregister_def emit_def
      emit_loop_sinks emit_loop_next distinct_removeAll less_Suc_eq)

definition log_of :: "'m broadcast \<Rightarrow> nat \<Rightarrow> 'm list" where
  "log_of b i = sent (objects b i)"

lemma log_emit:
  "broadcast_ok b \<Longrightarrow> log_of (emit m b) i = (if i \<in> set (sinks b) \<and> accepts (objects b i) then log_of b i @ [m] else log_of b i)"
  by (simp add: log_of_def emit_def emit_loop_objects broadcast_ok_def sink_send_def)

lemma sinks_emit:
  "broadcast_ok b \<Longrightarrow> set (sinks (emit m b)) = {i \<in> set (sinks b). accepts (objects b i)}"
  by (auto simp: emit_def emit_loop_sinks broadcast_ok_def)

lemma register_simps:
  "log_of (snd (register s b)) i = (if i = next_id b then sent s else log_of b i)"
  "set (sinks (snd (register s b))) = insert (next_id b) (set (sinks b))"
  "fst (register s b) = next_id b"
  by (simp_all add: register_def log_of_def)

lemma next_id_fresh: "broadcast_ok b \<Longrightarrow> next_id b \<notin> set (sinks b)"
  by (auto simp: broadcast_ok_def)

text \<open>
  What a client relies on: a sink is registered under a fresh number, and an update is received,
  once and at the end, by exactly the sinks that stay registered.
\<close>

locale broadcaster =
  fixes ok :: "'b \<Rightarrow> bool"
    and live :: "'b \<Rightarrow> nat set"
    and received :: "'b \<Rightarrow> nat \<Rightarrow> 'm list"
    and publish :: "'m \<Rightarrow> 'b \<Rightarrow> 'b"
    and join :: "'m sink \<Rightarrow> 'b \<Rightarrow> nat \<times> 'b"
  assumes ok_publish: "ok b \<Longrightarrow> ok (publish m b)"
    and ok_join: "ok b \<Longrightarrow> ok (snd (join s b))"
    and publish_received: "ok b \<Longrightarrow> received (publish m b) i =
          (if i \<in> live (publish m b) then received b i @ [m] else received b i)"
    and publish_live: "ok b \<Longrightarrow> live (publish m b) \<subseteq> live b"
    and join_fresh: "ok b \<Longrightarrow> fst (join s b) \<notin> live b \<and> live (snd (join s b)) = insert (fst (join s b)) (live b)"
    and join_received: "ok b \<Longrightarrow> received (snd (join s b)) i = (if i = fst (join s b) then sent s else received b i)"
begin

lemma ok_publish_all: "ok b \<Longrightarrow> ok (fold publish ms b)"
  by (induction ms arbitrary: b) (auto intro: ok_publish)

lemma live_publish_all: "ok b \<Longrightarrow> live (fold publish ms b) \<subseteq> live b"
proof (induction ms arbitrary: b)
  case (Cons m ms)
  then show ?case using publish_live [of b m] ok_publish [of b m] by fastforce
qed simp

lemma received_all: "ok b \<Longrightarrow> i \<in> live (fold publish ms b) \<Longrightarrow> received (fold publish ms b) i = received b i @ ms"
proof (induction ms arbitrary: b)
  case (Cons m ms)
  have ok': "ok (publish m b)" using Cons.prems(1) by (rule ok_publish)
  have "i \<in> live (publish m b)" using live_publish_all [OF ok', of ms] Cons.prems(2) by auto
  then show ?case using Cons.IH [OF ok'] Cons.prems publish_received [of b m i] by simp
qed simp

lemma received_prefix: "ok b \<Longrightarrow> \<exists>ns. received (fold publish ms b) i = received b i @ ns"
proof (induction ms arbitrary: b)
  case (Cons m ms)
  obtain ns where "received (fold publish ms (publish m b)) i = received (publish m b) i @ ns"
    using Cons.IH [OF ok_publish [OF Cons.prems]] by blast
  then show ?case using publish_received [OF Cons.prems, of m i] by (auto split: if_splits)
qed simp

end

interpretation endpoints_bcast: broadcaster broadcast_ok "\<lambda>b. set (sinks b)" log_of Endpoints_Update register
  by unfold_locales (auto simp: Endpoints_Update_def log_emit sinks_emit register_simps next_id_fresh)

text \<open>The publisher of the other broadcaster, by the message it sends.\<close>

fun Attendants_send :: "attendance \<Rightarrow> attendance broadcast \<Rightarrow> attendance broadcast" where
  "Attendants_send (Joined who) = Attendants_Joined who"
| "Attendants_send (Left who) = Attendants_Left who"

lemma Attendants_send_emit: "Attendants_send m b = emit m b"
  by (cases m) (simp_all add: Attendants_Joined_def Attendants_Left_def)

interpretation attendants_bcast: broadcaster broadcast_ok "\<lambda>b. set (sinks b)" log_of Attendants_send register
  by unfold_locales (auto simp: Attendants_send_emit log_emit sinks_emit register_simps next_id_fresh)

subsection \<open>Closing\<close>

text \<open>
  \<open>multicloser.Closer\<close>: every closer is closed, in order, and the errors are collected, each with
  the number of the closer it came from.
\<close>

fun close_loop :: "nat \<Rightarrow> (unit \<Rightarrow> err option) list \<Rightarrow> err list" where
  "close_loop i [] = []"
| "close_loop i (c # cs) =
     (case c () of
        None \<Rightarrow> close_loop (i + 1) cs
      | Some e \<Rightarrow> Wrapped (''Closer: c'' @ show_nat i @ '' failed'') e # close_loop (i + 1) cs)"

definition Closer_Close :: "(unit \<Rightarrow> err option) list \<Rightarrow> err option" where
  "Closer_Close cs = (let errs = close_loop 0 cs in if errs = [] then None else Some (ManyErrors errs))"

text \<open>
  \<open>Close\<close> of the broadcasters closes all registered sinks at once and waits for them; \<open>finish\<close> is
  the order in which they finish and append their errors. The mutex is an argument: a goroutine
  that locks it again while it holds it waits for itself, and the call does not return.
\<close>

datatype 'a outcome = Returns 'a | Blocks

fun close_sinks :: "nat list \<Rightarrow> 'm broadcast \<Rightarrow> err list \<times> 'm broadcast" where
  "close_sinks [] b = ([], b)"
| "close_sinks (i # finish) b =
     (let (s, e) = sink_close (objects b i);
          (es, b') = close_sinks finish (b\<lparr>objects := (objects b)(i := s)\<rparr>)
      in (case e of None \<Rightarrow> es | Some x \<Rightarrow> x # es, b'))"

definition lock :: "bool \<Rightarrow> bool outcome" where
  "lock held = (if held then Blocks else Returns True)"

definition Endpoints_Close :: "nat list \<Rightarrow> string list broadcast \<Rightarrow> (err option \<times> string list broadcast) outcome" where
  "Endpoints_Close finish b =
     (case lock False of
        Blocks \<Rightarrow> Blocks
      | Returns held \<Rightarrow>
          (let (errs, b') = close_sinks finish b
           in Returns (if errs = [] then None else Some (ManyErrors errs), b')))"

definition Attendants_Close :: "nat list \<Rightarrow> attendance broadcast \<Rightarrow> (err option \<times> attendance broadcast) outcome" where
  "Attendants_Close finish b =
     (case lock False of
        Blocks \<Rightarrow> Blocks
      | Returns held \<Rightarrow>
          (case lock held of
             Blocks \<Rightarrow> Blocks
           | Returns _ \<Rightarrow>
               (let (errs, b') = close_sinks finish b
                in Returns (if errs = [] then None else Some (ManyErrors errs), b'))))"

fun multierror_text :: "(err \<Rightarrow> string) \<Rightarrow> nat \<Rightarrow> err list \<Rightarrow> string" where
  "multierror_text text i [] = []"
| "multierror_text text i (e # es) = ''('' @ show_nat i @ ''): '' @ text e @ '' - '' @ multierror_text text (i + 1) es"

definition multierror_Error :: "(err \<Rightarrow> string) \<Rightarrow> err list \<Rightarrow> string" where
  "multierror_Error text errs =
     (if length errs > 0 then ''multiple errors('' @ show_nat (length errs) @ ''): '' else [])
     @ multierror_text text 0 errs"

lemma close_sinks_objects:
  "distinct finish \<Longrightarrow> objects (snd (close_sinks finish b)) i = (if i \<in> set finish then (objects b i)\<lparr>closed := True\<rparr> else objects b i)"
  by (induction finish b rule: close_sinks.induct) (auto simp: sink_close_def Let_def split: prod.splits)

lemma close_sinks_errors:
  "fst (close_sinks finish b) = List.map_filter (\<lambda>i. close_err (objects b i)) finish"
proof (induction finish b rule: close_sinks.induct)
  case (2 i finish b)
  let ?b = "b\<lparr>objects := (objects b)(i := fst (sink_close (objects b i)))\<rparr>"
  have same: "(\<lambda>j. close_err (objects ?b j)) = (\<lambda>j. close_err (objects b j))"
    by (auto simp: sink_close_def)
  have "fst (close_sinks finish ?b) = List.map_filter (\<lambda>j. close_err (objects ?b j)) finish"
    using 2 [of _ "fst (sink_close (objects b i))" "snd (sink_close (objects b i))"] by simp
  then show ?case unfolding same
    by (auto simp: Let_def sink_close_def List.map_filter_simps split: prod.splits option.splits)
qed (simp add: List.map_filter_simps)

lemma close_loop_sources:
  "close_loop i cs = map (\<lambda>(j, e). Wrapped (''Closer: c'' @ show_nat j @ '' failed'') e)
     (concat (map (\<lambda>(j, c). case c () of None \<Rightarrow> [] | Some e \<Rightarrow> [(j, e)]) (zip [i..<i + length cs] cs)))"
proof (induction i cs rule: close_loop.induct)
  case (2 i c cs)
  have "[i..<i + length (c # cs)] = i # [i + 1..<i + 1 + length cs]" by (simp add: upt_rec)
  then show ?case using 2 by (simp split: option.split)
qed simp

subsection \<open>Properties\<close>

text \<open>The iteration order of Go's map does not matter for an update, every sink that is still
  registered after a sequence of updates received all of them in order, and every sink ever seen
  received a part of the sequence and nothing else.\<close>

lemma broadcast_delivers:
  assumes ok: "broadcast_ok b"
  shows "(\<forall>order. mset order = mset (sinks b) \<longrightarrow> emit_loop m order b = emit m b)
    \<and> (\<forall>i \<in> set (sinks (fold Endpoints_Update ms e)). broadcast_ok e \<longrightarrow> log_of (fold Endpoints_Update ms e) i = log_of e i @ ms)
    \<and> (\<forall>i \<in> set (sinks (fold Attendants_send as a)). broadcast_ok a \<longrightarrow> log_of (fold Attendants_send as a) i = log_of a i @ as)"
proof (intro conjI allI impI ballI)
  fix order assume "mset order = mset (sinks b)"
  then have "distinct order" "set order = set (sinks b)"
    using ok by (auto simp: broadcast_ok_def dest: mset_eq_imp_distinct_iff mset_eq_setD)
  then show "emit_loop m order b = emit m b"
    using ok emit_loop_same_order by (metis broadcast_ok_def emit_def)
qed (auto intro: endpoints_bcast.received_all attendants_bcast.received_all)

text \<open>Closing the endpoints broadcaster closes every registered sink and returns the errors of those
  that failed; closing the attendants broadcaster never returns, because it locks the mutex it holds
  already.\<close>

lemma broadcast_close:
  assumes "broadcast_ok e" "mset finish = mset (sinks e)"
  shows "(\<exists>e'. Endpoints_Close finish e = Returns
           (if \<forall>i \<in> set (sinks e). close_err (objects e i) = None then None
            else Some (ManyErrors (List.map_filter (\<lambda>i. close_err (objects e i)) finish)), e')
         \<and> (\<forall>i \<in> set (sinks e). closed (objects e' i)))
     \<and> Attendants_Close finish' a = Blocks"
proof -
  have d: "distinct finish" "set finish = set (sinks e)"
    using assms by (auto simp: broadcast_ok_def dest: mset_eq_imp_distinct_iff mset_eq_setD)
  have errs: "fst (close_sinks finish e) = List.map_filter (\<lambda>i. close_err (objects e i)) finish"
    by (rule close_sinks_errors)
  have none: "List.map_filter (\<lambda>i. close_err (objects e i)) finish = [] \<longleftrightarrow> (\<forall>i \<in> set (sinks e). close_err (objects e i) = None)"
    unfolding d(2) [symmetric] by (auto simp: List.map_filter_def filter_empty_conv)
  show ?thesis
    using close_sinks_objects [OF d(1), of e] d(2)
    by (auto simp: Endpoints_Close_def Attendants_Close_def lock_def errs none split_beta Let_def)
qed

definition two_sinks :: "string list broadcast" where
  "two_sinks = snd (register (new_sink\<lparr>close_err := Some EOF\<rparr>) (snd (register new_sink new_broadcast)))"

definition one_attendant :: "attendance broadcast" where
  "one_attendant = snd (register new_sink new_broadcast)"

lemma two_sinks_ok [simp]: "broadcast_ok two_sinks" "sinks two_sinks = [0, 1]" "broadcast_ok one_attendant" "sinks one_attendant = [0]"
  by (simp_all add: two_sinks_def one_attendant_def register_def new_broadcast_def broadcast_ok_def)

lemma broadcast_delivers_witness:
  "emit_loop [''x''] [1, 0] two_sinks = emit [''x''] two_sinks
   \<and> log_of (fold Endpoints_Update [[''a''], [''b'']] two_sinks) 0 = log_of two_sinks 0 @ [[''a''], [''b'']]
   \<and> log_of (fold Attendants_send [Joined (FeedRef ''@a'')] one_attendant) 0 = log_of one_attendant 0 @ [Joined (FeedRef ''@a'')]"
proof -
  have live: "0 \<in> set (sinks (fold Endpoints_Update [[''a''], [''b'']] two_sinks))"
    "0 \<in> set (sinks (fold Attendants_send [Joined (FeedRef ''@a'')] one_attendant))"
    by (simp_all add: two_sinks_def one_attendant_def register_def new_broadcast_def Endpoints_Update_def Attendants_Joined_def
        emit_def sink_send_def accepts_def new_sink_def)
  show ?thesis
    using broadcast_delivers [OF two_sinks_ok(1), of "[''x'']" "[[''a''], [''b'']]" two_sinks "[Joined (FeedRef ''@a'')]" one_attendant]
      live by (auto simp del: fold_simps emit_loop.simps)
qed

lemma broadcast_close_witness:
  "(\<exists>e'. Endpoints_Close [1, 0] two_sinks = Returns (Some (ManyErrors [EOF]), e') \<and> closed (objects e' 0) \<and> closed (objects e' 1))
   \<and> Attendants_Close [0] one_attendant = Blocks"
  using broadcast_close [OF two_sinks_ok(1), of "[1, 0]" "[0]" one_attendant]
  by (auto simp: two_sinks_def register_def new_broadcast_def new_sink_def List.map_filter_simps)

end
