(* ===== verification/RoomState.thy ===== *)
theory RoomState
  imports Broadcasts "HOL-Library.AList"
begin

text \<open>
  \<open>roomstate/roomstate.go\<close>: the peers that are in the room, each with its endpoint, and the two
  broadcasts that tell others about changes. The map is an association list from the text of a
  feed reference to the endpoint. A change happens under the mutex; the broadcasts follow after it
  is released, so the operations are also given as two separate steps.
\<close>

subsection \<open>The manager\<close>

record 'e manager =
  room :: "(string \<times> 'e) list"
  endpoints_bc :: "string list broadcast"
  attendants_bc :: "attendance broadcast"

definition NewManager :: "'e manager" where
  "NewManager = \<lparr>room = [], endpoints_bc = new_broadcast, attendants_bc = new_broadcast\<rparr>"

definition AsList :: "(string \<times> 'e) list \<Rightarrow> string list" where
  "AsList rsm = sort (map fst rsm)"

definition RegisterLegacyEndpoints :: "string list sink \<Rightarrow> 'e manager \<Rightarrow> nat \<times> 'e manager" where
  "RegisterLegacyEndpoints s m =
     (let (i, b) = register s (endpoints_bc m) in (i, m\<lparr>endpoints_bc := b\<rparr>))"

definition RegisterAttendantsUpdates :: "attendance sink \<Rightarrow> 'e manager \<Rightarrow> nat \<times> 'e manager" where
  "RegisterAttendantsUpdates s m =
     (let (i, b) = register s (attendants_bc m) in (i, m\<lparr>attendants_bc := b\<rparr>))"

definition Manager_List :: "'e manager \<Rightarrow> string list" where
  "Manager_List m = AsList (room m)"

text \<open>\<open>ListAsRefs\<close> parses the texts and panics on one that does not parse.\<close>

fun parse_all :: "lib \<Rightarrow> string list \<Rightarrow> feed_ref list res" where
  "parse_all L [] = Inr []"
| "parse_all L (s # ss) =
     (case parse_ref L s of
        None \<Rightarrow> Inl (Panic ''invalid feed ref in room state'')
      | Some r \<Rightarrow> map_res (\<lambda>rs. r # rs) (parse_all L ss))"

definition ListAsRefs :: "lib \<Rightarrow> 'e manager \<Rightarrow> feed_ref list res" where
  "ListAsRefs L m = parse_all L (AsList (room m))"

definition broadcast_joined :: "string list \<Rightarrow> feed_ref \<Rightarrow> 'e manager \<Rightarrow> 'e manager" where
  "broadcast_joined currentMembers who m =
     m\<lparr>endpoints_bc := Endpoints_Update currentMembers (endpoints_bc m),
       attendants_bc := Attendants_Joined who (attendants_bc m)\<rparr>"

definition broadcast_left :: "string list \<Rightarrow> feed_ref \<Rightarrow> 'e manager \<Rightarrow> 'e manager" where
  "broadcast_left currentMembers who m =
     m\<lparr>endpoints_bc := Endpoints_Update currentMembers (endpoints_bc m),
       attendants_bc := Attendants_Left who (attendants_bc m)\<rparr>"

definition AddEndpoint :: "feed_ref \<Rightarrow> 'e \<Rightarrow> 'e manager \<Rightarrow> 'e manager" where
  "AddEndpoint who edp m =
     (let m1 = m\<lparr>room := AList.update (ref_string who) edp (room m)\<rparr>;
          currentMembers = AsList (room m1)
      in broadcast_joined currentMembers who m1)"

definition Manager_Remove :: "feed_ref \<Rightarrow> 'e manager \<Rightarrow> 'e manager" where
  "Manager_Remove who m =
     (let m1 = m\<lparr>room := AList.delete (ref_string who) (room m)\<rparr>;
          currentMembers = AsList (room m1)
      in broadcast_left currentMembers who m1)"

definition AlreadyAdded :: "feed_ref \<Rightarrow> 'e \<Rightarrow> 'e manager \<Rightarrow> bool \<times> 'e manager" where
  "AlreadyAdded who edp m =
     (let has = map_of (room m) (ref_string who) \<noteq> None in
      if has then (True, m)
      else (let m1 = m\<lparr>room := AList.update (ref_string who) edp (room m)\<rparr>;
                currentMembers = AsList (room m1)
            in (False, broadcast_joined currentMembers who m1)))"

definition Manager_Has :: "feed_ref \<Rightarrow> 'e manager \<Rightarrow> 'e option" where
  "Manager_Has who m = map_of (room m) (ref_string who)"

lemma sent_new: "sent new_sink = []"
  by (simp add: new_sink_def)

subsection \<open>Invariant\<close>

definition manager_ok :: "'e manager \<Rightarrow> bool" where
  "manager_ok m \<longleftrightarrow> distinct (map fst (room m)) \<and> broadcast_ok (endpoints_bc m) \<and> broadcast_ok (attendants_bc m)"

lemma AsList_props [simp]:
  "set (AsList rsm) = fst ` set rsm" "sorted (AsList rsm)" "distinct (AsList rsm) \<longleftrightarrow> distinct (map fst rsm)"
  by (simp_all add: AsList_def)

lemma AsList_eq: "distinct (map fst a) \<Longrightarrow> distinct (map fst b) \<Longrightarrow> fst ` set a = fst ` set b \<Longrightarrow> AsList a = AsList b"
  by (rule sorted_distinct_set_unique) simp_all

lemma endpoints_ok: "broadcast_ok b \<Longrightarrow> broadcast_ok (Endpoints_Update ms b)"
  by (simp add: Endpoints_Update_def)

lemma attendants_ok: "broadcast_ok b \<Longrightarrow> broadcast_ok (Attendants_Joined w b)"
  "broadcast_ok b \<Longrightarrow> broadcast_ok (Attendants_Left w b)"
  by (simp_all add: Attendants_Joined_def Attendants_Left_def)

lemma manager_ok_ops [simp]:
  "manager_ok NewManager"
  "manager_ok m \<Longrightarrow> manager_ok (AddEndpoint who e m)"
  "manager_ok m \<Longrightarrow> manager_ok (Manager_Remove who m)"
  "manager_ok m \<Longrightarrow> manager_ok (snd (AlreadyAdded who e m))"
  "manager_ok m \<Longrightarrow> manager_ok (snd (RegisterLegacyEndpoints s m))"
  "manager_ok m \<Longrightarrow> manager_ok (snd (RegisterAttendantsUpdates s' m))"
  by (auto simp: manager_ok_def NewManager_def AddEndpoint_def Manager_Remove_def AlreadyAdded_def
      broadcast_joined_def broadcast_left_def Let_def endpoints_ok attendants_ok distinct_update distinct_delete
      RegisterLegacyEndpoints_def RegisterAttendantsUpdates_def split_beta)

lemma Has_ops:
  "Manager_Has who (AddEndpoint p e m) = (if who = p then Some e else Manager_Has who m)"
  "Manager_Has who (Manager_Remove p m) = (if who = p then None else Manager_Has who m)"
  by (auto simp: Manager_Has_def AddEndpoint_def Manager_Remove_def broadcast_joined_def broadcast_left_def
      Let_def update_conv' delete_conv')

subsection \<open>Sequences of changes\<close>

text \<open>Joins and leaves one after the other, each with its broadcasts done before the next starts.\<close>

datatype 'e change = Join feed_ref 'e | Leave feed_ref

fun apply_change :: "'e change \<Rightarrow> 'e manager \<Rightarrow> 'e manager" where
  "apply_change (Join who e) m = AddEndpoint who e m"
| "apply_change (Leave who) m = Manager_Remove who m"

fun change_of :: "'e change \<Rightarrow> attendance" where
  "change_of (Join who e) = Joined who" | "change_of (Leave who) = Left who"

text \<open>What a client reading an attendants stream does: start from the list, then follow the updates.\<close>

fun follow :: "attendance \<Rightarrow> feed_ref set \<Rightarrow> feed_ref set" where
  "follow (Joined who) S = insert who S" | "follow (Left who) S = S - {who}"

definition present :: "'e manager \<Rightarrow> feed_ref set" where
  "present m = {who. Manager_Has who m \<noteq> None}"

lemma present_change: "present (apply_change ch m) = follow (change_of ch) (present m)"
  by (cases ch) (auto simp: present_def Has_ops split: if_splits)

lemma present_changes: "present (fold apply_change chs m) = fold follow (map change_of chs) (present m)"
  by (induction chs arbitrary: m) (simp_all add: present_change)

lemma attendants_change: "attendants_bc (apply_change ch m) = Attendants_send (change_of ch) (attendants_bc m)"
  by (cases ch) (simp_all add: AddEndpoint_def Manager_Remove_def broadcast_joined_def broadcast_left_def Let_def)

lemma endpoints_change: "endpoints_bc (apply_change ch m) = Endpoints_Update (Manager_List (apply_change ch m)) (endpoints_bc m)"
  by (cases ch) (simp_all add: AddEndpoint_def Manager_Remove_def broadcast_joined_def broadcast_left_def Manager_List_def Let_def)

lemma attendants_changes: "attendants_bc (fold apply_change chs m) = fold Attendants_send (map change_of chs) (attendants_bc m)"
  by (induction chs arbitrary: m) (simp_all add: attendants_change)

lemma manager_ok_changes: "manager_ok m \<Longrightarrow> manager_ok (fold apply_change chs m)"
proof (induction chs arbitrary: m)
  case (Cons ch chs)
  then show ?case by (cases ch) simp_all
qed simp

subsection \<open>Steps under concurrency\<close>

text \<open>
  Between the critical section of a change and its broadcasts other calls may run. \<open>pending\<close> holds
  the broadcasts that are still to be made; the two broadcasts of one change are made one after the
  other by the same goroutine, each under the mutex of its broadcaster.
\<close>

datatype announcement = ToEndpoints "string list" attendance | ToAttendants attendance

record 'e shared =
  mgr :: "'e manager"
  pending :: "announcement list"

inductive room_step :: "'e shared \<Rightarrow> 'e change option \<Rightarrow> 'e shared \<Rightarrow> bool" where
  change_add: "r' = AList.update (ref_string who) e (room (mgr s)) \<Longrightarrow>
    room_step s (Some (Join who e))
      (s\<lparr>mgr := (mgr s)\<lparr>room := r'\<rparr>, pending := ToEndpoints (AsList r') (Joined who) # pending s\<rparr>)"
| change_remove: "r' = AList.delete (ref_string who) (room (mgr s)) \<Longrightarrow>
    room_step s (Some (Leave who))
      (s\<lparr>mgr := (mgr s)\<lparr>room := r'\<rparr>, pending := ToEndpoints (AsList r') (Left who) # pending s\<rparr>)"
| to_endpoints: "pending s = ps @ ToEndpoints ms a # qs \<Longrightarrow>
    room_step s None
      (s\<lparr>mgr := (mgr s)\<lparr>endpoints_bc := Endpoints_Update ms (endpoints_bc (mgr s))\<rparr>, pending := ps @ ToAttendants a # qs\<rparr>)"
| to_attendants: "pending s = ps @ ToAttendants a # qs \<Longrightarrow>
    room_step s None
      (s\<lparr>mgr := (mgr s)\<lparr>attendants_bc := Attendants_send a (attendants_bc (mgr s))\<rparr>, pending := ps @ qs\<rparr>)"

inductive_cases room_stepE: "room_step s l t"

definition room_init :: "'e shared \<Rightarrow> bool" where
  "room_init s \<longleftrightarrow> manager_ok (mgr s) \<and> pending s = []"

interpretation room_inv: inductive_invariant room_init room_step "\<lambda>s. manager_ok (mgr s)"
proof
  fix s l t assume ok: "manager_ok (mgr (s :: 'a shared))" and "room_step s l t"
  from this(2) show "manager_ok (mgr t)"
    by (cases rule: room_step.cases)
       (use ok in \<open>auto simp: manager_ok_def endpoints_ok attendants_bcast.ok_publish distinct_update distinct_delete\<close>)
qed (simp add: room_init_def)

subsection \<open>Properties\<close>

text \<open>C32: When changes happen one after the other, a client that registered for the attendants stream
  and follows the updates from the list it was given knows exactly who is in the room, and every
  endpoints stream that is still registered was last told the current list.\<close>

theorem streams_follow_room:
  assumes ok: "manager_ok m" and chs: "chs \<noteq> []"
    and reg: "RegisterAttendantsUpdates s m = (i, m1)" "sent s = []"
    and live: "i \<in> set (sinks (attendants_bc (fold apply_change chs m1)))"
    and live': "j \<in> set (sinks (endpoints_bc (fold apply_change chs m1)))"
  shows "fold follow (log_of (attendants_bc (fold apply_change chs m1)) i) (present m) = present (fold apply_change chs m1)
     \<and> last (log_of (endpoints_bc (fold apply_change chs m1)) j) = Manager_List (fold apply_change chs m1)"
proof
  have m1: "attendants_bc m1 = snd (register s (attendants_bc m))" "i = next_id (attendants_bc m)" "room m1 = room m"
    using reg(1) by (auto simp: RegisterAttendantsUpdates_def split_beta register_simps)
  have ok1: "manager_ok m1" using manager_ok_ops(6) [OF ok, of s] reg(1) by simp
  have "log_of (attendants_bc m1) i = []" using m1 reg(2) by (simp add: register_simps)
  moreover have "i \<in> set (sinks (fold Attendants_send (map change_of chs) (attendants_bc m1)))"
    using live by (simp add: attendants_changes)
  ultimately have "log_of (attendants_bc (fold apply_change chs m1)) i = map change_of chs"
    using attendants_bcast.received_all [of "attendants_bc m1" i "map change_of chs"] ok1
    by (simp add: attendants_changes manager_ok_def)
  moreover have "present m1 = present m" using m1(3) by (simp add: present_def Manager_Has_def)
  ultimately show "fold follow (log_of (attendants_bc (fold apply_change chs m1)) i) (present m) = present (fold apply_change chs m1)"
    by (simp add: present_changes)
next
  obtain pre ch where ch: "chs = pre @ [ch]" using chs by (cases chs rule: rev_cases) auto
  let ?m = "fold apply_change pre m1"
  have ok2: "broadcast_ok (endpoints_bc ?m)"
    using manager_ok_changes [OF manager_ok_ops(6) [OF ok, of s], of pre] reg(1) by (simp add: manager_ok_def)
  have "j \<in> set (sinks (Endpoints_Update (Manager_List (apply_change ch ?m)) (endpoints_bc ?m)))"
    using live' by (simp add: ch endpoints_change)
  then show "last (log_of (endpoints_bc (fold apply_change chs m1)) j) = Manager_List (fold apply_change chs m1)"
    using endpoints_bcast.publish_received [OF ok2] by (simp add: ch endpoints_change)
qed

lemma streams_follow_room_witness:
  "\<exists>m1. fold follow (log_of (attendants_bc (fold apply_change [Join (FeedRef ''@a'') (), Leave (FeedRef ''@a'')] m1)) 0)
        (present (NewManager :: unit manager)) = present (fold apply_change [Join (FeedRef ''@a'') (), Leave (FeedRef ''@a'')] m1)"
proof -
  let ?m1 = "snd (RegisterAttendantsUpdates new_sink (snd (RegisterLegacyEndpoints new_sink (NewManager :: unit manager))))"
  have "RegisterAttendantsUpdates new_sink (snd (RegisterLegacyEndpoints new_sink (NewManager :: unit manager))) = (0, ?m1)"
    by (simp add: RegisterAttendantsUpdates_def RegisterLegacyEndpoints_def NewManager_def new_broadcast_def register_def)
  moreover have "0 \<in> set (sinks (attendants_bc (fold apply_change [Join (FeedRef ''@a'') (), Leave (FeedRef ''@a'')] ?m1)))"
    "0 \<in> set (sinks (endpoints_bc (fold apply_change [Join (FeedRef ''@a'') (), Leave (FeedRef ''@a'')] ?m1)))"
    by (simp_all add: RegisterAttendantsUpdates_def RegisterLegacyEndpoints_def NewManager_def new_broadcast_def register_def
        AddEndpoint_def Manager_Remove_def broadcast_joined_def broadcast_left_def Let_def Endpoints_Update_def
        Attendants_Joined_def Attendants_Left_def emit_def sink_send_def accepts_def new_sink_def)
  ultimately have "fold follow (log_of (attendants_bc (fold apply_change [Join (FeedRef ''@a'') (), Leave (FeedRef ''@a'')] ?m1)) 0)
        (present (snd (RegisterLegacyEndpoints new_sink (NewManager :: unit manager)))) = present (fold apply_change [Join (FeedRef ''@a'') (), Leave (FeedRef ''@a'')] ?m1)"
    using streams_follow_room [OF manager_ok_ops(5) [OF manager_ok_ops(1)] _ _ sent_new,
        of "[Join (FeedRef ''@a'') (), Leave (FeedRef ''@a'')]" new_sink 0 ?m1 0]
    by simp
  then show ?thesis
    by (intro exI [of _ ?m1]) (simp add: present_def Manager_Has_def RegisterLegacyEndpoints_def split_beta)
qed


end
