(* ===== verification/Tunnel.thy ===== *)
theory Tunnel
  imports Denied RoomState NetInfo
begin

text \<open>
  The muxrpc handlers of \<open>muxrpc/handlers/tunnel/server\<close>: metadata, announcing and leaving, the
  endpoints, attendants and members streams with their privacy rules, and the tunnel from one peer to
  another. Also \<open>gossip/ping.go\<close> and \<open>whoami.go\<close>. A handler works on the database connection and
  the room manager; endpoints of peers are numbers.
\<close>

type_synonym endpoint = nat

record request =
  rq_addr :: address
  rq_endpoint :: endpoint
  rq_args :: string

record handler =
  h_net :: server_details
  h_lib :: lib

subsection \<open>Metadata\<close>

record metadata_reply =
  rp_name :: string
  rp_membership :: bool
  rp_features :: "string list"

definition is_member_reply :: "feed_ref \<Rightarrow> bool act" where
  "is_member_reply peer =
     andthen (attempt (Members_GetByFeed peer)) (\<lambda>r.
     case r of
       Inl e \<Rightarrow> if \<not> errors_is e ErrNotFound then fail e else ret False
     | Inr _ \<Rightarrow> ret True)"

definition handle_metadata :: "handler \<Rightarrow> request \<Rightarrow> metadata_reply act" where
  "handle_metadata h req =
     andthen (lift_res (GetFeedRefFromAddr (h_lib h) (rq_addr req))) (\<lambda>peer.
     andthen Config_GetPrivacyMode (\<lambda>pm.
     andthen (is_member_reply peer) (\<lambda>membership.
     ret \<lparr>rp_name = Domain (h_net h), rp_membership = membership,
          rp_features = [''tunnel'', ''httpAuth'', ''httpInvite'']
            @ (if pm = ModeOpen then [''room1''] else [])
            @ (if pm = ModeOpen \<or> pm = ModeCommunity then [''alias''] else [])\<rparr>)))"

definition handle_ping :: "time \<Rightarrow> int64" where
  "handle_ping now = now div 1000"

definition handle_whoami :: "feed_ref \<Rightarrow> string" where
  "handle_whoami self = ref_string self"

subsection \<open>Announce and leave\<close>

definition handle_announce :: "handler \<Rightarrow> request \<Rightarrow> endpoint manager \<Rightarrow> bool res \<times> endpoint manager" where
  "handle_announce h req m =
     (case GetFeedRefFromAddr (h_lib h) (rq_addr req) of
        Inl e \<Rightarrow> (Inl e, m)
      | Inr ref \<Rightarrow> (Inr True, AddEndpoint ref (rq_endpoint req) m))"

definition handle_leave :: "handler \<Rightarrow> request \<Rightarrow> endpoint manager \<Rightarrow> bool res \<times> endpoint manager" where
  "handle_leave h req m =
     (case GetFeedRefFromAddr (h_lib h) (rq_addr req) of
        Inl e \<Rightarrow> (Inl e, m)
      | Inr ref \<Rightarrow> (Inr True, Manager_Remove ref m))"

subsection \<open>The privacy rule\<close>

text \<open>
  The streams that reveal members first read the privacy mode and then, in the community and
  restricted modes, look the caller up. The three handlers word the errors differently.
\<close>

definition privacy_gate ::
  "('d, privacy_mode) action \<Rightarrow> (feed_ref \<Rightarrow> ('d, 'm) action) \<Rightarrow> (err \<Rightarrow> err) \<Rightarrow> (err \<Rightarrow> err) \<Rightarrow> feed_ref \<Rightarrow> ('d, unit) action" where
  "privacy_gate get_mode lookup mode_error member_error peer =
     andthen (on_error mode_error get_mode) (\<lambda>pm.
     if pm = ModeCommunity \<or> pm = ModeRestricted
     then andthen (on_error member_error (lookup peer)) (\<lambda>_. ret ())
     else ret ())"

definition enumerate_gate :: "feed_ref \<Rightarrow> unit act" where
  "enumerate_gate = privacy_gate Config_GetPrivacyMode Members_GetByFeed
     (\<lambda>_. Msg ''running with unknown privacy mode'')
     (\<lambda>_. Msg ''external user are not allowed to enumerate members'')"

definition members_gate :: "feed_ref \<Rightarrow> unit act" where
  "members_gate = privacy_gate Config_GetPrivacyMode Members_GetByFeed
     (Wrapped ''running with unknown privacy mode'')
     (Wrapped ''external users are not allowed to list members'')"

subsection \<open>Streams\<close>

text \<open>Writing to the sink of one stream directly, past the broadcaster; the result is ignored.\<close>

definition send_direct :: "nat \<Rightarrow> 'm \<Rightarrow> 'm broadcast \<Rightarrow> 'm broadcast" where
  "send_direct i msg b = b\<lparr>objects := (objects b)(i := fst (sink_send msg (objects b i)))\<rparr>"

definition handle_endpoints ::
  "handler \<Rightarrow> request \<Rightarrow> string list sink \<Rightarrow> endpoint manager \<Rightarrow> db conn \<Rightarrow> nat res \<times> endpoint manager \<times> db conn" where
  "handle_endpoints h req snk m c =
     (case GetFeedRefFromAddr (h_lib h) (rq_addr req) of
        Inl e \<Rightarrow> (Inl e, m, c)
      | Inr peer \<Rightarrow>
          (case enumerate_gate peer c of
             (Inl e, c1) \<Rightarrow> (Inl e, m, c1)
           | (Inr _, c1) \<Rightarrow>
               (let (toPeer, m1) = RegisterLegacyEndpoints snk m;
                    (_, m2) = AlreadyAdded peer (rq_endpoint req) m1;
                    m3 = m2\<lparr>endpoints_bc := send_direct toPeer (Manager_List m2) (endpoints_bc m2)\<rparr>
                in (Inr toPeer, m3, c1))))"

text \<open>
  The attendants stream begins with the list of everybody present, which is the first message on
  the sink; then the sink is registered. The handler returns that list and the registration.
\<close>

definition use_write :: "'m sink \<Rightarrow> 'm sink" where
  "use_write s = s\<lparr>limit := map_option (\<lambda>n. n - 1) (limit s)\<rparr>"

definition handle_attendants ::
  "handler \<Rightarrow> request \<Rightarrow> attendance sink \<Rightarrow> endpoint manager \<Rightarrow> db conn \<Rightarrow>
     (feed_ref list \<times> nat) res \<times> endpoint manager \<times> db conn" where
  "handle_attendants h req snk m c =
     (case GetFeedRefFromAddr (h_lib h) (rq_addr req) of
        Inl e \<Rightarrow> (Inl e, m, c)
      | Inr peer \<Rightarrow>
          (case enumerate_gate peer c of
             (Inl e, c1) \<Rightarrow> (Inl e, m, c1)
           | (Inr _, c1) \<Rightarrow>
               (let m1 = AddEndpoint peer (rq_endpoint req) m in
                case ListAsRefs (h_lib h) m1 of
                  Inl p \<Rightarrow> (Inl p, m1, c1)
                | Inr state_ids \<Rightarrow>
                    if \<not> accepts snk then (Inl (Msg ''stream closed''), m1, c1)
                    else (let (toPeer, m2) = RegisterAttendantsUpdates (use_write snk) m1
                          in (Inr (state_ids, toPeer), m2, c1)))))"

text \<open>The members stream writes one message per member and then closes.\<close>

fun encode_members :: "feed_ref list \<Rightarrow> feed_ref list sink \<Rightarrow> unit res \<times> feed_ref list sink" where
  "encode_members [] snk = (Inr (), snk)"
| "encode_members (k # ks) snk =
     (case sink_send [k] snk of
        (snk', Some e) \<Rightarrow> (Inl (Wrapped ''encoder error'' e), snk')
      | (snk', None) \<Rightarrow> encode_members ks snk')"

definition handle_members ::
  "handler \<Rightarrow> request \<Rightarrow> feed_ref list sink \<Rightarrow> db conn \<Rightarrow> unit res \<times> feed_ref list sink \<times> db conn" where
  "handle_members h req snk c =
     (case GetFeedRefFromAddr (h_lib h) (rq_addr req) of
        Inl e \<Rightarrow> (Inl e, snk, c)
      | Inr peer \<Rightarrow>
          (case members_gate peer c of
             (Inl e, c1) \<Rightarrow> (Inl e, snk, c1)
           | (Inr _, c1) \<Rightarrow>
               (case on_error (Wrapped ''error listing members'') Members_List c1 of
                  (Inl e, c2) \<Rightarrow> (Inl e, snk, c2)
                | (Inr ms, c2) \<Rightarrow>
                    (case encode_members (map m_pub_key ms) snk of
                       (Inl e, snk') \<Rightarrow> (Inl e, snk', c2)
                     | (Inr _, snk') \<Rightarrow>
                         (case sink_close snk' of
                            (snk'', None) \<Rightarrow> (Inr (), snk'', c2)
                          | (snk'', Some e) \<Rightarrow> (Inl e, snk'', c2))))))"

subsection \<open>Tunnels\<close>

record connect_arg =
  portal :: feed_ref
  target :: feed_ref

record tunnel =
  t_via :: endpoint
  t_arg :: connect_arg
  t_origin :: feed_ref

text \<open>
  \<open>unmarshal\<close> is \<open>json.Unmarshal\<close> into a list of arguments; \<open>duplex\<close> is the call of
  \<open>tunnel.connect\<close> on the target's endpoint, which the other side may refuse.
\<close>

definition HandleDuplex ::
  "handler \<Rightarrow> (string \<Rightarrow> connect_arg list res) \<Rightarrow> (tunnel \<Rightarrow> bool) \<Rightarrow> request \<Rightarrow> endpoint manager \<Rightarrow> tunnel res" where
  "HandleDuplex h unmarshal duplex req m =
     (case unmarshal (rq_args req) of
        Inl e \<Rightarrow> Inl (Wrapped ''connect: invalid arguments'' e)
      | Inr args \<Rightarrow>
          if length args \<noteq> 1 then Inl (Msg (''connect: expected 1 argument, got '' @ show_nat (length args)))
          else (let arg = hd args in
            if portal arg \<noteq> RoomID (h_net h) then Inl (Msg ''talking to the wrong room'')
            else (case GetFeedRefFromAddr (h_lib h) (rq_addr req) of
                    Inl e \<Rightarrow> Inl e
                  | Inr caller \<Rightarrow>
                      if caller = target arg then Inl (Msg ''can't connect to self'')
                      else (case Manager_Has (target arg) m of
                              None \<Rightarrow> Inl (Msg (''could not connect to:'' @ ref_string (target arg)))
                            | Some edp \<Rightarrow>
                                (let t = \<lparr>t_via = edp, t_arg = arg, t_origin = caller\<rparr> in
                                 if duplex t then Inr t
                                 else Inl (Msg (''could not connect to:'' @ ref_string (target arg))))))))"

text \<open>When the rpc session of a peer ends, its entry is removed from the room.\<close>

definition HandleConnect :: "handler \<Rightarrow> address \<Rightarrow> endpoint manager \<Rightarrow> endpoint manager" where
  "HandleConnect h remote m =
     (case GetFeedRefFromAddr (h_lib h) remote of Inl _ \<Rightarrow> m | Inr peer \<Rightarrow> Manager_Remove peer m)"

text \<open>
  Copying one direction of a tunnel: the messages the source delivers until it ends, with an error
  or without, are written to the sink; a failing write ends the copy.
\<close>

record copy_sink =
  cs_out :: "bytes list"
  cs_limit :: "nat option"
  cs_closed_with :: "err option"

fun copy_do :: "bytes list \<Rightarrow> err option \<Rightarrow> copy_sink \<Rightarrow> copy_sink \<times> bool" where
  "copy_do [] final w =
     (case final of None \<Rightarrow> (w, False) | Some e \<Rightarrow> (w\<lparr>cs_closed_with := Some e\<rparr>, True))"
| "copy_do (chunk # rest) final w =
     (if (case cs_limit w of None \<Rightarrow> True | Some n \<Rightarrow> length (cs_out w) < n)
      then copy_do rest final (w\<lparr>cs_out := cs_out w @ [chunk]\<rparr>)
      else (w\<lparr>cs_closed_with := Some (Msg ''write failed'')\<rparr>, True))"

text \<open>\<open>actualPingPong\<close> answers every timestamp it can decode with its own.\<close>

fun actualPingPong :: "(bytes \<Rightarrow> err option) \<Rightarrow> (nat \<Rightarrow> int64) \<Rightarrow> nat \<Rightarrow> bytes list \<Rightarrow> err option \<Rightarrow> int64 sink \<Rightarrow> unit res \<times> int64 sink" where
  "actualPingPong decode clock k [] final snk = (case final of None \<Rightarrow> Inr () | Some e \<Rightarrow> Inl e, snk)"
| "actualPingPong decode clock k (ping # pings) final snk =
     (case decode ping of
        Some e \<Rightarrow> (Inl e, snk)
      | None \<Rightarrow>
          (case sink_send (clock k) snk of
             (snk', Some e) \<Rightarrow> (Inl e, snk')
           | (snk', None) \<Rightarrow> actualPingPong decode clock (k + 1) pings final snk'))"

definition gossip_Ping ::
  "(string \<Rightarrow> err option) \<Rightarrow> (bytes \<Rightarrow> err option) \<Rightarrow> (nat \<Rightarrow> int64) \<Rightarrow> request \<Rightarrow> bytes list \<Rightarrow> err option \<Rightarrow> int64 sink \<Rightarrow> unit res \<times> int64 sink" where
  "gossip_Ping unmarshal decode clock req pings final snk =
     (case unmarshal (rq_args req) of
        Some e \<Rightarrow> (Inl e, snk)
      | None \<Rightarrow> actualPingPong decode clock 0 pings final snk)"

subsection \<open>The contract of the member directory\<close>

text \<open>
  What the privacy rule relies on: a lookup that succeeds found a member, and neither reading the
  mode nor the lookup changes anything.
\<close>

locale member_directory =
  fixes get_mode :: "('d, privacy_mode) action"
    and lookup :: "feed_ref \<Rightarrow> ('d, 'm) action"
    and mode_of :: "'d \<Rightarrow> privacy_mode"
    and member_of :: "feed_ref \<Rightarrow> 'd \<Rightarrow> bool"
  assumes mode_law: "get_mode c = (Inr pm, c') \<Longrightarrow> pm = mode_of (data c)"
    and mode_reads: "get_mode c = (r, c') \<Longrightarrow> data c' = data c"
    and lookup_law: "lookup k c = (Inr x, c') \<Longrightarrow> member_of k (data c)"
    and lookup_reads: "lookup k c = (q, c') \<Longrightarrow> data c' = data c"
begin

lemma gate_reads: "privacy_gate get_mode lookup f g k c = (r, c') \<Longrightarrow> data c' = data c"
proof -
  assume run: "privacy_gate get_mode lookup f g k c = (r, c')"
  obtain q c1 where m: "get_mode c = (q, c1)" by (cases "get_mode c")
  obtain w c2 where l: "lookup k c1 = (w, c2)" by (cases "lookup k c1")
  from run m l have "c' = c1 \<or> c' = c2"
    by (auto simp: privacy_gate_def andthen_def on_error_def ret_def split: sum.splits if_splits)
  then show ?thesis using mode_reads [OF m] lookup_reads [OF l] by auto
qed

lemma gate_sound:
  "privacy_gate get_mode lookup f g k c = (Inr u, c') \<Longrightarrow>
   mode_of (data c) \<in> {ModeCommunity, ModeRestricted} \<Longrightarrow> member_of k (data c)"
proof -
  assume run: "privacy_gate get_mode lookup f g k c = (Inr u, c')" and pm: "mode_of (data c) \<in> {ModeCommunity, ModeRestricted}"
  obtain m c1 where m: "get_mode c = (Inr m, c1)" using run by (auto simp: privacy_gate_def)
  have "m = mode_of (data c)" using mode_law [OF m] .
  with run m pm obtain x c2 where "lookup k c1 = (Inr x, c2)" by (auto simp: privacy_gate_def)
  then show ?thesis using lookup_law mode_reads [OF m] by fastforce
qed

end

lemma GetByFeed_reads: "Members_GetByFeed k c = (q, c') \<Longrightarrow> data c' = data c"
  using keepsD [OF keeps_Members(4), of k c q c' "\<lambda>d. d = data c"] by simp

lemma GetPrivacyMode_reads: "Config_GetPrivacyMode c = (q, c') \<Longrightarrow> data c' = data c"
  using keepsD [OF keeps_Config(1), of c q c' "\<lambda>d. d = data c"] by simp

interpretation directory: member_directory Config_GetPrivacyMode Members_GetByFeed
  "\<lambda>d. cf_mode (the_config d)" stored_member
proof unfold_locales
  fix c pm c' assume "Config_GetPrivacyMode c = (Inr pm, c')"
  then show "pm = cf_mode (the_config (data c))" by (auto dest: Config_GetPrivacyMode_ok)
next
  fix k c x c' assume "Members_GetByFeed k c = (Inr x, c')"
  then show "stored_member k (data c)"
    unfolding stored_member_def exists_row_conv by (blast dest: Members_GetByFeed_ok)
qed (auto dest: GetByFeed_reads GetPrivacyMode_reads)

lemma GetByFeed_clean:
  assumes clean: "faults c = []"
  shows "\<exists>r. Members_GetByFeed k c = (r, c) \<and> (r = Inl ErrNotFound \<and> \<not> stored_member k (data c) \<or> is_ok r \<and> stored_member k (data c))"
proof (cases "find_row (\<lambda>r. mb_pub_key r = k) (members (data c))")
  case None
  then have "\<not> stored_member k (data c)" unfolding stored_member_def exists_row_iff by simp
  with None clean show ?thesis by (simp add: Members_GetByFeed_def andthen_def on_error_def)
next
  case (Some ir)
  then have "stored_member k (data c)" unfolding stored_member_def exists_row_iff by simp
  with Some clean show ?thesis
    by (cases ir) (simp add: Members_GetByFeed_def andthen_def on_error_def ret_def)
qed

lemma gates_clean:
  assumes clean: "faults c = []" and wf: "db_wf (data c)"
    and ok: "cf_mode (the_config (data c)) = ModeOpen \<or> stored_member k (data c)"
  shows "enumerate_gate k c = (Inr (), c)" "members_gate k c = (Inr (), c)"
proof -
  obtain r where r: "Members_GetByFeed k c = (r, c)" "stored_member k (data c) \<Longrightarrow> is_ok r"
    using GetByFeed_clean [OF clean, of k] by auto
  have gate: "privacy_gate Config_GetPrivacyMode Members_GetByFeed f g k c = (Inr (), c)" for f g
    using ok r clean wf by (cases r)
      (auto simp: privacy_gate_def andthen_def on_error_def Config_get_clean ret_def mode_defs)
  show "enumerate_gate k c = (Inr (), c)" "members_gate k c = (Inr (), c)"
    by (simp_all only: enumerate_gate_def members_gate_def gate)
qed

subsection \<open>Properties\<close>

text \<open>C30: Unless the room is open, nobody but a member learns who is there: the endpoints, attendants and
  members streams answer any other caller with an error, write nothing to its stream, and leave the
  room and the stored data as they were, whatever the database does.\<close>

theorem streams_need_membership:
  assumes wf: "db_wf (data c)" and mode: "cf_mode (the_config (data c)) \<noteq> ModeOpen"
    and peer: "GetFeedRefFromAddr (h_lib h) (rq_addr req) = Inr peer" and no: "\<not> stored_member peer (data c)"
  shows "(\<exists>e c'. handle_endpoints h req s1 m c = (Inl e, m, c') \<and> data c' = data c)
     \<and> (\<exists>e c'. handle_attendants h req s2 m c = (Inl e, m, c') \<and> data c' = data c)
     \<and> (\<exists>e c'. handle_members h req s3 c = (Inl e, s3, c') \<and> data c' = data c)"
proof -
  have pm: "cf_mode (the_config (data c)) \<in> {ModeCommunity, ModeRestricted}"
    using config_wf [OF wf] mode by (auto simp: AllPrivacyModes_def)
  obtain r1 c1 where g1: "enumerate_gate peer c = (r1, c1)" by (cases "enumerate_gate peer c")
  obtain r2 c2 where g2: "members_gate peer c = (r2, c2)" by (cases "members_gate peer c")
  obtain e1 where e1: "r1 = Inl e1"
    using directory.gate_sound [OF _ pm] g1 no unfolding enumerate_gate_def by (cases r1) auto
  obtain e2 where e2: "r2 = Inl e2"
    using directory.gate_sound [OF _ pm] g2 no unfolding members_gate_def by (cases r2) auto
  have "data c1 = data c" "data c2 = data c"
    using g1 g2 directory.gate_reads unfolding enumerate_gate_def members_gate_def by blast+
  then show ?thesis
    using peer g1 g2 e1 e2 by (simp add: handle_endpoints_def handle_attendants_def handle_members_def)
qed

definition sample_handler :: handler where
  "sample_handler = \<lparr>h_net = \<lparr>RoomID = FeedRef ''@room'', ListenAddressMUXRPC = '':8008'', Domain = ''room.example'', PortHTTPS = 0,
      UseSubdomainForAliases = True, Development = False\<rparr>, h_lib = sample_lib\<rparr>"

definition request_of :: "feed_ref \<Rightarrow> endpoint \<Rightarrow> request" where
  "request_of who e = \<lparr>rq_addr = \<lparr>shs_addr = Some (ref_string who)\<rparr>, rq_endpoint = e, rq_args = []\<rparr>"

lemma request_of_peer [simp]:
  "GetFeedRefFromAddr (h_lib sample_handler) (rq_addr (request_of dave e)) = Inr dave"
  "GetFeedRefFromAddr (h_lib sample_handler) (rq_addr (request_of carol e)) = Inr carol"
  "GetFeedRefFromAddr (h_lib sample_handler) (rq_addr (request_of bob e)) = Inr bob"
  using sample_refs(13-16) by (simp_all add: GetFeedRefFromAddr_def sample_handler_def request_of_def del: sample_parse)

lemma sample_community [simp]: "cf_mode (the_config sample_db) = ModeCommunity"
  by (simp add: the_config_def initial_db_def configRowID_def)

lemma streams_need_membership_witness:
  "(\<exists>e c'. handle_endpoints sample_handler (request_of dave 1) new_sink NewManager sample_conn = (Inl e, NewManager, c') \<and> data c' = data sample_conn)
   \<and> (\<exists>e c'. handle_attendants sample_handler (request_of dave 1) new_sink NewManager sample_conn = (Inl e, NewManager, c') \<and> data c' = data sample_conn)
   \<and> (\<exists>e c'. handle_members sample_handler (request_of dave 1) new_sink sample_conn = (Inl e, new_sink, c') \<and> data c' = data sample_conn)"
  by (rule streams_need_membership [of _ _ _ dave]) (simp_all add: stored_member_def exists_row_def mode_defs)

subsection \<open>The room as the peers change it\<close>

text \<open>
  Every call of a peer that touches the room, in any order: announcing, leaving, opening one of the
  two streams and the end of a session.
\<close>

definition room_parses :: "lib \<Rightarrow> 'e manager \<Rightarrow> bool" where
  "room_parses L m \<longleftrightarrow> (\<forall>s \<in> fst ` set (room m). parse_ref L s = Some (FeedRef s))"

inductive peer_step :: "handler \<Rightarrow> endpoint manager \<Rightarrow> unit \<Rightarrow> endpoint manager \<Rightarrow> bool" for h where
  announce: "handle_announce h req m = (r, m') \<Longrightarrow> peer_step h m () m'"
| leave: "handle_leave h req m = (r, m') \<Longrightarrow> peer_step h m () m'"
| endpoints: "handle_endpoints h req snk m c = (q, m', c') \<Longrightarrow> peer_step h m () m'"
| attendants: "handle_attendants h req snk' m c = (a, m', c') \<Longrightarrow> peer_step h m () m'"
| gone: "m' = HandleConnect h remote m \<Longrightarrow> peer_step h m () m'"

lemma room_ops [simp]:
  "room (AddEndpoint who e m) = AList.update (ref_string who) e (room m)"
  "room (Manager_Remove who m) = AList.delete (ref_string who) (room m)"
  "room (snd (AlreadyAdded who e m)) =
     (if map_of (room m) (ref_string who) \<noteq> None then room m else AList.update (ref_string who) e (room m))"
  "room (snd (RegisterLegacyEndpoints s m)) = room m"
  "room (snd (RegisterAttendantsUpdates s' m)) = room m"
  by (simp_all add: AddEndpoint_def Manager_Remove_def AlreadyAdded_def broadcast_joined_def broadcast_left_def
      Let_def RegisterLegacyEndpoints_def RegisterAttendantsUpdates_def split_beta)

definition refs_parse :: "lib \<Rightarrow> (string \<times> 'e) list \<Rightarrow> bool" where
  "refs_parse L rs \<longleftrightarrow> (\<forall>s \<in> dom (map_of rs). parse_ref L s = Some (FeedRef s))"

lemma room_parses_iff: "room_parses L m \<longleftrightarrow> refs_parse L (room m)"
  by (simp add: room_parses_def refs_parse_def dom_map_of_conv_image_fst)

lemma refs_parse_ops:
  "refs_parse L rs \<Longrightarrow> parse_ref L (ref_string who) = Some who \<Longrightarrow> refs_parse L (AList.update (ref_string who) e rs)"
  "refs_parse L rs \<Longrightarrow> refs_parse L (AList.delete k rs)"
  by (cases who) (auto simp: refs_parse_def update_conv' delete_conv')

definition room_ok :: "lib \<Rightarrow> 'e manager \<Rightarrow> bool" where
  "room_ok L m \<longleftrightarrow> manager_ok m \<and> room_parses L m"

lemma room_ok_ops:
  assumes "room_ok L m"
  shows "parse_ref L (ref_string who) = Some who \<Longrightarrow> room_ok L (AddEndpoint who e m)"
    "parse_ref L (ref_string who) = Some who \<Longrightarrow> room_ok L (snd (AlreadyAdded who e m))"
    "room_ok L (Manager_Remove who m)"
    "room_ok L (snd (RegisterLegacyEndpoints s m))"
    "room_ok L (snd (RegisterAttendantsUpdates s' m))"
  using assms by (simp_all add: room_ok_def room_parses_iff refs_parse_ops)

lemma send_direct_ok [simp]: "broadcast_ok (send_direct i msg b) = broadcast_ok b"
  by (simp add: send_direct_def broadcast_ok_def)

lemma room_ok_endpoints_bc [simp]:
  "broadcast_ok b \<Longrightarrow> room_ok L (m\<lparr>endpoints_bc := b\<rparr>) \<longleftrightarrow> room_ok L (m\<lparr>endpoints_bc := new_broadcast\<rparr>)"
  by (simp add: room_ok_def manager_ok_def room_parses_def)

lemma room_ok_step:
  assumes canonical: "parse_canonical (h_lib h)" and ok: "room_ok (h_lib h) m" and step: "peer_step h m l m'"
  shows "room_ok (h_lib h) m'"
proof -
  have known: "GetFeedRefFromAddr (h_lib h) a = Inr who \<Longrightarrow> parse_ref (h_lib h) (ref_string who) = Some who" for a who
    using GetFeedRefFromAddr_ok canonical by blast
  note ops = room_ok_ops [OF ok]
  from step show ?thesis
  proof cases
    case (announce req r)
    then show ?thesis using ok ops(1) known by (auto simp: handle_announce_def split: sum.splits)
  next
    case (leave req r)
    then show ?thesis using ok ops(3) by (auto simp: handle_leave_def split: sum.splits)
  next
    case (endpoints req snk c q c')
    show ?thesis
    proof (cases "m' = m")
      case False
      then obtain peer where peer: "GetFeedRefFromAddr (h_lib h) (rq_addr req) = Inr peer"
        and m': "\<exists>i msg. m' = snd (AlreadyAdded peer (rq_endpoint req) (snd (RegisterLegacyEndpoints snk m)))
             \<lparr>endpoints_bc := send_direct i msg (endpoints_bc (snd (AlreadyAdded peer (rq_endpoint req) (snd (RegisterLegacyEndpoints snk m)))))\<rparr>"
        using endpoints by (auto simp: handle_endpoints_def split_beta Let_def split: sum.splits prod.splits)
      have "room_ok (h_lib h) (snd (AlreadyAdded peer (rq_endpoint req) (snd (RegisterLegacyEndpoints snk m))))"
        using room_ok_ops(2) [OF ops(4)] known [OF peer] by blast
      then show ?thesis using m' by (auto simp: room_ok_def manager_ok_def room_parses_def)
    qed (simp add: ok)
  next
    case (attendants req snk c a c')
    then show ?thesis using ok room_ok_ops(5) [OF ops(1)] ops(1) known
      by (auto simp: handle_attendants_def Let_def split_beta split: sum.splits prod.splits if_splits)
  next
    case (gone remote)
    then show ?thesis using ok ops(3) by (auto simp: HandleConnect_def split: sum.splits)
  qed
qed

interpretation peer_inv: inductive_invariant "\<lambda>m. m = NewManager" "peer_step h"
  "\<lambda>m. parse_canonical (h_lib h) \<longrightarrow> room_ok (h_lib h) m" for h
proof unfold_locales
  show "m = NewManager \<Longrightarrow> parse_canonical (h_lib h) \<longrightarrow> room_ok (h_lib h) m" for m :: "endpoint manager"
    by (simp add: room_ok_def room_parses_def NewManager_def manager_ok_def)
qed (blast intro: room_ok_step)

lemma parse_all_ok: "\<forall>s \<in> set ss. parse_ref L s = Some (FeedRef s) \<Longrightarrow> parse_all L ss = Inr (map FeedRef ss)"
  by (induction ss) simp_all

lemma list_as_refs: "room_ok L m \<Longrightarrow> ListAsRefs L m = Inr (map FeedRef (Manager_List m))"
  by (auto simp: ListAsRefs_def Manager_List_def room_ok_def room_parses_def intro!: parse_all_ok)

lemma set_refs: "set (map FeedRef (Manager_List m)) = present m"
proof -
  have "who \<in> FeedRef ` set (Manager_List m) \<longleftrightarrow> who \<in> present m" for who
    by (cases who) (auto simp: Manager_List_def present_def Manager_Has_def dom_map_of_conv_image_fst [symmetric] image_iff)
  then show ?thesis by auto
qed

text \<open>However the peers come, go and open streams, the panic in \<open>ListAsRefs\<close> is never reached: the
  list of the room is defined, sorted, without repetitions, and names exactly those present.\<close>

lemma room_list_never_panics:
  assumes "parse_canonical (h_lib h)" and "reach (\<lambda>m. m = NewManager) (peer_step h) m"
  shows "\<exists>ids. ListAsRefs (h_lib h) m = Inr ids \<and> set ids = present m \<and> sorted (map ref_string ids) \<and> distinct ids"
proof -
  have ok: "room_ok (h_lib h) m" using peer_inv.reach_inv assms by blast
  have "map ref_string (map FeedRef (Manager_List m)) = Manager_List m" by (simp add: comp_def)
  then have "sorted (map ref_string (map FeedRef (Manager_List m)))" "distinct (map FeedRef (Manager_List m))"
    using ok by (simp_all add: Manager_List_def room_ok_def manager_ok_def distinct_map inj_on_def del: map_map)
  then show ?thesis using list_as_refs [OF ok] set_refs by metis
qed

definition sample_room :: "endpoint manager" where
  "sample_room = snd (handle_announce sample_handler (request_of bob 4) NewManager)"

lemma sample_room_reach: "reach (\<lambda>m. m = NewManager) (peer_step sample_handler) sample_room"
proof (rule reach_step)
  show "reach (\<lambda>m. m = NewManager) (peer_step sample_handler) NewManager" by (simp add: reach_init)
  show "peer_step sample_handler NewManager () sample_room"
    unfolding sample_room_def by (rule peer_step.announce [of _ "request_of bob 4"]) (rule surjective_pairing)
qed

lemma room_list_never_panics_witness:
  "\<exists>ids. ListAsRefs (h_lib sample_handler) sample_room = Inr ids \<and> set ids = present sample_room
     \<and> sorted (map ref_string ids) \<and> distinct ids"
  by (rule room_list_never_panics [OF _ sample_room_reach]) (simp add: sample_handler_def)

text \<open>An attendants stream opens with everybody present, the caller included; a client that starts
  from that list and follows the messages that come after it always knows who is in the room, as
  long as changes happen one after the other and its stream stays open.\<close>

lemma attendants_session:
  assumes canonical: "parse_canonical (h_lib h)" and ok: "room_ok (h_lib h) m"
    and run: "handle_attendants h req snk m c = (Inr (names, i), m1, c')" and fresh: "sent snk = []"
    and chs: "m2 = fold apply_change chs m1" and live: "i \<in> set (sinks (attendants_bc m2))"
  shows "\<exists>peer. GetFeedRefFromAddr (h_lib h) (rq_addr req) = Inr peer \<and> set names = insert peer (present m)
    \<and> fold follow (log_of (attendants_bc m2) i) (set names) = present m2"
proof -
  obtain peer where peer: "GetFeedRefFromAddr (h_lib h) (rq_addr req) = Inr peer"
    and names: "ListAsRefs (h_lib h) (AddEndpoint peer (rq_endpoint req) m) = Inr names"
    and reg: "RegisterAttendantsUpdates (use_write snk) (AddEndpoint peer (rq_endpoint req) m) = (i, m1)"
    using run by (auto simp: handle_attendants_def Let_def split: sum.splits prod.splits if_splits)
  have ok1: "room_ok (h_lib h) (AddEndpoint peer (rq_endpoint req) m)"
    using room_ok_ops(1) [OF ok] GetFeedRefFromAddr_ok [OF peer canonical] .
  have set_ids: "set names = present (AddEndpoint peer (rq_endpoint req) m)"
    using names list_as_refs [OF ok1] set_refs [of "AddEndpoint peer (rq_endpoint req) m"] by auto
  have m1: "attendants_bc m1 = snd (register (use_write snk) (attendants_bc (AddEndpoint peer (rq_endpoint req) m)))"
    "i = next_id (attendants_bc (AddEndpoint peer (rq_endpoint req) m))" "present m1 = present (AddEndpoint peer (rq_endpoint req) m)"
    using reg by (auto simp: RegisterAttendantsUpdates_def split_beta register_simps present_def Manager_Has_def)
  have start: "log_of (attendants_bc m1) i = []" using m1 fresh by (simp add: register_simps use_write_def)
  have "broadcast_ok (attendants_bc m1)" using m1(1) ok1 by (simp add: room_ok_def manager_ok_def)
  then have "log_of (attendants_bc m2) i = map change_of chs"
    using attendants_bcast.received_all [of "attendants_bc m1" i "map change_of chs"] live start
    by (simp add: chs attendants_changes)
  then show ?thesis using peer set_ids present_change [of "Join peer (rq_endpoint req)" m] m1(3)
    by (simp add: chs present_changes)
qed

lemma attendants_session_witness:
  "\<exists>names m1. handle_attendants sample_handler (request_of carol 7) new_sink sample_room sample_conn = (Inr (names, 0), m1, sample_conn)
     \<and> set names = insert carol (present sample_room)
     \<and> fold follow (log_of (attendants_bc (fold apply_change [Leave bob] m1)) 0) (set names) = present (fold apply_change [Leave bob] m1)"
proof -
  have ok: "room_ok (h_lib sample_handler) sample_room"
    using peer_inv.reach_inv [OF sample_room_reach] by (simp add: sample_handler_def)
  have gate: "enumerate_gate carol sample_conn = (Inr (), sample_conn)"
    by (rule gates_clean) (simp_all add: stored_member_def exists_row_def)
  have ok1: "room_ok (h_lib sample_handler) (AddEndpoint carol 7 sample_room)"
    using room_ok_ops(1) [OF ok, of carol 7] GetFeedRefFromAddr_ok [OF request_of_peer(2) [of 7]] by (simp add: sample_handler_def)
  let ?m0 = "AddEndpoint carol 7 sample_room" and ?names = "map FeedRef (Manager_List (AddEndpoint carol 7 sample_room))"
  let ?m1 = "snd (RegisterAttendantsUpdates (use_write new_sink) ?m0)"
  have room: "sample_room = AddEndpoint bob 4 NewManager" "rq_endpoint (request_of carol 7) = 7"
    by (simp_all add: sample_room_def handle_announce_def) (simp_all add: request_of_def)
  have sinks: "next_id (attendants_bc ?m0) = 0" "sinks (attendants_bc (fold apply_change [Leave bob] ?m1)) = [0]"
    unfolding room
    by (simp_all add: AddEndpoint_def broadcast_joined_def NewManager_def new_broadcast_def Attendants_Joined_def emit_def
        RegisterAttendantsUpdates_def register_def split_beta Manager_Remove_def broadcast_left_def Attendants_Left_def
        sink_send_def use_write_def new_sink_def accepts_def Let_def)
  have run: "handle_attendants sample_handler (request_of carol 7) new_sink sample_room sample_conn = (Inr (?names, 0), ?m1, sample_conn)"
    using sinks(1) by (simp add: handle_attendants_def gate list_as_refs [OF ok1] room(2) accepts_def new_sink_def
        RegisterAttendantsUpdates_def register_def split_beta Let_def)
  have "parse_canonical (h_lib sample_handler)" by (simp add: sample_handler_def)
  moreover have "0 \<in> set (sinks (attendants_bc (fold apply_change [Leave bob] ?m1)))" unfolding sinks(2) by simp
  ultimately have "\<exists>peer. GetFeedRefFromAddr (h_lib sample_handler) (rq_addr (request_of carol 7)) = Inr peer
      \<and> set ?names = insert peer (present sample_room)
      \<and> fold follow (log_of (attendants_bc (fold apply_change [Leave bob] ?m1)) 0) (set ?names) = present (fold apply_change [Leave bob] ?m1)"
    by (rule attendants_session [OF _ ok run sent_new refl])
  then have "set ?names = insert carol (present sample_room)
      \<and> fold follow (log_of (attendants_bc (fold apply_change [Leave bob] ?m1)) 0) (set ?names) = present (fold apply_change [Leave bob] ?m1)"
    unfolding request_of_peer by blast
  with run show ?thesis by blast
qed

text \<open>Where calls to a peer go after a sequence of joins and leaves: to its last endpoint.\<close>

fun last_endpoint :: "feed_ref \<Rightarrow> 'e change list \<Rightarrow> 'e option \<Rightarrow> 'e option" where
  "last_endpoint who [] e = e"
| "last_endpoint who (Join p e' # chs) e = last_endpoint who chs (if p = who then Some e' else e)"
| "last_endpoint who (Leave p # chs) e = last_endpoint who chs (if p = who then None else e)"

lemma Has_changes: "Manager_Has who (fold apply_change chs m) = last_endpoint who chs (Manager_Has who m)"
  by (induction who chs "Manager_Has who m" arbitrary: m rule: last_endpoint.induct) (simp_all add: Has_ops)

text \<open>C31: After a peer announced itself and any joins and leaves followed, a tunnel to it is made exactly
  for a call with one argument that names this room as the portal, from somebody else, while the
  peer is still present and accepts; it goes through the endpoint the peer joined with last, and
  the origin the peer is told is the caller the connection was authenticated as.\<close>

theorem tunnel_follows_presence:
  assumes announced: "handle_announce h r m = (Inr True, m1)" "GetFeedRefFromAddr (h_lib h) (rq_addr r) = Inr who"
    and args: "unmarshal (rq_args req) = Inr args" "map target args = map (\<lambda>_. who) args"
  shows "HandleDuplex h unmarshal duplex req (fold apply_change chs m1) = Inr t \<longleftrightarrow>
    (\<exists>arg caller edp. args = [arg] \<and> portal arg = RoomID (h_net h)
       \<and> GetFeedRefFromAddr (h_lib h) (rq_addr req) = Inr caller \<and> caller \<noteq> who
       \<and> last_endpoint who chs (Some (rq_endpoint r)) = Some edp
       \<and> t = \<lparr>t_via = edp, t_arg = arg, t_origin = caller\<rparr> \<and> duplex t)"
proof -
  have m1: "m1 = AddEndpoint who (rq_endpoint r) m" using announced by (simp add: handle_announce_def)
  have has: "Manager_Has who (fold apply_change chs m1) = last_endpoint who chs (Some (rq_endpoint r))"
    by (simp add: Has_changes m1 Has_ops)
  show ?thesis
  proof (cases "\<exists>arg. args = [arg]")
    case True
    then obtain arg where arg: "args = [arg]" "target arg = who" using args(2) by auto
    show ?thesis using arg args(1) has
      by (auto simp: HandleDuplex_def Let_def split: sum.splits option.splits)
  next
    case False
    then have "length args \<noteq> 1" by (auto simp: length_Suc_conv)
    then show ?thesis using False args(1) by (simp add: HandleDuplex_def)
  qed
qed

definition to_bob :: connect_arg where
  "to_bob = \<lparr>portal = FeedRef ''@room'', target = bob\<rparr>"

lemma tunnel_follows_presence_witness:
  "HandleDuplex sample_handler (\<lambda>_. Inr [to_bob]) (\<lambda>_. True) (request_of carol 1) (fold apply_change [Join bob 9] sample_room)
     = Inr \<lparr>t_via = 9, t_arg = to_bob, t_origin = carol\<rparr>"
proof -
  have "handle_announce sample_handler (request_of bob 4) NewManager = (Inr True, sample_room)"
    by (simp add: sample_room_def handle_announce_def)
  from tunnel_follows_presence [OF this request_of_peer(3), of "\<lambda>_. Inr [to_bob]" "request_of carol 1" "[to_bob]" "\<lambda>_. True" "[Join bob 9]"
      "\<lparr>t_via = 9, t_arg = to_bob, t_origin = carol\<rparr>"]
  show ?thesis using request_of_peer(2) [of 1] by (simp add: to_bob_def) (simp add: sample_handler_def bob_def carol_def)
qed

text \<open>The session that ends takes the peer out of the room even when a newer session of the same peer
  has announced itself since: calls to the peer fail although it is connected.\<close>

lemma session_end_drops_newer:
  assumes "GetFeedRefFromAddr (h_lib h) (rq_addr old) = Inr who" and "GetFeedRefFromAddr (h_lib h) (rq_addr new) = Inr who"
  shows "Manager_Has who (snd (handle_announce h new (snd (handle_announce h old m)))) = Some (rq_endpoint new)
    \<and> Manager_Has who (HandleConnect h (rq_addr old) (snd (handle_announce h new (snd (handle_announce h old m))))) = None"
  using assms by (simp add: handle_announce_def HandleConnect_def Has_ops)

lemma session_end_drops_newer_witness:
  "Manager_Has bob (HandleConnect sample_handler (rq_addr (request_of bob 1))
     (snd (handle_announce sample_handler (request_of bob 2) (snd (handle_announce sample_handler (request_of bob 1) NewManager))))) = None"
  using session_end_drops_newer [OF request_of_peer(3) [of 1] request_of_peer(3) [of 2], of NewManager] by blast

subsection \<open>Copying\<close>

text \<open>What is written is what the source delivered, or a prefix of it when the sink broke.\<close>

lemma copy_do_out:
  "cs_out (fst (copy_do chunks final w)) =
     cs_out w @ (case cs_limit w of None \<Rightarrow> chunks | Some n \<Rightarrow> take (n - length (cs_out w)) chunks)"
proof (induction chunks final w rule: copy_do.induct)
  case (2 chunk rest final w)
  then show ?case by (cases "cs_limit w") (auto simp: take_Cons')
qed (simp split: option.splits)

lemma copy_do_cancel:
  "snd (copy_do chunks final w) \<longleftrightarrow> final \<noteq> None \<or> (\<exists>n. cs_limit w = Some n \<and> n < length (cs_out w) + length chunks \<and> chunks \<noteq> [])"
proof (induction chunks final w rule: copy_do.induct)
  case (2 chunk rest final w)
  show ?case
  proof (cases "case cs_limit w of None \<Rightarrow> True | Some n \<Rightarrow> length (cs_out w) < n")
    case True
    then show ?thesis using 2 [OF True] by (cases rest) (auto split: option.splits)
  next
    case False
    then show ?thesis by (auto split: option.splits)
  qed
qed (simp split: option.splits)

end
