(* ===== verification/ConnTracker.thy ===== *)
theory ConnTracker
  imports NetInfo "HOL-Library.AList"
begin

text \<open>
  \<open>internal/network/conntracker.go\<close> and \<open>conntracker_acceptAll.go\<close>: which connections are open. The
  first tracker refuses a second connection of a public key, the second closes the old connection
  and waits for it, the third only keeps a list. A connection is known by a number.
\<close>

subsection \<open>Connections\<close>

record netconn =
  nc_id :: nat
  nc_key :: "bytes option"
  nc_addr :: address
  nc_remote :: string

text \<open>
  \<open>toActive\<close> copies the public key of a secret-handshake address into 32 bytes and panics on any
  other address.
\<close>

definition toActive :: "netconn \<Rightarrow> bytes res" where
  "toActive c =
     (case nc_key c of
        None \<Rightarrow> Inl (Panic ''not an SHS connection'')
      | Some pk \<Rightarrow> Inr (take 32 (pk @ replicate 32 (CHR 0x00))))"

record entry =
  en_conn :: netconn
  en_started :: time

type_synonym active = "(bytes \<times> entry) list"

subsection \<open>One connection per key\<close>

definition Tracker_Count :: "active \<Rightarrow> nat" where
  "Tracker_Count ct = length ct"

definition Tracker_Active :: "time \<Rightarrow> netconn \<Rightarrow> active \<Rightarrow> (bool \<times> time) res" where
  "Tracker_Active now a ct =
     map_res (\<lambda>k. case map_of ct k of None \<Rightarrow> (False, 0) | Some l \<Rightarrow> (True, now - en_started l)) (toActive a)"

definition Tracker_OnAccept :: "time \<Rightarrow> netconn \<Rightarrow> active \<Rightarrow> bool res \<times> active" where
  "Tracker_OnAccept now conn ct =
     (case toActive conn of
        Inl p \<Rightarrow> (Inl p, ct)
      | Inr k \<Rightarrow>
          if map_of ct k \<noteq> None then (Inr False, ct)
          else (Inr True, AList.update k \<lparr>en_conn = conn, en_started = now\<rparr> ct))"

definition Tracker_OnClose :: "time \<Rightarrow> netconn \<Rightarrow> active \<Rightarrow> time res \<times> active" where
  "Tracker_OnClose now conn ct =
     (case toActive conn of
        Inl p \<Rightarrow> (Inl p, ct)
      | Inr k \<Rightarrow>
          (case map_of ct k of
             None \<Rightarrow> (Inr 0, ct)
           | Some who \<Rightarrow> (Inr (now - en_started who), AList.delete k ct)))"

text \<open>\<open>CloseAll\<close> closes and cancels every connection; the entries go when they report their end.\<close>

definition Tracker_CloseAll :: "active \<Rightarrow> netconn list" where
  "Tracker_CloseAll ct = map (\<lambda>(k, e). en_conn e) ct"

subsection \<open>The last connection wins\<close>

text \<open>
  \<open>gone e\<close>: the old connection of entry \<open>e\<close> reported its end within ten seconds, and by doing so
  deleted its entry. Nothing else happens in between here; \<open>last_wins_step\<close> below has the general
  case.
\<close>

definition LastWins_OnAccept :: "(entry \<Rightarrow> bool) \<Rightarrow> time \<Rightarrow> netconn \<Rightarrow> active \<Rightarrow> bool res \<times> active" where
  "LastWins_OnAccept gone now newConn ct =
     (case toActive newConn of
        Inl p \<Rightarrow> (Inl p, ct)
      | Inr k \<Rightarrow>
          (case map_of ct k of
             None \<Rightarrow> (Inr True, AList.update k \<lparr>en_conn = newConn, en_started = now\<rparr> ct)
           | Some oldConn \<Rightarrow>
               if gone oldConn then (Inr True, AList.update k \<lparr>en_conn = newConn, en_started = now\<rparr> (AList.delete k ct))
               else (Inr False, ct)))"

subsection \<open>Everybody is accepted\<close>

definition sameByRemote :: "netconn \<Rightarrow> string \<Rightarrow> bool" where
  "sameByRemote a b \<longleftrightarrow> nc_remote a = b"

definition AcceptAll_OnAccept :: "netconn \<Rightarrow> netconn list \<Rightarrow> bool \<times> netconn list" where
  "AcceptAll_OnAccept conn conns = (True, conns @ [conn])"

fun first_remote :: "string \<Rightarrow> nat \<Rightarrow> netconn list \<Rightarrow> nat option" where
  "first_remote a i [] = None"
| "first_remote a i (c # cs) = (if sameByRemote c a then Some i else first_remote a (i + 1) cs)"

text \<open>The closed connection is replaced by the last one, which is cut off.\<close>

definition AcceptAll_OnClose :: "netconn \<Rightarrow> netconn list \<Rightarrow> time \<times> netconn list" where
  "AcceptAll_OnClose conn conns =
     (case first_remote (nc_remote conn) 0 conns of
        None \<Rightarrow> (0, conns)
      | Some i \<Rightarrow> (1, butlast (conns[i := last conns])))"

definition AcceptAll_Active :: "string \<Rightarrow> netconn list \<Rightarrow> bool \<times> time" where
  "AcceptAll_Active a conns = (list_ex (\<lambda>c. sameByRemote c a) conns, 0)"

definition AcceptAll_Count :: "netconn list \<Rightarrow> nat" where
  "AcceptAll_Count conns = length conns"

definition AcceptAll_CloseAll :: "netconn list \<Rightarrow> netconn list \<times> netconn list" where
  "AcceptAll_CloseAll conns = (conns, [])"

subsection \<open>Many connections at once\<close>

text \<open>
  Connections come and go. A connection that was accepted is \<open>live\<close> until its handler reports its
  end with \<open>OnClose\<close>. The tracker that refuses is asked in one critical section.
\<close>

record tracked =
  table_of :: active
  live :: "netconn list"

datatype conn_event = Accepted netconn | Refused netconn | Ended netconn

inductive tracker_step :: "tracked \<Rightarrow> conn_event \<Rightarrow> tracked \<Rightarrow> bool" where
  accepted: "conn \<notin> set (live s) \<Longrightarrow> Tracker_OnAccept now conn (table_of s) = (Inr True, ct) \<Longrightarrow>
     tracker_step s (Accepted conn) (s\<lparr>table_of := ct, live := live s @ [conn]\<rparr>)"
| refused: "Tracker_OnAccept now conn (table_of s) = (Inr False, ct) \<Longrightarrow>
     tracker_step s (Refused conn) (s\<lparr>table_of := ct\<rparr>)"
| ended: "conn \<in> set (live s) \<Longrightarrow> Tracker_OnClose now conn (table_of s) = (r, ct) \<Longrightarrow>
     tracker_step s (Ended conn) (s\<lparr>table_of := ct, live := removeAll conn (live s)\<rparr>)"

definition tracked_init :: "tracked \<Rightarrow> bool" where
  "tracked_init s \<longleftrightarrow> s = \<lparr>table_of = [], live = []\<rparr>"

text \<open>
  The other tracker looks up the old connection, releases the lock, waits for it, and takes the lock
  again to put the new one in. \<open>asked\<close> has the calls in between: the connection and the old entry it
  waits for, if there is one; \<open>done_ids\<close> has the connections whose entry reported its end.
\<close>

record last_wins =
  lw_table :: active
  lw_live :: "netconn list"
  asked :: "(netconn \<times> entry option) list"
  done_ids :: "nat list"

inductive last_wins_step :: "last_wins \<Rightarrow> conn_event option \<Rightarrow> last_wins \<Rightarrow> bool" where
  look: "toActive conn = Inr k \<Longrightarrow>
     last_wins_step s None (s\<lparr>asked := (conn, map_of (lw_table s) k) # asked s\<rparr>)"
| put: "asked s = ps @ (conn, old) # qs \<Longrightarrow> toActive conn = Inr k \<Longrightarrow>
     (case old of None \<Rightarrow> True | Some e \<Rightarrow> nc_id (en_conn e) \<in> set (done_ids s)) \<Longrightarrow>
     last_wins_step s (Some (Accepted conn))
       (s\<lparr>lw_table := AList.update k \<lparr>en_conn = conn, en_started = now\<rparr> (lw_table s), lw_live := lw_live s @ [conn], asked := ps @ qs\<rparr>)"
| give_up: "asked s = ps @ (conn, Some e) # qs \<Longrightarrow> last_wins_step s (Some (Refused conn)) (s\<lparr>asked := ps @ qs\<rparr>)"
| closed: "conn \<in> set (lw_live s) \<Longrightarrow> toActive conn = Inr k \<Longrightarrow>
     last_wins_step s (Some (Ended conn))
       (s\<lparr>lw_table := AList.delete k (lw_table s), lw_live := removeAll conn (lw_live s),
          done_ids := (case map_of (lw_table s) k of None \<Rightarrow> done_ids s | Some e \<Rightarrow> nc_id (en_conn e) # done_ids s)\<rparr>)"

definition last_wins_init :: "last_wins \<Rightarrow> bool" where
  "last_wins_init s \<longleftrightarrow> s = \<lparr>lw_table = [], lw_live = [], asked = [], done_ids = []\<rparr>"

subsection \<open>Contract\<close>

text \<open>
  What the node relies on: accepting makes the connection the holder of its key, refusing changes
  nothing, and the end of a connection leaves its key free and every other key alone.
\<close>

definition holder :: "active \<Rightarrow> bytes \<Rightarrow> netconn option" where
  "holder ct k = map_option en_conn (map_of ct k)"

locale conn_tracker =
  fixes accept :: "time \<Rightarrow> netconn \<Rightarrow> 't \<Rightarrow> bool res \<times> 't"
    and close :: "time \<Rightarrow> netconn \<Rightarrow> 't \<Rightarrow> time res \<times> 't"
    and holds :: "'t \<Rightarrow> bytes \<Rightarrow> netconn option"
  assumes accept_law: "accept now c t = (Inr True, t') \<Longrightarrow> \<exists>k. toActive c = Inr k \<and> holds t' = (holds t)(k \<mapsto> c)"
    and refuse_law: "accept now c t = (r, t') \<Longrightarrow> r \<noteq> Inr True \<Longrightarrow> t' = t"
    and close_law: "close now c t = (q, t') \<Longrightarrow> toActive c = Inr k \<Longrightarrow> holds t' = (holds t)(k := None)"
begin

lemma accept_then_close:
  "accept now c t = (Inr True, t1) \<Longrightarrow> close later c t1 = (q, t2) \<Longrightarrow>
   \<exists>k. toActive c = Inr k \<and> holds t2 = (holds t)(k := None)"
  using accept_law [of now c t t1] close_law [of later c t1 q t2] by fastforce

end

lemma holder_simps [simp]:
  "holder (AList.update k e ct) = (holder ct)(k \<mapsto> en_conn e)" "holder (AList.delete k ct) = (holder ct)(k := None)"
  by (auto simp: holder_def fun_eq_iff update_conv' delete_conv')

interpretation first_wins: conn_tracker Tracker_OnAccept Tracker_OnClose holder
proof
  fix now c t q t' k assume "Tracker_OnClose now c t = (q, t')" "toActive c = Inr k"
  then show "holder t' = (holder t)(k := None)"
    by (auto simp: Tracker_OnClose_def holder_def fun_eq_iff delete_conv' split: option.splits)
qed (auto simp: Tracker_OnAccept_def split: sum.splits if_splits)

interpretation last_wins: conn_tracker "LastWins_OnAccept gone" Tracker_OnClose holder for gone
proof
  fix now c t t' assume "LastWins_OnAccept gone now c t = (Inr True, t')"
  then show "\<exists>k. toActive c = Inr k \<and> holder t' = (holder t)(k \<mapsto> c)"
    by (auto simp: LastWins_OnAccept_def split: sum.splits option.splits if_splits)
next
  fix now c t q t' k assume "Tracker_OnClose now c t = (q, t')" "toActive c = Inr k"
  then show "holder t' = (holder t)(k := None)" by (rule first_wins.close_law)
qed (auto simp: LastWins_OnAccept_def split: sum.splits option.splits if_splits)

lemma LastWins_accepts_new:
  "toActive c = Inr k \<Longrightarrow> holder t k = None \<or> (\<forall>e. gone e) \<Longrightarrow> fst (LastWins_OnAccept gone now c t) = Inr True"
  by (auto simp: LastWins_OnAccept_def holder_def split: option.splits)

subsection \<open>Invariant of the tracker that refuses\<close>

definition tracked_ok :: "tracked \<Rightarrow> bool" where
  "tracked_ok s \<longleftrightarrow> distinct (live s) \<and> distinct (map fst (table_of s))
     \<and> (\<forall>c \<in> set (live s). \<exists>k. toActive c = Inr k)
     \<and> (\<forall>c k. c \<in> set (live s) \<and> toActive c = Inr k \<longleftrightarrow> holder (table_of s) k = Some c)"

lemma tracked_okD:
  assumes "tracked_ok s"
  shows "distinct (live s)" "distinct (map fst (table_of s))" "c \<in> set (live s) \<Longrightarrow> \<exists>k. toActive c = Inr k"
    "c \<in> set (live s) \<and> toActive c = Inr k \<longleftrightarrow> holder (table_of s) k = Some c"
  using assms unfolding tracked_ok_def by blast+

lemma live_holds:
  assumes "tracked_ok s" "c \<in> set (live s)"
  obtains k where "toActive c = Inr k" "holder (table_of s) k = Some c"
  using tracked_okD(3,4) [OF assms(1)] assms(2) by blast

lemma Tracker_OnAccept_True:
  "Tracker_OnAccept now c t = (Inr True, t') \<longleftrightarrow>
     (\<exists>k. toActive c = Inr k \<and> holder t k = None \<and> t' = AList.update k \<lparr>en_conn = c, en_started = now\<rparr> t)"
  by (auto simp: Tracker_OnAccept_def holder_def split: sum.splits if_splits)

interpretation tracked_inv: inductive_invariant tracked_init tracker_step tracked_ok
proof
  fix s assume "tracked_init s"
  then show "tracked_ok s" by (simp add: tracked_init_def tracked_ok_def holder_def)
next
  fix s l t assume ok: "tracked_ok s" and "tracker_step s l t"
  from this(2) show "tracked_ok t"
  proof cases
    case (accepted conn now ct)
    then obtain k where k: "toActive conn = Inr k" "holder (table_of s) k = None"
      and ct: "ct = AList.update k \<lparr>en_conn = conn, en_started = now\<rparr> (table_of s)" unfolding Tracker_OnAccept_True by blast
    have "c \<in> set (live s @ [conn]) \<and> toActive c = Inr j \<longleftrightarrow> holder ct j = Some c" for c j
      using tracked_okD(4) [OF ok, of c j] k accepted(3) by (cases "j = k") (auto simp: ct)
    moreover have "\<exists>j. toActive c = Inr j" if "c \<in> set (live s @ [conn])" for c
      using that tracked_okD(3) [OF ok, of c] k(1) by auto
    ultimately show ?thesis using tracked_okD(1,2) [OF ok] accepted(2,3)
      unfolding tracked_ok_def by (simp add: ct distinct_update)
  next
    case (refused now conn ct)
    then show ?thesis using ok first_wins.refuse_law [OF refused(3)] by simp
  next
    case (ended conn now r ct)
    obtain k where k: "toActive conn = Inr k" "holder (table_of s) k = Some conn" using live_holds [OF ok ended(3)] .
    have h: "holder ct = (holder (table_of s))(k := None)" using first_wins.close_law [OF ended(4) k(1)] .
    have d: "distinct (map fst ct)" using ended(4) k(1) tracked_okD(2) [OF ok]
      by (auto simp: Tracker_OnClose_def distinct_delete split: option.splits)
    have "c \<in> set (removeAll conn (live s)) \<and> toActive c = Inr j \<longleftrightarrow> holder ct j = Some c" for c j
      using tracked_okD(4) [OF ok, of c j] k by (cases "j = k") (auto simp: h)
    moreover have "\<exists>j. toActive c = Inr j" if "c \<in> set (removeAll conn (live s))" for c
      using that tracked_okD(3) [OF ok, of c] by auto
    ultimately show ?thesis using tracked_okD(1) [OF ok] ended(2) d
      unfolding tracked_ok_def by (simp add: distinct_removeAll)
  qed
qed

lemma holder_card: "distinct (map fst ct) \<Longrightarrow> card (dom (holder ct)) = length ct"
proof -
  assume d: "distinct (map fst ct)"
  have "dom (holder ct) = fst ` set ct" by (auto simp: holder_def dom_def dom_map_of_conv_image_fst [symmetric])
  then show ?thesis using d by (metis distinct_card length_map set_map)
qed

subsection \<open>Properties\<close>

text \<open>C39: With the tracker that refuses, two live connections never share a public key, and the count it
  reports is the number of live connections, however connections come and go.\<close>

theorem one_connection_per_key:
  assumes "reach tracked_init tracker_step s"
  shows "(\<forall>c \<in> set (live s). \<forall>d \<in> set (live s). toActive c = toActive d \<longrightarrow> c = d) \<and> Tracker_Count (table_of s) = length (live s)"
proof -
  have ok: "tracked_ok s" using tracked_inv.reach_inv assms by blast
  have unique: "c = d" if cd: "c \<in> set (live s)" "d \<in> set (live s)" "toActive c = toActive d" for c d
  proof -
    obtain k where k: "toActive c = Inr k" using tracked_okD(3) [OF ok cd(1)] by blast
    have "holder (table_of s) k = Some c" "holder (table_of s) k = Some d"
      using iffD1 [OF tracked_okD(4) [OF ok, of c k]] iffD1 [OF tracked_okD(4) [OF ok, of d k]] cd k by simp_all
    then show ?thesis by simp
  qed
  define key where "key c = (case toActive c of Inr k \<Rightarrow> k)" for c
  have ka: "toActive c = Inr (key c)" if "c \<in> set (live s)" for c
    using tracked_okD(3) [OF ok that] by (auto simp: key_def)
  have "inj_on key (set (live s))"
  proof (rule inj_onI)
    fix c d assume cd: "c \<in> set (live s)" "d \<in> set (live s)" "key c = key d"
    then have "toActive c = toActive d" using ka by metis
    then show "c = d" using unique cd by blast
  qed
  moreover have "key ` set (live s) = dom (holder (table_of s))"
  proof -
    have "key c \<in> dom (holder (table_of s))" if "c \<in> set (live s)" for c
      using tracked_okD(4) [OF ok, of c "key c"] that ka [OF that] by blast
    moreover have "k \<in> key ` set (live s)" if "holder (table_of s) k = Some c" for k c
    proof -
      have c: "c \<in> set (live s)" "toActive c = Inr k" using tracked_okD(4) [OF ok, of c k] that by auto
      then show ?thesis using ka [OF c(1)] by force
    qed
    ultimately show ?thesis by auto
  qed
  ultimately have "card (dom (holder (table_of s))) = card (set (live s))" by (metis card_image)
  then have "length (table_of s) = length (live s)"
    using tracked_okD(1,2) [OF ok] holder_card [of "table_of s"] by (simp add: distinct_card)
  then show ?thesis using unique unfolding Tracker_Count_def by blast
qed

definition sample_netconn :: "nat \<Rightarrow> netconn" where
  "sample_netconn i = \<lparr>nc_id = i, nc_key = Some ''key'', nc_addr = \<lparr>shs_addr = Some ''@key''\<rparr>, nc_remote = ''10.0.0.1''\<rparr>"

lemma one_connection_per_key_witness:
  "\<exists>s. reach tracked_init tracker_step s \<and> live s = [sample_netconn 1] \<and> Tracker_Count (table_of s) = 1"
proof -
  let ?s0 = "\<lparr>table_of = [], live = []\<rparr>"
  obtain k where k: "toActive (sample_netconn 1) = Inr k" by (simp add: toActive_def sample_netconn_def)
  then have "tracker_step ?s0 (Accepted (sample_netconn 1)) (?s0\<lparr>table_of := [(k, \<lparr>en_conn = sample_netconn 1, en_started = 0\<rparr>)], live := [] @ [sample_netconn 1]\<rparr>)"
    using tracker_step.accepted [of "sample_netconn 1" ?s0 0] by (simp add: Tracker_OnAccept_True holder_def)
  moreover have "reach tracked_init tracker_step ?s0" by (rule reach_init) (simp add: tracked_init_def)
  ultimately have r: "reach tracked_init tracker_step (?s0\<lparr>table_of := [(k, \<lparr>en_conn = sample_netconn 1, en_started = 0\<rparr>)], live := [] @ [sample_netconn 1]\<rparr>)"
    by (rule reach_step [rotated])
  from one_connection_per_key [OF r] r show ?thesis by (auto intro!: exI)
qed

text \<open>With the tracker that lets the last connection win this fails: two connections that arrive while
  the first is being closed are both let in, and when the first of them ends, the tracker has
  forgotten the other although it is still open.\<close>

lemma last_wins_lets_two_in:
  "\<exists>s t. last_wins_init s \<and> run last_wins_step s [None, None, Some (Accepted (sample_netconn 1)), Some (Accepted (sample_netconn 2)),
        Some (Ended (sample_netconn 1))] t
     \<and> lw_live t = [sample_netconn 2] \<and> lw_table t = []"
proof -
  let ?c = "sample_netconn 1" and ?d = "sample_netconn 2"
  obtain k where k: "toActive ?c = Inr k" "toActive ?d = Inr k" by (simp add: toActive_def sample_netconn_def)
  define s0 where "s0 = \<lparr>lw_table = [], lw_live = [], asked = [], done_ids = []\<rparr>"
  define s1 where "s1 = s0\<lparr>asked := [(?c, None)]\<rparr>"
  define s2 where "s2 = s0\<lparr>asked := [(?d, None), (?c, None)]\<rparr>"
  define s3 where "s3 = s2\<lparr>lw_table := [(k, \<lparr>en_conn = ?c, en_started = 0\<rparr>)], lw_live := [?c], asked := [(?d, None)]\<rparr>"
  define s4 where "s4 = s3\<lparr>lw_table := [(k, \<lparr>en_conn = ?d, en_started = 0\<rparr>)], lw_live := [?c, ?d], asked := []\<rparr>"
  define s5 where "s5 = s4\<lparr>lw_table := [], lw_live := [?d], done_ids := [2]\<rparr>"
  note states = s0_def s1_def s2_def s3_def s4_def s5_def
  have "last_wins_step s0 None s1" using look [OF k(1), of s0] by (simp add: s0_def s1_def)
  moreover have "last_wins_step s1 None s2" using look [OF k(2), of s1] by (simp add: s0_def s1_def s2_def)
  moreover have "last_wins_step s2 (Some (Accepted ?c)) s3"
    using put [of s2 "[(?d, None)]" ?c None "[]" k 0] k by (simp add: s0_def s2_def s3_def)
  moreover have "last_wins_step s3 (Some (Accepted ?d)) s4"
    using put [of s3 "[]" ?d None "[]" k 0] k by (simp add: s0_def s2_def s3_def s4_def)
  moreover have "last_wins_step s4 (Some (Ended ?c)) s5"
    using closed [of ?c s4 k] k by (simp add: states sample_netconn_def)
  ultimately have "run last_wins_step s0 [None, None, Some (Accepted ?c), Some (Accepted ?d), Some (Ended ?c)] s5"
    by (blast intro: run.intros)
  moreover have "last_wins_init s0" by (simp add: last_wins_init_def s0_def)
  ultimately show ?thesis by (intro exI [of _ s0] exI [of _ s5]) (simp add: s5_def)
qed

end
