(* ===== verification/NetNode.thy ===== *)
theory NetNode
  imports ConnTracker
begin

text \<open>
  \<open>internal/network/new.go\<close>, \<open>websocket.go\<close> and \<open>errors.go\<close>: what the node does with a connection from
  its arrival to its end, the endpoints it knows, and how a connection over a websocket reads.
  The tracker is whatever the options say (the functions \<open>accept\<close> and \<open>close\<close>); muxrpc and the secret
  handshake are outside. \<open>tracked_node\<close> continues the contract of the tracker.
\<close>

subsection \<open>State\<close>

record ('t, 'e) node =
  tracker :: 't
  remotes :: "(string \<times> 'e) list"
  closed_conns :: "nat list"
  terminated :: "'e list"

datatype 'h outcome_of_open = Dropped | Serving 'h

definition close_conn :: "netconn \<Rightarrow> ('t, 'e) node \<Rightarrow> ('t, 'e) node" where
  "close_conn c n = n\<lparr>closed_conns := closed_conns n @ [nc_id c]\<rparr>"

definition GetEndpointFor :: "feed_ref \<Rightarrow> ('t, 'e) node \<Rightarrow> 'e option" where
  "GetEndpointFor ref n = map_of (remotes n) (ref_string ref)"

text \<open>
  \<open>addRemote\<close> and \<open>removeRemote\<close> panic when the address names no feed; the callers have checked it.
\<close>

definition addRemote :: "lib \<Rightarrow> address \<Rightarrow> 'e \<Rightarrow> ('t, 'e) node \<Rightarrow> unit res \<times> ('t, 'e) node" where
  "addRemote L remote edp n =
     (case GetFeedRefFromAddr L remote of
        Inl e \<Rightarrow> (Inl (Panic ''addRemote''), n)
      | Inr r \<Rightarrow> (Inr (), n\<lparr>remotes := AList.update (ref_string r) edp (remotes n)\<rparr>))"

definition removeRemote :: "lib \<Rightarrow> address \<Rightarrow> ('t, 'e) node \<Rightarrow> unit res \<times> ('t, 'e) node" where
  "removeRemote L remote n =
     (case GetFeedRefFromAddr L remote of
        Inl e \<Rightarrow> (Inl (Panic ''removeRemote''), n)
      | Inr r \<Rightarrow> (Inr (), n\<lparr>remotes := AList.delete (ref_string r) (remotes n)\<rparr>))"

text \<open>
  \<open>GetAllEndpoints\<close> lists the remotes the tracker calls active; \<open>conn_of e\<close> is the connection of an
  endpoint. A text that is no reference leaves a zero reference in the entry.
\<close>

record 'e endpoint_stat =
  es_id :: "feed_ref option"
  es_since :: time
  es_endpoint :: 'e

fun all_endpoints :: "lib \<Rightarrow> ('e \<Rightarrow> (bool \<times> time) res) \<Rightarrow> (string \<times> 'e) list \<Rightarrow> 'e endpoint_stat list res" where
  "all_endpoints L active [] = Inr []"
| "all_endpoints L active ((ref, edp) # rs) =
     (case active edp of
        Inl p \<Rightarrow> Inl p
      | Inr (ok, durr) \<Rightarrow>
          map_res (\<lambda>stats. if ok then \<lparr>es_id = parse_ref L ref, es_since = durr, es_endpoint = edp\<rparr> # stats else stats)
            (all_endpoints L active rs))"

definition GetAllEndpoints :: "lib \<Rightarrow> ('e \<Rightarrow> netconn) \<Rightarrow> ('t \<Rightarrow> netconn \<Rightarrow> (bool \<times> time) res) \<Rightarrow> ('t, 'e) node \<Rightarrow> 'e endpoint_stat list res" where
  "GetAllEndpoints L conn_of active n = all_endpoints L (\<lambda>e. active (tracker n) (conn_of e)) (remotes n)"

fun applyConnWrappers :: "nat \<Rightarrow> (netconn \<Rightarrow> netconn res) list \<Rightarrow> netconn \<Rightarrow> netconn res" where
  "applyConnWrappers i [] conn = Inr conn"
| "applyConnWrappers i (cw # cws) conn =
     (case cw conn of
        Inl e \<Rightarrow> Inl (Wrapped (''error applying connection wrapper #'' @ show_nat i) e)
      | Inr conn' \<Rightarrow> applyConnWrappers (i + 1) cws conn')"

subsection \<open>A connection from its arrival to its end\<close>

text \<open>
  \<open>handleConnection\<close> up to the moment it serves the peer. \<open>mkHandler\<close> decides who is let in.
\<close>

definition open_connection ::
  "lib \<Rightarrow> (time \<Rightarrow> netconn \<Rightarrow> 't \<Rightarrow> bool res \<times> 't) \<Rightarrow> (time \<Rightarrow> netconn \<Rightarrow> 't \<Rightarrow> time res \<times> 't) \<Rightarrow>
     (netconn \<Rightarrow> netconn res) list \<Rightarrow> (netconn \<Rightarrow> 'h res) \<Rightarrow> time \<Rightarrow> 'e \<Rightarrow> netconn \<Rightarrow> ('t, 'e) node \<Rightarrow>
     'h outcome_of_open res \<times> ('t, 'e) node" where
  "open_connection L accept close wrappers mkHandler now edp origConn n =
     (case applyConnWrappers 0 wrappers origConn of
        Inl _ \<Rightarrow> (Inr Dropped, close_conn origConn n)
      | Inr conn \<Rightarrow>
          (case GetFeedRefFromAddr L (nc_addr conn) of
             Inl _ \<Rightarrow> (Inr Dropped, close_conn conn n)
           | Inr remoteRef \<Rightarrow>
               (case accept now conn (tracker n) of
                  (Inl p, t) \<Rightarrow> (Inl p, n\<lparr>tracker := t\<rparr>)
                | (Inr ok, t) \<Rightarrow>
                    let n1 = n\<lparr>tracker := t\<rparr> in
                    if \<not> ok then (Inr Dropped, close_conn conn n1)
                    else (case mkHandler conn of
                            Inl _ \<Rightarrow> (Inr Dropped, close_conn origConn (close_conn conn (n1\<lparr>tracker := snd (close now conn (tracker n1))\<rparr>)))
                          | Inr h \<Rightarrow>
                              (case addRemote L (nc_addr conn) edp n1 of
                                 (Inl p, n2) \<Rightarrow> (Inl p, n2)
                               | (Inr _, n2) \<Rightarrow> (Inr (Serving h), n2))))))"

text \<open>What follows when serving ends: the remote goes, the endpoint is terminated, and the deferred function runs.\<close>

definition end_connection ::
  "lib \<Rightarrow> (time \<Rightarrow> netconn \<Rightarrow> 't \<Rightarrow> time res \<times> 't) \<Rightarrow> time \<Rightarrow> 'e \<Rightarrow> netconn \<Rightarrow> netconn \<Rightarrow> ('t, 'e) node \<Rightarrow> ('t, 'e) node" where
  "end_connection L close now edp origConn conn n =
     (let n1 = snd (removeRemote L (nc_addr conn) n);
          n2 = n1\<lparr>terminated := terminated n1 @ [edp]\<rparr>
      in close_conn origConn (close_conn conn (n2\<lparr>tracker := snd (close now conn (tracker n2))\<rparr>)))"

text \<open>
  \<open>Close\<close>: the listeners, then every endpoint, then every connection the tracker still counts; \<open>left\<close>
  are those connections.
\<close>

definition Node_Close :: "err option \<Rightarrow> err option \<Rightarrow> ('t \<Rightarrow> netconn list) \<Rightarrow> ('t \<Rightarrow> nat) \<Rightarrow> ('t, 'e) node \<Rightarrow> err option \<times> ('t, 'e) node" where
  "Node_Close http_close lis_close left count n =
     (case http_close of
        Some e \<Rightarrow> (Some (Wrapped ''ssb: failed to close http listener'' e), n)
      | None \<Rightarrow>
          (case lis_close of
             Some e \<Rightarrow> (Some (Wrapped ''ssb: network node failed to close it's listener'' e), n)
           | None \<Rightarrow>
               let n1 = n\<lparr>terminated := terminated n @ map snd (remotes n)\<rparr> in
               (None, if count (tracker n1) > 0 then fold close_conn (left (tracker n1)) n1 else n1)))"

subsection \<open>Reading from a websocket\<close>

text \<open>
  A websocket delivers messages, each binary or text; the reader of a message gives its bytes in
  pieces of at most the buffer's size and then \<open>EOF\<close>. \<open>Read\<close> goes on to the next message at the end
  of one, calling itself; the model gives what is left of the current message and the messages to
  come, and answers with an error when the socket has no more.
\<close>

record message =
  ms_binary :: bool
  ms_bytes :: bytes

record wsconn =
  ws_reader :: "bytes option"
  ws_todo :: "message list"

definition ws_error :: err where
  "ws_error = Msg ''websocket: close''"

definition renewReader :: "wsconn \<Rightarrow> err option \<times> wsconn" where
  "renewReader conn =
     (case ws_todo conn of
        [] \<Rightarrow> (Some (Wrapped ''wsConn: failed to get reader'' ws_error), conn)
      | m # ms \<Rightarrow>
          if \<not> ms_binary m then (Some (Msg ''wsConn: not binary message''), conn\<lparr>ws_todo := ms\<rparr>)
          else (None, \<lparr>ws_reader = Some (ms_bytes m), ws_todo = ms\<rparr>))"

lemma renew_shorter: "renewReader conn = (None, conn') \<Longrightarrow> length (ws_todo conn') < length (ws_todo conn)"
  by (auto simp: renewReader_def split: list.splits if_splits)

text \<open>The error of the inner call is wrapped once more for each message that was empty on the way.\<close>

function ws_read :: "nat \<Rightarrow> wsconn \<Rightarrow> bytes res \<times> wsconn" where
  "ws_read n_max conn =
     (case (case ws_reader conn of None \<Rightarrow> renewReader conn | Some _ \<Rightarrow> (None, conn)) of
        (Some e, c1) \<Rightarrow> (Inl e, c1)
      | (None, c1) \<Rightarrow>
          (case the (ws_reader c1) of
             b # r \<Rightarrow> (Inr (take n_max (b # r)), c1\<lparr>ws_reader := Some (drop n_max (b # r))\<rparr>)
           | [] \<Rightarrow>
               (case renewReader c1 of
                  (Some e, c2) \<Rightarrow> (Inl e, c2)
                | (None, c2) \<Rightarrow>
                    (case ws_read n_max c2 of
                       (Inl e, c3) \<Rightarrow> (Inl (Wrapped ''wsConn: failed to read after renew()'' e), c3)
                     | (Inr bs, c3) \<Rightarrow> (Inr bs, c3)))))"
  by pat_completeness auto

termination
proof (relation "measure (\<lambda>(_, conn). length (ws_todo conn))", goal_cases)
  case (2 n_max conn x c1 x1 c2)
  have "length (ws_todo c1) \<le> length (ws_todo conn)"
    using 2(1,2) renew_shorter [of conn c1] by (auto split: option.splits)
  with renew_shorter [of c1 c2] 2 show ?case by auto
qed simp

declare ws_read.simps [simp del]

text \<open>\<open>Write\<close> sends the whole buffer as one binary message.\<close>

definition ws_write :: "bytes \<Rightarrow> message list \<Rightarrow> nat \<times> message list" where
  "ws_write bs out = (length bs, out @ [\<lparr>ms_binary = True, ms_bytes = bs\<rparr>])"

subsection \<open>Broken connections\<close>

datatype errno = ECONNRESET | EPIPE | OtherErrno

text \<open>What \<open>errors.As\<close> finds in an error: the network error, with the system call's error in it if any and its text.\<close>

record op_error =
  op_syscall :: "errno option"
  op_text :: string

definition isConnBrokenErr :: "op_error option \<Rightarrow> bool" where
  "isConnBrokenErr netErr =
     (case netErr of
        None \<Rightarrow> False
      | Some e \<Rightarrow>
          (case op_syscall e of
             Some action \<Rightarrow> action = ECONNRESET \<or> action = EPIPE
           | None \<Rightarrow> False)
          \<or> op_text e = ''use of closed network connection'')"

subsection \<open>What a websocket reader delivers\<close>

definition pending :: "wsconn \<Rightarrow> bytes" where
  "pending conn = (case ws_reader conn of None \<Rightarrow> [] | Some r \<Rightarrow> r) @ concat (map ms_bytes (ws_todo conn))"

definition all_binary :: "wsconn \<Rightarrow> bool" where
  "all_binary conn \<longleftrightarrow> list_all ms_binary (ws_todo conn)"

lemma renew_some:
  "renewReader conn = (None, c) \<Longrightarrow> \<exists>m ms. ws_todo conn = m # ms \<and> ms_binary m \<and> c = \<lparr>ws_reader = Some (ms_bytes m), ws_todo = ms\<rparr>"
  by (auto simp: renewReader_def split: list.splits if_splits)

lemma renew_fails:
  "renewReader conn = (Some e, c) \<Longrightarrow> all_binary conn \<Longrightarrow> ws_todo conn = []"
  by (auto simp: renewReader_def all_binary_def split: list.splits if_splits)

lemma renew_pending:
  assumes "renewReader conn = (None, c)" "ws_reader conn = None \<or> ws_reader conn = Some []"
  shows "pending c = pending conn" "all_binary conn \<Longrightarrow> all_binary c"
  using renew_some [OF assms(1)] assms(2) by (auto simp: pending_def all_binary_def)

text \<open>
  One \<open>Read\<close>: either it gives a non-empty piece of what is to come, at most as long as the buffer, or it
  fails and nothing is to come.
\<close>

text \<open>What a read begins with: the open message, or the next one.\<close>

lemma open_reader:
  assumes "(case ws_reader conn of None \<Rightarrow> renewReader conn | Some _ \<Rightarrow> (None, conn)) = (e, c1)" "all_binary conn"
  obtains (no_more) "e \<noteq> None" "ws_reader conn = None" "ws_todo conn = []"
  | (reader) r where "e = None" "ws_reader c1 = Some r" "pending c1 = pending conn" "all_binary c1"
      "length (ws_todo c1) \<le> length (ws_todo conn)"
proof (cases e)
  case (Some x)
  then show thesis using assms renew_fails [of conn x c1] by (intro no_more) (auto split: option.splits)
next
  case None
  then have "pending c1 = pending conn" "all_binary c1" "ws_reader c1 \<noteq> None" "length (ws_todo c1) \<le> length (ws_todo conn)"
    using assms renew_pending [of conn c1] renew_some [of conn c1] by (auto split: option.splits)
  then show thesis using None reader by blast
qed

lemma ws_read_piece:
  assumes "0 < n_max" "all_binary conn"
  shows "case ws_read n_max conn of
      (Inr bs, conn') \<Rightarrow> bs \<noteq> [] \<and> length bs \<le> n_max \<and> pending conn = bs @ pending conn' \<and> all_binary conn'
    | (Inl e, conn') \<Rightarrow> pending conn = []"
  using assms(2)
proof (induction "length (ws_todo conn)" arbitrary: conn rule: less_induct)
  case less
  obtain e0 c1 where c1: "(case ws_reader conn of None \<Rightarrow> renewReader conn | Some _ \<Rightarrow> (None, conn)) = (e0, c1)"
    by (cases "case ws_reader conn of None \<Rightarrow> renewReader conn | Some _ \<Rightarrow> (None, conn)")
  from c1 less.prems show ?case
  proof (cases rule: open_reader)
    case no_more
    then show ?thesis using c1 by (subst ws_read.simps) (auto simp: pending_def)
  next
    case (reader r)
    note same = reader(3,4) and r = reader(2) and None = reader(1)
    show ?thesis
    proof (cases r)
      case (Cons b r')
      have "pending conn = take n_max r @ pending (c1\<lparr>ws_reader := Some (drop n_max r)\<rparr>)"
        unfolding same(1) [symmetric] by (simp add: pending_def r)
      moreover have "all_binary (c1\<lparr>ws_reader := Some (drop n_max r)\<rparr>)" using same(2) by (simp add: all_binary_def)
      ultimately show ?thesis using c1 None r Cons assms(1) by (subst ws_read.simps) simp
    next
      case Nil
      obtain e2 c2 where c2: "renewReader c1 = (e2, c2)" by (cases "renewReader c1")
      show ?thesis
      proof (cases e2)
        case (Some e)
        then have "ws_todo c1 = []" using renew_fails [of c1 e c2] c2 same(2) by simp
        then have "pending c1 = []" by (simp add: pending_def r Nil)
        then show ?thesis using c1 None r Nil c2 Some same(1) by (subst ws_read.simps) simp
      next
        case None': None
        have p2: "pending c2 = pending conn" "all_binary c2"
          using renew_pending [of c1 c2] c2 None' r Nil same(1,2) by auto
        have "length (ws_todo c2) < length (ws_todo conn)" using renew_shorter [of c1 c2] c2 None' reader(5) by simp
        from less.hyps [OF this p2(2)] show ?thesis using c1 None r Nil c2 None' p2
          by (subst ws_read.simps) (auto split: prod.splits sum.splits)
      qed
    qed
  qed
qed

text \<open>\<open>io.ReadAll\<close> over it: reads until the first error, \<open>k\<close> at most.\<close>

fun ws_read_all :: "nat \<Rightarrow> nat \<Rightarrow> wsconn \<Rightarrow> bytes" where
  "ws_read_all 0 n_max conn = []"
| "ws_read_all (Suc k) n_max conn =
     (case ws_read n_max conn of (Inl e, _) \<Rightarrow> [] | (Inr bs, conn') \<Rightarrow> bs @ ws_read_all k n_max conn')"

lemma ws_read_all_pending:
  "0 < n_max \<Longrightarrow> all_binary conn \<Longrightarrow> length (pending conn) \<le> k \<Longrightarrow> ws_read_all k n_max conn = pending conn"
proof (induction k arbitrary: conn)
  case 0
  then show ?case by simp
next
  case (Suc k)
  show ?case
  proof (cases "ws_read n_max conn")
    case (Pair r conn')
    show ?thesis
    proof (cases r)
      case (Inl e)
      then show ?thesis using ws_read_piece [OF Suc.prems(1,2)] Pair by simp
    next
      case (Inr bs)
      have bs: "bs \<noteq> []" "pending conn = bs @ pending conn'" "all_binary conn'"
        using ws_read_piece [OF Suc.prems(1,2)] Pair Inr by auto
      then have "length (pending conn') \<le> k" using Suc.prems(3) by (cases bs) auto
      from Suc.IH [OF Suc.prems(1) bs(3) this] show ?thesis using Pair Inr bs(2) by simp
    qed
  qed
qed

definition sent :: "bytes list \<Rightarrow> message list" where
  "sent bufs = fold (\<lambda>bs out. snd (ws_write bs out)) bufs []"

lemma sent_append: "fold (\<lambda>bs out. snd (ws_write bs out)) bufs out = out @ map (\<lambda>bs. \<lparr>ms_binary = True, ms_bytes = bs\<rparr>) bufs"
  by (induction bufs arbitrary: out) (simp_all add: ws_write_def)

text \<open>C40: A websocket carries a byte stream: whatever buffers one side writes, and however small the buffer the
  other side reads with, reading until it fails gives exactly the bytes that were written, in order.\<close>

theorem websocket_stream:
  assumes "0 < n_max" "length (concat bufs) \<le> k"
  shows "ws_read_all k n_max \<lparr>ws_reader = None, ws_todo = sent bufs\<rparr> = concat bufs"
  using assms ws_read_all_pending [of n_max "\<lparr>ws_reader = None, ws_todo = sent bufs\<rparr>" k]
  by (simp add: pending_def all_binary_def sent_def sent_append comp_def list_all_iff)

lemma websocket_stream_witness:
  "ws_read_all 9 2 \<lparr>ws_reader = None, ws_todo = sent [''abc'', [], ''de'']\<rparr> = ''abcde''"
  using websocket_stream [of 2 "[''abc'', [], ''de'']" 9] by simp

subsection \<open>What a connection leaves behind\<close>

lemma close_conn_keeps [simp]:
  "tracker (close_conn c n) = tracker n" "remotes (close_conn c n) = remotes n" "terminated (close_conn c n) = terminated n"
  by (simp_all add: close_conn_def)

lemma GetEndpointFor_upd [simp]:
  "GetEndpointFor r (n\<lparr>tracker := t\<rparr>) = GetEndpointFor r n"
  "GetEndpointFor r (n\<lparr>terminated := ts\<rparr>) = GetEndpointFor r n"
  "GetEndpointFor r (close_conn c n) = GetEndpointFor r n"
  by (simp_all add: GetEndpointFor_def)

lemma addRemote_get:
  "GetFeedRefFromAddr L a = Inr r \<Longrightarrow> addRemote L a edp n = (u, n') \<Longrightarrow>
     u = Inr () \<and> tracker n' = tracker n \<and> (\<forall>q. GetEndpointFor q n' = (if q = r then Some edp else GetEndpointFor q n))"
  by (auto simp: addRemote_def GetEndpointFor_def update_conv')

lemma removeRemote_get:
  "GetFeedRefFromAddr L a = Inr r \<Longrightarrow> removeRemote L a n = (u, n') \<Longrightarrow>
     u = Inr () \<and> tracker n' = tracker n \<and> (\<forall>q. GetEndpointFor q n' = (if q = r then None else GetEndpointFor q n))"
  by (auto simp: removeRemote_def GetEndpointFor_def delete_conv')

context conn_tracker
begin

text \<open>Who is not served has no endpoint, and holds no key of the tracker if it got as far as that.\<close>

lemma open_served:
  assumes "open_connection L accept close ws mk now edp orig n = (Inr (Serving h), n')" "applyConnWrappers 0 ws orig = Inr conn"
  shows "\<exists>r k. GetFeedRefFromAddr L (nc_addr conn) = Inr r \<and> mk conn = Inr h \<and> toActive conn = Inr k
     \<and> holds (tracker n') = (holds (tracker n))(k \<mapsto> conn)
     \<and> (\<forall>q. GetEndpointFor q n' = (if q = r then Some edp else GetEndpointFor q n))"
proof -
  obtain r t n2 where r: "GetFeedRefFromAddr L (nc_addr conn) = Inr r" "accept now conn (tracker n) = (Inr True, t)" "mk conn = Inr h"
      "addRemote L (nc_addr conn) edp (n\<lparr>tracker := t\<rparr>) = (Inr (), n2)" "n' = n2"
    using assms by (auto simp: open_connection_def Let_def split: sum.splits prod.splits if_splits)
  obtain k where "toActive conn = Inr k" "holds t = (holds (tracker n))(k \<mapsto> conn)" using accept_law [OF r(2)] by blast
  then show ?thesis using addRemote_get [OF r(1,4)] r(1,3,5) by auto
qed

lemma open_not_served:
  assumes "open_connection L accept close ws mk now edp orig n = (res, n')" "\<And>h. res \<noteq> Inr (Serving h)"
  shows "(\<forall>q. GetEndpointFor q n' = GetEndpointFor q n)
     \<and> (holds (tracker n') = holds (tracker n)
        \<or> (\<exists>conn k. applyConnWrappers 0 ws orig = Inr conn \<and> toActive conn = Inr k
              \<and> fst (accept now conn (tracker n)) = Inr True \<and> holds (tracker n') = (holds (tracker n))(k := None)))"
proof (cases "applyConnWrappers 0 ws orig")
  case (Inl e)
  then show ?thesis using assms(1) by (auto simp: open_connection_def)
next
  case (Inr conn)
  note c = this
  show ?thesis
  proof (cases "GetFeedRefFromAddr L (nc_addr conn)")
    case (Inl e)
    then show ?thesis using assms(1) c by (auto simp: open_connection_def)
  next
    case (Inr r)
    obtain a t where a: "accept now conn (tracker n) = (a, t)" by (cases "accept now conn (tracker n)")
    show ?thesis
    proof (cases "a = Inr True")
      case False
      have "t = tracker n" using refuse_law [OF a False] .
      moreover have "remotes n' = remotes n \<and> tracker n' = t" using assms(1) c Inr a False
        by (auto simp: open_connection_def Let_def split: sum.splits if_splits)
      ultimately show ?thesis by (simp add: GetEndpointFor_def)
    next
      case True
      obtain k where k: "toActive conn = Inr k" "holds t = (holds (tracker n))(k \<mapsto> conn)" using accept_law a True by blast
      obtain q t2 where q: "close now conn t = (q, t2)" by (cases "close now conn t")
      have "remotes n' = remotes n \<and> tracker n' = t2" using assms c Inr a True q addRemote_get [OF Inr, of edp "n\<lparr>tracker := t\<rparr>"]
        by (auto simp: open_connection_def Let_def split: sum.splits prod.splits)
      then show ?thesis using close_law [OF q k(1)] k c a True by (auto simp: GetEndpointFor_def)
    qed
  qed
qed

lemma end_frees:
  assumes "GetFeedRefFromAddr L (nc_addr conn) = Inr r" "toActive conn = Inr k"
  shows "GetEndpointFor r (end_connection L close now edp orig conn n) = None
     \<and> (\<forall>q. q \<noteq> r \<longrightarrow> GetEndpointFor q (end_connection L close now edp orig conn n) = GetEndpointFor q n)
     \<and> holds (tracker (end_connection L close now edp orig conn n)) = (holds (tracker n))(k := None)"
proof -
  obtain u n1 where n1: "removeRemote L (nc_addr conn) n = (u, n1)" by (cases "removeRemote L (nc_addr conn) n")
  obtain q t where t: "close now conn (tracker n) = (q, t)" by (cases "close now conn (tracker n)")
  show ?thesis using removeRemote_get [OF assms(1) n1] close_law [OF t assms(2)] n1 t
    by (simp add: end_connection_def Let_def)
qed

end

end
