(* ===== verification/Keys.thy ===== *)
theory Keys
  imports Errors "HOL-Library.AList"
begin

text \<open>
  \<open>internal/maybemod/keys/keys.go\<close> and \<open>internal/repo\<close>: the room's key pair in its file. The file
  system is a table of files by path, in which directories are implicit; what the system may refuse is
  a record \<open>osys\<close>. Key generation, feed references, the JSON text of the secret and the comment filter
  come from outside and are the fields of a record \<open>keylib\<close>.
\<close>

subsection \<open>Paths\<close>

fun split_slash :: "string \<Rightarrow> string list" where
  "split_slash [] = [[]]"
| "split_slash (c # cs) =
     (if c = CHR ''/'' then [] # split_slash cs
      else case split_slash cs of [] \<Rightarrow> [[c]] | p # ps \<Rightarrow> (c # p) # ps)"

fun join_slash :: "string list \<Rightarrow> string" where
  "join_slash [] = []"
| "join_slash [p] = p"
| "join_slash (p # q # ps) = p @ ''/'' @ join_slash (q # ps)"

fun clean_parts :: "bool \<Rightarrow> string list \<Rightarrow> string list \<Rightarrow> string list" where
  "clean_parts rooted acc [] = rev acc"
| "clean_parts rooted acc (p # ps) =
     (if p = [] \<or> p = ''.'' then clean_parts rooted acc ps
      else if p = ''..''
      then (case acc of
              a # as \<Rightarrow> if a \<noteq> ''..'' then clean_parts rooted as ps else clean_parts rooted (''..'' # acc) ps
            | [] \<Rightarrow> clean_parts rooted (if rooted then [] else [''..'']) ps)
      else clean_parts rooted (p # acc) ps)"

definition path_clean :: "string \<Rightarrow> string" where
  "path_clean p =
     (let rooted = has_prefix p ''/''; parts = clean_parts rooted [] (split_slash p) in
      if rooted then ''/'' @ join_slash parts
      else if parts = [] then ''.'' else join_slash parts)"

definition path_join :: "string list \<Rightarrow> string" where
  "path_join elems =
     (case dropWhile (\<lambda>e. e = []) elems of [] \<Rightarrow> [] | es \<Rightarrow> path_clean (join_slash es))"

definition path_base :: "string \<Rightarrow> string" where
  "path_base p = last (split_slash p)"

text \<open>A repository is its base path.\<close>

definition GetPath :: "string \<Rightarrow> string list \<Rightarrow> string" where
  "GetPath basePath rel = path_join (basePath # rel)"

lemma split_slash_ne [simp]: "split_slash s \<noteq> []"
  by (cases s) (auto split: list.splits)

lemma split_slash_append: "split_slash (a @ CHR ''/'' # b) = split_slash a @ split_slash b"
  by (induction a) (auto split: list.splits)

lemma split_join: "ps \<noteq> [] \<Longrightarrow> split_slash (join_slash ps) = concat (map split_slash ps)"
  by (induction ps rule: join_slash.induct) (simp_all add: split_slash_append)

lemma split_one: "CHR ''/'' \<notin> set b \<Longrightarrow> split_slash b = [b]"
  by (induction b) auto

lemma clean_parts_last:
  "b \<noteq> [] \<Longrightarrow> b \<noteq> ''.'' \<Longrightarrow> b \<noteq> ''..'' \<Longrightarrow> \<exists>ys. clean_parts rooted acc (ps @ [b]) = ys @ [b]"
  by (induction rooted acc ps rule: clean_parts.induct) (auto split: list.splits)

text \<open>The last element of a path below the repository is the name that was asked for.\<close>

lemma GetPath_base:
  assumes "b \<noteq> []" "b \<noteq> ''.''" "b \<noteq> ''..''" "CHR ''/'' \<notin> set b" "a \<noteq> []"
  shows "path_base (GetPath r [a, b]) = b"
proof -
  obtain es where es: "dropWhile (\<lambda>e. e = []) [r, a, b] = es @ [b]"
    using assms(1,5) by (cases "r = []") auto
  obtain ys where ys: "clean_parts (has_prefix (join_slash (es @ [b])) ''/'') [] (concat (map split_slash es) @ [b]) = ys @ [b]"
    using clean_parts_last [OF assms(1-3)] by blast
  have p: "split_slash (join_slash (es @ [b])) = concat (map split_slash es) @ [b]"
    using split_one [OF assms(4)] by (simp add: split_join)
  have "last (split_slash (join_slash (ys @ [b]))) = b"
    using split_one [OF assms(4)] by (simp add: split_join)
  then show ?thesis
    using es p ys by (auto simp: GetPath_def path_join_def path_base_def path_clean_def Let_def split: list.splits)
qed

subsection \<open>Key pairs\<close>

record keypair =
  kp_feed :: feed_ref
  kp_public :: bytes
  kp_secret :: bytes

record ssb_secret =
  ss_curve :: string
  ss_id :: feed_ref
  ss_private :: string
  ss_public :: string

record keylib =
  kl_generate :: "bytes \<Rightarrow> (bytes \<times> bytes) res"
  kl_feed :: "bytes \<Rightarrow> feed_ref res"
  kl_algo :: "feed_ref \<Rightarrow> string"
  kl_ssb1 :: string
  kl_gabby :: string
  kl_pair :: "bytes \<Rightarrow> bytes \<Rightarrow> (bytes \<times> bytes) res"
  kl_encode :: "ssb_secret \<Rightarrow> string res"
  kl_decode :: "string \<Rightarrow> ssb_secret res"
  kl_nocomment :: "string \<Rightarrow> string"

definition IsValidFeedFormat :: "keylib \<Rightarrow> feed_ref \<Rightarrow> unit res" where
  "IsValidFeedFormat K r =
     (if kl_algo K r \<noteq> kl_ssb1 K \<and> kl_algo K r \<noteq> kl_gabby K
      then Inl (Msg (''ssb: unsupported feed format:'' @ kl_algo K r)) else Inr ())"

definition NewKeyPair :: "keylib \<Rightarrow> bytes \<Rightarrow> keypair res" where
  "NewKeyPair K seed =
     (case kl_generate K seed of
        Inl e \<Rightarrow> Inl (Wrapped ''ssb: error building key pair'' e)
      | Inr (pub, sec) \<Rightarrow>
          (case kl_feed K pub of
             Inl e \<Rightarrow> Inl (Wrapped ''ssb: error building key pair'' e)
           | Inr feed \<Rightarrow> Inr \<lparr>kp_feed = feed, kp_public = pub, kp_secret = sec\<rparr>))"

definition EncodeKeyPairAsJSON :: "keylib \<Rightarrow> keypair \<Rightarrow> string res" where
  "EncodeKeyPairAsJSON K kp =
     (case kl_encode K
        \<lparr>ss_curve = ''ed25519'', ss_id = kp_feed kp,
         ss_private = b64_encode std_alphabet (kp_secret kp) @ ''.ed25519'',
         ss_public = b64_encode std_alphabet (kp_public kp) @ ''.ed25519''\<rparr> of
        Inl e \<Rightarrow> Inl (Wrapped ''ssb.EncodeKeyPairAsJSON: encoding failed'' e)
      | Inr t \<Rightarrow> Inr t)"

definition illegal_base64 :: err where
  "illegal_base64 = Msg ''illegal base64 data''"

definition ParseKeyPair :: "keylib \<Rightarrow> string \<Rightarrow> keypair res" where
  "ParseKeyPair K txt =
     (case kl_decode K txt of
        Inl e \<Rightarrow> Inl (Wrapped ''ssb.Parse: JSON decoding failed'' e)
      | Inr s \<Rightarrow>
          (case IsValidFeedFormat K (ss_id s) of
             Inl e \<Rightarrow> Inl e
           | Inr _ \<Rightarrow>
               (case b64_decode std_alphabet (trim_suffix (ss_public s) ''.ed25519'') of
                  None \<Rightarrow> Inl (Wrapped ''ssb.Parse: base64 decode of public part failed'' illegal_base64)
                | Some pub_part \<Rightarrow>
                    (case b64_decode std_alphabet (trim_suffix (ss_private s) ''.ed25519'') of
                       None \<Rightarrow> Inl (Wrapped ''ssb.Parse: base64 decode of private part failed'' illegal_base64)
                     | Some sec_part \<Rightarrow>
                         (case kl_pair K pub_part sec_part of
                            Inl e \<Rightarrow> Inl (Wrapped ''ssb.Parse: base64 decode of private part failed'' e)
                          | Inr (pub, sec) \<Rightarrow> Inr \<lparr>kp_feed = ss_id s, kp_public = pub, kp_secret = sec\<rparr>)))))"

subsection \<open>The key file\<close>

record key_file =
  f_perm :: nat
  f_text :: string

type_synonym files = "(string \<times> key_file) list"

text \<open>
  What the system answers beyond that: the errors of opening a file that exists, of reading its mode,
  of making a directory, of creating and closing a file, of walking a directory; and the permissions a
  new file gets, which the process's mask may reduce.
\<close>

record osys =
  os_open :: "string \<Rightarrow> err option"
  os_stat :: "string \<Rightarrow> err option"
  os_mkdir :: "string \<Rightarrow> err option"
  os_create :: "string \<Rightarrow> err option"
  os_close :: "string \<Rightarrow> err option"
  os_walk :: "string \<Rightarrow> err option"
  os_mask :: "nat \<Rightarrow> nat"

definition SecretPerms :: nat where "SecretPerms = 384"

definition ErrNotExist :: err where
  "ErrNotExist = Msg ''no such file or directory''"

definition LoadFile :: "keylib \<Rightarrow> osys \<Rightarrow> string \<Rightarrow> files \<Rightarrow> keypair res" where
  "LoadFile K os fname fs =
     (case map_of fs fname of
        None \<Rightarrow> Inl ErrNotExist
      | Some f \<Rightarrow>
          (case os_open os fname of
             Some e \<Rightarrow> Inl (Wrapped (''ssb.LoadKeyPair: could not open key file '' @ fname) e)
           | None \<Rightarrow>
               (case os_stat os fname of
                  Some e \<Rightarrow> Inl (Wrapped (''ssb.LoadKeyPair: could not stat key file '' @ fname) e)
                | None \<Rightarrow>
                    if f_perm f \<noteq> SecretPerms then Inl (Msg ''ssb.LoadKeyPair: expected key file permissions'')
                    else ParseKeyPair K (kl_nocomment K (f_text f)))))"

text \<open>A failure after the file was created leaves it behind, empty.\<close>

definition SaveKeyPair :: "keylib \<Rightarrow> osys \<Rightarrow> keypair \<Rightarrow> string \<Rightarrow> files \<Rightarrow> unit res \<times> files" where
  "SaveKeyPair K os kp path fs =
     (case IsValidFeedFormat K (kp_feed kp) of
        Inl e \<Rightarrow> (Inl e, fs)
      | Inr _ \<Rightarrow>
          if map_of fs path \<noteq> None then (Inl (Msg (''ssb.SaveKeyPair: key already exists:'' @ path)), fs)
          else case os_mkdir os path of
              Some e \<Rightarrow> (Inl (Wrapped ''failed to create folder for keypair'' e), fs)
            | None \<Rightarrow>
                (case os_create os path of
                   Some e \<Rightarrow> (Inl (Wrapped ''ssb.SaveKeyPair: failed to create file'' e), fs)
                 | None \<Rightarrow>
                     let created = (\<lambda>t. AList.update path \<lparr>f_perm = os_mask os SecretPerms, f_text = t\<rparr> fs) in
                     (case EncodeKeyPairAsJSON K kp of
                        Inl e \<Rightarrow> (Inl e, created [])
                      | Inr t \<Rightarrow>
                          (case os_close os path of
                             Some e \<Rightarrow> (Inl (Wrapped ''ssb.SaveKeyPair: failed to close file'' e), created t)
                           | None \<Rightarrow> (Inr (), created t)))))"

subsection \<open>The repository's key pairs\<close>

definition DefaultKeyPair :: "keylib \<Rightarrow> osys \<Rightarrow> bytes \<Rightarrow> string \<Rightarrow> files \<Rightarrow> keypair res \<times> files" where
  "DefaultKeyPair K os seed r fs =
     (let secPath = GetPath r [''secret''] in
      case LoadFile K os secPath fs of
        Inr keyPair \<Rightarrow> (Inr keyPair, fs)
      | Inl e \<Rightarrow>
          if e \<noteq> ErrNotExist then (Inl (Wrapped ''repo: error opening key pair'' e), fs)
          else case NewKeyPair K seed of
              Inl e \<Rightarrow> (Inl (Wrapped ''repo: no keypair but couldn't create one either'' e), fs)
            | Inr keyPair \<Rightarrow>
                (case SaveKeyPair K os keyPair secPath fs of
                   (Inl e, fs') \<Rightarrow> (Inl (Wrapped ''repo: error saving new identity file'' e), fs')
                 | (Inr _, fs') \<Rightarrow> (Inr keyPair, fs')))"

definition name_path :: "string \<Rightarrow> string \<Rightarrow> string" where
  "name_path r name = (if name = ''-'' then GetPath r [''secret''] else GetPath r [''secrets'', name])"

definition NamedKeyPair :: "keylib \<Rightarrow> osys \<Rightarrow> string \<Rightarrow> string \<Rightarrow> string \<Rightarrow> bytes \<Rightarrow> files \<Rightarrow> keypair res \<times> files" where
  "NamedKeyPair K os r name algo seed fs =
     (let secPath = name_path r name in
      case (if name = ''-'' then None else os_mkdir os secPath) of
        Some e \<Rightarrow> (Inl e, fs)
      | None \<Rightarrow>
          if algo \<noteq> kl_ssb1 K \<and> algo \<noteq> kl_gabby K then (Inl (Msg ''invalid feed refrence algo''), fs)
          else case LoadFile K os secPath fs of
              Inr _ \<Rightarrow> (Inl (Msg ''new key-pair name already taken''), fs)
            | Inl _ \<Rightarrow>
                (case NewKeyPair K seed of
                   Inl e \<Rightarrow> (Inl (Wrapped ''repo: no keypair but couldn't create one either'' e), fs)
                 | Inr keyPair \<Rightarrow>
                     (case SaveKeyPair K os keyPair secPath fs of
                        (Inl e, fs') \<Rightarrow> (Inl (Wrapped ''repo: error saving new identity file'' e), fs')
                      | (Inr _, fs') \<Rightarrow> (Inr keyPair, fs'))))"

definition LoadKeyPair :: "keylib \<Rightarrow> osys \<Rightarrow> string \<Rightarrow> string \<Rightarrow> files \<Rightarrow> keypair res" where
  "LoadKeyPair K os r name fs =
     (let secPath = GetPath r [''secrets'', name] in
      case LoadFile K os secPath fs of
        Inl e \<Rightarrow> Inl (Wrapped (''Load: failed to open '' @ secPath) e)
      | Inr keyPair \<Rightarrow> Inr keyPair)"

text \<open>
  The walk goes through the directory in the order of the names, directory by directory. A missing
  directory is an empty one; an error of the walk, other than that a file is gone, ends it.
\<close>

definition walk_files :: "string \<Rightarrow> files \<Rightarrow> string list" where
  "walk_files root fs =
     sort_key split_slash (filter (\<lambda>p. p = root \<or> has_prefix p (root @ ''/'')) (map fst fs))"

definition AllKeyPairs :: "keylib \<Rightarrow> osys \<Rightarrow> string \<Rightarrow> files \<Rightarrow> (string \<times> keypair) list res" where
  "AllKeyPairs K os r fs =
     (let root = GetPath r [''secrets''] in
      case List.find (\<lambda>p. os_walk os p \<noteq> None) (walk_files root fs) of
        Some p \<Rightarrow> Inl (the (os_walk os p))
      | None \<Rightarrow>
          Inr (fold (\<lambda>p kps. case LoadFile K os p fs of Inl _ \<Rightarrow> kps | Inr kp \<Rightarrow> AList.update (path_base p) kp kps)
                 (walk_files root fs) []))"

subsection \<open>What the files keep\<close>

text \<open>
  Documented behaviour of what is called: decoding undoes encoding and the file has no comment of its
  own; a generated pair is accepted back; a feed made from a public key has the first format.
\<close>

definition key_laws :: "keylib \<Rightarrow> bool" where
  "key_laws K \<longleftrightarrow> (\<forall>s t. kl_encode K s = Inr t \<longrightarrow> kl_decode K (kl_nocomment K t) = Inr s)
     \<and> (\<forall>seed pub sec. kl_generate K seed = Inr (pub, sec) \<longrightarrow> kl_pair K pub sec = Inr (pub, sec))
     \<and> (\<forall>pub r. kl_feed K pub = Inr r \<longrightarrow> kl_algo K r = kl_ssb1 K)"

text \<open>A system that refuses nothing at a path and whose mask leaves the owner's bits.\<close>

definition works_at :: "osys \<Rightarrow> string \<Rightarrow> bool" where
  "works_at os p \<longleftrightarrow> os_open os p = None \<and> os_stat os p = None \<and> os_mask os SecretPerms = SecretPerms"

definition generated :: "keylib \<Rightarrow> keypair \<Rightarrow> bool" where
  "generated K kp \<longleftrightarrow> IsValidFeedFormat K (kp_feed kp) = Inr () \<and> kl_pair K (kp_public kp) (kp_secret kp) = Inr (kp_public kp, kp_secret kp)"

lemma NewKeyPair_generated: "NewKeyPair K seed = Inr kp \<Longrightarrow> key_laws K \<Longrightarrow> generated K kp"
  by (auto simp: NewKeyPair_def key_laws_def generated_def IsValidFeedFormat_def split: sum.splits)

lemma parse_encoded:
  assumes "EncodeKeyPairAsJSON K kp = Inr t" "key_laws K" "generated K kp"
  shows "ParseKeyPair K (kl_nocomment K t) = Inr kp"
proof -
  let ?s = "\<lparr>ss_curve = ''ed25519'', ss_id = kp_feed kp, ss_private = b64_encode std_alphabet (kp_secret kp) @ ''.ed25519'',
     ss_public = b64_encode std_alphabet (kp_public kp) @ ''.ed25519''\<rparr>"
  have "kl_encode K ?s = Inr t" using assms(1) by (simp add: EncodeKeyPairAsJSON_def split: sum.splits)
  then have "kl_decode K (kl_nocomment K t) = Inr ?s" using assms(2) by (simp add: key_laws_def)
  then show ?thesis using assms(3) by (simp add: ParseKeyPair_def generated_def b64_decode_encode)
qed

lemma SaveKeyPair_ok:
  "SaveKeyPair K os kp path fs = (Inr u, fs') \<Longrightarrow> map_of fs path = None \<and>
     (\<exists>t. EncodeKeyPairAsJSON K kp = Inr t \<and> fs' = AList.update path \<lparr>f_perm = os_mask os SecretPerms, f_text = t\<rparr> fs)"
  by (auto simp: SaveKeyPair_def Let_def split: sum.splits if_splits option.splits)

lemma SaveKeyPair_new_only:
  "SaveKeyPair K os kp path fs = (r, fs') \<Longrightarrow> map_of fs' = map_of fs \<or> map_of fs path = None \<and> (\<exists>f. map_of fs' = (map_of fs)(path \<mapsto> f))"
  by (auto simp: SaveKeyPair_def Let_def update_conv' split: sum.splits if_splits option.splits)

lemma saved_loads:
  assumes "SaveKeyPair K os kp path fs = (Inr u, fs')" "key_laws K" "generated K kp" "works_at os path"
  shows "LoadFile K os path fs' = Inr kp"
proof -
  obtain t where t: "EncodeKeyPairAsJSON K kp = Inr t" "fs' = AList.update path \<lparr>f_perm = os_mask os SecretPerms, f_text = t\<rparr> fs"
    using SaveKeyPair_ok [OF assms(1)] by blast
  then show ?thesis using assms(4) parse_encoded [OF t(1) assms(2,3)]
    by (simp add: LoadFile_def works_at_def update_conv')
qed

lemma DefaultKeyPair_cases:
  assumes "DefaultKeyPair K os seed r fs = (res, fs')"
  obtains (same) "fs' = fs" "is_ok res \<Longrightarrow> LoadFile K os (GetPath r [''secret'']) fs = res"
  | (made) kp q where "NewKeyPair K seed = Inr kp" "SaveKeyPair K os kp (GetPath r [''secret'']) fs = (q, fs')"
      "is_ok res \<Longrightarrow> q = Inr () \<and> res = Inr kp"
proof (cases "LoadFile K os (GetPath r [''secret'']) fs")
  case (Inr kp)
  then show ?thesis using assms that(1) by (auto simp: DefaultKeyPair_def Let_def)
next
  case (Inl e)
  show ?thesis
  proof (cases "e = ErrNotExist")
    case False
    then show ?thesis using Inl assms that(1) by (auto simp: DefaultKeyPair_def Let_def)
  next
    case True
    show ?thesis
    proof (cases "NewKeyPair K seed")
      case (Inl e')
      then show ?thesis using True \<open>LoadFile K os _ fs = _\<close> assms that(1) by (auto simp: DefaultKeyPair_def Let_def)
    next
      case (Inr kp)
      obtain q fs1 where q: "SaveKeyPair K os kp (GetPath r [''secret'']) fs = (q, fs1)" by fastforce
      have "fs1 = fs'" "is_ok res \<Longrightarrow> q = Inr () \<and> res = Inr kp"
        using True \<open>LoadFile K os _ fs = _\<close> assms Inr q by (auto simp: DefaultKeyPair_def Let_def split: sum.splits)
      then show ?thesis using that(2) [OF Inr] q by blast
    qed
  qed
qed

lemma NamedKeyPair_ok:
  "NamedKeyPair K os r name algo seed fs = (Inr kp, fs') \<Longrightarrow>
     NewKeyPair K seed = Inr kp \<and> SaveKeyPair K os kp (name_path r name) fs = (Inr (), fs')"
  by (auto simp: NamedKeyPair_def Let_def split: sum.splits if_splits option.splits prod.splits)

lemma NamedKeyPair_files:
  "NamedKeyPair K os r name algo seed fs = (res, fs') \<Longrightarrow> fs' = fs \<or> (\<exists>kp q. SaveKeyPair K os kp (name_path r name) fs = (q, fs'))"
  by (auto simp: NamedKeyPair_def Let_def split: sum.splits if_splits option.splits prod.splits)

definition made_secret :: "string \<Rightarrow> ssb_secret" where
  "made_secret t = \<lparr>ss_curve = ''ed25519'', ss_id = FeedRef t, ss_private = b64_encode std_alphabet (drop 1 t) @ ''.ed25519'',
     ss_public = b64_encode std_alphabet (drop 1 t) @ ''.ed25519''\<rparr>"

definition sample_keys :: keylib where
  "sample_keys =
     \<lparr>kl_generate = (\<lambda>seed. Inr (seed, seed)), kl_feed = (\<lambda>pub. Inr (FeedRef (''@'' @ pub))), kl_algo = (\<lambda>_. ''ed25519''),
      kl_ssb1 = ''ed25519'', kl_gabby = ''gabbygrove-v1'', kl_pair = (\<lambda>p s. Inr (p, s)),
      kl_encode = (\<lambda>s. if s = made_secret (ref_string (ss_id s)) then Inr (ref_string (ss_id s)) else Inl (Msg ''json'')),
      kl_decode = (\<lambda>t. Inr (made_secret t)), kl_nocomment = (\<lambda>t. t)\<rparr>"

definition sample_os :: osys where
  "sample_os = \<lparr>os_open = (\<lambda>_. None), os_stat = (\<lambda>_. None), os_mkdir = (\<lambda>_. None), os_create = (\<lambda>_. None),
     os_close = (\<lambda>_. None), os_walk = (\<lambda>_. None), os_mask = (\<lambda>p. p)\<rparr>"

lemma sample_keys_laws: "key_laws sample_keys" "works_at sample_os p"
  by (auto simp: key_laws_def sample_keys_def works_at_def sample_os_def split: if_splits)

lemma sample_default:
  "DefaultKeyPair sample_keys sample_os ''k'' ''/room'' [] =
     (Inr \<lparr>kp_feed = FeedRef ''@k'', kp_public = ''k'', kp_secret = ''k''\<rparr>,
      [(GetPath ''/room'' [''secret''], \<lparr>f_perm = SecretPerms, f_text = ''@k''\<rparr>)])"
  by (simp add: DefaultKeyPair_def LoadFile_def NewKeyPair_def SaveKeyPair_def EncodeKeyPairAsJSON_def IsValidFeedFormat_def
      sample_keys_def sample_os_def made_secret_def)

subsection \<open>Properties\<close>

text \<open>C13: The room keeps its identity: once its key pair was loaded or made, every later start with the same
  repository gets the same key pair, whatever randomness it is given, and changes no file.\<close>

theorem default_keypair_stable:
  assumes "DefaultKeyPair K os seed r fs = (Inr kp, fs')" "key_laws K" "works_at os (GetPath r [''secret''])"
  shows "DefaultKeyPair K os seed' r fs' = (Inr kp, fs')"
  using assms(1)
proof (cases rule: DefaultKeyPair_cases)
  case same
  then show ?thesis by (simp add: DefaultKeyPair_def Let_def)
next
  case (made kp' q)
  then have "kp' = kp" "SaveKeyPair K os kp (GetPath r [''secret'']) fs = (Inr (), fs')" by auto
  then have "LoadFile K os (GetPath r [''secret'']) fs' = Inr kp"
    using saved_loads NewKeyPair_generated made(1) assms(2,3) by blast
  then show ?thesis by (simp add: DefaultKeyPair_def Let_def)
qed

lemma default_keypair_stable_witness:
  "\<exists>kp fs. DefaultKeyPair sample_keys sample_os ''k'' ''/room'' [] = (Inr kp, fs) \<and>
     DefaultKeyPair sample_keys sample_os ''other'' ''/room'' fs = (Inr kp, fs)"
  using default_keypair_stable [OF sample_default sample_keys_laws, of "''other''"] sample_default by blast

text \<open>Making a key pair never touches a file that is there: a path that had a file keeps it, a new pair is
  reported only if its path had none, and the file written then loads as that very pair.\<close>

lemma key_files_never_overwritten:
  assumes "NamedKeyPair K os r name algo seed fs = (res, fs')" "key_laws K" "works_at os (name_path r name)"
  shows "(\<forall>p f. map_of fs p = Some f \<longrightarrow> map_of fs' p = Some f)
     \<and> (\<forall>kp. res = Inr kp \<longrightarrow> map_of fs (name_path r name) = None \<and> LoadFile K os (name_path r name) fs' = Inr kp)"
proof (intro conjI allI impI)
  fix p f assume "map_of fs p = Some f"
  then show "map_of fs' p = Some f" using NamedKeyPair_files [OF assms(1)] SaveKeyPair_new_only by fastforce
next
  fix kp assume r: "res = Inr kp"
  then have n: "NewKeyPair K seed = Inr kp" "SaveKeyPair K os kp (name_path r name) fs = (Inr (), fs')"
    using assms(1) NamedKeyPair_ok by blast+
  show "map_of fs (name_path r name) = None" using SaveKeyPair_ok [OF n(2)] by blast
  show "LoadFile K os (name_path r name) fs' = Inr kp"
    by (rule saved_loads [OF n(2) assms(2) NewKeyPair_generated [OF n(1) assms(2)] assms(3)])
qed

lemma key_files_never_overwritten_witness:
  "\<exists>res fs'. NamedKeyPair sample_keys sample_os ''/room'' ''-'' ''ed25519'' ''k'' [] = (res, fs') \<and> is_ok res
     \<and> LoadFile sample_keys sample_os (name_path ''/room'' ''-'') fs' = res"
proof -
  let ?f = "[(name_path ''/room'' ''-'', \<lparr>f_perm = SecretPerms, f_text = ''@k''\<rparr>)]"
    and ?k = "\<lparr>kp_feed = FeedRef ''@k'', kp_public = ''k'', kp_secret = ''k''\<rparr>"
  have made: "NamedKeyPair sample_keys sample_os ''/room'' ''-'' ''ed25519'' ''k'' [] = (Inr ?k, ?f)"
    by (simp add: NamedKeyPair_def LoadFile_def NewKeyPair_def SaveKeyPair_def EncodeKeyPairAsJSON_def IsValidFeedFormat_def
        sample_keys_def sample_os_def made_secret_def)
  show ?thesis using key_files_never_overwritten [OF made sample_keys_laws] made by auto
qed

end
