(* ===== verification/RoomSrv.thy ===== *)
theory RoomSrv
  imports Tunnel NetNode Keys
begin

text \<open>
  \<open>roomsrv\<close>: who may connect (\<open>init_network.go\<close>), the local socket (\<open>init_unixsock.go\<close> with
  \<open>netwraputil/spoof.go\<close>), the table of calls (\<open>init_handlers.go\<close>) and the manifest, the options and
  their defaults (\<open>options.go\<close>, \<open>server.go\<close>), and closing; also \<open>maybemuxrpc/plugin.go\<close>. Loggers,
  contexts, dialers and wrappers are numbers here.
\<close>

subsection \<open>Who is let in\<close>

datatype mux = Public | Master

definition access_of :: "feed_ref \<Rightarrow> mux act" where
  "access_of remote =
     andthen (on_error (\<lambda>_. Msg ''running with unknown privacy mode'') Config_GetPrivacyMode) (\<lambda>pm.
     andthen (if pm = ModeRestricted
              then andthen (on_error (\<lambda>_. Msg ''access restricted to members'') (Members_GetByFeed remote)) (\<lambda>_. ret ())
              else ret ()) (\<lambda>_.
     andthen (Denied_HasFeed remote) (\<lambda>banned.
     if banned then fail (Msg ''this key has been banned'') else ret Public)))"

definition mkHandler :: "lib \<Rightarrow> feed_ref \<Rightarrow> netconn \<Rightarrow> mux act" where
  "mkHandler L self conn =
     (case GetFeedRefFromAddr L (nc_addr conn) of
        Inl e \<Rightarrow> fail (Wrapped ''sbot: expected an address containing an shs-bs addr'' e)
      | Inr remote \<Rightarrow> if self = remote then ret Master else access_of remote)"

text \<open>The same with the facts of the database in place of the queries.\<close>

definition admits :: "feed_ref \<Rightarrow> db \<Rightarrow> bool" where
  "admits remote d \<longleftrightarrow> (cf_mode (the_config d) = ModeRestricted \<longrightarrow> stored_member remote d) \<and> \<not> is_denied remote d"

subsection \<open>The local socket\<close>

text \<open>\<open>addr_text\<close> is the text \<open>secretstream\<close> gives the address of a public key.\<close>

definition SpoofRemoteAddress :: "(bytes \<Rightarrow> string) \<Rightarrow> bytes \<Rightarrow> netconn \<Rightarrow> netconn res" where
  "SpoofRemoteAddress addr_text pubKey c =
     (if length pubKey \<noteq> 32 then Inl (Msg ''invalid public key length'')
      else Inr (c\<lparr>nc_key := Some pubKey, nc_addr := \<lparr>shs_addr = Some (addr_text pubKey)\<rparr>\<rparr>))"

text \<open>What becomes of an accepted connection: it is closed, or the master handler serves it under the room's own address.\<close>

definition unix_accept :: "(bytes \<Rightarrow> string) \<Rightarrow> bytes \<Rightarrow> (netconn \<Rightarrow> netconn res) list \<Rightarrow> netconn \<Rightarrow> (mux \<times> netconn) option" where
  "unix_accept addr_text pubKey postSecure c =
     (case SpoofRemoteAddress addr_text pubKey c of
        Inl _ \<Rightarrow> None
      | Inr wc \<Rightarrow> (case applyConnWrappers 0 postSecure wc of Inl _ \<Rightarrow> None | Inr wc' \<Rightarrow> Some (Master, wc')))"

subsection \<open>The table of calls\<close>

datatype call_kind = Async | Source | Duplex

definition tunnel_routes :: "(string list \<times> call_kind) list" where
  "tunnel_routes =
     [([''tunnel'', ''isRoom''], Async), ([''tunnel'', ''ping''], Async),
      ([''tunnel'', ''announce''], Async), ([''tunnel'', ''leave''], Async),
      ([''tunnel'', ''endpoints''], Source), ([''tunnel'', ''connect''], Duplex)]"

definition room_routes :: "(string list \<times> call_kind) list" where
  "room_routes =
     [([''room'', ''metadata''], Async), ([''room'', ''ping''], Async),
      ([''room'', ''attendants''], Source), ([''room'', ''members''], Source), ([''room'', ''connect''], Duplex)]"

definition routes :: "(string list \<times> call_kind) list" where
  "routes =
     [([''manifest''], Async), ([''whoami''], Async)] @ tunnel_routes @ room_routes
     @ [([''room'', ''registerAlias''], Async), ([''room'', ''revokeAlias''], Async), ([''room'', ''listAliases''], Async),
        ([''httpAuth'', ''invalidateAllSolutions''], Async), ([''httpAuth'', ''sendSolution''], Async),
        ([''gossip'', ''ping''], Duplex)]"

text \<open>What the manifest tells a client, with the type of each call.\<close>

definition manifest :: "(string list \<times> string) list" where
  "manifest =
     [([''manifest''], ''sync''), ([''whoami''], ''async''), ([''gossip'', ''ping''], ''duplex''),
      ([''room'', ''registerAlias''], ''async''), ([''room'', ''revokeAlias''], ''async''), ([''room'', ''listAliases''], ''async''),
      ([''room'', ''connect''], ''duplex''), ([''room'', ''attendants''], ''source''), ([''room'', ''members''], ''source''),
      ([''room'', ''metadata''], ''async''), ([''room'', ''ping''], ''sync''),
      ([''tunnel'', ''announce''], ''sync''), ([''tunnel'', ''leave''], ''sync''), ([''tunnel'', ''connect''], ''duplex''),
      ([''tunnel'', ''endpoints''], ''source''), ([''tunnel'', ''isRoom''], ''async''), ([''tunnel'', ''ping''], ''sync'')]"

definition kind_text :: "call_kind \<Rightarrow> string list" where
  "kind_text k = (case k of Async \<Rightarrow> [''sync'', ''async''] | Source \<Rightarrow> [''source''] | Duplex \<Rightarrow> [''duplex''])"

subsection \<open>Plugins\<close>

record plugin =
  pl_method :: string
  pl_handler :: nat
  pl_authorize :: "netconn \<Rightarrow> bool"

definition Plugin_Register :: "plugin \<Rightarrow> (string \<times> plugin) list \<Rightarrow> (string \<times> plugin) list" where
  "Plugin_Register p plugins = AList.update (pl_method p) p plugins"

definition Plugin_MakeHandler :: "netconn \<Rightarrow> (string \<times> plugin) list \<Rightarrow> (string \<times> nat) list" where
  "Plugin_MakeHandler conn plugins =
     map (\<lambda>(m, p). (pl_method p, pl_handler p)) (filter (\<lambda>(m, p). pl_authorize p conn) plugins)"

subsection \<open>Options and defaults\<close>

record srv =
  sv_repoPath :: string
  sv_appKey :: "bytes option"
  sv_keyPair :: "keypair option"
  sv_logger :: "nat option"
  sv_rootCtx :: "nat option"
  sv_dialer :: "nat option"
  sv_tracker :: "nat option"
  sv_pre :: "nat list"
  sv_post :: "nat list"
  sv_unix :: bool
  sv_listen :: "nat option"
  sv_net :: server_details

datatype srv_option =
    WithRepoPath string
  | WithAppKey bytes
  | WithNamedKeyPair string
  | WithJSONKeyPair string
  | WithKeyPair "keypair option"
  | WithLogger "nat option"
  | WithContext nat
  | WithDialer "nat option"
  | WithNetworkConnTracker "nat option"
  | WithPreSecureConnWrapper nat
  | WithPostSecureConnWrapper nat
  | WithUNIXSocket bool

fun apply_option :: "keylib \<Rightarrow> osys \<Rightarrow> files \<Rightarrow> srv_option \<Rightarrow> srv \<Rightarrow> srv res" where
  "apply_option K os fs (WithRepoPath p) s = Inr (s\<lparr>sv_repoPath := p\<rparr>)"
| "apply_option K os fs (WithAppKey k) s =
     (if length k \<noteq> 32 then Inl (Msg (''appKey: need 32 bytes got '' @ show_nat (length k))) else Inr (s\<lparr>sv_appKey := Some k\<rparr>))"
| "apply_option K os fs (WithNamedKeyPair name) s =
     (case LoadKeyPair K os (sv_repoPath s) name fs of
        Inl e \<Rightarrow> Inl (Wrapped (''loading named key-pair '' @ name @ '' failed'') e)
      | Inr kp \<Rightarrow> Inr (s\<lparr>sv_keyPair := Some kp\<rparr>))"
| "apply_option K os fs (WithJSONKeyPair blob) s =
     (case ParseKeyPair K blob of
        Inl e \<Rightarrow> Inl (Wrapped ''JSON KeyPair decode failed'' e)
      | Inr kp \<Rightarrow> Inr (s\<lparr>sv_keyPair := Some kp\<rparr>))"
| "apply_option K os fs (WithKeyPair kp) s = Inr (s\<lparr>sv_keyPair := kp\<rparr>)"
| "apply_option K os fs (WithLogger l) s = Inr (s\<lparr>sv_logger := l\<rparr>)"
| "apply_option K os fs (WithContext ctx) s = Inr (s\<lparr>sv_rootCtx := Some ctx\<rparr>)"
| "apply_option K os fs (WithDialer d) s = Inr (s\<lparr>sv_dialer := d\<rparr>)"
| "apply_option K os fs (WithNetworkConnTracker ct) s = Inr (s\<lparr>sv_tracker := ct\<rparr>)"
| "apply_option K os fs (WithPreSecureConnWrapper w) s = Inr (s\<lparr>sv_pre := sv_pre s @ [w]\<rparr>)"
| "apply_option K os fs (WithPostSecureConnWrapper w) s = Inr (s\<lparr>sv_post := sv_post s @ [w]\<rparr>)"
| "apply_option K os fs (WithUNIXSocket yes) s = Inr (s\<lparr>sv_unix := yes\<rparr>)"

fun apply_options :: "keylib \<Rightarrow> osys \<Rightarrow> files \<Rightarrow> nat \<Rightarrow> srv_option list \<Rightarrow> srv \<Rightarrow> srv res" where
  "apply_options K os fs i [] s = Inr s"
| "apply_options K os fs i (opt # opts) s =
     (case apply_option K os fs opt s of
        Inl e \<Rightarrow> Inl (Wrapped (''error applying option #'' @ show_nat i) e)
      | Inr s' \<Rightarrow> apply_options K os fs (i + 1) opts s')"

definition empty_srv :: "server_details \<Rightarrow> srv" where
  "empty_srv netInfo =
     \<lparr>sv_repoPath = [], sv_appKey = None, sv_keyPair = None, sv_logger = None, sv_rootCtx = None, sv_dialer = None,
      sv_tracker = None, sv_pre = [], sv_post = [], sv_unix = False, sv_listen = None, sv_net = netInfo\<rparr>"

definition default_app_key :: string where
  "default_app_key = ''1KHLiKZvAvjbY1ziZEHMXawbCEIM6qwjCDm3VYRan/s=''"

text \<open>
  \<open>New\<close>: options, then a default for everything left open. \<open>home\<close> is the current user's directory,
  \<open>tcp_port\<close> the resolver, \<open>start\<close> what the network and the local socket answer when they are set up.
\<close>

definition with_repo :: "string res \<Rightarrow> srv \<Rightarrow> srv res" where
  "with_repo home s =
     (if sv_repoPath s = []
      then (case home of
              Inl e \<Rightarrow> Inl (Wrapped ''error getting info on current user'' e)
            | Inr h \<Rightarrow> Inr (s\<lparr>sv_repoPath := path_join [h, ''.ssb-go'']\<rparr>))
      else Inr s)"

definition with_app_key :: "srv \<Rightarrow> srv res" where
  "with_app_key s =
     (if sv_appKey s = None
      then (case b64_decode std_alphabet default_app_key of
              None \<Rightarrow> Inl (Wrapped ''failed to decode default appkey'' illegal_base64)
            | Some ak \<Rightarrow> Inr (s\<lparr>sv_appKey := Some ak\<rparr>))
      else Inr s)"

definition with_listener :: "(string \<Rightarrow> nat option) \<Rightarrow> srv \<Rightarrow> srv res" where
  "with_listener tcp_port s =
     (let s1 = (if sv_dialer s = None then s\<lparr>sv_dialer := Some 0\<rparr> else s) in
      case tcp_port (ListenAddressMUXRPC (sv_net s1)) of
        None \<Rightarrow> Inl (Msg ''address does not resolve'')
      | Some p \<Rightarrow>
          Inr (s1\<lparr>sv_listen := Some p,
              sv_logger := (if sv_logger s1 = None then Some 0 else sv_logger s1),
              sv_rootCtx := (if sv_rootCtx s1 = None then Some 0 else sv_rootCtx s1)\<rparr>))"

definition with_key_pair :: "keylib \<Rightarrow> osys \<Rightarrow> bytes \<Rightarrow> files \<Rightarrow> srv \<Rightarrow> srv res \<times> files" where
  "with_key_pair K os seed fs s =
     (case sv_keyPair s of
        Some _ \<Rightarrow> (Inr s, fs)
      | None \<Rightarrow>
          (case DefaultKeyPair K os seed (sv_repoPath s) fs of
             (Inl e, fs') \<Rightarrow> (Inl (Wrapped ''roomsrv: failed to get keypair'' e), fs')
           | (Inr kp, fs') \<Rightarrow> (Inr (s\<lparr>sv_keyPair := Some kp\<rparr>), fs')))"

definition New_server ::
  "keylib \<Rightarrow> osys \<Rightarrow> bytes \<Rightarrow> string res \<Rightarrow> (string \<Rightarrow> nat option) \<Rightarrow> (srv \<Rightarrow> unit res) \<Rightarrow> (srv \<Rightarrow> unit res) \<Rightarrow>
     server_details \<Rightarrow> srv_option list \<Rightarrow> files \<Rightarrow> srv res \<times> files" where
  "New_server K os seed home tcp_port initNetwork initUnixSock netInfo opts fs =
     (case apply_options K os fs 0 opts (empty_srv netInfo) of
        Inl e \<Rightarrow> (Inl e, fs)
      | Inr s0 \<Rightarrow>
     (case with_repo home s0 of
        Inl e \<Rightarrow> (Inl e, fs)
      | Inr s1 \<Rightarrow>
     (case with_app_key s1 of
        Inl e \<Rightarrow> (Inl e, fs)
      | Inr s2 \<Rightarrow>
     (case with_listener tcp_port s2 of
        Inl e \<Rightarrow> (Inl e, fs)
      | Inr s3 \<Rightarrow>
     (case with_key_pair K os seed fs s3 of
        (Inl e, fs') \<Rightarrow> (Inl e, fs')
      | (Inr s4, fs') \<Rightarrow>
          let s5 = s4\<lparr>sv_net := (sv_net s4)\<lparr>RoomID := kp_feed (the (sv_keyPair s4))\<rparr>\<rparr> in
          (case initNetwork s5 of
             Inl e \<Rightarrow> (Inl e, fs')
           | Inr _ \<Rightarrow>
               if sv_unix s5 then (case initUnixSock s5 of Inl e \<Rightarrow> (Inl e, fs') | Inr _ \<Rightarrow> (Inr s5, fs'))
               else (Inr s5, fs')))))))"

subsection \<open>Closing\<close>

text \<open>
  \<open>net_close\<close> is what closing the node gives, if there is one; \<open>closers\<close> are the others, in order. The
  state also counts how often the connections were closed.
\<close>

record closing =
  cl_closed :: bool
  cl_err :: "err option"
  cl_runs :: nat

definition Server_Close :: "err option option \<Rightarrow> (unit \<Rightarrow> err option) list \<Rightarrow> closing \<Rightarrow> err option \<times> closing" where
  "Server_Close net_close closers s =
     (if cl_closed s then (cl_err s, s)
      else let s1 = s\<lparr>cl_closed := True\<rparr> in
        (case net_close of
           Some (Some e) \<Rightarrow>
             let e' = Wrapped ''sbot: failed to close own network node'' e in (Some e', s1\<lparr>cl_err := Some e'\<rparr>)
         | _ \<Rightarrow>
             let s2 = (if net_close \<noteq> None then s1\<lparr>cl_runs := cl_runs s1 + 1\<rparr> else s1) in
             (case Closer_Close closers of
                Some e \<Rightarrow> (Some e, s2\<lparr>cl_err := Some e\<rparr>)
              | None \<Rightarrow> (None, s2))))"

subsection \<open>Admission\<close>

lemma access_of_clean:
  assumes wf: "db_wf (data c)" and clean: "faults c = []"
  shows "access_of r c = ((if cf_mode (the_config (data c)) = ModeRestricted \<and> \<not> stored_member r (data c)
       then Inl (Msg ''access restricted to members'')
       else if is_denied r (data c) then Inl (Msg ''this key has been banned'') else Inr Public), c)"
proof -
  obtain q where q: "Members_GetByFeed r c = (q, c)" "q = Inl ErrNotFound \<and> \<not> stored_member r (data c) \<or> is_ok q \<and> stored_member r (data c)"
    using GetByFeed_clean [OF clean, of r] by blast
  then show ?thesis using Config_get_clean(1) [OF wf clean] Denied_HasFeed_clean [OF clean, of r]
    by (cases q) (auto simp: access_of_def andthen_def on_error_def ret_def fail_def)
qed

lemma access_of_sound:
  assumes "access_of r c = (Inr u, c')"
  shows "u = Public \<and> (cf_mode (the_config (data c)) = ModeRestricted \<longrightarrow> stored_member r (data c)) \<and> data c' = data c"
proof -
  obtain pm c1 c2 where 1: "Config_GetPrivacyMode c = (Inr pm, c1)"
    and 2: "(if pm = ModeRestricted then andthen (on_error (\<lambda>_. Msg ''access restricted to members'') (Members_GetByFeed r)) (\<lambda>_. ret ()) else ret ()) c1 = (Inr (), c2)"
    and 3: "andthen (Denied_HasFeed r) (\<lambda>banned. if banned then fail (Msg ''this key has been banned'') else ret Public) c2 = (Inr u, c')"
    using assms unfolding access_of_def by auto
  have pm: "pm = cf_mode (the_config (data c))" "data c1 = data c" using Config_GetPrivacyMode_ok [OF 1] by auto
  have "data c2 = data c1 \<and> (pm = ModeRestricted \<longrightarrow> stored_member r (data c1))"
  proof (cases "pm = ModeRestricted")
    case True
    then obtain m where m: "Members_GetByFeed r c1 = (Inr m, c2)" using 2 by auto
    obtain i x where x: "(i, x) \<in> set (rows (members (data c1)))" "mb_pub_key x = r" "data c2 = data c1"
      using Members_GetByFeed_ok [OF m] by blast
    then have "stored_member r (data c1)" unfolding stored_member_def exists_row_conv by force
    then show ?thesis using x(3) by simp
  next
    case False
    then show ?thesis using 2 by simp
  qed
  moreover obtain b where b: "Denied_HasFeed r c2 = (Inr b, c')" "u = Public" using 3 by (auto split: if_splits)
  ultimately show ?thesis using pm Denied_HasFeed_result [OF b(1)] by simp
qed

text \<open>C8: Who may connect while the database works: the room itself as master, and any other peer exactly if it
  is not denied and, in the restricted mode, a member. Asking never changes the database.\<close>

theorem admission_rule:
  assumes "db_wf (data c)" "faults c = []" "GetFeedRefFromAddr L (nc_addr conn) = Inr remote"
  shows "\<exists>r. mkHandler L self conn c = (r, c)
     \<and> (r = Inr Master \<longleftrightarrow> remote = self)
     \<and> (r = Inr Public \<longleftrightarrow> remote \<noteq> self \<and> admits remote (data c))
     \<and> (\<not> is_ok r \<longleftrightarrow> remote \<noteq> self \<and> \<not> admits remote (data c))"
  using assms access_of_clean [OF assms(1,2), of remote] by (auto simp: mkHandler_def ret_def admits_def)

lemma admission_rule_witness:
  "\<exists>r. mkHandler sample_lib alice \<lparr>nc_id = 1, nc_key = Some ''bob'', nc_addr = \<lparr>shs_addr = Some ''@bob''\<rparr>, nc_remote = []\<rparr> sample_conn
     = (r, sample_conn) \<and> r = Inr Public"
proof -
  have "admits bob sample_db" by (simp add: admits_def mode_defs is_denied_def exists_row_def)
  then show ?thesis
    using admission_rule [of sample_conn sample_lib "\<lparr>nc_id = 1, nc_key = Some ''bob'', nc_addr = \<lparr>shs_addr = Some ''@bob''\<rparr>, nc_remote = []\<rparr>" bob alice]
    by (simp add: GetFeedRefFromAddr_def alice_def bob_def has_prefix_def)
qed

text \<open>Even while the database fails, a peer that is not a member is not let into a restricted room: every
  failure of the privacy mode or member lookup turns the peer away.\<close>

lemma restricted_room_stays_closed:
  assumes "mkHandler L self conn c = (Inr m, c')" "GetFeedRefFromAddr L (nc_addr conn) = Inr remote" "remote \<noteq> self"
    "cf_mode (the_config (data c)) = ModeRestricted"
  shows "stored_member remote (data c)"
  using assms access_of_sound [of remote c m c'] by (simp add: mkHandler_def)

definition restricted_conn :: "db conn" where
  "restricted_conn = \<lparr>data = sample_db\<lparr>config := [(0, \<lparr>cf_mode = ModeRestricted, cf_language = ''en'', cf_subdomain = True\<rparr>)]\<rparr>,
     faults = [False, False, False, True]\<rparr>"

lemma restricted_room_stays_closed_witness:
  "\<exists>m c'. mkHandler sample_lib alice \<lparr>nc_id = 1, nc_key = Some ''bob'', nc_addr = \<lparr>shs_addr = Some ''@bob''\<rparr>, nc_remote = []\<rparr>
       restricted_conn = (Inr m, c') \<and> stored_member bob (data restricted_conn)"
proof -
  let ?n = "\<lparr>nc_id = 1, nc_key = Some ''bob'', nc_addr = \<lparr>shs_addr = Some ''@bob''\<rparr>, nc_remote = []\<rparr>"
  have r: "GetFeedRefFromAddr sample_lib (nc_addr ?n) = Inr bob" by (simp add: GetFeedRefFromAddr_def bob_def has_prefix_def)
  have bob: "find_row (\<lambda>r. mb_pub_key r = bob) (members (data restricted_conn)) = Some (2, \<lparr>mb_role = RoleModerator, mb_pub_key = bob\<rparr>)"
    by (simp add: restricted_conn_def find_row_def)
  have mode: "cf_mode (the_config (data restricted_conn)) = ModeRestricted" by (simp add: restricted_conn_def the_config_def configRowID_def)
  obtain c' where c': "mkHandler sample_lib alice ?n restricted_conn = (Inr Public, c')"
    using r bob by (simp add: mkHandler_def access_of_def Config_GetPrivacyMode_def Members_GetByFeed_def Denied_HasFeed_def
        restricted_conn_def find_config_def configRowID_def andthen_def on_error_def attempt_def one_def read_all_def query_def
        stmt_def ret_def fail_def mode_defs)
  show ?thesis using restricted_room_stays_closed [OF c' r _ mode] c' by simp
qed

subsection \<open>From the admission to the end of a connection\<close>

text \<open>The node of the room: the tracker that refuses second connections, and the rule above as its handler.\<close>

definition room_open ::
  "lib \<Rightarrow> feed_ref \<Rightarrow> db conn \<Rightarrow> (netconn \<Rightarrow> netconn res) list \<Rightarrow> time \<Rightarrow> 'e \<Rightarrow> netconn \<Rightarrow> (active, 'e) node \<Rightarrow>
     mux outcome_of_open res \<times> (active, 'e) node" where
  "room_open L self c ws now edp orig n =
     open_connection L Tracker_OnAccept Tracker_OnClose ws (\<lambda>conn. fst (mkHandler L self conn c)) now edp orig n"

definition room_end :: "lib \<Rightarrow> time \<Rightarrow> 'e \<Rightarrow> netconn \<Rightarrow> netconn \<Rightarrow> (active, 'e) node \<Rightarrow> (active, 'e) node" where
  "room_end L now edp orig conn n = end_connection L Tracker_OnClose now edp orig conn n"

lemma room_open_not_served:
  assumes "room_open L self c ws now edp orig n = (out, n')" "\<And>h. out \<noteq> Inr (Serving h)"
  shows "GetEndpointFor q n' = GetEndpointFor q n \<and> holder (tracker n') = holder (tracker n)"
proof -
  have "(\<forall>q. GetEndpointFor q n' = GetEndpointFor q n) \<and> (holder (tracker n') = holder (tracker n)
     \<or> (\<exists>conn k. applyConnWrappers 0 ws orig = Inr conn \<and> toActive conn = Inr k
          \<and> fst (Tracker_OnAccept now conn (tracker n)) = Inr True \<and> holder (tracker n') = (holder (tracker n))(k := None)))"
    by (rule first_wins.open_not_served [OF assms(1) [unfolded room_open_def] assms(2)])
  moreover have "(holder (tracker n))(k := None) = holder (tracker n)"
    if "toActive conn = Inr k" "fst (Tracker_OnAccept now conn (tracker n)) = Inr True" for conn k
    using that by (cases "Tracker_OnAccept now conn (tracker n)") (auto simp: Tracker_OnAccept_True)
  ultimately show ?thesis by metis
qed

text \<open>A peer that may not connect, being denied or not a member of a restricted room, is dropped and leaves
  no trace in the node: every endpoint and every entry of the connection tracker is as before.\<close>

lemma turned_away_leaves_no_trace:
  assumes "db_wf (data c)" "faults c = []" "applyConnWrappers 0 ws orig = Inr conn"
    "GetFeedRefFromAddr L (nc_addr conn) = Inr remote" "remote \<noteq> self" "\<not> admits remote (data c)"
    "room_open L self c ws now edp orig n = (out, n')"
  shows "(\<forall>h. out \<noteq> Inr (Serving h)) \<and> (\<forall>q. GetEndpointFor q n' = GetEndpointFor q n) \<and> holder (tracker n') = holder (tracker n)"
proof -
  obtain e where e: "fst (mkHandler L self conn c) = Inl e"
    using assms(4-6) access_of_clean [OF assms(1,2), of remote] by (auto simp: mkHandler_def admits_def split: if_splits)
  have "out \<noteq> Inr (Serving h)" for h
  proof
    assume "out = Inr (Serving h)"
    with assms(7) have "open_connection L Tracker_OnAccept Tracker_OnClose ws (\<lambda>conn. fst (mkHandler L self conn c)) now edp orig n
        = (Inr (Serving h), n')" by (simp add: room_open_def)
    from first_wins.open_served [OF this assms(3)] have "fst (mkHandler L self conn c) = Inr h" by blast
    with e show False by simp
  qed
  then show ?thesis using room_open_not_served [OF assms(7)] by blast
qed

text \<open>A peer that is served can be reached under its reference by others, its key is taken in the tracker,
  and when its session ends both are free again while the other peers keep theirs.\<close>

lemma served_until_end:
  assumes "room_open L self c ws now edp orig n = (Inr (Serving m), n')" "applyConnWrappers 0 ws orig = Inr conn"
  shows "\<exists>r k. GetFeedRefFromAddr L (nc_addr conn) = Inr r \<and> toActive conn = Inr k
     \<and> fst (mkHandler L self conn c) = Inr m
     \<and> GetEndpointFor r n' = Some edp \<and> holder (tracker n') k = Some conn
     \<and> GetEndpointFor r (room_end L later edp orig conn n') = None
     \<and> holder (tracker (room_end L later edp orig conn n')) k = None
     \<and> (\<forall>q. q \<noteq> r \<longrightarrow> GetEndpointFor q (room_end L later edp orig conn n') = GetEndpointFor q n)
     \<and> (\<forall>j. j \<noteq> k \<longrightarrow> holder (tracker (room_end L later edp orig conn n')) j = holder (tracker n) j)"
proof -
  obtain r k where rk: "GetFeedRefFromAddr L (nc_addr conn) = Inr r" "fst (mkHandler L self conn c) = Inr m" "toActive conn = Inr k"
      "holder (tracker n') = (holder (tracker n))(k \<mapsto> conn)"
      "\<forall>q. GetEndpointFor q n' = (if q = r then Some edp else GetEndpointFor q n)"
    using first_wins.open_served [OF assms(1) [unfolded room_open_def] assms(2)] by blast
  show ?thesis using first_wins.end_frees [OF rk(1,3), of later edp orig n'] rk unfolding room_end_def by auto
qed

text \<open>A banned peer and a member that come to an empty node.\<close>

definition net_peer :: "string \<Rightarrow> netconn" where
  "net_peer s = \<lparr>nc_id = 1, nc_key = Some s, nc_addr = \<lparr>shs_addr = Some (''@'' @ s)\<rparr>, nc_remote = []\<rparr>"

definition empty_node :: "(active, nat) node" where
  "empty_node = \<lparr>tracker = [], remotes = [], closed_conns = [], terminated = []\<rparr>"

definition banned_conn :: "db conn" where
  "banned_conn = \<lparr>data = sample_db\<lparr>denied := add_row \<lparr>dn_pub_key = dave, dn_comment = [], dn_at = 0\<rparr> empty_table\<rparr>, faults = []\<rparr>"

lemma banned_conn_ok: "db_wf (data banned_conn)" "faults banned_conn = []" "\<not> admits dave (data banned_conn)" "admits bob (data banned_conn)"
proof -
  have "insert_denied \<lparr>dn_pub_key = dave, dn_comment = [], dn_at = 0\<rparr> sample_db = Inr (4, data banned_conn) \<or> True" by simp
  show "faults banned_conn = []" "\<not> admits dave (data banned_conn)" "admits bob (data banned_conn)"
    by (auto simp: banned_conn_def admits_def mode_defs is_denied_def exists_row_def the_config_def add_row_def initial_db_def configRowID_def)
  show "db_wf (data banned_conn)"
    using keepsD [OF keeps_Denied(1) [of sample_lib 0 dave "[]"], of sample_conn "Inr ()" banned_conn]
    by (simp add: banned_conn_def Denied_Add_def andthen_def on_error_def insert_denied_def exists_row_def ret_def
        current_timestamp_def sample_conn_def exec_def stmt_def)
qed

lemma turned_away_leaves_no_trace_witness:
  "\<exists>out n'. room_open sample_lib alice banned_conn [] 0 7 (net_peer ''dave'') empty_node = (out, n') \<and> GetEndpointFor dave n' = None"
proof -
  obtain out n' where o: "room_open sample_lib alice banned_conn [] 0 7 (net_peer ''dave'') empty_node = (out, n')" by fastforce
  have a: "applyConnWrappers 0 [] (net_peer ''dave'') = Inr (net_peer ''dave'')"
    "GetFeedRefFromAddr sample_lib (nc_addr (net_peer ''dave'')) = Inr dave"
    by (simp_all add: GetFeedRefFromAddr_def net_peer_def dave_def has_prefix_def)
  have "\<forall>q. GetEndpointFor q n' = GetEndpointFor q empty_node"
    using turned_away_leaves_no_trace [OF banned_conn_ok(1,2) a _ banned_conn_ok(3) o] by simp
  then show ?thesis using o by (auto simp: GetEndpointFor_def empty_node_def)
qed

lemma served_until_end_witness:
  "\<exists>m n'. room_open sample_lib alice banned_conn [] 0 7 (net_peer ''bob'') empty_node = (Inr (Serving m), n')
     \<and> GetEndpointFor bob n' = Some 7 \<and> GetEndpointFor bob (room_end sample_lib 9 7 (net_peer ''bob'') (net_peer ''bob'') n') = None"
proof -
  have r: "GetFeedRefFromAddr sample_lib (nc_addr (net_peer ''bob'')) = Inr bob"
    by (simp add: GetFeedRefFromAddr_def net_peer_def bob_def has_prefix_def)
  have "mkHandler sample_lib alice (net_peer ''bob'') banned_conn = (Inr Public, banned_conn)"
    using access_of_clean [OF banned_conn_ok(1,2), of bob] banned_conn_ok(4) r
    by (auto simp: mkHandler_def admits_def alice_def bob_def)
  then obtain n' where o: "room_open sample_lib alice banned_conn [] 0 7 (net_peer ''bob'') empty_node = (Inr (Serving Public), n')"
    using r by (simp add: room_open_def open_connection_def Tracker_OnAccept_def toActive_def empty_node_def net_peer_def addRemote_def)
  show ?thesis using served_until_end [OF o, of "net_peer ''bob''" 9] o r by auto
qed

subsection \<open>Start and end of the server\<close>

text \<open>The manifest lists each call once and with a type the server answers it with; what it leaves out of
  the registered calls are the two of httpAuth.\<close>

lemma manifest_matches_routes:
  "distinct (map fst manifest) \<and> distinct (map fst routes)
   \<and> list_all (\<lambda>(m, t). list_ex (\<lambda>(r, k). r = m \<and> List.member (kind_text k) t) routes) manifest
   \<and> filter (\<lambda>m. m \<notin> set (map fst manifest)) (map fst routes) = [[''httpAuth'', ''invalidateAllSolutions''], [''httpAuth'', ''sendSolution'']]"
  by (simp add: manifest_def routes_def tunnel_routes_def room_routes_def kind_text_def)

lemma apply_option_key: "apply_option K os fs opt s = Inr s' \<Longrightarrow> pred_option (\<lambda>k. length k = 32) (sv_appKey s) \<Longrightarrow>
     pred_option (\<lambda>k. length k = 32) (sv_appKey s')"
  by (cases opt) (auto split: sum.splits if_splits)

lemma apply_options_key: "apply_options K os fs i opts s = Inr s' \<Longrightarrow> pred_option (\<lambda>k. length k = 32) (sv_appKey s) \<Longrightarrow>
     pred_option (\<lambda>k. length k = 32) (sv_appKey s')"
  by (induction opts arbitrary: i s) (auto split: sum.splits dest: apply_option_key)

lemma default_app_key_length: "\<exists>k. b64_decode std_alphabet default_app_key = Some k \<and> length k = 32"
  by (simp add: b64_decode_def default_app_key_def sym_val_def code_val_def std_alphabet_def quad_bytes_def pad_def)

definition wrappers_in :: "srv_option list \<Rightarrow> nat list \<times> nat list" where
  "wrappers_in opts =
     (List.map_filter (\<lambda>opt. case opt of WithPreSecureConnWrapper w \<Rightarrow> Some w | _ \<Rightarrow> None) opts,
      List.map_filter (\<lambda>opt. case opt of WithPostSecureConnWrapper w \<Rightarrow> Some w | _ \<Rightarrow> None) opts)"

lemma apply_options_wrappers:
  "apply_options K os fs i opts s = Inr s' \<Longrightarrow>
     sv_pre s' = sv_pre s @ fst (wrappers_in opts) \<and> sv_post s' = sv_post s @ snd (wrappers_in opts)"
proof (induction opts arbitrary: i s)
  case Nil
  then show ?case by (simp add: wrappers_in_def)
next
  case (Cons opt opts)
  then obtain s1 where s1: "apply_option K os fs opt s = Inr s1" "apply_options K os fs (i + 1) opts s1 = Inr s'"
    by (auto split: sum.splits)
  from Cons.IH [OF s1(2)] s1(1) show ?case
    by (cases opt) (auto simp: wrappers_in_def split: sum.splits if_splits)
qed

definition option_key :: "keylib \<Rightarrow> osys \<Rightarrow> files \<Rightarrow> srv_option list \<Rightarrow> server_details \<Rightarrow> keypair option" where
  "option_key K os fs opts net =
     (case apply_options K os fs 0 opts (empty_srv net) of Inl _ \<Rightarrow> None | Inr s \<Rightarrow> sv_keyPair s)"

lemma with_repo_keeps:
  "with_repo home s = Inr s' \<Longrightarrow> sv_appKey s' = sv_appKey s \<and> sv_keyPair s' = sv_keyPair s \<and> sv_pre s' = sv_pre s \<and> sv_post s' = sv_post s"
  by (auto simp: with_repo_def split: if_splits sum.splits)

lemma with_app_key_keeps:
  "with_app_key s = Inr s' \<Longrightarrow> pred_option (\<lambda>k. length k = 32) (sv_appKey s) \<Longrightarrow>
     (\<exists>k. sv_appKey s' = Some k \<and> length k = 32) \<and> sv_keyPair s' = sv_keyPair s \<and> sv_pre s' = sv_pre s \<and> sv_post s' = sv_post s"
  using default_app_key_length by (cases "sv_appKey s") (auto simp: with_app_key_def split: if_splits option.splits)

lemma with_listener_keeps:
  "with_listener tcp_port s = Inr s' \<Longrightarrow>
     (\<exists>p. sv_listen s' = Some p) \<and> sv_appKey s' = sv_appKey s \<and> sv_keyPair s' = sv_keyPair s \<and> sv_pre s' = sv_pre s \<and> sv_post s' = sv_post s"
  by (auto simp: with_listener_def Let_def split: option.splits)

lemma with_key_pair_keeps:
  "with_key_pair K os seed fs s = (Inr s', fs') \<Longrightarrow>
     (\<exists>kp. s' = s\<lparr>sv_keyPair := Some kp\<rparr> \<and> (case sv_keyPair s of Some kp0 \<Rightarrow> kp = kp0 \<and> fs' = fs
        | None \<Rightarrow> DefaultKeyPair K os seed (sv_repoPath s) fs = (Inr kp, fs')))"
  by (auto simp: with_key_pair_def split: option.splits prod.splits sum.splits)

lemma New_server_ok:
  assumes "New_server K os seed home tcp_port nw ux net opts fs = (Inr s, fs')"
  obtains s0 s1 s2 s3 s4 where "apply_options K os fs 0 opts (empty_srv net) = Inr s0" "with_repo home s0 = Inr s1"
    "with_app_key s1 = Inr s2" "with_listener tcp_port s2 = Inr s3" "with_key_pair K os seed fs s3 = (Inr s4, fs')"
    "s = s4\<lparr>sv_net := (sv_net s4)\<lparr>RoomID := kp_feed (the (sv_keyPair s4))\<rparr>\<rparr>"
  using assms unfolding New_server_def by (auto simp: Let_def split: sum.splits prod.splits if_splits)

text \<open>A server that starts has everything it needs: an app key of 32 bytes, a listening port and a key
  pair, whose reference is the room's id. The key pair an option gave is taken as it is, without
  touching a file; else it is the one of the repository. Connection wrappers keep their order.\<close>

lemma started_server_complete:
  assumes "New_server K os seed home tcp_port nw ux net opts fs = (Inr s, fs')"
  shows "(\<exists>k. sv_appKey s = Some k \<and> length k = 32) \<and> sv_listen s \<noteq> None
     \<and> (\<exists>kp. sv_keyPair s = Some kp \<and> RoomID (sv_net s) = kp_feed kp
          \<and> (case option_key K os fs opts net of
               Some kp0 \<Rightarrow> kp = kp0 \<and> fs' = fs
             | None \<Rightarrow> DefaultKeyPair K os seed (sv_repoPath s) fs = (Inr kp, fs')))
     \<and> (sv_pre s, sv_post s) = wrappers_in opts"
proof -
  obtain s0 s1 s2 s3 s4 where o: "apply_options K os fs 0 opts (empty_srv net) = Inr s0" "with_repo home s0 = Inr s1"
    "with_app_key s1 = Inr s2" "with_listener tcp_port s2 = Inr s3" "with_key_pair K os seed fs s3 = (Inr s4, fs')"
    "s = s4\<lparr>sv_net := (sv_net s4)\<lparr>RoomID := kp_feed (the (sv_keyPair s4))\<rparr>\<rparr>"
    using New_server_ok [OF assms] .
  have "pred_option (\<lambda>k. length k = 32) (sv_appKey s0)" using apply_options_key [OF o(1)] by (simp add: empty_srv_def)
  then have "pred_option (\<lambda>k. length k = 32) (sv_appKey s1)" using with_repo_keeps [OF o(2)] by simp
  note 2 = with_app_key_keeps [OF o(3) this]
  have w: "sv_pre s0 = fst (wrappers_in opts)" "sv_post s0 = snd (wrappers_in opts)"
    using apply_options_wrappers [OF o(1)] by (simp_all add: empty_srv_def)
  have ok: "option_key K os fs opts net = sv_keyPair s0" by (simp add: option_key_def o(1))
  obtain kp where kp: "s4 = s3\<lparr>sv_keyPair := Some kp\<rparr>" "case sv_keyPair s3 of Some kp0 \<Rightarrow> kp = kp0 \<and> fs' = fs
        | None \<Rightarrow> DefaultKeyPair K os seed (sv_repoPath s3) fs = (Inr kp, fs')"
    using with_key_pair_keeps [OF o(5)] by blast
  show ?thesis using 2 with_repo_keeps [OF o(2)] with_listener_keeps [OF o(4)] w ok kp o(6)
    by (auto split: option.splits)
qed

definition sample_details :: server_details where
  "sample_details = \<lparr>RoomID = FeedRef [], ListenAddressMUXRPC = '':8008'', Domain = ''room.example'', PortHTTPS = 443,
     UseSubdomainForAliases = True, Development = False\<rparr>"

lemma started_server_complete_witness:
  "\<exists>s fs'. New_server sample_keys sample_os ''k'' (Inl (Msg ''no home'')) (\<lambda>_. Some 8008) (\<lambda>_. Inr ()) (\<lambda>_. Inr ()) sample_details
       [WithRepoPath ''/room'', WithPostSecureConnWrapper 1, WithPostSecureConnWrapper 2] [] = (Inr s, fs')
     \<and> RoomID (sv_net s) = FeedRef ''@k'' \<and> sv_post s = [1, 2]"
proof -
  obtain ak where ak: "b64_decode std_alphabet default_app_key = Some ak" using default_app_key_length by blast
  obtain s fs' where s: "New_server sample_keys sample_os ''k'' (Inl (Msg ''no home'')) (\<lambda>_. Some 8008) (\<lambda>_. Inr ()) (\<lambda>_. Inr ()) sample_details
       [WithRepoPath ''/room'', WithPostSecureConnWrapper 1, WithPostSecureConnWrapper 2] [] = (Inr s, fs')" "sv_repoPath s = ''/room''"
    using sample_default ak
    by (simp add: New_server_def empty_srv_def with_repo_def with_app_key_def with_listener_def with_key_pair_def sample_details_def)
  show ?thesis using started_server_complete [OF s(1)] s sample_default
    by (auto simp: option_key_def empty_srv_def wrappers_in_def map_filter_simps)
qed

text \<open>Closing twice is closing once: the second call does nothing and answers what the first one did,
  success or error.\<close>

lemma close_once:
  assumes "Server_Close net cs \<lparr>cl_closed = False, cl_err = None, cl_runs = 0\<rparr> = (r, s)"
  shows "Server_Close net' cs' s = (r, s) \<and> cl_runs s \<le> 1"
  using assms by (auto simp: Server_Close_def Let_def split: option.splits if_splits)

lemma close_once_witness:
  "\<exists>r s. Server_Close (Some (Some EOF)) [] \<lparr>cl_closed = False, cl_err = None, cl_runs = 0\<rparr> = (r, s) \<and> r \<noteq> None
     \<and> Server_Close None [] s = (r, s)"
proof -
  obtain r s where c: "Server_Close (Some (Some EOF)) [] \<lparr>cl_closed = False, cl_err = None, cl_runs = 0\<rparr> = (r, s)" by fastforce
  then have "r \<noteq> None" by (auto simp: Server_Close_def Let_def)
  then show ?thesis using c close_once [OF c, of None "[]"] by blast
qed

end
