(* ===== verification/NetServe.thy ===== *)
theory NetServe
  imports RoomSrv
begin

text \<open>
  The rest of \<open>internal/network/new.go\<close> and \<open>websocket.go\<close>: making a node, dialling, the listener with
  its restarts and closing, and what becomes of a request that wants a websocket. The network, the secret
  handshake and the upgrade are parameters. The listener is a step system: serving begins and ends, and the
  node may be closed in between.
\<close>

subsection \<open>Making a node\<close>

datatype tracker_choice = GivenTracker nat | LastWinsTracker
datatype dialer_choice = GivenDialer nat | NetwrapDial

record node_options =
  no_dialer :: "nat option"
  no_tracker :: "nat option"
  no_key_pair :: keypair
  no_app_key :: bytes
  no_before :: "nat list"
  no_after :: "nat list"

record node_conf =
  nf_tracker :: tracker_choice
  nf_dialer :: dialer_choice
  nf_before :: "nat list"
  nf_after :: "nat list"

definition New_node ::
  "(keypair \<Rightarrow> bytes \<Rightarrow> unit res) \<Rightarrow> (keypair \<Rightarrow> bytes \<Rightarrow> unit res) \<Rightarrow> node_options \<Rightarrow> node_conf res" where
  "New_node NewClient NewServer opts =
     (case NewClient (no_key_pair opts) (no_app_key opts) of
        Inl e \<Rightarrow> Inl (Wrapped ''error creating secretstream.Client'' e)
      | Inr _ \<Rightarrow>
          (case NewServer (no_key_pair opts) (no_app_key opts) of
             Inl e \<Rightarrow> Inl (Wrapped ''error creating secretstream.Server'' e)
           | Inr _ \<Rightarrow> Inr
               \<lparr>nf_tracker = (case no_tracker opts of None \<Rightarrow> LastWinsTracker | Some t \<Rightarrow> GivenTracker t),
                nf_dialer = (case no_dialer opts of None \<Rightarrow> NetwrapDial | Some d \<Rightarrow> GivenDialer d),
                nf_before = no_before opts, nf_after = no_after opts\<rparr>))"

text \<open>\<open>initNetwork\<close> passes on what the options of the server left.\<close>

definition initNetwork ::
  "(keypair \<Rightarrow> bytes \<Rightarrow> unit res) \<Rightarrow> (keypair \<Rightarrow> bytes \<Rightarrow> unit res) \<Rightarrow> srv \<Rightarrow> node_conf res" where
  "initNetwork NewClient NewServer s =
     (case New_node NewClient NewServer
        \<lparr>no_dialer = sv_dialer s, no_tracker = sv_tracker s, no_key_pair = the (sv_keyPair s),
         no_app_key = the (sv_appKey s), no_before = sv_pre s, no_after = sv_post s\<rparr> of
        Inl e \<Rightarrow> Inl (Wrapped ''failed to create network node'' e)
      | Inr n \<Rightarrow> Inr n)"

subsection \<open>The local socket\<close>

text \<open>
  \<open>initUnixSock\<close>: \<open>dials\<close> says whether somebody answers at the path already, \<open>listen\<close> is the error of
  listening there. Its loop takes connections until the listener is closed; \<open>serve\<close> is what becomes of one.
\<close>

definition initUnixSock :: "(string \<Rightarrow> bool) \<Rightarrow> (string \<Rightarrow> err option) \<Rightarrow> srv \<Rightarrow> string res" where
  "initUnixSock dials listen s =
     (case sv_keyPair s of
        None \<Rightarrow> Inl (Msg ''roomsrv/unixsock: keypair is nil. please use unixSocket with LateOption'')
      | Some kp \<Rightarrow>
          let sockPath = GetPath (sv_repoPath s) [''socket''] in
          if dials sockPath then Inl (Msg ''roomsrv: repo already in use, socket accepted connection'')
          else case listen sockPath of Some e \<Rightarrow> Inl e | None \<Rightarrow> Inr sockPath)"

datatype accepted = Accepted netconn | ListenerClosed | AcceptFailed err

fun unix_loop :: "(netconn \<Rightarrow> (mux \<times> netconn) option) \<Rightarrow> accepted list \<Rightarrow> (mux \<times> netconn) list" where
  "unix_loop serve [] = []"
| "unix_loop serve (ListenerClosed # _) = []"
| "unix_loop serve (AcceptFailed e # rounds) = unix_loop serve rounds"
| "unix_loop serve (Accepted c # rounds) =
     (case serve c of None \<Rightarrow> unix_loop serve rounds | Some m \<Rightarrow> m # unix_loop serve rounds)"

subsection \<open>Dialling\<close>

text \<open>
  What the address chain holds under the name of the secret handshake. The dialer gets the TCP address and
  the 32 bytes of the key; it may give a connection beside an error.
\<close>

datatype shs_part = NoShs | OtherShs | ShsKey bytes

definition Connect ::
  "err option \<Rightarrow> (string \<Rightarrow> bytes \<Rightarrow> netconn option \<times> err option) \<Rightarrow> string \<Rightarrow> shs_part \<Rightarrow> netconn option res \<times> netconn list" where
  "Connect ctx_err dial tcp shs =
     (case ctx_err of
        Some e \<Rightarrow> (Inl e, [])
      | None \<Rightarrow>
          (case shs of
             NoShs \<Rightarrow> (Inl (Msg ''node/connect: expected an address containing an shs-bs addr''), [])
           | OtherShs \<Rightarrow> (Inl (Msg ''node/connect: expected shs-bs address to be of type secretstream.Addr''), [])
           | ShsKey pk \<Rightarrow>
               (case dial tcp (take 32 (pk @ replicate 32 (CHR 0x00))) of
                  (conn, Some e) \<Rightarrow> (Inl (Wrapped ''node/connect: error dialing'' e), (case conn of None \<Rightarrow> [] | Some c \<Rightarrow> [c]))
                | (conn, None) \<Rightarrow> (Inr conn, []))))"

subsection \<open>The listener\<close>

text \<open>
  \<open>lz_lis\<close> is the node's listener, \<open>lz_open\<close> the sockets that are open, \<open>lz_once\<close> whether the listener of
  this round was closed already, \<open>lz_listening\<close> whether the channel \<open>listening\<close> is closed, which is how
  the node says that it listens.
\<close>

record listener =
  lz_lis :: "nat option"
  lz_open :: "nat list"
  lz_once :: bool
  lz_listening :: bool

definition new_listener :: listener where
  "new_listener = \<lparr>lz_lis = None, lz_open = [], lz_once = False, lz_listening = False\<rparr>"

definition serve_begin :: "nat res \<Rightarrow> listener \<Rightarrow> unit res \<times> listener" where
  "serve_begin lis s =
     (case lis of
        Inl e \<Rightarrow> (Inl (Wrapped ''error creating listener'' e), s\<lparr>lz_lis := None\<rparr>)
      | Inr l \<Rightarrow>
          let s1 = s\<lparr>lz_lis := Some l, lz_open := l # lz_open s, lz_once := False\<rparr> in
          if lz_listening s then (Inl (Panic ''close of closed channel''), s1)
          else (Inr (), s1\<lparr>lz_listening := True\<rparr>))"

definition lis_close_once :: "(listener \<Rightarrow> listener) \<Rightarrow> listener \<Rightarrow> listener" where
  "lis_close_once also_do s =
     (if lz_once s then s
      else also_do (s\<lparr>lz_once := True, lz_open := (case lz_lis s of None \<Rightarrow> lz_open s | Some l \<Rightarrow> remove1 l (lz_open s))\<rparr>))"

text \<open>The deferred function of \<open>Serve\<close>, in its two parts: the listener goes, then there is a new channel.\<close>

definition serve_end_listener :: "listener \<Rightarrow> listener" where
  "serve_end_listener s = lis_close_once (\<lambda>s. s\<lparr>lz_lis := None\<rparr>) s"

definition serve_end_channel :: "listener \<Rightarrow> listener" where
  "serve_end_channel s = s\<lparr>lz_listening := False\<rparr>"

text \<open>What \<open>Close\<close> does to the listener.\<close>

definition node_close_listener :: "listener \<Rightarrow> listener" where
  "node_close_listener s = (if lz_lis s = None then s else lis_close_once (\<lambda>s. s) s)"

text \<open>\<open>None\<close>: the call waits until the node listens.\<close>

definition GetListenAddr :: "listener \<Rightarrow> nat res option" where
  "GetListenAddr s =
     (if \<not> lz_listening s then None
      else Some (case lz_lis s of None \<Rightarrow> Inl (Panic ''nil pointer dereference'') | Some l \<Rightarrow> Inr l))"

text \<open>
  The goroutine that accepts: before each round it looks whether the listener is still there. \<open>Serve\<close>
  itself waits for the end of its context or the next connection, of which each gets a handler.
\<close>

fun accept_loop :: "(bool \<times> accepted) list \<Rightarrow> netconn list \<times> bool" where
  "accept_loop [] = ([], False)"
| "accept_loop ((gone, a) # rounds) =
     (if gone then ([], True)
      else case a of
          ListenerClosed \<Rightarrow> ([], True)
        | AcceptFailed e \<Rightarrow> accept_loop rounds
        | Accepted c \<Rightarrow> (case accept_loop rounds of (cs, over) \<Rightarrow> (c # cs, over)))"

datatype serve_event = ContextDone err | Incoming "netconn option"

text \<open>The result is \<open>None\<close> while \<open>Serve\<close> waits, and then the error it returns, if any.\<close>

fun serve_loop :: "serve_event list \<Rightarrow> netconn list \<times> err option option" where
  "serve_loop [] = ([], None)"
| "serve_loop (ContextDone e # _) = ([], Some (Some e))"
| "serve_loop (Incoming None # _) = ([], Some None)"
| "serve_loop (Incoming (Some c) # es) = (case serve_loop es of (cs, r) \<Rightarrow> (c # cs, r))"

text \<open>One caller serves, again and again, as the command does; anybody may close the node.\<close>

datatype phase = Idle | Listening | Ending

record serving =
  sg_phase :: phase
  sg_lis :: listener

datatype serve_label = BeginServe "nat res" | EndListener | EndChannel | CloseNode

inductive serve_step :: "serving \<Rightarrow> serve_label \<Rightarrow> serving \<Rightarrow> bool" where
  step_begin: "serve_begin (Inr l) lz = (Inr (), lz') \<Longrightarrow> l \<notin> set (lz_open lz) \<Longrightarrow>
     serve_step \<lparr>sg_phase = Idle, sg_lis = lz\<rparr> (BeginServe (Inr l)) \<lparr>sg_phase = Listening, sg_lis = lz'\<rparr>"
| step_fails: "serve_begin (Inl e) lz = (Inl e', lz') \<Longrightarrow>
     serve_step \<lparr>sg_phase = Idle, sg_lis = lz\<rparr> (BeginServe (Inl e)) \<lparr>sg_phase = Idle, sg_lis = lz'\<rparr>"
| step_end: "serve_step \<lparr>sg_phase = Listening, sg_lis = lz\<rparr> EndListener \<lparr>sg_phase = Ending, sg_lis = serve_end_listener lz\<rparr>"
| step_channel: "serve_step \<lparr>sg_phase = Ending, sg_lis = lz\<rparr> EndChannel \<lparr>sg_phase = Idle, sg_lis = serve_end_channel lz\<rparr>"
| step_close: "serve_step \<lparr>sg_phase = p, sg_lis = lz\<rparr> CloseNode \<lparr>sg_phase = p, sg_lis = node_close_listener lz\<rparr>"

definition serving_init :: "serving \<Rightarrow> bool" where
  "serving_init s \<longleftrightarrow> s = \<lparr>sg_phase = Idle, sg_lis = new_listener\<rparr>"

inductive_cases serve_stepE: "serve_step s l t"

subsection \<open>Websockets\<close>

text \<open>
  A request is passed on when its address does not resolve or when the upgrade fails, in which case the
  upgrader's error function passes it on. Otherwise the peer has to pass the handshake and the same check
  as any other connection. \<open>shake\<close> gives the connection after the handshake.
\<close>

datatype 'h ws_outcome = PassedOn | AuthenticationFailed err | HandlerRefused err | ServedOverWebsocket 'h

definition ws_ServeHTTP ::
  "(string \<Rightarrow> bool) \<Rightarrow> bool \<Rightarrow> netconn res \<Rightarrow> (netconn \<Rightarrow> 'h act) \<Rightarrow> string \<Rightarrow> string \<Rightarrow> 'h ws_outcome act" where
  "ws_ServeHTTP resolves upgraded shake mk forwardedFor remoteAddr =
     (let remoteAddrStr = (if forwardedFor = [] then remoteAddr else forwardedFor) in
      if \<not> resolves remoteAddrStr then ret PassedOn
      else if \<not> upgraded then ret PassedOn
      else case shake of
          Inl e \<Rightarrow> ret (AuthenticationFailed e)
        | Inr wc \<Rightarrow>
            andthen (attempt (mk wc)) (\<lambda>r.
              case r of
                Inl e \<Rightarrow> ret (HandlerRefused (Wrapped ''websocket make handler failed'' e))
              | Inr h \<Rightarrow> ret (ServedOverWebsocket h)))"

definition ws_SetDeadline :: "err option \<Rightarrow> err option \<Rightarrow> err option" where
  "ws_SetDeadline rErr wErr =
     (let err1 = map_option (Wrapped ''websock conn: failed to set read deadline'') rErr in
      case wErr of
        None \<Rightarrow> err1
      | Some w \<Rightarrow>
          let w' = Wrapped ''websock conn: failed to set read deadline'' w in
          (case err1 of None \<Rightarrow> Some w' | Some e \<Rightarrow> Some (Wrapped ''both faild'' e)))"

subsection \<open>At most one listener\<close>

definition one_listener :: "serving \<Rightarrow> bool" where
  "one_listener s \<longleftrightarrow>
     (case sg_phase s of
        Idle \<Rightarrow> lz_open (sg_lis s) = [] \<and> \<not> lz_listening (sg_lis s) \<and> (lz_once (sg_lis s) \<or> lz_lis (sg_lis s) = None)
      | Listening \<Rightarrow> lz_listening (sg_lis s) \<and>
          (\<exists>l. lz_lis (sg_lis s) = Some l \<and> lz_open (sg_lis s) = (if lz_once (sg_lis s) then [] else [l]))
      | Ending \<Rightarrow> lz_open (sg_lis s) = [] \<and> lz_listening (sg_lis s) \<and> lz_once (sg_lis s))"

lemmas listener_defs = serve_begin_def serve_end_listener_def serve_end_channel_def node_close_listener_def lis_close_once_def Let_def

interpretation one_listener: inductive_invariant serving_init serve_step one_listener
proof
  show "one_listener s" if "serving_init s" for s
    using that by (simp add: serving_init_def one_listener_def new_listener_def)
  show "one_listener t" if "one_listener s" "serve_step s l t" for s l t
    using that(2,1)
  proof (cases rule: serve_step.cases)
    case (step_close p lz)
    then show ?thesis using that(1) by (cases p) (auto simp: one_listener_def listener_defs split: if_splits)
  qed (auto simp: one_listener_def listener_defs split: if_splits)
qed

text \<open>However often the node is served, ended and closed, one socket is open at most, and none when nobody
  serves; serving again never fails because of what a former round left behind, and while the node serves
  its address can be asked for.\<close>

lemma listener_never_leaks:
  assumes "reach serving_init serve_step s"
  shows "length (lz_open (sg_lis s)) \<le> 1
     \<and> (sg_phase s = Idle \<longrightarrow> lz_open (sg_lis s) = [] \<and> fst (serve_begin (Inr l) (sg_lis s)) = Inr ())
     \<and> (sg_phase s = Listening \<longrightarrow> (\<exists>l. GetListenAddr (sg_lis s) = Some (Inr l) \<and> set (lz_open (sg_lis s)) \<subseteq> {l}))
     \<and> lz_open (node_close_listener (sg_lis s)) = []"
  using one_listener.reach_inv [OF assms]
  by (cases "sg_phase s") (auto simp: one_listener_def listener_defs GetListenAddr_def)

lemma serve_once: "reach serving_init serve_step \<lparr>sg_phase = Listening, sg_lis = \<lparr>lz_lis = Some 7, lz_open = [7], lz_once = False, lz_listening = True\<rparr>\<rparr>"
proof -
  have "reach serving_init serve_step \<lparr>sg_phase = Idle, sg_lis = new_listener\<rparr>"
    by (rule reach_init) (simp add: serving_init_def)
  moreover have "serve_begin (Inr 7) new_listener
      = (Inr (), \<lparr>lz_lis = Some 7, lz_open = [7], lz_once = False, lz_listening = True\<rparr>)"
    by (simp add: new_listener_def serve_begin_def)
  then have "serve_step \<lparr>sg_phase = Idle, sg_lis = new_listener\<rparr> (BeginServe (Inr 7))
      \<lparr>sg_phase = Listening, sg_lis = \<lparr>lz_lis = Some 7, lz_open = [7], lz_once = False, lz_listening = True\<rparr>\<rparr>"
    by (rule step_begin) (simp add: new_listener_def)
  ultimately show ?thesis by (rule reach_step)
qed

lemma listener_never_leaks_witness:
  "lz_open (node_close_listener \<lparr>lz_lis = Some 7, lz_open = [7], lz_once = False, lz_listening = True\<rparr>) = []"
  using listener_never_leaks [OF serve_once, of 0] by simp

text \<open>Between the two parts of the end there is a moment in which asking for the address fails.\<close>

lemma listen_addr_may_panic:
  "\<exists>s. reach serving_init serve_step s \<and> GetListenAddr (sg_lis s) = Some (Inl (Panic ''nil pointer dereference''))"
  by (intro exI conjI, rule reach_step [OF serve_once step_end]) (simp add: listener_defs GetListenAddr_def)

text \<open>A second caller of \<open>Serve\<close> would bring the program down.\<close>

lemma second_serve_panics:
  "reach serving_init serve_step s \<Longrightarrow> sg_phase s = Listening \<Longrightarrow> fst (serve_begin (Inr l) (sg_lis s)) = Inl (Panic ''close of closed channel'')"
  using one_listener.reach_inv [of s] by (auto simp: one_listener_def serve_begin_def Let_def)

text \<open>Once the listener is closed the goroutine ends, and with it \<open>Serve\<close>, which by then has given every
  connection a handler.\<close>

lemma accept_loop_closed:
  "list_all (\<lambda>(gone, a). \<not> gone \<and> a \<noteq> ListenerClosed) rounds \<Longrightarrow>
   accept_loop (rounds @ (gone, ListenerClosed) # later) = (fst (accept_loop rounds), True)"
  by (induction rounds rule: accept_loop.induct) (auto split: accepted.splits prod.splits)

lemma serve_loop_all: "serve_loop (map (\<lambda>c. Incoming (Some c)) cs @ Incoming None # es) = (cs, Some None)"
  by (induction cs) auto

lemma close_ends_serving:
  assumes "list_all (\<lambda>(gone, a). \<not> gone \<and> a \<noteq> ListenerClosed) rounds"
  shows "case accept_loop (rounds @ [(False, ListenerClosed)]) of (cs, over) \<Rightarrow>
     over \<and> serve_loop (map (\<lambda>c. Incoming (Some c)) cs @ [Incoming None]) = (fst (accept_loop rounds), Some None)"
  by (simp add: accept_loop_closed [OF assms] serve_loop_all)

text \<open>Whoever reaches the local socket is served as the room itself.\<close>

lemma local_is_master:
  "x \<in> set (unix_loop (unix_accept addr_text pk post) rounds) \<Longrightarrow> fst x = Master"
  by (induction "unix_accept addr_text pk post" rounds rule: unix_loop.induct)
     (auto simp: unix_accept_def split: option.splits sum.splits)

subsection \<open>Nobody gets in over a websocket who may not connect\<close>

lemma ws_served:
  assumes "ws_ServeHTTP resolves up shake mk fwd ra c = (Inr (ServedOverWebsocket h), c')"
  shows "\<exists>wc. shake = Inr wc \<and> mk wc c = (Inr h, c')"
proof -
  obtain wc where wc: "shake = Inr wc"
    using assms by (cases shake) (auto simp: ws_ServeHTTP_def Let_def split: if_splits)
  obtain r c1 where "mk wc c = (r, c1)" by (cases "mk wc c")
  then show ?thesis
    using assms by (cases r) (auto simp: wc ws_ServeHTTP_def Let_def andthen_def attempt_def simp del: andthen_ok split: if_splits)
qed

text \<open>The door for websockets is the same: a peer is served over one only after the secret handshake, and
  then only if the room itself is the peer or, in the restricted mode, if the peer is a stored member.
  What the request says of its origin cannot change that.\<close>

lemma websocket_admission:
  assumes "ws_ServeHTTP resolves up shake (mkHandler L self) fwd ra c = (Inr (ServedOverWebsocket h), c')"
  shows "\<exists>wc remote. shake = Inr wc \<and> GetFeedRefFromAddr L (nc_addr wc) = Inr remote \<and> data c' = data c
     \<and> (h = Master \<longleftrightarrow> remote = self)
     \<and> (remote \<noteq> self \<and> cf_mode (the_config (data c)) = ModeRestricted \<longrightarrow> stored_member remote (data c))"
proof -
  obtain wc where wc: "shake = Inr wc" "mkHandler L self wc c = (Inr h, c')" using ws_served [OF assms] by blast
  then show ?thesis using access_of_sound [of _ c h c'] by (auto simp: mkHandler_def split: sum.splits if_splits)
qed

definition bob_conn :: netconn where
  "bob_conn = \<lparr>nc_id = 1, nc_key = Some ''bob'', nc_addr = \<lparr>shs_addr = Some ''@bob''\<rparr>, nc_remote = []\<rparr>"

lemma websocket_admission_witness:
  "\<exists>h c'. ws_ServeHTTP (\<lambda>_. True) True (Inr bob_conn) (mkHandler sample_lib alice) [] ''127.0.0.1:1'' sample_conn = (Inr (ServedOverWebsocket h), c')
     \<and> h = Public"
proof -
  have b: "GetFeedRefFromAddr sample_lib (nc_addr bob_conn) = Inr bob" "alice \<noteq> bob"
    by (simp_all add: bob_conn_def GetFeedRefFromAddr_def alice_def bob_def has_prefix_def)
  have "admits bob sample_db" by (simp add: admits_def mode_defs is_denied_def exists_row_def)
  then have m: "mkHandler sample_lib alice bob_conn sample_conn = (Inr Public, sample_conn)"
    using b access_of_clean [of sample_conn bob] by (auto simp: mkHandler_def admits_def)
  have s: "ws_ServeHTTP (\<lambda>_. True) True (Inr bob_conn) (mkHandler sample_lib alice) [] ''127.0.0.1:1'' sample_conn
      = (Inr (ServedOverWebsocket Public), sample_conn)"
    by (simp add: ws_ServeHTTP_def andthen_def attempt_def ret_def m)
  from websocket_admission [OF s] show ?thesis using s b by auto
qed

text \<open>A dialled connection that comes with an error is closed, and no other.\<close>

lemma Connect_closes:
  "Connect ctx dial tcp shs = (r, cs) \<Longrightarrow>
     cs \<noteq> [] \<longleftrightarrow> ctx = None \<and> (\<exists>pk c e. shs = ShsKey pk \<and> dial tcp (take 32 (pk @ replicate 32 (CHR 0x00))) = (Some c, Some e) \<and> cs = [c] \<and> \<not> is_ok r)"
  by (auto simp: Connect_def split: option.splits shs_part.splits prod.splits)

end
