(* ===== verification/WebUtils.thy ===== *)
theory WebUtils
  imports Keys NetInfo
begin

text \<open>
  \<open>web/router\<close> and \<open>web/utils.go\<close>: the named routes, the links the handlers make, the SSB links for
  apps, and the secrets of the cookies and of the form protection, which are kept in files.
\<close>

subsection \<open>Routes\<close>

record route =
  rt_name :: string
  rt_path :: string
  rt_methods :: "string list"

definition named :: "string \<Rightarrow> string \<Rightarrow> string list \<Rightarrow> route" where
  "named nm path ms = \<lparr>rt_name = nm, rt_path = path, rt_methods = ms\<rparr>"

definition admin_routes :: "route list" where
  "admin_routes =
     [named ''admin:dashboard'' ''/dashboard'' [''GET''],
      named ''admin:settings:overview'' ''/settings'' [''GET''],
      named ''admin:settings:set-privacy'' ''/settings/set-privacy'' [''POST''],
      named ''admin:settings:set-language'' ''/settings/set-language'' [''POST''],
      named ''admin:menu'' ''/menu'' [''GET''],
      named ''admin:aliases:revoke:confirm'' ''/aliases/revoke/confirm'' [''GET''],
      named ''admin:aliases:revoke'' ''/aliases/revoke'' [''POST''],
      named ''admin:denied-keys:overview'' ''/denied'' [''GET''],
      named ''admin:denied-keys:add'' ''/denied/add'' [''POST''],
      named ''admin:denied-keys:remove:confirm'' ''/denied/remove/confirm'' [''GET''],
      named ''admin:denied-keys:remove'' ''/denied/remove'' [''POST''],
      named ''admin:member:details'' ''/member'' [''GET''],
      named ''admin:members:overview'' ''/members'' [''GET''],
      named ''admin:members:add'' ''/members/add'' [''POST''],
      named ''admin:members:change-role'' ''/members/change-role'' [''POST''],
      named ''admin:members:create-password-reset-link'' ''/members/create-fallback-reset-link'' [''POST''],
      named ''admin:members:remove:confirm'' ''/members/remove/confirm'' [''GET''],
      named ''admin:members:remove'' ''/members/remove'' [''POST''],
      named ''admin:notice:edit'' ''/notice/edit'' [''GET''],
      named ''admin:notice:translation:draft'' ''/notice/translation/draft'' [''GET''],
      named ''admin:notice:translation:add'' ''/notice/translation/add'' [''POST''],
      named ''admin:notice:save'' ''/notice/save'' [''POST''],
      named ''admin:invites:overview'' ''/invites'' [''GET''],
      named ''admin:invites:revoke:confirm'' ''/invites/revoke/confirm'' [''GET''],
      named ''admin:invites:revoke'' ''/invites/revoke'' [''POST''],
      named ''admin:invites:create'' ''/invites/create'' [''POST'']]"

definition auth_routes :: "route list" where
  "auth_routes =
     [named ''auth:login'' ''/login'' [''GET''],
      named ''auth:logout'' ''/logout'' [''GET''],
      named ''auth:fallback:login'' ''/fallback/login'' [''GET''],
      named ''auth:fallback:finalize'' ''/fallback/finalize'' [''POST''],
      named ''auth:withssb:login'' ''/withssb/login'' [''GET''],
      named ''auth:withssb:sse'' ''/withssb/events'' [''GET''],
      named ''auth:withssb:finalize'' ''/withssb/finalize'' [''GET'']]"

definition complete_routes :: "route list" where
  "complete_routes =
     auth_routes @ map (\<lambda>r. r\<lparr>rt_path := ''/admin'' @ rt_path r\<rparr>) admin_routes @
     [named ''complete:index'' ''/'' [''GET''],
      named ''complete:alias:resolve'' ''/alias/{alias}'' [''GET''],
      named ''members:change-password:form'' ''/members/change-password'' [''GET''],
      named ''members:change-password'' ''/members/change-password'' [''POST''],
      named ''open:invites:create'' ''/create-invite'' [''GET'', ''POST''],
      named ''complete:invite:accept'' ''/join'' [''GET''],
      named ''complete:invite:accept:fallback'' ''/join-fallback'' [''GET''],
      named ''complete:invite:insert-id'' ''/join-manually'' [''GET''],
      named ''complete:invite:consume'' ''/invite/consume'' [''POST''],
      named ''complete:notice:show'' ''/notice/show'' [''GET''],
      named ''complete:notice:list'' ''/notice/list'' [''GET''],
      named ''complete:set-language'' ''/set-language'' [''POST'']]"

definition find_route :: "route list \<Rightarrow> string \<Rightarrow> route option" where
  "find_route rs nm = List.find (\<lambda>r. rt_name r = nm) rs"

subsection \<open>Links\<close>

text \<open>The values a link may carry; \<open>PVOther\<close> is a value of any other type.\<close>

datatype link_param = PVText string | PVInt int | PVRef feed_ref | PVNotice string | PVOther

fun param_text :: "link_param \<Rightarrow> string option" where
  "param_text (PVText s) = Some s"
| "param_text (PVInt i) = Some (show_int i)"
| "param_text (PVRef r) = Some (ref_string r)"
| "param_text (PVNotice s) = Some s"
| "param_text PVOther = None"

fun param_texts :: "link_param list \<Rightarrow> string list option" where
  "param_texts [] = Some []"
| "param_texts (p # ps) =
     (case param_text p of
        None \<Rightarrow> None
      | Some s \<Rightarrow> map_option (\<lambda>ss. s # ss) (param_texts ps))"

definition to_lower :: "string \<Rightarrow> string" where
  "to_lower s = map (\<lambda>c. if CHR ''A'' \<le> c \<and> c \<le> CHR ''Z'' then nat_byte (byte_nat c + 32) else c) s"

text \<open>\<open>url.Values\<close>: \<open>Set\<close> replaces, \<open>Encode\<close> sorts by key; a space becomes a plus.\<close>

fun set_pairs :: "string list \<Rightarrow> (string \<times> string) list \<Rightarrow> (string \<times> string) list" where
  "set_pairs (k # v # ps) vals = set_pairs ps (AList.update (to_lower k) v vals)"
| "set_pairs _ vals = vals"

definition query_escape :: "string \<Rightarrow> string" where
  "query_escape s = concat (map (\<lambda>c. if c = CHR '' '' then ''+'' else if unreserved c then [c] else percent c) s)"

fun join_amp :: "string list \<Rightarrow> string" where
  "join_amp [] = []"
| "join_amp [p] = p"
| "join_amp (p # q # ps) = p @ ''&'' @ join_amp (q # ps)"

definition encode_values :: "(string \<times> string) list \<Rightarrow> string" where
  "encode_values vals = join_amp (map (\<lambda>(k, v). query_escape k @ ''='' @ query_escape v) (sort_key fst vals))"

record url =
  u_scheme :: string
  u_host :: string
  u_path :: string
  u_opaque :: string
  u_query :: string
  u_fragment :: string

definition empty_url :: url where
  "empty_url = \<lparr>u_scheme = [], u_host = [], u_path = [], u_opaque = [], u_query = [], u_fragment = []\<rparr>"

definition url_text :: "url \<Rightarrow> string" where
  "url_text u =
     (if u_scheme u \<noteq> [] then u_scheme u @ '':'' else [])
     @ (if u_opaque u \<noteq> [] then u_opaque u
        else (if u_scheme u \<noteq> [] \<or> u_host u \<noteq> [] then ''//'' @ escape host_char (u_host u) else []) @ escape path_char (u_path u))
     @ (if u_query u \<noteq> [] then ''?'' @ u_query u else [])
     @ (if u_fragment u \<noteq> [] then ''#'' @ u_fragment u else [])"

text \<open>A path with a variable has no URL without a value for it.\<close>

definition urlTo :: "server_details \<Rightarrow> string \<Rightarrow> link_param list \<Rightarrow> url" where
  "urlTo netInfo routeName ps =
     (case find_route complete_routes routeName of
        None \<Rightarrow> empty_url
      | Some r \<Rightarrow>
          if odd (length ps) then empty_url
          else case param_texts ps of
              None \<Rightarrow> empty_url
            | Some params \<Rightarrow>
                if List.member (rt_path r) (CHR ''{'') then empty_url
                else \<lparr>u_scheme = (if Development netInfo then ''http'' else ''https''),
                      u_host = Domain netInfo @ (if Development netInfo then '':'' @ show_nat (PortHTTPS netInfo) else []),
                      u_path = rt_path r, u_opaque = [], u_query = encode_values (set_pairs params []), u_fragment = []\<rparr>)"

text \<open>\<open>android_chrome\<close> is what the user agent parser says of the browser.\<close>

definition StringifySSBURI :: "(string \<Rightarrow> bool) \<Rightarrow> url \<Rightarrow> string \<Rightarrow> string" where
  "StringifySSBURI android_chrome u userAgent =
     (if android_chrome userAgent
      then url_text \<lparr>u_scheme = ''intent'', u_host = [], u_path = [], u_opaque = ''//'' @ u_opaque u, u_query = u_query u,
             u_fragment = ''Intent;scheme='' @ u_scheme u @ '';end;''\<rparr>
      else url_text u)"

subsection \<open>Secrets\<close>

text \<open>
  \<open>rand n\<close> is the next random key of \<open>n\<close> bytes. Reading and writing a file can fail like the key file's
  operations; a codec is a pair of a hash key and a block key.
\<close>

type_synonym codec = "bytes \<times> bytes"

text \<open>
  The loop over the file: the initial chunk is the first 64 bytes, and each step takes the next chunk
  from the bytes before it cuts them.
\<close>

function cookie_pairs :: "bytes \<Rightarrow> bytes \<Rightarrow> codec list" where
  "cookie_pairs chunk secrets =
     (if length secrets \<ge> 64
      then (take 32 chunk, take 32 (drop 32 chunk)) # cookie_pairs (take 64 secrets) (drop 64 secrets)
      else [])"
  by auto
termination by (relation "measure (\<lambda>(chunk, secrets). length secrets)") auto

declare cookie_pairs.simps [simp del]

definition LoadOrCreateCookieSecrets :: "osys \<Rightarrow> bytes \<Rightarrow> bytes \<Rightarrow> string \<Rightarrow> files \<Rightarrow> codec list res \<times> files" where
  "LoadOrCreateCookieSecrets os hashKey blockKey r fs =
     (let secretPath = GetPath r [''web'', ''cookie-secret''] in
      case os_mkdir os secretPath of
        Some e \<Rightarrow> (Inl (Wrapped ''failed to create folder for cookie secret'' e), fs)
      | None \<Rightarrow>
          (case map_of fs secretPath of
             None \<Rightarrow>
               (case os_create os secretPath of
                  Some e \<Rightarrow> (Inl e, fs)
                | None \<Rightarrow> (Inr [(hashKey, blockKey)],
                    AList.update secretPath \<lparr>f_perm = os_mask os SecretPerms, f_text = hashKey @ blockKey\<rparr> fs))
           | Some f \<Rightarrow>
               (case os_open os secretPath of
                  Some e \<Rightarrow> (Inl (Wrapped ''failed to load cookie secrets'' e), fs)
                | None \<Rightarrow>
                    let secrets = f_text f in
                    if length secrets mod 64 \<noteq> 0
                    then (Inl (Msg (''expected multiple of 64bytes in cookie secret file but got: '' @ show_nat (length secrets))), fs)
                    else (Inr (cookie_pairs (take 64 secrets) secrets), fs))))"

definition csrfKeyLength :: nat where "csrfKeyLength = 32"

definition LoadOrCreateCSRFSecret :: "osys \<Rightarrow> bytes \<Rightarrow> string \<Rightarrow> files \<Rightarrow> bytes res \<times> files" where
  "LoadOrCreateCSRFSecret os freshKey r fs =
     (let secretPath = GetPath r [''web'', ''csrf-secret''] in
      case os_mkdir os secretPath of
        Some e \<Rightarrow> (Inl (Wrapped ''failed to create folder for csrf secret'' e), fs)
      | None \<Rightarrow>
          (case map_of fs secretPath of
             None \<Rightarrow>
               (case os_create os secretPath of
                  Some e \<Rightarrow> (Inl e, fs)
                | None \<Rightarrow> (Inr freshKey, AList.update secretPath \<lparr>f_perm = os_mask os SecretPerms, f_text = freshKey\<rparr> fs))
           | Some f \<Rightarrow>
               (case os_open os secretPath of
                  Some e \<Rightarrow> (Inl (Wrapped ''failed to load csrf secrets'' e), fs)
                | None \<Rightarrow>
                    if length (f_text f) \<noteq> csrfKeyLength
                    then (Inl (Msg (''expected 32 bytes csrf secert but got '' @ show_nat (length (f_text f)))), fs)
                    else (Inr (f_text f), fs))))"

subsection \<open>Properties\<close>

lemma route_names_distinct: "distinct (map rt_name complete_routes)"
  by (simp add: complete_routes_def auth_routes_def admin_routes_def named_def)

definition chunk :: "bytes \<Rightarrow> nat \<Rightarrow> bytes" where
  "chunk secrets i = take 64 (drop (64 * i) secrets)"

definition codec_of :: "bytes \<Rightarrow> codec" where
  "codec_of ch = (take 32 ch, take 32 (drop 32 ch))"

lemma cookie_pairs_chunks:
  "length secrets = 64 * Suc k \<Longrightarrow> cookie_pairs ch secrets = codec_of ch # map (\<lambda>i. codec_of (chunk secrets i)) [0..<k]"
proof (induction k arbitrary: ch secrets)
  case 0
  then show ?case by (subst cookie_pairs.simps) (simp add: cookie_pairs.simps [of _ "[]"] codec_of_def)
next
  case (Suc k)
  have "chunk (drop 64 secrets) i = chunk secrets (Suc i)" for i by (simp add: chunk_def add.commute)
  then have "map (\<lambda>i. codec_of (chunk (drop 64 secrets) i)) [0..<k] = map (\<lambda>i. codec_of (chunk secrets i)) [Suc 0..<Suc k]"
    by (simp add: map_Suc_upt [symmetric] del: upt_Suc)
  moreover have "cookie_pairs (take 64 secrets) (drop 64 secrets)
      = codec_of (chunk secrets 0) # map (\<lambda>i. codec_of (chunk (drop 64 secrets) i)) [0..<k]"
    using Suc.IH [of "drop 64 secrets" "take 64 secrets"] Suc.prems by (simp add: chunk_def)
  moreover have "[0..<Suc k] = 0 # [Suc 0..<Suc k]" by (simp add: upt_conv_Cons del: upt_Suc)
  ultimately show ?case using Suc.prems
    by (subst cookie_pairs.simps) (simp add: codec_of_def del: upt_Suc)
qed

text \<open>Cookies stay valid over restarts: the key pair made at the first start is the one every later start
  loads from the file, whatever fresh keys it would have made.\<close>

lemma cookie_secrets_stable:
  assumes "LoadOrCreateCookieSecrets os hk bk r fs = (Inr cs, fs')" "length hk = 32" "length bk = 32"
    "map_of fs (GetPath r [''web'', ''cookie-secret'']) = None" "os_open os (GetPath r [''web'', ''cookie-secret'']) = None"
  shows "cs = [(hk, bk)] \<and> LoadOrCreateCookieSecrets os hk' bk' r fs' = (Inr cs, fs')"
proof -
  let ?p = "GetPath r [''web'', ''cookie-secret'']"
  have c: "cs = [(hk, bk)]" "fs' = AList.update ?p \<lparr>f_perm = os_mask os SecretPerms, f_text = hk @ bk\<rparr> fs" "os_mkdir os ?p = None"
    using assms(1,4) by (auto simp: LoadOrCreateCookieSecrets_def Let_def split: option.splits)
  have "cookie_pairs (take 64 (hk @ bk)) (hk @ bk) = [(hk, bk)]"
    using cookie_pairs_chunks [of "hk @ bk" 0 "take 64 (hk @ bk)"] assms(2,3) by (simp add: codec_of_def)
  then show ?thesis using c assms(2,3,5) by (simp add: LoadOrCreateCookieSecrets_def update_conv')
qed

lemma cookie_secrets_stable_witness:
  "\<exists>fs. LoadOrCreateCookieSecrets sample_os (replicate 32 (CHR ''h'')) (replicate 32 (CHR ''b'')) ''/room'' [] = (Inr [(replicate 32 (CHR ''h''), replicate 32 (CHR ''b''))], fs)
     \<and> LoadOrCreateCookieSecrets sample_os [] [] ''/room'' fs = (Inr [(replicate 32 (CHR ''h''), replicate 32 (CHR ''b''))], fs)"
proof -
  obtain fs where o: "LoadOrCreateCookieSecrets sample_os (replicate 32 (CHR ''h'')) (replicate 32 (CHR ''b'')) ''/room'' [] = (Inr [(replicate 32 (CHR ''h''), replicate 32 (CHR ''b''))], fs)"
    by (simp add: LoadOrCreateCookieSecrets_def sample_os_def)
  show ?thesis using cookie_secrets_stable [OF o, of "[]" "[]"] o by (auto simp: sample_os_def)
qed

text \<open>Key rotation does not work: with several key pairs in the file, the first is loaded twice and the
  last not at all, because the loop takes the next chunk before it cuts the bytes it has used.\<close>

lemma last_cookie_secret_lost:
  assumes "length secrets = 64 * Suc (Suc k)"
  shows "cookie_pairs (take 64 secrets) secrets
     = codec_of (chunk secrets 0) # codec_of (chunk secrets 0) # map (\<lambda>i. codec_of (chunk secrets (Suc i))) [0..<k]"
proof -
  have "[0..<Suc k] = 0 # map Suc [0..<k]" by (simp add: upt_conv_Cons map_Suc_upt del: upt_Suc)
  then show ?thesis using cookie_pairs_chunks [OF assms, of "take 64 secrets"]
    by (simp add: chunk_def comp_def del: upt_Suc)
qed

lemma last_cookie_secret_lost_witness:
  "cookie_pairs (replicate 64 (CHR ''a'')) (replicate 64 (CHR ''a'') @ replicate 64 (CHR ''b''))
     = [(replicate 32 (CHR ''a''), replicate 32 (CHR ''a'')), (replicate 32 (CHR ''a''), replicate 32 (CHR ''a''))]"
proof -
  have s: "length (replicate 64 (CHR ''a'') @ replicate 64 (CHR ''b'')) = 64 * Suc (Suc 0)" by simp
  have t: "take 64 (replicate 64 (CHR ''a'') @ replicate 64 (CHR ''b'')) = replicate 64 (CHR ''a'')" by simp
  show ?thesis using last_cookie_secret_lost [OF s] unfolding t by (simp add: chunk_def codec_of_def)
qed

end
