(* ===== verification/I18n.thy ===== *)
theory I18n
  imports WebUtils Denied
begin

text \<open>
  \<open>web/i18n/helper.go\<close> and the start of \<open>New\<close> in \<open>web/handlers/http.go\<close>: which translation files are
  loaded, the list of languages, which languages a request asks for, and the template functions that
  translate. The bundle of the translation package is a parameter: how it takes a file, the tags it
  has and what it says to a list of languages.
\<close>

subsection \<open>Messages\<close>

datatype message_data =
    NoData
  | Texts "(string \<times> string) list"
  | Counts "(string \<times> int) list"

record localize_config =
  lc_message :: string
  lc_plural :: "int option"
  lc_data :: message_data

record 'b translator =
  tr_empty :: 'b
  tr_parse :: "string \<Rightarrow> bytes \<Rightarrow> 'b \<Rightarrow> 'b res"
  tr_tags :: "'b \<Rightarrow> string list"
  tr_localize :: "'b \<Rightarrow> string list \<Rightarrow> localize_config \<Rightarrow> string res"

record tag_translation =
  tt_tag :: string
  tt_translation :: string

record 'b helper =
  hp_bundle :: 'b
  hp_languages :: "tag_translation list"
  hp_codecs :: "codec list"

subsection \<open>Loading\<close>

text \<open>
  What a walk meets, in the order it meets it: the error it hands to the function, whether the name is
  a directory, the error of asking for its description, the error of opening it, and what reading gives.
\<close>

record walk_entry =
  we_path :: string
  we_err :: "err option"
  we_dir :: bool
  we_info :: "err option"
  we_open :: "err option"
  we_content :: "bytes res"

definition walkFn :: "'b translator \<Rightarrow> walk_entry \<Rightarrow> 'b \<Rightarrow> 'b res" where
  "walkFn T w b =
     (if we_dir w then Inr b
      else if \<not> has_suffix (we_path w) ''toml'' then Inr b
      else case we_content w of
          Inl e \<Rightarrow> Inl e
        | Inr mfb \<Rightarrow>
            (case tr_parse T (we_path w) mfb b of
               Inl e \<Rightarrow> Inl (Wrapped (''i18n: failed to parse file '' @ we_path w) e)
             | Inr b' \<Rightarrow> Inr b'))"

definition default_entry :: "'b translator \<Rightarrow> walk_entry \<Rightarrow> 'b \<Rightarrow> 'b res" where
  "default_entry T w b =
     (case we_err w of Some e \<Rightarrow> Inl e
      | None \<Rightarrow>
          if we_dir w then Inr b
          else case we_info w of Some e \<Rightarrow> Inl e
             | None \<Rightarrow> (case we_open w of Some e \<Rightarrow> Inl e | None \<Rightarrow> walkFn T w b))"

definition override_entry :: "'b translator \<Rightarrow> walk_entry \<Rightarrow> 'b \<Rightarrow> 'b res" where
  "override_entry T w b =
     (case we_err w of Some e \<Rightarrow> Inl e
      | None \<Rightarrow>
          if we_dir w then Inr b
          else case we_open w of Some e \<Rightarrow> Inl e | None \<Rightarrow> walkFn T w b)"

text \<open>A walk ends at the first error; the files before it are in the bundle.\<close>

fun walk :: "(walk_entry \<Rightarrow> 'b \<Rightarrow> 'b res) \<Rightarrow> walk_entry list \<Rightarrow> 'b \<Rightarrow> err option \<times> 'b" where
  "walk f [] b = (None, b)"
| "walk f (w # ws) b = (case f w b of Inl e \<Rightarrow> (Some e, b) | Inr b' \<Rightarrow> walk f ws b')"

definition listLanguages :: "'b translator \<Rightarrow> 'b \<Rightarrow> tag_translation list" where
  "listLanguages T bundle =
     map (\<lambda>langTag. \<lparr>tt_tag = langTag,
            tt_translation = (case tr_localize T bundle [langTag] \<lparr>lc_message = ''LanguageName'', lc_plural = None, lc_data = NoData\<rparr> of
                                Inl _ \<Rightarrow> langTag | Inr msg \<Rightarrow> msg)\<rparr>)
       (sort (tr_tags T bundle))"

definition New_helper ::
  "'b translator \<Rightarrow> osys \<Rightarrow> bytes \<Rightarrow> bytes \<Rightarrow> string \<Rightarrow> walk_entry list \<Rightarrow> walk_entry list \<Rightarrow> files \<Rightarrow> 'b helper res \<times> files" where
  "New_helper T os hashKey blockKey r defaults overrides fs =
     (case LoadOrCreateCookieSecrets os hashKey blockKey r fs of
        (Inl e, fs') \<Rightarrow> (Inl e, fs')
      | (Inr cookieCodec, fs') \<Rightarrow>
          (case walk (default_entry T) defaults (tr_empty T) of
             (Some e, _) \<Rightarrow> (Inl (Wrapped ''i18n: failed to iterate localizations'' e), fs')
           | (None, b) \<Rightarrow>
               (case walk (override_entry T) overrides b of
                  (e, b') \<Rightarrow>
                    if e \<noteq> None \<and> e \<noteq> Some ErrNotExist
                    then (Inl (Wrapped ''i18n: failed to iterate localizations'' (the e)), fs')
                    else (Inr \<lparr>hp_bundle = b', hp_languages = listLanguages T b', hp_codecs = cookieCodec\<rparr>, fs'))))"

subsection \<open>Languages\<close>

definition ListLanguages :: "'b helper \<Rightarrow> tag_translation list" where
  "ListLanguages h = hp_languages h"

definition ChooseTranslation :: "'b helper \<Rightarrow> string \<Rightarrow> string" where
  "ChooseTranslation h requestedTag =
     (case List.find (\<lambda>e. tt_tag e = requestedTag) (hp_languages h) of
        Some e \<Rightarrow> tt_translation e
      | None \<Rightarrow> requestedTag)"

text \<open>
  The menu of languages: \<open>execute\<close> is the form template, which gets the tag and the name of a language.
\<close>

fun list_languages :: "(string \<Rightarrow> string \<Rightarrow> string res) \<Rightarrow> tag_translation list \<Rightarrow> string res" where
  "list_languages execute [] = Inr []"
| "list_languages execute (e # es) =
     (case execute (tt_tag e) (tt_translation e) of
        Inl x \<Rightarrow> Inl (Wrapped ''Error while executing change language template'' x)
      | Inr s \<Rightarrow> map_res (\<lambda>t. s @ t) (list_languages execute es))"

subsection \<open>The languages of a request\<close>

text \<open>
  The session of the language cookie is an error, or the value it keeps under \<open>lang\<close>, which should be
  a text: any other value makes the type assertion panic. A localizer is the list of languages it tries.
\<close>

datatype lang_value = NoLang | LangText string | OtherValue

type_synonym localizer = "string list"

definition newLocalizer :: "string \<Rightarrow> string list \<Rightarrow> localizer" where
  "newLocalizer lang accept = lang # accept"

definition FromRequest :: "string \<Rightarrow> string \<Rightarrow> lang_value res \<Rightarrow> localizer act" where
  "FromRequest lang accept session =
     (case session of
        Inl _ \<Rightarrow> ret (newLocalizer lang [accept])
      | Inr (LangText prev) \<Rightarrow> ret (newLocalizer prev [lang, accept])
      | Inr OtherValue \<Rightarrow> fail (Panic ''interface conversion'')
      | Inr NoLang \<Rightarrow>
          andthen (attempt Config_GetDefaultLanguage) (\<lambda>r.
            case r of
              Inl _ \<Rightarrow> ret (newLocalizer lang [accept])
            | Inr defaultLang \<Rightarrow> ret (newLocalizer defaultLang [accept])))"

subsection \<open>Translating\<close>

definition localized :: "string \<Rightarrow> string res \<Rightarrow> string res" where
  "localized messageID r =
     (case r of
        Inr msg \<Rightarrow> Inr msg
      | Inl e \<Rightarrow> Inl (Panic (''i18n/error: failed to localize label '' @ messageID)))"

definition LocalizeSimple :: "'b translator \<Rightarrow> 'b \<Rightarrow> localizer \<Rightarrow> string \<Rightarrow> string res" where
  "LocalizeSimple T b l messageID =
     localized messageID (tr_localize T b l \<lparr>lc_message = messageID, lc_plural = None, lc_data = NoData\<rparr>)"

text \<open>The labels and data alternate; a later pair of the same label replaces the earlier one.\<close>

fun data_pairs :: "string list \<Rightarrow> (string \<times> string) list \<Rightarrow> (string \<times> string) list" where
  "data_pairs (key # val # rest) m = data_pairs rest (AList.update key val m)"
| "data_pairs _ m = m"

definition LocalizeWithData :: "'b translator \<Rightarrow> 'b \<Rightarrow> localizer \<Rightarrow> string \<Rightarrow> string list \<Rightarrow> string res" where
  "LocalizeWithData T b l messageID labelsAndData =
     (if odd (length labelsAndData)
      then Inl (Panic (''expected an even amount of labels and data. got '' @ show_nat (length labelsAndData)))
      else localized messageID
             (tr_localize T b l \<lparr>lc_message = messageID, lc_plural = None, lc_data = Texts (data_pairs labelsAndData [])\<rparr>))"

definition LocalizePlurals :: "'b translator \<Rightarrow> 'b \<Rightarrow> localizer \<Rightarrow> string \<Rightarrow> int \<Rightarrow> string res" where
  "LocalizePlurals T b l messageID pluralCount =
     localized messageID
       (tr_localize T b l \<lparr>lc_message = messageID, lc_plural = Some pluralCount, lc_data = Counts [(''Count'', pluralCount)]\<rparr>)"

definition LocalizePluralsWithData ::
  "'b translator \<Rightarrow> 'b \<Rightarrow> localizer \<Rightarrow> string \<Rightarrow> int \<Rightarrow> (string \<times> string) list \<Rightarrow> string res" where
  "LocalizePluralsWithData T b l messageID pluralCount tplData =
     localized messageID
       (tr_localize T b l \<lparr>lc_message = messageID, lc_plural = Some pluralCount, lc_data = Texts tplData\<rparr>)"

text \<open>A call of one of the three template functions, which asks for the languages first.\<close>

datatype template_call = I18n_call string | I18npl_call string int | I18nWithData_call string "string list"

fun run_call :: "'b translator \<Rightarrow> 'b \<Rightarrow> localizer \<Rightarrow> template_call \<Rightarrow> string res" where
  "run_call T b l (I18n_call m) = LocalizeSimple T b l m"
| "run_call T b l (I18npl_call m n) = LocalizePlurals T b l m n"
| "run_call T b l (I18nWithData_call m ds) = LocalizeWithData T b l m ds"

definition render_func ::
  "'b translator \<Rightarrow> 'b helper \<Rightarrow> string \<Rightarrow> string \<Rightarrow> lang_value res \<Rightarrow> template_call \<Rightarrow> string act" where
  "render_func T h lang accept session call =
     andthen (FromRequest lang accept session) (\<lambda>loc. lift_res (run_call T (hp_bundle h) loc call))"

subsection \<open>Properties\<close>

lemma walk_append:
  "walk f (ws @ vs) b = (case walk f ws b of (Some e, b') \<Rightarrow> (Some e, b') | (None, b') \<Rightarrow> walk f vs b')"
  by (induction ws arbitrary: b) (auto split: sum.splits)

lemma languages_sorted: "sorted (map tt_tag (listLanguages T b))"
  by (simp add: listLanguages_def comp_def)

lemma languages_complete: "set (map tt_tag (listLanguages T b)) = set (tr_tags T b)"
  by (auto simp: listLanguages_def image_iff)

lemma listed_translation:
  assumes "e \<in> set (listLanguages T b)"
  shows "tt_translation e = (case tr_localize T b [tt_tag e] \<lparr>lc_message = ''LanguageName'', lc_plural = None, lc_data = NoData\<rparr> of
     Inl _ \<Rightarrow> tt_tag e | Inr msg \<Rightarrow> msg)"
  using assms by (auto simp: listLanguages_def split: sum.splits)

lemma New_helper_languages:
  "New_helper T os hk bk r ds vs fs = (Inr h, fs') \<Longrightarrow> hp_languages h = listLanguages T (hp_bundle h)"
  by (auto simp: New_helper_def split: prod.splits sum.splits option.splits if_splits)

text \<open>Every language the room lists is offered under its own name: the name chosen for a listed tag is
  the translation listed beside it, whatever else is listed, and any other tag is shown as it is.\<close>

lemma choose_listed:
  assumes "hp_languages h = listLanguages T b"
  shows "(\<forall>e \<in> set (ListLanguages h). ChooseTranslation h (tt_tag e) = tt_translation e)
     \<and> (\<forall>t. t \<notin> set (tr_tags T b) \<longrightarrow> ChooseTranslation h t = t)"
proof (intro conjI ballI allI impI)
  fix e assume e: "e \<in> set (ListLanguages h)"
  then obtain x where x: "List.find (\<lambda>x. tt_tag x = tt_tag e) (hp_languages h) = Some x"
    unfolding ListLanguages_def using find_NoneD by fastforce
  from find_SomeD [OF x] show "ChooseTranslation h (tt_tag e) = tt_translation e"
    using x e assms listed_translation [of x T b] listed_translation [of e T b]
    by (auto simp: ChooseTranslation_def ListLanguages_def split: sum.splits)
next
  fix t assume "t \<notin> set (tr_tags T b)"
  then have "List.find (\<lambda>e. tt_tag e = t) (hp_languages h) = None"
    using languages_complete [of T b] assms by (intro find_NoneI) auto
  then show "ChooseTranslation h t = t" by (simp add: ChooseTranslation_def)
qed

text \<open>A name in the folder of overrides that cannot be opened because what it points to is gone ends the
  walk without an error: the room starts, and every override after it is silently left out.\<close>

lemma dangling_override_ends_walk:
  assumes "we_err w = None" "\<not> we_dir w" "we_open w = Some ErrNotExist" "fst (walk (override_entry T) vs b) = None"
  shows "walk (override_entry T) (vs @ w # later) b = (Some ErrNotExist, snd (walk (override_entry T) vs b))"
  using assms by (cases "walk (override_entry T) vs b") (simp add: walk_append override_entry_def)

text \<open>A missing file among the overrides hides the ones after it: the helper is made without an error,
  and it is the same as if the folder had ended before.\<close>

lemma dangling_override_hides_rest:
  assumes "we_err w = None" "\<not> we_dir w" "we_open w = Some ErrNotExist"
    "New_helper T os hk bk r ds vs fs = (Inr h, fs')" "fst (walk (override_entry T) vs (snd (walk (default_entry T) ds (tr_empty T)))) = None"
  shows "New_helper T os hk bk r ds (vs @ w # later) fs = (Inr h, fs')"
  using assms(4,5) dangling_override_ends_walk [OF assms(1-3), of T vs _ later]
  by (auto simp: New_helper_def split: prod.splits sum.splits option.splits if_splits)

definition sample_translations :: "(string \<times> string) list translator" where
  "sample_translations =
     \<lparr>tr_empty = [], tr_parse = (\<lambda>p bs b. Inr (AList.update p bs b)), tr_tags = map fst,
      tr_localize = (\<lambda>b ls c. case ls of [] \<Rightarrow> Inl (Msg ''no language'') | l # _ \<Rightarrow>
         (case map_of b l of None \<Rightarrow> Inl (Msg ''not found'') | Some bs \<Rightarrow> Inr bs))\<rparr>"

definition text_entry :: "string \<Rightarrow> bytes \<Rightarrow> walk_entry" where
  "text_entry p bs = \<lparr>we_path = p, we_err = None, we_dir = False, we_info = None, we_open = None, we_content = Inr bs\<rparr>"

lemma dangling_override_hides_rest_witness:
  "fst (New_helper sample_translations sample_os [] [] ''/room'' [text_entry ''en.toml'' ''English'']
     [text_entry ''de.toml'' ''Deutsch'', (text_entry ''fr.toml'' [])\<lparr>we_open := Some ErrNotExist\<rparr>, text_entry ''sv.toml'' ''Svenska''] [])
   = Inr \<lparr>hp_bundle = [(''en.toml'', ''English''), (''de.toml'', ''Deutsch'')],
          hp_languages = [\<lparr>tt_tag = ''de.toml'', tt_translation = ''Deutsch''\<rparr>, \<lparr>tt_tag = ''en.toml'', tt_translation = ''English''\<rparr>],
          hp_codecs = [([], [])]\<rparr>"
proof -
  have w: "walk (override_entry sample_translations) [text_entry ''de.toml'' ''Deutsch''] [(''en.toml'', ''English'')]
      = (None, [(''en.toml'', ''English''), (''de.toml'', ''Deutsch'')])"
    "walk (default_entry sample_translations) [text_entry ''en.toml'' ''English''] [] = (None, [(''en.toml'', ''English'')])"
    by (simp_all add: override_entry_def default_entry_def walkFn_def text_entry_def sample_translations_def has_suffix_def)
  have e: "tr_empty sample_translations = []" by (simp add: sample_translations_def)
  obtain fs where n: "New_helper sample_translations sample_os [] [] ''/room'' [text_entry ''en.toml'' ''English'']
      [text_entry ''de.toml'' ''Deutsch''] []
    = (Inr \<lparr>hp_bundle = [(''en.toml'', ''English''), (''de.toml'', ''Deutsch'')],
          hp_languages = [\<lparr>tt_tag = ''de.toml'', tt_translation = ''Deutsch''\<rparr>, \<lparr>tt_tag = ''en.toml'', tt_translation = ''English''\<rparr>],
          hp_codecs = [([], [])]\<rparr>, fs)"
    by (simp add: New_helper_def w e LoadOrCreateCookieSecrets_def sample_os_def del: walk.simps)
       (simp add: listLanguages_def sample_translations_def)
  let ?w = "(text_entry ''fr.toml'' [])\<lparr>we_open := Some ErrNotExist\<rparr>"
  have "we_err ?w = None" "\<not> we_dir ?w" "we_open ?w = Some ErrNotExist"
    "fst (walk (override_entry sample_translations) [text_entry ''de.toml'' ''Deutsch'']
       (snd (walk (default_entry sample_translations) [text_entry ''en.toml'' ''English''] (tr_empty sample_translations)))) = None"
    by (simp_all add: w e del: walk.simps) (simp_all add: text_entry_def)
  from dangling_override_hides_rest [OF this(1-3) n this(4), of "[text_entry ''sv.toml'' ''Svenska'']"]
  show ?thesis by simp
qed

text \<open>The text a label gets is the one given last for it.\<close>

lemma data_pairs_last:
  assumes "even (length ds)"
  shows "map_of (data_pairs ds m) k = (case map_of (rev (map (\<lambda>i. (ds ! (2 * i), ds ! (2 * i + 1))) [0..<length ds div 2])) k of
     Some v \<Rightarrow> Some v | None \<Rightarrow> map_of m k)"
  using assms
proof (induction ds m rule: data_pairs.induct)
  case (1 key val rest m)
  let ?p = "\<lambda>ds i. (ds ! (2 * i), ds ! (2 * i + 1))"
  have "[0..<Suc (length rest div 2)] = 0 # map Suc [0..<length rest div 2]"
    by (simp add: upt_conv_Cons map_Suc_upt del: upt_Suc)
  then have "map (?p (key # val # rest)) [0..<Suc (length rest div 2)] = (key, val) # map (?p rest) [0..<length rest div 2]"
    by (simp add: comp_def del: upt_Suc)
  with 1 show ?case
    by (simp add: update_conv' map_add_def del: upt_Suc split: option.splits)
qed auto

text \<open>Which languages a page is written in: the cookie's first, then the one the request asks for. Without
  a cookie the room's own language comes first, and what the request asks for with \<open>lang\<close> is dropped, although
  it counts when the cookie cannot be read.\<close>

lemma language_order:
  assumes "db_wf (data c)" "faults c = []"
  shows "FromRequest lang accept (Inr (LangText prev)) c = (Inr [prev, lang, accept], c)
     \<and> FromRequest lang accept (Inr NoLang) c = (Inr [cf_language (the_config (data c)), accept], c)
     \<and> FromRequest lang accept (Inl e) c = (Inr [lang, accept], c)"
  using Config_get_clean(2) [OF assms] by (simp add: FromRequest_def newLocalizer_def andthen_def attempt_def ret_def)

lemma language_order_witness:
  "FromRequest ''de'' ''fr'' (Inr NoLang) sample_conn = (Inr [''en'', ''fr''], sample_conn)"
proof -
  have "cf_language (the_config sample_db) = ''en''"
    by (simp add: the_config_def configRowID_def sample_db_def initial_db_def)
  then show ?thesis using language_order [of sample_conn "''de''" "''fr''" "[]" EOF] by simp
qed

end
