(* ===== verification/Commands.thy ===== *)
theory Commands
  imports NetServe I18n Sessions AuthFallback
begin

text \<open>
  The two commands: \<open>cmd/insert-user/main.go\<close> and \<open>cmd/server/main.go\<close>, with what they start: opening
  the database (\<open>roomdb/sqlite/new.go\<close>) and the set-up of the web handlers (\<open>New\<close> in
  \<open>web/handlers/http.go\<close>). Flags arrive in the order of the command line. The system's answers, the
  migration package, the renderer and the resolver are parameters.
\<close>

subsection \<open>Opening the database\<close>

text \<open>
  \<open>stored\<close> is the database in the file, if there is one; \<open>migrations\<close> brings it up to date and says how
  many steps that took. The clean-up runs outside a transaction. Making the folder may say that it exists.
\<close>

record db_env =
  de_mkdir :: "err option"
  de_mkdir_exists :: bool
  de_open :: "err option"
  de_ping :: "err option"
  de_migrate :: "db option \<Rightarrow> (nat \<times> db) res"
  de_faults :: "bool list"

definition Open :: "db_env \<Rightarrow> time \<Rightarrow> db option \<Rightarrow> db conn res" where
  "Open E now stored =
     (if de_mkdir E \<noteq> None \<and> \<not> de_mkdir_exists E
      then Inl (Wrapped ''roomdb: failed to create folder for database'' (the (de_mkdir E)))
      else case de_open E of
          Some e \<Rightarrow> Inl (Wrapped ''roomdb: failed to open sqlite database'' e)
        | None \<Rightarrow>
            (case de_ping E of
               Some e \<Rightarrow> Inl (Wrapped ''roomdb: sqlite ping failed'' e)
             | None \<Rightarrow>
                 (case de_migrate E stored of
                    Inl e \<Rightarrow> Inl (Wrapped ''roomdb: failed to apply database mirations'' e)
                  | Inr (n, d) \<Rightarrow>
                      (case cleanup now \<lparr>data = d, faults = de_faults E\<rparr> of
                         (Inl e, _) \<Rightarrow> Inl e
                       | (Inr _, c) \<Rightarrow> Inr c))))"

text \<open>Every five days the clean-up runs again, in a transaction; its failure is only logged.\<close>

definition scrub :: "time \<Rightarrow> db conn \<Rightarrow> db conn" where
  "scrub now c = snd (transact (cleanup now) c)"

definition fiveDays :: time where "fiveDays = 5 * 24 * hour"

fun scrubs :: "nat \<Rightarrow> time \<Rightarrow> db conn \<Rightarrow> db conn" where
  "scrubs 0 now c = c"
| "scrubs (Suc n) now c = scrubs n (now + fiveDays) (scrub (now + fiveDays) c)"

subsection \<open>The set-up of the web handlers\<close>

record 'b web_handlers =
  wh_helper :: "'b helper"
  wh_codecs :: "codec list"
  wh_csrf :: bytes

text \<open>\<open>renderer\<close> and \<open>passwords\<close> are the errors of the template package and of the password package.\<close>

definition New_handlers ::
  "'b translator \<Rightarrow> osys \<Rightarrow> bytes \<Rightarrow> bytes \<Rightarrow> bytes \<Rightarrow> string \<Rightarrow> walk_entry list \<Rightarrow> walk_entry list \<Rightarrow> err option \<Rightarrow> err option \<Rightarrow> files \<Rightarrow>
     'b web_handlers res \<times> files" where
  "New_handlers T os hashKey blockKey freshKey r defaults overrides renderer passwd fs =
     (case New_helper T os hashKey blockKey r defaults overrides fs of
        (Inl e, fs1) \<Rightarrow> (Inl e, fs1)
      | (Inr locHelper, fs1) \<Rightarrow>
     (case LoadOrCreateCookieSecrets os hashKey blockKey r fs1 of
        (Inl e, fs2) \<Rightarrow> (Inl e, fs2)
      | (Inr cookieCodec, fs2) \<Rightarrow>
     (case renderer of
        Some e \<Rightarrow> (Inl (Wrapped ''web Handler: failed to create renderer'' e), fs2)
      | None \<Rightarrow>
     (case passwd of
        Some e \<Rightarrow> (Inl (Wrapped ''web Handler: failed to init fallback auth system'' e), fs2)
      | None \<Rightarrow>
     (case LoadOrCreateCSRFSecret os freshKey r fs2 of
        (Inl e, fs3) \<Rightarrow> (Inl e, fs3)
      | (Inr csrfKey, fs3) \<Rightarrow>
          (Inr \<lparr>wh_helper = locHelper, wh_codecs = cookieCodec, wh_csrf = csrfKey\<rparr>, fs3))))))"

subsection \<open>insert-user\<close>

text \<open>
  \<open>strings.ToLower\<close> as far as it can give one of the names below: ASCII letters, and the two other
  characters whose lower case is ASCII, the dotted capital I and the Kelvin sign, in their UTF-8 bytes.
\<close>

definition lower_char :: "char \<Rightarrow> char" where
  "lower_char c = (if CHR ''A'' \<le> c \<and> c \<le> CHR ''Z'' then char_of ((of_char c :: nat) + 32) else c)"

fun lower_name :: "string \<Rightarrow> string" where
  "lower_name (a # b # c # s) =
     (if a = CHR 0xE2 \<and> b = CHR 0x84 \<and> c = CHR 0xAA then CHR ''k'' # lower_name s
      else if a = CHR 0xC4 \<and> b = CHR 0xB0 then CHR ''i'' # lower_name (c # s)
      else lower_char a # lower_name (b # c # s))"
| "lower_name [a, b] = (if a = CHR 0xC4 \<and> b = CHR 0xB0 then ''i'' else [lower_char a, lower_char b])"
| "lower_name [a] = [lower_char a]"
| "lower_name [] = []"

definition role_flag :: "string \<Rightarrow> role res" where
  "role_flag val =
     (let v = lower_name val in
      if v = ''admin'' then Inr RoleAdmin
      else if v = ''mod'' \<or> v = ''moderator'' then Inr RoleModerator
      else if v = ''member'' then Inr RoleMember
      else Inl (Msg (''unknown member role: '' @ val)))"

text \<open>Each occurrence of the flag sets the role anew; the first bad one ends the program.\<close>

fun role_flags :: "string list \<Rightarrow> role \<Rightarrow> role res" where
  "role_flags [] role = Inr role"
| "role_flags (v # vs) role = (case role_flag v of Inl e \<Rightarrow> Inl e | Inr r \<Rightarrow> role_flags vs r)"

record insert_env =
  ie_lib :: lib
  ie_user :: "err option"
  ie_stat_missing :: bool
  ie_open :: "db conn res"
  ie_first :: "bytes res"
  ie_second :: "bytes res"
  ie_salt :: bytes

text \<open>
  \<open>Exit n\<close>: the program ended with code \<open>n\<close> and a message. Exiting does not undo what was committed.
\<close>

datatype ending = Exit nat string | Created role int64

definition insert_user :: "insert_env \<Rightarrow> string list \<Rightarrow> string list \<Rightarrow> ending \<times> db conn option" where
  "insert_user E roles args =
     (if ie_user E \<noteq> None then (Exit 1 ''error'', None)
      else case role_flags roles RoleAdmin of
          Inl _ \<Rightarrow> (Exit 2 ''usage'', None)
        | Inr role \<Rightarrow>
     (if ie_stat_missing E then (Exit 1 ''does not exist (-repo)?'', None)
      else case args of
          [arg] \<Rightarrow>
     (case parse_ref (ie_lib E) arg of
        None \<Rightarrow> (Exit 1 ''Invalid ssb public-key reference:'', None)
      | Some pubKey \<Rightarrow>
     (case ie_open E of
        Inl e \<Rightarrow> (Exit 1 ''error'', None)
      | Inr c \<Rightarrow>
     (case ie_first E of
        Inl e \<Rightarrow> (Exit 1 ''error'', Some c)
      | Inr bytePassword \<Rightarrow>
     (case ie_second E of
        Inl e \<Rightarrow> (Exit 1 ''error'', Some c)
      | Inr bytePasswordRepeat \<Rightarrow>
          if bytePassword \<noteq> bytePasswordRepeat then (Exit 1 ''Passwords didn't match'', Some c)
          else case Members_Add (ie_lib E) pubKey role c of
              (Inl e, c1) \<Rightarrow> (Exit 1 ''error'', Some c1)
            | (Inr mid, c1) \<Rightarrow>
                (case Fallback_SetPassword (ie_lib E) (ie_salt E) mid bytePassword c1 of
                   (Inl e, c2) \<Rightarrow> (Exit 1 ''error'', Some c2)
                 | (Inr _, c2) \<Rightarrow> (Created role mid, Some c2))))))
        | _ \<Rightarrow> (Exit 1 ''please provide a public key'', None)))"

subsection \<open>The server: flags and addresses\<close>

definition mode_flag :: "string \<Rightarrow> privacy_mode res" where
  "mode_flag val =
     (let pm = parse_privacy_mode val in
      case mode_valid pm of
        Inl e \<Rightarrow> Inl (Fmt ''%s, valid values are open, community, restricted'' [e])
      | Inr _ \<Rightarrow> Inr pm)"

fun mode_flags :: "string list \<Rightarrow> privacy_mode \<Rightarrow> privacy_mode res" where
  "mode_flags [] pm = Inr pm"
| "mode_flags (v # vs) pm = (case mode_flag v of Inl e \<Rightarrow> Inl e | Inr m \<Rightarrow> mode_flags vs m)"

text \<open>
  \<open>net.SplitHostPort\<close>: the port is what follows the last colon; a host in brackets may contain colons.
  \<open>index_of\<close> and \<open>last_index_of\<close> are the positions of a byte.
\<close>

fun index_of :: "char \<Rightarrow> string \<Rightarrow> nat option" where
  "index_of x [] = None"
| "index_of x (c # cs) = (if c = x then Some 0 else map_option Suc (index_of x cs))"

definition last_index_of :: "char \<Rightarrow> string \<Rightarrow> nat option" where
  "last_index_of x s = map_option (\<lambda>i. length s - 1 - i) (index_of x (rev s))"

definition addr_error :: "string \<Rightarrow> string \<Rightarrow> err" where
  "addr_error hostport why = Msg (''address '' @ hostport @ '': '' @ why)"

definition bracket_free :: "string \<Rightarrow> nat \<Rightarrow> nat \<Rightarrow> (string \<times> string) \<Rightarrow> (string \<times> string) res" where
  "bracket_free hostport j k r =
     (if index_of (CHR ''['') (drop j hostport) \<noteq> None then Inl (addr_error hostport ''unexpected '[' in address'')
      else if index_of (CHR '']'') (drop k hostport) \<noteq> None then Inl (addr_error hostport ''unexpected ']' in address'')
      else Inr r)"

definition SplitHostPort :: "string \<Rightarrow> (string \<times> string) res" where
  "SplitHostPort hostport =
     (case last_index_of (CHR '':'') hostport of
        None \<Rightarrow> Inl (addr_error hostport ''missing port in address'')
      | Some i \<Rightarrow>
          let port = drop (i + 1) hostport in
          if hostport \<noteq> [] \<and> hd hostport = CHR ''['' then
            (case index_of (CHR '']'') hostport of
               None \<Rightarrow> Inl (addr_error hostport ''missing ']' in address'')
             | Some e \<Rightarrow>
                 if e + 1 = length hostport then Inl (addr_error hostport ''missing port in address'')
                 else if e + 1 \<noteq> i then
                   Inl (addr_error hostport (if hostport ! (e + 1) = CHR '':'' then ''too many colons in address'' else ''missing port in address''))
                 else bracket_free hostport 1 (e + 1) (take (e - 1) (drop 1 hostport), port))
          else if index_of (CHR '':'') (take i hostport) \<noteq> None
          then Inl (addr_error hostport ''too many colons in address'')
          else bracket_free hostport 0 0 (take i hostport, port))"

text \<open>\<open>lookup_port\<close> is \<open>net.LookupPort\<close>, which knows the names of services.\<close>

definition check_listener :: "(string \<Rightarrow> nat res) \<Rightarrow> string \<Rightarrow> string \<Rightarrow> nat res" where
  "check_listener lookup_port what addr =
     (case SplitHostPort addr of
        Inl e \<Rightarrow> Inl (Wrapped (''invalid '' @ what @ '' listener'') e)
      | Inr (_, p) \<Rightarrow>
          (case lookup_port p of
             Inl e \<Rightarrow> Inl (Wrapped ''invalid tcp port for muxrpc listener'' e)
           | Inr n \<Rightarrow> Inr n))"

fun split_on :: "char \<Rightarrow> string \<Rightarrow> string list" where
  "split_on x [] = [[]]"
| "split_on x (c # cs) =
     (if c = x then [] # split_on x cs
      else case split_on x cs of [] \<Rightarrow> [[c]] | p # ps \<Rightarrow> (c # p) # ps)"

text \<open>The wrapper of the debug log: the folder a connection is copied to, if its address has two parts.\<close>

definition dump_dir :: "string \<Rightarrow> string \<Rightarrow> string \<Rightarrow> string option" where
  "dump_dir repoDir logToFile remote =
     (case split_on (CHR ''|'') remote of
        [a, key] \<Rightarrow> Some (path_join [repoDir, logToFile, key, a])
      | _ \<Rightarrow> None)"

subsection \<open>The server: start\<close>

record server_flags =
  sf_version :: bool
  sf_domain :: string
  sf_lismux :: string
  sf_lishttp :: string
  sf_shscap :: string
  sf_repo :: string
  sf_nounixsock :: bool
  sf_logs :: string
  sf_modes :: "string list"
  sf_subdomains :: bool

record 'b run_env =
  re_development :: bool
  re_keys :: keylib
  re_os :: osys
  re_seed :: bytes
  re_home :: "string res"
  re_port :: "string \<Rightarrow> nat res"
  re_tcp :: "string \<Rightarrow> nat option"
  re_db :: "db conn res"
  re_network :: "srv \<Rightarrow> unit res"
  re_unix :: "srv \<Rightarrow> unit res"
  re_listen :: "err option"
  re_web :: "string \<Rightarrow> files \<Rightarrow> 'b web_handlers res \<times> files"
  re_store :: "err option"
  re_limiter :: "err option"

record 'b started =
  st_srv :: srv
  st_net :: server_details
  st_web :: "'b web_handlers"

datatype 'b run_result = UsageExit | VersionPrinted | RunError err | Running "'b started"

definition server_options :: "server_flags \<Rightarrow> bytes \<Rightarrow> keypair \<Rightarrow> srv_option list" where
  "server_options F ak keyPair =
     [WithLogger (Some 0), WithAppKey ak, WithRepoPath (sf_repo F), WithUNIXSocket (\<not> sf_nounixsock F)]
     @ (if sf_logs F \<noteq> [] then [WithPostSecureConnWrapper 0] else [])
     @ [WithKeyPair (Some keyPair)]"

text \<open>Everything after the key pair is there. An error of setting the mode is ignored.\<close>

definition start_services ::
  "'b run_env \<Rightarrow> server_flags \<Rightarrow> privacy_mode \<Rightarrow> string \<Rightarrow> nat \<Rightarrow> bytes \<Rightarrow> keypair \<Rightarrow> files \<Rightarrow>
     'b run_result \<times> files \<times> db conn option" where
  "start_services E F privacyMode domain portHTTP ak keyPair fs =
     (let networkInfo = \<lparr>RoomID = kp_feed keyPair, ListenAddressMUXRPC = sf_lismux F, Domain = domain, PortHTTPS = portHTTP,
                         UseSubdomainForAliases = sf_subdomains F, Development = re_development E\<rparr> in
      case re_db E of
        Inl e \<Rightarrow> (RunError (Wrapped ''failed to initiate database'' e), fs, None)
      | Inr c \<Rightarrow>
          let c1 = (if privacyMode \<noteq> ModeUnknown then snd (Config_SetPrivacyMode privacyMode c) else c) in
     (case New_server (re_keys E) (re_os E) (re_seed E) (re_home E) (re_tcp E) (re_network E) (re_unix E) networkInfo
             (server_options F ak keyPair) fs of
        (Inl e, fs1) \<Rightarrow> (RunError (Wrapped ''failed to instantiate ssb server'' e), fs1, Some c1)
      | (Inr roomsrv, fs1) \<Rightarrow>
     (case re_listen E of
        Some e \<Rightarrow> (RunError (Wrapped ''failed to open listener for HTTPdashboard'' e), fs1, Some c1)
      | None \<Rightarrow>
     (case re_web E (sf_repo F) fs1 of
        (Inl e, fs2) \<Rightarrow> (RunError (Wrapped ''failed to create HTTPdashboard handler'' e), fs2, Some c1)
      | (Inr webHandler, fs2) \<Rightarrow>
     (case re_store E of
        Some e \<Rightarrow> (RunError (Wrapped ''failed to init HTTP rate limiter store'' e), fs2, Some c1)
      | None \<Rightarrow>
     (case re_limiter E of
        Some e \<Rightarrow> (RunError (Wrapped ''failed to init HTTP rate limiter'' e), fs2, Some c1)
      | None \<Rightarrow> (Running \<lparr>st_srv = roomsrv, st_net = networkInfo, st_web = webHandler\<rparr>, fs2, Some c1)))))))"

text \<open>An error of the key pair is only logged; the next use of the missing pair ends the program.\<close>

definition runroomsrv :: "'b run_env \<Rightarrow> server_flags \<Rightarrow> files \<Rightarrow> 'b run_result \<times> files \<times> db conn option" where
  "runroomsrv E F fs =
     (case mode_flags (sf_modes F) ModeUnknown of
        Inl _ \<Rightarrow> (UsageExit, fs, None)
      | Inr privacyMode \<Rightarrow>
      if sf_version F then (VersionPrinted, fs, None)
      else if sf_domain F = [] \<and> \<not> re_development E then (RunError (Msg ''https-domain can't be empty.''), fs, None)
      else
        let domain = (if sf_domain F = [] then ''localhost'' else sf_domain F) in
     (case check_listener (re_port E) ''muxrpc'' (sf_lismux F) of
        Inl e \<Rightarrow> (RunError e, fs, None)
      | Inr _ \<Rightarrow>
     (case check_listener (re_port E) ''http'' (sf_lishttp F) of
        Inl e \<Rightarrow> (RunError e, fs, None)
      | Inr portHTTP \<Rightarrow>
     (case b64_decode std_alphabet (sf_shscap F) of
        None \<Rightarrow> (RunError (Wrapped ''secret-handshake appkey is invalid base64'' illegal_base64), fs, None)
      | Some ak \<Rightarrow>
     (case DefaultKeyPair (re_keys E) (re_os E) (re_seed E) (sf_repo F) fs of
        (Inl e, fs1) \<Rightarrow> (RunError (Panic ''nil pointer dereference''), fs1, None)
      | (Inr keyPair, fs1) \<Rightarrow> start_services E F privacyMode domain portHTTP ak keyPair fs1)))))"

text \<open>
  The last loop serves until the context is done: each round is what \<open>Serve\<close> answered, which is only
  logged, and whether the context is done after it. The result is what closing the server answers.
\<close>

fun main_loop :: "err option \<Rightarrow> (err option \<times> bool) list \<Rightarrow> err option option" where
  "main_loop closing_err [] = None"
| "main_loop closing_err ((served, done) # rounds) = (if done then Some closing_err else main_loop closing_err rounds)"

subsection \<open>The server: requests\<close>

definition limit_key :: "string \<Rightarrow> string \<Rightarrow> string \<Rightarrow> string" where
  "limit_key path forwardedFor remoteAddr =
     path @ [CHR 0x0A] @ (if forwardedFor = [] then remoteAddr else forwardedFor)"

text \<open>
  The layers of the HTTP server from the outside in: websockets, the security middleware (\<open>secure\<close> says
  whether it passes the request on), the rate limiter (\<open>within\<close> says whether a key may go on) and the site.
\<close>

datatype 'h http_layer = AtWebsocket "'h ws_outcome" | AtSecurity | AtLimiter string | AtSite

definition http_handler ::
  "(string \<Rightarrow> bool) \<Rightarrow> bool \<Rightarrow> netconn res \<Rightarrow> (netconn \<Rightarrow> 'h act) \<Rightarrow> bool \<Rightarrow> (string \<Rightarrow> bool) \<Rightarrow> string \<Rightarrow> string \<Rightarrow> string \<Rightarrow> 'h http_layer act" where
  "http_handler resolves upgraded shake mk secure within path forwardedFor remoteAddr =
     andthen (ws_ServeHTTP resolves upgraded shake mk forwardedFor remoteAddr) (\<lambda>out.
       ret (case out of
              PassedOn \<Rightarrow>
                if \<not> secure then AtSecurity
                else if \<not> within (limit_key path forwardedFor remoteAddr) then AtLimiter (limit_key path forwardedFor remoteAddr)
                else AtSite
            | _ \<Rightarrow> AtWebsocket out))"

subsection \<open>A member that is inserted can log in\<close>

lemma SetPassword_keeps:
  assumes "db_wf (data c)" "Fallback_SetPassword L salt i pw c = (Inr u, c')"
  shows "members (data c') = members (data c) \<and> aliases (data c') = aliases (data c)"
proof -
  obtain h c1 c2 where h: "data c1 = data c" "data c' = data c2"
    "upsert_password ''auth/fallback: failed to insert new user'' h i c1 = (Inr u, c2)"
    using assms(2) unfolding Fallback_SetPassword_def by (auto split: option.splits dest!: transact_ok)
  then show ?thesis using upsert_password_ok [OF h(3)] assms(1) by auto
qed

lemma insert_user_created:
  assumes "insert_user E roles args = (Created role mid, out)"
  obtains arg k pw c c1 c2 where "args = [arg]" "role_flags roles RoleAdmin = Inr role" "parse_ref (ie_lib E) arg = Some k"
    "ie_open E = Inr c" "ie_first E = Inr pw" "ie_second E = Inr pw" "Members_Add (ie_lib E) k role c = (Inr mid, c1)"
    "Fallback_SetPassword (ie_lib E) (ie_salt E) mid pw c1 = (Inr (), c2)" "out = Some c2"
  using assms unfolding insert_user_def
  by (auto split: if_splits sum.splits list.splits option.splits prod.splits)

text \<open>C17: The command that inserts a member does what it is for: when it reports success, the key is stored
  with the role of the last flag, and the password that was typed twice logs the member in under the id it
  printed, while nobody else's password changed.\<close>

theorem inserted_user_logs_in:
  assumes "insert_user E roles [arg] = (Created role mid, Some c')" "ie_open E = Inr c" "ie_first E = Inr pw"
    "parse_ref (ie_lib E) arg = Some k" "db_wf (data c)" "faults c' = []" "bcrypt_accepts (ie_lib E)"
    "\<not> exists_row (\<lambda>a. al_name a = ref_string k) (aliases (data c))"
  shows "role_flags roles RoleAdmin = Inr role
     \<and> row mid (members (data c')) = Some \<lparr>mb_role = role, mb_pub_key = k\<rparr>
     \<and> Fallback_Check (ie_lib E) (ref_string k) pw c' = (Inr mid, c')
     \<and> (\<forall>j. j = mid \<or> password_hash_of j (data c') = password_hash_of j (data c))"
proof -
  let ?L = "ie_lib E"
  obtain c1 where o: "role_flags roles RoleAdmin = Inr role" "Members_Add ?L k role c = (Inr mid, c1)"
    "Fallback_SetPassword ?L (ie_salt E) mid pw c1 = (Inr (), c')"
    using insert_user_created [OF assms(1)] assms(2-4) by (metis Inr_inject list.inject option.inject)
  note a = Members_Add_ok [OF o(2)]
  have wf1: "db_wf (data c1)" using keepsD [OF keeps_Members(2) o(2) assms(5)] .
  obtain h where h: "bcrypt_hash ?L (ie_salt E) pw = Some h"
    "\<And>j. password_hash_of j (data c') = (if j = mid then Some h else password_hash_of j (data c1))"
    using SetPassword_ok [OF wf1 o(3)] by blast
  have wf': "db_wf (data c')" using keepsD [OF keeps_Fallback(2) o(3) wf1] .
  have m: "members (data c') = members (data c1)" "aliases (data c') = aliases (data c)"
    using SetPassword_keeps [OF wf1 o(3)] a by auto
  have tab: "table_ok (members (data c))" using db_wf_parts(1) [OF assms(5)] by (simp add: members_ok_def)
  have row: "row mid (members (data c')) = Some \<lparr>mb_role = role, mb_pub_key = k\<rparr>"
    using a m(1) tab by (simp add: row_add)
  have "bcrypt_ok ?L h pw" using assms(7) h(1) by (auto simp: bcrypt_accepts_def)
  then have "Fallback_Check ?L (ref_string k) pw c' = (Inr mid, c')"
    using Check_clean [OF assms(6) wf' row_Some_in [OF row], of h ?L pw] assms(8) m(2) h(2) by simp
  then show ?thesis using o(1) row h(2) a by (simp add: password_hash_of_def)
qed

definition sample_insert :: insert_env where
  "sample_insert = \<lparr>ie_lib = sample_lib, ie_user = None, ie_stat_missing = False, ie_open = Inr sample_conn,
     ie_first = Inr ''secret'', ie_second = Inr ''secret'', ie_salt = ''s''\<rparr>"

lemma inserted_user_logs_in_witness:
  "\<exists>c'. insert_user sample_insert [''member'', ''MOD''] [ref_string dave] = (Created RoleModerator 4, Some c')
     \<and> Fallback_Check sample_lib (ref_string dave) ''secret'' c' = (Inr 4, c')"
proof -
  let ?c1 = "sample_conn\<lparr>data := sample_db\<lparr>members := add_row \<lparr>mb_role = RoleModerator, mb_pub_key = dave\<rparr> (members sample_db)\<rparr>\<rparr>"
  have ref: "parse_ref sample_lib (ref_string dave) = Some dave" by (simp add: dave_def has_prefix_def)
  have flag: "role_flags [''member'', ''MOD''] RoleAdmin = Inr RoleModerator"
    by code_simp
  have add: "Members_Add sample_lib dave RoleModerator sample_conn = (Inr 4, ?c1)"
  proof -
    have "Members_add sample_lib dave RoleModerator sample_conn = (Inr 4, ?c1)"
      using ref by (simp add: Members_add_def role_valid_def role_defs on_error_def insert_member_def exists_row_def)
    then show ?thesis unfolding Members_Add_def using transact_clean_ok [OF clean_Members(1), of sample_conn] by simp
  qed
  have wf1: "db_wf (data ?c1)" using keepsD [OF keeps_Members(2) add] by simp
  have "(4::int64) \<in> ids (members (data ?c1))" by (simp add: ids_def add_row_def)
  then obtain d where "upsert_password ''auth/fallback: failed to insert new user'' ''$secret'' 4 ?c1 = (Inr (), ?c1\<lparr>data := d\<rparr>)"
    using upsert_password_clean [of ?c1 4] wf1 by auto
  then have "Fallback_SetPassword sample_lib ''s'' 4 ''secret'' ?c1 = (Inr (), ?c1\<lparr>data := d\<rparr>)"
    by (simp add: Fallback_SetPassword_def transact_clean clean_fallback_parts)
  then have c: "insert_user sample_insert [''member'', ''MOD''] [ref_string dave] = (Created RoleModerator 4, Some (?c1\<lparr>data := d\<rparr>))"
    using ref flag add by (simp add: insert_user_def sample_insert_def)
  have "bcrypt_accepts sample_lib" by (auto simp: bcrypt_accepts_def split: if_splits)
  moreover have "\<not> exists_row (\<lambda>a. al_name a = ref_string dave) (aliases (data sample_conn))" by (simp add: exists_row_def)
  ultimately show ?thesis
    using inserted_user_logs_in [OF c, of sample_conn "''secret''" dave] c ref by (simp add: sample_insert_def)
qed

subsection \<open>What a running server is\<close>

lemma set_mode_clean:
  assumes "db_wf (data c)" "faults c = []" "pm \<in> set AllPrivacyModes"
  shows "cf_mode (the_config (data (snd (Config_SetPrivacyMode pm c)))) = pm"
proof -
  obtain c' where c': "Config_SetPrivacyMode pm c = (Inr (), c')" "Config_GetPrivacyMode c' = (Inr pm, c')"
    using privacy_mode_set_get [OF assms(1,2), of pm] assms(3) by auto
  then show ?thesis using Config_GetPrivacyMode_ok [OF c'(2)] by simp
qed

lemma mode_flags_valid: "mode_flags vs pm = Inr m \<Longrightarrow> (vs = [] \<and> m = pm) \<or> m \<in> set AllPrivacyModes"
  by (induction vs arbitrary: pm) (fastforce simp: mode_flag_def Let_def mode_valid_iff split: sum.splits)+

lemma runroomsrv_running:
  assumes "runroomsrv E F fs = (Running st, fs', out)"
  obtains pm domain port ak kp fs1 where "mode_flags (sf_modes F) ModeUnknown = Inr pm"
    "domain = (if sf_domain F = [] then ''localhost'' else sf_domain F)" "sf_domain F \<noteq> [] \<or> re_development E"
    "check_listener (re_port E) ''http'' (sf_lishttp F) = Inr port" "b64_decode std_alphabet (sf_shscap F) = Some ak"
    "DefaultKeyPair (re_keys E) (re_os E) (re_seed E) (sf_repo F) fs = (Inr kp, fs1)"
    "start_services E F pm domain port ak kp fs1 = (Running st, fs', out)"
  using assms unfolding runroomsrv_def by (auto simp: Let_def split: sum.splits option.splits prod.splits if_splits)

lemma start_services_running:
  assumes "start_services E F pm domain port ak kp fs = (Running st, fs', out)"
  obtains c fs1 where "re_db E = Inr c"
    "out = Some (if pm \<noteq> ModeUnknown then snd (Config_SetPrivacyMode pm c) else c)"
    "st_net st = \<lparr>RoomID = kp_feed kp, ListenAddressMUXRPC = sf_lismux F, Domain = domain, PortHTTPS = port,
        UseSubdomainForAliases = sf_subdomains F, Development = re_development E\<rparr>"
    "New_server (re_keys E) (re_os E) (re_seed E) (re_home E) (re_tcp E) (re_network E) (re_unix E) (st_net st)
        (server_options F ak kp) fs = (Inr (st_srv st), fs1)"
    "re_web E (sf_repo F) fs1 = (Inr (st_web st), fs')"
  using assms unfolding start_services_def by (auto simp: Let_def split: sum.splits option.splits prod.splits)

lemma New_server_given_key:
  assumes "New_server K os seed home tcp nw ux net (server_options F ak kp) fs = (Inr s, fs')"
  shows "sv_keyPair s = Some kp \<and> sv_appKey s = Some ak \<and> sv_unix s = (\<not> sf_nounixsock F) \<and> fs' = fs
     \<and> sv_net s = net\<lparr>RoomID := kp_feed kp\<rparr> \<and> length ak = 32"
proof -
  obtain s0 s1 s2 s3 s4 where o: "apply_options K os fs 0 (server_options F ak kp) (empty_srv net) = Inr s0" "with_repo home s0 = Inr s1"
    "with_app_key s1 = Inr s2" "with_listener tcp s2 = Inr s3" "with_key_pair K os seed fs s3 = (Inr s4, fs')"
    "s = s4\<lparr>sv_net := (sv_net s4)\<lparr>RoomID := kp_feed (the (sv_keyPair s4))\<rparr>\<rparr>"
    using New_server_ok [OF assms] .
  have s0: "sv_keyPair s0 = Some kp" "sv_appKey s0 = Some ak" "length ak = 32" "sv_unix s0 = (\<not> sf_nounixsock F)" "sv_net s0 = net"
    using o(1) by (auto simp: server_options_def empty_srv_def split: if_splits)
  have s1: "sv_keyPair s1 = Some kp" "sv_appKey s1 = Some ak" "sv_unix s1 = sv_unix s0" "sv_net s1 = net"
    using o(2) s0 by (auto simp: with_repo_def split: if_splits sum.splits)
  then have "s2 = s1" using o(3) by (simp add: with_app_key_def)
  then have s3: "sv_keyPair s3 = Some kp" "sv_appKey s3 = Some ak" "sv_unix s3 = sv_unix s0" "sv_net s3 = net"
    using o(4) s1 by (auto simp: with_listener_def Let_def split: option.splits if_splits)
  then have "s4 = s3" "fs' = fs" using o(5) by (auto simp: with_key_pair_def)
  then show ?thesis using o(6) s0 s3 by simp
qed

text \<open>C14: A room that runs is the one the command line asked for: it has the key pair of the repository and the
  given network key of 32 bytes, the web pages and the server agree on the room's id, a domain is set, the
  local socket is as asked, and while the database works the privacy mode is the one of the last flag, or
  the stored one without a flag.\<close>

theorem running_room_as_asked:
  assumes "runroomsrv E F fs = (Running st, fs', Some c')" "re_db E = Inr c" "db_wf (data c)" "faults c = []"
  shows "\<exists>kp pm. fst (DefaultKeyPair (re_keys E) (re_os E) (re_seed E) (sf_repo F) fs) = Inr kp
     \<and> sv_keyPair (st_srv st) = Some kp \<and> RoomID (st_net st) = kp_feed kp \<and> sv_net (st_srv st) = st_net st
     \<and> (\<exists>ak. sv_appKey (st_srv st) = Some ak \<and> b64_decode std_alphabet (sf_shscap F) = Some ak \<and> length ak = 32)
     \<and> Domain (st_net st) \<noteq> [] \<and> sv_unix (st_srv st) = (\<not> sf_nounixsock F)
     \<and> mode_flags (sf_modes F) ModeUnknown = Inr pm
     \<and> cf_mode (the_config (data c')) = (if sf_modes F = [] then cf_mode (the_config (data c)) else pm)"
proof -
  obtain pm domain port ak kp fs1 where r: "mode_flags (sf_modes F) ModeUnknown = Inr pm"
    "domain = (if sf_domain F = [] then ''localhost'' else sf_domain F)" "b64_decode std_alphabet (sf_shscap F) = Some ak"
    "DefaultKeyPair (re_keys E) (re_os E) (re_seed E) (sf_repo F) fs = (Inr kp, fs1)"
    "start_services E F pm domain port ak kp fs1 = (Running st, fs', Some c')"
    by (rule runroomsrv_running [OF assms(1)]) (rule that; assumption)
  obtain c0 fs2 where s0: "re_db E = Inr c0" "Some c' = Some (if pm \<noteq> ModeUnknown then snd (Config_SetPrivacyMode pm c0) else c0)"
    "st_net st = \<lparr>RoomID = kp_feed kp, ListenAddressMUXRPC = sf_lismux F, Domain = domain, PortHTTPS = port,
        UseSubdomainForAliases = sf_subdomains F, Development = re_development E\<rparr>"
    "New_server (re_keys E) (re_os E) (re_seed E) (re_home E) (re_tcp E) (re_network E) (re_unix E) (st_net st)
        (server_options F ak kp) fs1 = (Inr (st_srv st), fs2)"
    by (rule start_services_running [OF r(5)])
  have s: "c' = (if pm \<noteq> ModeUnknown then snd (Config_SetPrivacyMode pm c) else c)" "st_net st = \<lparr>RoomID = kp_feed kp,
      ListenAddressMUXRPC = sf_lismux F, Domain = domain, PortHTTPS = port, UseSubdomainForAliases = sf_subdomains F,
      Development = re_development E\<rparr>"
    using s0(1,2) assms(2) s0(3) by simp_all
  note n = New_server_given_key [OF s0(4)]
  have unk: "ModeUnknown \<notin> set AllPrivacyModes" by (simp add: AllPrivacyModes_def mode_defs)
  have "cf_mode (the_config (data c')) = (if sf_modes F = [] then cf_mode (the_config (data c)) else pm)"
  proof (cases "sf_modes F = []")
    case True
    then show ?thesis using r(1) s(1) by simp
  next
    case False
    then have "pm \<in> set AllPrivacyModes" using mode_flags_valid [OF r(1)] by simp
    then show ?thesis using set_mode_clean [OF assms(3,4)] s(1) False unk by auto
  qed
  then show ?thesis using r s(2) n by (intro exI [of _ kp] exI [of _ pm]) simp
qed

definition sample_flags :: server_flags where
  "sample_flags = \<lparr>sf_version = False, sf_domain = ''room.example'', sf_lismux = '':8008'', sf_lishttp = '':3000'',
     sf_shscap = default_app_key, sf_repo = ''/room'', sf_nounixsock = True, sf_logs = [],
     sf_modes = [''open'', ''restricted''], sf_subdomains = True\<rparr>"

definition sample_run :: "unit run_env" where
  "sample_run = \<lparr>re_development = False, re_keys = sample_keys, re_os = sample_os, re_seed = ''k'', re_home = Inl EOF,
     re_port = (\<lambda>p. if p = ''8008'' then Inr 8008 else if p = ''3000'' then Inr 3000 else Inl EOF), re_tcp = (\<lambda>_. Some 8008),
     re_db = Inr sample_conn, re_network = (\<lambda>_. Inr ()), re_unix = (\<lambda>_. Inr ()), re_listen = None,
     re_web = (\<lambda>_ fs. (Inr \<lparr>wh_helper = \<lparr>hp_bundle = (), hp_languages = [], hp_codecs = []\<rparr>, wh_codecs = [], wh_csrf = []\<rparr>, fs)),
     re_store = None, re_limiter = None\<rparr>"

lemma sample_runs: "\<exists>st fs' c'. runroomsrv sample_run sample_flags [] = (Running st, fs', Some c')"
proof -
  obtain ak where ak: "b64_decode std_alphabet default_app_key = Some ak" "length ak = 32" using default_app_key_length by blast
  have m: "mode_flags [''open'', ''restricted''] ModeUnknown = Inr ModeRestricted"
    by (simp add: mode_flag_def parse_privacy_mode_def mode_valid_def mode_defs)
  have l: "check_listener (re_port sample_run) ''muxrpc'' '':8008'' = Inr 8008" "check_listener (re_port sample_run) ''http'' '':3000'' = Inr 3000"
    by (simp_all add: check_listener_def SplitHostPort_def last_index_of_def bracket_free_def sample_run_def)
  obtain kp fs1 where k: "DefaultKeyPair sample_keys sample_os ''k'' ''/room'' [] = (Inr kp, fs1)"
    using sample_default by blast
  have f: "sf_modes sample_flags = [''open'', ''restricted'']" "\<not> sf_version sample_flags" "sf_domain sample_flags = ''room.example''"
    "sf_lismux sample_flags = '':8008''" "sf_lishttp sample_flags = '':3000''" "sf_shscap sample_flags = default_app_key"
    "sf_repo sample_flags = ''/room''" by (simp_all add: sample_flags_def)
  have e: "re_keys sample_run = sample_keys" "re_os sample_run = sample_os" "re_seed sample_run = ''k''" by (simp_all add: sample_run_def)
  obtain out where "start_services sample_run sample_flags ModeRestricted ''room.example'' 3000 ak kp fs1 = out"
    and "\<exists>st fs' c'. out = (Running st, fs', Some c')"
    using ak(2) by (simp add: start_services_def server_options_def sample_run_def sample_flags_def New_server_def empty_srv_def
        with_repo_def with_app_key_def with_listener_def with_key_pair_def Let_def)
  then show ?thesis by (simp add: runroomsrv_def f m l e k ak(1) del: mode_flags.simps)
qed

lemma running_room_as_asked_witness:
  "\<exists>st fs' c'. runroomsrv sample_run sample_flags [] = (Running st, fs', Some c') \<and> cf_mode (the_config (data c')) = ModeRestricted"
proof -
  obtain st fs' c' where r: "runroomsrv sample_run sample_flags [] = (Running st, fs', Some c')" using sample_runs by blast
  have "mode_flags [''open'', ''restricted''] ModeUnknown = Inr ModeRestricted"
    by (simp add: mode_flag_def parse_privacy_mode_def mode_valid_def mode_defs)
  then show ?thesis using running_room_as_asked [OF r, of sample_conn] r by (auto simp: sample_run_def sample_flags_def)
qed

text \<open>A key file that cannot be read ends the program with a panic instead of a message.\<close>

lemma bad_key_file_panics:
  assumes "DefaultKeyPair (re_keys E) (re_os E) (re_seed E) (sf_repo F) fs = (Inl e, fs1)" "\<not> sf_version F" "sf_domain F \<noteq> []"
    "mode_flags (sf_modes F) ModeUnknown = Inr pm" "check_listener (re_port E) ''muxrpc'' (sf_lismux F) = Inr p1"
    "check_listener (re_port E) ''http'' (sf_lishttp F) = Inr p2" "b64_decode std_alphabet (sf_shscap F) = Some ak"
  shows "runroomsrv E F fs = (RunError (Panic ''nil pointer dereference''), fs1, None)"
  using assms by (simp add: runroomsrv_def)

text \<open>A mode that cannot be stored is ignored: the room starts in the mode it had.\<close>

lemma mode_flag_not_stored:
  assumes "runroomsrv E F fs = (Running st, fs', Some c')" "re_db E = Inr c" "mode_flags (sf_modes F) ModeUnknown = Inr pm"
    "Config_SetPrivacyMode pm c = (Inl e, c1)" "pm \<noteq> ModeUnknown"
  shows "c' = c1 \<and> data c' = data c"
proof -
  obtain pm' domain port ak kp fs1 where r: "mode_flags (sf_modes F) ModeUnknown = Inr pm'"
    "start_services E F pm' domain port ak kp fs1 = (Running st, fs', Some c')"
    by (rule runroomsrv_running [OF assms(1)]) (rule that; assumption)
  obtain c0 where s: "re_db E = Inr c0" "Some c' = Some (if pm' \<noteq> ModeUnknown then snd (Config_SetPrivacyMode pm' c0) else c0)"
    by (rule start_services_running [OF r(2)]) (rule that; assumption)
  have "c' = c1" using r(1) s assms(2-5) by simp
  moreover have "data c1 = data c" using assms(4) unfolding Config_SetPrivacyMode_def
    by (auto split: sum.splits dest: transact_rollback)
  ultimately show ?thesis by simp
qed

subsection \<open>Requests\<close>

text \<open>A websocket is served whatever the security middleware and the rate limiter would say of the request.\<close>

lemma websocket_skips_layers:
  "ws_ServeHTTP resolves up shake mk fwd ra c = (Inr out, c') \<Longrightarrow> out \<noteq> PassedOn \<Longrightarrow>
     http_handler resolves up shake mk secure within path fwd ra c = (Inr (AtWebsocket out), c')"
  by (cases out) (simp_all add: http_handler_def andthen_def ret_def)

text \<open>The rate limit counts by what the client says in a header: a client that sends another text each time has
  another key each time.\<close>

lemma limit_key_chosen:
  "fwd \<noteq> [] \<Longrightarrow> limit_key path fwd ra = path @ CHR 0x0A # fwd"
  "fwd \<noteq> [] \<Longrightarrow> fwd' \<noteq> [] \<Longrightarrow> limit_key path fwd ra = limit_key path fwd' ra' \<longleftrightarrow> fwd = fwd'"
  by (simp_all add: limit_key_def)

lemma main_loop_ends: "main_loop e rounds = (if list_ex snd rounds then Some e else None)"
  by (induction rounds) auto

subsection \<open>The room over restarts\<close>

text \<open>What a room is made of, apart from what expires or is used up.\<close>

definition same_room :: "db \<Rightarrow> db \<Rightarrow> bool" where
  "same_room d d' \<longleftrightarrow> members d' = members d \<and> aliases d' = aliases d \<and> denied d' = denied d \<and> passwords d' = passwords d
     \<and> notices d' = notices d \<and> pins d' = pins d \<and> pin_notices d' = pin_notices d \<and> config d' = config d
     \<and> (\<forall>h. invite_live h d' = invite_live h d \<and> reset_live h d' = reset_live h d)"

lemma same_room_refl [simp]: "same_room d d"
  by (simp add: same_room_def)

lemma same_room_trans: "same_room d d' \<Longrightarrow> same_room d' d'' \<Longrightarrow> same_room d d''"
  by (simp add: same_room_def)

lemma cleanup_same_room: "db_wf (data c) \<Longrightarrow> cleanup now c = (Inr u, c') \<Longrightarrow> same_room (data c) (data c')"
  using cleanup_keeps_live [of c now c'] cleanup_ok [of now c u c'] by (simp add: same_room_def)

lemma cleanup_session:
  assumes "db_wf (data c)" "cleanup now c = (Inr u, c')" "now - at \<le> sessionTimeout"
  shows "session_map (data c') tok = Some (i, at) \<longleftrightarrow> session_map (data c) tok = Some (i, at)"
  using cleanup_keeps_live [of c now c' "[]" at tok i] assms by simp

lemma Open_ok:
  assumes "Open E now stored = Inr c"
  obtains n d where "de_migrate E stored = Inr (n, d)" "cleanup now \<lparr>data = d, faults = de_faults E\<rparr> = (Inr (), c)"
  using assms unfolding Open_def by (auto split: if_splits option.splits sum.splits prod.splits)

text \<open>C15: Opening the database again keeps the room: whatever the migrations deliver, every member, alias, denied
  key, password, notice and setting is there afterwards, and so is every invite and reset token that can
  still be used and every session within its timeout; the data stay well formed.\<close>

theorem restart_keeps_room:
  assumes "Open E now stored = Inr c" "de_migrate E stored = Inr (n, d)" "db_wf d"
  shows "same_room d (data c) \<and> db_wf (data c)
     \<and> (\<forall>tok i at. now - at \<le> sessionTimeout \<longrightarrow>
          (session_map (data c) tok = Some (i, at) \<longleftrightarrow> session_map d tok = Some (i, at)))"
proof -
  have u: "cleanup now \<lparr>data = d, faults = de_faults E\<rparr> = (Inr (), c)"
    by (rule Open_ok [OF assms(1)]) (use assms(2) in simp)
  then have "db_wf (data c)" using keepsD [OF keeps_Sessions(6) u] assms(3) by simp
  then show ?thesis using cleanup_same_room [OF _ u] cleanup_session [OF _ u] assms(3) by simp
qed

definition reopened :: db_env where
  "reopened = \<lparr>de_mkdir = None, de_mkdir_exists = False, de_open = None, de_ping = None,
     de_migrate = (\<lambda>s. Inr (0, case s of None \<Rightarrow> initial_db | Some d \<Rightarrow> d)), de_faults = []\<rparr>"

lemma restart_keeps_room_witness:
  "\<exists>c. Open reopened (20 * hour) (Some (data session_conn)) = Inr c \<and> same_room (data session_conn) (data c)
     \<and> session_map (data c) sample_session = Some (3, 5 * second)"
proof -
  obtain c where c: "Open reopened (20 * hour) (Some (data session_conn)) = Inr c"
    by (simp add: Open_def reopened_def cleanup_def deleteExpiredSessions_def deleteConsumedInvites_def deleteConsumedResetTokens_def
        andthen_def on_error_def statement_defs)
  have m: "de_migrate reopened (Some (data session_conn)) = Inr (0, data session_conn)" by (simp add: reopened_def)
  show ?thesis using restart_keeps_room [OF c m] c by (auto simp: sessionTimeout_def time_units)
qed

text \<open>A room that starts for the first time is the one the migrations describe.\<close>

lemma first_start:
  assumes "Open E now None = Inr c" "de_migrate E None = Inr (n, initial_db)"
  shows "data c = initial_db"
proof -
  have u: "cleanup now \<lparr>data = initial_db, faults = de_faults E\<rparr> = (Inr (), c)"
    by (rule Open_ok [OF assms(1)]) (use assms(2) in simp)
  show ?thesis using cleanup_ok [OF u] by (simp add: initial_db_def delete_rows_def empty_table_def)
qed

text \<open>However long the room runs, and whatever the database does, the repeated clean-up only removes what has
  expired or was used.\<close>

lemma scrub_keeps:
  assumes "db_wf (data c)"
  shows "same_room (data c) (data (scrub now c)) \<and> db_wf (data (scrub now c))"
proof -
  obtain r c' where run: "transact (cleanup now) c = (r, c')" by (cases "transact (cleanup now) c")
  show ?thesis
  proof (cases r)
    case (Inl e)
    then show ?thesis using transact_rollback [of "cleanup now" c e c'] run assms by (simp add: scrub_def)
  next
    case (Inr u)
    then obtain c1 c2 where c: "data c1 = data c" "cleanup now c1 = (Inr u, c2)" "data c' = data c2"
      using transact_ok [of "cleanup now" c u c'] run by blast
    have "same_room (data c) (data c')" using cleanup_same_room [of c1 now u c2] c assms by simp
    moreover have "db_wf (data c')" using keepsD [OF keeps_Sessions(6) c(2)] c assms by simp
    ultimately show ?thesis by (simp add: scrub_def run)
  qed
qed

lemma scrubs_keep: "db_wf (data c) \<Longrightarrow> same_room (data c) (data (scrubs n now c)) \<and> db_wf (data (scrubs n now c))"
proof (induction n arbitrary: now c)
  case (Suc n)
  note s = scrub_keeps [OF Suc.prems, of "now + fiveDays"]
  from Suc.IH [of "scrub (now + fiveDays) c" "now + fiveDays"] s show ?case by (auto intro: same_room_trans)
qed simp

subsection \<open>The secrets of the web server over restarts\<close>

lemma cookie_secrets_kept:
  assumes "LoadOrCreateCookieSecrets os hk bk r fs = (Inr cs, fs')" "length hk = 32" "length bk = 32"
    "os_open os (GetPath r [''web'', ''cookie-secret'']) = None"
  shows "LoadOrCreateCookieSecrets os hk' bk' r fs' = (Inr cs, fs')"
proof (cases "map_of fs (GetPath r [''web'', ''cookie-secret''])")
  case None
  then show ?thesis using cookie_secrets_stable [OF assms(1-3) _ assms(4)] by simp
next
  case (Some f)
  then have "fs' = fs" using assms(1) by (auto simp: LoadOrCreateCookieSecrets_def Let_def split: option.splits if_splits)
  then show ?thesis using assms(1) Some
    by (auto simp: LoadOrCreateCookieSecrets_def Let_def split: option.splits if_splits)
qed

lemma csrf_secret_kept:
  assumes "LoadOrCreateCSRFSecret os k r fs = (Inr s, fs')" "length k = 32" "os_open os (GetPath r [''web'', ''csrf-secret'']) = None"
  shows "LoadOrCreateCSRFSecret os k' r fs' = (Inr s, fs')"
  using assms by (auto simp: LoadOrCreateCSRFSecret_def Let_def csrfKeyLength_def update_conv' split: option.splits if_splits)

lemma csrf_keeps_cookies:
  assumes "LoadOrCreateCSRFSecret os k r fs = (q, fs')"
  shows "map_of fs' (GetPath r [''web'', ''cookie-secret'']) = map_of fs (GetPath r [''web'', ''cookie-secret''])"
proof -
  have "path_base (GetPath r [''web'', ''cookie-secret'']) \<noteq> path_base (GetPath r [''web'', ''csrf-secret''])"
    by (simp add: GetPath_base)
  then have "GetPath r [''web'', ''cookie-secret''] \<noteq> GetPath r [''web'', ''csrf-secret'']" by metis
  then show ?thesis using assms
    by (auto simp: LoadOrCreateCSRFSecret_def Let_def update_conv' split: option.splits if_splits)
qed

lemma cookie_load_file:
  "map_of fs (GetPath r [''web'', ''cookie-secret'']) = map_of fs' (GetPath r [''web'', ''cookie-secret'']) \<Longrightarrow>
   LoadOrCreateCookieSecrets os hk bk r fs = (Inr cs, fs) \<Longrightarrow> map_of fs (GetPath r [''web'', ''cookie-secret'']) \<noteq> None \<Longrightarrow>
   LoadOrCreateCookieSecrets os hk bk r fs' = (Inr cs, fs')"
  by (auto simp: LoadOrCreateCookieSecrets_def Let_def split: option.splits if_splits)

lemma cookie_file_there:
  "LoadOrCreateCookieSecrets os hk bk r fs = (Inr cs, fs') \<Longrightarrow> map_of fs' (GetPath r [''web'', ''cookie-secret'']) \<noteq> None"
  by (auto simp: LoadOrCreateCookieSecrets_def Let_def update_conv' split: option.splits if_splits)

lemma New_handlers_ok:
  assumes "New_handlers T os hk bk fk r ds vs ren pw fs = (Inr w, fs')"
  obtains cs fs1 fs2 where "LoadOrCreateCookieSecrets os hk bk r fs = (Inr (hp_codecs (wh_helper w)), fs1)"
    "LoadOrCreateCookieSecrets os hk bk r fs1 = (Inr (wh_codecs w), fs2)"
    "LoadOrCreateCSRFSecret os fk r fs2 = (Inr (wh_csrf w), fs')"
  using assms unfolding New_handlers_def New_helper_def
  by (auto split: prod.splits sum.splits option.splits if_splits)

text \<open>C16: Sessions and forms survive a restart: a later start of the web handlers on the files of the first
  loads the same cookie keys and the same forgery key, whatever fresh random keys it had ready, and writes
  nothing; and the translations use the very cookie keys of the site.\<close>

theorem restart_keeps_secrets:
  assumes "New_handlers T os hk bk fk r ds vs ren pw fs = (Inr w, fs')"
    "New_handlers T os hk' bk' fk' r ds' vs' ren' pw' fs' = (Inr w', fs'')"
    "length hk = 32" "length bk = 32" "length fk = 32"
    "os_open os (GetPath r [''web'', ''cookie-secret'']) = None" "os_open os (GetPath r [''web'', ''csrf-secret'']) = None"
  shows "hp_codecs (wh_helper w) = wh_codecs w \<and> wh_codecs w' = wh_codecs w
     \<and> hp_codecs (wh_helper w') = wh_codecs w \<and> wh_csrf w' = wh_csrf w \<and> fs'' = fs'"
proof -
  obtain fs1 fs2 where a: "LoadOrCreateCookieSecrets os hk bk r fs = (Inr (hp_codecs (wh_helper w)), fs1)"
    "LoadOrCreateCookieSecrets os hk bk r fs1 = (Inr (wh_codecs w), fs2)" "LoadOrCreateCSRFSecret os fk r fs2 = (Inr (wh_csrf w), fs')"
    by (rule New_handlers_ok [OF assms(1)]) (rule that; assumption)
  obtain fs3 fs4 where b: "LoadOrCreateCookieSecrets os hk' bk' r fs' = (Inr (hp_codecs (wh_helper w')), fs3)"
    "LoadOrCreateCookieSecrets os hk' bk' r fs3 = (Inr (wh_codecs w'), fs4)" "LoadOrCreateCSRFSecret os fk' r fs4 = (Inr (wh_csrf w'), fs'')"
    by (rule New_handlers_ok [OF assms(2)]) (rule that; assumption)
  have k: "LoadOrCreateCookieSecrets os h k r fs1 = (Inr (hp_codecs (wh_helper w)), fs1)" for h k
    by (rule cookie_secrets_kept [OF a(1) assms(3,4,6)])
  then have 1: "wh_codecs w = hp_codecs (wh_helper w)" "fs2 = fs1" using a(2) by simp_all
  have "LoadOrCreateCookieSecrets os hk' bk' r fs' = (Inr (hp_codecs (wh_helper w)), fs')"
    by (rule cookie_load_file [OF csrf_keeps_cookies [OF a(3), symmetric, unfolded 1(2)] k cookie_file_there [OF k]])
  then have 2: "hp_codecs (wh_helper w') = hp_codecs (wh_helper w)" "fs3 = fs'" "wh_codecs w' = hp_codecs (wh_helper w)" "fs4 = fs'"
    using b(1,2) by auto
  have "LoadOrCreateCSRFSecret os fk' r fs' = (Inr (wh_csrf w), fs')" by (rule csrf_secret_kept [OF a(3) assms(5,7)])
  then show ?thesis using 1 2 b(3) by simp
qed

lemma restart_keeps_secrets_witness:
  "\<exists>w fs w'. New_handlers sample_translations sample_os (replicate 32 (CHR ''h'')) (replicate 32 (CHR ''b'')) (replicate 32 (CHR ''k''))
       ''/room'' [] [] None None [] = (Inr w, fs)
     \<and> New_handlers sample_translations sample_os [] [] [] ''/room'' [] [] None None fs = (Inr w', fs) \<and> wh_csrf w' = wh_csrf w"
proof -
  let ?c = "GetPath ''/room'' [''web'', ''cookie-secret'']" and ?s = "GetPath ''/room'' [''web'', ''csrf-secret'']"
  have p: "?c = ''/room/web/cookie-secret''" "?s = ''/room/web/csrf-secret''"
    by (simp_all add: GetPath_def path_join_def path_clean_def has_prefix_def)
  obtain w fs where w: "New_handlers sample_translations sample_os (replicate 32 (CHR ''h'')) (replicate 32 (CHR ''b'')) (replicate 32 (CHR ''k''))
       ''/room'' [] [] None None [] = (Inr w, fs)"
    by (simp add: New_handlers_def New_helper_def LoadOrCreateCookieSecrets_def LoadOrCreateCSRFSecret_def p sample_os_def Let_def)
  obtain w' fs'' where w': "New_handlers sample_translations sample_os [] [] [] ''/room'' [] [] None None fs = (Inr w', fs'')"
    using w by (auto simp: New_handlers_def New_helper_def LoadOrCreateCookieSecrets_def LoadOrCreateCSRFSecret_def p sample_os_def csrfKeyLength_def Let_def)
  show ?thesis using restart_keeps_secrets [OF w w'] w w' by (simp add: sample_os_def)
qed

end
