(* ===== verification/AliasHandler.thy ===== *)
theory AliasHandler
  imports Aliases NetInfo
begin

text \<open>
  \<open>muxrpc/handlers/alias/handler.go\<close>: peers register aliases that they signed, take their own
  aliases back and list the aliases of a peer. \<open>unmarshal\<close> is \<open>json.Unmarshal\<close> into a list of
  texts.
\<close>

record alias_handler =
  ah_self :: feed_ref
  ah_net :: server_details
  ah_lib :: lib

definition sigSuffix :: string where
  "sigSuffix = ''.sig.ed25519''"

definition Handler_Register :: "alias_handler \<Rightarrow> (string \<Rightarrow> string list res) \<Rightarrow> address \<Rightarrow> string \<Rightarrow> string act" where
  "Handler_Register h unmarshal remote raw =
     andthen (on_error (Wrapped ''registerAlias: bad request'') (lift_res (unmarshal raw))) (\<lambda>args.
     if length args \<noteq> 2 then fail (Msg (''registerAlias: expected two arguments got '' @ show_nat (length args)))
     else if \<not> has_suffix (args ! 1) sigSuffix then fail (Msg ''registerAlias: signature does not have the expected suffix'')
     else case b64_decode std_alphabet (trim_suffix (args ! 1) sigSuffix) of
       None \<Rightarrow> fail (Wrapped ''registerAlias: bad signature encoding'' (Msg ''illegal base64 data''))
     | Some sig \<Rightarrow>
         if \<not> alias_valid (args ! 0) then fail (Msg ''registerAlias: invalid alias'')
         else andthen (lift_res (GetFeedRefFromAddr (ah_lib h) remote)) (\<lambda>userID.
           let confirmation = \<lparr>cn_registration = \<lparr>rg_alias = args ! 0, rg_user = userID, rg_room = ah_self h\<rparr>, cn_signature = sig\<rparr> in
           if \<not> verify_confirmation (ah_lib h) confirmation then fail (Msg ''registerAlias: invalid signature'')
           else andthen (on_error (\<lambda>e. case errors_as alias_taken e of Some n \<Rightarrow> AliasTaken n
                                       | None \<Rightarrow> Wrapped ''registerAlias: could not register alias'' e)
                  (Aliases_Register (args ! 0) userID sig)) (\<lambda>_.
           ret (URLForAlias (ah_net h) (args ! 0)))))"

definition Handler_Revoke :: "alias_handler \<Rightarrow> (string \<Rightarrow> string list res) \<Rightarrow> address \<Rightarrow> string \<Rightarrow> bool act" where
  "Handler_Revoke h unmarshal remote raw =
     andthen (on_error (Wrapped ''registerAlias: bad request'') (lift_res (unmarshal raw))) (\<lambda>args.
     if length args \<noteq> 1 then fail (Msg (''registerAlias: expected two arguments got '' @ show_nat (length args)))
     else andthen (lift_res (GetFeedRefFromAddr (ah_lib h) remote)) (\<lambda>userID.
       andthen (Aliases_Resolve (args ! 0)) (\<lambda>a.
       if a_feed a \<noteq> userID
       then fail (Msg ''revokeAlias: not your alias (moderators need to use the web dashboard of the room'')
       else andthen (Aliases_Revoke (a_name a)) (\<lambda>_. ret True))))"

definition aliasesToListOfAliasStrings :: "alias_entry list \<Rightarrow> string list" where
  "aliasesToListOfAliasStrings as = map a_name as"

definition Handler_List :: "alias_handler \<Rightarrow> (string \<Rightarrow> string list res) \<Rightarrow> string \<Rightarrow> string list act" where
  "Handler_List h unmarshal raw =
     andthen (on_error (Wrapped ''listAlias: bad request'') (lift_res (unmarshal raw))) (\<lambda>args.
     if length args \<noteq> 1 then fail (Msg (''listAlias: expected one argument got '' @ show_nat (length args)))
     else case parse_ref (ah_lib h) (args ! 0) of
       None \<Rightarrow> fail (Wrapped ''listAlias: invalid feed ref'' (Msg ''refs: invalid reference''))
     | Some ref \<Rightarrow>
         andthen (on_error (Wrapped ''listAlias: could not list aliases'') Aliases_List) (\<lambda>allAliases.
         ret (aliasesToListOfAliasStrings (filter (\<lambda>a. a_feed a = ref) allAliases))))"

subsection \<open>What the table says\<close>

text \<open>The alias \<open>n\<close> belongs to \<open>u\<close>, with the signature \<open>s\<close>.\<close>

definition owns :: "db \<Rightarrow> string \<Rightarrow> feed_ref \<Rightarrow> bytes \<Rightarrow> bool" where
  "owns d n u s \<longleftrightarrow> (\<exists>i r m. (i, r) \<in> set (rows (aliases d)) \<and> al_name r = n \<and> al_signature r = s
     \<and> row (al_member r) (members d) = Some m \<and> mb_pub_key m = u)"

lemma owns_unique: "db_wf d \<Longrightarrow> owns d n u s \<Longrightarrow> owns d n u' s' \<Longrightarrow> u' = u \<and> s' = s"
proof -
  assume wf: "db_wf d" and o: "owns d n u s" "owns d n u' s'"
  from o(1) obtain i r m where 1: "(i, r) \<in> set (rows (aliases d))" "al_name r = n" "al_signature r = s"
    "row (al_member r) (members d) = Some m" "mb_pub_key m = u" unfolding owns_def by blast
  from o(2) obtain j q k where 2: "(j, q) \<in> set (rows (aliases d))" "al_name q = n" "al_signature q = s'"
    "row (al_member q) (members d) = Some k" "mb_pub_key k = u'" unfolding owns_def by blast
  have "r = q" using aliases_named [OF wf 1(1) 2(1)] 1(2) 2(2) by simp
  then show "u' = u \<and> s' = s" using 1 2 by simp
qed

definition table_signed :: "lib \<Rightarrow> feed_ref \<Rightarrow> db \<Rightarrow> bool" where
  "table_signed L room d \<longleftrightarrow> (\<forall>n u s. owns d n u s \<longrightarrow>
     verify_confirmation L \<lparr>cn_registration = \<lparr>rg_alias = n, rg_user = u, rg_room = room\<rparr>, cn_signature = s\<rparr>)"

lemma owns_add:
  "owns (d\<lparr>aliases := add_row r (aliases d)\<rparr>) n u s \<longleftrightarrow>
     owns d n u s \<or> (al_name r = n \<and> al_signature r = s \<and> (\<exists>k. row (al_member r) (members d) = Some k \<and> mb_pub_key k = u))"
  unfolding owns_def by (simp, blast)

lemma Register_owns:
  assumes wf: "db_wf (data c)" and run: "Aliases_Register n u s c = (Inr x, c')"
  shows "owns (data c') n' u' s' \<longleftrightarrow> owns (data c) n' u' s' \<or> (n', u', s') = (n, u, s)"
    and "\<not> owns (data c) n u' s'"
proof -
  obtain mid m where new: "\<not> exists_row (\<lambda>r. al_name r = n) (aliases (data c))" and m: "(mid, m) \<in> set (rows (members (data c)))" "mb_pub_key m = u"
    and d: "data c' = (data c)\<lparr>aliases := add_row \<lparr>al_name = n, al_member = mid, al_signature = s\<rparr> (aliases (data c))\<rparr>"
    using Aliases_Register_ok [OF run] by blast
  have "row mid (members (data c)) = Some m" using m db_wf_parts(1) [OF wf] by (auto simp: members_ok_def intro: row_in)
  then show "owns (data c') n' u' s' \<longleftrightarrow> owns (data c) n' u' s' \<or> (n', u', s') = (n, u, s)"
    using m(2) by (auto simp: d owns_add)
  show "\<not> owns (data c) n u' s'" using new by (auto simp: owns_def exists_row_conv)
qed

lemma Revoke_owns:
  assumes wf: "db_wf (data c)" and run: "Aliases_Revoke n c = (Inr x, c')"
  shows "owns (data c') n' u' s' \<longleftrightarrow> owns (data c) n' u' s' \<and> n' \<noteq> n"
proof -
  obtain i r where i: "(i, r) \<in> set (rows (aliases (data c)))" "al_name r = n"
    "data c' = (data c)\<lparr>aliases := delete_id i (aliases (data c))\<rparr>"
    using Aliases_Revoke_ok [OF run] by blast
  have "(j, q) \<in> set (rows (aliases (data c))) \<Longrightarrow> j \<noteq> i \<longleftrightarrow> al_name q \<noteq> n" for j q
    using i(1,2) aliases_named [OF wf _ i(1), of j q] db_wf_parts(2) [OF wf]
    by (auto simp: aliases_ok_def dest: row_unique)
  then show ?thesis by (auto simp: owns_def i(3))
qed

lemma Aliases_List_ok:
  assumes run: "Aliases_List c = (Inr entries, c')"
  shows "entries = map (\<lambda>(i, r). to_alias i r (mb_pub_key (the (row (al_member r) (members (data c)))))) (rows (aliases (data c)))
     \<and> (\<forall>(i, r) \<in> set (rows (aliases (data c))). al_member r \<in> ids (members (data c))) \<and> data c' = data c"
  using run unfolding Aliases_List_def
  by (auto split: if_splits dest!: read_all_ok simp: list_all_iff)

subsection \<open>The handlers\<close>

lemma Handler_Register_ok:
  "Handler_Register h unmarshal remote raw c = (Inr url, c') \<Longrightarrow>
   \<exists>name text u sig c1. unmarshal raw = Inr [name, text] \<and> GetFeedRefFromAddr (ah_lib h) remote = Inr u
     \<and> alias_valid name \<and> has_suffix text sigSuffix \<and> b64_decode std_alphabet (trim_suffix text sigSuffix) = Some sig
     \<and> verify_confirmation (ah_lib h) \<lparr>cn_registration = \<lparr>rg_alias = name, rg_user = u, rg_room = ah_self h\<rparr>, cn_signature = sig\<rparr>
     \<and> data c1 = data c \<and> Aliases_Register name u sig c1 = (Inr (), c') \<and> url = URLForAlias (ah_net h) name"
  unfolding Handler_Register_def
  by (auto simp: Let_def numeral_2_eq_2 length_Suc_conv split: if_splits option.splits) metis

lemma Handler_Register_err: "Handler_Register h unmarshal remote raw c = (Inl e, c') \<Longrightarrow> data c' = data c"
  unfolding Handler_Register_def Aliases_Register_def
  by (auto simp: Let_def andthen_err split: if_splits option.splits dest: transact_rollback)

lemma Handler_Revoke_ok:
  "Handler_Revoke h unmarshal remote raw c = (Inr b, c') \<Longrightarrow>
   \<exists>name u a c1. unmarshal raw = Inr [name] \<and> GetFeedRefFromAddr (ah_lib h) remote = Inr u
     \<and> Aliases_Resolve name c = (Inr a, c1) \<and> a_feed a = u \<and> Aliases_Revoke name c1 = (Inr (), c') \<and> b"
  unfolding Handler_Revoke_def
  by (clarsimp simp: length_Suc_conv split: if_splits) (metis Aliases_Resolve_ok)

lemma Aliases_reads:
  "Aliases_Resolve n c = (q, c') \<Longrightarrow> data c' = data c" "Aliases_List c = (q', c') \<Longrightarrow> data c' = data c"
  using keepsD [OF keeps_Aliases(1), of n c q c' "\<lambda>d. d = data c"] keepsD [OF keeps_Aliases(3), of c q' c' "\<lambda>d. d = data c"] by simp_all

lemma Revoke_err: "Aliases_Revoke n c = (Inl e, c') \<Longrightarrow> data c' = data c"
  unfolding Aliases_Revoke_def by (rule transact_rollback)

lemma Handler_Revoke_err: "Handler_Revoke h unmarshal remote raw c = (Inl e, c') \<Longrightarrow> data c' = data c"
  unfolding Handler_Revoke_def
  by (auto simp: andthen_err split: if_splits dest!: Aliases_reads Revoke_err)

lemma Resolve_owns:
  "Aliases_Resolve n c = (Inr a, c') \<Longrightarrow> owns (data c) n (a_feed a) (a_signature a) \<and> data c' = data c"
  unfolding owns_def by (blast dest: Aliases_Resolve_ok)

text \<open>What one call of each handler does to the table of aliases.\<close>

lemma Handler_Register_owns:
  assumes wf: "db_wf (data c)" and run: "Handler_Register h unmarshal remote raw c = (r, c')"
  shows "(\<forall>n v s. owns (data c') n v s \<longleftrightarrow> owns (data c) n v s) \<or>
    (\<exists>name u sig. GetFeedRefFromAddr (ah_lib h) remote = Inr u \<and> (\<forall>v s. \<not> owns (data c) name v s)
       \<and> verify_confirmation (ah_lib h) \<lparr>cn_registration = \<lparr>rg_alias = name, rg_user = u, rg_room = ah_self h\<rparr>, cn_signature = sig\<rparr>
       \<and> (\<forall>n v s. owns (data c') n v s \<longleftrightarrow> owns (data c) n v s \<or> (n, v, s) = (name, u, sig)))"
proof (cases r)
  case (Inl e)
  then show ?thesis using Handler_Register_err [of h unmarshal remote raw c e c'] run by simp
next
  case (Inr url)
  then obtain name u sig c1 where *: "GetFeedRefFromAddr (ah_lib h) remote = Inr u" "data c1 = data c"
    "verify_confirmation (ah_lib h) \<lparr>cn_registration = \<lparr>rg_alias = name, rg_user = u, rg_room = ah_self h\<rparr>, cn_signature = sig\<rparr>"
    "Aliases_Register name u sig c1 = (Inr (), c')" using run Handler_Register_ok by blast
  show ?thesis using * Register_owns [OF _ *(4)] wf by (intro disjI2 exI [of _ name] exI [of _ u] exI [of _ sig]) auto
qed

lemma Handler_Revoke_owns:
  assumes wf: "db_wf (data c)" and run: "Handler_Revoke h unmarshal remote raw c = (r, c')"
  shows "(\<forall>n v s. owns (data c') n v s \<longleftrightarrow> owns (data c) n v s) \<or>
    (\<exists>name u sig. GetFeedRefFromAddr (ah_lib h) remote = Inr u \<and> owns (data c) name u sig
       \<and> (\<forall>n v s. owns (data c') n v s \<longleftrightarrow> owns (data c) n v s \<and> n \<noteq> name))"
proof (cases r)
  case (Inl e)
  then show ?thesis using Handler_Revoke_err [of h unmarshal remote raw c e c'] run by simp
next
  case (Inr b)
  then obtain name u a c1 where *: "GetFeedRefFromAddr (ah_lib h) remote = Inr u"
    "Aliases_Resolve name c = (Inr a, c1)" "a_feed a = u" "Aliases_Revoke name c1 = (Inr (), c')"
    using run Handler_Revoke_ok by blast
  have "owns (data c) name u (a_signature a)" "data c1 = data c" using Resolve_owns [OF *(2)] *(3) by auto
  then show ?thesis using *(1) Revoke_owns [OF _ *(4)] wf
    by (intro disjI2 exI [of _ name] exI [of _ u] exI [of _ "a_signature a"]) auto
qed

lemma keeps_AliasHandler [keeps_wf]:
  "keeps db_wf (Handler_Register h unmarshal remote raw)" "keeps db_wf (Handler_Revoke h unmarshal remote raw)"
  "keeps I (Handler_List h unmarshal raw)"
  unfolding Handler_Register_def Handler_Revoke_def Handler_List_def Let_def by (auto intro!: keeps_wf)

subsection \<open>Properties\<close>

text \<open>A peer that registers or revokes aliases never touches an alias of somebody else, whatever it
  sends and whatever fails: every alias of another peer stays as it is, and none appears.\<close>

lemma aliases_of_others_untouched:
  assumes wf: "db_wf (data c)" and caller: "GetFeedRefFromAddr (ah_lib h) remote = Inr u" and other: "v \<noteq> u"
    and run: "Handler_Register h unmarshal remote raw c = (r, c') \<or> Handler_Revoke h unmarshal remote raw c = (q, c')"
  shows "owns (data c') n v s \<longleftrightarrow> owns (data c) n v s"
proof -
  consider "Handler_Register h unmarshal remote raw c = (r, c')" | "Handler_Revoke h unmarshal remote raw c = (q, c')"
    using run by blast
  then show ?thesis
  proof cases
    case 1
    then show ?thesis using Handler_Register_owns [OF wf 1] caller other by auto
  next
    case 2
    then show ?thesis using Handler_Revoke_owns [OF wf 2] caller other owns_unique [OF wf] by auto
  qed
qed

text \<open>C34: Every alias in the table carries a signature by its owner over the room, the owner and the name:
  the registrations and revocations of peers keep that, whatever they send and whatever fails.\<close>

theorem aliases_stay_signed:
  assumes "db_wf (data c)" and "table_signed (ah_lib h) (ah_self h) (data c)"
    and "Handler_Register h unmarshal remote raw c = (r, c') \<or> Handler_Revoke h unmarshal remote raw c = (q, c')"
  shows "table_signed (ah_lib h) (ah_self h) (data c') \<and> db_wf (data c')"
proof -
  have "table_signed (ah_lib h) (ah_self h) (data c')"
    using assms Handler_Register_owns [of c h unmarshal remote raw r c'] Handler_Revoke_owns [of c h unmarshal remote raw q c']
    unfolding table_signed_def by auto
  moreover have "db_wf (data c')" using assms keepsD [OF keeps_AliasHandler(1)] keepsD [OF keeps_AliasHandler(2)] by blast
  ultimately show ?thesis by blast
qed

text \<open>The list handler answers with exactly the names the given peer owns, whoever asks.\<close>

lemma alias_list_of_peer:
  assumes run: "Handler_List h unmarshal raw c = (Inr names, c')"
  shows "\<exists>arg ref. unmarshal raw = Inr [arg] \<and> parse_ref (ah_lib h) arg = Some ref
    \<and> set names = {n. \<exists>s. owns (data c) n ref s} \<and> data c' = data c"
proof -
  obtain arg ref entries where *: "unmarshal raw = Inr [arg]" "parse_ref (ah_lib h) arg = Some ref"
    "Aliases_List c = (Inr entries, c')" "names = map a_name (filter (\<lambda>a. a_feed a = ref) entries)"
    using run unfolding Handler_List_def aliasesToListOfAliasStrings_def
    by (clarsimp simp: length_Suc_conv split: if_splits option.splits) metis
  let ?rows = "rows (aliases (data c))" and ?owner = "\<lambda>r. mb_pub_key (the (row (al_member r) (members (data c))))"
  have l: "entries = map (\<lambda>(i, r). to_alias i r (?owner r)) ?rows"
    and ids: "\<forall>(i, r) \<in> set ?rows. al_member r \<in> ids (members (data c))" and d: "data c' = data c"
    using Aliases_List_ok [OF *(3)] by auto
  have "names = map (\<lambda>x. al_name (snd x)) (filter (\<lambda>x. ?owner (snd x) = ref) ?rows)"
    unfolding *(4) l by (simp add: filter_map comp_def split_beta to_alias_def)
  then have "set names = {al_name r | i r. (i, r) \<in> set ?rows \<and> ?owner r = ref}" by force
  also have "\<dots> = {n. \<exists>s. owns (data c) n ref s}"
  proof -
    have "row (al_member r) (members (data c)) = Some (the (row (al_member r) (members (data c))))"
      if "(i, r) \<in> set (rows (aliases (data c)))" for i r
      using that ids by (auto simp flip: not_None_eq)
    then show ?thesis unfolding owns_def by (safe; metis option.sel)
  qed
  finally show ?thesis using * d by blast
qed

text \<open>A member's registration of a free alias that it signed with its key is accepted: it answers
  with the alias URL, and the alias is then the member's.\<close>

lemma signed_registration_accepted:
  assumes clean: "faults c = []" and wf: "db_wf (data c)" and law: "sign_verifies (ah_lib h)"
    and caller: "GetFeedRefFromAddr (ah_lib h) remote = Inr u" "pub_key (ah_lib h) u = ed_public (ah_lib h) k"
    and member: "(mid, m) \<in> set (rows (members (data c)))" "mb_pub_key m = u"
    and free: "alias_valid n" "\<not> exists_row (\<lambda>r. al_name r = n) (aliases (data c))"
    and sig: "sig = ed_sign (ah_lib h) k (createRegistrationMessage \<lparr>rg_alias = n, rg_user = u, rg_room = ah_self h\<rparr>)"
    and args: "unmarshal raw = Inr [n, b64_encode std_alphabet sig @ sigSuffix]"
  shows "\<exists>c'. Handler_Register h unmarshal remote raw c = (Inr (URLForAlias (ah_net h) n), c') \<and> owns (data c') n u sig"
proof -
  have "find_row (\<lambda>r. mb_pub_key r = u) (members (data c)) = Some (mid, m)"
    using member db_wf_parts(1) [OF wf] by (auto simp: members_ok_def intro: find_row_key)
  then obtain c' where c': "Aliases_Register n u sig c = (Inr (), c')"
    using Aliases_Register_clean [OF clean _ free(2)] by blast
  have "verify_confirmation (ah_lib h) \<lparr>cn_registration = \<lparr>rg_alias = n, rg_user = u, rg_room = ah_self h\<rparr>, cn_signature = sig\<rparr>"
    using law caller(2) by (simp add: verify_confirmation_def sign_verifies_def sig)
  then have "Handler_Register h unmarshal remote raw c = (Inr (URLForAlias (ah_net h) n), c')"
    using args free(1) caller(1) c' by (simp add: Handler_Register_def b64_decode_encode ret_def)
  then show ?thesis using Register_owns(1) [OF wf c'] by blast
qed

definition sample_alias_handler :: alias_handler where
  "sample_alias_handler = \<lparr>ah_self = FeedRef ''@room'', ah_net = \<lparr>RoomID = FeedRef ''@room'', ListenAddressMUXRPC = '':8008'',
      Domain = ''room.example'', PortHTTPS = 0, UseSubdomainForAliases = True, Development = False\<rparr>, ah_lib = sample_lib\<rparr>"

definition address_of :: "feed_ref \<Rightarrow> address" where
  "address_of who = \<lparr>shs_addr = Some (ref_string who)\<rparr>"

definition sample_signed_db :: db where
  "sample_signed_db = sample_db\<lparr>aliases := add_row \<lparr>al_name = ''bobby'', al_member = 2,
      al_signature = ''bob/=room-alias-registration:@room:@bob:bobby''\<rparr> empty_table\<rparr>"

definition sample_signed_conn :: "db conn" where
  "sample_signed_conn = \<lparr>data = sample_signed_db, faults = []\<rparr>"
lemma sample_address [simp]: "GetFeedRefFromAddr sample_lib (address_of bob) = Inr bob"
  "GetFeedRefFromAddr sample_lib (address_of carol) = Inr carol" "GetFeedRefFromAddr sample_lib (address_of dave) = Inr dave"
  using sample_refs(14-16) by (simp_all add: GetFeedRefFromAddr_def address_of_def del: sample_parse)

lemma sample_signed [simp]:
  "data sample_signed_conn = sample_signed_db" "faults sample_signed_conn = []"
  "members sample_signed_db = members sample_db" "ah_lib sample_alias_handler = sample_lib"
  "ah_self sample_alias_handler = FeedRef ''@room''"
  "rows (aliases sample_signed_db) = [(1, \<lparr>al_name = ''bobby'', al_member = 2,
      al_signature = ''bob/=room-alias-registration:@room:@bob:bobby''\<rparr>)]"
  by (simp_all add: sample_signed_conn_def sample_signed_db_def sample_alias_handler_def add_row_def empty_table_def)

lemma sample_signed_wf [simp]: "db_wf sample_signed_db"
  using sample_db_wf unfolding db_wf_def sample_signed_db_def
  by (simp add: aliases_ok_def exists_row_def empty_table_def sample_tables(1))

lemma sample_owns: "owns sample_signed_db n u s \<longleftrightarrow>
  n = ''bobby'' \<and> u = bob \<and> s = ''bob/=room-alias-registration:@room:@bob:bobby''"
  by (auto simp: owns_def row_def)

lemma sample_registration_message:
  "ed_sign sample_lib ''carol'' (createRegistrationMessage \<lparr>rg_alias = ''caro'', rg_user = carol, rg_room = FeedRef ''@room''\<rparr>)
     = ''carol/=room-alias-registration:@room:@carol:caro''"
  by (simp add: createRegistrationMessage_def carol_def)

lemma signed_registration_accepted_witness:
  "\<exists>c'. Handler_Register sample_alias_handler
     (\<lambda>_. Inr [''caro'', b64_encode std_alphabet ''carol/=room-alias-registration:@room:@carol:caro'' @ sigSuffix])
     (address_of carol) [] sample_signed_conn = (Inr (URLForAlias (ah_net sample_alias_handler) ''caro''), c')
   \<and> owns (data c') ''caro'' carol ''carol/=room-alias-registration:@room:@carol:caro''"
  by (rule signed_registration_accepted [where k = "''carol''" and mid = 3 and m = "\<lparr>mb_role = RoleMember, mb_pub_key = carol\<rparr>"])
     (simp_all only: sample_registration_message sample_signed sample_laws sample_address,
      simp_all add: sample_ed alias_valid_def alias_char_def less_eq_char_def exists_row_def carol_def)

lemma aliases_of_others_untouched_witness:
  "owns (data (snd (Handler_Revoke sample_alias_handler (\<lambda>_. Inr [''bobby'']) (address_of carol) [] sample_signed_conn))) ''bobby'' bob
     ''bob/=room-alias-registration:@room:@bob:bobby''"
  using aliases_of_others_untouched [of sample_signed_conn sample_alias_handler "address_of carol" carol bob "\<lambda>_. Inr [''bobby'']" "[]"
      _ _ "fst (Handler_Revoke sample_alias_handler (\<lambda>_. Inr [''bobby'']) (address_of carol) [] sample_signed_conn)"]
  by (simp add: sample_owns)

lemma aliases_stay_signed_witness:
  "table_signed sample_lib (FeedRef ''@room'') (data (snd (Handler_Revoke sample_alias_handler (\<lambda>_. Inr [''bobby'']) (address_of carol) [] sample_signed_conn)))"
proof -
  have "table_signed sample_lib (FeedRef ''@room'') sample_signed_db"
    by (simp add: table_signed_def sample_owns verify_confirmation_def createRegistrationMessage_def bob_def)
  then show ?thesis
    using aliases_stay_signed [of sample_signed_conn sample_alias_handler "\<lambda>_. Inr [''bobby'']" "address_of carol" "[]"
        _ _ "fst (Handler_Revoke sample_alias_handler (\<lambda>_. Inr [''bobby'']) (address_of carol) [] sample_signed_conn)"]
    by simp
qed

lemma alias_list_of_peer_witness:
  "\<exists>names c'. Handler_List sample_alias_handler (\<lambda>_. Inr [''@bob'']) [] sample_signed_conn = (Inr names, c')
     \<and> set names = {n. \<exists>s. owns sample_signed_db n (FeedRef ''@bob'') s}"
proof -
  have "Aliases_List sample_signed_conn = (Inr [to_alias 1 \<lparr>al_name = ''bobby'', al_member = 2,
      al_signature = ''bob/=room-alias-registration:@room:@bob:bobby''\<rparr> bob], sample_signed_conn)"
    by (simp add: Aliases_List_def andthen_def row_def ret_def)
  then obtain names c' where run: "Handler_List sample_alias_handler (\<lambda>_. Inr [''@bob'']) [] sample_signed_conn = (Inr names, c')"
    by (simp add: Handler_List_def andthen_def on_error_def has_prefix_def ret_def lift_res_def)
  show ?thesis using alias_list_of_peer [OF run] run by (auto simp: has_prefix_def)
qed

end
