(* ===== verification/WebErrors.thy ===== *)
theory WebErrors
  imports Database
begin

text \<open>
  \<open>web/errors\<close>: how an error becomes a page (\<open>errhandler.go\<close>) or a flash message (\<open>flashes.go\<close>), and
  the vocabulary of the web handlers: a request, what a handler does to the response, in order, and
  the database connection it leaves. The texts of errors and the translations are parameters.
\<close>

subsection \<open>Localized errors\<close>

text \<open>\<open>we_text\<close> is \<open>Error()\<close>; \<open>we_loc\<close> looks a label up and fills its data in.\<close>

record web_env =
  we_text :: "err \<Rightarrow> string"
  we_loc :: "string \<Rightarrow> (string \<times> string) list \<Rightarrow> string"

text \<open>The texts of the web errors, given the texts of the errors inside; a missing reason is printed as Go prints nil.\<close>

fun web_error_text :: "(err \<Rightarrow> string) \<Rightarrow> err \<Rightarrow> string" where
  "web_error_text inner NotAuthorized = ''rooms/web: not authorized''"
| "web_error_text inner Denied = ''rooms: this key has been banned''"
| "web_error_text inner (GenericLocalized l) = ''rooms/web: localized error ('' @ l @ '')''"
| "web_error_text inner (WebNotFound what) = ''rooms/web: item not found: '' @ what"
| "web_error_text inner (BadRequest place details) = ''rooms/web: bad request error: '' @ inner details"
| "web_error_text inner (Forbidden details) = ''rooms/web: access denied: '' @ inner details"
| "web_error_text inner (Redirect p reason) =
     ''rooms/web: redirecting to: '' @ p @ '' (reason: '' @ (case reason of None \<Rightarrow> ''%!s(<nil>)'' | Some r \<Rightarrow> inner r) @ '')''"
| "web_error_text inner (PageNotFound p) = ''rooms/web: page not found: '' @ p"
| "web_error_text inner (DatabaseError reason) = ''rooms/web: database failed to complete query: '' @ inner reason"
| "web_error_text inner e = inner e"

definition StatusInternalServerError :: nat where "StatusInternalServerError = 500"
definition StatusForbidden :: nat where "StatusForbidden = 403"
definition StatusNotFound :: nat where "StatusNotFound = 404"
definition StatusBadRequest :: nat where "StatusBadRequest = 400"
definition StatusMethodNotAllowed :: nat where "StatusMethodNotAllowed = 405"
definition StatusUnauthorized :: nat where "StatusUnauthorized = 401"
definition StatusOK :: nat where "StatusOK = 200"
definition StatusSeeOther :: nat where "StatusSeeOther = 303"
definition StatusTemporaryRedirect :: nat where "StatusTemporaryRedirect = 307"

lemmas status_defs = StatusInternalServerError_def StatusForbidden_def StatusNotFound_def StatusBadRequest_def
  StatusMethodNotAllowed_def StatusUnauthorized_def StatusOK_def StatusSeeOther_def StatusTemporaryRedirect_def

definition localizeError :: "web_env \<Rightarrow> err \<Rightarrow> nat \<times> string" where
  "localizeError E e =
     (if e = NotAuthorized then (StatusForbidden, we_loc E ''ErrorNotAuthorized'' [])
      else if e = BadLogin then (StatusInternalServerError, we_loc E ''ErrorAuthBadLogin'' [])
      else case errors_as generic_localized e of
          Some label \<Rightarrow> (StatusInternalServerError, we_loc E label [])
        | None \<Rightarrow>
      if errors_is e ErrNotFound then (StatusNotFound, we_loc E ''ErrorNotFound'' [])
      else case errors_as already_added e of
          Some r \<Rightarrow> (StatusInternalServerError, we_loc E ''ErrorAlreadyAdded'' [(''Feed'', ref_string r)])
        | None \<Rightarrow>
      case errors_as page_not_found e of
          Some p \<Rightarrow> (StatusNotFound, we_loc E ''ErrorPageNotFound'' [(''Path'', p)])
        | None \<Rightarrow>
      case errors_as bad_request e of
          Some (w, d) \<Rightarrow> (StatusBadRequest, we_loc E ''ErrorBadRequest'' [(''Where'', w), (''Details'', we_text E d)])
        | None \<Rightarrow>
      case errors_as forbidden e of
          Some d \<Rightarrow> (StatusForbidden, we_loc E ''ErrorForbidden'' [(''Details'', we_text E d)])
        | None \<Rightarrow> (StatusInternalServerError, we_text E e))"

subsection \<open>Flash messages\<close>

datatype flash_kind = FlashError | FlashNotification

record flash_message =
  fm_kind :: flash_kind
  fm_text :: string

text \<open>
  The session that holds the flashes; reading or writing it can fail, and the two functions that add
  a message panic then.
\<close>

record flash_store =
  fl_messages :: "flash_message list"
  fl_get :: "err option"
  fl_save :: "err option"

definition add_flash :: "flash_message \<Rightarrow> flash_store \<Rightarrow> unit res \<times> flash_store" where
  "add_flash m s =
     (case fl_get s of
        Some e \<Rightarrow> (Inl (Panic ''flashHelper: failed to get session''), s)
      | None \<Rightarrow>
          (case fl_save s of
             Some e \<Rightarrow> (Inl (Panic ''flashHelper: failed to save session''), s)
           | None \<Rightarrow> (Inr (), s\<lparr>fl_messages := fl_messages s @ [m]\<rparr>)))"

definition AddMessage :: "web_env \<Rightarrow> string \<Rightarrow> flash_store \<Rightarrow> unit res \<times> flash_store" where
  "AddMessage E label = add_flash \<lparr>fm_kind = FlashNotification, fm_text = we_loc E label []\<rparr>"

definition AddError :: "web_env \<Rightarrow> err \<Rightarrow> flash_store \<Rightarrow> unit res \<times> flash_store" where
  "AddError E e = add_flash \<lparr>fm_kind = FlashError, fm_text = snd (localizeError E e)\<rparr>"

text \<open>\<open>GetAll\<close> takes the messages out; when the session cannot be saved they stay.\<close>

definition GetAll :: "flash_store \<Rightarrow> flash_message list res \<times> flash_store" where
  "GetAll s =
     (case fl_get s of
        Some e \<Rightarrow> (Inl e, s)
      | None \<Rightarrow>
          (case fl_save s of
             Some e \<Rightarrow> (Inl e, s)
           | None \<Rightarrow> (Inr (fl_messages s), s\<lparr>fl_messages := []\<rparr>)))"

subsection \<open>Requests and replies\<close>

text \<open>
  A request: query and form fields are empty texts when they are missing, the form may fail to parse,
  and \<open>rq_member\<close> is the member the middleware put into the context.
\<close>

record 'm web_request =
  hr_method :: string
  hr_path :: string
  hr_query :: "string \<Rightarrow> string"
  hr_form :: "string \<Rightarrow> string"
  hr_form_error :: "err option"
  hr_header :: "string \<Rightarrow> string"
  hr_member :: "'m option"

text \<open>
  What a handler does, in order: an error page with the status asked for, a plain error, a redirect,
  a flash message, a rendered page, a JSON object with its status, an error it returns to the
  renderer, a session cookie. Nothing stops a handler after the first of them.
\<close>

datatype 'p effect =
    ErrorPage nat err
  | PlainError nat string
  | RedirectTo nat string
  | FlashErr err
  | FlashMsg string
  | Page nat 'p
  | Json nat "(string \<times> string) list"
  | Failed err
  | SetCookie string

type_synonym 'p reply = "'p effect list \<times> db conn"

text \<open>The two ways on after a call: the effects of an error, or the rest of the handler.\<close>

definition on_result :: "'a res \<times> db conn \<Rightarrow> (err \<Rightarrow> 'p effect list) \<Rightarrow> ('a \<Rightarrow> db conn \<Rightarrow> 'p reply) \<Rightarrow> 'p reply" where
  "on_result r failed ok = (case r of (Inl e, c) \<Rightarrow> (failed e, c) | (Inr x, c) \<Rightarrow> ok x c)"

text \<open>\<open>also_do es\<close> puts effects after those of a handler, as a deferred call does.\<close>

definition also_do :: "'p effect list \<Rightarrow> 'p reply \<Rightarrow> 'p reply" where
  "also_do es r = (fst r @ es, snd r)"

lemma on_result_cases:
  "on_result r f k = (es, c') \<longleftrightarrow> (\<exists>e. r = (Inl e, c') \<and> es = f e) \<or> (\<exists>x c1. r = (Inr x, c1) \<and> k x c1 = (es, c'))"
  by (cases r) (auto simp: on_result_def split: sum.splits)

lemma on_result_simps [simp]:
  "on_result (Inl e, c) f k = (f e, c)" "on_result (Inr x, c) f k = k x c"
  by (simp_all add: on_result_def)

lemma also_do_cases: "also_do es r = (es', c') \<longleftrightarrow> (\<exists>es0. r = (es0, c') \<and> es' = es0 @ es)"
  by (cases r) (auto simp: also_do_def)

lemma also_do_simps [simp]: "also_do es (es0, c) = (es0 @ es, c)" "snd (also_do es r) = snd r"
  by (simp_all add: also_do_def)

subsection \<open>The error handler\<close>

record error_page =
  ep_status :: nat
  ep_text :: string
  ep_back :: string

datatype handled = Redirected string | Shown error_page | Crashed

text \<open>The status a caller of \<open>Handle\<close> passes is not used.\<close>

definition Handle :: "web_env \<Rightarrow> 'm web_request \<Rightarrow> nat \<Rightarrow> err \<Rightarrow> flash_store \<Rightarrow> handled \<times> flash_store" where
  "Handle E req code e s =
     (case errors_as redirect_to e of
        Some (path, reason) \<Rightarrow>
          (case reason of
             None \<Rightarrow> (Redirected path, s)
           | Some r \<Rightarrow>
               (case AddError E r s of
                  (Inl _, s') \<Rightarrow> (Crashed, s')
                | (Inr _, s') \<Rightarrow> (Redirected path, s')))
      | None \<Rightarrow>
          (case localizeError E e of
             (code', msg) \<Rightarrow>
               (Shown \<lparr>ep_status = code', ep_text = msg,
                  ep_back = (if code' = StatusNotFound
                             then (if hr_header req ''Referer'' \<noteq> [] then hr_header req ''Referer'' else ''/'')
                             else hr_path req)\<rparr>, s)))"

subsection \<open>Properties\<close>

lemma errors_as_none: "errors_as sel e = None \<longleftrightarrow> (\<forall>x \<in> set (chain e). sel x = None)"
  by (auto simp: errors_as_def find_None_conv split: option.splits dest: find_SomeD)

text \<open>Every error has one of four statuses, whatever the handler asked for: 403 for what is not
  authorized or forbidden, 404 for what the database or the router does not find, 400 for a bad
  request, and 500 for everything else, in particular for the web's own not-found error.\<close>

lemma error_page_status:
  "fst (localizeError E e) \<in> {500, 403, 404, 400}
   \<and> (fst (localizeError E e) = 404 \<longrightarrow> errors_is e ErrNotFound \<or> errors_as page_not_found e \<noteq> None)
   \<and> (fst (localizeError E e) = 403 \<longrightarrow> e = NotAuthorized \<or> errors_as forbidden e \<noteq> None)
   \<and> (fst (localizeError E e) = 400 \<longrightarrow> errors_as bad_request e \<noteq> None)
   \<and> fst (localizeError E (WebNotFound w)) = 500 \<and> fst (localizeError E (Wrapped s NotAuthorized)) = 500"
  by (auto simp: localizeError_def status_defs split: option.splits prod.splits)

text \<open>A flash message is shown once: what was added since the last look is given in order, and the next
  look finds nothing; an error with a redirect reaches the page it redirects to this way.\<close>

lemma flash_shown_once:
  assumes "fl_get s = None" "fl_save s = None" "errors_as redirect_to e = Some (path, Some r)"
  shows "\<exists>s1 s2. Handle E req code e s = (Redirected path, s1)
     \<and> GetAll s1 = (Inr (fl_messages s @ [\<lparr>fm_kind = FlashError, fm_text = snd (localizeError E r)\<rparr>]), s2)
     \<and> GetAll s2 = (Inr [], s2)"
  using assms by (simp add: Handle_def AddError_def add_flash_def GetAll_def)

lemma flash_shown_once_witness:
  "\<exists>s1 s2. Handle \<lparr>we_text = (\<lambda>_. ''failed''), we_loc = (\<lambda>l d. l)\<rparr> \<lparr>hr_method = ''POST'', hr_path = ''/admin/aliases/revoke'',
        hr_query = (\<lambda>_. []), hr_form = (\<lambda>_. []), hr_form_error = None, hr_header = (\<lambda>_. []), hr_member = None\<rparr> 400
        (Redirect ''/admin/members'' (Some ErrNotFound)) \<lparr>fl_messages = [], fl_get = None, fl_save = None\<rparr>
       = (Redirected ''/admin/members'', s1)
     \<and> GetAll s1 = (Inr [\<lparr>fm_kind = FlashError, fm_text = ''ErrorNotFound''\<rparr>], s2) \<and> GetAll s2 = (Inr [], s2)"
  using flash_shown_once [of "\<lparr>fl_messages = [], fl_get = None, fl_save = None\<rparr>" "Redirect ''/admin/members'' (Some ErrNotFound)"
      "''/admin/members''" ErrNotFound "\<lparr>we_text = (\<lambda>_. ''failed''), we_loc = (\<lambda>l d. l)\<rparr>"]
  by (simp add: localizeError_def)

lemma error_page_status_witness:
  "fst (localizeError \<lparr>we_text = (\<lambda>_. ''failed''), we_loc = (\<lambda>l d. l)\<rparr> (PageNotFound ''/nope'')) = 404
   \<and> (errors_is (PageNotFound ''/nope'') ErrNotFound \<or> errors_as page_not_found (PageNotFound ''/nope'') \<noteq> None)"
proof -
  have s: "fst (localizeError \<lparr>we_text = (\<lambda>_. ''failed''), we_loc = (\<lambda>l d. l)\<rparr> (PageNotFound ''/nope'')) = 404"
    by (simp add: localizeError_def status_defs)
  then show ?thesis
    using error_page_status [of "\<lparr>we_text = (\<lambda>_. ''failed''), we_loc = (\<lambda>l d. l)\<rparr>" "PageNotFound ''/nope''" "[]" "[]"] by blast
qed

end
