(* ===== verification/WebMembers.thy ===== *)
theory WebMembers
  imports WebErrors Sessions Denied
begin

text \<open>
  \<open>web/members/helper.go\<close>: the member behind a request and what a member may do; and the session
  cookie of \<open>web/handlers/auth/withssb.go\<close>, on which the middleware relies.
\<close>

type_synonym request = "member web_request"

definition FromContext :: "request \<Rightarrow> member option" where
  "FromContext req = hr_member req"

subsection \<open>Permitted actions\<close>

definition elevated :: "role \<Rightarrow> bool" where
  "elevated r \<longleftrightarrow> r = RoleAdmin \<or> r = RoleModerator"

definition may_invite :: "privacy_mode \<Rightarrow> role \<Rightarrow> bool" where
  "may_invite pm r =
     (if pm = ModeOpen then True
      else if pm = ModeCommunity then RoleUnknown < r \<and> r \<le> RoleAdmin
      else if pm = ModeRestricted then elevated r
      else False)"

definition may_change_denied :: "privacy_mode \<Rightarrow> role \<Rightarrow> bool" where
  "may_change_denied pm r =
     (if pm = ModeCommunity then True
      else if pm = ModeOpen \<or> pm = ModeRestricted then elevated r
      else False)"

definition may_remove_member :: "privacy_mode \<Rightarrow> role \<Rightarrow> bool" where
  "may_remove_member pm r = elevated r"

definition may_change_notice :: "privacy_mode \<Rightarrow> role \<Rightarrow> bool" where
  "may_change_notice pm r =
     (if pm = ModeCommunity then True
      else if pm = ModeOpen \<or> pm = ModeRestricted then elevated r
      else False)"

definition ActionInviteMember :: string where "ActionInviteMember = ''invite''"
definition ActionChangeDeniedKeys :: string where "ActionChangeDeniedKeys = ''change-denied-keys''"
definition ActionRemoveMember :: string where "ActionRemoveMember = ''remove-member''"
definition ActionChangeNotice :: string where "ActionChangeNotice = ''change-notice''"

lemmas action_names = ActionInviteMember_def ActionChangeDeniedKeys_def ActionRemoveMember_def ActionChangeNotice_def

definition allowedActionsMap :: "(string \<times> (privacy_mode \<Rightarrow> role \<Rightarrow> bool)) list" where
  "allowedActionsMap =
     [(ActionInviteMember, may_invite), (ActionChangeDeniedKeys, may_change_denied),
      (ActionRemoveMember, may_remove_member), (ActionChangeNotice, may_change_notice)]"

definition AllowedActions :: "string \<Rightarrow> (privacy_mode \<Rightarrow> role \<Rightarrow> bool) option" where
  "AllowedActions nm = map_of allowedActionsMap nm"

definition CheckAllowed :: "request \<Rightarrow> string \<Rightarrow> member act" where
  "CheckAllowed req action =
     (case FromContext req of
        None \<Rightarrow> fail NotAuthorized
      | Some m \<Rightarrow>
          andthen Config_GetPrivacyMode (\<lambda>pm.
          case AllowedActions action of
            None \<Rightarrow> fail (Wrapped (''unknown action: '' @ action) NotAuthorized)
          | Some allowed \<Rightarrow> if \<not> allowed pm (m_role m) then fail NotAuthorized else ret m))"

subsection \<open>What templates may ask\<close>

definition is_logged_in :: "request \<Rightarrow> member option" where
  "is_logged_in req = FromContext req"

definition member_has_role :: "request \<Rightarrow> string \<Rightarrow> bool" where
  "member_has_role req has =
     (case FromContext req of
        None \<Rightarrow> False
      | Some m \<Rightarrow> (case role_unmarshal has of Inl _ \<Rightarrow> False | Inr r \<Rightarrow> m_role m = r))"

definition member_is_admin :: "request \<Rightarrow> bool" where
  "member_is_admin req = (case FromContext req of None \<Rightarrow> False | Some m \<Rightarrow> m_role m = RoleAdmin)"

definition member_is_elevated :: "request \<Rightarrow> bool" where
  "member_is_elevated req =
     (case FromContext req of None \<Rightarrow> False | Some m \<Rightarrow> m_role m = RoleAdmin \<or> m_role m = RoleModerator)"

text \<open>The mode is read when the template function is made, the action when it is called.\<close>

definition member_can :: "request \<Rightarrow> string \<Rightarrow> bool act" where
  "member_can req what =
     (case FromContext req of
        None \<Rightarrow> ret False
      | Some m \<Rightarrow>
          andthen Config_GetPrivacyMode (\<lambda>pm.
          case AllowedActions what of
            None \<Rightarrow> fail (Msg (''unrecognized action: '' @ what))
          | Some check \<Rightarrow> ret (check pm (m_role m))))"

subsection \<open>The session cookie\<close>

text \<open>
  What the cookie store gives back: whether the session is new, and its two values, each of which may
  be missing or of another type (\<open>Some None\<close>). \<open>ck_error\<close> is a cookie that does not decode.
\<close>

record cookie =
  ck_error :: "err option"
  ck_new :: bool
  ck_token :: "string option option"
  ck_timeout :: "time option option"

definition no_cookie :: cookie where
  "no_cookie = \<lparr>ck_error = None, ck_new = True, ck_token = None, ck_timeout = None\<rparr>"

definition sessionLifetime :: time where "sessionLifetime = hour * 24"

definition AuthenticateRequest :: "time \<Rightarrow> cookie \<Rightarrow> member act" where
  "AuthenticateRequest now ck =
     (case ck_error ck of
        Some e \<Rightarrow> fail e
      | None \<Rightarrow>
          if ck_new ck then fail NotAuthorized
          else (case (ck_token ck, ck_timeout ck) of
                  (Some tokenVal, Some (Some tout)) \<Rightarrow>
                    if now > tout then fail NotAuthorized
                    else (case tokenVal of
                            None \<Rightarrow> fail NotAuthorized
                          | Some token \<Rightarrow>
                              andthen (Sessions_CheckToken now token) (\<lambda>memberID. Members_GetByID memberID))
                | _ \<Rightarrow> fail NotAuthorized))"

text \<open>\<open>save_error\<close> is the error of writing the cookie.\<close>

definition saveCookie :: "err option \<Rightarrow> time \<Rightarrow> string \<Rightarrow> cookie \<Rightarrow> unit res \<times> cookie" where
  "saveCookie save_error now token ck =
     (case ck_error ck of
        Some e \<Rightarrow> (Inl (Wrapped ''ssb http auth: failed to load cookie session'' e), ck)
      | None \<Rightarrow>
          (case save_error of
             Some e \<Rightarrow> (Inl (Wrapped ''ssb http auth: failed to update cookie session'' e), ck)
           | None \<Rightarrow> (Inr (), \<lparr>ck_error = None, ck_new = False, ck_token = Some (Some token), ck_timeout = Some (Some (now + sessionLifetime))\<rparr>)))"

definition Logout :: "err option \<Rightarrow> time \<Rightarrow> cookie \<Rightarrow> db conn \<Rightarrow> unit res \<times> cookie \<times> db conn" where
  "Logout save_error now ck c =
     (case ck_error ck of
        Some e \<Rightarrow> (Inl e, ck, c)
      | None \<Rightarrow>
          (case ck_token ck of
             None \<Rightarrow> (Inr (), ck, c)
           | Some None \<Rightarrow> (Inl (Msg ''wrong token type''), ck, c)
           | Some (Some token) \<Rightarrow>
               (case Sessions_RemoveToken token c of
                  (Inl e, c1) \<Rightarrow> (Inl e, ck, c1)
                | (Inr _, c1) \<Rightarrow>
                    (case save_error of
                       Some e \<Rightarrow> (Inl e, ck, c1)
                     | None \<Rightarrow> (Inr (), no_cookie, c1)))))"

subsection \<open>The middleware\<close>

text \<open>
  \<open>withPassword\<close> is what the password session of the third-party package gives: an error, or its value,
  which should be a member's id (\<open>None\<close>: another type). A session whose member is gone ends the search.
\<close>

definition ContextInjecter :: "int64 option res \<Rightarrow> time \<Rightarrow> cookie \<Rightarrow> request \<Rightarrow> db conn \<Rightarrow> request \<times> db conn" where
  "ContextInjecter withPassword now ck req c =
     (case (case withPassword of
              Inl _ \<Rightarrow> (Inr None, c)
            | Inr None \<Rightarrow> (Inl NotAuthorized, c)
            | Inr (Some mid) \<Rightarrow> (case Members_GetByID mid c of (Inl e, c1) \<Rightarrow> (Inl e, c1) | (Inr m, c1) \<Rightarrow> (Inr (Some m), c1))) of
        (Inl _, c1) \<Rightarrow> (req, c1)
      | (Inr member, c1) \<Rightarrow>
          (case AuthenticateRequest now ck c1 of
             (Inr m, c2) \<Rightarrow> (req\<lparr>hr_member := Some m\<rparr>, c2)
           | (Inl _, c2) \<Rightarrow>
               if \<not> is_ok withPassword then (req, c2) else (req\<lparr>hr_member := member\<rparr>, c2)))"

definition AuthenticateFromContext :: "(request \<Rightarrow> db conn \<Rightarrow> 'p reply) \<Rightarrow> request \<Rightarrow> db conn \<Rightarrow> 'p reply" where
  "AuthenticateFromContext next_handler req c =
     (if FromContext req = None then ([ErrorPage StatusUnauthorized NotAuthorized], c) else next_handler req c)"

subsection \<open>Permissions\<close>

lemma CheckAllowed_ok:
  assumes "CheckAllowed req action c = (Inr m, c')"
  shows "FromContext req = Some m \<and> data c' = data c
     \<and> (\<exists>f. AllowedActions action = Some f \<and> f (cf_mode (the_config (data c))) (m_role m))"
proof (cases "FromContext req")
  case None
  then show ?thesis using assms by (simp add: CheckAllowed_def)
next
  case (Some m0)
  note m0 = this
  then obtain pm c1 where pm: "Config_GetPrivacyMode c = (Inr pm, c1)"
    and rest: "(case AllowedActions action of None \<Rightarrow> fail (Wrapped (''unknown action: '' @ action) NotAuthorized)
          | Some allowed \<Rightarrow> if \<not> allowed pm (m_role m0) then fail NotAuthorized else ret m0) c1 = (Inr m, c')"
    using assms by (simp add: CheckAllowed_def) blast
  note d = Config_GetPrivacyMode_ok [OF pm]
  show ?thesis
  proof (cases "AllowedActions action")
    case None
    then show ?thesis using rest by simp
  next
    case (Some f)
    then have f: "f pm (m_role m0)" "m = m0" "c' = c1" using rest by (simp_all split: if_splits)
    then show ?thesis using m0 d Some by simp
  qed
qed

lemma keeps_CheckAllowed [keeps_wf]: "keeps I (CheckAllowed req action)"
  unfolding CheckAllowed_def by (auto intro!: keeps_wf split: option.split)

lemma keeps_same: "(\<And>I. keeps I m) \<Longrightarrow> m c = (r, c') \<Longrightarrow> data c' = data c"
  using keepsD [of "\<lambda>d. d = data c" m c r c'] by simp

lemma CheckAllowed_data: "CheckAllowed req action c = (r, c') \<Longrightarrow> data c' = data c"
  by (rule keeps_same [OF keeps_CheckAllowed])

lemma CheckAllowed_clean:
  "db_wf (data c) \<Longrightarrow> faults c = [] \<Longrightarrow> FromContext req = Some m \<Longrightarrow> AllowedActions action = Some f \<Longrightarrow>
     CheckAllowed req action c = (if f (cf_mode (the_config (data c))) (m_role m) then Inr m else Inl NotAuthorized, c)"
  by (simp add: CheckAllowed_def andthen_def Config_get_clean ret_def fail_def)

lemma role_order: "RoleUnknown < RoleMember" "RoleMember \<le> RoleAdmin" "RoleModerator \<le> RoleAdmin" "RoleUnknown < RoleModerator" "RoleUnknown < RoleAdmin"
  by (simp_all add: role_defs)

text \<open>C12: Who may do what: in every valid mode, admins and moderators may do everything; plain members may invite
  in the open and the community mode, and change denied keys and notices in the community mode; nobody
  else but them may remove members; and in an unknown mode nothing but that is permitted.\<close>

theorem permissions_by_role_and_mode:
  assumes "AllowedActions action = Some f" "r \<in> set valid_roles"
  shows "f pm r \<longleftrightarrow>
     (if action = ActionRemoveMember then elevated r
      else pm \<in> set AllPrivacyModes \<and>
        (elevated r \<or> pm = ModeCommunity \<or> pm = ModeOpen \<and> action = ActionInviteMember))"
proof -
  have a: "(action, f) \<in> set allowedActionsMap" using assms(1) by (auto simp: AllowedActions_def dest: map_of_SomeD)
  have r: "r = RoleMember \<or> r = RoleModerator \<or> r = RoleAdmin" using assms(2) by (auto simp: valid_roles_def)
  have m: "pm \<in> set AllPrivacyModes \<longleftrightarrow> pm = ModeOpen \<or> pm = ModeCommunity \<or> pm = ModeRestricted" by (simp add: AllPrivacyModes_def)
  have ne: "ModeOpen \<noteq> ModeCommunity" "ModeOpen \<noteq> ModeRestricted" "ModeCommunity \<noteq> ModeRestricted" by (simp_all add: mode_defs)
  have act: "action = ActionInviteMember \<and> f = may_invite \<or> action = ActionChangeDeniedKeys \<and> f = may_change_denied
     \<or> action = ActionRemoveMember \<and> f = may_remove_member \<or> action = ActionChangeNotice \<and> f = may_change_notice"
    using a by (simp add: allowedActionsMap_def)
  have an: "ActionInviteMember \<noteq> ActionRemoveMember" "ActionChangeDeniedKeys \<noteq> ActionRemoveMember" "ActionChangeNotice \<noteq> ActionRemoveMember"
    "ActionChangeDeniedKeys \<noteq> ActionInviteMember" "ActionChangeNotice \<noteq> ActionInviteMember" by (simp_all add: action_names)
  have any: "RoleUnknown < r \<and> r \<le> RoleAdmin" using r role_order by auto
  from act show ?thesis
  proof (elim disjE conjE)
    assume "action = ActionInviteMember" "f = may_invite"
    then show ?thesis using an any m ne by (auto simp: may_invite_def)
  next
    assume "action = ActionChangeDeniedKeys" "f = may_change_denied"
    then show ?thesis using an m ne by (auto simp: may_change_denied_def)
  next
    assume "action = ActionRemoveMember" "f = may_remove_member"
    then show ?thesis by (simp add: may_remove_member_def)
  next
    assume "action = ActionChangeNotice" "f = may_change_notice"
    then show ?thesis using an m ne by (auto simp: may_change_notice_def)
  qed
qed

lemma permissions_by_role_and_mode_witness:
  "may_change_denied ModeCommunity RoleMember \<and> \<not> may_change_denied ModeRestricted RoleMember"
  using permissions_by_role_and_mode [of ActionChangeDeniedKeys may_change_denied RoleMember ModeCommunity]
    permissions_by_role_and_mode [of ActionChangeDeniedKeys may_change_denied RoleMember ModeRestricted]
  by (simp add: AllowedActions_def allowedActionsMap_def action_names valid_roles_def AllPrivacyModes_def elevated_def mode_defs role_defs)

subsection \<open>Sessions of the web\<close>

lemma Members_GetByID_ok:
  "Members_GetByID i c = (Inr m, c') \<Longrightarrow> data c' = data c \<and> m_id m = i \<and>
     (\<exists>r. row i (members (data c)) = Some r \<and> mb_pub_key r = m_pub_key m \<and> m_role m = mb_role r)"
  unfolding Members_GetByID_def by (auto dest!: read_ok simp: to_member_def)

lemma AuthenticateRequest_ok:
  assumes "AuthenticateRequest now ck c = (Inr m, c')"
  shows "\<exists>tok tout at r. ck_token ck = Some (Some tok) \<and> ck_timeout ck = Some (Some tout) \<and> now \<le> tout
     \<and> session_map (data c) tok = Some (m_id m, at) \<and> now - at \<le> sessionTimeout
     \<and> row (m_id m) (members (data c)) = Some r \<and> mb_pub_key r = m_pub_key m \<and> m_role m = mb_role r \<and> data c' = data c"
proof -
  obtain tok tout where t: "ck_token ck = Some (Some tok)" "ck_timeout ck = Some (Some tout)" "now \<le> tout"
      "andthen (Sessions_CheckToken now tok) (\<lambda>memberID. Members_GetByID memberID) c = (Inr m, c')"
    using assms by (auto simp: AuthenticateRequest_def split: option.splits if_splits)
  then obtain i c1 where 1: "Sessions_CheckToken now tok c = (Inr i, c1)" "Members_GetByID i c1 = (Inr m, c')" by auto
  from CheckToken_ok [OF 1(1)] obtain at where 2: "data c1 = data c" "session_map (data c) tok = Some (i, at)" "now - at \<le> sessionTimeout" by blast
  from Members_GetByID_ok [OF 1(2)] obtain r where 3: "data c' = data c1" "m_id m = i" "row i (members (data c1)) = Some r"
    "mb_pub_key r = m_pub_key m" "m_role m = mb_role r" by blast
  show ?thesis
    by (rule exI [of _ tok], rule exI [of _ tout], rule exI [of _ at], rule exI [of _ r]) (use t(1-3) 2 3 in simp)
qed


definition carol_cookie :: cookie where
  "carol_cookie = \<lparr>ck_error = None, ck_new = False, ck_token = Some (Some sample_session), ck_timeout = Some (Some (29 * hour))\<rparr>"

lemma carol_authenticates:
  "AuthenticateRequest (20 * hour) carol_cookie session_conn
     = (Inr \<lparr>m_id = 3, m_role = RoleMember, m_pub_key = carol, m_aliases = []\<rparr>, session_conn)"
proof -
  have "Sessions_CheckToken (20 * hour) sample_session session_conn = (Inr 3, session_conn)"
    by (simp add: CheckToken_clean sessionTimeout_def time_units)
  moreover have "Members_GetByID 3 session_conn = (Inr \<lparr>m_id = 3, m_role = RoleMember, m_pub_key = carol, m_aliases = []\<rparr>, session_conn)"
    by (simp add: Members_GetByID_def andthen_def on_error_def ret_def session_conn_def sample_conn_def to_member_def aliases_of_def row_def getAliases_def select_rows_def empty_table_def)
  ultimately show ?thesis by (simp add: AuthenticateRequest_def carol_cookie_def andthen_def time_units)
qed


end
