(* ===== verification/Notices.thy ===== *)
theory Notices
  imports Sessions
begin

text \<open>
  \<open>roomdb/sqlite/notices.go\<close>: the notices of the room's pages and the pins that give some of
  them a fixed place, one notice per pin and language.
\<close>

subsection \<open>Operations\<close>

definition to_notice :: "int64 \<times> notice_row \<Rightarrow> notice" where
  "to_notice = (\<lambda>(i, r). \<lparr>n_id = i, n_title = nr_title r, n_content = nr_content r, n_language = nr_language r\<rparr>)"

definition notices_of_pin :: "int64 \<Rightarrow> db \<Rightarrow> (int64 \<times> notice_row) list" where
  "notices_of_pin pid d = filter (\<lambda>x. List.member (pin_notices d) (fst x, pid)) (rows (notices d))"

text \<open>
  \<open>List\<close> builds a map from names to notices; it is given by its entries in the order they are
  put in. A name that is in the map already would get the new notices appended.
\<close>

fun add_to_pin :: "string \<Rightarrow> notice list \<Rightarrow> (string \<times> notice list) list \<Rightarrow> (string \<times> notice list) list" where
  "add_to_pin name ns [] = [(name, ns)]"
| "add_to_pin name ns ((k, v) # m) = (if k = name then (k, v @ ns) # m else (k, v) # add_to_pin name ns m)"

definition PinnedNotices_List :: "(string \<times> notice list) list act" where
  "PinnedNotices_List =
     andthen (read_all pins) (\<lambda>lst.
     if lst = [] then ret []
     else andthen (read_all (\<lambda>d. map (\<lambda>(pid, name). (name, map to_notice (notices_of_pin pid d))) lst)) (\<lambda>entries.
          ret (foldl (\<lambda>m (name, ns). if ns = [] then m else add_to_pin name ns m) [] entries)))"

definition PinnedNotices_Get :: "string \<Rightarrow> string \<Rightarrow> notice act" where
  "PinnedNotices_Get name lang =
     andthen (on_error norows_to_notfound (one (\<lambda>d. List.find (\<lambda>p. snd p = name) (pins d)))) (\<lambda>(pid, _).
     andthen (read_all (\<lambda>d. filter (\<lambda>(_, r). nr_language r = lang) (notices_of_pin pid d))) (\<lambda>ns.
     if length ns \<noteq> 1
     then fail (Msg (''pinnedNotice: expected 1 notice but got '' @ show_nat (length ns)))
     else ret (to_notice (hd ns))))"

definition PinnedNotices_Set :: "string \<Rightarrow> int64 \<Rightarrow> unit act" where
  "PinnedNotices_Set name noticeID =
     (if \<not> pinned_valid name then fail (Msg (''pinned notice: invalid notice name: '' @ name))
      else andthen (on_error norows_to_notfound (find_by_id notices noticeID)) (\<lambda>_.
           andthen (one (\<lambda>d. List.find (\<lambda>p. snd p = name) (pins d))) (\<lambda>(pid, _).
           exec ''failed to insert into join table'' (insert_pin_notice pid noticeID))))"

definition Notices_GetByID :: "int64 \<Rightarrow> notice act" where
  "Notices_GetByID i =
     andthen (on_error norows_to_notfound (find_by_id notices i)) (\<lambda>r. ret (to_notice (i, r)))"

definition Notices_RemoveID :: "int64 \<Rightarrow> unit act" where
  "Notices_RemoveID i =
     andthen (on_error norows_to_notfound (find_by_id notices i)) (\<lambda>_.
     exec ''models: unable to delete from notices'' (delete_notice i))"

text \<open>
  \<open>Save\<close> inserts when the id is zero and writes the new id into the notice; otherwise it runs an
  \<open>UPDATE\<close>, which changes no row when the id does not exist and is no error then.
\<close>

definition notice_columns :: "notice \<Rightarrow> notice_row" where
  "notice_columns p = \<lparr>nr_title = n_title p, nr_content = n_content p, nr_language = n_language p\<rparr>"

definition Notices_Save :: "notice \<Rightarrow> notice act" where
  "Notices_Save p =
     (if n_id p = 0 then
        andthen (exec ''models: unable to insert into notices'' (insert_notice (notice_columns p))) (\<lambda>i.
        ret (p\<lparr>n_id := i\<rparr>))
      else
        andthen (on_error norows_to_notfound
          (exec ''models: unable to update notices row'' (update_notice (n_id p) (notice_columns p)))) (\<lambda>_.
        ret p))"

lemmas notices_defs = PinnedNotices_List_def PinnedNotices_Get_def PinnedNotices_Set_def
  Notices_GetByID_def Notices_RemoveID_def Notices_Save_def

lemma keeps_Notices [keeps_wf]:
  "keeps I PinnedNotices_List" "keeps I (PinnedNotices_Get n l)" "keeps db_wf (PinnedNotices_Set n i)"
  "keeps I (Notices_GetByID i)" "keeps db_wf (Notices_RemoveID i)" "keeps db_wf (Notices_Save p)"
  unfolding notices_defs by (auto intro!: keeps_wf)

lemma clean_Notices [clean_intros]:
  "keeps_clean PinnedNotices_List" "keeps_clean (PinnedNotices_Get n l)" "keeps_clean (PinnedNotices_Set n i)"
  "keeps_clean (Notices_GetByID i)" "keeps_clean (Notices_RemoveID i)" "keeps_clean (Notices_Save p)"
  unfolding notices_defs by (auto intro!: clean_intros)

subsection \<open>Facts\<close>

lemma notice_row_unique: "db_wf d \<Longrightarrow> (i, r) \<in> set (rows (notices d)) \<Longrightarrow> row i (notices d) = Some r"
  by (simp add: row_in db_wf_def)

lemma Save_new_clean:
  "faults c = [] \<Longrightarrow> n_id p = 0 \<Longrightarrow>
   Notices_Save p c = (Inr (p\<lparr>n_id := seq (notices (data c)) + 1\<rparr>),
     c\<lparr>data := (data c)\<lparr>notices := add_row (notice_columns p) (notices (data c))\<rparr>\<rparr>)"
  by (simp add: Notices_Save_def andthen_def insert_notice_def ret_def)

lemma Save_old_clean:
  "faults c = [] \<Longrightarrow> n_id p \<noteq> 0 \<Longrightarrow>
   Notices_Save p c = (Inr p, c\<lparr>data := (data c)\<lparr>notices := update_id (n_id p) (\<lambda>_. notice_columns p) (notices (data c))\<rparr>\<rparr>)"
  by (simp add: Notices_Save_def andthen_def on_error_def update_notice_def ret_def)

lemma GetByID_clean:
  "faults c = [] \<Longrightarrow> Notices_GetByID i c =
     (case row i (notices (data c)) of None \<Rightarrow> Inl ErrNotFound | Some r \<Rightarrow> Inr (to_notice (i, r)), c)"
  by (cases "row i (notices (data c))") (simp_all add: Notices_GetByID_def andthen_def on_error_def ret_def)

subsection \<open>Properties\<close>

text \<open>What is saved is what is read back: a new notice gets a fresh id under which it is found,
  and saving under an existing id replaces that notice.\<close>

lemma notice_save_then_get:
  assumes wf: "db_wf (data c)" and clean: "faults c = []" and id: "n_id p = 0 \<or> n_id p \<in> ids (notices (data c))"
  shows "\<exists>q c'. Notices_Save p c = (Inr q, c') \<and> Notices_GetByID (n_id q) c' = (Inr q, c')
     \<and> (n_id p = 0 \<longrightarrow> n_id q \<notin> ids (notices (data c))) \<and> (n_id p \<noteq> 0 \<longrightarrow> q = p)"
proof (cases "n_id p = 0")
  case True
  have ok: "table_ok (notices (data c))" using db_wf_parts(8) [OF wf] .
  show ?thesis using True clean ok
    by (simp add: Save_new_clean GetByID_clean to_notice_def notice_columns_def)
next
  case False
  with id obtain r where "row (n_id p) (notices (data c)) = Some r"
    by (cases "row (n_id p) (notices (data c))") auto
  then show ?thesis using False clean
    by (simp add: Save_old_clean GetByID_clean to_notice_def notice_columns_def)
qed

definition sample_notice :: notice where
  "sample_notice = \<lparr>n_id = 0, n_title = ''Hello'', n_content = ''World'', n_language = ''en-GB''\<rparr>"

lemma notice_save_then_get_witness:
  "\<exists>q c'. Notices_Save sample_notice sample_conn = (Inr q, c') \<and> Notices_GetByID (n_id q) c' = (Inr q, c')
     \<and> (n_id sample_notice = 0 \<longrightarrow> n_id q \<notin> ids (notices (data sample_conn))) \<and> (n_id sample_notice \<noteq> 0 \<longrightarrow> q = sample_notice)"
  by (rule notice_save_then_get) (simp_all add: sample_notice_def)

text \<open>Saving a notice under an id that does not exist is answered without an error although
  nothing is stored.\<close>

lemma notice_save_unknown_id:
  "faults c = [] \<Longrightarrow> n_id p \<noteq> 0 \<Longrightarrow> n_id p \<notin> ids (notices (data c)) \<Longrightarrow>
   \<exists>c'. Notices_Save p c = (Inr p, c') \<and> Notices_GetByID (n_id p) c' = (Inl ErrNotFound, c')"
  by (simp add: Save_old_clean GetByID_clean)

lemma initial_notices: "rows (notices initial_db) = zip [1, 2, 3, 4, 5, 6] start_notices"
  by (simp add: initial_db_def start_notices_def add_row_def)

lemma notice_save_unknown_id_witness:
  "\<exists>c'. Notices_Save (sample_notice\<lparr>n_id := 77\<rparr>) sample_conn = (Inr (sample_notice\<lparr>n_id := 77\<rparr>), c')
     \<and> Notices_GetByID (n_id (sample_notice\<lparr>n_id := 77\<rparr>)) c' = (Inl ErrNotFound, c')"
  by (rule notice_save_unknown_id) (simp_all add: ids_def initial_notices start_notices_def)

text \<open>A pinned notice cannot be removed.\<close>

lemma pinned_notice_not_removed:
  "db_wf (data c) \<Longrightarrow> (i, pid) \<in> set (pin_notices (data c)) \<Longrightarrow>
   Notices_RemoveID i c = (r, c') \<Longrightarrow> \<not> is_ok r \<and> data c' = data c"
  unfolding Notices_RemoveID_def
  by (cases r) (force simp: andthen_err delete_notice_def list_ex_iff split: if_splits
      dest!: read_ok find_by_id_err exec_ok exec_err)+

lemma pinned_notice_not_removed_witness:
  "\<not> is_ok (fst (Notices_RemoveID 2 sample_conn)) \<and> data (snd (Notices_RemoveID 2 sample_conn)) = data sample_conn"
  by (rule pinned_notice_not_removed [OF _ _ prod.collapse [symmetric], of _ _ 2]) (simp_all add: initial_db_def)

lemma length_filter_one_more:
  "distinct (map fst xs) \<Longrightarrow> (i, r) \<in> set xs \<Longrightarrow> Q (i, r) \<Longrightarrow> \<not> P (i, r) \<Longrightarrow>
   length (filter Q (filter (\<lambda>x. P x \<or> fst x = i) xs)) = length (filter Q (filter P xs)) + 1"
proof (induction xs)
  case (Cons x xs)
  show ?case
  proof (cases "x = (i, r)")
    case True
    then have "fst y \<noteq> i" if "y \<in> set xs" for y using Cons.prems(1) that by (auto simp: image_iff)
    then have "filter (\<lambda>x. P x \<or> fst x = i) xs = filter P xs" by (intro filter_cong) auto
    then show ?thesis using True Cons.prems by simp
  next
    case False
    then have "(i, r) \<in> set xs" using Cons.prems(2) by simp
    moreover have "fst x \<noteq> i" using Cons.prems(1) calculation by (cases x) (auto simp: image_iff)
    ultimately show ?thesis using Cons by simp
  qed
qed simp

lemma notices_of_pin_add:
  "notices_of_pin pid (d\<lparr>pin_notices := pin_notices d @ [(i, pid)]\<rparr>) =
   filter (\<lambda>x. (fst x, pid) \<in> set (pin_notices d) \<or> fst x = i) (rows (notices d))"
  unfolding notices_of_pin_def by (intro filter_cong) auto

text \<open>Pinning a second notice in the language of one that is pinned there already makes the
  pin unreadable in that language.\<close>

lemma second_translation_breaks_pin:
  assumes wf: "db_wf (data c)" and clean: "faults c = []"
    and old: "PinnedNotices_Get name lang c = (Inr n, c)"
    and i: "(i, r) \<in> set (rows (notices (data c)))" "nr_language r = lang"
    and set: "PinnedNotices_Set name i c = (Inr (), c')"
  shows "PinnedNotices_Get name lang c' = (Inl (Msg ''pinnedNotice: expected 1 notice but got 2''), c')"
proof -
  let ?Q = "\<lambda>(_, r). nr_language r = lang"
  obtain pid nm where pin: "List.find (\<lambda>p. snd p = name) (pins (data c)) = Some (pid, nm)"
    and one: "length (filter ?Q (notices_of_pin pid (data c))) = 1"
    using old clean by (cases "List.find (\<lambda>p. snd p = name) (pins (data c))")
      (auto simp: PinnedNotices_Get_def andthen_def on_error_def split: if_splits)
  have "insert_pin_notice pid i (data c) = Inr ((), data c')"
    using set clean pin unfolding PinnedNotices_Set_def
    by (auto split: if_splits sum.splits prod.splits)
  then have ins: "data c' = (data c)\<lparr>pin_notices := pin_notices (data c) @ [(i, pid)]\<rparr>" "(i, pid) \<notin> set (pin_notices (data c))"
    by (auto dest: insert_ok(9))
  have "distinct (map fst (rows (notices (data c))))" using db_wf_parts(8) [OF wf] by (simp add: table_ok_def)
  from length_filter_one_more [OF this i(1), of ?Q "\<lambda>x. (fst x, pid) \<in> set (pin_notices (data c))"]
  have "length (filter ?Q (notices_of_pin pid (data c'))) = length (filter ?Q (notices_of_pin pid (data c))) + 1"
    using i(2) ins by (simp add: notices_of_pin_add) (simp add: notices_of_pin_def)
  then have two: "length (filter ?Q (notices_of_pin pid (data c'))) = 2" using one by simp
  have "faults c' = []" using keeps_cleanD [OF clean_Notices(3) set clean] .
  moreover have "show_nat 2 = ''2''" by code_simp
  ultimately show ?thesis using pin two ins(1)
    by (simp add: PinnedNotices_Get_def andthen_def on_error_def fail_def)
qed

definition pinned_twice_conn :: "db conn" where
  "pinned_twice_conn = sample_conn\<lparr>data := sample_db\<lparr>pin_notices := pin_notices initial_db @ [(2, 1)]\<rparr>\<rparr>"

lemma second_translation_breaks_pin_witness:
  "PinnedNotices_Get ''NoticeDescription'' ''en-GB'' pinned_twice_conn
     = (Inl (Msg ''pinnedNotice: expected 1 notice but got 2''), pinned_twice_conn)"
proof (rule second_translation_breaks_pin [of sample_conn])
  have rows: "rows (notices initial_db) = zip [1, 2, 3, 4, 5, 6] start_notices" by (rule initial_notices)
  have pins: "pins initial_db = [(1, ''NoticeDescription''), (2, ''NoticeNews''), (3, ''NoticeCodeOfConduct''), (4, ''NoticePrivacyPolicy'')]"
    "pin_notices initial_db = [(1, 1), (2, 2), (3, 3), (4, 4), (5, 4), (6, 1)]" by (simp_all add: initial_db_def)
  show "PinnedNotices_Get ''NoticeDescription'' ''en-GB'' sample_conn = (Inr (to_notice (1, hd start_notices)), sample_conn)"
    by (simp add: PinnedNotices_Get_def andthen_def on_error_def notices_of_pin_def rows pins start_notices_def ret_def)
  show "(2, start_notices ! 1) \<in> set (rows (notices (data sample_conn)))" by (simp add: rows start_notices_def)
  show "nr_language (start_notices ! 1) = ''en-GB''" by (simp add: start_notices_def)
  have "row 2 (notices initial_db) = Some (start_notices ! 1)" by (simp add: row_def rows start_notices_def)
  with row_Some_ids [OF this] show "PinnedNotices_Set ''NoticeDescription'' 2 sample_conn = (Inr (), pinned_twice_conn)"
    by (simp add: PinnedNotices_Set_def andthen_def on_error_def pinned_valid_def pins insert_pin_notice_def pinned_twice_conn_def
        ret_def)
qed simp_all

end
