(* ===== verification/WebAdmin.thy ===== *)
theory WebAdmin
  imports WebMembers WebUtils Aliases Invites AuthFallback Notices RoomState
begin

text \<open>
  \<open>web/handlers/admin\<close>: what members, moderators and admins do in the browser. Each handler is a
  function from a request and a database connection to its effects in order and the connection; a
  deferred redirect comes last. Forms and links are third-party or \<open>WebUtils\<close>; the pages are given by
  the data their templates get. Times, random tokens and the library are arguments where they are used.
\<close>

subsection \<open>Pages\<close>

datatype page =
    AliasPage alias_entry
  | DeniedPage "list_entry list"
  | DeniedEntryPage list_entry
  | InvitesPage "invite list"
  | InviteCreatedPage string
  | InvitePage invite
  | MembersPage "member list" "role list"
  | MemberPage member "role list" "(string \<times> string) list"
  | ResetLinkPage string
  | SettingsPage privacy_mode string "privacy_mode list"
  | DraftPage string string
  | NoticePage notice string string
  | MenuPage
  | DashboardPage string "member list" int nat nat nat

type_synonym admin_reply = "page reply"

definition redirectToMembers :: string where "redirectToMembers = ''/admin/members''"
definition redirectToDeniedKeys :: string where "redirectToDeniedKeys = ''/admin/denied''"
definition redirectToInvites :: string where "redirectToInvites = ''/admin/invites''"

definition bad_form :: "string \<Rightarrow> string \<Rightarrow> err" where
  "bad_form wh what = BadRequest wh (Msg what)"

definition invalid_syntax :: err where
  "invalid_syntax = Msg ''strconv.ParseInt: invalid syntax''"

text \<open>\<open>strconv.ParseInt\<close> and \<open>refs.ParseFeedRef\<close> on a field of the request, wrapped as a bad request.\<close>

definition id_field :: "string \<Rightarrow> string \<Rightarrow> int64 res" where
  "id_field wh s = (case parse_int64 s of None \<Rightarrow> Inl (BadRequest wh invalid_syntax) | Some i \<Rightarrow> Inr i)"

definition ref_field :: "lib \<Rightarrow> string \<Rightarrow> string \<Rightarrow> feed_ref res" where
  "ref_field L wh s = (case parse_ref L s of None \<Rightarrow> Inl (BadRequest wh (Msg ''refs: invalid reference'')) | Some r \<Rightarrow> Inr r)"

text \<open>The first two checks of most handlers that change something.\<close>

definition expect_post :: "request \<Rightarrow> unit res" where
  "expect_post req =
     (if hr_method req \<noteq> ''POST'' then Inl (bad_form ''HTTP Method'' (''expected POST not '' @ hr_method req)) else Inr ())"

definition parse_form :: "string \<Rightarrow> request \<Rightarrow> unit res" where
  "parse_form wh req = (case hr_form_error req of Some e \<Rightarrow> Inl (BadRequest wh e) | None \<Rightarrow> Inr ())"

subsection \<open>Aliases\<close>

definition aliases_revokeConfirm :: "request \<Rightarrow> db conn \<Rightarrow> admin_reply" where
  "aliases_revokeConfirm req c =
     (if hr_method req \<noteq> ''GET'' then ([Failed (bad_form ''HTTP Method'' ''expected GET request'')], c)
      else on_result (id_field ''ID'' (hr_query req ''id''), c) (\<lambda>e. [Failed e]) (\<lambda>i c.
           on_result (Aliases_GetByID i c) (\<lambda>e. [Failed (Redirect redirectToMembers (Some e))]) (\<lambda>entry c.
           ([Page StatusOK (AliasPage entry)], c))))"

definition aliases_revoke :: "request \<Rightarrow> db conn \<Rightarrow> admin_reply" where
  "aliases_revoke req c =
     (if hr_method req \<noteq> ''POST'' then ([ErrorPage StatusMethodNotAllowed (bad_form ''HTTP Method'' ''expected POST request'')], c)
      else on_result (parse_form ''Form data'' req, c)
             (\<lambda>e. [ErrorPage StatusBadRequest (Redirect redirectToMembers (Some e))]) (\<lambda>_ c.
           also_do [RedirectTo StatusSeeOther redirectToMembers]
             (on_result (Aliases_Resolve (hr_form req ''name'') c) (\<lambda>e. [FlashErr e]) (\<lambda>aliasEntry c.
              case FromContext req of
                None \<Rightarrow> ([FlashErr (Forbidden (Msg ''not an member''))], c)
              | Some currentMember \<Rightarrow>
                  if a_feed aliasEntry \<noteq> m_pub_key currentMember \<and> m_role currentMember \<noteq> RoleAdmin
                  then ([FlashErr (Forbidden (Msg ''not your alias or not an admin''))], c)
                  else on_result (Aliases_Revoke (hr_form req ''name'') c) (\<lambda>e. [FlashErr e])
                         (\<lambda>_ c. ([FlashMsg ''AdminMemberDetailsAliasRevoked''], c))))))"

subsection \<open>Denied keys\<close>

definition denied_add :: "lib \<Rightarrow> time \<Rightarrow> request \<Rightarrow> db conn \<Rightarrow> admin_reply" where
  "denied_add L now req c =
     also_do [RedirectTo StatusSeeOther redirectToDeniedKeys]
       (on_result (CheckAllowed req ActionChangeDeniedKeys c) (\<lambda>_. [FlashErr NotAuthorized]) (\<lambda>_ c.
        on_result (expect_post req, c) (\<lambda>e. [FlashErr e]) (\<lambda>_ c.
        on_result (parse_form ''Form data'' req, c) (\<lambda>e. [FlashErr e]) (\<lambda>_ c.
        on_result (ref_field L ''Public Key'' (hr_form req ''pub_key''), c) (\<lambda>e. [FlashErr e]) (\<lambda>newEntry c.
        on_result (Denied_Add L now newEntry (hr_form req ''comment'') c) (\<lambda>e. [FlashErr e])
          (\<lambda>_ c. ([FlashMsg ''AdminDeniedKeysAdded''], c)))))))"

text \<open>
  The lists are shown from the newest entry to the oldest, page by page. \<open>flashes\<close> is what \<open>GetAll\<close>
  gives; \<open>paginator\<close> is the third-party pagination, which gives the entries of a page of a size.
\<close>

definition defaultPageSize :: int where "defaultPageSize = 20"

definition paginate :: "('a list \<Rightarrow> int \<Rightarrow> int \<Rightarrow> 'a list res) \<Rightarrow> 'a list \<Rightarrow> (string \<Rightarrow> string) \<Rightarrow> 'a list res" where
  "paginate paginator lst qry =
     (let pageSize = (case parse_int64 (qry ''limit'') of None \<Rightarrow> defaultPageSize | Some n \<Rightarrow> n);
          page = (case parse_int64 (qry ''page'') of None \<Rightarrow> 1 | Some n \<Rightarrow> if n < 1 then 1 else n)
      in (case paginator lst pageSize page of
            Inl e \<Rightarrow> Inl (Wrapped ''paginator failed with'' e)
          | Inr entries \<Rightarrow> Inr entries))"

definition list_page :: "('a list \<Rightarrow> int \<Rightarrow> int \<Rightarrow> 'a list res) \<Rightarrow> ('a list \<Rightarrow> page) \<Rightarrow> unit res \<Rightarrow> 'a list act \<Rightarrow> request \<Rightarrow> db conn \<Rightarrow> admin_reply" where
  "list_page paginator pg flashes list_all_of req c =
     on_result (list_all_of c) (\<lambda>e. [Failed e]) (\<lambda>lst c.
     on_result (paginate paginator (rev lst) (hr_query req), c) (\<lambda>e. [Failed e]) (\<lambda>entries c.
     on_result (flashes, c) (\<lambda>e. [Failed e]) (\<lambda>_ c. ([Page StatusOK (pg entries)], c))))"

definition denied_overview :: "(list_entry list \<Rightarrow> int \<Rightarrow> int \<Rightarrow> list_entry list res) \<Rightarrow> unit res \<Rightarrow> request \<Rightarrow> db conn \<Rightarrow> admin_reply" where
  "denied_overview paginator flashes = list_page paginator DeniedPage flashes Denied_List"

definition denied_removeConfirm :: "request \<Rightarrow> db conn \<Rightarrow> admin_reply" where
  "denied_removeConfirm req c =
     on_result (id_field ''ID'' (hr_query req ''id''), c) (\<lambda>e. [Failed e]) (\<lambda>i c.
     on_result (Denied_GetByID i c) (\<lambda>e. [Failed (Redirect redirectToDeniedKeys (Some e))]) (\<lambda>entry c.
     ([Page StatusOK (DeniedEntryPage entry)], c)))"

definition denied_remove :: "request \<Rightarrow> db conn \<Rightarrow> admin_reply" where
  "denied_remove req c =
     also_do [RedirectTo StatusSeeOther redirectToDeniedKeys]
       (on_result (CheckAllowed req ActionChangeDeniedKeys c) (\<lambda>_. [FlashErr NotAuthorized]) (\<lambda>_ c.
        on_result (parse_form ''Form data'' req, c) (\<lambda>e. [FlashErr e]) (\<lambda>_ c.
        on_result (id_field ''ID'' (hr_form req ''id''), c) (\<lambda>e. [FlashErr e]) (\<lambda>i c.
        on_result (Denied_RemoveID i c) (\<lambda>e. [FlashErr e]) (\<lambda>_ c. ([FlashMsg ''AdminDeniedKeysRemoved''], c))))))"

subsection \<open>Invites\<close>

definition not_found_as :: "string \<Rightarrow> err \<Rightarrow> err" where
  "not_found_as what e = (if errors_is e ErrNotFound then WebNotFound what else e)"

definition invites_overview :: "(invite list \<Rightarrow> int \<Rightarrow> int \<Rightarrow> invite list res) \<Rightarrow> unit res \<Rightarrow> request \<Rightarrow> db conn \<Rightarrow> admin_reply" where
  "invites_overview paginator flashes = list_page paginator InvitesPage flashes Invites_List"

definition invites_create :: "lib \<Rightarrow> server_details \<Rightarrow> time \<Rightarrow> (nat \<Rightarrow> bytes) \<Rightarrow> request \<Rightarrow> db conn \<Rightarrow> admin_reply" where
  "invites_create L netInfo now rand req c =
     on_result (expect_post req, c) (\<lambda>e. [Failed e]) (\<lambda>_ c.
     on_result (parse_form ''Form data'' req, c) (\<lambda>e. [Failed e]) (\<lambda>_ c.
     on_result (CheckAllowed req ActionInviteMember c) (\<lambda>e. [Failed e]) (\<lambda>m c.
     on_result (Invites_Create L now rand (m_id m) c) (\<lambda>e. [Failed e]) (\<lambda>token c.
     ([Page StatusOK (InviteCreatedPage (url_text (urlTo netInfo ''complete:invite:accept'' [PVText ''token'', PVText token])))], c)))))"

definition invites_revokeConfirm :: "request \<Rightarrow> db conn \<Rightarrow> admin_reply" where
  "invites_revokeConfirm req c =
     on_result (id_field ''ID'' (hr_query req ''id''), c) (\<lambda>e. [Failed e]) (\<lambda>i c.
     on_result (Invites_GetByID i c) (\<lambda>e. [Failed (not_found_as ''invite'' e)]) (\<lambda>invite c.
     ([Page StatusOK (InvitePage invite)], c)))"

definition invites_revoke :: "request \<Rightarrow> db conn \<Rightarrow> admin_reply" where
  "invites_revoke req c =
     also_do [RedirectTo StatusSeeOther redirectToInvites]
       (on_result (CheckAllowed req ActionInviteMember c) (\<lambda>e. [FlashErr e]) (\<lambda>_ c.
        on_result (parse_form ''Form data'' req, c) (\<lambda>e. [FlashErr e]) (\<lambda>_ c.
        on_result (id_field ''ID'' (hr_form req ''id''), c) (\<lambda>e. [FlashErr e]) (\<lambda>i c.
        on_result (Invites_Revoke i c) (\<lambda>e. [FlashErr (not_found_as ''invite'' e)])
          (\<lambda>_ c. ([FlashMsg ''InviteRevoked''], c))))))"

subsection \<open>Members\<close>

definition members_add :: "lib \<Rightarrow> request \<Rightarrow> db conn \<Rightarrow> admin_reply" where
  "members_add L req c =
     on_result (expect_post req, c) (\<lambda>e. [ErrorPage StatusBadRequest e]) (\<lambda>_ c.
     on_result (parse_form ''Form data'' req, c) (\<lambda>e. [ErrorPage StatusBadRequest e]) (\<lambda>_ c.
     also_do [RedirectTo StatusSeeOther redirectToMembers]
       (on_result (ref_field L ''Public Key'' (hr_form req ''pub_key''), c) (\<lambda>e. [FlashErr e]) (\<lambda>newEntry c.
        on_result (Members_Add L newEntry RoleMember c) (\<lambda>e. [FlashErr e]) (\<lambda>_ c.
        ([FlashMsg ''AdminMemberAdded''], c))))))"

definition members_changeRole :: "server_details \<Rightarrow> request \<Rightarrow> db conn \<Rightarrow> admin_reply" where
  "members_changeRole netInfo req c =
     on_result (expect_post req, c) (\<lambda>e. [ErrorPage StatusBadRequest e]) (\<lambda>_ c.
     on_result (parse_form ''Form data'' req, c) (\<lambda>e. [ErrorPage StatusBadRequest e]) (\<lambda>_ c.
     if (case FromContext req of None \<Rightarrow> True | Some m \<Rightarrow> m_role m \<noteq> RoleAdmin)
     then ([ErrorPage StatusForbidden (Forbidden (Msg ''not an admin''))], c)
     else on_result (id_field ''id'' (hr_query req ''id''), c) (\<lambda>e. [ErrorPage StatusBadRequest e]) (\<lambda>memberID c.
     on_result (role_unmarshal (hr_form req ''role''), c) (\<lambda>e. [ErrorPage StatusBadRequest (BadRequest ''role'' e)]) (\<lambda>role c.
     on_result (Members_SetRole memberID role c) (\<lambda>e. [ErrorPage StatusInternalServerError (DatabaseError e)]) (\<lambda>_ c.
     ([FlashMsg ''AdminMemberUpdated'',
       RedirectTo StatusSeeOther (url_text (urlTo netInfo ''admin:member:details'' [PVText ''id'', PVInt memberID]))], c))))))"

definition members_overview :: "(member list \<Rightarrow> int \<Rightarrow> int \<Rightarrow> member list res) \<Rightarrow> unit res \<Rightarrow> request \<Rightarrow> db conn \<Rightarrow> admin_reply" where
  "members_overview paginator flashes =
     list_page paginator (\<lambda>ms. MembersPage ms [RoleMember, RoleModerator, RoleAdmin]) flashes Members_List"

definition members_details :: "server_details \<Rightarrow> request \<Rightarrow> db conn \<Rightarrow> admin_reply" where
  "members_details netInfo req c =
     on_result (id_field ''ID'' (hr_query req ''id''), c) (\<lambda>e. [Failed e]) (\<lambda>i c.
     on_result (Members_GetByID i c) (\<lambda>e. [Failed (BadRequest ''ID'' e)]) (\<lambda>m c.
     ([Page StatusOK (MemberPage m [RoleMember, RoleModerator, RoleAdmin]
         (map (\<lambda>a. (a_name a, URLForAlias netInfo (a_name a))) (m_aliases m)))], c)))"

definition members_removeConfirm :: "request \<Rightarrow> db conn \<Rightarrow> admin_reply" where
  "members_removeConfirm req c =
     on_result (id_field ''ID'' (hr_query req ''id''), c) (\<lambda>e. [Failed e]) (\<lambda>i c.
     on_result (Members_GetByID i c)
       (\<lambda>e. [Failed (if errors_is e ErrNotFound then Redirect redirectToMembers (Some e) else e)]) (\<lambda>entry c.
     ([Page StatusOK (MemberPage entry [] [])], c)))"

definition members_remove :: "request \<Rightarrow> db conn \<Rightarrow> admin_reply" where
  "members_remove req c =
     on_result (expect_post req, c) (\<lambda>e. [ErrorPage StatusBadRequest e]) (\<lambda>_ c.
     on_result (parse_form ''Form data'' req, c) (\<lambda>e. [ErrorPage StatusBadRequest e]) (\<lambda>_ c.
     also_do [RedirectTo StatusSeeOther redirectToMembers]
       (on_result (CheckAllowed req ActionRemoveMember c) (\<lambda>e. [FlashErr e]) (\<lambda>_ c.
        on_result (id_field ''ID'' (hr_form req ''id''), c) (\<lambda>e. [FlashErr e]) (\<lambda>i c.
        on_result (Members_RemoveID i c) (\<lambda>e. [FlashErr e]) (\<lambda>_ c. ([FlashMsg ''AdminMemberRemoved''], c)))))))"

definition createPasswordResetToken :: "lib \<Rightarrow> server_details \<Rightarrow> time \<Rightarrow> (nat \<Rightarrow> bytes) \<Rightarrow> request \<Rightarrow> db conn \<Rightarrow> admin_reply" where
  "createPasswordResetToken L netInfo now rand req c =
     on_result (expect_post req, c) (\<lambda>e. [Failed e]) (\<lambda>_ c.
     on_result (parse_form ''Form data'' req, c) (\<lambda>e. [Failed e]) (\<lambda>_ c.
     on_result (id_field ''Member ID'' (hr_form req ''member_id''), c) (\<lambda>e. [Failed (Redirect redirectToMembers (Some e))]) (\<lambda>forMember c.
     case FromContext req of
       None \<Rightarrow> ([Failed (Redirect redirectToMembers (Some (Forbidden (Msg ''not an admin''))))], c)
     | Some m \<Rightarrow>
         if m_role m \<noteq> RoleAdmin then ([Failed (Redirect redirectToMembers (Some (Forbidden (Msg ''not an admin''))))], c)
         else on_result (Fallback_CreateResetToken L now rand (m_id m) forMember c)
                (\<lambda>e. [Failed (Redirect redirectToMembers (Some e))]) (\<lambda>token c.
              ([Page StatusOK (ResetLinkPage (url_text (urlTo netInfo ''members:change-password:form'' [PVText ''token'', PVText token])))], c)))))"

subsection \<open>Settings\<close>

text \<open>\<open>chooseTranslation\<close> finds the name of a language.\<close>

definition settings_overview :: "(string \<Rightarrow> string) \<Rightarrow> request \<Rightarrow> db conn \<Rightarrow> admin_reply" where
  "settings_overview chooseTranslation req c =
     on_result (Config_GetPrivacyMode c) (\<lambda>e. [Failed (Wrapped ''failed to retrieve current privacy mode'' e)]) (\<lambda>mode c.
     on_result (Config_GetDefaultLanguage c) (\<lambda>e. [Failed (Wrapped ''failed to retrieve current privacy mode'' e)]) (\<lambda>lang c.
     ([Page StatusOK (SettingsPage mode (chooseTranslation lang) [ModeOpen, ModeCommunity, ModeRestricted])], c)))"

definition getMember :: "request \<Rightarrow> member res" where
  "getMember req =
     (case FromContext req of
        None \<Rightarrow> Inl (Forbidden (Msg ''not a registered member''))
      | Some m \<Rightarrow> if m_role m \<noteq> RoleAdmin then Inl (Forbidden (Msg ''yr not an admin! naughty naughty'')) else Inr m)"

definition verifyPostRequirements :: "request \<Rightarrow> unit res" where
  "verifyPostRequirements req = (case expect_post req of Inl e \<Rightarrow> Inl e | Inr _ \<Rightarrow> parse_form ''Form data'' req)"

definition to_settings :: "server_details \<Rightarrow> page effect" where
  "to_settings netInfo = RedirectTo StatusSeeOther (url_text (urlTo netInfo ''admin:settings:overview'' []))"

text \<open>An error of the setter is shown, and then the redirect follows all the same.\<close>

definition setLanguage :: "server_details \<Rightarrow> request \<Rightarrow> db conn \<Rightarrow> admin_reply" where
  "setLanguage netInfo req c =
     on_result (verifyPostRequirements req, c) (\<lambda>e. [ErrorPage StatusBadRequest e]) (\<lambda>_ c.
     on_result (getMember req, c) (\<lambda>e. [ErrorPage StatusInternalServerError e]) (\<lambda>_ c.
     case Config_SetDefaultLanguage (hr_form req ''lang'') c of
       (Inl e, c) \<Rightarrow>
         ([ErrorPage StatusBadRequest (Wrapped ''something went wrong when setting the default language'' e), to_settings netInfo], c)
     | (Inr _, c) \<Rightarrow> ([to_settings netInfo], c)))"

definition setPrivacy :: "server_details \<Rightarrow> request \<Rightarrow> db conn \<Rightarrow> admin_reply" where
  "setPrivacy netInfo req c =
     on_result (verifyPostRequirements req, c) (\<lambda>e. [ErrorPage StatusBadRequest e]) (\<lambda>_ c.
     on_result (getMember req, c) (\<lambda>e. [ErrorPage StatusInternalServerError e]) (\<lambda>_ c.
     let pmValue = hr_form req ''privacy_mode'';
         pm = parse_privacy_mode pmValue;
         unknown = (if pm = ModeUnknown then [ErrorPage StatusBadRequest (Msg (''unknown privacy mode was being set: '' @ pmValue))] else [])
     in (case Config_SetPrivacyMode pm c of
           (Inl e, c) \<Rightarrow>
             (unknown @ [ErrorPage StatusBadRequest (Wrapped ''something went wrong when setting the privacy mode'' e), to_settings netInfo], c)
         | (Inr _, c) \<Rightarrow> (unknown @ [to_settings netInfo], c))))"

subsection \<open>Notices\<close>

fun crlf_to_lf :: "string \<Rightarrow> string" where
  "crlf_to_lf (a # b # s) =
     (if a = CHR 0x0D \<and> b = CHR 0x0A then b # crlf_to_lf s else a # crlf_to_lf (b # s))"
| "crlf_to_lf s = s"

text \<open>
  A text field that must not be empty. The links back go to the list of notices, unless the form says
  where.
\<close>

definition needed :: "string \<Rightarrow> request \<Rightarrow> string res" where
  "needed f req = (if hr_form req f = [] then Inl (bad_form f (f @ '' can't be empty'')) else Inr (hr_form req f))"

definition notices_url :: "server_details \<Rightarrow> string" where
  "notices_url netInfo = url_text (urlTo netInfo ''complete:notice:list'' [])"

definition redirect_field :: "server_details \<Rightarrow> request \<Rightarrow> string" where
  "redirect_field netInfo req = (if hr_form req ''redirect'' = [] then notices_url netInfo else hr_form req ''redirect'')"

definition draftTranslation :: "server_details \<Rightarrow> request \<Rightarrow> db conn \<Rightarrow> admin_reply" where
  "draftTranslation netInfo req c =
     on_result (CheckAllowed req ActionChangeNotice c)
       (\<lambda>e. [FlashErr e, RedirectTo StatusSeeOther (notices_url netInfo), Failed e]) (\<lambda>_ c.
     if \<not> pinned_valid (hr_query req ''name'') then ([Failed (bad_form ''pinnedName'' ''invalid pinned notice name'')], c)
     else ([Page StatusOK (DraftPage ''admin:notice:translation:add'' (hr_query req ''name''))], c))"

definition addTranslation :: "server_details \<Rightarrow> request \<Rightarrow> db conn \<Rightarrow> admin_reply" where
  "addTranslation netInfo req c =
     (if hr_method req \<noteq> ''POST''
      then ([ErrorPage StatusMethodNotAllowed (bad_form ''http method type'' ''add translation only accepts POST requests, sorry!'')], c)
      else on_result (parse_form ''form data'' req, c) (\<lambda>e. [ErrorPage StatusInternalServerError e]) (\<lambda>_ c.
      also_do [RedirectTo StatusSeeOther (redirect_field netInfo req)]
        (on_result (CheckAllowed req ActionChangeNotice c) (\<lambda>e. [FlashErr e]) (\<lambda>_ c.
         if \<not> pinned_valid (hr_form req ''name'') then ([FlashErr (bad_form ''name'' ''invalid pinned notice name'')], c)
         else on_result (needed ''title'' req, c) (\<lambda>e. [FlashErr e]) (\<lambda>title c.
         on_result (needed ''language'' req, c) (\<lambda>e. [FlashErr e]) (\<lambda>language c.
         on_result (needed ''content'' req, c) (\<lambda>e. [FlashErr e]) (\<lambda>content c.
         on_result (Notices_Save \<lparr>n_id = 0, n_title = title, n_content = crlf_to_lf content, n_language = language\<rparr> c) (\<lambda>e. [FlashErr e]) (\<lambda>n c.
         on_result (PinnedNotices_Set (hr_form req ''name'') (n_id n) c) (\<lambda>e. [FlashErr e])
           (\<lambda>_ c. ([FlashMsg ''NoticeUpdated''], c))))))))))"

text \<open>\<open>markdown\<close> renders the preview.\<close>

definition notice_edit :: "(string \<Rightarrow> string) \<Rightarrow> unit res \<Rightarrow> server_details \<Rightarrow> request \<Rightarrow> db conn \<Rightarrow> admin_reply" where
  "notice_edit markdown flashes netInfo req c =
     on_result (CheckAllowed req ActionChangeNotice c)
       (\<lambda>e. [FlashErr e, RedirectTo StatusSeeOther (notices_url netInfo), Failed e]) (\<lambda>_ c.
     on_result (id_field ''ID'' (hr_query req ''id''), c) (\<lambda>e. [Failed e]) (\<lambda>i c.
     on_result (Notices_GetByID i c) (\<lambda>e. [Failed e]) (\<lambda>n c.
     on_result (flashes, c) (\<lambda>e. [Failed e]) (\<lambda>_ c.
     ([Page StatusOK (NoticePage n ''admin:notice:save'' (markdown (crlf_to_lf (n_content n))))], c)))))"

definition notice_save :: "server_details \<Rightarrow> request \<Rightarrow> db conn \<Rightarrow> admin_reply" where
  "notice_save netInfo req c =
     (if hr_method req \<noteq> ''POST''
      then ([ErrorPage StatusMethodNotAllowed (bad_form ''http method type'' ''add translation only accepts POST requests, sorry!'')], c)
      else on_result (parse_form ''form data'' req, c) (\<lambda>e. [ErrorPage StatusInternalServerError e]) (\<lambda>_ c.
      also_do [RedirectTo StatusSeeOther (redirect_field netInfo req)]
        (on_result (CheckAllowed req ActionChangeNotice c) (\<lambda>e. [FlashErr e]) (\<lambda>_ c.
         on_result (id_field ''id'' (hr_form req ''id''), c) (\<lambda>e. [FlashErr e]) (\<lambda>i c.
         on_result (needed ''title'' req, c) (\<lambda>e. [FlashErr e]) (\<lambda>title c.
         on_result (needed ''language'' req, c) (\<lambda>e. [FlashErr e]) (\<lambda>language c.
         on_result (needed ''content'' req, c) (\<lambda>e. [FlashErr e]) (\<lambda>content c.
         on_result (Notices_Save \<lparr>n_id = i, n_title = title, n_content = crlf_to_lf content, n_language = language\<rparr> c) (\<lambda>e. [FlashErr e])
           (\<lambda>_ c. ([FlashMsg ''NoticeUpdated''], c))))))))))"

subsection \<open>Dashboard\<close>

text \<open>
  \<open>online\<close> is what \<open>ListAsRefs\<close> gave within ten seconds, if it did. A peer that is no member is shown
  with an unknown role.
\<close>

fun online_users :: "feed_ref list \<Rightarrow> member list act" where
  "online_users [] = ret []"
| "online_users (r # rs) =
     andthen (attempt (Members_GetByFeed r)) (\<lambda>x.
     andthen (case x of
                Inr m \<Rightarrow> ret m
              | Inl e \<Rightarrow>
                  if \<not> errors_is e ErrNotFound then fail (Wrapped ''failed to lookup online member'' e)
                  else ret \<lparr>m_id = - 1, m_role = RoleUnknown, m_pub_key = r, m_aliases = []\<rparr>) (\<lambda>m.
     andthen (online_users rs) (\<lambda>ms. ret (m # ms))))"

definition dashboard_overview :: "server_details \<Rightarrow> feed_ref list option \<Rightarrow> unit res \<Rightarrow> request \<Rightarrow> db conn \<Rightarrow> admin_reply" where
  "dashboard_overview netInfo online flashes req c =
     on_result (online_users (case online of None \<Rightarrow> [] | Some rs \<Rightarrow> rs) c) (\<lambda>e. [Failed e]) (\<lambda>users c.
     on_result (Members_Count c) (\<lambda>e. [Failed (Wrapped ''failed to count members'' e)]) (\<lambda>mc c.
     on_result (Invites_Count True c) (\<lambda>e. [Failed (Wrapped ''failed to count active invites'' e)]) (\<lambda>ic c.
     on_result (Denied_Count c) (\<lambda>e. [Failed (Wrapped ''failed to count denied keys'' e)]) (\<lambda>dc c.
     on_result (flashes, c) (\<lambda>e. [Failed e]) (\<lambda>_ c.
     ([Page StatusOK (DashboardPage (ref_string (RoomID netInfo)) users
         (case online of None \<Rightarrow> - 1 | Some rs \<Rightarrow> int (length rs)) mc ic dc)], c))))))"

definition connected_user_String :: "member \<Rightarrow> string" where
  "connected_user_String m = (case m_aliases m of [] \<Rightarrow> ref_string (m_pub_key m) | a # _ \<Rightarrow> a_name a)"

subsection \<open>The handler of the section\<close>

text \<open>What is not in the prefix, or not known, goes on unchanged or is not found.\<close>

definition customStripPrefix :: "string \<Rightarrow> string \<times> string \<Rightarrow> string \<times> string" where
  "customStripPrefix prefix u =
     (case u of (path, raw) \<Rightarrow>
        if prefix = [] then (path, raw)
        else let p = trim_prefix path prefix; rp = trim_prefix raw prefix in
          if length p < length path \<and> (raw = [] \<or> length rp < length raw) then (p, rp) else (path, raw))"

record admin_env =
  ae_lib :: lib
  ae_net :: server_details
  ae_now :: time
  ae_rand :: "nat \<Rightarrow> bytes"
  ae_flashes :: "unit res"
  ae_markdown :: "string \<Rightarrow> string"
  ae_language :: "string \<Rightarrow> string"
  ae_online :: "feed_ref list option"
  ae_denied_pages :: "list_entry list \<Rightarrow> int \<Rightarrow> int \<Rightarrow> list_entry list res"
  ae_invite_pages :: "invite list \<Rightarrow> int \<Rightarrow> int \<Rightarrow> invite list res"
  ae_member_pages :: "member list \<Rightarrow> int \<Rightarrow> int \<Rightarrow> member list res"

definition admin_mux :: "admin_env \<Rightarrow> (string \<times> (request \<Rightarrow> db conn \<Rightarrow> admin_reply)) list" where
  "admin_mux E =
     [(''/dashboard'', dashboard_overview (ae_net E) (ae_online E) (ae_flashes E)),
      (''/settings'', settings_overview (ae_language E)),
      (''/settings/set-privacy'', setPrivacy (ae_net E)),
      (''/settings/set-language'', setLanguage (ae_net E)),
      (''/menu'', (\<lambda>req c. ([Page StatusOK MenuPage], c))),
      (''/aliases/revoke/confirm'', aliases_revokeConfirm),
      (''/aliases/revoke'', aliases_revoke),
      (''/denied'', denied_overview (ae_denied_pages E) (ae_flashes E)),
      (''/denied/add'', denied_add (ae_lib E) (ae_now E)),
      (''/denied/remove/confirm'', denied_removeConfirm),
      (''/denied/remove'', denied_remove),
      (''/member'', members_details (ae_net E)),
      (''/members'', members_overview (ae_member_pages E) (ae_flashes E)),
      (''/members/add'', members_add (ae_lib E)),
      (''/members/change-role'', members_changeRole (ae_net E)),
      (''/members/remove/confirm'', members_removeConfirm),
      (''/members/remove'', members_remove),
      (''/members/create-fallback-reset-link'', createPasswordResetToken (ae_lib E) (ae_net E) (ae_now E) (ae_rand E)),
      (''/invites'', invites_overview (ae_invite_pages E) (ae_flashes E)),
      (''/invites/create'', invites_create (ae_lib E) (ae_net E) (ae_now E) (ae_rand E)),
      (''/invites/revoke/confirm'', invites_revokeConfirm),
      (''/invites/revoke'', invites_revoke),
      (''/notice/edit'', notice_edit (ae_markdown E) (ae_flashes E) (ae_net E)),
      (''/notice/translation/draft'', draftTranslation (ae_net E)),
      (''/notice/translation/add'', addTranslation (ae_net E)),
      (''/notice/save'', notice_save (ae_net E))]"

definition admin_handler :: "admin_env \<Rightarrow> string \<Rightarrow> request \<Rightarrow> db conn \<Rightarrow> admin_reply" where
  "admin_handler E path req c =
     (case map_of (admin_mux E) path of
        Some h \<Rightarrow> h req c
      | None \<Rightarrow> ([ErrorPage StatusNotFound (PageNotFound path)], c))"

text \<open>The section as the whole site mounts it: members only, and without the prefix.\<close>

definition admin_section :: "admin_env \<Rightarrow> request \<Rightarrow> db conn \<Rightarrow> admin_reply" where
  "admin_section E req = AuthenticateFromContext (\<lambda>req. admin_handler E (fst (customStripPrefix ''/admin'' (hr_path req, []))) req) req"

subsection \<open>Every change has a right behind it\<close>

text \<open>\<open>guarded P d r\<close>: the reply leaves the data \<open>d\<close> as it was, unless \<open>P\<close>. The rules follow a handler's calls.\<close>

definition guarded :: "bool \<Rightarrow> db \<Rightarrow> 'p reply \<Rightarrow> bool" where
  "guarded P d r \<longleftrightarrow> data (snd r) = d \<or> P"

lemma guarded_right: "P \<Longrightarrow> guarded P d r"
  by (simp add: guarded_def)

lemma guarded_done: "data c = d \<Longrightarrow> guarded P d (es, c)"
  by (simp add: guarded_def)

lemma guarded_also: "guarded P d r \<Longrightarrow> guarded P d (also_do es r)"
  by (simp add: guarded_def)

lemma guarded_pure:
  "data c = d \<Longrightarrow> (\<And>x. r = Inr x \<Longrightarrow> guarded P d (k x c)) \<Longrightarrow> guarded P d (on_result (r, c) f k)"
  by (cases r) (simp_all add: guarded_def)

lemma guarded_read:
  assumes "\<And>I. keeps I m" "data c = d" "\<And>x c1. m c = (Inr x, c1) \<Longrightarrow> data c1 = d \<Longrightarrow> guarded P d (k x c1)"
  shows "guarded P d (on_result (m c) f k)"
proof -
  obtain r c1 where r: "m c = (r, c1)" by fastforce
  have "data c1 = d" using keeps_same [OF assms(1) r] assms(2) by simp
  then show ?thesis using r assms(3) by (cases r) (simp_all add: guarded_def)
qed

definition may_act :: "string \<Rightarrow> request \<Rightarrow> db \<Rightarrow> bool" where
  "may_act action req d \<longleftrightarrow>
     (case (FromContext req, AllowedActions action) of
        (Some m, Some fn) \<Rightarrow> fn (cf_mode (the_config d)) (m_role m)
      | _ \<Rightarrow> False)"

lemma guarded_allowed:
  assumes "data c = d" "\<And>m c1. may_act action req d \<Longrightarrow> FromContext req = Some m \<Longrightarrow> data c1 = d \<Longrightarrow> guarded P d (k m c1)"
  shows "guarded P d (on_result (CheckAllowed req action c) f k)"
proof -
  obtain r c1 where r: "CheckAllowed req action c = (r, c1)" by fastforce
  have same: "data c1 = d" using CheckAllowed_data [OF r] assms(1) by simp
  show ?thesis
  proof (cases r)
    case (Inl e)
    then show ?thesis using r same by (simp add: guarded_def)
  next
    case (Inr m)
    then obtain fn where "FromContext req = Some m" "AllowedActions action = Some fn" "fn (cf_mode (the_config d)) (m_role m)"
      using CheckAllowed_ok [of req action c m c1] r assms(1) by auto
    then show ?thesis using r Inr same assms(2) [of m c1] by (simp add: may_act_def)
  qed
qed

definition is_admin :: "request \<Rightarrow> bool" where
  "is_admin req \<longleftrightarrow> (case FromContext req of None \<Rightarrow> False | Some m \<Rightarrow> m_role m = RoleAdmin)"

definition owns_alias :: "request \<Rightarrow> string \<Rightarrow> db \<Rightarrow> bool" where
  "owns_alias req nm d \<longleftrightarrow>
     (case FromContext req of
        None \<Rightarrow> False
      | Some m \<Rightarrow> \<exists>c r c'. data c = d \<and> Aliases_Resolve nm c = (Inr r, c') \<and> a_feed r = m_pub_key m)"

lemmas guarded_intros = guarded_done guarded_also guarded_pure guarded_allowed

lemma guarded_aliases_revoke:
  "data c = d \<Longrightarrow> guarded (hr_method req = ''POST'' \<and> (is_admin req \<or> owns_alias req (hr_form req ''name'') d)) d (aliases_revoke req c)"
  unfolding aliases_revoke_def
proof (cases "hr_method req = ''POST''", simp_all, intro guarded_pure guarded_also, assumption, intro guarded_read)
  fix x r c1 assume d: "data c = d" and post: "hr_method req = ''POST''" "data c1 = d"
    and r: "Aliases_Resolve (hr_form req ''name'') c = (Inr r, c1)"
  show "guarded (is_admin req \<or> owns_alias req (hr_form req ''name'') d) d
     (case FromContext req of
        None \<Rightarrow> ([FlashErr (Forbidden (Msg ''not an member''))], c1)
      | Some currentMember \<Rightarrow>
          if a_feed r \<noteq> m_pub_key currentMember \<and> m_role currentMember \<noteq> RoleAdmin
          then ([FlashErr (Forbidden (Msg ''not your alias or not an admin''))], c1)
          else on_result (Aliases_Revoke (hr_form req ''name'') c1) (\<lambda>e. [FlashErr e])
                 (\<lambda>_ c. ([FlashMsg ''AdminMemberDetailsAliasRevoked''], c)))"
    using d post r by (cases "FromContext req") (auto simp: is_admin_def owns_alias_def intro: guarded_done guarded_right)
qed (auto intro!: keeps_wf guarded_done)

lemma guarded_denied:
  "data c = d \<Longrightarrow> guarded (hr_method req = ''POST'' \<and> may_act ActionChangeDeniedKeys req d) d (denied_add L now req c)"
  "data c = d \<Longrightarrow> guarded (may_act ActionChangeDeniedKeys req d) d (denied_remove req c)"
  unfolding denied_add_def denied_remove_def
  by (auto intro!: guarded_intros simp: expect_post_def split: if_splits intro: guarded_right)

lemma guarded_invites:
  "data c = d \<Longrightarrow> guarded (hr_method req = ''POST'' \<and> may_act ActionInviteMember req d) d (invites_create L net now rand req c)"
  "data c = d \<Longrightarrow> guarded (may_act ActionInviteMember req d) d (invites_revoke req c)"
  unfolding invites_create_def invites_revoke_def
  by (auto intro!: guarded_intros simp: expect_post_def split: if_splits intro: guarded_right)

lemma guarded_members:
  "data c = d \<Longrightarrow> guarded (hr_method req = ''POST'') d (members_add L req c)"
  "data c = d \<Longrightarrow> guarded (hr_method req = ''POST'' \<and> is_admin req) d (members_changeRole net req c)"
  "data c = d \<Longrightarrow> guarded (hr_method req = ''POST'' \<and> may_act ActionRemoveMember req d) d (members_remove req c)"
  "data c = d \<Longrightarrow> guarded (hr_method req = ''POST'' \<and> is_admin req) d (createPasswordResetToken L net now rand req c)"
  unfolding members_add_def members_changeRole_def members_remove_def createPasswordResetToken_def
  by (auto intro!: guarded_intros simp: expect_post_def is_admin_def split: if_splits option.splits intro: guarded_right)

lemma verify_getMember:
  "verifyPostRequirements req = Inr u \<Longrightarrow> hr_method req = ''POST''" "getMember req = Inr m \<Longrightarrow> is_admin req"
  by (auto simp: verifyPostRequirements_def expect_post_def getMember_def is_admin_def split: sum.splits if_splits option.splits)

lemma guarded_settings:
  "data c = d \<Longrightarrow> guarded (hr_method req = ''POST'' \<and> is_admin req) d (setLanguage net req c)"
  "data c = d \<Longrightarrow> guarded (hr_method req = ''POST'' \<and> is_admin req) d (setPrivacy net req c)"
  unfolding setLanguage_def setPrivacy_def
  by (rule guarded_pure, assumption, rule guarded_pure, assumption, rule guarded_right, blast dest: verify_getMember)+

lemma guarded_if: "(b \<Longrightarrow> guarded P d x) \<Longrightarrow> (\<not> b \<Longrightarrow> guarded P d y) \<Longrightarrow> guarded P d (if b then x else y)"
  by simp

lemma guarded_notices:
  "data c = d \<Longrightarrow> guarded (hr_method req = ''POST'' \<and> may_act ActionChangeNotice req d) d (addTranslation net req c)"
  "data c = d \<Longrightarrow> guarded (hr_method req = ''POST'' \<and> may_act ActionChangeNotice req d) d (notice_save net req c)"
  unfolding addTranslation_def notice_save_def
  by (rule guarded_if, rule guarded_done, assumption, rule guarded_pure, assumption, rule guarded_also, rule guarded_allowed, assumption,
      rule guarded_right, blast)+

lemma keeps_online_users [keeps_wf]: "keeps I (online_users rs)"
  by (induction rs) (auto intro!: keeps_wf split: sum.split)

lemma guarded_list_page:
  "(\<And>I. keeps I m) \<Longrightarrow> data c = d \<Longrightarrow> guarded P d (list_page pg_of pg flashes m req c)"
  unfolding list_page_def by (intro guarded_read guarded_pure guarded_done) simp_all

text \<open>The pages change nothing.\<close>

lemma guarded_pages:
  "data c = d \<Longrightarrow> guarded P d (dashboard_overview net online flashes req c)"
  "data c = d \<Longrightarrow> guarded P d (settings_overview tr req c)"
  "data c = d \<Longrightarrow> guarded P d (aliases_revokeConfirm req c)"
  "data c = d \<Longrightarrow> guarded P d (denied_overview dpages flashes req c)"
  "data c = d \<Longrightarrow> guarded P d (denied_removeConfirm req c)"
  "data c = d \<Longrightarrow> guarded P d (members_details net req c)"
  "data c = d \<Longrightarrow> guarded P d (members_overview mpages flashes req c)"
  "data c = d \<Longrightarrow> guarded P d (members_removeConfirm req c)"
  "data c = d \<Longrightarrow> guarded P d (invites_overview ipages flashes req c)"
  "data c = d \<Longrightarrow> guarded P d (invites_revokeConfirm req c)"
  "data c = d \<Longrightarrow> guarded P d (notice_edit md flashes net req c)"
  "data c = d \<Longrightarrow> guarded P d (draftTranslation net req c)"
  subgoal unfolding dashboard_overview_def by (intro guarded_read guarded_pure guarded_done keeps_wf) auto
  subgoal unfolding settings_overview_def by (intro guarded_read guarded_pure guarded_done keeps_wf) auto
  subgoal unfolding aliases_revokeConfirm_def by (auto intro!: guarded_read guarded_pure guarded_done keeps_wf)
  subgoal unfolding denied_overview_def by (intro guarded_list_page keeps_wf)
  subgoal unfolding denied_removeConfirm_def by (intro guarded_read guarded_pure guarded_done keeps_wf) auto
  subgoal unfolding members_details_def by (intro guarded_read guarded_pure guarded_done keeps_wf) auto
  subgoal unfolding members_overview_def by (intro guarded_list_page keeps_wf)
  subgoal unfolding members_removeConfirm_def by (intro guarded_read guarded_pure guarded_done keeps_wf) auto
  subgoal unfolding invites_overview_def by (intro guarded_list_page keeps_wf)
  subgoal unfolding invites_revokeConfirm_def by (intro guarded_read guarded_pure guarded_done keeps_wf) auto
  subgoal unfolding notice_edit_def by (intro guarded_allowed guarded_read guarded_pure guarded_done keeps_wf) auto
  subgoal unfolding draftTranslation_def by (auto intro!: guarded_allowed guarded_done)
  done

text \<open>The right each path of the section needs for a change.\<close>

definition admin_right :: "string \<Rightarrow> request \<Rightarrow> db \<Rightarrow> bool" where
  "admin_right path req d \<longleftrightarrow>
     (if path \<in> {''/settings/set-privacy'', ''/settings/set-language'', ''/members/change-role'', ''/members/create-fallback-reset-link''}
      then hr_method req = ''POST'' \<and> is_admin req
      else if path = ''/aliases/revoke'' then hr_method req = ''POST'' \<and> (is_admin req \<or> owns_alias req (hr_form req ''name'') d)
      else if path = ''/denied/add'' then hr_method req = ''POST'' \<and> may_act ActionChangeDeniedKeys req d
      else if path = ''/denied/remove'' then may_act ActionChangeDeniedKeys req d
      else if path = ''/members/remove'' then hr_method req = ''POST'' \<and> may_act ActionRemoveMember req d
      else if path = ''/members/add'' then hr_method req = ''POST''
      else if path = ''/invites/create'' then hr_method req = ''POST'' \<and> may_act ActionInviteMember req d
      else if path = ''/invites/revoke'' then may_act ActionInviteMember req d
      else if path \<in> {''/notice/translation/add'', ''/notice/save''} then hr_method req = ''POST'' \<and> may_act ActionChangeNotice req d
      else False)"

lemma guarded_admin_handler: "data c = d \<Longrightarrow> guarded (admin_right path req d) d (admin_handler E path req c)"
proof (cases "map_of (admin_mux E) path")
  case None
  assume "data c = d"
  with None show ?thesis by (simp add: admin_handler_def guarded_done)
next
  case (Some h)
  assume d: "data c = d"
  from Some have "(path, h) \<in> set (admin_mux E)" by (rule map_of_SomeD)
  then have "guarded (admin_right path req d) d (h req c)"
    unfolding admin_mux_def set_simps insert_iff empty_iff prod.inject
    by (elim disjE conjE; simp only:)
       (simp_all add: d guarded_pages guarded_done guarded_settings guarded_aliases_revoke guarded_denied guarded_invites
         guarded_members guarded_notices admin_right_def)
  then show ?thesis using Some by (simp add: admin_handler_def)
qed

subsection \<open>What the operations of the site keep\<close>

text \<open>
  A law of the data that the operations keep is kept by every page that uses them. \<open>data_law\<close> asks it of all
  the writing operations the site calls but the removal of a denied key, \<open>full_data_law\<close> of that too: the
  pages are gone through once, for whatever the law is.
\<close>

definition reply_keeps :: "(db \<Rightarrow> bool) \<Rightarrow> 'p reply \<Rightarrow> bool" where
  "reply_keeps I r \<longleftrightarrow> I (data (snd r))"

lemma reply_keeps_done: "I (data c) \<Longrightarrow> reply_keeps I (es, c)"
  by (simp add: reply_keeps_def)

lemma reply_keeps_also: "reply_keeps I r \<Longrightarrow> reply_keeps I (also_do es r)"
  by (simp add: reply_keeps_def)

lemma reply_keeps_pure: "I (data c) \<Longrightarrow> (\<And>x. reply_keeps I (k x c)) \<Longrightarrow> reply_keeps I (on_result (r, c) f k)"
  by (cases r) (simp_all add: reply_keeps_def)

lemma reply_keeps_call:
  assumes "keeps I m" "I (data c)" "\<And>x c1. I (data c1) \<Longrightarrow> reply_keeps I (k x c1)"
  shows "reply_keeps I (on_result (m c) f k)"
proof -
  obtain r c1 where r: "m c = (r, c1)" by fastforce
  have "I (data c1)" using keepsD [OF assms(1) r assms(2)] .
  then show ?thesis using r assms(3) by (cases r) (simp_all add: reply_keeps_def)
qed

lemma reply_keeps_if: "reply_keeps I x \<Longrightarrow> reply_keeps I y \<Longrightarrow> reply_keeps I (if b then x else y)"
  by simp

lemma reply_keeps_option:
  "reply_keeps I x \<Longrightarrow> (\<And>m. reply_keeps I (y m)) \<Longrightarrow> reply_keeps I (case v of None \<Rightarrow> x | Some m \<Rightarrow> y m)"
  by (cases v) simp_all

lemma reply_keeps_pair: "(\<And>a b. reply_keeps I (f a b)) \<Longrightarrow> reply_keeps I (case p of (a, b) \<Rightarrow> f a b)"
  by (cases p) simp

lemmas reply_keeps_intros = reply_keeps_done reply_keeps_also reply_keeps_if reply_keeps_option reply_keeps_pure reply_keeps_call keeps_wf

lemma guarded_reply_keeps: "guarded False d r \<Longrightarrow> I d \<Longrightarrow> reply_keeps I r"
  by (simp add: guarded_def reply_keeps_def)

locale data_law =
  fixes I :: "db \<Rightarrow> bool"
  assumes config_law: "keeps I (Config_SetDefaultLanguage l)" "keeps I (Config_SetPrivacyMode pm)"
    and alias_law: "keeps I (Aliases_Revoke nm)"
    and denied_law: "keeps I (Denied_Add L t k s)"
    and invite_law: "keeps I (Invites_Create L t f i)" "keeps I (Invites_Revoke i)" "keeps I (Invites_Consume L s k)"
    and member_law: "keeps I (Members_Add L k r)" "keeps I (Members_SetRole i r)" "keeps I (Members_RemoveID i)"
    and fallback_law: "keeps I (Fallback_CreateResetToken L t f i j)" "keeps I (Fallback_SetPassword L b i s)"
      "keeps I (Fallback_SetPasswordWithToken L b s s')"
    and notice_law: "keeps I (Notices_Save n)" "keeps I (PinnedNotices_Set nm i)"
    and session_law: "keeps I (Sessions_CreateToken t g i)" "keeps I (Sessions_RemoveToken s)"
begin

lemmas laws = config_law alias_law denied_law invite_law member_law fallback_law notice_law session_law

lemma settings_keep:
  "I (data c) \<Longrightarrow> reply_keeps I (setLanguage net req c)" "I (data c) \<Longrightarrow> reply_keeps I (setPrivacy net req c)"
proof -
  assume wf: "I (data c)"
  have "I (data c')" if "Config_SetDefaultLanguage l c = (r, c')" for l r c'
    using keepsD [OF config_law(1) that wf] .
  then show "reply_keeps I (setLanguage net req c)" unfolding setLanguage_def
    by (intro reply_keeps_pure wf) (auto simp: reply_keeps_def split: prod.splits sum.splits)
  have "I (data c')" if "Config_SetPrivacyMode pm c = (r, c')" for pm r c'
    using keepsD [OF config_law(2) that wf] .
  then show "reply_keeps I (setPrivacy net req c)" unfolding setPrivacy_def Let_def
    by (intro reply_keeps_pure wf) (auto simp: reply_keeps_def split: prod.splits sum.splits)
qed

lemma changes_keep:
  assumes "I (data c)"
  shows "reply_keeps I (aliases_revoke req c)" "reply_keeps I (denied_add L now req c)"
    "reply_keeps I (invites_create L net now rand req c)" "reply_keeps I (invites_revoke req c)" "reply_keeps I (members_add L req c)"
    "reply_keeps I (members_changeRole net req c)" "reply_keeps I (members_remove req c)"
    "reply_keeps I (createPasswordResetToken L net now rand req c)"
    "reply_keeps I (addTranslation net req c)" "reply_keeps I (notice_save net req c)"
  unfolding aliases_revoke_def denied_add_def invites_create_def invites_revoke_def members_add_def
    members_changeRole_def members_remove_def createPasswordResetToken_def addTranslation_def notice_save_def
  by (intro reply_keeps_intros laws assms; assumption)+

lemma admin_handler_keeps:
  assumes "I (data c)" "path = ''/denied/remove'' \<Longrightarrow> reply_keeps I (denied_remove req c)"
  shows "reply_keeps I (admin_handler E path req c)"
proof (cases "map_of (admin_mux E) path")
  case None
  then show ?thesis using assms by (simp add: admin_handler_def reply_keeps_def)
next
  case (Some h)
  then have "(path, h) \<in> set (admin_mux E)" by (rule map_of_SomeD)
  then have "reply_keeps I (h req c)"
    unfolding admin_mux_def set_simps insert_iff empty_iff prod.inject
    by (elim disjE conjE; simp only:)
       (rule assms(2) changes_keep settings_keep reply_keeps_done guarded_reply_keeps [OF guarded_pages(1) [OF refl]]
          guarded_reply_keeps [OF guarded_pages(2) [OF refl]] guarded_reply_keeps [OF guarded_pages(3) [OF refl]]
          guarded_reply_keeps [OF guarded_pages(4) [OF refl]] guarded_reply_keeps [OF guarded_pages(5) [OF refl]]
          guarded_reply_keeps [OF guarded_pages(6) [OF refl]] guarded_reply_keeps [OF guarded_pages(7) [OF refl]]
          guarded_reply_keeps [OF guarded_pages(8) [OF refl]] guarded_reply_keeps [OF guarded_pages(9) [OF refl]]
          guarded_reply_keeps [OF guarded_pages(10) [OF refl]] guarded_reply_keeps [OF guarded_pages(11) [OF refl]]
          guarded_reply_keeps [OF guarded_pages(12) [OF refl]]; (rule assms(1) | assumption)?)+
  then show ?thesis using Some by (simp add: admin_handler_def)
qed

end

locale full_data_law = data_law +
  assumes undeny_law: "keeps I (Denied_RemoveID i)"
begin

lemma denied_remove_keeps: "I (data c) \<Longrightarrow> reply_keeps I (denied_remove req c)"
  unfolding denied_remove_def by (intro reply_keeps_intros undeny_law; assumption)

lemma admin_section_keeps:
  assumes "I (data c)"
  shows "I (data (snd (admin_section E req c)))"
  using admin_handler_keeps [OF assms] denied_remove_keeps [OF assms] assms
  by (simp add: admin_section_def AuthenticateFromContext_def reply_keeps_def)

end

interpretation wf_law: full_data_law db_wf
  by unfold_locales (rule keeps_wf)+

text \<open>Whatever request is made to the admin section, by whom and at whatever path, and whatever calls of
  the database fail on the way, the database keeps its invariant: keys are unique, references point
  to rows, roles and the privacy mode are valid.\<close>

lemma admin_section_keeps_db:
  assumes "db_wf (data c)"
  shows "db_wf (data (snd (admin_section E req c)))"
  by (rule wf_law.admin_section_keeps [OF assms])

subsection \<open>Properties\<close>

definition web_get :: "string \<Rightarrow> member option \<Rightarrow> (string \<Rightarrow> string) \<Rightarrow> request" where
  "web_get path m form = \<lparr>hr_method = ''GET'', hr_path = path, hr_query = form, hr_form = form, hr_form_error = None,
     hr_header = (\<lambda>_. []), hr_member = m\<rparr>"

definition web_post :: "string \<Rightarrow> member option \<Rightarrow> (string \<Rightarrow> string) \<Rightarrow> request" where
  "web_post path m form = (web_get path m form)\<lparr>hr_method := ''POST''\<rparr>"

definition carol_member :: member where
  "carol_member = \<lparr>m_id = 3, m_role = RoleMember, m_pub_key = carol, m_aliases = []\<rparr>"

definition sample_admin_env :: admin_env where
  "sample_admin_env = \<lparr>ae_lib = sample_lib, ae_net = \<lparr>RoomID = alice, ListenAddressMUXRPC = [], Domain = ''room.example'', PortHTTPS = 443,
      UseSubdomainForAliases = True, Development = False\<rparr>, ae_now = 0, ae_rand = (\<lambda>_. []), ae_flashes = Inr (), ae_markdown = (\<lambda>s. s),
      ae_language = (\<lambda>s. s), ae_online = None, ae_denied_pages = (\<lambda>l _ _. Inr l), ae_invite_pages = (\<lambda>l _ _. Inr l), ae_member_pages = (\<lambda>l _ _. Inr l)\<rparr>"

lemma admin_section_keeps_db_witness:
  "db_wf (data (snd (admin_section sample_admin_env (web_post ''/admin/members/add'' (Some carol_member) (\<lambda>_. ''@dave'')) sample_conn)))"
  by (rule admin_section_keeps_db) simp

definition section_path :: "request \<Rightarrow> string" where
  "section_path req = fst (customStripPrefix ''/admin'' (hr_path req, []))"

lemma admin_section_path:
  "admin_section E req c = (if FromContext req = None then ([ErrorPage StatusUnauthorized NotAuthorized], c) else admin_handler E (section_path req) req c)"
  by (simp add: admin_section_def AuthenticateFromContext_def section_path_def)


lemma strip_admin: "fst (customStripPrefix ''/admin'' (''/admin'' @ p, [])) = p"
  by (simp add: customStripPrefix_def Let_def trim_prefix_def has_prefix_def)

lemma denied_add_sample:
  "denied_add sample_lib 0 (web_post p (Some carol_member) (\<lambda>_. ''@dave'')) sample_conn
     = ([FlashMsg ''AdminDeniedKeysAdded'', RedirectTo StatusSeeOther redirectToDeniedKeys],
        sample_conn\<lparr>data := sample_db\<lparr>denied := add_row \<lparr>dn_pub_key = dave, dn_comment = ''@dave'', dn_at = 0\<rparr> empty_table\<rparr>\<rparr>)"
proof -
  have "CheckAllowed (web_post p (Some carol_member) (\<lambda>_. ''@dave'')) ActionChangeDeniedKeys sample_conn = (Inr carol_member, sample_conn)"
    using CheckAllowed_clean [of sample_conn "web_post p (Some carol_member) (\<lambda>_. ''@dave'')" carol_member ActionChangeDeniedKeys may_change_denied]
    by (simp add: FromContext_def web_post_def web_get_def AllowedActions_def allowedActionsMap_def action_names may_change_denied_def
        the_config_def initial_db_def configRowID_def)
  then show ?thesis
    by (simp add: denied_add_def web_post_def web_get_def expect_post_def parse_form_def ref_field_def has_prefix_def dave_def
        Denied_Add_def andthen_def on_error_def insert_denied_def exists_row_def ret_def current_timestamp_def)
qed

lemma on_admin: "FromContext req = Some m \<Longrightarrow> hr_path req = ''/admin'' @ p \<Longrightarrow> section_path req = p \<and> admin_section E req c = admin_handler E p req c"
  using strip_admin [of p] by (simp add: admin_section_path section_path_def)

lemma admin_handler_at:
  "admin_handler E ''/denied/add'' req c = denied_add (ae_lib E) (ae_now E) req c"
  "admin_handler E ''/denied/remove'' req c = denied_remove req c"
  "admin_handler E ''/members/add'' req c = members_add (ae_lib E) req c"
  by (simp_all add: admin_handler_def admin_mux_def)

lemma web_request_simps [simp]:
  "FromContext (web_get p m f) = m" "FromContext (web_post p m f) = m" "hr_path (web_get p m f) = p" "hr_path (web_post p m f) = p"
  "hr_form (web_get p m f) = f" "hr_form (web_post p m f) = f" "hr_form_error (web_get p m f) = None" "hr_form_error (web_post p m f) = None"
  "hr_method (web_get p m f) = ''GET''" "hr_method (web_post p m f) = ''POST''"
  by (simp_all add: web_get_def web_post_def FromContext_def)



definition denied_conn :: "db conn" where
  "denied_conn = sample_conn\<lparr>data := sample_db\<lparr>denied := add_row \<lparr>dn_pub_key = dave, dn_comment = ''@dave'', dn_at = 0\<rparr> empty_table\<rparr>\<rparr>"

lemma denied_remove_by_get:
  "data (snd (admin_section sample_admin_env (web_get ''/admin/denied/remove'' (Some carol_member) (\<lambda>_. ''1'')) denied_conn))
     = sample_db\<lparr>denied := \<lparr>rows = [], seq = 1\<rparr>\<rparr>"
proof -
  let ?req = "web_get ''/admin/denied/remove'' (Some carol_member) (\<lambda>_. ''1'')"
  have p: "admin_section sample_admin_env ?req denied_conn = denied_remove ?req denied_conn"
    using on_admin [of ?req carol_member "''/denied/remove''" sample_admin_env denied_conn] by (simp add: admin_handler_at)
  have wf: "db_wf (data denied_conn)"
    using wf_law.changes_keep(2) [of sample_conn sample_lib 0 "web_post [] (Some carol_member) (\<lambda>_. ''@dave'')"]
    by (simp add: reply_keeps_def denied_add_sample denied_conn_def)
  have allowed: "CheckAllowed ?req ActionChangeDeniedKeys denied_conn = (Inr carol_member, denied_conn)"
    using CheckAllowed_clean [OF wf, of ?req carol_member ActionChangeDeniedKeys may_change_denied]
    by (simp add: denied_conn_def sample_conn_def AllowedActions_def allowedActionsMap_def action_names may_change_denied_def
        the_config_def initial_db_def configRowID_def)
  have one: "parse_int64 ''1'' = Some 1" by (simp add: parse_int64_def is_digit_def digits_val_def digit_val_def)
  have "Denied_RemoveID 1 denied_conn = (Inr (), denied_conn\<lparr>data := sample_db\<lparr>denied := \<lparr>rows = [], seq = 1\<rparr>\<rparr>\<rparr>)"
    by (simp add: Denied_RemoveID_def andthen_def on_error_def denied_conn_def sample_conn_def delete_denied_def row_def add_row_def
        empty_table_def delete_id_def delete_rows_def)
  then show ?thesis unfolding p by (simp add: denied_remove_def allowed parse_form_def id_field_def one)
qed


text \<open>Adding members asks for no right: whoever is a member, with whatever role, makes any new key a member,
  also in a restricted room, where a plain member may not even invite.\<close>

lemma any_member_adds_members:
  assumes "faults c = []" "FromContext req = Some m" "hr_method req = ''POST''" "hr_form_error req = None"
    "hr_path req = ''/admin/members/add''" "parse_ref (ae_lib E) (hr_form req ''pub_key'') = Some k"
    "parse_canonical (ae_lib E)" "\<not> stored_member k (data c)"
  shows "\<exists>c'. admin_section E req c = ([FlashMsg ''AdminMemberAdded'', RedirectTo StatusSeeOther redirectToMembers], c')
     \<and> stored_member k (data c')"
proof -
  have p: "admin_section E req c = members_add (ae_lib E) req c"
    using on_admin [OF assms(2), of "''/members/add''" E c] assms(5) by (simp add: admin_handler_at)
  let ?c = "c\<lparr>data := (data c)\<lparr>members := add_row \<lparr>mb_role = RoleMember, mb_pub_key = k\<rparr> (members (data c))\<rparr>\<rparr>"
  have canon: "parse_ref (ae_lib E) (ref_string k) = Some k" using assms(6,7) by (auto simp: parse_canonical_def)
  have "Members_add (ae_lib E) k RoleMember c = (Inr (seq (members (data c)) + 1), ?c)"
    using assms(1,8) canon by (simp add: Members_add_def role_valid_def role_defs on_error_def insert_member_def stored_member_def)
  then have "Members_Add (ae_lib E) k RoleMember c = (Inr (seq (members (data c)) + 1), ?c)"
    unfolding Members_Add_def using transact_clean_ok [OF clean_Members(1) assms(1)] by blast
  then show ?thesis using assms(3,4,6) unfolding p
    by (simp add: members_add_def expect_post_def parse_form_def ref_field_def stored_member_def exists_row_def add_row_def)
qed

lemma any_member_adds_members_witness:
  "\<exists>c'. admin_section sample_admin_env (web_post ''/admin/members/add'' (Some carol_member) (\<lambda>_. ''@dave''))
       (sample_conn\<lparr>data := sample_db\<lparr>config := [(0, \<lparr>cf_mode = ModeRestricted, cf_language = ''en'', cf_subdomain = True\<rparr>)]\<rparr>\<rparr>)
     = ([FlashMsg ''AdminMemberAdded'', RedirectTo StatusSeeOther redirectToMembers], c') \<and> stored_member dave (data c')
     \<and> \<not> may_invite ModeRestricted (m_role carol_member)"
  using any_member_adds_members [of "sample_conn\<lparr>data := sample_db\<lparr>config := [(0, \<lparr>cf_mode = ModeRestricted, cf_language = ''en'', cf_subdomain = True\<rparr>)]\<rparr>\<rparr>"
      "web_post ''/admin/members/add'' (Some carol_member) (\<lambda>_. ''@dave'')" carol_member sample_admin_env dave]
  by (simp add: sample_admin_env_def dave_def has_prefix_def stored_member_def exists_row_def carol_member_def may_invite_def
      mode_defs role_defs elevated_def alice_def bob_def carol_def)

end
