(* ===== verification/WebPublic.thy ===== *)
theory WebPublic
  imports WebAdmin
begin

text \<open>
  \<open>web/handlers\<close>: the public pages. Invites are shown, consumed and, in the open mode, made by anyone;
  aliases are resolved; members change their password, signed in or with a reset link; notices are
  listed and shown. The renderer and the QR code are third-party; pages are given by their data.
\<close>

datatype public_page =
    FacadePage string string string string
  | FallbackPage string
  | InsertPage string
  | ConsumedPage string
  | OpenInvitePage string
  | AliasResolvedPage alias_entry string
  | PasswordFormPage string
  | NoticeListPage "(string \<times> notice list) list"
  | NoticeShowPage int64 string string string

type_synonym public_reply = "public_page reply"

record public_env =
  pe_lib :: lib
  pe_net :: server_details
  pe_tcp_port :: "string \<Rightarrow> nat option"
  pe_now :: time
  pe_rand :: "nat \<Rightarrow> bytes"
  pe_text :: "err \<Rightarrow> string"
  pe_chrome :: "string \<Rightarrow> bool"
  pe_qr :: "string \<Rightarrow> bytes res"
  pe_flashes :: "unit res"
  pe_markdown :: "string \<Rightarrow> string"
  pe_leaked :: "string \<Rightarrow> bool res"
  pe_salt :: bytes

definition room_address :: "public_env \<Rightarrow> string res" where
  "room_address E = MultiserverAddress (pe_lib E) (pe_tcp_port E) (pe_net E)"

subsection \<open>Invites\<close>

definition buildJoinRoomURI :: "public_env \<Rightarrow> string \<Rightarrow> string \<Rightarrow> string" where
  "buildJoinRoomURI E token userAgent =
     StringifySSBURI (pe_chrome E)
       (empty_url\<lparr>u_scheme := ''ssb'', u_opaque := ''experimental'',
          u_query := encode_values [(''action'', ''claim-http-invite''), (''invite'', token),
            (''postTo'', url_text (urlTo (pe_net E) ''complete:invite:consume'' []))]\<rparr>) userAgent"

definition json_error :: "public_env \<Rightarrow> string \<Rightarrow> err \<Rightarrow> (string \<times> string) list" where
  "json_error E status e = [(''status'', status), (''error'', pe_text E e)]"

definition presentFacadeAsJSON :: "public_env \<Rightarrow> request \<Rightarrow> db conn \<Rightarrow> public_reply" where
  "presentFacadeAsJSON E req c =
     (let token = hr_query req ''token'' in
      on_result (Invites_GetByToken (pe_lib E) token c) (\<lambda>e. [Json StatusOK (json_error E ''failed'' e)]) (\<lambda>_ c.
      ([Json StatusOK [(''status'', ''success''), (''invite'', token),
          (''postTo'', url_text (urlTo (pe_net E) ''complete:invite:consume'' []))]], c)))"

definition live_token :: "public_env \<Rightarrow> request \<Rightarrow> invite act" where
  "live_token E req = on_error (not_found_as ''invite'') (Invites_GetByToken (pe_lib E) (hr_query req ''token''))"

text \<open>\<open>requested\<close> is the path and query of the request, which the QR code shows with the room's host.\<close>

definition this_url :: "server_details \<Rightarrow> string \<Rightarrow> string" where
  "this_url netInfo requested =
     (if Development netInfo then ''http://'' @ Domain netInfo @ '':'' @ show_nat (PortHTTPS netInfo) else ''https://'' @ Domain netInfo) @ requested"

definition presentFacadeAsHTML :: "public_env \<Rightarrow> string \<Rightarrow> request \<Rightarrow> db conn \<Rightarrow> public_reply" where
  "presentFacadeAsHTML E requested req c =
     (let token = hr_query req ''token'' in
      on_result (live_token E req c) (\<lambda>e. [Failed e]) (\<lambda>_ c.
      on_result (PinnedNotices_Get ''NoticeDescription'' ''en-GB'' c) (\<lambda>e. [Failed (Wrapped ''failed to find room's description'' e)]) (\<lambda>n c.
      on_result (pe_qr E (this_url (pe_net E) requested), c) (\<lambda>e. [Failed e]) (\<lambda>png c.
      ([Page StatusOK (FacadePage (n_title n) (buildJoinRoomURI E token (hr_header req ''User-Agent''))
          (url_text (urlTo (pe_net E) ''complete:invite:accept:fallback'' [PVText ''token'', PVText token]))
          (''data:image/png;base64,'' @ b64_encode std_alphabet png))], c)))))"

definition presentFacade :: "public_env \<Rightarrow> string \<Rightarrow> request \<Rightarrow> db conn \<Rightarrow> public_reply" where
  "presentFacade E requested req c =
     (if hr_query req ''encoding'' = ''json'' then presentFacadeAsJSON E req c else presentFacadeAsHTML E requested req c)"

definition presentFacadeFallback :: "public_env \<Rightarrow> request \<Rightarrow> db conn \<Rightarrow> public_reply" where
  "presentFacadeFallback E req c =
     on_result (live_token E req c) (\<lambda>e. [Failed e]) (\<lambda>_ c.
     ([Page StatusOK (FallbackPage (url_text (urlTo (pe_net E) ''complete:invite:insert-id'' [PVText ''token'', PVText (hr_query req ''token'')])))], c))"

definition presentInsert :: "public_env \<Rightarrow> request \<Rightarrow> db conn \<Rightarrow> public_reply" where
  "presentInsert E req c =
     on_result (live_token E req c) (\<lambda>e. [Failed e]) (\<lambda>_ c. ([Page StatusOK (InsertPage (hr_query req ''token''))], c))"

text \<open>
  \<open>consume\<close> answers JSON requests in JSON and forms with pages. \<open>body\<close> is the decoded JSON body: the
  new member and the invite.
\<close>

datatype responder = JSONResponder | HTMLResponder

definition SendError :: "public_env \<Rightarrow> responder \<Rightarrow> err \<Rightarrow> public_page effect list" where
  "SendError E r e =
     (case r of
        JSONResponder \<Rightarrow> [Json StatusOK (json_error E ''error'' e)]
      | HTMLResponder \<Rightarrow> [ErrorPage StatusInternalServerError e])"

definition SendSuccess :: "responder \<Rightarrow> string \<Rightarrow> public_page effect list" where
  "SendSuccess r addr =
     (case r of
        JSONResponder \<Rightarrow> [Json StatusOK [(''status'', ''successful''), (''multiserverAddress'', addr)]]
      | HTMLResponder \<Rightarrow> [Page StatusOK (ConsumedPage addr)])"

definition consume_payload :: "public_env \<Rightarrow> (feed_ref \<times> string) res \<Rightarrow> request \<Rightarrow> (responder \<times> (feed_ref \<times> string) res) option" where
  "consume_payload E body req =
     (let ct = hr_header req ''Content-Type'' in
      if ct = ''application/json''
      then Some (JSONResponder, case body of Inl e \<Rightarrow> Inl (Wrapped ''consume body contained invalid json'' e) | Inr p \<Rightarrow> Inr p)
      else if ct = ''application/x-www-form-urlencoded''
      then Some (HTMLResponder,
             case parse_form ''form data'' req of
               Inl e \<Rightarrow> Inl e
             | Inr _ \<Rightarrow> map_res (\<lambda>r. (r, hr_form req ''invite'')) (ref_field (pe_lib E) ''id'' (hr_form req ''id'')))
      else None)"

definition invite_consume :: "public_env \<Rightarrow> (feed_ref \<times> string) res \<Rightarrow> request \<Rightarrow> db conn \<Rightarrow> public_reply" where
  "invite_consume E body req c =
     (case consume_payload E body req of
        None \<Rightarrow> ([PlainError StatusBadRequest (''unhandled Content-Type ('' @ [CHR 0x22] @ hr_header req ''Content-Type'' @ [CHR 0x22] @ '')'')], c)
      | Some (resp, payload) \<Rightarrow>
          on_result (payload, c) (SendError E resp) (\<lambda>(newMember, token) c.
          on_result (Denied_HasFeed newMember c) (SendError E resp) (\<lambda>banned c.
          if banned then (SendError E resp Denied, c)
          else on_result (room_address E, c) (\<lambda>p. [Failed p]) (\<lambda>addr c.
               on_result (Invites_Consume (pe_lib E) token newMember c) (\<lambda>e. SendError E resp (not_found_as ''invite'' e)) (\<lambda>inv c.
               (SendSuccess resp addr, c))))))"

text \<open>A wrong method is answered with an error page, and the invite is made all the same.\<close>

definition createOpenModeHTML :: "public_env \<Rightarrow> request \<Rightarrow> db conn \<Rightarrow> public_reply" where
  "createOpenModeHTML E req c =
     on_result (Invites_Create (pe_lib E) (pe_now E) (pe_rand E) (- 1) c) (\<lambda>e. [Failed e]) (\<lambda>token c.
     ([Page StatusOK (OpenInvitePage (url_text (urlTo (pe_net E) ''complete:invite:accept'' [PVText ''token'', PVText token])))], c))"

definition createOpenModeJSON :: "public_env \<Rightarrow> request \<Rightarrow> db conn \<Rightarrow> public_reply" where
  "createOpenModeJSON E req c =
     on_result (Invites_Create (pe_lib E) (pe_now E) (pe_rand E) (- 1) c)
       (\<lambda>e. [Json StatusInternalServerError (json_error E ''failed'' e)]) (\<lambda>token c.
     ([Json StatusOK [(''url'', url_text (urlTo (pe_net E) ''complete:invite:accept'' [PVText ''token'', PVText token]))]], c))"

definition before_do :: "'p effect list \<Rightarrow> 'p reply \<Rightarrow> 'p reply" where
  "before_do es r = (es @ fst r, snd r)"

definition createOpenMode :: "public_env \<Rightarrow> request \<Rightarrow> db conn \<Rightarrow> public_reply" where
  "createOpenMode E req c =
     (let wrong_method = [ErrorPage StatusBadRequest (Msg ''invalid method'')] in
      if hr_header req ''Accept'' = ''application/json''
      then before_do (if hr_method req \<noteq> ''POST'' then wrong_method else []) (createOpenModeJSON E req c)
      else before_do (if hr_method req \<noteq> ''GET'' then wrong_method else []) (createOpenModeHTML E req c))"

subsection \<open>Aliases\<close>

definition alias_error :: "public_env \<Rightarrow> request \<Rightarrow> err \<Rightarrow> public_page effect list" where
  "alias_error E req e =
     (if hr_query req ''encoding'' = ''json'' then [Json StatusOK (json_error E ''error'' e)]
      else [ErrorPage StatusInternalServerError e])"

definition SendConfirmation :: "public_env \<Rightarrow> request \<Rightarrow> alias_entry \<Rightarrow> db conn \<Rightarrow> public_reply" where
  "SendConfirmation E req a c =
     on_result (room_address E, c) (\<lambda>p. [Failed p]) (\<lambda>addr c.
     if hr_query req ''encoding'' = ''json''
     then ([Json StatusOK [(''status'', ''successful''), (''multiserverAddress'', addr), (''roomId'', ref_string (RoomID (pe_net E))),
              (''userId'', ref_string (a_feed a)), (''alias'', a_name a), (''signature'', b64_encode std_alphabet (a_signature a))]], c)
     else ([Page StatusOK (AliasResolvedPage a
              (StringifySSBURI (pe_chrome E)
                 (empty_url\<lparr>u_scheme := ''ssb'', u_opaque := ''experimental'',
                    u_query := encode_values [(''action'', ''consume-alias''), (''roomId'', ref_string (RoomID (pe_net E))), (''alias'', a_name a),
                      (''userId'', ref_string (a_feed a)), (''signature'', b64_encode url_alphabet (a_signature a)), (''multiserverAddress'', addr)]\<rparr>)
                 (hr_header req ''User-Agent'')))], c))"

text \<open>\<open>nm\<close> is the variable of the route. The check of it can never fail, as the empty text is a valid alias.\<close>

definition alias_resolve :: "public_env \<Rightarrow> string \<Rightarrow> request \<Rightarrow> db conn \<Rightarrow> public_reply" where
  "alias_resolve E nm req c =
     on_result (Config_GetPrivacyMode c) (\<lambda>_. alias_error E req (Msg ''room is running an unknown privacy mode'')) (\<lambda>pm c.
     if pm = ModeRestricted
     then (alias_error E req (Msg ''this room is restricted, alias resolving is turned off''), c)
     else if nm = [] \<and> \<not> alias_valid nm then (alias_error E req (Msg ''invalid alias''), c)
     else on_result (Aliases_Resolve nm c) (\<lambda>e. alias_error E req (Wrapped (''aliases: failed to resolve name '' @ nm) e))
            (SendConfirmation E req))"

subsection \<open>Passwords\<close>

definition changePasswordForm :: "public_env \<Rightarrow> request \<Rightarrow> db conn \<Rightarrow> public_reply" where
  "changePasswordForm E req c =
     (if FromContext req = None \<and> hr_query req ''token'' = [] then ([Failed NotAuthorized], c)
      else on_result (pe_flashes E, c) (\<lambda>e. [Failed e]) (\<lambda>_ c. ([Page StatusOK (PasswordFormPage (hr_query req ''token''))], c)))"

definition flash_back :: "request \<Rightarrow> string \<Rightarrow> public_page effect list" where
  "flash_back req label = [FlashErr (GenericLocalized label), RedirectTo StatusSeeOther (hr_header req ''Referer'')]"

definition changePassword :: "public_env \<Rightarrow> request \<Rightarrow> db conn \<Rightarrow> public_reply" where
  "changePassword E req c =
     (if hr_header req ''Referer'' = [] then ([PlainError StatusInternalServerError ''TODO: add correct redirect handling''], c)
      else if hr_method req \<noteq> ''POST'' then ([ErrorPage StatusBadRequest (Msg ''expected POST method'')], c)
      else case hr_form_error req of Some e \<Rightarrow> ([ErrorPage StatusBadRequest e], c)
      | None \<Rightarrow>
          let resetToken = hr_form req ''reset-token''; newpw = hr_form req ''new-password'' in
          if FromContext req \<noteq> None \<and> resetToken \<noteq> []
          then ([ErrorPage StatusBadRequest (Msg ''can't have logged in user and reset-token present. Log out and try again'')], c)
          else if newpw \<noteq> hr_form req ''repeat-password'' then (flash_back req ''ErrorPasswordDidntMatch'', c)
          else if length newpw < 10 then (flash_back req ''ErrorPasswordTooShort'', c)
          else on_result (pe_leaked E newpw, c)
                 (\<lambda>e. [ErrorPage StatusInternalServerError (Wrapped ''have-i-been-pwned client failed'' e)]) (\<lambda>isPwned c.
               if isPwned then (flash_back req ''ErrorPasswordLeaked'', c)
               else case (if resetToken = []
                          then Fallback_SetPassword (pe_lib E) (pe_salt E) (case FromContext req of None \<Rightarrow> - 1 | Some m \<Rightarrow> m_id m) newpw
                          else Fallback_SetPasswordWithToken (pe_lib E) (pe_salt E) resetToken newpw) c of
                   (Inl e, c) \<Rightarrow> ([FlashErr e, RedirectTo StatusSeeOther (u_path (urlTo (pe_net E) ''auth:fallback:login'' []))], c)
                 | (Inr _, c) \<Rightarrow> ([FlashMsg ''AuthFallbackPasswordUpdated'',
                                   RedirectTo StatusSeeOther (u_path (urlTo (pe_net E) ''auth:fallback:login'' []))], c)))"

subsection \<open>Notices\<close>

definition notices_list :: "public_env \<Rightarrow> request \<Rightarrow> db conn \<Rightarrow> public_reply" where
  "notices_list E req c =
     (let failed = (\<lambda>e. if hr_query req ''encoding'' = ''json'' then [Json StatusInternalServerError (json_error E ''error'' e)]
                        else [ErrorPage StatusInternalServerError e]) in
      on_result (PinnedNotices_List c) failed (\<lambda>lst c.
      on_result (pe_flashes E, c) failed (\<lambda>_ c.
      ([Page StatusOK (NoticeListPage (sorted_notices lst))], c))))"

definition notice_show :: "public_env \<Rightarrow> request \<Rightarrow> db conn \<Rightarrow> public_reply" where
  "notice_show E req c =
     on_result (id_field ''notice ID'' (hr_query req ''id''), c) (\<lambda>e. [Failed e]) (\<lambda>noticeID c.
     on_result (Notices_GetByID noticeID c) (\<lambda>e. [Failed e]) (\<lambda>n c.
     on_result (pe_flashes E, c) (\<lambda>e. [Failed e]) (\<lambda>_ c.
     ([Page StatusOK (NoticeShowPage noticeID (n_title n) (n_language n) (pe_markdown E (n_content n)))], c))))"

definition landing :: "public_env \<Rightarrow> request \<Rightarrow> db conn \<Rightarrow> public_reply" where
  "landing E req c =
     on_result (PinnedNotices_Get ''NoticeDescription'' ''en-GB'' c) (\<lambda>e. [Failed (Wrapped ''failed to find description'' e)]) (\<lambda>n c.
     ([Page StatusOK (NoticeShowPage (n_id n) (n_title n) (n_language n) (pe_markdown E (n_content n)))], c))"

subsection \<open>Which requests need no form protection\<close>

text \<open>The requests of apps, which carry a secret or come from nobody in particular, skip the check.\<close>

definition skips_csrf :: "server_details \<Rightarrow> request \<Rightarrow> bool" where
  "skips_csrf netInfo req \<longleftrightarrow>
     hr_path req = u_path (urlTo netInfo ''complete:invite:consume'' []) \<and> hr_header req ''Content-Type'' = ''application/json''
     \<or> hr_path req = u_path (urlTo netInfo ''open:invites:create'' []) \<and> hr_header req ''Accept'' = ''application/json''"

subsection \<open>The public pages and the database\<close>

lemma reply_keeps_before: "reply_keeps I r \<Longrightarrow> reply_keeps I (before_do es r)"
  by (simp add: reply_keeps_def before_do_def)

lemma guarded_before: "guarded P d r \<Longrightarrow> guarded P d (before_do es r)"
  by (simp add: guarded_def before_do_def)

lemma keeps_live_token [keeps_wf]: "keeps I (live_token E req)"
  unfolding live_token_def by (auto intro!: keeps_wf)

context data_law
begin

lemma consume_keeps: "I (data c) \<Longrightarrow> reply_keeps I (invite_consume E body req c)"
  unfolding invite_consume_def
  by (cases "consume_payload E body req")
     (auto simp: reply_keeps_done split: prod.split intro!: reply_keeps_intros reply_keeps_pair laws)

lemma open_keeps: "I (data c) \<Longrightarrow> reply_keeps I (createOpenMode E req c)"
  unfolding createOpenMode_def createOpenModeJSON_def createOpenModeHTML_def Let_def
  by (intro reply_keeps_if reply_keeps_before reply_keeps_call reply_keeps_done laws)

end

subsection \<open>Properties\<close>

text \<open>The invite page does what it promises: a banned key is refused and nothing changes, a live invite makes
  the key a member, spends the invite and gives the room's address, and a token without a live invite
  is refused and nothing changes.\<close>

lemma web_invite_consumed:
  assumes "db_wf (data c)" "faults c = []" "consume_payload E body req = Some (resp, Inr (k, token))"
    "room_address E = Inr addr" "getHashedToken (pe_lib E) token = Inr h" "parse_ref (pe_lib E) (ref_string k) \<noteq> None"
  shows "\<exists>es c'. invite_consume E body req c = (es, c') \<and>
     (if is_denied k (data c) then es = SendError E resp Denied \<and> c' = c
      else if invite_live h (data c)
      then es = SendSuccess resp addr \<and> stored_member k (data c') \<and> \<not> invite_live h (data c')
      else es = SendError E resp (WebNotFound ''invite'') \<and> c' = c)"
proof -
  have s: "invite_consume E body req c = (if is_denied k (data c) then (SendError E resp Denied, c)
      else on_result (Invites_Consume (pe_lib E) token k c) (\<lambda>e. SendError E resp (not_found_as ''invite'' e)) (\<lambda>inv c. (SendSuccess resp addr, c)))"
    using assms(3,4) Denied_HasFeed_clean [OF assms(2), of k] by (simp add: invite_consume_def)
  show ?thesis
  proof (cases "invite_live h (data c)")
    case False
    then show ?thesis using s Invites_Consume_dead [OF assms(2,5), of k] by (simp add: not_found_as_def)
  next
    case True
    then obtain i r where r: "(i, r) \<in> set (rows (invites (data c)))" "iv_active r" "iv_hash r = h" unfolding invite_live_iff by blast
    then obtain m d where "Invites_Consume (pe_lib E) token k c = (Inr \<lparr>i_id = i, i_by = creator_brief (iv_by r) m, i_at = iv_at r\<rparr>, c\<lparr>data := d\<rparr>)"
        "exists_row (\<lambda>x. mb_pub_key x = k) (members d)" "\<not> invite_live h d"
      using Invites_Consume_live [OF assms(1,2) _ r(1,2) assms(6), of token] assms(5) by auto
    then show ?thesis using s True by (simp add: stored_member_def)
  qed
qed

definition sample_public_env :: public_env where
  "sample_public_env = \<lparr>pe_lib = sample_lib, pe_net = \<lparr>RoomID = alice, ListenAddressMUXRPC = [], Domain = ''room.example'', PortHTTPS = 443,
      UseSubdomainForAliases = True, Development = False\<rparr>, pe_tcp_port = (\<lambda>_. Some 8008), pe_now = 7, pe_rand = (\<lambda>_. sample_token),
      pe_text = (\<lambda>_. []), pe_chrome = (\<lambda>_. False), pe_qr = Inr, pe_flashes = Inr (), pe_markdown = (\<lambda>s. s), pe_leaked = (\<lambda>_. Inr False),
      pe_salt = ''s''\<rparr>"

definition json_request :: request where
  "json_request = (web_post ''/invite/consume'' None (\<lambda>_. []))\<lparr>hr_header := (\<lambda>h. if h = ''Content-Type'' then ''application/json'' else [])\<rparr>"

lemma sample_invite_facts:
  "db_wf (data invited_conn)" "faults invited_conn = []"
  "consume_payload sample_public_env (Inr (dave, b64_encode url_alphabet sample_token)) json_request
     = Some (JSONResponder, Inr (dave, b64_encode url_alphabet sample_token))"
  "invite_live (hex sample_token) (data invited_conn)"
  "getHashedToken (pe_lib sample_public_env) (b64_encode url_alphabet sample_token) = Inr (hex sample_token)"
  "\<exists>addr. room_address sample_public_env = Inr addr" "\<not> is_denied dave (data invited_conn)"
  "parse_ref (pe_lib sample_public_env) (ref_string dave) \<noteq> None"
proof -
  show "db_wf (data invited_conn)" using keepsD [OF keeps_Invites(1) sample_invite_created] by simp
  show "getHashedToken (pe_lib sample_public_env) (b64_encode url_alphabet sample_token) = Inr (hex sample_token)"
    using getHashedToken_encode [of sample_token sample_lib] by (simp add: sample_public_env_def sample_token_def inviteTokenLength_def token_hash_def)
  show "\<exists>addr. room_address sample_public_env = Inr addr" by (simp add: room_address_def MultiserverAddress_def sample_public_env_def)
qed (simp_all add: invite_live_def exists_row_def invited_conn_def is_denied_def add_row_def consume_payload_def json_request_def sample_public_env_def)

lemma web_invite_consumed_witness:
  "\<exists>es c'. invite_consume sample_public_env (Inr (dave, b64_encode url_alphabet sample_token)) json_request invited_conn = (es, c')
     \<and> stored_member dave (data c')"
proof -
  obtain addr where "room_address sample_public_env = Inr addr" using sample_invite_facts(6) by blast
  from web_invite_consumed [OF sample_invite_facts(1-3) this sample_invite_facts(5,8)] show ?thesis
    using sample_invite_facts(4,7) by auto
qed

text \<open>Anybody can make an invite without signing in, but only while the room is open: in every other mode, and
  whatever the request, the page changes nothing.\<close>

lemma open_invites_need_open_mode:
  assumes "data (snd (createOpenMode E req c)) \<noteq> data c"
  shows "cf_mode (the_config (data c)) = ModeOpen"
proof -
  have s: "snd (createOpenMode E req c) = snd (Invites_Create (pe_lib E) (pe_now E) (pe_rand E) (- 1) c)"
    by (simp add: createOpenMode_def createOpenModeJSON_def createOpenModeHTML_def Let_def before_do_def on_result_def
        split: prod.splits sum.splits)
  obtain r c' where r: "Invites_Create (pe_lib E) (pe_now E) (pe_rand E) (- 1) c = (r, c')" by fastforce
  show ?thesis
  proof (cases r)
    case (Inl e)
    then have "data c' = data c" using r unfolding Invites_Create_def
      by (auto simp: andthen_def ret_def split: prod.splits sum.splits dest: transact_rollback)
    then show ?thesis using assms s r by simp
  next
    case (Inr tok)
    then show ?thesis using Invites_Create_ok [of "pe_lib E" "pe_now E" "pe_rand E" "- 1" c tok c'] r by (metis (full_types))
  qed
qed

definition open_room_conn :: "db conn" where
  "open_room_conn = sample_conn\<lparr>data := sample_db\<lparr>config := [(0, \<lparr>cf_mode = ModeOpen, cf_language = ''en'', cf_subdomain = True\<rparr>)]\<rparr>\<rparr>"

lemma open_invites_need_open_mode_witness: "cf_mode (the_config (data open_room_conn)) = ModeOpen"
proof (rule open_invites_need_open_mode [of sample_public_env json_request])
  let ?fn = "andthen (invite_creator (- 1)) (\<lambda>i. andthen (insert_fresh is_unique_error (insert_invite_row sample_lib 7 i) (\<lambda>_. sample_token) 0 100)
     (case_option (fail (Msg ''roomdb: failed to generate an invite token in a reasonable amount of time'')) ret))"
  let ?c = "open_room_conn\<lparr>data := (data open_room_conn)\<lparr>invites :=
      add_row \<lparr>iv_hash = token_hash sample_lib sample_token, iv_by = 1, iv_at = 7, iv_active = True\<rparr> empty_table\<rparr>\<rparr>"
  have run: "?fn open_room_conn = (Inr sample_token, ?c)"
    by (simp add: andthen_def invite_creator_def find_config_def configRowID_def on_error_def find_row_def open_room_conn_def
        insert_invite_row_def insert_invite_def exists_row_def ret_def insert_fresh_hundred role_defs)
  have k: "keeps_clean ?fn" by (auto intro!: clean_intros)
  have "transact ?fn open_room_conn = (Inr sample_token, ?c)"
    by (rule transact_clean_ok [OF k _ run]) (simp add: open_room_conn_def)
  then have "Invites_Create sample_lib 7 (\<lambda>_. sample_token) (- 1) open_room_conn = (Inr (b64_encode url_alphabet sample_token), ?c)"
    by (simp add: Invites_Create_def andthen_def [of "transact _"] ret_def)
  then have "snd (createOpenMode sample_public_env json_request open_room_conn) = ?c"
    by (simp add: createOpenMode_def createOpenModeHTML_def json_request_def Let_def before_do_def on_result_def sample_public_env_def)
  then show "data (snd (createOpenMode sample_public_env json_request open_room_conn)) \<noteq> data open_room_conn"
    using sample_tables(2) by (auto simp: open_room_conn_def add_row_def empty_table_def dest: arg_cong [where f = invites])
qed

lemma password_form_checked:
  assumes "changePassword E req c = (es, c')" and "data c' \<noteq> data c"
  shows "10 \<le> length (hr_form req ''new-password'')" "hr_form req ''repeat-password'' = hr_form req ''new-password''"
    "pe_leaked E (hr_form req ''new-password'') = Inr False" "FromContext req = None \<or> hr_form req ''reset-token'' = []"
    "snd ((if hr_form req ''reset-token'' = []
           then Fallback_SetPassword (pe_lib E) (pe_salt E) (case FromContext req of None \<Rightarrow> - 1 | Some m \<Rightarrow> m_id m) (hr_form req ''new-password'')
           else Fallback_SetPasswordWithToken (pe_lib E) (pe_salt E) (hr_form req ''reset-token'') (hr_form req ''new-password'')) c) = c'"
proof -
  let ?ok = "hr_header req ''Referer'' \<noteq> [] \<and> hr_method req = ''POST'' \<and> hr_form_error req = None \<and> 10 \<le> length (hr_form req ''new-password'')
    \<and> hr_form req ''repeat-password'' = hr_form req ''new-password'' \<and> pe_leaked E (hr_form req ''new-password'') = Inr False
    \<and> (FromContext req = None \<or> hr_form req ''reset-token'' = [])"
  have stops: "data (snd (changePassword E req c)) = data c" if "\<not> ?ok"
    using that by (cases "hr_form_error req"; cases "pe_leaked E (hr_form req ''new-password'')";
        cases "hr_form req ''repeat-password'' = hr_form req ''new-password''") (auto simp: changePassword_def Let_def on_result_def)
  have ok: ?ok using stops assms by (metis snd_conv)
  then have "snd (changePassword E req c) = snd ((if hr_form req ''reset-token'' = []
      then Fallback_SetPassword (pe_lib E) (pe_salt E) (case FromContext req of None \<Rightarrow> - 1 | Some m \<Rightarrow> m_id m) (hr_form req ''new-password'')
      else Fallback_SetPasswordWithToken (pe_lib E) (pe_salt E) (hr_form req ''reset-token'') (hr_form req ''new-password'')) c)"
    by (cases "FromContext req"; cases "hr_form req ''reset-token'' = []") (simp_all add: changePassword_def Let_def on_result_def split: prod.split sum.split)
  with ok assms(1) show "10 \<le> length (hr_form req ''new-password'')" "hr_form req ''repeat-password'' = hr_form req ''new-password''"
    "pe_leaked E (hr_form req ''new-password'') = Inr False" "FromContext req = None \<or> hr_form req ''reset-token'' = []"
    "snd ((if hr_form req ''reset-token'' = []
           then Fallback_SetPassword (pe_lib E) (pe_salt E) (case FromContext req of None \<Rightarrow> - 1 | Some m \<Rightarrow> m_id m) (hr_form req ''new-password'')
           else Fallback_SetPasswordWithToken (pe_lib E) (pe_salt E) (hr_form req ''reset-token'') (hr_form req ''new-password'')) c) = c'"
    by simp_all
qed

text \<open>C10: A password changes only in the two ways meant for it: the signed-in member changes its own, or somebody
  who is not signed in uses a live reset link, which is spent by that. In both cases at most one member
  is affected, and the new password was typed twice alike, has ten characters or more and is not
  known to be leaked.\<close>

theorem password_change_authorized:
  assumes wf: "db_wf (data c)" and run: "changePassword E req c = (es, c')" and change: "data c' \<noteq> data c"
  shows "10 \<le> length (hr_form req ''new-password'') \<and> hr_form req ''repeat-password'' = hr_form req ''new-password''
     \<and> pe_leaked E (hr_form req ''new-password'') = Inr False
     \<and> (\<exists>i. \<forall>j. j \<noteq> i \<longrightarrow> password_hash_of j (data c') = password_hash_of j (data c))
     \<and> (case FromContext req of
          Some m \<Rightarrow> hr_form req ''reset-token'' = [] \<and> (\<forall>j. j \<noteq> m_id m \<longrightarrow> password_hash_of j (data c') = password_hash_of j (data c))
        | None \<Rightarrow> \<exists>h. getHashedToken (pe_lib E) (hr_form req ''reset-token'') = Inr h \<and> reset_live h (data c) \<and> \<not> reset_live h (data c'))"
proof -
  let ?m = "case FromContext req of None \<Rightarrow> - 1 | Some m \<Rightarrow> m_id m" and ?tok = "hr_form req ''reset-token''"
    and ?pw = "hr_form req ''new-password''"
  note P = password_form_checked [OF run change]
  note form = P(1-4) and set = P(5)
  show ?thesis
  proof (cases "?tok = []")
    case True
    obtain r where r: "Fallback_SetPassword (pe_lib E) (pe_salt E) ?m ?pw c = (r, c')"
      using set True by (cases "Fallback_SetPassword (pe_lib E) (pe_salt E) ?m ?pw c") auto
    then obtain u where "r = Inr u" using change SetPassword_err by (cases r) metis+
    note ok = SetPassword_ok [OF wf r [unfolded this]]
    then have "0 < ?m" using db_wf_parts(1) [OF wf] by (auto simp: members_ok_def table_ok_def)
    then obtain m where m: "FromContext req = Some m" by (cases "FromContext req") auto
    from ok have "\<forall>j. j \<noteq> m_id m \<longrightarrow> password_hash_of j (data c') = password_hash_of j (data c)"
      unfolding m by auto
    then show ?thesis using form True m by auto
  next
    case False
    obtain r where r: "Fallback_SetPasswordWithToken (pe_lib E) (pe_salt E) ?tok ?pw c = (r, c')"
      using set False by (cases "Fallback_SetPasswordWithToken (pe_lib E) (pe_salt E) ?tok ?pw c") auto
    then obtain u where "r = Inr u" using change SetPasswordWithToken_err by (cases r) metis+
    note r = r [unfolded this]
    show ?thesis using SetPasswordWithToken_sets [OF wf r] SetPasswordWithToken_spends [OF wf r] form False by auto
  qed
qed

lemma password_change_authorized_witness:
  "\<exists>h. getHashedToken sample_lib (b64_encode url_alphabet sample_token) = Inr h \<and> reset_live h (data reset_conn)"
proof -
  let ?form = "\<lambda>f. if f = ''reset-token'' then b64_encode url_alphabet sample_token else ''a long secret''"
  let ?req = "(web_post ''/members/change-password'' None ?form)\<lparr>hr_header := (\<lambda>_. ''/'')\<rparr>"
  have wf: "db_wf (data reset_conn)" using keepsD [OF keeps_Fallback(4) sample_reset_created] by simp
  obtain c2 where set: "Fallback_SetPasswordWithToken sample_lib ''s'' (b64_encode url_alphabet sample_token) ''a long secret'' reset_conn = (Inr (), c2)"
    by (rule SetPasswordWithToken_clean [OF _ wf sample_reset_row, of sample_lib _ "''s''" "''a long secret''" "''$a long secret''"])
       (auto simp: reset_conn_def getHashedToken_encode sample_token_def inviteTokenLength_def token_hash_def)
  have nonempty: "b64_encode url_alphabet sample_token \<noteq> []"
    using b64_decode_encode [of url_alphabet sample_token] by (auto simp: sample_token_def b64_decode_def)
  obtain es where run: "changePassword sample_public_env ?req reset_conn = (es, c2)"
    using set nonempty by (simp add: changePassword_def on_result_def sample_public_env_def FromContext_def web_post_def web_get_def)
  have "data c2 \<noteq> data reset_conn" using SetPasswordWithToken_spends [OF wf set] by metis
  from password_change_authorized [OF wf run this] nonempty show ?thesis
    by (auto simp: sample_public_env_def web_post_def web_get_def FromContext_def)
qed

end
