(* ===== verification/WebAuth.thy ===== *)
theory WebAuth
  imports WebPublic SignIn
begin

text \<open>
  \<open>web/handlers/auth/withssb.go\<close>: signing in with SSB. A client starts it by naming itself and is asked
  for a solution over its connection, or a page starts it, waits on the bridge for the solution to
  arrive and turns the token it is told into the session cookie. The connection to the client, the QR
  code and the clock are parameters; the clock stands still during one request.
\<close>

record template_data =
  td_SSBURI :: string
  td_QRCodeURI :: string
  td_IsSolvingRemotely :: bool
  td_ServerChallenge :: string

datatype auth_page = DecideMethodPage | ServerStartPage template_data | FallbackLoginPage

text \<open>
  \<open>au_endpoint\<close> is \<open>GetEndpointFor\<close> and, for a client that is connected, its answer to
  \<open>httpAuth.requestSolution(sc, cc)\<close>; \<open>au_challenge\<close> and \<open>au_draw\<close> are reads of the random source.
\<close>

record auth_env =
  au_public :: public_env
  au_intn :: "nat \<Rightarrow> nat"
  au_challenge :: bytes
  au_draw :: "nat \<Rightarrow> bytes"
  au_endpoint :: "feed_ref \<Rightarrow> (string \<Rightarrow> string \<Rightarrow> string res) option"
  au_save_error :: "err option"

subsection \<open>The client starts\<close>

definition dashboard_path :: "auth_env \<Rightarrow> string" where
  "dashboard_path E = u_path (urlTo (pe_net (au_public E)) ''admin:dashboard'' [])"

definition clientInitiated :: "auth_env \<Rightarrow> request \<Rightarrow> feed_ref \<Rightarrow> cookie \<Rightarrow> db conn \<Rightarrow> string res \<times> cookie \<times> db conn" where
  "clientInitiated E req client ck c =
     (let P = au_public E; cc = hr_query req ''cc'' in
      case Members_GetByFeed client c of
        (Inl e, c1) \<Rightarrow>
          (Inl (if errors_is e ErrNotFound then Forbidden (Wrapped ''ssb http auth: client isn't a member'' e) else e), ck, c1)
      | (Inr member, c1) \<Rightarrow>
          (case au_endpoint E client of
             None \<Rightarrow> (Inl (Forbidden (Msg ''ssb http auth: client not connected to room'')), ck, c1)
           | Some ask \<Rightarrow>
               let sc = GenerateChallenge (au_challenge E);
                   payload = \<lparr>ClientID = client, ServerID = RoomID (pe_net P), ClientChallenge = cc, ServerChallenge = sc\<rparr> in
               (case ask sc cc of
                  Inl e \<Rightarrow> (Inl (Wrapped ''ssb http auth: could not request solution from client'' e), ck, c1)
                | Inr solution \<Rightarrow>
                    (case b64_decode std_alphabet (trim_suffix solution ''.sig.ed25519'') of
                       None \<Rightarrow> (Inl (Wrapped ''ssb http auth: failed to decode solution'' (Msg ''illegal base64 data'')), ck, c1)
                     | Some sig \<Rightarrow>
                         if \<not> payload_validate (pe_lib P) payload sig
                         then (Inl (Msg ''ssb http auth: validation of client solution failed''), ck, c1)
                         else
                           (case Sessions_CreateToken (pe_now P) (au_intn E) (m_id member) c1 of
                              (Inl e, c2) \<Rightarrow> (Inl (Wrapped ''ssb http auth: could not create token'' e), ck, c2)
                            | (Inr tok, c2) \<Rightarrow>
                                (case saveCookie (au_save_error E) (pe_now P) tok ck of
                                   (Inl e, ck') \<Rightarrow> (Inl e, ck', c2)
                                 | (Inr _, ck') \<Rightarrow> (Inr (dashboard_path E), ck', c2)))))))"

subsection \<open>The page starts\<close>

text \<open>Without a challenge in the request a session is registered on the bridge (\<open>None\<close>: that does not end).\<close>

definition challenge_for :: "auth_env \<Rightarrow> string \<Rightarrow> bridge \<Rightarrow> (string \<times> bridge) option" where
  "challenge_for E sc b = (if sc = [] then RegisterSession (au_draw E) b else Some (sc, b))"

definition start_uri :: "auth_env \<Rightarrow> string \<Rightarrow> string \<Rightarrow> url" where
  "start_uri E addr sc =
     empty_url\<lparr>u_scheme := ''ssb'', u_opaque := ''experimental'',
       u_query := encode_values [(''action'', ''start-http-auth''), (''sid'', ref_string (RoomID (pe_net (au_public E)))),
         (''sc'', sc), (''multiserverAddress'', addr)]\<rparr>"

definition remote_login_url :: "auth_env \<Rightarrow> string \<Rightarrow> url" where
  "remote_login_url E sc =
     (let net = pe_net (au_public E) in
      (urlTo net ''auth:withssb:login'' [PVText ''sc'', PVText sc])
        \<lparr>u_host := Domain net @ (if Development net then '':'' @ show_nat (PortHTTPS net) else []),
         u_scheme := (if Development net then ''http'' else ''https'')\<rparr>)"

definition serverInitiated :: "auth_env \<Rightarrow> string \<Rightarrow> string \<Rightarrow> bridge \<Rightarrow> (template_data res \<times> bridge) option" where
  "serverInitiated E sc0 userAgent b =
     map_option (\<lambda>(sc, b').
       (case room_address (au_public E) of
          Inl e \<Rightarrow> Inl e
        | Inr addr \<Rightarrow>
            (case (if sc0 \<noteq> [] then Inr []
                   else map_res (\<lambda>png. ''data:image/png;base64,'' @ b64_encode std_alphabet png)
                          (pe_qr (au_public E) (url_text (remote_login_url E sc)))) of
               Inl e \<Rightarrow> Inl e
             | Inr qr \<Rightarrow>
                 Inr \<lparr>td_SSBURI = StringifySSBURI (pe_chrome (au_public E)) (start_uri E addr sc) userAgent,
                      td_QRCodeURI = qr, td_IsSolvingRemotely = (sc0 \<noteq> []), td_ServerChallenge = sc\<rparr>), b'))
       (challenge_for E sc0 b)"

subsection \<open>The login page\<close>

text \<open>The client a request names: by reference, which has to be a member's, or by alias.\<close>

definition login_client :: "auth_env \<Rightarrow> request \<Rightarrow> db conn \<Rightarrow> ((nat \<times> err) + feed_ref option) \<times> db conn" where
  "login_client E req c =
     (let cidString = hr_query req ''cid'' in
      if cidString \<noteq> []
      then (case parse_ref (pe_lib (au_public E)) cidString of
              None \<Rightarrow> (Inr None, c)
            | Some cid \<Rightarrow>
                (case Members_GetByFeed cid c of
                   (Inl e, c1) \<Rightarrow>
                     (Inl (if errors_is e ErrNotFound then (StatusForbidden, Forbidden e) else (StatusInternalServerError, e)), c1)
                 | (Inr _, c1) \<Rightarrow> (Inr (Some cid), c1)))
      else (case Aliases_Resolve (hr_query req ''alias'') c of
              (Inl _, c1) \<Rightarrow> (Inr None, c1)
            | (Inr entry, c1) \<Rightarrow> (Inr (Some (a_feed entry)), c1)))"

type_synonym auth_reply = "auth_page effect list \<times> cookie \<times> bridge \<times> db conn"

definition DecideMethod :: "auth_env \<Rightarrow> request \<Rightarrow> cookie \<Rightarrow> bridge \<Rightarrow> db conn \<Rightarrow> auth_reply option" where
  "DecideMethod E req ck b c =
     (case login_client E req c of
        (Inl (status, e), c1) \<Rightarrow> Some ([ErrorPage status e], ck, b, c1)
      | (Inr cid, c1) \<Rightarrow>
          if hr_query req ''cc'' \<noteq> [] \<and> cid \<noteq> None
          then Some (case clientInitiated E req (the cid) ck c1 of
                       (Inl e, ck', c2) \<Rightarrow> ([ErrorPage StatusInternalServerError e], ck', b, c2)
                     | (Inr path, ck', c2) \<Rightarrow> ([RedirectTo StatusTemporaryRedirect path], ck', b, c2))
          else map_option (\<lambda>(page, b').
                 ((case page of
                     Inl e \<Rightarrow> [ErrorPage StatusInternalServerError e]
                   | Inr d \<Rightarrow> [Page StatusOK (ServerStartPage d)]), ck, b', c1))
                 (serverInitiated E (hr_query req ''sc'') (hr_header req ''User-Agent'') b))"

text \<open>The last step of the page: the token it was told becomes the cookie.\<close>

definition finalizeCookie :: "auth_env \<Rightarrow> request \<Rightarrow> cookie \<Rightarrow> db conn \<Rightarrow> auth_page effect list \<times> cookie \<times> db conn" where
  "finalizeCookie E req ck c =
     (let tok = hr_query req ''token''; now = pe_now (au_public E) in
      case Sessions_CheckToken now tok c of
        (Inl _, c1) \<Rightarrow> ([PlainError StatusForbidden ''invalid session token''], ck, c1)
      | (Inr _, c1) \<Rightarrow>
          (case saveCookie (au_save_error E) now tok ck of
             (Inl _, ck') \<Rightarrow> ([PlainError StatusInternalServerError ''failed to save cookie''], ck', c1)
           | (Inr _, ck') \<Rightarrow> ([RedirectTo StatusTemporaryRedirect ''/''], ck', c1)))"

subsection \<open>Server-sent events\<close>

text \<open>The sender counts its events with 32 bits.\<close>

record event_sender =
  es_text :: string
  es_id :: "32 word"

definition newEventSender :: event_sender where
  "newEventSender = \<lparr>es_text = [], es_id = 0\<rparr>"

definition newline :: string where "newline = [CHR 0x0A]"

definition frame :: "32 word \<Rightarrow> string \<times> string \<Rightarrow> string" where
  "frame i e =
     ''id: '' @ show_nat (unat i) @ newline @ ''data: '' @ snd e @ newline @ ''event: '' @ fst e @ newline @ newline"

definition sse_send :: "string \<Rightarrow> string \<Rightarrow> event_sender \<Rightarrow> event_sender" where
  "sse_send event msg es = \<lparr>es_text = es_text es @ frame (es_id es) (event, msg), es_id = es_id es + 1\<rparr>"

definition outcome_text :: "(err \<Rightarrow> string) \<Rightarrow> event \<Rightarrow> string \<times> string" where
  "outcome_text err_text u =
     (if ev_worked u then (''success'', ev_token u)
      else (''failed'', case ev_reason u of None \<Rightarrow> ''challenge validation failed'' | Some e \<Rightarrow> err_text e))"

text \<open>
  What the loop of a page can receive: the request was closed, the ticker (with the age of the
  session as a text), or an event. A channel that was closed gives the event without any content.
  The result says whether the handler returned.
\<close>

datatype sse_input = RequestClosed | Ping string | Update event

fun sse_loop :: "(err \<Rightarrow> string) \<Rightarrow> sse_input list \<Rightarrow> event_sender \<Rightarrow> event_sender \<times> bool" where
  "sse_loop err_text [] es = (es, False)"
| "sse_loop err_text (RequestClosed # _) es = (es, True)"
| "sse_loop err_text (Ping age # ins) es =
     sse_loop err_text ins (sse_send ''ping'' (''Waiting for solution (session age: '' @ age @ '')'') es)"
| "sse_loop err_text (Update u # _) es =
     (case outcome_text err_text u of (event, msg) \<Rightarrow> (sse_send event msg es, True))"

datatype sse_reply = SseError nat string | SsePanic | SseStream string bool

text \<open>\<open>flushes\<close>: the response can be streamed. The log line takes the first five letters of the challenge.\<close>

definition eventSource :: "(err \<Rightarrow> string) \<Rightarrow> bool \<Rightarrow> request \<Rightarrow> bridge \<Rightarrow> sse_input list \<Rightarrow> sse_reply" where
  "eventSource err_text flushes req b ins =
     (let sc = hr_query req ''sc'' in
      if \<not> flushes then SseError StatusInternalServerError ''ssb http auth: server-initiated method needs streaming support''
      else if sc = [] then SseError StatusBadRequest ''missing server challenge''
      else if length sc < 5 then SsePanic
      else case GetEventChannel sc b of
          None \<Rightarrow> SseError StatusBadRequest ''no such session!''
        | Some _ \<Rightarrow> (case sse_loop err_text ins newEventSender of (es, ended) \<Rightarrow> SseStream (es_text es) ended))"

subsection \<open>Facts\<close>

definition signed_in :: "string \<Rightarrow> time \<Rightarrow> cookie" where
  "signed_in tok now = \<lparr>ck_error = None, ck_new = False, ck_token = Some (Some tok), ck_timeout = Some (Some (now + sessionLifetime))\<rparr>"

lemma saveCookie_ok: "saveCookie se now tok ck = (Inr u, ck') \<longleftrightarrow> ck_error ck = None \<and> se = None \<and> ck' = signed_in tok now"
  by (auto simp: saveCookie_def signed_in_def split: option.splits)

lemma saveCookie_err: "saveCookie se now tok ck = (Inl e, ck') \<Longrightarrow> ck' = ck"
  by (auto simp: saveCookie_def split: option.splits)

lemma signed_in_works:
  assumes clean: "faults c = []" and check: "Sessions_CheckToken t tok c = (Inr i, c)" and early: "t \<le> now + sessionLifetime"
  shows "AuthenticateRequest t (signed_in tok now) c = Members_GetByID i c"
  using check early by (simp add: AuthenticateRequest_def signed_in_def andthen_def)

lemma clientInitiated_ok:
  assumes run: "clientInitiated E req client ck c = (Inr path, ck', c')"
  shows "\<exists>m c1 ask answer sig tok. Members_GetByFeed client c = (Inr m, c1) \<and> au_endpoint E client = Some ask
    \<and> ask (GenerateChallenge (au_challenge E)) (hr_query req ''cc'') = Inr answer
    \<and> b64_decode std_alphabet (trim_suffix answer ''.sig.ed25519'') = Some sig
    \<and> payload_validate (pe_lib (au_public E)) \<lparr>ClientID = client, ServerID = RoomID (pe_net (au_public E)),
         ClientChallenge = hr_query req ''cc'', ServerChallenge = GenerateChallenge (au_challenge E)\<rparr> sig
    \<and> Sessions_CreateToken (pe_now (au_public E)) (au_intn E) (m_id m) c1 = (Inr tok, c')
    \<and> ck' = signed_in tok (pe_now (au_public E)) \<and> path = dashboard_path E"
  using run unfolding clientInitiated_def Let_def
  by (auto simp: saveCookie_ok split: prod.splits sum.splits option.splits if_splits)

lemma clientInitiated_err: "clientInitiated E req client ck c = (Inl e, ck', c') \<Longrightarrow> ck' = ck"
  unfolding clientInitiated_def Let_def
  by (auto dest: saveCookie_err split: prod.splits sum.splits option.splits if_splits)

lemma GetByID_row_clean:
  assumes "faults c = []" and "row i (members (data c)) = Some r"
  shows "\<exists>m. Members_GetByID i c = (Inr m, c) \<and> m_id m = i \<and> m_pub_key m = mb_pub_key r \<and> m_role m = mb_role r"
  using assms by (simp add: Members_GetByID_def andthen_def on_error_def to_member_def ret_def)

text \<open>A new session and its cookie let the member in until the session is over.\<close>

lemma new_session_signs_in:
  assumes clean: "faults c = []" and wf: "db_wf (data c)" and member: "(i, r) \<in> set (rows (members (data c)))"
    and tok: "Sessions_CreateToken t f i c = (Inr tok, c')" and early: "later \<le> current_timestamp t + sessionTimeout" and now: "t \<le> now"
  shows "\<exists>m. AuthenticateRequest later (signed_in tok now) c' = (Inr m, c') \<and> m_id m = i \<and> m_pub_key m = mb_pub_key r"
proof -
  have clean': "faults c' = []" using keeps_cleanD [OF clean_Sessions(1) tok clean] .
  have "Sessions_CheckToken later tok c' = (Inr i, c')" using session_tokens.created_valid [OF tok clean early] .
  moreover have "later \<le> now + sessionLifetime"
    using early now by (simp add: current_timestamp_def sessionTimeout_def sessionLifetime_def time_units)
  ultimately have "AuthenticateRequest later (signed_in tok now) c' = Members_GetByID i c'" by (rule signed_in_works [OF clean'])
  moreover have "row i (members (data c')) = Some r"
    using CreateToken_row [OF tok] row_in [OF _ member] wf by (simp add: db_wf_def members_ok_def)
  ultimately show ?thesis using GetByID_row_clean [OF clean'] by auto
qed

lemma login_client_data: "login_client E req c = (r, c1) \<Longrightarrow> data c1 = data c \<and> (faults c = [] \<longrightarrow> faults c1 = [])"
proof -
  assume run: "login_client E req c = (r, c1)"
  have "data c2 = data c \<and> (faults c = [] \<longrightarrow> faults c2 = [])" if "Members_GetByFeed u c = (q, c2)" for u q c2
    using keepsD [OF keeps_Members(4) that, of "\<lambda>d. d = data c"] keeps_cleanD [OF clean_Members(4) that] by simp
  moreover have "data c2 = data c \<and> (faults c = [] \<longrightarrow> faults c2 = [])" if "Aliases_Resolve nm c = (q, c2)" for nm q c2
    using keepsD [OF keeps_Aliases(1) that, of "\<lambda>d. d = data c"] keeps_cleanD [OF clean_Aliases(1) that] by simp
  ultimately show ?thesis using run unfolding login_client_def Let_def
    by (auto split: prod.splits sum.splits option.splits if_splits)
qed

lemma DecideMethod_cookie:
  assumes run: "DecideMethod E req ck b c = Some (es, ck', b', c')" and new: "ck' \<noteq> ck"
  obtains client c1 path where "data c1 = data c" "clientInitiated E req client ck c1 = (Inr path, ck', c')"
    "es = [RedirectTo StatusTemporaryRedirect path]" "b' = b"
proof -
  obtain r c1 where r: "login_client E req c = (r, c1)" by fastforce
  obtain client where client: "r = Inr (Some client)" "hr_query req ''cc'' \<noteq> []"
    using run new r by (auto simp: DecideMethod_def split: sum.splits if_splits prod.splits)
  obtain q ck2 c2 where q: "clientInitiated E req client ck c1 = (q, ck2, c2)" by (cases "clientInitiated E req client ck c1") auto
  show thesis
  proof (cases q)
    case (Inl e)
    then show ?thesis using run new r client q clientInitiated_err [of E req client ck c1 e ck2 c2] by (simp add: DecideMethod_def)
  next
    case (Inr path)
    then show ?thesis using that [of c1 client path] run r client q login_client_data [OF r] by (simp add: DecideMethod_def)
  qed
qed

text \<open>The stream as a list: all events that are sent, each with its number.\<close>

definition ping_event :: "string \<Rightarrow> string \<times> string" where
  "ping_event age = (''ping'', ''Waiting for solution (session age: '' @ age @ '')'')"

definition frames_from :: "nat \<Rightarrow> (string \<times> string) list \<Rightarrow> string" where
  "frames_from n evs = concat (map (\<lambda>(k, e). frame (of_nat k) e) (enumerate n evs))"

lemma frames_from_Cons: "frames_from n (e # es) = frame (of_nat n) e @ frames_from (Suc n) es"
  by (simp add: frames_from_def)

lemma frames_from_snoc: "frames_from n (es @ [e]) = frames_from n es @ frame (of_nat (n + length es)) e"
  by (simp add: frames_from_def enumerate_append_eq)

lemma sse_loop_pings:
  "sse_loop err_text (map Ping ages @ ins) \<lparr>es_text = t, es_id = of_nat n\<rparr>
     = sse_loop err_text ins \<lparr>es_text = t @ frames_from n (map ping_event ages), es_id = of_nat (n + length ages)\<rparr>"
proof (induction ages arbitrary: t n)
  case Nil
  then show ?case by (simp add: frames_from_def)
next
  case (Cons age ages)
  have "sse_loop err_text (map Ping (age # ages) @ ins) \<lparr>es_text = t, es_id = of_nat n\<rparr>
      = sse_loop err_text (map Ping ages @ ins) \<lparr>es_text = t @ frame (of_nat n) (ping_event age), es_id = of_nat (Suc n)\<rparr>"
    by (simp add: sse_send_def ping_event_def add.commute)
  also have "\<dots> = sse_loop err_text ins \<lparr>es_text = (t @ frame (of_nat n) (ping_event age)) @ frames_from (Suc n) (map ping_event ages),
      es_id = of_nat (Suc n + length ages)\<rparr>" by (rule Cons.IH)
  finally show ?case by (simp add: frames_from_Cons)
qed

lemma register_loop_some:
  "register_loop draw k b = Some r \<Longrightarrow> (\<exists>j. fst r = GenerateChallenge (draw j)) \<and> snd r = add_session (fst r) b"
proof -
  assume r: "register_loop draw k b = Some r"
  show ?thesis by (rule register_loop.raw_induct [OF _ r]) (auto simp: Let_def split: if_splits)
qed

lemma challenge_registered:
  assumes "challenge_for E [] b = Some (sc, b')"
  shows "GetEventChannel sc b' = Some (channels b)" "\<exists>j. sc = GenerateChallenge (au_draw E j)"
  using register_loop_some [of "au_draw E" 0 b "(sc, b')"] assms
  by (auto simp: challenge_for_def RegisterSession_def GetEventChannel_def add_session_def update_conv')

lemma serverInitiated_challenge:
  assumes "serverInitiated E sc0 ua b = Some (Inr td, b1)"
  shows "challenge_for E sc0 b = Some (td_ServerChallenge td, b1)"
proof -
  obtain sc where sc: "challenge_for E sc0 b = Some (sc, b1)"
    using assms by (auto simp: serverInitiated_def)
  moreover obtain addr where "room_address (au_public E) = Inr addr"
    using assms sc by (cases "room_address (au_public E)") (auto simp: serverInitiated_def)
  ultimately show ?thesis using assms
    by (cases "if sc0 \<noteq> [] then Inr [] else map_res (\<lambda>png. ''data:image/png;base64,'' @ b64_encode std_alphabet png)
          (pe_qr (au_public E) (url_text (remote_login_url E sc)))") (auto simp: serverInitiated_def simp del: append_Cons)
qed

lemma length_b64: "length bs \<le> length (b64_encode al bs)"
  by (induction al bs rule: b64_encode.induct) auto

lemma client_login_runs:
  assumes clean: "faults c = []" and wf: "db_wf (data c)" and law: "sign_verifies (pe_lib (au_public E))"
    and member: "(i, r) \<in> set (rows (members (data c)))" "mb_pub_key r = u" "parse_ref (pe_lib (au_public E)) (ref_string u) = Some u"
    and req: "hr_query req ''cid'' = ref_string u" "ref_string u \<noteq> []" "hr_query req ''cc'' = cc" "cc \<noteq> []"
    and key: "pub_key (pe_lib (au_public E)) u = ed_public (pe_lib (au_public E)) k"
    and client: "au_endpoint E u = Some (\<lambda>sc cc. Inr (b64_encode std_alphabet (payload_sign (pe_lib (au_public E)) k
       \<lparr>ClientID = u, ServerID = RoomID (pe_net (au_public E)), ClientChallenge = cc, ServerChallenge = sc\<rparr>) @ ''.sig.ed25519''))"
    and cookie: "ck_error ck = None" "au_save_error E = None"
    and new: "\<not> exists_row (\<lambda>r. ss_token r = randutil_String (au_intn E) 0 siwssbTokenLength) (sessions (data c))"
  shows "\<exists>tok c'. DecideMethod E req ck b c = Some ([RedirectTo StatusTemporaryRedirect (dashboard_path E)], signed_in tok (pe_now (au_public E)), b, c')
    \<and> Sessions_CreateToken (pe_now (au_public E)) (au_intn E) i c = (Inr tok, c')"
proof -
  let ?L = "pe_lib (au_public E)" and ?now = "pe_now (au_public E)" and ?tok = "randutil_String (au_intn E) 0 siwssbTokenLength"
  obtain x where x: "Members_GetByFeed u c = (Inr x, c)" "m_id x = i" using GetByFeed_member_clean [OF clean wf member(1,2)] by blast
  have "i \<in> ids (members (data c))" using member(1) by (force simp: ids_def)
  then obtain c' where tok: "Sessions_CreateToken ?now (au_intn E) i c = (Inr ?tok, c')" using CreateToken_clean [OF clean _ new] by blast
  have valid: "payload_validate ?L p (payload_sign ?L k p)" if "ClientID p = u" for p
    using law key that by (simp add: payload_validate_def payload_sign_def sign_verifies_def)
  have "clientInitiated E req u ck c = (Inr (dashboard_path E), signed_in ?tok ?now, c')"
    using x req(3) client valid tok cookie
    by (simp add: clientInitiated_def Let_def b64_decode_encode saveCookie_def signed_in_def)
  moreover have "login_client E req c = (Inr (Some u), c)" using req(1,2) member(3) x(1) by (simp add: login_client_def)
  ultimately have "DecideMethod E req ck b c = Some ([RedirectTo StatusTemporaryRedirect (dashboard_path E)], signed_in ?tok ?now, b, c')"
    using req(3,4) by (simp add: DecideMethod_def)
  then show ?thesis using tok by blast
qed

subsection \<open>Properties\<close>

text \<open>C7: The login page gives a session only to a member that is connected to the room: its client answered
  the room's challenge with the member's own signature, for this room and both challenges; then one
  session of exactly this member is new, the cookie carries it, and the visitor goes on to the dashboard.\<close>

theorem client_login_sound:
  assumes run: "DecideMethod E req ck b c = Some (es, ck', b', c')" and new: "ck' \<noteq> ck"
  shows "\<exists>client i m ask answer sig tok sc. (i, m) \<in> set (rows (members (data c))) \<and> mb_pub_key m = client
    \<and> au_endpoint E client = Some ask \<and> sc = GenerateChallenge (au_challenge E) \<and> ask sc (hr_query req ''cc'') = Inr answer
    \<and> b64_decode std_alphabet (trim_suffix answer ''.sig.ed25519'') = Some sig
    \<and> payload_validate (pe_lib (au_public E)) \<lparr>ClientID = client, ServerID = RoomID (pe_net (au_public E)),
         ClientChallenge = hr_query req ''cc'', ServerChallenge = sc\<rparr> sig
    \<and> session_map (data c) tok = None
    \<and> session_map (data c') = (session_map (data c))(tok \<mapsto> (i, current_timestamp (pe_now (au_public E))))
    \<and> ck' = signed_in tok (pe_now (au_public E)) \<and> es = [RedirectTo StatusTemporaryRedirect (dashboard_path E)]"
proof -
  obtain client c1 path where 1: "data c1 = data c" "clientInitiated E req client ck c1 = (Inr path, ck', c')"
    "es = [RedirectTo StatusTemporaryRedirect path]" by (rule DecideMethod_cookie [OF run new])
  obtain m c2 ask answer sig tok where 2: "Members_GetByFeed client c1 = (Inr m, c2)" "au_endpoint E client = Some ask"
    "ask (GenerateChallenge (au_challenge E)) (hr_query req ''cc'') = Inr answer"
    "b64_decode std_alphabet (trim_suffix answer ''.sig.ed25519'') = Some sig"
    "payload_validate (pe_lib (au_public E)) \<lparr>ClientID = client, ServerID = RoomID (pe_net (au_public E)),
       ClientChallenge = hr_query req ''cc'', ServerChallenge = GenerateChallenge (au_challenge E)\<rparr> sig"
    and tok: "Sessions_CreateToken (pe_now (au_public E)) (au_intn E) (m_id m) c2 = (Inr tok, c')"
    and ck: "ck' = signed_in tok (pe_now (au_public E))" "path = dashboard_path E"
    using clientInitiated_ok [OF 1(2)] by blast
  obtain r where "(m_id m, r) \<in> set (rows (members (data c)))" "mb_pub_key r = client" "data c2 = data c"
    using Members_GetByFeed_ok [OF 2(1)] 1(1) by auto
  then show ?thesis using CreateToken_ok [OF tok] 1(3) 2(2-5) ck by fastforce
qed

text \<open>A member whose client is connected and signs is let in: the login page sends it to the dashboard with
  a cookie, and every request with that cookie is the member's until the session is a day old.\<close>

lemma client_login_works:
  assumes clean: "faults c = []" and wf: "db_wf (data c)" and law: "sign_verifies (pe_lib (au_public E))"
    and member: "(i, r) \<in> set (rows (members (data c)))" "mb_pub_key r = u" "parse_ref (pe_lib (au_public E)) (ref_string u) = Some u"
    and req: "hr_query req ''cid'' = ref_string u" "ref_string u \<noteq> []" "hr_query req ''cc'' = cc" "cc \<noteq> []"
    and key: "pub_key (pe_lib (au_public E)) u = ed_public (pe_lib (au_public E)) k"
    and client: "au_endpoint E u = Some (\<lambda>sc cc. Inr (b64_encode std_alphabet (payload_sign (pe_lib (au_public E)) k
       \<lparr>ClientID = u, ServerID = RoomID (pe_net (au_public E)), ClientChallenge = cc, ServerChallenge = sc\<rparr>) @ ''.sig.ed25519''))"
    and cookie: "ck_error ck = None" "au_save_error E = None"
    and new: "\<not> exists_row (\<lambda>r. ss_token r = randutil_String (au_intn E) 0 siwssbTokenLength) (sessions (data c))"
  shows "\<exists>ck' c'. DecideMethod E req ck b c = Some ([RedirectTo StatusTemporaryRedirect (dashboard_path E)], ck', b, c')
    \<and> (\<forall>later \<le> current_timestamp (pe_now (au_public E)) + sessionTimeout.
         \<exists>m. AuthenticateRequest later ck' c' = (Inr m, c') \<and> m_id m = i \<and> m_pub_key m = u)"
proof -
  obtain tok c' where 1: "DecideMethod E req ck b c = Some ([RedirectTo StatusTemporaryRedirect (dashboard_path E)], signed_in tok (pe_now (au_public E)), b, c')"
    and tok: "Sessions_CreateToken (pe_now (au_public E)) (au_intn E) i c = (Inr tok, c')"
    using client_login_runs [of c E i r u req cc k ck b] assms by blast
  then show ?thesis using new_session_signs_in [OF clean wf member(1) tok] member(2) by blast
qed



subsection \<open>Witnesses\<close>

definition carol_answers :: "string \<Rightarrow> string \<Rightarrow> string res" where
  "carol_answers sc cc = Inr (b64_encode std_alphabet (payload_sign sample_lib ''carol''
     \<lparr>ClientID = carol, ServerID = alice, ClientChallenge = cc, ServerChallenge = sc\<rparr>) @ ''.sig.ed25519'')"

definition sample_auth_env :: auth_env where
  "sample_auth_env = \<lparr>au_public = sample_public_env, au_intn = (\<lambda>k. k mod 62), au_challenge = replicate 32 (CHR ''c''),
      au_draw = (\<lambda>_. replicate challengeLength (CHR ''x'')), au_endpoint = (\<lambda>u. if u = carol then Some carol_answers else None), au_save_error = None\<rparr>"

definition login_request :: request where
  "login_request = web_get ''/withssb/login'' None (\<lambda>f. if f = ''cid'' then ref_string carol else if f = ''cc'' then ''challenge'' else [])"

lemma carol_row: "(3, \<lparr>mb_role = RoleMember, mb_pub_key = carol\<rparr>) \<in> set (rows (members (data sample_conn)))"
  by simp

lemma client_login_works_witness:
  "\<exists>ck' c'. DecideMethod sample_auth_env login_request no_cookie NewSignalBridge sample_conn
      = Some ([RedirectTo StatusTemporaryRedirect (dashboard_path sample_auth_env)], ck', NewSignalBridge, c')
    \<and> (\<forall>later \<le> current_timestamp 7 + sessionTimeout. \<exists>m. AuthenticateRequest later ck' c' = (Inr m, c') \<and> m_id m = 3 \<and> m_pub_key m = carol)"
proof -
  have e: "pe_lib (au_public sample_auth_env) = sample_lib" "pe_now (au_public sample_auth_env) = 7" "RoomID (pe_net (au_public sample_auth_env)) = alice"
    by (simp_all add: sample_auth_env_def sample_public_env_def)
  have "ref_string carol \<noteq> []" using sample_refs(19) by (auto simp: has_prefix_def)
  then show ?thesis
    using client_login_works [of sample_conn sample_auth_env 3 "\<lparr>mb_role = RoleMember, mb_pub_key = carol\<rparr>" carol login_request "''challenge''" "''carol''" no_cookie NewSignalBridge]
    unfolding e by (simp add: sample_auth_env_def carol_answers_def login_request_def web_get_def no_cookie_def exists_row_def fun_eq_iff)
qed

lemma client_login_sound_witness:
  "\<exists>es ck' c'. DecideMethod sample_auth_env login_request no_cookie NewSignalBridge sample_conn = Some (es, ck', NewSignalBridge, c')
     \<and> (\<exists>i tok. session_map (data c') = (session_map (data sample_conn))(tok \<mapsto> (i, current_timestamp (pe_now (au_public sample_auth_env)))))"
proof -
  have e: "pe_lib (au_public sample_auth_env) = sample_lib" "pe_now (au_public sample_auth_env) = 7" "RoomID (pe_net (au_public sample_auth_env)) = alice"
    by (simp_all add: sample_auth_env_def sample_public_env_def)
  have "ref_string carol \<noteq> []" using sample_refs(19) by (auto simp: has_prefix_def)
  then obtain tok c' where run: "DecideMethod sample_auth_env login_request no_cookie NewSignalBridge sample_conn
      = Some ([RedirectTo StatusTemporaryRedirect (dashboard_path sample_auth_env)], signed_in tok 7, NewSignalBridge, c')"
    using client_login_runs [of sample_conn sample_auth_env 3 "\<lparr>mb_role = RoleMember, mb_pub_key = carol\<rparr>" carol login_request "''challenge''" "''carol''" no_cookie NewSignalBridge]
    unfolding e by (auto simp add: sample_auth_env_def carol_answers_def login_request_def web_get_def no_cookie_def exists_row_def fun_eq_iff)
  moreover have "signed_in tok 7 \<noteq> no_cookie" by (simp add: signed_in_def no_cookie_def)
  ultimately show ?thesis using client_login_sound [OF run] by blast
qed


end
