(* ===== verification/WebSite.thy ===== *)
theory WebSite
  imports WebAuth
begin

text \<open>
  \<open>web/handlers/http.go\<close>: the whole site. \<open>New\<close> wires the handlers to their routes, mounts the admin
  section and wraps everything in the middleware; here that is one function from a request to an answer.
  The router, the protection against forged requests, the password session, static assets and the cookie of the
  language belong to other packages and are parameters, and so is what an event stream receives.
\<close>

datatype site_page = PublicPage public_page | AdminPage page | AuthPage auth_page

datatype site_answer = Effects "site_page effect list" | Events sse_reply

text \<open>What the router finds for a method and a path: the name of a route and the value of its variable.\<close>

datatype routed = Found string string | WrongMethod | NoRoute

text \<open>
  \<open>si_route\<close> is the router of the routes, \<open>si_forged\<close> is \<open>csrf.Protect\<close>: the reason to refuse the request, if there is one. \<open>si_password\<close> is the
  password session a request carries, \<open>si_credentials\<close> the name and password it reads
  from a login, \<open>si_authorized\<close> and \<open>si_logged_out\<close> are what that package answers
  after the check of a login and after a logout. \<open>si_body\<close> is the decoded body of a JSON request,
  \<open>si_requested\<close> the path and query of the request.
\<close>

record site_env =
  si_auth :: auth_env
  si_admin :: admin_env
  si_route :: "string \<Rightarrow> string \<Rightarrow> routed"
  si_forged :: "request \<Rightarrow> err option"
  si_password :: "int64 option res"
  si_credentials :: "request \<Rightarrow> string \<times> string"
  si_authorized :: "int64 res \<Rightarrow> site_page effect list"
  si_logged_out :: "site_page effect list"
  si_body :: "(feed_ref \<times> string) res"
  si_stream :: "sse_input list"
  si_flushes :: bool
  si_lang_cookie :: "err option"
  si_lang_saved :: "err option"
  si_asset :: "string \<Rightarrow> site_page effect list"
  si_requested :: string

type_synonym site_reply = "(site_answer \<times> cookie \<times> bridge \<times> db conn) option"
type_synonym site_handler = "string \<Rightarrow> request \<Rightarrow> cookie \<Rightarrow> bridge \<Rightarrow> db conn \<Rightarrow> site_reply"

definition answer :: "('p \<Rightarrow> site_page) \<Rightarrow> 'p reply \<Rightarrow> cookie \<Rightarrow> bridge \<Rightarrow> site_reply" where
  "answer wrap r ck b = Some (Effects (map (map_effect wrap) (fst r)), ck, b, snd r)"

definition public :: "(request \<Rightarrow> db conn \<Rightarrow> public_reply) \<Rightarrow> site_handler" where
  "public h v req ck b c = answer PublicPage (h req c) ck b"

definition auth_answer :: "auth_reply \<Rightarrow> site_answer \<times> cookie \<times> bridge \<times> db conn" where
  "auth_answer r = (case r of (es, ck', b', c') \<Rightarrow> (Effects (map (map_effect AuthPage) es), ck', b', c'))"

subsection \<open>The handlers of \<open>http.go\<close> itself\<close>

definition login_page :: "site_env \<Rightarrow> site_handler" where
  "login_page E v req ck b c =
     (if hr_query req ''ssb-http-auth'' \<noteq> []
      then map_option auth_answer (DecideMethod (si_auth E) req ck b c)
      else answer AuthPage ([Page StatusOK DecideMethodPage], c) ck b)"

definition withssb_login :: "site_env \<Rightarrow> site_handler" where
  "withssb_login E v req ck b c =
     map_option auth_answer (DecideMethod (si_auth E) req ck b c)"

definition withssb_events :: "site_env \<Rightarrow> site_handler" where
  "withssb_events E v req ck b c =
     Some (Events (eventSource (pe_text (au_public (si_auth E))) (si_flushes E) req b (si_stream E)), ck, b, c)"

definition withssb_finalize :: "site_env \<Rightarrow> site_handler" where
  "withssb_finalize E v req ck b c =
     (case finalizeCookie (si_auth E) req ck c of (es, ck', c') \<Rightarrow> Some (Effects (map (map_effect AuthPage) es), ck', b, c'))"

definition fallback_login :: "site_env \<Rightarrow> site_handler" where
  "fallback_login E v req ck b c =
     answer AuthPage (on_result (pe_flashes (au_public (si_auth E)), c) (\<lambda>e. [Failed e]) (\<lambda>_ c. ([Page StatusOK FallbackLoginPage], c))) ck b"

text \<open>The login of the password package calls \<open>Check\<close>.\<close>

definition fallback_finalize :: "site_env \<Rightarrow> site_handler" where
  "fallback_finalize E v req ck b c =
     (case Fallback_Check (pe_lib (au_public (si_auth E))) (fst (si_credentials E req)) (snd (si_credentials E req)) c of
        (r, c') \<Rightarrow> Some (Effects (si_authorized E r), ck, b, c'))"

text \<open>An error of the first logout is only logged.\<close>

definition logout_page :: "site_env \<Rightarrow> site_handler" where
  "logout_page E v req ck b c =
     (case Logout (au_save_error (si_auth E)) (pe_now (au_public (si_auth E))) ck c of
        (_, ck', c') \<Rightarrow> Some (Effects (si_logged_out E), ck', b, c'))"

definition set_language :: "site_env \<Rightarrow> site_handler" where
  "set_language E v req ck b c =
     Some (Effects (case si_lang_cookie E of
         Some e \<Rightarrow> [ErrorPage StatusInternalServerError e]
       | None \<Rightarrow>
           (case si_lang_saved E of
              Some e \<Rightarrow> [ErrorPage StatusInternalServerError (Wrapped ''we failed to save the language session cookie'' e)]
            | None \<Rightarrow> [SetCookie (hr_form req ''lang''), RedirectTo StatusSeeOther (hr_form req ''page'')])), ck, b, c)"

subsection \<open>The table of handlers\<close>

definition site_mux :: "site_env \<Rightarrow> (string \<times> site_handler) list" where
  "site_mux E =
     (let P = au_public (si_auth E) in
     [(''auth:login'', login_page E),
      (''auth:fallback:finalize'', fallback_finalize E),
      (''auth:fallback:login'', fallback_login E),
      (''auth:logout'', logout_page E),
      (''auth:withssb:login'', withssb_login E),
      (''auth:withssb:sse'', withssb_events E),
      (''auth:withssb:finalize'', withssb_finalize E),
      (''members:change-password:form'', public (changePasswordForm P)),
      (''members:change-password'', public (changePassword P)),
      (''complete:set-language'', set_language E),
      (''complete:index'', public (landing P)),
      (''complete:notice:list'', public (notices_list P)),
      (''complete:notice:show'', public (notice_show P)),
      (''complete:alias:resolve'', (\<lambda>v. public (alias_resolve P v) v)),
      (''complete:invite:accept'', public (presentFacade P (si_requested E))),
      (''complete:invite:accept:fallback'', public (presentFacadeFallback P)),
      (''complete:invite:insert-id'', public (presentInsert P)),
      (''complete:invite:consume'', public (invite_consume P (si_body E))),
      (''open:invites:create'', public (createOpenMode P))])"

text \<open>A named route without a handler of its own belongs to the admin section, which is mounted before.\<close>

definition site_router :: "site_env \<Rightarrow> request \<Rightarrow> cookie \<Rightarrow> bridge \<Rightarrow> db conn \<Rightarrow> site_reply" where
  "site_router E req ck b c =
     (case si_route E (hr_method req) (hr_path req) of
        Found nm v \<Rightarrow>
          (case map_of (site_mux E) nm of
             Some h \<Rightarrow> h v req ck b c
           | None \<Rightarrow> answer PublicPage ([PlainError StatusNotFound ''404 page not found''], c) ck b)
      | WrongMethod \<Rightarrow> answer PublicPage ([PlainError StatusMethodNotAllowed []], c) ck b
      | NoRoute \<Rightarrow>
          if has_prefix (hr_path req) ''/assets/'' then Some (Effects (si_asset E (hr_path req)), ck, b, c)
          else answer PublicPage ([ErrorPage StatusNotFound (PageNotFound (hr_path req))], c) ck b)"

text \<open>\<open>http.ServeMux\<close> sends a path that is not clean, or lacks the slash of the section, to the right one.\<close>

definition StatusMovedPermanently :: nat where "StatusMovedPermanently = 301"

definition mux_clean :: "string \<Rightarrow> string" where
  "mux_clean p =
     (let q = (if has_prefix p ''/'' then p else CHR ''/'' # p); np = path_clean q in
      if last q = CHR ''/'' \<and> np \<noteq> ''/'' then np @ ''/'' else np)"

definition main_mux :: "site_env \<Rightarrow> request \<Rightarrow> cookie \<Rightarrow> bridge \<Rightarrow> db conn \<Rightarrow> site_reply" where
  "main_mux E req ck b c =
     (let path = mux_clean (hr_path req) in
      if path = ''/admin'' then answer PublicPage ([RedirectTo StatusMovedPermanently ''/admin/''], c) ck b
      else if path \<noteq> hr_path req then answer PublicPage ([RedirectTo StatusMovedPermanently path], c) ck b
      else if has_prefix path ''/admin/'' then answer AdminPage (admin_section (si_admin E) req c) ck b
      else site_router E req ck b c)"

text \<open>The middleware, from the outside in: the check against forged requests, then the member of the session.\<close>

definition site :: "site_env \<Rightarrow> request \<Rightarrow> cookie \<Rightarrow> bridge \<Rightarrow> db conn \<Rightarrow> site_reply" where
  "site E req ck b c =
     (let P = au_public (si_auth E) in
      case (if skips_csrf (pe_net P) req then None else si_forged E req) of
        Some e \<Rightarrow> answer PublicPage ([ErrorPage StatusForbidden e], c) ck b
      | None \<Rightarrow> (case ContextInjecter (si_password E) (pe_now P) ck (req\<lparr>hr_member := None\<rparr>) c of
                   (req', c') \<Rightarrow> main_mux E req' ck b c'))"

subsection \<open>What templates may ask\<close>

definition privacy_mode_is :: "string \<Rightarrow> bool act" where
  "privacy_mode_is want =
     andthen (attempt Config_GetPrivacyMode) (\<lambda>has. ret (case has of Inl _ \<Rightarrow> False | Inr pm \<Rightarrow> mode_string pm = want))"

text \<open>\<open>uri\<close> is the path and query as the client sent them. A route with a variable has no path of its own.\<close>

definition current_page_is :: "string \<Rightarrow> string \<Rightarrow> bool" where
  "current_page_is uri routeName =
     (case find_route complete_routes routeName of
        None \<Rightarrow> False
      | Some r \<Rightarrow> \<not> List.member (rt_path r) (CHR ''{'') \<and> uri = rt_path r)"

definition urlToNotice :: "server_details \<Rightarrow> string \<Rightarrow> url option act" where
  "urlToNotice netInfo name =
     (if \<not> pinned_valid name then ret None
      else andthen (attempt (PinnedNotices_Get name ''en-GB'')) (\<lambda>n.
           ret (case n of Inl _ \<Rightarrow> None | Inr n \<Rightarrow> Some (urlTo netInfo ''complete:notice:show'' [PVText ''id'', PVInt (n_id n)]))))"

subsection \<open>What a request can change\<close>

text \<open>\<open>reaches R d r\<close>: if there is an answer, the data it leaves is related to \<open>d\<close>.\<close>

definition reaches :: "(db \<Rightarrow> db \<Rightarrow> bool) \<Rightarrow> db \<Rightarrow> site_reply \<Rightarrow> bool" where
  "reaches R d r \<longleftrightarrow> (case r of None \<Rightarrow> True | Some (_, _, _, c') \<Rightarrow> R d (data c'))"

lemma reaches_answer: "reaches R d (answer w r ck b) \<longleftrightarrow> R d (data (snd r))"
  by (simp add: reaches_def answer_def)

lemma reaches_public: "reaches R d (public h v req ck b c) \<longleftrightarrow> R d (data (snd (h req c)))"
  by (simp add: public_def reaches_answer)

lemma Sessions_CreateToken_data:
  "Sessions_CreateToken t f i c = (r, c') \<Longrightarrow> \<exists>ss. data c' = (data c)\<lparr>sessions := ss\<rparr>"
proof (cases r)
  case (Inl e)
  assume "Sessions_CreateToken t f i c = (r, c')"
  with Inl have "data c' = data c" unfolding Sessions_CreateToken_def by (auto dest: transact_rollback)
  then show ?thesis by (intro exI [of _ "sessions (data c)"]) simp
next
  case (Inr tok)
  assume "Sessions_CreateToken t f i c = (r, c')"
  with Inr show ?thesis using CreateToken_row [of t f i c tok c'] by auto
qed

lemma Sessions_RemoveToken_data:
  "Sessions_RemoveToken tok c = (r, c') \<Longrightarrow> \<exists>ss. data c' = (data c)\<lparr>sessions := ss\<rparr>"
proof (cases r)
  case (Inl e)
  assume "Sessions_RemoveToken tok c = (r, c')"
  with Inl have "data c' = data c" unfolding Sessions_RemoveToken_def by (auto dest: exec_err)
  then show ?thesis by (intro exI [of _ "sessions (data c)"]) simp
next
  case (Inr u)
  assume "Sessions_RemoveToken tok c = (r, c')"
  with Inr have "(data c)\<lparr>sessions := delete_rows (\<lambda>r. ss_token r = tok) (sessions (data c))\<rparr> = data c'"
    unfolding Sessions_RemoveToken_def by (auto simp: delete_sessions_def dest!: exec_ok)
  then show ?thesis by metis
qed

lemma Sessions_CheckToken_data: "Sessions_CheckToken t tok c = (r, c') \<Longrightarrow> data c' = data c"
  by (cases r) (auto dest: CheckToken_ok CheckToken_err)

lemma clientInitiated_data:
  assumes "clientInitiated E req u ck c = (r, ck', c')"
  shows "\<exists>ss. data c' = (data c)\<lparr>sessions := ss\<rparr>"
proof -
  have get: "data c1 = data c" if "Members_GetByFeed u c = (q, c1)" for q c1
    using keepsD [OF keeps_Members(4) that, of "\<lambda>d. d = data c"] by simp
  have same: "\<exists>ss. data c = (data c)\<lparr>sessions := ss\<rparr>" by (rule exI [of _ "sessions (data c)"]) simp
  have new: "\<exists>ss. data c2 = (data c1)\<lparr>sessions := ss\<rparr>"
    if "Sessions_CreateToken (pe_now (au_public E)) (au_intn E) i c1 = (q, c2)" for i c1 q c2
    using Sessions_CreateToken_data [OF that] .
  show ?thesis using assms unfolding clientInitiated_def Let_def
    by (auto split: prod.splits sum.splits option.splits if_splits dest!: get new simp: same)
qed

lemma DecideMethod_calls:
  assumes run: "DecideMethod E req ck b c = Some (es, ck', b', c')"
  shows "data c' = data c \<or> (\<exists>u q c1. data c1 = data c \<and> clientInitiated E req u ck c1 = (q, ck', c'))"
proof -
  obtain r c1 where r: "login_client E req c = (r, c1)" by fastforce
  have d: "data c1 = data c" using login_client_data [OF r] by simp
  show ?thesis
  proof (cases "\<exists>cid. r = Inr (Some cid) \<and> hr_query req ''cc'' \<noteq> []")
    case True
    then obtain cid q ck2 c2 where "r = Inr (Some cid)" "hr_query req ''cc'' \<noteq> []" "clientInitiated E req cid ck c1 = (q, ck2, c2)"
      by (metis prod_cases3)
    then show ?thesis using run r d by (cases q) (auto simp: DecideMethod_def)
  next
    case False
    then have "c' = c1" using run r by (cases r) (auto simp: DecideMethod_def)
    then show ?thesis using d by simp
  qed
qed

lemma DecideMethod_data:
  "DecideMethod E req ck b c = Some (es, ck', b', c') \<Longrightarrow> \<exists>ss. data c' = (data c)\<lparr>sessions := ss\<rparr>"
proof -
  assume run: "DecideMethod E req ck b c = Some (es, ck', b', c')"
  have "\<exists>ss. data c = (data c)\<lparr>sessions := ss\<rparr>" by (rule exI [of _ "sessions (data c)"]) simp
  then show ?thesis using DecideMethod_calls [OF run] clientInitiated_data by metis
qed

lemma Logout_data:
  assumes "Logout se t ck c = (r, ck', c')"
  shows "\<exists>ss. data c' = (data c)\<lparr>sessions := ss\<rparr>"
proof -
  have same: "\<exists>ss. data c = (data c)\<lparr>sessions := ss\<rparr>" by (rule exI [of _ "sessions (data c)"]) simp
  have "\<exists>ss. data c1 = (data c)\<lparr>sessions := ss\<rparr>" if "Sessions_RemoveToken tok c = (q, c1)" for tok q c1
    using Sessions_RemoveToken_data [OF that] .
  then show ?thesis using assms same unfolding Logout_def
    by (auto split: option.splits prod.splits sum.splits)
qed

lemma finalizeCookie_data: "finalizeCookie E req ck c = (es, ck', c') \<Longrightarrow> data c' = data c"
  unfolding finalizeCookie_def Let_def by (auto split: prod.splits sum.splits dest: Sessions_CheckToken_data)

lemma AuthenticateRequest_data: "AuthenticateRequest t ck c = (r, c') \<Longrightarrow> data c' = data c"
proof (cases r)
  case (Inr m)
  assume "AuthenticateRequest t ck c = (r, c')"
  with Inr show ?thesis using AuthenticateRequest_ok [of t ck c m c'] by blast
next
  case (Inl e)
  assume run: "AuthenticateRequest t ck c = (r, c')"
  have get: "data c2 = data c1" if "Members_GetByID i c1 = (q, c2)" for i q c1 c2
    using keepsD [OF keeps_Members(3) that, of "\<lambda>d. d = data c1"] by simp
  show ?thesis using run Inl unfolding AuthenticateRequest_def
    by (auto simp: andthen_err split: option.splits if_splits dest!: get Sessions_CheckToken_data)
qed

lemma ContextInjecter_data: "ContextInjecter pw t ck req c = (req', c') \<Longrightarrow> data c' = data c"
proof -
  assume run: "ContextInjecter pw t ck req c = (req', c')"
  have get: "data c2 = data c1" if "Members_GetByID i c1 = (q, c2)" for i q c1 c2
    using keepsD [OF keeps_Members(3) that, of "\<lambda>d. d = data c1"] by simp
  show ?thesis using run unfolding ContextInjecter_def
    by (auto split: sum.splits option.splits prod.splits if_splits dest!: get AuthenticateRequest_data)
qed

lemma Fallback_Check_data: "Fallback_Check L l p c = (r, c') \<Longrightarrow> data c' = data c"
  by (drule keepsD [OF keeps_Fallback(1) [where I = "\<lambda>d. d = data c"]]) simp_all

text \<open>Pages that only read.\<close>

lemma guarded_read_pages:
  assumes d: "data c = d"
  shows "guarded False d (landing P req c)" "guarded False d (notices_list P req c)" "guarded False d (notice_show P req c)"
    "guarded False d (alias_resolve P nm req c)" "guarded False d (presentFacade P uri req c)" "guarded False d (presentFacadeFallback P req c)"
    "guarded False d (presentInsert P req c)" "guarded False d (changePasswordForm P req c)"
  unfolding landing_def notices_list_def notice_show_def alias_resolve_def presentFacade_def presentFacadeAsJSON_def presentFacadeAsHTML_def
    presentFacadeFallback_def presentInsert_def changePasswordForm_def SendConfirmation_def Let_def
  by (auto intro!: guarded_read guarded_pure guarded_done guarded_if keeps_wf simp: d)

subsection \<open>The rights of a visitor\<close>

text \<open>What a visitor without a session may bring about.\<close>

definition visitor_change :: "db \<Rightarrow> db \<Rightarrow> bool" where
  "visitor_change d d' \<longleftrightarrow>
     (\<exists>ss. d' = d\<lparr>sessions := ss\<rparr>)
     \<or> (\<exists>h. invite_live h d \<and> \<not> invite_live h d')
     \<or> (\<exists>h. reset_live h d \<and> \<not> reset_live h d')
     \<or> (cf_mode (the_config d) = ModeOpen \<and> (\<exists>ivs. d' = d\<lparr>invites := ivs\<rparr>))"

lemma visitor_same: "d' = d \<Longrightarrow> visitor_change d d'"
  unfolding visitor_change_def by (rule disjI1) (rule exI [of _ "sessions d"], simp)

lemma visitor_sessions: "\<exists>ss. d' = d\<lparr>sessions := ss\<rparr> \<Longrightarrow> visitor_change d d'"
  by (simp add: visitor_change_def)

lemma guarded_visitor: "guarded False d r \<Longrightarrow> visitor_change d (data (snd r))"
  by (rule visitor_same) (simp add: guarded_def)

lemma visitor_invite_consume:
  assumes wf: "db_wf (data c)"
  shows "visitor_change (data c) (data (snd (invite_consume P body req c)))"
proof -
  have banned: "data c1 = data c" if "Denied_HasFeed k c = (q, c1)" for k q c1
    using keepsD [OF keeps_Denied(2) [where I = "\<lambda>d. d = data c"] that] by simp
  have consumed: "visitor_change (data c) (data c2)" if "data c1 = data c" "Invites_Consume (pe_lib P) tok k c1 = (q, c2)" for c1 tok k q c2
  proof (cases q)
    case (Inl e)
    then show ?thesis using Invites_Consume_err that visitor_same by metis
  next
    case (Inr x)
    then show ?thesis using Invites_Consume_spends [of c1 "pe_lib P" tok k x c2] that wf unfolding visitor_change_def by auto
  qed
  show ?thesis unfolding invite_consume_def
    by (auto simp: on_result_def intro: visitor_same split: option.split prod.split sum.split dest: banned consumed)
qed

lemma visitor_open_invite: "visitor_change (data c) (data (snd (createOpenMode P req c)))"
proof -
  have s: "snd (createOpenMode P req c) = snd (Invites_Create (pe_lib P) (pe_now P) (pe_rand P) (- 1) c)"
    by (simp add: createOpenMode_def createOpenModeJSON_def createOpenModeHTML_def Let_def before_do_def on_result_def
        split: prod.splits sum.splits)
  obtain r c' where r: "Invites_Create (pe_lib P) (pe_now P) (pe_rand P) (- 1) c = (r, c')" by fastforce
  show ?thesis
  proof (cases r)
    case (Inl e)
    then have "data c' = data c" using r unfolding Invites_Create_def
      by (auto simp: andthen_def ret_def split: prod.splits sum.splits dest: transact_rollback)
    then show ?thesis using s r by (simp add: visitor_same)
  next
    case (Inr tok)
    have "visitor_change (data c) (data c')"
      by (rule Invites_Create_ok [OF r [unfolded Inr]]) (auto simp: visitor_change_def)
    then show ?thesis using s r by simp
  qed
qed

lemma visitor_password:
  assumes wf: "db_wf (data c)" and who: "FromContext req = None"
  shows "visitor_change (data c) (data (snd (changePassword P req c)))"
proof -
  obtain es c' where run: "changePassword P req c = (es, c')" by fastforce
  let ?tok = "hr_form req ''reset-token''" and ?pw = "hr_form req ''new-password''"
  show ?thesis
  proof (cases "data c' = data c")
    case True
    then show ?thesis using run by (simp add: visitor_same)
  next
    case False
    note set = password_form_checked(5) [OF run False]
    show ?thesis
    proof (cases "?tok = []")
      case True
      then obtain r where r: "Fallback_SetPassword (pe_lib P) (pe_salt P) (- 1) ?pw c = (r, c')"
        using set who by (cases "Fallback_SetPassword (pe_lib P) (pe_salt P) (- 1) ?pw c") auto
      have "(- 1 :: int) \<notin> ids (members (data c))" using db_wf_parts(1) [OF wf] by (auto simp: members_ok_def table_ok_def)
      then show ?thesis using set_password_needs_member [OF wf _ r] False by simp
    next
      case False
      then obtain r where r: "Fallback_SetPasswordWithToken (pe_lib P) (pe_salt P) ?tok ?pw c = (r, c')"
        using set by (cases "Fallback_SetPasswordWithToken (pe_lib P) (pe_salt P) ?tok ?pw c") auto
      then obtain u where "r = Inr u" using \<open>data c' \<noteq> data c\<close> SetPasswordWithToken_err by (cases r) metis+
      then show ?thesis using SetPasswordWithToken_spends [OF wf, of "pe_lib P" "pe_salt P" ?tok ?pw u c'] r run
        unfolding visitor_change_def by auto
    qed
  qed
qed

lemma DecideMethod_reaches: "reaches visitor_change (data c) (map_option auth_answer (DecideMethod A req ck b c))"
proof (cases "DecideMethod A req ck b c")
  case (Some q)
  obtain es ck' b' c' where "q = (es, ck', b', c')" by (rule prod_cases4)
  then show ?thesis using visitor_sessions [OF DecideMethod_data] Some by (simp add: reaches_def auth_answer_def)
qed (simp add: reaches_def)

lemma visitor_auth_pages:
  "reaches visitor_change (data c) (login_page E v req ck b c)" "reaches visitor_change (data c) (withssb_login E v req ck b c)"
  "reaches visitor_change (data c) (withssb_events E v req ck b c)" "reaches visitor_change (data c) (withssb_finalize E v req ck b c)"
  "reaches visitor_change (data c) (fallback_login E v req ck b c)" "reaches visitor_change (data c) (fallback_finalize E v req ck b c)"
  "reaches visitor_change (data c) (logout_page E v req ck b c)" "reaches visitor_change (data c) (set_language E v req ck b c)"
proof -
  show "reaches visitor_change (data c) (withssb_login E v req ck b c)" unfolding withssb_login_def by (rule DecideMethod_reaches)
  show "reaches visitor_change (data c) (login_page E v req ck b c)"
    by (simp add: login_page_def reaches_answer visitor_same DecideMethod_reaches)
  show "reaches visitor_change (data c) (withssb_events E v req ck b c)" by (simp add: withssb_events_def reaches_def visitor_same)
  show "reaches visitor_change (data c) (withssb_finalize E v req ck b c)"
    by (cases "finalizeCookie (si_auth E) req ck c") (simp add: withssb_finalize_def reaches_def visitor_same finalizeCookie_data)
  show "reaches visitor_change (data c) (fallback_login E v req ck b c)"
    by (auto simp: fallback_login_def reaches_answer on_result_def intro: visitor_same split: sum.split)
  show "reaches visitor_change (data c) (fallback_finalize E v req ck b c)"
    by (cases "Fallback_Check (pe_lib (au_public (si_auth E))) (fst (si_credentials E req)) (snd (si_credentials E req)) c")
       (simp add: fallback_finalize_def reaches_def visitor_same Fallback_Check_data)
  show "reaches visitor_change (data c) (logout_page E v req ck b c)"
    by (cases "Logout (au_save_error (si_auth E)) (pe_now (au_public (si_auth E))) ck c")
       (simp add: logout_page_def reaches_def visitor_sessions Logout_data)
  show "reaches visitor_change (data c) (set_language E v req ck b c)" by (simp add: set_language_def reaches_def visitor_same)
qed

lemma visitor_site_mux:
  assumes wf: "db_wf (data c)" and who: "FromContext req = None" and h: "map_of (site_mux E) nm = Some h"
  shows "reaches visitor_change (data c) (h v req ck b c)"
proof -
  have "(nm, h) \<in> set (site_mux E)" using h by (rule map_of_SomeD)
  then show ?thesis unfolding site_mux_def Let_def set_simps insert_iff empty_iff prod.inject
    by (elim disjE conjE; simp only:)
       (simp_all add: reaches_public visitor_auth_pages visitor_invite_consume [OF wf] visitor_open_invite
         visitor_password [OF wf who] guarded_visitor guarded_read_pages)
qed

lemma visitor_router:
  assumes wf: "db_wf (data c)" and who: "FromContext req = None"
  shows "reaches visitor_change (data c) (site_router E req ck b c)"
  unfolding site_router_def
  using visitor_site_mux [OF wf who]
  by (auto simp: reaches_answer visitor_same split: routed.split option.split) (simp add: reaches_def visitor_same)

subsection \<open>Properties\<close>


text \<open>The router finds only routes of the table whose methods and path fit the request: a path fits its own
  text, and a variable at the end of a template fits one segment that is not empty.\<close>

definition match_path :: "string \<Rightarrow> string \<Rightarrow> string option" where
  "match_path tpl path =
     (if List.member tpl (CHR ''{'')
      then (let pre = takeWhile (\<lambda>ch. ch \<noteq> CHR ''{'') tpl; v = drop (length pre) path in
            if has_prefix path pre \<and> v \<noteq> [] \<and> \<not> List.member v (CHR ''/'') then Some v else None)
      else if tpl = path then Some [] else None)"

definition router_sound :: "(string \<Rightarrow> string \<Rightarrow> routed) \<Rightarrow> bool" where
  "router_sound f \<longleftrightarrow> (\<forall>meth path nm v. f meth path = Found nm v \<longrightarrow>
     (\<exists>r \<in> set complete_routes. rt_name r = nm \<and> meth \<in> set (rt_methods r) \<and> match_path (rt_path r) path = Some v))"

lemma app_routes:
  assumes "router_sound f" "f meth path = Found nm v"
  shows "path = ''/invite/consume'' \<Longrightarrow> nm = ''complete:invite:consume''" "path = ''/create-invite'' \<Longrightarrow> nm = ''open:invites:create''"
proof -
  obtain r where "r \<in> set complete_routes" "rt_name r = nm" "match_path (rt_path r) path \<noteq> None"
    using assms unfolding router_sound_def by blast
  then show "path = ''/invite/consume'' \<Longrightarrow> nm = ''complete:invite:consume''" "path = ''/create-invite'' \<Longrightarrow> nm = ''open:invites:create''"
    by (auto simp: complete_routes_def auth_routes_def admin_routes_def named_def match_path_def has_prefix_def)
qed

lemma app_requests_are_visits:
  assumes wf: "db_wf (data c)" and sound: "router_sound (si_route E)" and path: "hr_path req = ''/invite/consume'' \<or> hr_path req = ''/create-invite''"
  shows "reaches visitor_change (data c) (main_mux E req ck b c)"
proof -
  have nm: "map_of (site_mux E) ''complete:invite:consume'' = Some (public (invite_consume (au_public (si_auth E)) (si_body E)))"
    "map_of (site_mux E) ''open:invites:create'' = Some (public (createOpenMode (au_public (si_auth E))))"
    by (simp_all add: site_mux_def Let_def)
  have "reaches visitor_change (data c) (site_router E req ck b c)"
  proof (cases "si_route E (hr_method req) (hr_path req)")
    case (Found name v)
    then show ?thesis using path app_routes [OF sound Found]
      by (auto simp: site_router_def nm reaches_public visitor_invite_consume [OF wf] visitor_open_invite)
  qed (use path in \<open>auto simp: site_router_def reaches_answer visitor_same has_prefix_def\<close>)
  moreover have "\<not> has_prefix (hr_path req) ''/admin/''" using path by (auto simp: has_prefix_def)
  ultimately show ?thesis by (auto simp: main_mux_def Let_def reaches_answer visitor_same)
qed


context data_law
begin

lemma password_keeps: "I (data c) \<Longrightarrow> reply_keeps I (changePassword P req c)"
proof -
  assume wf: "I (data c)"
  obtain es c' where run: "changePassword P req c = (es, c')" by fastforce
  have "I (data c')"
  proof (cases "data c' = data c")
    case False
    note set = password_form_checked(5) [OF run False]
    have keep: "I (data (snd (m c)))" if "keeps I m" for m :: "unit act"
      using keepsD [OF that _ wf, of "fst (m c)" "snd (m c)"] by simp
    have "keeps I (if hr_form req ''reset-token'' = []
           then Fallback_SetPassword (pe_lib P) (pe_salt P) (case FromContext req of None \<Rightarrow> - 1 | Some m \<Rightarrow> m_id m) (hr_form req ''new-password'')
           else Fallback_SetPasswordWithToken (pe_lib P) (pe_salt P) (hr_form req ''reset-token'') (hr_form req ''new-password''))"
      by (simp add: fallback_law)
    from keep [OF this] show ?thesis unfolding set .
  qed (simp add: wf)
  then show ?thesis using run by (simp add: reply_keeps_def)
qed

lemma clientInitiated_keeps:
  assumes run: "clientInitiated E req u ck c = (r, ck', c')" and wf: "I (data c)"
  shows "I (data c')"
proof -
  have get: "I (data c1)" if "Members_GetByFeed u c = (q, c1)" for q c1
    using keepsD [OF keeps_Members(4) [of I] that wf] .
  have new: "I (data c2)"
    if "Sessions_CreateToken (pe_now (au_public E)) (au_intn E) i c1 = (q, c2)" "Members_GetByFeed u c = (x, c1)" for i c1 q c2 x
    using keepsD [OF session_law(1) that(1)] get that(2) by blast
  show ?thesis using run unfolding clientInitiated_def Let_def
    by (auto split: prod.splits sum.splits option.splits if_splits dest: get new)
qed

lemma DecideMethod_keeps: "DecideMethod E req ck b c = Some (es, ck', b', c') \<Longrightarrow> I (data c) \<Longrightarrow> I (data c')"
  using DecideMethod_calls clientInitiated_keeps by metis

lemma Logout_keeps:
  assumes "Logout se t ck c = (r, ck', c')" and wf: "I (data c)"
  shows "I (data c')"
proof -
  have "I (data c1)" if "Sessions_RemoveToken tok c = (q, c1)" for tok q c1
    using keepsD [OF session_law(2) that wf] .
  then show ?thesis using assms unfolding Logout_def by (auto split: option.splits prod.splits sum.splits)
qed

lemma auth_pages_keep:
  assumes wf: "I (data c)"
  shows "reaches (\<lambda>_. I) (data c) (login_page E v req ck b c)" "reaches (\<lambda>_. I) (data c) (withssb_login E v req ck b c)"
    "reaches (\<lambda>_. I) (data c) (withssb_events E v req ck b c)" "reaches (\<lambda>_. I) (data c) (withssb_finalize E v req ck b c)"
    "reaches (\<lambda>_. I) (data c) (fallback_login E v req ck b c)" "reaches (\<lambda>_. I) (data c) (fallback_finalize E v req ck b c)"
    "reaches (\<lambda>_. I) (data c) (logout_page E v req ck b c)" "reaches (\<lambda>_. I) (data c) (set_language E v req ck b c)"
proof -
  have dm: "reaches (\<lambda>_. I) (data c) (map_option auth_answer (DecideMethod (si_auth E) req ck b c))"
  proof (cases "DecideMethod (si_auth E) req ck b c")
    case (Some q)
    obtain es ck' b' c' where "q = (es, ck', b', c')" by (rule prod_cases4)
    then show ?thesis using DecideMethod_keeps wf Some by (simp add: reaches_def auth_answer_def)
  qed (simp add: reaches_def)
  show "reaches (\<lambda>_. I) (data c) (withssb_login E v req ck b c)" unfolding withssb_login_def by (rule dm)
  show "reaches (\<lambda>_. I) (data c) (login_page E v req ck b c)" by (simp add: login_page_def reaches_answer wf dm)
  show "reaches (\<lambda>_. I) (data c) (withssb_events E v req ck b c)" by (simp add: withssb_events_def reaches_def wf)
  show "reaches (\<lambda>_. I) (data c) (withssb_finalize E v req ck b c)"
    by (cases "finalizeCookie (si_auth E) req ck c") (simp add: withssb_finalize_def reaches_def wf finalizeCookie_data)
  show "reaches (\<lambda>_. I) (data c) (fallback_login E v req ck b c)"
    by (auto simp: fallback_login_def reaches_answer on_result_def wf split: sum.split)
  show "reaches (\<lambda>_. I) (data c) (fallback_finalize E v req ck b c)"
    by (cases "Fallback_Check (pe_lib (au_public (si_auth E))) (fst (si_credentials E req)) (snd (si_credentials E req)) c")
       (simp add: fallback_finalize_def reaches_def wf Fallback_Check_data)
  show "reaches (\<lambda>_. I) (data c) (logout_page E v req ck b c)"
    by (cases "Logout (au_save_error (si_auth E)) (pe_now (au_public (si_auth E))) ck c")
       (simp add: logout_page_def reaches_def Logout_keeps wf)
  show "reaches (\<lambda>_. I) (data c) (set_language E v req ck b c)" by (simp add: set_language_def reaches_def wf)
qed

lemma site_mux_keeps:
  assumes wf: "I (data c)" and h: "map_of (site_mux E) nm = Some h"
  shows "reaches (\<lambda>_. I) (data c) (h v req ck b c)"
proof -
  have read: "guarded False (data c) r \<Longrightarrow> I (data (snd r))" for r :: public_reply
    using guarded_reply_keeps [of "data c" _ I] wf by (simp add: reply_keeps_def)
  have "(nm, h) \<in> set (site_mux E)" using h by (rule map_of_SomeD)
  then show ?thesis unfolding site_mux_def Let_def set_simps insert_iff empty_iff prod.inject
    by (elim disjE conjE; simp only:)
       (simp_all add: reaches_public auth_pages_keep [OF wf] consume_keeps [OF wf, unfolded reply_keeps_def] open_keeps [OF wf, unfolded reply_keeps_def]
         password_keeps [OF wf, unfolded reply_keeps_def] read guarded_read_pages)
qed

lemma main_mux_keeps:
  assumes wf: "I (data c)" and admin: "I (data (snd (admin_section (si_admin E) req c)))"
  shows "reaches (\<lambda>_. I) (data c) (main_mux E req ck b c)"
proof -
  have "reaches (\<lambda>_. I) (data c) (site_router E req ck b c)" unfolding site_router_def
    using site_mux_keeps [OF wf] by (auto simp: reaches_answer wf split: routed.split option.split) (simp add: reaches_def wf)
  then show ?thesis using admin by (simp add: main_mux_def Let_def reaches_answer wf)
qed

end

text \<open>A request to the site is one to its parts, after the member of the session was put into it.\<close>

lemma site_inside:
  assumes "site E req ck b c = Some (a, ck', b', c')"
  obtains "data c' = data c"
  | req1 c1 where "ContextInjecter (si_password E) (pe_now (au_public (si_auth E))) ck (req\<lparr>hr_member := None\<rparr>) c = (req1, c1)"
      "data c1 = data c" "main_mux E req1 ck b c1 = Some (a, ck', b', c')"
proof -
  obtain req1 c1 where ci: "ContextInjecter (si_password E) (pe_now (au_public (si_auth E))) ck (req\<lparr>hr_member := None\<rparr>) c = (req1, c1)"
    by fastforce
  show thesis using assms ci that ContextInjecter_data [OF ci]
    by (auto simp: site_def Let_def answer_def split: option.splits)
qed

context full_data_law
begin

lemma site_keeps:
  assumes wf: "I (data c)" and run: "site E req ck b c = Some (a, ck', b', c')"
  shows "I (data c')"
  using run
proof (cases rule: site_inside)
  case (2 req1 c1)
  then show ?thesis using main_mux_keeps [of c1 E req1 ck b] admin_section_keeps [of c1] wf by (simp add: reaches_def)
qed (simp add: wf)

end

text \<open>C5: Whatever request is made to the site, by whom and at whatever path, and whatever calls of the database
  fail on the way, the database keeps its invariant: keys are unique, references point to rows, roles
  and the privacy mode are valid.\<close>

theorem site_keeps_db:
  assumes wf: "db_wf (data c)" and run: "site E req ck b c = Some (a, ck', b', c')"
  shows "db_wf (data c')"
  by (rule wf_law.site_keeps [OF wf run])

subsection \<open>Witnesses\<close>

text \<open>A router that is sound: the first route whose path and methods fit.\<close>

definition first_route :: "string \<Rightarrow> string \<Rightarrow> routed" where
  "first_route meth path =
     (let here = filter (\<lambda>r. match_path (rt_path r) path \<noteq> None) complete_routes in
      case List.find (\<lambda>r. meth \<in> set (rt_methods r)) here of
        Some r \<Rightarrow> Found (rt_name r) (the (match_path (rt_path r) path))
      | None \<Rightarrow> if here = [] then NoRoute else WrongMethod)"

lemma first_route_sound: "router_sound first_route"
  unfolding router_sound_def
proof (intro allI impI)
  fix meth path nm v assume f: "first_route meth path = Found nm v"
  obtain r where r: "List.find (\<lambda>r. meth \<in> set (rt_methods r)) (filter (\<lambda>r. match_path (rt_path r) path \<noteq> None) complete_routes) = Some r"
    "nm = rt_name r" "v = the (match_path (rt_path r) path)"
    using f by (auto simp: first_route_def Let_def split: option.splits if_splits)
  from find_SomeD [OF r(1)] r(2,3) show "\<exists>r \<in> set complete_routes. rt_name r = nm \<and> meth \<in> set (rt_methods r) \<and> match_path (rt_path r) path = Some v"
    by (intro bexI [of _ r]) auto
qed

definition sample_site_env :: "(request \<Rightarrow> err option) \<Rightarrow> site_env" where
  "sample_site_env forged = \<lparr>si_auth = sample_auth_env, si_admin = sample_admin_env, si_route = first_route, si_forged = forged, si_password = Inl NotAuthorized,
      si_credentials = (\<lambda>req. (hr_form req ''user'', hr_form req ''pass'')),
      si_authorized = (\<lambda>_. []), si_logged_out = [], si_body = Inr (dave, b64_encode url_alphabet sample_token), si_stream = [],
      si_flushes = True, si_lang_cookie = None, si_lang_saved = None, si_asset = (\<lambda>_. []), si_requested = ''/''\<rparr>"

lemma no_member:
  "ContextInjecter (Inl e) t no_cookie req c = (req, c)"
  by (simp add: ContextInjecter_def AuthenticateRequest_def no_cookie_def fail_def)

lemma sample_site_runs:
  "\<exists>a c'. site (sample_site_env (\<lambda>_. None)) json_request no_cookie NewSignalBridge c = Some (a, no_cookie, NewSignalBridge, c')"
proof -
  have m: "map_of (site_mux (sample_site_env (\<lambda>_. None))) ''complete:invite:consume''
      = Some (public (invite_consume sample_public_env (Inr (dave, b64_encode url_alphabet sample_token))))"
    by (simp add: site_mux_def Let_def sample_site_env_def sample_auth_env_def)
  have c: "mux_clean ''/invite/consume'' = ''/invite/consume''" by (simp add: mux_clean_def path_clean_def has_prefix_def)
  have r: "first_route ''POST'' ''/invite/consume'' = Found ''complete:invite:consume'' []"
    by (simp add: first_route_def complete_routes_def auth_routes_def admin_routes_def named_def match_path_def has_prefix_def)
  show ?thesis
    by (simp add: site_def Let_def sample_site_env_def [THEN arg_cong, of si_forged] sample_site_env_def [THEN arg_cong, of si_password] no_member
        main_mux_def json_request_def c has_prefix_def site_router_def sample_site_env_def [THEN arg_cong, of si_route] r m public_def answer_def)
qed


lemma site_keeps_db_witness:
  "\<exists>a c'. site (sample_site_env (\<lambda>_. None)) json_request no_cookie NewSignalBridge invited_conn = Some (a, no_cookie, NewSignalBridge, c')
     \<and> db_wf (data c')"
proof -
  have "db_wf (data invited_conn)" using keepsD [OF keeps_Invites(1) sample_invite_created] by simp
  then show ?thesis using site_keeps_db sample_site_runs [of invited_conn] by blast
qed


end
