(* ===== verification/World.thy ===== *)
theory World
  imports Commands AliasHandler SignIn Tunnel WebSite
begin

text \<open>
  The running room as one system: the database every part shares, the node of \<open>internal/network\<close> with
  the rule of \<open>roomsrv/init_network.go\<close>, the connections served over websockets, the room state with the
  tunnel calls that change it, the web site of
  \<open>web/handlers/http.go\<close> with the bridge its sign-in pages wait at, the sign-in calls that answer them,
  the alias calls and the clean-up of \<open>roomdb/sqlite/new.go\<close>. Each step is one call of
  the operations modelled elsewhere, so the theorems here are about what the parts do together.
  Calls of the database may fail inside a step except while a peer is admitted: there a failing
  query hides a denial (\<open>Denied_HasFeed\<close> answers false on every error).
\<close>

subsection \<open>State and steps\<close>

record world =
  w_data :: db
  w_node :: "(active, endpoint) node"
  w_conns :: "(netconn \<times> netconn \<times> endpoint) list"
  w_sockets :: "netconn list"
  w_bridge :: bridge
  w_room :: "endpoint manager"

datatype world_label =
    Arrives netconn | Leaves netconn | ArrivesByWebsocket "netconn res" | LeavesWebsocket netconn
  | Asks site_env request cookie "bool list" | CallsAlias address string | CallsTunnel address | SessionOver address
  | SignsIn address string | SignsOut address
  | CleansUp time

text \<open>What an arrival adds to the connections that are served, over the network and over a websocket.\<close>

definition conn_served :: "netconn res \<Rightarrow> netconn \<Rightarrow> 'e \<Rightarrow> mux outcome_of_open res \<Rightarrow> (netconn \<times> netconn \<times> 'e) list" where
  "conn_served wrapped orig edp out =
     (case (wrapped, out) of (Inr conn, Inr (Serving h)) \<Rightarrow> [(orig, conn, edp)] | _ \<Rightarrow> [])"

definition socket_served :: "netconn res \<Rightarrow> mux ws_outcome res \<Rightarrow> netconn list" where
  "socket_served shake r = (case (shake, r) of (Inr wc, Inr (ServedOverWebsocket h)) \<Rightarrow> [wc] | _ \<Rightarrow> [])"

text \<open>The muxrpc calls come over a connection that is served.\<close>

definition served_at :: "address \<Rightarrow> world \<Rightarrow> bool" where
  "served_at a w \<longleftrightarrow> (\<exists>(orig, conn, edp) \<in> set (w_conns w). nc_addr conn = a) \<or> (\<exists>wc \<in> set (w_sockets w). nc_addr wc = a)"

inductive world_step :: "lib \<Rightarrow> feed_ref \<Rightarrow> world \<Rightarrow> world_label \<Rightarrow> world \<Rightarrow> bool" for L self where
  world_arrives:
    "room_open L self \<lparr>data = w_data w, faults = []\<rparr> ws now edp orig (w_node w) = (out, n') \<Longrightarrow>
     world_step L self w (Arrives orig)
       (w\<lparr>w_node := n', w_conns := conn_served (applyConnWrappers 0 ws orig) orig edp out @ w_conns w\<rparr>)"
| world_leaves:
    "(orig, conn, edp) \<in> set (w_conns w) \<Longrightarrow>
     world_step L self w (Leaves orig)
       (w\<lparr>w_node := room_end L now edp orig conn (w_node w), w_conns := remove1 (orig, conn, edp) (w_conns w)\<rparr>)"
| world_websocket:
    "ws_ServeHTTP resolves up shake (mkHandler L self) fwd ra \<lparr>data = w_data w, faults = []\<rparr> = (r, c') \<Longrightarrow>
     world_step L self w (ArrivesByWebsocket shake) (w\<lparr>w_sockets := socket_served shake r @ w_sockets w\<rparr>)"
| world_websocket_ends:
    "wc \<in> set (w_sockets w) \<Longrightarrow> world_step L self w (LeavesWebsocket wc) (w\<lparr>w_sockets := remove1 wc (w_sockets w)\<rparr>)"
| world_asks:
    "site E req ck (w_bridge w) \<lparr>data = w_data w, faults = fs\<rparr> = Some (a, ck', b', c') \<Longrightarrow>
     world_step L self w (Asks E req ck fs) (w\<lparr>w_data := data c', w_bridge := b'\<rparr>)"
| world_registers:
    "served_at remote w \<Longrightarrow>
     Handler_Register \<lparr>ah_self = self, ah_net = net, ah_lib = L\<rparr> unmarshal remote raw \<lparr>data = w_data w, faults = fs\<rparr> = (r, c') \<Longrightarrow>
     world_step L self w (CallsAlias remote raw) (w\<lparr>w_data := data c'\<rparr>)"
| world_revokes:
    "served_at remote w \<Longrightarrow>
     Handler_Revoke \<lparr>ah_self = self, ah_net = net, ah_lib = L\<rparr> unmarshal remote raw \<lparr>data = w_data w, faults = fs\<rparr> = (q, c') \<Longrightarrow>
     world_step L self w (CallsAlias remote raw) (w\<lparr>w_data := data c'\<rparr>)"
| world_signs_in:
    "served_at remote w \<Longrightarrow>
     SendSolution \<lparr>sg_self = self, sg_lib = L\<rparr> unmarshal now intn reader remote raw (w_bridge w) \<lparr>data = w_data w, faults = fs\<rparr> = (t, b', c') \<Longrightarrow>
     world_step L self w (SignsIn remote raw) (w\<lparr>w_data := data c', w_bridge := b'\<rparr>)"
| world_signs_out:
    "served_at remote w \<Longrightarrow>
     InvalidateAllSolutions \<lparr>sg_self = self, sg_lib = L\<rparr> remote \<lparr>data = w_data w, faults = fs\<rparr> = (t, c') \<Longrightarrow>
     world_step L self w (SignsOut remote) (w\<lparr>w_data := data c'\<rparr>)"
| world_announces:
    "served_at (rq_addr q) w \<Longrightarrow> handle_announce \<lparr>h_net = net, h_lib = L\<rparr> q (w_room w) = (r, m') \<Longrightarrow>
     world_step L self w (CallsTunnel (rq_addr q)) (w\<lparr>w_room := m'\<rparr>)"
| world_goes:
    "served_at (rq_addr q) w \<Longrightarrow> handle_leave \<lparr>h_net = net, h_lib = L\<rparr> q (w_room w) = (r, m') \<Longrightarrow>
     world_step L self w (CallsTunnel (rq_addr q)) (w\<lparr>w_room := m'\<rparr>)"
| world_endpoints:
    "served_at (rq_addr q) w \<Longrightarrow>
     handle_endpoints \<lparr>h_net = net, h_lib = L\<rparr> q snk (w_room w) \<lparr>data = w_data w, faults = fs\<rparr> = (i, m', c') \<Longrightarrow>
     world_step L self w (CallsTunnel (rq_addr q)) (w\<lparr>w_room := m', w_data := data c'\<rparr>)"
| world_attendants:
    "served_at (rq_addr q) w \<Longrightarrow>
     handle_attendants \<lparr>h_net = net, h_lib = L\<rparr> q snk' (w_room w) \<lparr>data = w_data w, faults = fs\<rparr> = (a, m', c') \<Longrightarrow>
     world_step L self w (CallsTunnel (rq_addr q)) (w\<lparr>w_room := m', w_data := data c'\<rparr>)"
| world_session_over:
    "world_step L self w (SessionOver a) (w\<lparr>w_room := HandleConnect \<lparr>h_net = net, h_lib = L\<rparr> a (w_room w)\<rparr>)"
| world_cleans:
    "world_step L self w (CleansUp now) (w\<lparr>w_data := data (scrub now \<lparr>data = w_data w, faults = fs\<rparr>)\<rparr>)"

text \<open>Who takes part in the room: in its list, over the network or over a websocket.\<close>

definition takes_part :: "lib \<Rightarrow> feed_ref \<Rightarrow> world \<Rightarrow> bool" where
  "takes_part L r w \<longleftrightarrow> Manager_Has r (w_room w) \<noteq> None \<or> GetEndpointFor r (w_node w) \<noteq> None
     \<or> (\<exists>(orig, conn, edp) \<in> set (w_conns w). GetFeedRefFromAddr L (nc_addr conn) = Inr r)
     \<or> (\<exists>wc \<in> set (w_sockets w). GetFeedRefFromAddr L (nc_addr wc) = Inr r)"


text \<open>
  A request that may lift the ban of a key: of the page that removes denied keys, by a member whom the
  privacy mode lets change them. \<open>session_request\<close> is the request with the member of its session.
\<close>

definition session_request :: "site_env \<Rightarrow> request \<Rightarrow> cookie \<Rightarrow> db conn \<Rightarrow> request" where
  "session_request E req ck c =
     fst (ContextInjecter (si_password E) (pe_now (au_public (si_auth E))) ck (req\<lparr>hr_member := None\<rparr>) c)"

definition may_lift_bans :: "site_env \<Rightarrow> request \<Rightarrow> cookie \<Rightarrow> db conn \<Rightarrow> bool" where
  "may_lift_bans E req ck c \<longleftrightarrow>
     (let req1 = session_request E req ck c in
      section_path req1 = ''/denied/remove'' \<and> may_act ActionChangeDeniedKeys req1 (data c))"

subsection \<open>What cannot happen without that right\<close>

context data_law
begin

lemma admin_section_keeps_unless:
  assumes wf: "I (data c)" and no: "\<not> (section_path req = ''/denied/remove'' \<and> may_act ActionChangeDeniedKeys req (data c))"
  shows "I (data (snd (admin_section E req c)))"
proof (cases "section_path req = ''/denied/remove''")
  case True
  then have "guarded False (data c) (admin_handler E (section_path req) req c)"
    using guarded_admin_handler [OF refl, of "section_path req" req c E] no by (simp add: admin_right_def)
  then show ?thesis using wf by (simp add: admin_section_path guarded_def)
next
  case False
  then show ?thesis using admin_handler_keeps [OF wf, of "section_path req"] wf by (simp add: admin_section_path reply_keeps_def)
qed

lemma site_keeps_unless:
  assumes wf: "I (data c)" and run: "site E req ck b c = Some (a, ck', b', c')" and no: "\<not> may_lift_bans E req ck c"
  shows "I (data c')"
  using run
proof (cases rule: site_inside)
  case (2 req1 c1)
  then have "I (data (snd (admin_section (si_admin E) req1 c1)))"
    using no wf by (intro admin_section_keeps_unless) (auto simp: may_lift_bans_def session_request_def Let_def)
  then show ?thesis using main_mux_keeps [of c1 E req1 ck b] 2 wf by (simp add: reaches_def)
qed (simp add: wf)

end

text \<open>A denial is no row of the other tables, and the statements on its own table but the removal keep it.\<close>

lemma is_denied_frame [simp]:
  "is_denied r (d\<lparr>members := ms\<rparr>) = is_denied r d" "is_denied r (d\<lparr>aliases := as\<rparr>) = is_denied r d"
  "is_denied r (d\<lparr>invites := ivs\<rparr>) = is_denied r d" "is_denied r (d\<lparr>passwords := ps\<rparr>) = is_denied r d"
  "is_denied r (d\<lparr>resets := rs\<rparr>) = is_denied r d" "is_denied r (d\<lparr>sessions := ss\<rparr>) = is_denied r d"
  "is_denied r (d\<lparr>notices := ns\<rparr>) = is_denied r d" "is_denied r (d\<lparr>pin_notices := pns\<rparr>) = is_denied r d"
  "is_denied r (d\<lparr>config := cs\<rparr>) = is_denied r d"
  by (simp_all add: is_denied_def)

text \<open>Of an invariant that every statement but the removal of a denied key keeps, all operations are lawful.\<close>

locale statement_law =
  fixes I :: "db \<Rightarrow> bool"
  assumes insert_law: "keeps I (stmt (insert_member m))" "keeps I (stmt (insert_alias ar))" "keeps I (stmt (insert_invite ir))"
      "keeps I (stmt (insert_password pr))" "keeps I (stmt (insert_reset rr))" "keeps I (stmt (insert_session sr))"
      "keeps I (stmt (insert_denied dr))" "keeps I (stmt (insert_notice nr))" "keeps I (stmt (insert_pin_notice p n))"
    and update_law: "keeps I (stmt (update_member_role i ro))" "keeps I (stmt (update_invite_active i b))"
      "keeps I (stmt (update_password_hash i h))" "keeps I (stmt (update_reset_active i b))"
      "keeps I (stmt (update_notice i nr))" "keeps I (stmt (update_config i cr))"
    and delete_law: "keeps I (stmt (delete_member i))" "keeps I (stmt (delete_alias i))" "keeps I (stmt delete_inactive_invites)"
      "keeps I (stmt delete_inactive_resets)" "keeps I (stmt (delete_session i))" "keeps I (stmt (delete_sessions P))"
begin

lemmas statement_intros = insert_law update_law delete_law keeps_wf

lemma members_keep:
  "keeps I (Members_add L k r)" "keeps I (Members_Add L k r)" "keeps I (Members_SetRole j r)" "keeps I (Members_RemoveID j)"
  unfolding members_defs by (auto intro!: statement_intros)

lemma aliases_keep: "keeps I (Aliases_Register nm k s)" "keeps I (Aliases_Revoke nm)"
  unfolding aliases_defs by (auto intro!: statement_intros)

lemma config_keep: "keeps I (Config_SetPrivacyMode pm)" "keeps I (Config_SetDefaultLanguage l)"
  unfolding config_defs by (auto intro!: statement_intros)

lemma denied_keep: "keeps I (Denied_Add L t k s)"
  unfolding denied_defs by (auto intro!: statement_intros)

lemma invites_keep:
  "keeps I (Invites_Create L t f b)" "keeps I (Invites_Revoke j)" "keeps I (Invites_Consume L s k)" "keeps I deleteConsumedInvites"
  unfolding invites_defs members_defs by (auto intro!: statement_intros)

lemma fallback_keep:
  "keeps I (Fallback_CreateResetToken L t f j k)" "keeps I (Fallback_SetPassword L b j s)"
  "keeps I (Fallback_SetPasswordWithToken L b s s')" "keeps I deleteConsumedResetTokens"
  unfolding fallback_defs by (auto intro!: statement_intros)

lemma notices_keep: "keeps I (Notices_Save nt)" "keeps I (PinnedNotices_Set nm j)"
  unfolding notices_defs by (auto intro!: statement_intros)

lemma sessions_keep: "keeps I (Sessions_CreateToken t g j)" "keeps I (Sessions_RemoveToken s)" "keeps I (cleanup t)"
  "keeps I (Sessions_WipeTokensForMember j)"
  unfolding sessions_defs using invites_keep(4) fallback_keep(4) by (auto intro!: statement_intros)

lemma alias_calls_keep: "keeps I (Handler_Register h unmarshal remote raw)" "keeps I (Handler_Revoke h unmarshal remote raw)"
  unfolding Handler_Register_def Handler_Revoke_def Let_def using aliases_keep by (auto intro!: statement_intros)

lemma scrub_keep: "I (data c) \<Longrightarrow> I (data (scrub now c))"
  using keepsD [OF keeps_transact [OF sessions_keep(3) [of now]], of c] by (cases "transact (cleanup now) c") (simp add: scrub_def)

end

sublocale statement_law \<subseteq> data_law I
  by unfold_locales (rule members_keep aliases_keep config_keep denied_keep invites_keep fallback_keep notices_keep sessions_keep)+

interpretation ban_law: statement_law "is_denied r" for r
  by unfold_locales (rule keeps_stmt; auto simp: delete_member_def update_config_def dest!: statement_ok)+

subsection \<open>What the calls of a peer do to the room\<close>

text \<open>A call over a connection of one peer changes no other peer's entry, and the data not at all.\<close>

lemma announce_leave_others:
  assumes "GetFeedRefFromAddr (h_lib h) (rq_addr q) \<noteq> Inr r"
  shows "handle_announce h q m = (b, m') \<Longrightarrow> Manager_Has r m' = Manager_Has r m"
    "handle_leave h q m = (b', m') \<Longrightarrow> Manager_Has r m' = Manager_Has r m"
  using assms by (auto simp: handle_announce_def handle_leave_def Has_ops split: sum.splits)

lemma enumerate_reads: "enumerate_gate peer c = (r, c') \<Longrightarrow> data c' = data c"
  unfolding enumerate_gate_def by (rule directory.gate_reads)

lemma other_ref: "r \<noteq> p \<Longrightarrow> ref_string r \<noteq> ref_string p"
  by (cases r; cases p) simp

lemma streams_others:
  assumes "handle_endpoints h q snk m c = (i, m', c') \<or> handle_attendants h q snk' m c = (a, m', c')"
  shows "data c' = data c \<and> (GetFeedRefFromAddr (h_lib h) (rq_addr q) \<noteq> Inr r \<longrightarrow> Manager_Has r m' = Manager_Has r m)"
proof (cases "GetFeedRefFromAddr (h_lib h) (rq_addr q)")
  case (Inr peer)
  obtain g c1 where g: "enumerate_gate peer c = (g, c1)" by (cases "enumerate_gate peer c")
  show ?thesis using assms
  proof
    assume "handle_endpoints h q snk m c = (i, m', c')"
    then show ?thesis using g Inr enumerate_reads [OF g]
      by (cases g) (auto simp: handle_endpoints_def Let_def split_beta Manager_Has_def update_conv' dest: other_ref)
  next
    assume "handle_attendants h q snk' m c = (a, m', c')"
    then show ?thesis using g Inr enumerate_reads [OF g]
      by (cases g) (auto simp: handle_attendants_def Let_def split_beta Manager_Has_def update_conv' dest: other_ref split: sum.splits if_splits)
  qed
qed (use assms in \<open>auto simp: handle_endpoints_def handle_attendants_def\<close>)

lemma session_over_drops: "Manager_Has r (HandleConnect h a m) = None \<or> Manager_Has r (HandleConnect h a m) = Manager_Has r m"
  by (auto simp: HandleConnect_def Has_ops split: sum.split)

subsection \<open>Every state of the room\<close>

text \<open>The data are well formed and every connection that is served has an address and a key.\<close>

definition world_ok :: "lib \<Rightarrow> world \<Rightarrow> bool" where
  "world_ok L w \<longleftrightarrow> db_wf (w_data w)
     \<and> (\<forall>(orig, conn, edp) \<in> set (w_conns w). is_ok (GetFeedRefFromAddr L (nc_addr conn)) \<and> is_ok (toActive conn))"

definition world_start :: "world \<Rightarrow> bool" where
  "world_start w \<longleftrightarrow> db_wf (w_data w) \<and> w_conns w = [] \<and> w_sockets w = [] \<and> remotes (w_node w) = [] \<and> tracker (w_node w) = []
     \<and> w_room w = NewManager"

lemma conn_served_cases:
  assumes "room_open L self c ws now edp orig n = (out, n')"
  obtains (turned_away) "conn_served (applyConnWrappers 0 ws orig) orig edp out = []" "\<And>q. GetEndpointFor q n' = GetEndpointFor q n"
  | (served) h conn r k where "conn_served (applyConnWrappers 0 ws orig) orig edp out = [(orig, conn, edp)]"
      "GetFeedRefFromAddr L (nc_addr conn) = Inr r" "toActive conn = Inr k" "fst (mkHandler L self conn c) = Inr h"
      "\<And>q. GetEndpointFor q n' = (if q = r then Some edp else GetEndpointFor q n)"
proof (cases "\<exists>h. out = Inr (Serving h)")
  case False
  then have "conn_served (applyConnWrappers 0 ws orig) orig edp out = []"
    by (auto simp: conn_served_def split: sum.split outcome_of_open.split)
  moreover have "\<And>q. GetEndpointFor q n' = GetEndpointFor q n" using room_open_not_served [OF assms] False by blast
  ultimately show thesis by (rule turned_away)
next
  case True
  then obtain h where h: "out = Inr (Serving h)" by blast
  obtain conn where conn: "applyConnWrappers 0 ws orig = Inr conn"
    using assms h by (cases "applyConnWrappers 0 ws orig") (auto simp: room_open_def open_connection_def)
  obtain r k where "GetFeedRefFromAddr L (nc_addr conn) = Inr r" "fst (mkHandler L self conn c) = Inr h" "toActive conn = Inr k"
      "\<forall>q. GetEndpointFor q n' = (if q = r then Some edp else GetEndpointFor q n)"
    using first_wins.open_served [OF assms [unfolded room_open_def h] conn] by blast
  then show thesis using served [of conn r k h] h conn by (simp add: conn_served_def)
qed

lemma socket_served_cases:
  assumes "ws_ServeHTTP resolves up shake (mkHandler L self) fwd ra c = (r, c')" "wc \<in> set (socket_served shake r)"
  shows "\<exists>h. mkHandler L self wc c = (Inr h, c')"
proof -
  obtain h where "shake = Inr wc" "r = Inr (ServedOverWebsocket h)"
    using assms(2) by (auto simp: socket_served_def split: sum.splits ws_outcome.splits)
  then show ?thesis using ws_served [of resolves up shake "mkHandler L self" fwd ra c h c'] assms(1) by auto
qed

lemma world_step_ok:
  assumes "world_ok L w" "world_step L self w l w'"
  shows "world_ok L w'"
  using assms(2)
proof cases
  case (world_arrives ws now edp orig out n')
  show ?thesis using conn_served_cases [OF world_arrives(3)] assms(1) unfolding world_arrives(2)
    by cases (auto simp: world_ok_def)
next
  case (world_asks E req ck fs a ck' b' c')
  then show ?thesis using wf_law.site_keeps [OF _ world_asks(3)] assms(1) by (auto simp: world_ok_def)
next
  case (world_leaves orig conn edp now)
  then show ?thesis using assms(1) by (auto simp: world_ok_def dest: set_remove1_subset [THEN subsetD])
next
  case (world_registers remote net unmarshal raw fs r c')
  then show ?thesis using keepsD [OF keeps_AliasHandler(1) world_registers(4)] assms(1) by (auto simp: world_ok_def)
next
  case (world_revokes remote net unmarshal raw fs q c')
  then show ?thesis using keepsD [OF keeps_AliasHandler(2) world_revokes(4)] assms(1) by (auto simp: world_ok_def)
next
  case (world_signs_in remote unmarshal now intn reader raw fs t b' c')
  then show ?thesis using SendSolution_keeps [OF keeps_Sessions(1,3) world_signs_in(4)] assms(1) by (auto simp: world_ok_def)
next
  case (world_signs_out remote fs t c')
  then show ?thesis using keepsD [OF InvalidateAllSolutions_keeps [OF keeps_Sessions(4)] world_signs_out(4)] assms(1)
    by (auto simp: world_ok_def)
next
  case (world_endpoints q net snk fs i m' c')
  then show ?thesis using streams_others [OF disjI1 [OF world_endpoints(4)]] assms(1) by (auto simp: world_ok_def)
next
  case (world_attendants q net snk fs a m' c')
  then show ?thesis using streams_others [OF disjI2 [OF world_attendants(4)]] assms(1) by (auto simp: world_ok_def)
next
  case (world_cleans now fs)
  then show ?thesis using scrub_keeps [of "\<lparr>data = w_data w, faults = fs\<rparr>"] assms(1) by (auto simp: world_ok_def)
qed (use assms(1) in \<open>auto simp: world_ok_def\<close>)

interpretation room_world: inductive_invariant world_start "world_step L self" "world_ok L" for L self
  by unfold_locales (simp_all add: world_step_ok, simp add: world_ok_def world_start_def)

subsection \<open>A denied peer stays out\<close>

definition shut_out :: "lib \<Rightarrow> feed_ref \<Rightarrow> world \<Rightarrow> bool" where
  "shut_out L r w \<longleftrightarrow> world_ok L w \<and> is_denied r (w_data w) \<and> \<not> takes_part L r w"

text \<open>The label of a step that may lift a ban, in the state it is taken.\<close>

definition lifting :: "world \<Rightarrow> world_label \<Rightarrow> bool" where
  "lifting w l \<longleftrightarrow> (case l of Asks E req ck fs \<Rightarrow> may_lift_bans E req ck \<lparr>data = w_data w, faults = fs\<rparr> | _ \<Rightarrow> False)"

lemma denied_no_handler:
  assumes "db_wf d" "is_denied r d" "r \<noteq> self" "GetFeedRefFromAddr L (nc_addr conn) = Inr r"
  shows "fst (mkHandler L self conn \<lparr>data = d, faults = []\<rparr>) \<noteq> Inr h"
  using access_of_clean [of "\<lparr>data = d, faults = []\<rparr>" r] assms by (simp add: mkHandler_def)

lemma shut_out_step:
  assumes out: "shut_out L r w" and r: "r \<noteq> self" and step: "world_step L self w l w'" and no: "\<not> lifting w l"
  shows "shut_out L r w'"
proof -
  have ok: "world_ok L w'" using world_step_ok [OF _ step] out by (simp add: shut_out_def)
  have wf: "db_wf (w_data w)" and ban: "is_denied r (w_data w)" and away: "\<not> takes_part L r w"
    using out by (simp_all add: shut_out_def world_ok_def)
  have elsewhere: "served_at a w \<Longrightarrow> GetFeedRefFromAddr L a \<noteq> Inr r" for a
    using away by (auto simp: served_at_def takes_part_def)
  from step have "is_denied r (w_data w') \<and> \<not> takes_part L r w'"
  proof cases
    case (world_arrives ws now edp orig o' n')
    show ?thesis using conn_served_cases [OF world_arrives(3)] away ban denied_no_handler [OF wf ban r, of L] unfolding world_arrives(2)
      by cases (auto simp: takes_part_def)
  next
    case (world_leaves orig conn edp now)
    then obtain q k where qk: "GetFeedRefFromAddr L (nc_addr conn) = Inr q" "toActive conn = Inr k"
      using out by (auto simp: shut_out_def world_ok_def elim!: is_ok.elims(2) dest!: bspec)
    then show ?thesis using first_wins.end_frees [OF qk, of now edp orig "w_node w"] away ban world_leaves
      by (auto simp: takes_part_def room_end_def dest: set_remove1_subset [THEN subsetD])
  next
    case (world_websocket resolves up shake fwd ra q c')
    have "GetFeedRefFromAddr L (nc_addr wc) \<noteq> Inr r" if "wc \<in> set (socket_served shake q)" for wc
      using socket_served_cases [OF world_websocket(3) that] denied_no_handler [OF wf ban r, of L wc] by (metis fst_conv)
    then show ?thesis using away ban world_websocket(2) by (auto simp: takes_part_def)
  next
    case (world_websocket_ends wc)
    then show ?thesis using away ban by (auto simp: takes_part_def dest: set_remove1_subset [THEN subsetD])
  next
    case (world_asks E req ck fs a ck' b' c')
    then show ?thesis using ban_law.site_keeps_unless [OF _ world_asks(3)] no away ban by (auto simp: takes_part_def lifting_def)
  next
    case (world_registers remote net unmarshal raw fs q c')
    then show ?thesis using keepsD [OF ban_law.alias_calls_keep(1) world_registers(4)] away ban by (auto simp: takes_part_def)
  next
    case (world_revokes remote net unmarshal raw fs q c')
    then show ?thesis using keepsD [OF ban_law.alias_calls_keep(2) world_revokes(4)] away ban by (auto simp: takes_part_def)
  next
    case (world_signs_in remote unmarshal now intn reader raw fs t b' c')
    then show ?thesis using SendSolution_keeps [OF ban_law.sessions_keep(1,2) world_signs_in(4)] away ban by (auto simp: takes_part_def)
  next
    case (world_signs_out remote fs t c')
    then show ?thesis using keepsD [OF InvalidateAllSolutions_keeps [OF ban_law.sessions_keep(4)] world_signs_out(4)] away ban
      by (auto simp: takes_part_def)
  next
    case (world_announces q net b m')
    then show ?thesis using announce_leave_others(1) [OF _ world_announces(4), of r] elsewhere away ban by (auto simp: takes_part_def)
  next
    case (world_goes q net b m')
    then show ?thesis using announce_leave_others(2) [OF _ world_goes(4), of r] elsewhere away ban by (auto simp: takes_part_def)
  next
    case (world_endpoints q net snk fs i m' c')
    then show ?thesis using streams_others [OF disjI1 [OF world_endpoints(4)], of r] elsewhere away ban by (auto simp: takes_part_def)
  next
    case (world_attendants q net snk fs a m' c')
    then show ?thesis using streams_others [OF disjI2 [OF world_attendants(4)], of r] elsewhere away ban by (auto simp: takes_part_def)
  next
    case (world_session_over a net)
    then show ?thesis using session_over_drops [of r "\<lparr>h_net = net, h_lib = L\<rparr>" a "w_room w"] away ban by (auto simp: takes_part_def)
  next
    case (world_cleans now fs)
    then show ?thesis using ban_law.scrub_keep [of r "\<lparr>data = w_data w, faults = fs\<rparr>" now] away ban by (auto simp: takes_part_def)
  qed
  then show ?thesis using ok by (simp add: shut_out_def)
qed

text \<open>No tunnel starts or ends at a peer that takes no part.\<close>

lemma no_tunnel_with_absent:
  assumes "\<not> takes_part L r w" "served_at (rq_addr q) w"
    and "HandleDuplex \<lparr>h_net = net, h_lib = L\<rparr> unmarshal duplex q (w_room w) = Inr t"
  shows "target (t_arg t) \<noteq> r \<and> t_origin t \<noteq> r"
proof -
  have "GetFeedRefFromAddr L (rq_addr q) \<noteq> Inr r" using assms(1,2) by (auto simp: served_at_def takes_part_def)
  then show ?thesis using assms(1,3) by (auto simp: HandleDuplex_def Let_def takes_part_def split: sum.splits if_splits option.splits)
qed

text \<open>The site cannot reach the connections: denying a key leaves a peer that is connected connected.\<close>

lemma site_disconnects_nobody:
  "world_step L self w (Asks E req ck fs) w' \<Longrightarrow> takes_part L q w' \<longleftrightarrow> takes_part L q w"
  by (erule world_step.cases) (simp_all add: takes_part_def)


text \<open>A denied peer knocks, a visitor tries to spend an invite, the clean-up runs.\<close>

definition sample_world :: "world" where
  "sample_world = \<lparr>w_data = data banned_conn, w_node = empty_node, w_conns = [], w_sockets = [], w_bridge = NewSignalBridge,
      w_room = NewManager\<rparr>"


subsection \<open>From the invite to the tunnel\<close>

lemma consume_denies_nobody: "keeps (\<lambda>d. \<not> is_denied r d) (Invites_Consume L tok k)"
proof -
  have "keeps (\<lambda>d. \<not> is_denied r d) (stmt (insert_member m))" "keeps (\<lambda>d. \<not> is_denied r d) (stmt (update_invite_active i b))" for m i b
    by (rule keeps_stmt; auto dest!: statement_ok)+
  then show ?thesis unfolding invites_defs members_defs by (auto intro!: keeps_wf)
qed

lemma room_open_serves:
  assumes "applyConnWrappers 0 ws orig = Inr conn" "GetFeedRefFromAddr L (nc_addr conn) = Inr r" "toActive conn = Inr key"
    "holder (tracker n) key = None" "fst (mkHandler L self conn c) = Inr h"
  shows "\<exists>n'. room_open L self c ws now edp orig n = (Inr (Serving h), n') \<and> GetEndpointFor r n' = Some edp"
proof -
  have t: "Tracker_OnAccept now conn (tracker n) = (Inr True, AList.update key \<lparr>en_conn = conn, en_started = now\<rparr> (tracker n))"
    using Tracker_OnAccept_True assms(3,4) by blast
  show ?thesis using assms t
    by (simp add: room_open_def open_connection_def Let_def addRemote_def GetEndpointFor_def update_conv')
qed



subsection \<open>A removed member is out\<close>

lemma removed_member_rows:
  assumes wf: "db_wf (data c)" and r: "(i, r) \<in> set (rows (members (data c)))" and run: "Members_RemoveID i c = (Inr u, c')"
  shows "\<not> stored_member (mb_pub_key r) (data c')" "i \<notin> ids (members (data c'))" "password_hash_of i (data c') = None"
    "(j, iv) \<in> set (rows (invites (data c'))) \<Longrightarrow> iv_by iv \<noteq> i"
proof -
  have d: "data c' = (data c)\<lparr>members := delete_id i (members (data c)), aliases := delete_rows (\<lambda>r. al_member r = i) (aliases (data c)),
       invites := delete_rows (\<lambda>r. iv_by r = i) (invites (data c)), passwords := delete_rows (\<lambda>r. pw_member r = i) (passwords (data c)),
       resets := delete_rows (\<lambda>r. rs_by r = i \<or> rs_for r = i) (resets (data c)), sessions := delete_rows (\<lambda>r. ss_member r = i) (sessions (data c))\<rparr>"
    using Members_RemoveID_ok [OF run] by (simp add: delete_member_def)
  have "j = i" if "(j, x) \<in> set (rows (members (data c)))" "mb_pub_key x = mb_pub_key r" for j x
    using uniq_key_eq [of mb_pub_key "members (data c)" j x i r] that r db_wf_parts(1) [OF wf] by (simp add: members_ok_def)
  then show "\<not> stored_member (mb_pub_key r) (data c')"
    by (auto simp: d stored_member_def exists_row_conv delete_id_def)
  show "i \<notin> ids (members (data c'))" by (auto simp: d ids_def delete_id_def)
  show "password_hash_of i (data c') = None"
    by (simp add: d password_hash_of_def find_row_None exists_row_conv delete_rows_def)
  show "(j, iv) \<in> set (rows (invites (data c'))) \<Longrightarrow> iv_by iv \<noteq> i" by (auto simp: d delete_rows_def)
qed



end
