(* ===== verification/Boil.thy ===== *)
theory Boil
  imports Database
begin

text \<open>
  The access code of the database tables, \<open>roomdb/sqlite/models\<close>: what all its files have in common. Every
  table has one struct with the same methods; they differ in the names and columns of the table, which
  are the record \<open>info\<close> here. A struct is an object in a store, since the code shares objects by pointers
  (\<open>R\<close> of one struct points to structs of other tables), keeps three caches of statements per table and
  runs hooks that may change the object. The libraries underneath (\<open>boil\<close>, \<open>queries\<close>, \<open>strmangle\<close> and
  the SQL driver) are the record \<open>boil\<close>. A value returned beside an error is dropped. The debug writer is left out.
\<close>

subsection \<open>Programs over a state\<close>

type_synonym ('s, 'a) prog = "'s \<Rightarrow> 'a res \<times> 's"

definition pret :: "'a \<Rightarrow> ('s, 'a) prog" where
  "pret x s = (Inr x, s)"

definition pfail :: "err \<Rightarrow> ('s, 'a) prog" where
  "pfail e s = (Inl e, s)"

definition pthen :: "('s, 'a) prog \<Rightarrow> ('a \<Rightarrow> ('s, 'b) prog) \<Rightarrow> ('s, 'b) prog" where
  "pthen m f s = (case m s of (Inl e, s') \<Rightarrow> (Inl e, s') | (Inr x, s') \<Rightarrow> f x s')"

definition pwrap :: "(err \<Rightarrow> err) \<Rightarrow> ('s, 'a) prog \<Rightarrow> ('s, 'a) prog" where
  "pwrap h m s = (case m s of (Inl e, s') \<Rightarrow> (Inl (h e), s') | (Inr x, s') \<Rightarrow> (Inr x, s'))"

definition plift :: "'a res \<Rightarrow> ('s, 'a) prog" where
  "plift r s = (r, s)"

definition pget :: "('s \<Rightarrow> 'a) \<Rightarrow> ('s, 'a) prog" where
  "pget f s = (Inr (f s), s)"

definition pmod :: "('s \<Rightarrow> 's) \<Rightarrow> ('s, unit) prog" where
  "pmod f s = (Inr (), f s)"

fun peach :: "('a \<Rightarrow> ('s, unit) prog) \<Rightarrow> 'a list \<Rightarrow> ('s, unit) prog" where
  "peach f [] = pret ()"
| "peach f (x # xs) = pthen (f x) (\<lambda>_. peach f xs)"

lemma prog_simps [simp]:
  "pret x s = (Inr x, s)" "pfail e s = (Inl e, s)" "plift r s = (r, s)" "pget f s = (Inr (f s), s)" "pmod g s = (Inr (), g s)"
  by (simp_all add: pret_def pfail_def plift_def pget_def pmod_def)

lemma pthen_ok: "m s = (Inr x, s') \<Longrightarrow> pthen m f s = f x s'"
  by (simp add: pthen_def)

lemma pthen_err: "m s = (Inl e, s') \<Longrightarrow> pthen m f s = (Inl e, s')"
  by (simp add: pthen_def)

lemma pthen_simps [simp]:
  "pthen (pret x) f = f x" "pthen (pfail e) g = pfail e" "pthen (pget h) f s = f (h s) s" "pthen (pmod k) h' s = h' () (k s)"
  "pthen (plift (Inr y)) f = f y" "pthen (plift (Inl e)) g = pfail e"
  by (auto simp: pthen_def fun_eq_iff)

lemma pwrap_simps [simp]: "pwrap h (pret x) = pret x" "pwrap h (pfail e) = pfail (h e)"
  by (auto simp: pwrap_def fun_eq_iff)

lemma pthen_assoc: "pthen (pthen m f) g = pthen m (\<lambda>x. pthen (f x) g)"
  by (auto simp: pthen_def fun_eq_iff split: prod.splits sum.splits)

lemma peach_append: "peach f (xs @ ys) = pthen (peach f xs) (\<lambda>_. peach f ys)"
  by (induction xs) (auto simp: pthen_assoc pthen_def fun_eq_iff split: prod.splits sum.splits)

subsection \<open>Values, tables and objects\<close>

text \<open>The Go values of the columns, and the zero value of a time, the first of January of the year one.\<close>

datatype val =
    VInt int64 | VStr string | VBytes bytes | VBool bool | VTime time | VRef feed_ref | VMode privacy_mode

definition zero_time :: time where
  "zero_time = - 62135596800 * second"

text \<open>
  What the generator knows of a table: its name in SQL, the name of the Go type and of the variables, the
  lists of columns, whether the struct has a \<open>CreatedAt\<close> that is filled in, and the zero values of its fields.
\<close>

record info =
  t_name :: string
  t_type :: string
  t_var :: string
  t_all :: "string list"
  t_nodef :: "string list"
  t_def :: "string list"
  t_pk :: "string list"
  t_gen :: "string list"
  t_stamped :: bool
  t_zero :: "string \<Rightarrow> val"

type_synonym addr = nat

text \<open>\<open>R\<close> is nil or a struct; each of its fields is a slice of pointers, or one pointer (a list of at most one).\<close>

record obj =
  o_cols :: "string \<Rightarrow> val"
  o_rels :: "(string \<Rightarrow> addr list) option"

record insert_cache =
  ic_query :: string
  ic_values :: "string list"
  ic_returns :: "string list"

record update_cache =
  uc_query :: string
  uc_values :: "string list"

record 'd store =
  st_db :: 'd
  st_heap :: "addr \<Rightarrow> obj"
  st_next :: addr
  st_inserts :: "string \<times> string \<Rightarrow> insert_cache option"
  st_updates :: "string \<times> string \<Rightarrow> update_cache option"
  st_upserts :: "string \<times> string \<Rightarrow> insert_cache option"

definition new_obj :: "info \<Rightarrow> obj" where
  "new_obj T = \<lparr>o_cols = t_zero T, o_rels = None\<rparr>"

definition alloc :: "obj \<Rightarrow> ('d store, addr) prog" where
  "alloc ob s = (Inr (st_next s), s\<lparr>st_heap := (st_heap s)(st_next s := ob), st_next := Suc (st_next s)\<rparr>)"

definition cols_of :: "addr \<Rightarrow> 'd store \<Rightarrow> string \<Rightarrow> val" where
  "cols_of o' s = o_cols (st_heap s o')"

definition set_obj :: "addr \<Rightarrow> (obj \<Rightarrow> obj) \<Rightarrow> 'd store \<Rightarrow> 'd store" where
  "set_obj o' f s = s\<lparr>st_heap := (st_heap s)(o' := f (st_heap s o'))\<rparr>"

definition set_col :: "string \<Rightarrow> val \<Rightarrow> obj \<Rightarrow> obj" where
  "set_col c v ob = ob\<lparr>o_cols := (o_cols ob)(c := v)\<rparr>"

fun scan_into :: "string list \<Rightarrow> val list \<Rightarrow> obj \<Rightarrow> obj" where
  "scan_into (c # cs) (v # vs) ob = scan_into cs vs (set_col c v ob)"
| "scan_into _ _ ob = ob"

definition db_call :: "('d \<Rightarrow> 'a res \<times> 'd) \<Rightarrow> ('d store, 'a) prog" where
  "db_call f s = (case f (st_db s) of (r, d) \<Rightarrow> (r, s\<lparr>st_db := d\<rparr>))"

subsection \<open>Queries\<close>

text \<open>
  A query is what has been asked of it so far, in order: the modifiers given to \<open>NewQuery\<close> and the
  later calls of the setters in \<open>queries\<close>. What it means is the library's business.
\<close>

datatype cmp_op = EQ | NEQ | LT | LTE | GT | GTE

datatype qmod =
    From string
  | Where string "val list"
  | WhereIn string "val list"
  | WhereNotIn string "val list"
  | HelperWhere string cmp_op val
  | InnerJoin string
  | SelectCols string
  | SetSelect "string list"
  | SetCount
  | SetLimit nat
  | SetDelete
  | SetUpdate "(string \<times> val) list"
  | LoadRel string
  | RawSQL string "val list"

type_synonym query_mods = "qmod list"

definition NewQuery :: "qmod list \<Rightarrow> query_mods" where
  "NewQuery mods = mods"

text \<open>\<open>boil.Columns\<close>: a kind and a list of names.\<close>

record columns =
  c_kind :: nat
  c_cols :: "string list"

text \<open>The rows of a query that is read by hand: what each \<open>Scan\<close> gives, and the errors of the iteration and of closing.\<close>

record result_set =
  rs_scans :: "val list res list"
  rs_step_err :: "nat \<Rightarrow> err option"
  rs_close_err :: "err option"
  rs_final_err :: "err option"

text \<open>What a relation is loaded for: a struct, a slice of structs, or something a struct is embedded in.\<close>

datatype load_target = LoadOne addr | LoadMany "addr list" | Embedding nat

record 'd boil =
  bl_insert_set :: "columns \<Rightarrow> string list \<Rightarrow> string list \<Rightarrow> string list \<Rightarrow> string list \<Rightarrow> string list \<times> string list"
  bl_update_set :: "columns \<Rightarrow> string list \<Rightarrow> string list \<Rightarrow> string list"
  bl_is_whitelist :: "columns \<Rightarrow> bool"
  bl_infer :: columns
  bl_nonzero :: "string list \<Rightarrow> (string \<Rightarrow> val) \<Rightarrow> string list"
  bl_complement :: "string list \<Rightarrow> string list \<Rightarrow> string list"
  bl_placeholders :: "nat \<Rightarrow> string"
  bl_set_names :: "string list \<Rightarrow> string"
  bl_where :: "string list \<Rightarrow> string"
  bl_where_repeated :: "string list \<Rightarrow> nat \<Rightarrow> string"
  bl_quote :: "string \<Rightarrow> string"
  bl_mapping :: "info \<Rightarrow> string list \<Rightarrow> string list res"
  bl_selected :: "query_mods \<Rightarrow> string list"
  bl_exec :: "string \<Rightarrow> val list \<Rightarrow> 'd \<Rightarrow> int64 res res \<times> 'd"
  bl_row :: "string \<Rightarrow> val list \<Rightarrow> 'd \<Rightarrow> val list res \<times> 'd"
  bl_row_bool :: "string \<Rightarrow> val list \<Rightarrow> 'd \<Rightarrow> bool res \<times> 'd"
  bl_row_int :: "query_mods \<Rightarrow> 'd \<Rightarrow> int64 res \<times> 'd"
  bl_exec_query :: "query_mods \<Rightarrow> 'd \<Rightarrow> int64 res res \<times> 'd"
  bl_open :: "query_mods \<Rightarrow> 'd \<Rightarrow> result_set res \<times> 'd"
  bl_bind_one :: "query_mods \<Rightarrow> addr \<Rightarrow> ('d store, unit) prog"
  bl_bind_all :: "query_mods \<Rightarrow> info \<Rightarrow> ('d store, addr list) prog"
  bl_bind_set :: "result_set \<Rightarrow> info \<Rightarrow> ('d store, addr list) prog"
  bl_embedded_one :: "info \<Rightarrow> load_target \<Rightarrow> addr option"
  bl_embedded_many :: "info \<Rightarrow> load_target \<Rightarrow> addr list option"
  bl_type_name :: "load_target \<Rightarrow> string"

text \<open>What a call carries in its context, and the clock.\<close>

record context_env =
  e_skip_hooks :: bool
  e_skip_times :: bool
  e_now :: time

subsection \<open>Texts\<close>

fun join_with :: "string \<Rightarrow> string list \<Rightarrow> string" where
  "join_with sep [] = []"
| "join_with sep [x] = x"
| "join_with sep (x # y # xs) = x @ sep @ join_with sep (y # xs)"

definition dq :: string where "dq = [CHR 0x22]"

definition quoted :: "string \<Rightarrow> string" where "quoted s = dq @ s @ dq"

text \<open>\<open>makeCacheKey\<close> in \<open>boil_types.go\<close>.\<close>

definition makeCacheKey :: "columns \<Rightarrow> string list \<Rightarrow> string" where
  "makeCacheKey cols nzDefaults =
     show_nat (c_kind cols) @ concat (c_cols cols) @ (if length nzDefaults \<noteq> 0 then ''.'' else []) @ concat nzDefaults"

text \<open>\<open>buildUpsertQuerySQLite\<close> in \<open>sqlite_upsert.go\<close>.\<close>

definition buildUpsertQuerySQLite ::
  "'d boil \<Rightarrow> string \<Rightarrow> bool \<Rightarrow> string list \<Rightarrow> string list \<Rightarrow> string list \<Rightarrow> string list \<Rightarrow> string" where
  "buildUpsertQuerySQLite B tableName updateOnConflict rets update conflict whitelist =
     (let q = bl_quote B;
          columns = (if length whitelist \<noteq> 0
                     then ''('' @ join_with '', '' (map q whitelist) @ '') VALUES ('' @ bl_placeholders B (length whitelist) @ '')''
                     else ''DEFAULT VALUES'')
      in ''INSERT INTO '' @ tableName @ '' '' @ columns @ '' ON CONFLICT ''
         @ (if \<not> updateOnConflict \<or> length update = 0 then ''DO NOTHING''
            else ''('' @ join_with '', '' (map q conflict) @ '') DO UPDATE SET ''
                 @ join_with '','' (map (\<lambda>v. q v @ '' = EXCLUDED.'' @ q v) update))
         @ (if length rets \<noteq> 0 then '' RETURNING '' @ join_with '', '' (map q rets) else []))"

subsection \<open>Hooks\<close>

datatype hook_point =
    BeforeInsertHook | BeforeUpdateHook | BeforeDeleteHook | BeforeUpsertHook
  | AfterInsertHook | AfterSelectHook | AfterUpdateHook | AfterDeleteHook | AfterUpsertHook

text \<open>The hooks of each table at each point; the code keeps them in global variables. A hook may do anything to the store.\<close>

type_synonym 'd hook = "addr \<Rightarrow> ('d store, unit) prog"
type_synonym 'd hooks = "string \<Rightarrow> hook_point \<Rightarrow> 'd hook list"

definition do_hooks :: "context_env \<Rightarrow> 'd hooks \<Rightarrow> info \<Rightarrow> hook_point \<Rightarrow> addr \<Rightarrow> ('d store, unit) prog" where
  "do_hooks E H T hp p =
     (if e_skip_hooks E then pret ()
      else peach (\<lambda>hook. hook p) (H (t_name T) hp))"

definition add_hook :: "info \<Rightarrow> hook_point \<Rightarrow> 'd hook \<Rightarrow> 'd hooks \<Rightarrow> 'd hooks" where
  "add_hook T hp hook H = H(t_name T := (H (t_name T))(hp := H (t_name T) hp @ [hook]))"

definition no_hooks :: "'d hooks" where
  "no_hooks = (\<lambda>_ _. [])"

subsection \<open>Reading\<close>

definition wrap_msg :: "string \<Rightarrow> err \<Rightarrow> err" where
  "wrap_msg s = Wrapped s"

definition norows_or :: "string \<Rightarrow> err \<Rightarrow> err" where
  "norows_or s e = (if errors_is e ErrNoRows then ErrNoRows else Wrapped s e)"

definition table_query :: "'d boil \<Rightarrow> info \<Rightarrow> qmod list \<Rightarrow> query_mods" where
  "table_query B T mods =
     (let q = NewQuery (mods @ [From (quoted (t_name T))]) in
      if length (bl_selected B q) = 0 then q @ [SetSelect [quoted (t_name T) @ ''.*'']] else q)"

definition query_One :: "'d boil \<Rightarrow> context_env \<Rightarrow> 'd hooks \<Rightarrow> info \<Rightarrow> query_mods \<Rightarrow> ('d store, addr) prog" where
  "query_One B E H T q =
     pthen (alloc (new_obj T)) (\<lambda>p.
     pthen (pwrap (norows_or (''models: failed to execute a one query for '' @ t_name T)) (bl_bind_one B (q @ [SetLimit 1]) p)) (\<lambda>_.
     pthen (do_hooks E H T AfterSelectHook p) (\<lambda>_.
     pret p)))"

definition query_All :: "'d boil \<Rightarrow> context_env \<Rightarrow> 'd hooks \<Rightarrow> info \<Rightarrow> query_mods \<Rightarrow> ('d store, addr list) prog" where
  "query_All B E H T q =
     pthen (pwrap (wrap_msg (''models: failed to assign all query results to '' @ t_type T @ '' slice'')) (bl_bind_all B q T)) (\<lambda>ps.
     pthen (if length (H (t_name T) AfterSelectHook) \<noteq> 0 then peach (do_hooks E H T AfterSelectHook) ps else pret ()) (\<lambda>_.
     pret ps))"

definition query_Count :: "'d boil \<Rightarrow> info \<Rightarrow> query_mods \<Rightarrow> ('d store, int64) prog" where
  "query_Count B T q =
     pwrap (wrap_msg (''models: failed to count '' @ t_name T @ '' rows'')) (db_call (bl_row_int B (q @ [SetSelect [], SetCount])))"

definition query_Exists :: "'d boil \<Rightarrow> info \<Rightarrow> query_mods \<Rightarrow> ('d store, bool) prog" where
  "query_Exists B T q =
     pthen (pwrap (wrap_msg (''models: failed to check if '' @ t_name T @ '' exists''))
              (db_call (bl_row_int B (q @ [SetSelect [], SetCount, SetLimit 1])))) (\<lambda>n.
     pret (0 < n))"

definition Find :: "'d boil \<Rightarrow> context_env \<Rightarrow> 'd hooks \<Rightarrow> info \<Rightarrow> int64 \<Rightarrow> string list \<Rightarrow> ('d store, addr) prog" where
  "Find B E H T iD selectCols =
     pthen (alloc (new_obj T)) (\<lambda>p.
     let sel = (if 0 < length selectCols then join_with '','' (map (bl_quote B) selectCols) else ''*'');
         q = [RawSQL (''select '' @ sel @ '' from '' @ quoted (t_name T) @ '' where '' @ quoted ''id'' @ ''=?'') [VInt iD]] in
     pthen (pwrap (norows_or (''models: unable to select from '' @ t_name T)) (bl_bind_one B q p)) (\<lambda>_.
     pthen (do_hooks E H T AfterSelectHook p) (\<lambda>_.
     pret p)))"

definition row_Exists :: "'d boil \<Rightarrow> info \<Rightarrow> int64 \<Rightarrow> ('d store, bool) prog" where
  "row_Exists B T iD =
     pwrap (wrap_msg (''models: unable to check if '' @ t_name T @ '' exists''))
       (db_call (bl_row_bool B
         (''select exists(select 1 from '' @ quoted (t_name T) @ '' where '' @ quoted ''id'' @ ''=? limit 1)'') [VInt iD]))"

definition int_of :: "val \<Rightarrow> int64" where
  "int_of v = (case v of VInt i \<Rightarrow> i | _ \<Rightarrow> 0)"

definition obj_Exists :: "'d boil \<Rightarrow> info \<Rightarrow> addr \<Rightarrow> ('d store, bool) prog" where
  "obj_Exists B T p s = row_Exists B T (int_of (cols_of p s ''id'')) s"

text \<open>\<open>*o = *ret\<close>: the whole struct is overwritten, its relations with it.\<close>

definition Reload :: "'d boil \<Rightarrow> context_env \<Rightarrow> 'd hooks \<Rightarrow> info \<Rightarrow> addr \<Rightarrow> ('d store, unit) prog" where
  "Reload B E H T p =
     pthen (pget (\<lambda>s. int_of (cols_of p s ''id''))) (\<lambda>iD.
     pthen (Find B E H T iD []) (\<lambda>r.
     pmod (\<lambda>s. set_obj p (\<lambda>_. st_heap s r) s)))"

text \<open>The primary keys of a slice of objects, as arguments in the order of the slice.\<close>

definition pk_values :: "info \<Rightarrow> addr list \<Rightarrow> 'd store \<Rightarrow> val list" where
  "pk_values T ps s = concat (map (\<lambda>p. map (cols_of p s) (t_pk T)) ps)"

text \<open>The slice is given by value, the new one is the result.\<close>

definition slice_ReloadAll :: "'d boil \<Rightarrow> info \<Rightarrow> addr list \<Rightarrow> ('d store, addr list) prog" where
  "slice_ReloadAll B T ps =
     (if ps = [] then pret []
      else pthen (pget (pk_values T ps)) (\<lambda>args.
           pwrap (wrap_msg (''models: unable to reload all in '' @ t_type T @ ''Slice''))
             (bl_bind_all B [RawSQL (''SELECT '' @ quoted (t_name T) @ ''.* FROM '' @ quoted (t_name T) @ '' WHERE ''
                @ bl_where_repeated B (t_pk T) (length ps)) args] T)))"

subsection \<open>Statements through a cache\<close>

text \<open>
  Looking a statement up, building it when it is not there, running it, and storing it after it ran when it was
  not there. The two locks around the lookup and the storing make each of them one step. A cache is its reader
  and its writer; the text of a key is paired with the name of the table, since every table has caches of its own.
\<close>

definition through_cache ::
  "('d store \<Rightarrow> string \<times> string \<Rightarrow> 'c option) \<Rightarrow> (string \<times> string \<Rightarrow> 'c \<Rightarrow> 'd store \<Rightarrow> 'd store) \<Rightarrow>
   string \<times> string \<Rightarrow> 'c res \<Rightarrow> ('c \<Rightarrow> ('d store, 'a) prog) \<Rightarrow> ('d store, 'a) prog" where
  "through_cache get put key build issue =
     pthen (pget (\<lambda>s. get s key)) (\<lambda>cached.
     pthen (plift (case cached of None \<Rightarrow> build | Some c \<Rightarrow> Inr c)) (\<lambda>c.
     pthen (issue c) (\<lambda>x.
     pthen (if cached = None then pmod (put key c) else pret ()) (\<lambda>_.
     pret x))))"

definition put_insert :: "string \<times> string \<Rightarrow> insert_cache \<Rightarrow> 'd store \<Rightarrow> 'd store" where
  "put_insert key c s = s\<lparr>st_inserts := (st_inserts s)(key := Some c)\<rparr>"

definition put_update :: "string \<times> string \<Rightarrow> update_cache \<Rightarrow> 'd store \<Rightarrow> 'd store" where
  "put_update key c s = s\<lparr>st_updates := (st_updates s)(key := Some c)\<rparr>"

definition put_upsert :: "string \<times> string \<Rightarrow> insert_cache \<Rightarrow> 'd store \<Rightarrow> 'd store" where
  "put_upsert key c s = s\<lparr>st_upserts := (st_upserts s)(key := Some c)\<rparr>"

subsection \<open>Inserting\<close>

text \<open>A nil receiver is \<open>None\<close>; an object is filled in with the current time, when the table has a \<open>CreatedAt\<close> that is zero.\<close>

definition stamp :: "context_env \<Rightarrow> info \<Rightarrow> addr \<Rightarrow> 'd store \<Rightarrow> 'd store" where
  "stamp E T p s =
     (if t_stamped T \<and> \<not> e_skip_times E \<and> cols_of p s ''created_at'' = VTime zero_time
      then set_obj p (set_col ''created_at'' (VTime (e_now E))) s else s)"

text \<open>The statement of an insert, built when it is not in the cache.\<close>

definition insert_text :: "'d boil \<Rightarrow> string \<Rightarrow> string list \<Rightarrow> string list \<Rightarrow> string" where
  "insert_text B tbl wl returns =
     ''INSERT INTO '' @ quoted tbl @ '' ''
     @ (if length wl \<noteq> 0
        then ''('' @ quoted (join_with (dq @ '','' @ dq) wl) @ '') VALUES ('' @ bl_placeholders B (length wl) @ '')''
        else ''DEFAULT VALUES'')
     @ (if length returns \<noteq> 0 then '' RETURNING '' @ quoted (join_with (dq @ '','' @ dq) returns) else [])"

definition update_text :: "'d boil \<Rightarrow> info \<Rightarrow> string list \<Rightarrow> string" where
  "update_text B T wl = ''UPDATE '' @ quoted (t_name T) @ '' SET '' @ bl_set_names B wl @ '' WHERE '' @ bl_where B (t_pk T)"

definition build_insert :: "'d boil \<Rightarrow> info \<Rightarrow> columns \<Rightarrow> string list \<Rightarrow> insert_cache res" where
  "build_insert B T cols nz =
     (let sets = bl_insert_set B cols (t_all T) (t_def T) (t_nodef T) nz;
          wl = bl_complement B (fst sets) (t_gen T)
      in case bl_mapping B T wl of
           Inl e \<Rightarrow> Inl e
         | Inr vm \<Rightarrow>
             (case bl_mapping B T (snd sets) of
                Inl e \<Rightarrow> Inl e
              | Inr rm \<Rightarrow>
                  Inr \<lparr>ic_query = insert_text B (t_name T) wl (if length rm \<noteq> 0 then snd sets else []),
                       ic_values = vm, ic_returns = rm\<rparr>))"

text \<open>Running a statement that returns the columns the database has chosen: they are read into the object.\<close>

definition run_returning ::
  "'d boil \<Rightarrow> (err \<Rightarrow> bool) \<Rightarrow> insert_cache \<Rightarrow> addr \<Rightarrow> ('d store, unit) prog" where
  "run_returning B ignored c p s =
     (let vals = map (cols_of p s) (ic_values c) in
      if length (ic_returns c) \<noteq> 0
      then (case db_call (bl_row B (ic_query c) vals) s of
              (Inl e, s') \<Rightarrow> (if ignored e then Inr () else Inl e, s')
            | (Inr got, s') \<Rightarrow> (Inr (), set_obj p (scan_into (ic_returns c) got) s'))
      else (case db_call (bl_exec B (ic_query c) vals) s of
              (Inl e, s') \<Rightarrow> (Inl e, s')
            | (Inr _, s') \<Rightarrow> (Inr (), s')))"

definition Insert ::
  "'d boil \<Rightarrow> context_env \<Rightarrow> 'd hooks \<Rightarrow> info \<Rightarrow> addr option \<Rightarrow> columns \<Rightarrow> ('d store, unit) prog" where
  "Insert B E H T recv cols =
     (case recv of
        None \<Rightarrow> pfail (Msg (''models: no '' @ t_name T @ '' provided for insertion''))
      | Some p \<Rightarrow>
          pthen (pmod (stamp E T p)) (\<lambda>_.
          pthen (do_hooks E H T BeforeInsertHook p) (\<lambda>_.
          pthen (pget (\<lambda>s. bl_nonzero B (t_def T) (cols_of p s))) (\<lambda>nz.
          pthen (through_cache st_inserts put_insert (t_name T, makeCacheKey cols nz) (build_insert B T cols nz)
                   (\<lambda>c. pwrap (wrap_msg (''models: unable to insert into '' @ t_name T)) (run_returning B (\<lambda>_. False) c p))) (\<lambda>_.
          do_hooks E H T AfterInsertHook p)))))"

subsection \<open>Updating\<close>

definition build_update :: "'d boil \<Rightarrow> info \<Rightarrow> columns \<Rightarrow> update_cache res" where
  "build_update B T cols =
     (let wl0 = bl_complement B (bl_update_set B cols (t_all T) (t_pk T)) (t_gen T);
          wl = (if \<not> bl_is_whitelist B cols then bl_complement B wl0 [''created_at''] else wl0)
      in if length wl = 0 then Inl (Msg (''models: unable to update '' @ t_name T @ '', could not build whitelist''))
         else (case bl_mapping B T (wl @ t_pk T) of
                 Inl e \<Rightarrow> Inl e
               | Inr vm \<Rightarrow>
                   Inr \<lparr>uc_query = update_text B T wl,
                        uc_values = vm\<rparr>))"

text \<open>\<open>ExecContext\<close> and then \<open>RowsAffected\<close>, each with its own message.\<close>

definition exec_affected ::
  "string \<Rightarrow> string \<Rightarrow> ('d \<Rightarrow> int64 res res \<times> 'd) \<Rightarrow> ('d store, int64) prog" where
  "exec_affected failed uncounted f =
     pthen (pwrap (wrap_msg failed) (db_call f)) (\<lambda>result.
     pwrap (wrap_msg uncounted) (plift result))"

definition Update ::
  "'d boil \<Rightarrow> context_env \<Rightarrow> 'd hooks \<Rightarrow> info \<Rightarrow> addr \<Rightarrow> columns \<Rightarrow> ('d store, int64) prog" where
  "Update B E H T p cols =
     pthen (do_hooks E H T BeforeUpdateHook p) (\<lambda>_.
     pthen (through_cache st_updates put_update (t_name T, makeCacheKey cols []) (build_update B T cols) (\<lambda>c.
       pthen (pget (\<lambda>s. map (cols_of p s) (uc_values c))) (\<lambda>vals.
       exec_affected (''models: unable to update '' @ t_name T @ '' row'')
         (''models: failed to get rows affected by update for '' @ t_name T) (bl_exec B (uc_query c) vals)))) (\<lambda>rowsAff.
     pthen (do_hooks E H T AfterUpdateHook p) (\<lambda>_.
     pret rowsAff)))"

text \<open>\<open>M\<close> is a Go map: here the list of its entries, in the order an iteration gives them.\<close>

definition query_UpdateAll :: "'d boil \<Rightarrow> info \<Rightarrow> query_mods \<Rightarrow> (string \<times> val) list \<Rightarrow> ('d store, int64) prog" where
  "query_UpdateAll B T q cols =
     exec_affected (''models: unable to update all for '' @ t_name T)
       (''models: unable to retrieve rows affected for '' @ t_name T) (bl_exec_query B (q @ [SetUpdate cols]))"

definition slice_UpdateAll :: "'d boil \<Rightarrow> info \<Rightarrow> addr list \<Rightarrow> (string \<times> val) list \<Rightarrow> ('d store, int64) prog" where
  "slice_UpdateAll B T ps cols =
     (if length ps = 0 then pret 0
      else if length cols = 0 then pfail (Msg ''models: update all requires at least one column argument'')
      else pthen (pget (pk_values T ps)) (\<lambda>pks.
           exec_affected (''models: unable to update all in '' @ t_var T @ '' slice'')
             (''models: unable to retrieve rows affected all in update all '' @ t_var T)
             (bl_exec B (''UPDATE '' @ quoted (t_name T) @ '' SET '' @ bl_set_names B (map fst cols) @ '' WHERE ''
                @ bl_where_repeated B (t_pk T) (length ps)) (map snd cols @ pks))))"

subsection \<open>Inserting or updating\<close>

definition upsert_key :: "bool \<Rightarrow> string list \<Rightarrow> columns \<Rightarrow> columns \<Rightarrow> string list \<Rightarrow> string" where
  "upsert_key updateOnConflict conflictColumns updateColumns insertColumns nz =
     (if updateOnConflict then ''t'' else ''f'') @ ''.'' @ concat conflictColumns @ ''.''
     @ show_nat (c_kind updateColumns) @ concat (c_cols updateColumns) @ ''.''
     @ show_nat (c_kind insertColumns) @ concat (c_cols insertColumns) @ ''.'' @ concat nz"

definition build_upsert ::
  "'d boil \<Rightarrow> info \<Rightarrow> bool \<Rightarrow> string list \<Rightarrow> columns \<Rightarrow> columns \<Rightarrow> string list \<Rightarrow> insert_cache res" where
  "build_upsert B T updateOnConflict conflictColumns updateColumns insertColumns nz =
     (let sets = bl_insert_set B insertColumns (t_all T) (t_def T) (t_nodef T) nz;
          insert = fst sets; ret = snd sets;
          update = bl_update_set B updateColumns (t_all T) (t_pk T)
      in if updateOnConflict \<and> length update = 0
         then Inl (Msg (''models: unable to upsert '' @ t_name T @ '', could not build update column list''))
         else (let conflict = (if length conflictColumns = 0 then t_pk T else conflictColumns);
                   query = buildUpsertQuerySQLite B (quoted (t_name T)) updateOnConflict ret update conflict insert
               in case bl_mapping B T insert of
                    Inl e \<Rightarrow> Inl e
                  | Inr vm \<Rightarrow>
                      (if length ret \<noteq> 0
                       then (case bl_mapping B T ret of
                               Inl e \<Rightarrow> Inl e
                             | Inr rm \<Rightarrow> Inr \<lparr>ic_query = query, ic_values = vm, ic_returns = rm\<rparr>)
                       else Inr \<lparr>ic_query = query, ic_values = vm, ic_returns = []\<rparr>)))"

definition Upsert ::
  "'d boil \<Rightarrow> context_env \<Rightarrow> 'd hooks \<Rightarrow> info \<Rightarrow> addr option \<Rightarrow> bool \<Rightarrow> string list \<Rightarrow> columns \<Rightarrow> columns
   \<Rightarrow> ('d store, unit) prog" where
  "Upsert B E H T recv updateOnConflict conflictColumns updateColumns insertColumns =
     (case recv of
        None \<Rightarrow> pfail (Msg (''models: no '' @ t_name T @ '' provided for upsert''))
      | Some p \<Rightarrow>
          pthen (pmod (stamp E T p)) (\<lambda>_.
          pthen (do_hooks E H T BeforeUpsertHook p) (\<lambda>_.
          pthen (pget (\<lambda>s. bl_nonzero B (t_def T) (cols_of p s))) (\<lambda>nz.
          pthen (through_cache st_upserts put_upsert
                   (t_name T, upsert_key updateOnConflict conflictColumns updateColumns insertColumns nz)
                   (build_upsert B T updateOnConflict conflictColumns updateColumns insertColumns nz)
                   (\<lambda>c. pwrap (wrap_msg (''models: unable to upsert '' @ t_name T))
                     (run_returning B (\<lambda>e. errors_is e ErrNoRows) c p))) (\<lambda>_.
          do_hooks E H T AfterUpsertHook p)))))"

subsection \<open>Deleting\<close>

definition Delete :: "'d boil \<Rightarrow> context_env \<Rightarrow> 'd hooks \<Rightarrow> info \<Rightarrow> addr option \<Rightarrow> ('d store, int64) prog" where
  "Delete B E H T recv =
     (case recv of
        None \<Rightarrow> pfail (Msg (''models: no '' @ t_type T @ '' provided for delete''))
      | Some p \<Rightarrow>
          pthen (do_hooks E H T BeforeDeleteHook p) (\<lambda>_.
          pthen (pget (pk_values T [p])) (\<lambda>args.
          pthen (exec_affected (''models: unable to delete from '' @ t_name T)
                   (''models: failed to get rows affected by delete for '' @ t_name T)
                   (bl_exec B (''DELETE FROM '' @ quoted (t_name T) @ '' WHERE '' @ quoted ''id'' @ ''=?'') args)) (\<lambda>rowsAff.
          pthen (do_hooks E H T AfterDeleteHook p) (\<lambda>_.
          pret rowsAff)))))"

definition query_DeleteAll :: "'d boil \<Rightarrow> info \<Rightarrow> query_mods option \<Rightarrow> ('d store, int64) prog" where
  "query_DeleteAll B T recv =
     (case recv of
        None \<Rightarrow> pfail (Msg (''models: no '' @ t_var T @ ''Query provided for delete all''))
      | Some q \<Rightarrow>
          exec_affected (''models: unable to delete all from '' @ t_name T)
            (''models: failed to get rows affected by deleteall for '' @ t_name T) (bl_exec_query B (q @ [SetDelete])))"

definition slice_DeleteAll :: "'d boil \<Rightarrow> context_env \<Rightarrow> 'd hooks \<Rightarrow> info \<Rightarrow> addr list \<Rightarrow> ('d store, int64) prog" where
  "slice_DeleteAll B E H T ps =
     (if length ps = 0 then pret 0
      else pthen (if length (H (t_name T) BeforeDeleteHook) \<noteq> 0 then peach (do_hooks E H T BeforeDeleteHook) ps else pret ()) (\<lambda>_.
           pthen (pget (pk_values T ps)) (\<lambda>args.
           pthen (exec_affected (''models: unable to delete all from '' @ t_var T @ '' slice'')
                    (''models: failed to get rows affected by deleteall for '' @ t_name T)
                    (bl_exec B (''DELETE FROM '' @ quoted (t_name T) @ '' WHERE ''
                       @ bl_where_repeated B (t_pk T) (length ps)) args)) (\<lambda>rowsAff.
           pthen (if length (H (t_name T) AfterDeleteHook) \<noteq> 0 then peach (do_hooks E H T AfterDeleteHook) ps else pret ()) (\<lambda>_.
           pret rowsAff)))))"

end
