(* ===== verification/BoilRels.thy ===== *)
theory BoilRels
  imports Boil
begin

text \<open>
  The relations between the tables in \<open>roomdb/sqlite/models\<close>, again what all files have in common: the
  conditions on columns, the \<open>R\<close> structs, the queries for related rows, eager loading, and the methods that
  set, add and remove related rows. A slice is a list here: that two slices may share one array is not modelled.
\<close>

subsection \<open>Conditions on columns\<close>

definition where_op :: "cmp_op \<Rightarrow> string \<Rightarrow> val \<Rightarrow> qmod" where
  "where_op cmp field x = HelperWhere field cmp x"

definition where_IN :: "string \<Rightarrow> val list \<Rightarrow> qmod" where
  "where_IN field xs = WhereIn (field @ '' IN ?'') xs"

definition where_NIN :: "string \<Rightarrow> val list \<Rightarrow> qmod" where
  "where_NIN field xs = WhereNotIn (field @ '' NOT IN ?'') xs"

definition where_field :: "info \<Rightarrow> string \<Rightarrow> string" where
  "where_field T c = quoted (t_name T) @ ''.'' @ quoted c"

definition table_column :: "info \<Rightarrow> string \<Rightarrow> string" where
  "table_column T c = t_name T @ ''.'' @ c"

subsection \<open>The struct of related objects\<close>

definition NewStruct :: "string \<Rightarrow> addr list" where
  "NewStruct = (\<lambda>_. [])"

text \<open>The getters answer nil on a nil struct.\<close>

definition get_rel :: "string \<Rightarrow> (string \<Rightarrow> addr list) option \<Rightarrow> addr list" where
  "get_rel field r = (case r of None \<Rightarrow> [] | Some f \<Rightarrow> f field)"

definition ensure_rels :: "addr \<Rightarrow> 'd store \<Rightarrow> 'd store" where
  "ensure_rels p s = (if o_rels (st_heap s p) = None then set_obj p (\<lambda>ob. ob\<lparr>o_rels := Some NewStruct\<rparr>) s else s)"

text \<open>An assignment to a field of \<open>R\<close>, which panics when \<open>R\<close> is nil.\<close>

definition put_rel :: "addr \<Rightarrow> string \<Rightarrow> (addr list \<Rightarrow> addr list) \<Rightarrow> ('d store, unit) prog" where
  "put_rel p field f s =
     (case o_rels (st_heap s p) of
        None \<Rightarrow> (Inl (Panic ''nil pointer dereference''), s)
      | Some r \<Rightarrow> (Inr (), set_obj p (\<lambda>ob. ob\<lparr>o_rels := Some (r(field := f (r field)))\<rparr>) s))"

text \<open>The same after \<open>R\<close> has been made, if it was nil.\<close>

definition give_rel :: "addr \<Rightarrow> string \<Rightarrow> (addr list \<Rightarrow> addr list) \<Rightarrow> ('d store, unit) prog" where
  "give_rel p field f = pthen (pmod (ensure_rels p)) (\<lambda>_. put_rel p field f)"

text \<open>A field that is a pointer is replaced, one that is a slice is appended to.\<close>

definition enter :: "bool \<Rightarrow> addr \<Rightarrow> addr list \<Rightarrow> addr list" where
  "enter many p xs = (if many then xs @ [p] else [p])"

subsection \<open>Relations\<close>

text \<open>
  A relation as seen from the struct that has the method: its table, the other table, the columns that are
  equal, the fields of the two \<open>R\<close> structs and whether the field of the other one is a slice.
\<close>

record relation =
  r_local :: info
  r_foreign :: info
  r_lcol :: string
  r_fcol :: string
  r_field :: string
  r_back :: string
  r_many :: bool

text \<open>A relation through a table of pairs, with the columns of the pairs.\<close>

record joined =
  j_local :: info
  j_foreign :: info
  j_field :: string
  j_back :: string
  j_table :: string
  j_lcol :: string
  j_fcol :: string

definition id_of :: "addr \<Rightarrow> 'd store \<Rightarrow> val" where
  "id_of p s = cols_of p s ''id''"

subsection \<open>Queries for related rows\<close>

definition one_related :: "'d boil \<Rightarrow> relation \<Rightarrow> addr \<Rightarrow> qmod list \<Rightarrow> 'd store \<Rightarrow> query_mods" where
  "one_related B R p mods s =
     table_query B (r_foreign R) (Where (quoted (r_fcol R) @ '' = ?'') [cols_of p s (r_lcol R)] # mods)"

definition all_related :: "'d boil \<Rightarrow> relation \<Rightarrow> addr \<Rightarrow> qmod list \<Rightarrow> 'd store \<Rightarrow> query_mods" where
  "all_related B R p mods s =
     table_query B (r_foreign R) (mods @ [Where (where_field (r_foreign R) (r_fcol R) @ ''=?'') [cols_of p s (r_lcol R)]])"

definition joined_related :: "'d boil \<Rightarrow> joined \<Rightarrow> addr \<Rightarrow> qmod list \<Rightarrow> 'd store \<Rightarrow> query_mods" where
  "joined_related B J p mods s =
     table_query B (j_foreign J) (mods @
       [InnerJoin (quoted (j_table J) @ '' on '' @ where_field (j_foreign J) ''id'' @ '' = '' @ quoted (j_table J) @ ''.'' @ quoted (j_fcol J)),
        Where (quoted (j_table J) @ ''.'' @ quoted (j_lcol J) @ ''=?'') [id_of p s]])"

subsection \<open>Eager loading\<close>

definition load_owners :: "'d boil \<Rightarrow> info \<Rightarrow> bool \<Rightarrow> load_target \<Rightarrow> load_target res" where
  "load_owners B T singular maybe =
     (if singular
      then (case maybe of
              LoadOne p \<Rightarrow> Inr (LoadOne p)
            | _ \<Rightarrow> (case bl_embedded_one B T maybe of
                      Some p \<Rightarrow> Inr (LoadOne p)
                    | None \<Rightarrow> Inl (Msg (''failed to set *models.'' @ t_type T @ '' from embedded struct '' @ bl_type_name B maybe))))
      else (case maybe of
              LoadMany ps \<Rightarrow> Inr (LoadMany ps)
            | _ \<Rightarrow> (case bl_embedded_many B T maybe of
                      Some ps \<Rightarrow> Inr (LoadMany ps)
                    | None \<Rightarrow> Inl (Msg (''failed to set []*models.'' @ t_type T @ '' from embedded struct '' @ bl_type_name B maybe)))))"

text \<open>The arguments of the query: the column of every owner, each value once; every owner gets its \<open>R\<close>.\<close>

fun owner_args :: "string \<Rightarrow> addr list \<Rightarrow> val list \<Rightarrow> 'd store \<Rightarrow> val list \<times> 'd store" where
  "owner_args col [] args s = (args, s)"
| "owner_args col (p # ps) args s =
     (let s' = ensure_rels p s; v = cols_of p s' col
      in owner_args col ps (if List.member args v then args else args @ [v]) s')"

definition load_args :: "string \<Rightarrow> load_target \<Rightarrow> ('d store, val list) prog" where
  "load_args col target s =
     (case target of
        LoadOne p \<Rightarrow> (let s' = ensure_rels p s in (Inr [cols_of p s' col], s'))
      | LoadMany ps \<Rightarrow> (case owner_args col ps [] s of (args, s') \<Rightarrow> (Inr args, s'))
      | Embedding n \<Rightarrow> (Inr [], s))"

definition check_err :: "string \<Rightarrow> err option \<Rightarrow> ('d store, unit) prog" where
  "check_err msg e = (case e of None \<Rightarrow> pret () | Some e' \<Rightarrow> pfail (Wrapped msg e'))"

definition select_hooks :: "context_env \<Rightarrow> 'd hooks \<Rightarrow> info \<Rightarrow> addr list \<Rightarrow> ('d store, unit) prog" where
  "select_hooks E H T ps =
     (if length (H (t_name T) AfterSelectHook) \<noteq> 0 then peach (do_hooks E H T AfterSelectHook) ps else pret ())"

text \<open>The query and its rows: \<open>names\<close> is how the messages call what is loaded, \<open>closing\<close> is their one other difference.\<close>

definition fetch_related ::
  "'d boil \<Rightarrow> context_env \<Rightarrow> 'd hooks \<Rightarrow> info \<Rightarrow> string \<Rightarrow> string \<Rightarrow> query_mods \<Rightarrow> ('d store, addr list) prog" where
  "fetch_related B E H F names closing q =
     pthen (pwrap (wrap_msg (''failed to eager load '' @ names)) (db_call (bl_open B q))) (\<lambda>results.
     pthen (pwrap (wrap_msg (''failed to bind eager loaded slice '' @ names)) (bl_bind_set B results F)) (\<lambda>fs.
     pthen (check_err (closing @ t_name F) (rs_close_err results)) (\<lambda>_.
     pthen (check_err (''error occurred during iteration of eager loaded relations for '' @ t_name F) (rs_final_err results)) (\<lambda>_.
     pthen (select_hooks E H F fs) (\<lambda>_.
     pret fs)))))"

definition related_query :: "relation \<Rightarrow> val list \<Rightarrow> qmod list \<Rightarrow> query_mods" where
  "related_query R args mods =
     NewQuery [From (t_name (r_foreign R)), WhereIn (table_column (r_foreign R) (r_fcol R) @ '' in ?'') args] @ mods"

text \<open>Linking two objects, in a relation to one.\<close>

definition link_one :: "relation \<Rightarrow> addr \<Rightarrow> addr \<Rightarrow> ('d store, unit) prog" where
  "link_one R local foreign =
     pthen (put_rel local (r_field R) (\<lambda>_. [foreign])) (\<lambda>_.
     give_rel foreign (r_back R) (enter (r_many R) local))"

definition matching :: "relation \<Rightarrow> 'd store \<Rightarrow> addr \<Rightarrow> addr \<Rightarrow> bool" where
  "matching R s local foreign \<longleftrightarrow> cols_of local s (r_lcol R) = cols_of foreign s (r_fcol R)"

definition load_one ::
  "'d boil \<Rightarrow> context_env \<Rightarrow> 'd hooks \<Rightarrow> relation \<Rightarrow> bool \<Rightarrow> load_target \<Rightarrow> qmod list \<Rightarrow> ('d store, unit) prog" where
  "load_one B E H R singular maybe mods =
     pthen (plift (load_owners B (r_local R) singular maybe)) (\<lambda>target.
     pthen (load_args (r_lcol R) target) (\<lambda>args.
     if length args = 0 then pret ()
     else pthen (fetch_related B E H (r_foreign R) (t_type (r_foreign R)) ''failed to close results of eager load for ''
                   (related_query R args mods)) (\<lambda>fs.
          case fs of
            [] \<Rightarrow> pret ()
          | first # _ \<Rightarrow>
              (case target of
                 LoadOne p \<Rightarrow> link_one R p first
               | LoadMany ps \<Rightarrow>
                   peach (\<lambda>local.
                     pthen (pget (\<lambda>s. List.find (matching R s local) fs)) (\<lambda>found.
                     case found of None \<Rightarrow> pret () | Some foreign \<Rightarrow> link_one R local foreign)) ps
               | Embedding n \<Rightarrow> pret ()))))"

text \<open>A loaded row goes to the first owner it refers to, if there is one.\<close>

definition attach :: "relation \<Rightarrow> addr list \<Rightarrow> addr \<Rightarrow> ('d store, unit) prog" where
  "attach R ps foreign =
     pthen (pget (\<lambda>s. List.find (\<lambda>local. matching R s local foreign) ps)) (\<lambda>found.
     case found of
       None \<Rightarrow> pret ()
     | Some local \<Rightarrow>
         pthen (put_rel local (r_field R) (\<lambda>xs. xs @ [foreign])) (\<lambda>_.
         give_rel foreign (r_back R) (\<lambda>_. [local])))"

definition load_many ::
  "'d boil \<Rightarrow> context_env \<Rightarrow> 'd hooks \<Rightarrow> relation \<Rightarrow> bool \<Rightarrow> load_target \<Rightarrow> qmod list \<Rightarrow> ('d store, unit) prog" where
  "load_many B E H R singular maybe mods =
     pthen (plift (load_owners B (r_local R) singular maybe)) (\<lambda>target.
     pthen (load_args (r_lcol R) target) (\<lambda>args.
     if length args = 0 then pret ()
     else pthen (fetch_related B E H (r_foreign R) (t_name (r_foreign R)) ''failed to close results in eager load on ''
                   (related_query R args mods)) (\<lambda>fs.
          case target of
            LoadOne p \<Rightarrow>
              pthen (put_rel p (r_field R) (\<lambda>_. fs)) (\<lambda>_.
              peach (\<lambda>foreign. give_rel foreign (r_back R) (\<lambda>_. [p])) fs)
          | LoadMany ps \<Rightarrow> peach (attach R ps) fs
          | Embedding n \<Rightarrow> pret ())))"

text \<open>Through a table of pairs the rows are read one by one: the columns of the object, and the column of the pair.\<close>

definition joined_query :: "joined \<Rightarrow> val list \<Rightarrow> qmod list \<Rightarrow> query_mods" where
  "joined_query J args mods =
     NewQuery [SelectCols (join_with '', '' (map (where_field (j_foreign J)) (t_all (j_foreign J)) @ [quoted ''a'' @ ''.'' @ quoted (j_lcol J)])),
       From (quoted (t_name (j_foreign J))),
       InnerJoin (quoted (j_table J) @ '' as '' @ quoted ''a'' @ '' on '' @ where_field (j_foreign J) ''id'' @ '' = ''
         @ quoted ''a'' @ ''.'' @ quoted (j_fcol J)),
       WhereIn (quoted ''a'' @ ''.'' @ quoted (j_lcol J) @ '' in ?'') args] @ mods"

fun scan_joined :: "joined \<Rightarrow> (nat \<Rightarrow> err option) \<Rightarrow> nat \<Rightarrow> val list res list \<Rightarrow> ('d store, (addr \<times> val) list) prog" where
  "scan_joined J errs i [] = pret []"
| "scan_joined J errs i (r # rs) =
     pthen (alloc (new_obj (j_foreign J))) (\<lambda>one.
     pthen (pwrap (wrap_msg (''failed to scan eager loaded results for '' @ t_name (j_foreign J))) (plift r)) (\<lambda>vals.
     pthen (pmod (set_obj one (scan_into (t_all (j_foreign J)) vals))) (\<lambda>_.
     pthen (check_err (''failed to plebian-bind eager loaded slice '' @ t_name (j_foreign J)) (errs i)) (\<lambda>_.
     pthen (scan_joined J errs (Suc i) rs) (\<lambda>rest.
     pret ((one, case drop (length (t_all (j_foreign J))) vals of v # _ \<Rightarrow> v | [] \<Rightarrow> VInt 0) # rest))))))"

definition load_joined ::
  "'d boil \<Rightarrow> context_env \<Rightarrow> 'd hooks \<Rightarrow> joined \<Rightarrow> bool \<Rightarrow> load_target \<Rightarrow> qmod list \<Rightarrow> ('d store, unit) prog" where
  "load_joined B E H J singular maybe mods =
     pthen (plift (load_owners B (j_local J) singular maybe)) (\<lambda>target.
     pthen (load_args ''id'' target) (\<lambda>args.
     if length args = 0 then pret ()
     else
     pthen (pwrap (wrap_msg (''failed to eager load '' @ t_name (j_foreign J))) (db_call (bl_open B (joined_query J args mods)))) (\<lambda>results.
     pthen (scan_joined J (rs_step_err results) 0 (rs_scans results)) (\<lambda>found.
     pthen (check_err (''failed to close results in eager load on '' @ t_name (j_foreign J)) (rs_close_err results)) (\<lambda>_.
     pthen (check_err (''error occurred during iteration of eager loaded relations for '' @ t_name (j_foreign J)) (rs_final_err results)) (\<lambda>_.
     pthen (select_hooks E H (j_foreign J) (map fst found)) (\<lambda>_.
     case target of
       LoadOne p \<Rightarrow>
         pthen (put_rel p (j_field J) (\<lambda>_. map fst found)) (\<lambda>_.
         peach (\<lambda>foreign. give_rel foreign (j_back J) (\<lambda>xs. xs @ [p])) (map fst found))
     | LoadMany ps \<Rightarrow>
         peach (\<lambda>(foreign, joinCol).
           pthen (pget (\<lambda>s. List.find (\<lambda>local. id_of local s = joinCol) ps)) (\<lambda>owner.
           case owner of
             None \<Rightarrow> pret ()
           | Some local \<Rightarrow>
               pthen (put_rel local (j_field J) (\<lambda>xs. xs @ [foreign])) (\<lambda>_.
               give_rel foreign (j_back J) (\<lambda>xs. xs @ [local])))) found
     | Embedding n \<Rightarrow> pret ())))))))"

subsection \<open>Setting and adding related rows\<close>

definition update_reference :: "'d boil \<Rightarrow> info \<Rightarrow> string \<Rightarrow> string \<Rightarrow> val list \<Rightarrow> ('d store, unit) prog" where
  "update_reference B T col msg args =
     pthen (pwrap (wrap_msg msg)
       (db_call (bl_exec B (update_text B T [col]) args))) (\<lambda>_.
     pret ())"

definition insert_related ::
  "'d boil \<Rightarrow> context_env \<Rightarrow> 'd hooks \<Rightarrow> info \<Rightarrow> addr \<Rightarrow> ('d store, unit) prog" where
  "insert_related B E H F rel = pwrap (wrap_msg ''failed to insert into foreign table'') (Insert B E H F (Some rel) (bl_infer B))"

text \<open>\<open>SetMember\<close> and the like: the struct that holds the reference is pointed to another row.\<close>

definition set_one ::
  "'d boil \<Rightarrow> context_env \<Rightarrow> 'd hooks \<Rightarrow> relation \<Rightarrow> addr \<Rightarrow> bool \<Rightarrow> addr \<Rightarrow> ('d store, unit) prog" where
  "set_one B E H R p ins related =
     pthen (if ins then insert_related B E H (r_foreign R) related else pret ()) (\<lambda>_.
     pthen (pget (\<lambda>s. [cols_of related s (r_fcol R), id_of p s])) (\<lambda>args.
     pthen (update_reference B (r_local R) (r_lcol R) ''failed to update local table'' args) (\<lambda>_.
     pthen (pmod (\<lambda>s. set_obj p (set_col (r_lcol R) (cols_of related s (r_fcol R))) s)) (\<lambda>_.
     pthen (give_rel p (r_field R) (\<lambda>_. [related])) (\<lambda>_.
     give_rel related (r_back R) (enter (r_many R) p))))))"

text \<open>A row that refers to \<open>p\<close> from the other side is inserted with its reference, or updated.\<close>

definition claim_foreign ::
  "'d boil \<Rightarrow> context_env \<Rightarrow> 'd hooks \<Rightarrow> relation \<Rightarrow> addr \<Rightarrow> bool \<Rightarrow> addr \<Rightarrow> ('d store, unit) prog" where
  "claim_foreign B E H R p ins rel =
     (let refer = pmod (\<lambda>s. set_obj rel (set_col (r_fcol R) (cols_of p s (r_lcol R))) s) in
      if ins
      then pthen refer (\<lambda>_. insert_related B E H (r_foreign R) rel)
      else pthen (pget (\<lambda>s. [cols_of p s (r_lcol R), id_of rel s])) (\<lambda>args.
           pthen (update_reference B (r_foreign R) (r_fcol R) ''failed to update foreign table'' args) (\<lambda>_.
           refer)))"

definition set_foreign ::
  "'d boil \<Rightarrow> context_env \<Rightarrow> 'd hooks \<Rightarrow> relation \<Rightarrow> addr \<Rightarrow> bool \<Rightarrow> addr \<Rightarrow> ('d store, unit) prog" where
  "set_foreign B E H R p ins related =
     pthen (claim_foreign B E H R p ins related) (\<lambda>_.
     pthen (give_rel p (r_field R) (\<lambda>_. [related])) (\<lambda>_.
     give_rel related (r_back R) (\<lambda>_. [p])))"

definition add_foreign ::
  "'d boil \<Rightarrow> context_env \<Rightarrow> 'd hooks \<Rightarrow> relation \<Rightarrow> addr \<Rightarrow> bool \<Rightarrow> addr list \<Rightarrow> ('d store, unit) prog" where
  "add_foreign B E H R p ins related =
     pthen (peach (claim_foreign B E H R p ins) related) (\<lambda>_.
     pthen (give_rel p (r_field R) (\<lambda>xs. xs @ related)) (\<lambda>_.
     peach (\<lambda>rel. give_rel rel (r_back R) (\<lambda>_. [p])) related))"

subsection \<open>Rows related through pairs\<close>

definition exec_pairs :: "'d boil \<Rightarrow> string \<Rightarrow> string \<Rightarrow> val list \<Rightarrow> ('d store, unit) prog" where
  "exec_pairs B msg text args = pthen (pwrap (wrap_msg msg) (db_call (bl_exec B text args))) (\<lambda>_. pret ())"

definition add_joined ::
  "'d boil \<Rightarrow> context_env \<Rightarrow> 'd hooks \<Rightarrow> joined \<Rightarrow> addr \<Rightarrow> bool \<Rightarrow> addr list \<Rightarrow> ('d store, unit) prog" where
  "add_joined B E H J p ins related =
     pthen (peach (\<lambda>rel. if ins then insert_related B E H (j_foreign J) rel else pret ()) related) (\<lambda>_.
     pthen (peach (\<lambda>rel.
       pthen (pget (\<lambda>s. [id_of p s, id_of rel s])) (\<lambda>args.
       exec_pairs B ''failed to insert into join table''
         (''insert into '' @ quoted (j_table J) @ '' ('' @ quoted (j_lcol J) @ '', '' @ quoted (j_fcol J) @ '') values (?, ?)'') args)) related) (\<lambda>_.
     pthen (give_rel p (j_field J) (\<lambda>xs. xs @ related)) (\<lambda>_.
     peach (\<lambda>rel. give_rel rel (j_back J) (\<lambda>xs. xs @ [p])) related)))"

text \<open>
  Taking the first element with a property out of a slice: the last element takes its place. The loops
  leave a slice without such an element as it is.
\<close>

definition swap_out :: "nat \<Rightarrow> 'a list \<Rightarrow> 'a list" where
  "swap_out i xs =
     (let ln = length xs; ys = (if 1 < ln \<and> i < ln - 1 then xs[i := xs ! (ln - 1)] else xs) in take (ln - 1) ys)"

fun first_index :: "('a \<Rightarrow> bool) \<Rightarrow> 'a list \<Rightarrow> nat option" where
  "first_index P [] = None"
| "first_index P (x # xs) = (if P x then Some 0 else map_option Suc (first_index P xs))"

definition take_out :: "('a \<Rightarrow> bool) \<Rightarrow> 'a list \<Rightarrow> 'a list" where
  "take_out P xs = (case first_index P xs of None \<Rightarrow> xs | Some i \<Rightarrow> swap_out i xs)"

text \<open>A pin or notice that is taken out is compared by its id, and loses its place in the slice of the removed object.\<close>

definition clear_back :: "joined \<Rightarrow> addr \<Rightarrow> addr \<Rightarrow> 'd store \<Rightarrow> 'd store" where
  "clear_back J p rel s =
     (case o_rels (st_heap s rel) of
        None \<Rightarrow> s
      | Some r \<Rightarrow> set_obj rel (\<lambda>ob. ob\<lparr>o_rels := Some (r(j_back J := take_out (\<lambda>ri. id_of p s = id_of ri s) (r (j_back J))))\<rparr>) s)"

definition remove_from_backs :: "joined \<Rightarrow> addr \<Rightarrow> addr list \<Rightarrow> ('d store, unit) prog" where
  "remove_from_backs J p related = peach (\<lambda>rel. pmod (clear_back J p rel)) related"

text \<open>The slice of the object itself is searched by pointer.\<close>

definition drop_related :: "joined \<Rightarrow> addr \<Rightarrow> addr list \<Rightarrow> 'd store \<Rightarrow> 'd store" where
  "drop_related J p related s =
     (case o_rels (st_heap s p) of
        None \<Rightarrow> s
      | Some r \<Rightarrow> set_obj p (\<lambda>ob. ob\<lparr>o_rels := Some (r(j_field J := foldl (\<lambda>xs rel. take_out (\<lambda>ri. rel = ri) xs) (r (j_field J)) related))\<rparr>) s)"

definition set_joined ::
  "'d boil \<Rightarrow> context_env \<Rightarrow> 'd hooks \<Rightarrow> joined \<Rightarrow> addr \<Rightarrow> bool \<Rightarrow> addr list \<Rightarrow> ('d store, unit) prog" where
  "set_joined B E H J p ins related =
     pthen (pget (\<lambda>s. [id_of p s])) (\<lambda>args.
     pthen (exec_pairs B ''failed to remove relationships before set''
              (''delete from '' @ quoted (j_table J) @ '' where '' @ quoted (j_lcol J) @ '' = ?'') args) (\<lambda>_.
     pthen (remove_from_backs J p related) (\<lambda>_.
     pthen (pmod (\<lambda>s. case o_rels (st_heap s p) of
                          None \<Rightarrow> s
                        | Some r \<Rightarrow> set_obj p (\<lambda>ob. ob\<lparr>o_rels := Some (r(j_field J := []))\<rparr>) s)) (\<lambda>_.
     add_joined B E H J p ins related))))"

definition remove_joined :: "'d boil \<Rightarrow> joined \<Rightarrow> addr \<Rightarrow> addr list \<Rightarrow> ('d store, unit) prog" where
  "remove_joined B J p related =
     (if length related = 0 then pret ()
      else
      pthen (pget (\<lambda>s. id_of p s # map (\<lambda>rel. id_of rel s) related)) (\<lambda>args.
      pthen (exec_pairs B ''failed to remove relationships before set''
               (''delete from '' @ quoted (j_table J) @ '' where '' @ quoted (j_lcol J) @ '' = ? and '' @ quoted (j_fcol J) @ '' in (''
                @ bl_placeholders B (length related) @ '')'') args) (\<lambda>_.
      pthen (remove_from_backs J p related) (\<lambda>_.
      pmod (drop_related J p related)))))"

end
