(* ===== verification/ModelInfos.thy ===== *)
theory ModelInfos
  imports BoilRels
begin

text \<open>
  The ten tables of \<open>roomdb/sqlite/models\<close> as data: the fields of the struct of each with their zero values,
  and its lists of columns. The theories \<open>Model...\<close> have the methods of each table.
\<close>

definition SIWSSBSession_zero :: "string \<Rightarrow> val" where
  "SIWSSBSession_zero =
     (\<lambda>_. VInt 0)(''id'' := VInt 0, ''token'' := VStr [], ''member_id'' := VInt 0, ''created_at'' := VTime zero_time)"

definition SIWSSBSession_info :: info where
  "SIWSSBSession_info =
     \<lparr>t_name = ''SIWSSB_sessions'', t_type = ''SIWSSBSession'', t_var = ''sIWSSBSession'',
      t_all = [''id'', ''token'', ''member_id'', ''created_at''],
      t_nodef = [''token'', ''member_id''], t_def = [''id'', ''created_at''],
      t_pk = [''id''], t_gen = [''id''], t_stamped = True, t_zero = SIWSSBSession_zero\<rparr>"

definition Alias_zero :: "string \<Rightarrow> val" where
  "Alias_zero =
     (\<lambda>_. VInt 0)(''id'' := VInt 0, ''name'' := VStr [], ''member_id'' := VInt 0, ''signature'' := VBytes [])"

definition Alias_info :: info where
  "Alias_info =
     \<lparr>t_name = ''aliases'', t_type = ''Alias'', t_var = ''alias'',
      t_all = [''id'', ''name'', ''member_id'', ''signature''],
      t_nodef = [''name'', ''member_id'', ''signature''], t_def = [''id''],
      t_pk = [''id''], t_gen = [''id''], t_stamped = False, t_zero = Alias_zero\<rparr>"

definition Config_zero :: "string \<Rightarrow> val" where
  "Config_zero =
     (\<lambda>_. VInt 0)(''id'' := VInt 0, ''privacyMode'' := VMode 0, ''defaultLanguage'' := VStr [], ''use_subdomain_for_aliases'' := VBool False)"

definition Config_info :: info where
  "Config_info =
     \<lparr>t_name = ''config'', t_type = ''Config'', t_var = ''config'',
      t_all = [''id'', ''privacyMode'', ''defaultLanguage'', ''use_subdomain_for_aliases''],
      t_nodef = [''privacyMode'', ''defaultLanguage'', ''use_subdomain_for_aliases''], t_def = [''id''],
      t_pk = [''id''], t_gen = [''id''], t_stamped = False, t_zero = Config_zero\<rparr>"

definition DeniedKey_zero :: "string \<Rightarrow> val" where
  "DeniedKey_zero =
     (\<lambda>_. VInt 0)(''id'' := VInt 0, ''pub_key'' := VRef (FeedRef []), ''comment'' := VStr [], ''created_at'' := VTime zero_time)"

definition DeniedKey_info :: info where
  "DeniedKey_info =
     \<lparr>t_name = ''denied_keys'', t_type = ''DeniedKey'', t_var = ''deniedKey'',
      t_all = [''id'', ''pub_key'', ''comment'', ''created_at''],
      t_nodef = [''pub_key'', ''comment''], t_def = [''id'', ''created_at''],
      t_pk = [''id''], t_gen = [''id''], t_stamped = True, t_zero = DeniedKey_zero\<rparr>"

definition FallbackPassword_zero :: "string \<Rightarrow> val" where
  "FallbackPassword_zero =
     (\<lambda>_. VInt 0)(''id'' := VInt 0, ''password_hash'' := VBytes [], ''member_id'' := VInt 0)"

definition FallbackPassword_info :: info where
  "FallbackPassword_info =
     \<lparr>t_name = ''fallback_passwords'', t_type = ''FallbackPassword'', t_var = ''fallbackPassword'',
      t_all = [''id'', ''password_hash'', ''member_id''],
      t_nodef = [''password_hash'', ''member_id''], t_def = [''id''],
      t_pk = [''id''], t_gen = [''id''], t_stamped = False, t_zero = FallbackPassword_zero\<rparr>"

definition FallbackResetToken_zero :: "string \<Rightarrow> val" where
  "FallbackResetToken_zero =
     (\<lambda>_. VInt 0)(''id'' := VInt 0, ''hashed_token'' := VStr [], ''created_by'' := VInt 0, ''created_at'' := VTime zero_time, ''for_member'' := VInt 0, ''active'' := VBool False)"

definition FallbackResetToken_info :: info where
  "FallbackResetToken_info =
     \<lparr>t_name = ''fallback_reset_tokens'', t_type = ''FallbackResetToken'', t_var = ''fallbackResetToken'',
      t_all = [''id'', ''hashed_token'', ''created_by'', ''created_at'', ''for_member'', ''active''],
      t_nodef = [''hashed_token'', ''created_by'', ''for_member''], t_def = [''id'', ''created_at'', ''active''],
      t_pk = [''id''], t_gen = [''id''], t_stamped = True, t_zero = FallbackResetToken_zero\<rparr>"

definition Invite_zero :: "string \<Rightarrow> val" where
  "Invite_zero =
     (\<lambda>_. VInt 0)(''id'' := VInt 0, ''hashed_token'' := VStr [], ''created_by'' := VInt 0, ''created_at'' := VTime zero_time, ''active'' := VBool False)"

definition Invite_info :: info where
  "Invite_info =
     \<lparr>t_name = ''invites'', t_type = ''Invite'', t_var = ''invite'',
      t_all = [''id'', ''hashed_token'', ''created_by'', ''created_at'', ''active''],
      t_nodef = [''hashed_token'', ''created_by''], t_def = [''id'', ''created_at'', ''active''],
      t_pk = [''id''], t_gen = [''id''], t_stamped = True, t_zero = Invite_zero\<rparr>"

definition Member_zero :: "string \<Rightarrow> val" where
  "Member_zero =
     (\<lambda>_. VInt 0)(''id'' := VInt 0, ''role'' := VInt 0, ''pub_key'' := VRef (FeedRef []))"

definition Member_info :: info where
  "Member_info =
     \<lparr>t_name = ''members'', t_type = ''Member'', t_var = ''member'',
      t_all = [''id'', ''role'', ''pub_key''],
      t_nodef = [''role'', ''pub_key''], t_def = [''id''],
      t_pk = [''id''], t_gen = [''id''], t_stamped = False, t_zero = Member_zero\<rparr>"

definition Notice_zero :: "string \<Rightarrow> val" where
  "Notice_zero =
     (\<lambda>_. VInt 0)(''id'' := VInt 0, ''title'' := VStr [], ''content'' := VStr [], ''language'' := VStr [])"

definition Notice_info :: info where
  "Notice_info =
     \<lparr>t_name = ''notices'', t_type = ''Notice'', t_var = ''notice'',
      t_all = [''id'', ''title'', ''content'', ''language''],
      t_nodef = [''title'', ''content'', ''language''], t_def = [''id''],
      t_pk = [''id''], t_gen = [''id''], t_stamped = False, t_zero = Notice_zero\<rparr>"

definition Pin_zero :: "string \<Rightarrow> val" where
  "Pin_zero =
     (\<lambda>_. VInt 0)(''id'' := VInt 0, ''name'' := VStr [])"

definition Pin_info :: info where
  "Pin_info =
     \<lparr>t_name = ''pins'', t_type = ''Pin'', t_var = ''pin'',
      t_all = [''id'', ''name''],
      t_nodef = [''name''], t_def = [''id''],
      t_pk = [''id''], t_gen = [''id''], t_stamped = False, t_zero = Pin_zero\<rparr>"

definition TableNames :: "(string \<times> string) list" where
  "TableNames =
     [(''SIWSSBSessions'', ''SIWSSB_sessions''),
      (''Aliases'', ''aliases''),
      (''Config'', ''config''),
      (''DeniedKeys'', ''denied_keys''),
      (''FallbackPasswords'', ''fallback_passwords''),
      (''FallbackResetTokens'', ''fallback_reset_tokens''),
      (''Invites'', ''invites''),
      (''Members'', ''members''),
      (''Notices'', ''notices''),
      (''PinNotices'', ''pin_notices''),
      (''Pins'', ''pins'')]"

definition tables :: "info list" where
  "tables =
     [SIWSSBSession_info, Alias_info, Config_info, DeniedKey_info, FallbackPassword_info, FallbackResetToken_info, Invite_info, Member_info, Notice_info, Pin_info]"

lemma SIWSSBSession_info_simps:
  "t_name SIWSSBSession_info = ''SIWSSB_sessions''" "t_type SIWSSBSession_info = ''SIWSSBSession''" "t_var SIWSSBSession_info = ''sIWSSBSession''"
  "t_all SIWSSBSession_info = [''id'', ''token'', ''member_id'', ''created_at'']"
  "t_nodef SIWSSBSession_info = [''token'', ''member_id'']" "t_def SIWSSBSession_info = [''id'', ''created_at'']"
  "t_pk SIWSSBSession_info = [''id'']" "t_gen SIWSSBSession_info = [''id'']" "t_stamped SIWSSBSession_info = True" "t_zero SIWSSBSession_info = SIWSSBSession_zero"
  by (simp_all add: SIWSSBSession_info_def)

lemma Alias_info_simps:
  "t_name Alias_info = ''aliases''" "t_type Alias_info = ''Alias''" "t_var Alias_info = ''alias''"
  "t_all Alias_info = [''id'', ''name'', ''member_id'', ''signature'']"
  "t_nodef Alias_info = [''name'', ''member_id'', ''signature'']" "t_def Alias_info = [''id'']"
  "t_pk Alias_info = [''id'']" "t_gen Alias_info = [''id'']" "t_stamped Alias_info = False" "t_zero Alias_info = Alias_zero"
  by (simp_all add: Alias_info_def)

lemma Config_info_simps:
  "t_name Config_info = ''config''" "t_type Config_info = ''Config''" "t_var Config_info = ''config''"
  "t_all Config_info = [''id'', ''privacyMode'', ''defaultLanguage'', ''use_subdomain_for_aliases'']"
  "t_nodef Config_info = [''privacyMode'', ''defaultLanguage'', ''use_subdomain_for_aliases'']" "t_def Config_info = [''id'']"
  "t_pk Config_info = [''id'']" "t_gen Config_info = [''id'']" "t_stamped Config_info = False" "t_zero Config_info = Config_zero"
  by (simp_all add: Config_info_def)

lemma DeniedKey_info_simps:
  "t_name DeniedKey_info = ''denied_keys''" "t_type DeniedKey_info = ''DeniedKey''" "t_var DeniedKey_info = ''deniedKey''"
  "t_all DeniedKey_info = [''id'', ''pub_key'', ''comment'', ''created_at'']"
  "t_nodef DeniedKey_info = [''pub_key'', ''comment'']" "t_def DeniedKey_info = [''id'', ''created_at'']"
  "t_pk DeniedKey_info = [''id'']" "t_gen DeniedKey_info = [''id'']" "t_stamped DeniedKey_info = True" "t_zero DeniedKey_info = DeniedKey_zero"
  by (simp_all add: DeniedKey_info_def)

lemma FallbackPassword_info_simps:
  "t_name FallbackPassword_info = ''fallback_passwords''" "t_type FallbackPassword_info = ''FallbackPassword''" "t_var FallbackPassword_info = ''fallbackPassword''"
  "t_all FallbackPassword_info = [''id'', ''password_hash'', ''member_id'']"
  "t_nodef FallbackPassword_info = [''password_hash'', ''member_id'']" "t_def FallbackPassword_info = [''id'']"
  "t_pk FallbackPassword_info = [''id'']" "t_gen FallbackPassword_info = [''id'']" "t_stamped FallbackPassword_info = False" "t_zero FallbackPassword_info = FallbackPassword_zero"
  by (simp_all add: FallbackPassword_info_def)

lemma FallbackResetToken_info_simps:
  "t_name FallbackResetToken_info = ''fallback_reset_tokens''" "t_type FallbackResetToken_info = ''FallbackResetToken''" "t_var FallbackResetToken_info = ''fallbackResetToken''"
  "t_all FallbackResetToken_info = [''id'', ''hashed_token'', ''created_by'', ''created_at'', ''for_member'', ''active'']"
  "t_nodef FallbackResetToken_info = [''hashed_token'', ''created_by'', ''for_member'']" "t_def FallbackResetToken_info = [''id'', ''created_at'', ''active'']"
  "t_pk FallbackResetToken_info = [''id'']" "t_gen FallbackResetToken_info = [''id'']" "t_stamped FallbackResetToken_info = True" "t_zero FallbackResetToken_info = FallbackResetToken_zero"
  by (simp_all add: FallbackResetToken_info_def)

lemma Invite_info_simps:
  "t_name Invite_info = ''invites''" "t_type Invite_info = ''Invite''" "t_var Invite_info = ''invite''"
  "t_all Invite_info = [''id'', ''hashed_token'', ''created_by'', ''created_at'', ''active'']"
  "t_nodef Invite_info = [''hashed_token'', ''created_by'']" "t_def Invite_info = [''id'', ''created_at'', ''active'']"
  "t_pk Invite_info = [''id'']" "t_gen Invite_info = [''id'']" "t_stamped Invite_info = True" "t_zero Invite_info = Invite_zero"
  by (simp_all add: Invite_info_def)

lemma Member_info_simps:
  "t_name Member_info = ''members''" "t_type Member_info = ''Member''" "t_var Member_info = ''member''"
  "t_all Member_info = [''id'', ''role'', ''pub_key'']"
  "t_nodef Member_info = [''role'', ''pub_key'']" "t_def Member_info = [''id'']"
  "t_pk Member_info = [''id'']" "t_gen Member_info = [''id'']" "t_stamped Member_info = False" "t_zero Member_info = Member_zero"
  by (simp_all add: Member_info_def)

lemma Notice_info_simps:
  "t_name Notice_info = ''notices''" "t_type Notice_info = ''Notice''" "t_var Notice_info = ''notice''"
  "t_all Notice_info = [''id'', ''title'', ''content'', ''language'']"
  "t_nodef Notice_info = [''title'', ''content'', ''language'']" "t_def Notice_info = [''id'']"
  "t_pk Notice_info = [''id'']" "t_gen Notice_info = [''id'']" "t_stamped Notice_info = False" "t_zero Notice_info = Notice_zero"
  by (simp_all add: Notice_info_def)

lemma Pin_info_simps:
  "t_name Pin_info = ''pins''" "t_type Pin_info = ''Pin''" "t_var Pin_info = ''pin''"
  "t_all Pin_info = [''id'', ''name'']"
  "t_nodef Pin_info = [''name'']" "t_def Pin_info = [''id'']"
  "t_pk Pin_info = [''id'']" "t_gen Pin_info = [''id'']" "t_stamped Pin_info = False" "t_zero Pin_info = Pin_zero"
  by (simp_all add: Pin_info_def)

lemmas info_defs = SIWSSBSession_info_def Alias_info_def Config_info_def DeniedKey_info_def FallbackPassword_info_def FallbackResetToken_info_def Invite_info_def Member_info_def Notice_info_def Pin_info_def

lemmas zero_defs = SIWSSBSession_zero_def Alias_zero_def Config_zero_def DeniedKey_zero_def FallbackPassword_zero_def FallbackResetToken_zero_def Invite_zero_def Member_zero_def Notice_zero_def Pin_zero_def

end
