(* ===== verification/BoilCache.thy ===== *)
theory BoilCache
  imports ModelInfos "HOL-Library.Sublist"
begin

text \<open>
  The statement caches of \<open>roomdb/sqlite/models\<close>. A statement is stored under a text made of the names of columns
  without separators; no two requests for columns of one table share that text, because no column name begins
  another. So a cached statement is always the one that would be built, and the caches cannot be observed.
\<close>

subsection \<open>Texts without separators\<close>

definition code_names :: "string list \<Rightarrow> bool" where
  "code_names ns \<longleftrightarrow> list_all (\<lambda>n. n \<noteq> [] \<and> \<not> List.member n (CHR ''.'')) ns
     \<and> list_all (\<lambda>a. list_all (\<lambda>b. prefix a b \<longrightarrow> a = b) ns) ns"

lemma code_namesD:
  "code_names ns \<Longrightarrow> a \<in> set ns \<Longrightarrow> a \<noteq> [] \<and> CHR ''.'' \<notin> set a"
  "code_names ns \<Longrightarrow> a \<in> set ns \<Longrightarrow> b \<in> set ns \<Longrightarrow> prefix a b \<Longrightarrow> a = b"
  by (auto simp: code_names_def list_all_iff)

lemma concat_names_inject:
  assumes "code_names ns" "set xs \<subseteq> set ns" "set ys \<subseteq> set ns" "concat xs = concat ys"
  shows "xs = ys"
  using assms(2-4)
proof (induction xs arbitrary: ys)
  case Nil
  then show ?case using code_namesD(1) [OF assms(1)] by (cases ys) auto
next
  case (Cons x xs)
  then obtain y ys' where ys: "ys = y # ys'"
    using code_namesD(1) [OF assms(1)] by (cases ys) auto
  have eq: "x @ concat xs = y @ concat ys'"
    using Cons.prems(3) by (simp add: ys)
  then have "prefix x y \<or> prefix y x"
    by (metis prefixI prefix_same_cases)
  then have "x = y"
    using code_namesD(2) [OF assms(1)] Cons.prems by (auto simp: ys)
  then show ?case using Cons.IH [of ys'] Cons.prems eq by (simp add: ys)
qed

lemma no_dot_concat: "code_names ns \<Longrightarrow> set xs \<subseteq> set ns \<Longrightarrow> CHR ''.'' \<notin> set (concat xs)"
  using code_namesD(1) by fastforce

lemma split_at_dot:
  "CHR ''.'' \<notin> set a \<Longrightarrow> CHR ''.'' \<notin> set a' \<Longrightarrow> a @ CHR ''.'' # b = a' @ CHR ''.'' # b' \<Longrightarrow> a = a' \<and> b = b'"
proof (induction a arbitrary: a')
  case Nil
  then show ?case by (cases a') auto
next
  case (Cons x a)
  then show ?case by (cases a') auto
qed

subsection \<open>Requests and their keys\<close>

definition valid_columns :: "info \<Rightarrow> columns \<Rightarrow> bool" where
  "valid_columns T cols \<longleftrightarrow> c_kind cols < 10 \<and> set (c_cols cols) \<subseteq> set (t_all T)"

definition valid_insert :: "info \<times> columns \<times> string list \<Rightarrow> bool" where
  "valid_insert = (\<lambda>(T, cols, nz). T \<in> set tables \<and> valid_columns T cols \<and> set nz \<subseteq> set (t_all T))"

definition insert_key :: "info \<times> columns \<times> string list \<Rightarrow> string \<times> string" where
  "insert_key = (\<lambda>(T, cols, nz). (t_name T, makeCacheKey cols nz))"

definition insert_builder :: "'d boil \<Rightarrow> info \<times> columns \<times> string list \<Rightarrow> insert_cache res" where
  "insert_builder B = (\<lambda>(T, cols, nz). build_insert B T cols nz)"

definition valid_update :: "info \<times> columns \<Rightarrow> bool" where
  "valid_update = (\<lambda>(T, cols). T \<in> set tables \<and> valid_columns T cols)"

definition update_key :: "info \<times> columns \<Rightarrow> string \<times> string" where
  "update_key = (\<lambda>(T, cols). (t_name T, makeCacheKey cols []))"

definition update_builder :: "'d boil \<Rightarrow> info \<times> columns \<Rightarrow> update_cache res" where
  "update_builder B = (\<lambda>(T, cols). build_update B T cols)"

type_synonym upsert_request = "info \<times> bool \<times> string list \<times> columns \<times> columns \<times> string list"

definition valid_upsert :: "upsert_request \<Rightarrow> bool" where
  "valid_upsert = (\<lambda>(T, u, conflict, ucols, icols, nz). T \<in> set tables \<and> valid_columns T ucols \<and> valid_columns T icols
     \<and> set conflict \<subseteq> set (t_all T) \<and> set nz \<subseteq> set (t_all T))"

definition upsert_request_key :: "upsert_request \<Rightarrow> string \<times> string" where
  "upsert_request_key = (\<lambda>(T, u, conflict, ucols, icols, nz). (t_name T, upsert_key u conflict ucols icols nz))"

definition upsert_builder :: "'d boil \<Rightarrow> upsert_request \<Rightarrow> insert_cache res" where
  "upsert_builder B = (\<lambda>(T, u, conflict, ucols, icols, nz). build_upsert B T u conflict ucols icols nz)"

lemma tables_code_names: "T \<in> set tables \<Longrightarrow> code_names (t_all T)"
proof -
  have "list_all (\<lambda>T. code_names (t_all T)) tables" by code_simp
  then show "T \<in> set tables \<Longrightarrow> code_names (t_all T)" by (simp add: list_all_iff)
qed

lemma tables_named: "T \<in> set tables \<Longrightarrow> T' \<in> set tables \<Longrightarrow> t_name T = t_name T' \<Longrightarrow> T = T'"
proof -
  have "distinct (map t_name tables)" by code_simp
  then show "T \<in> set tables \<Longrightarrow> T' \<in> set tables \<Longrightarrow> t_name T = t_name T' \<Longrightarrow> T = T'"
    by (auto simp: distinct_map dest: inj_onD)
qed

lemma tables_defaults: "T \<in> set tables \<Longrightarrow> set (t_def T) \<subseteq> set (t_all T)"
proof -
  have "list_all (\<lambda>T. list_all (List.member (t_all T)) (t_def T)) tables" by code_simp
  then show "T \<in> set tables \<Longrightarrow> set (t_def T) \<subseteq> set (t_all T)" by (auto simp: list_all_iff)
qed

lemma show_digit: "n < 10 \<Longrightarrow> show_nat n = [digit_char n]"
  by (simp add: show_nat.simps)

lemma digit_inject: "m < 10 \<Longrightarrow> n < 10 \<Longrightarrow> digit_char m = digit_char n \<longleftrightarrow> m = n"
  by (auto simp: digit_char_def dest!: arg_cong [where f = "of_char :: char \<Rightarrow> nat"])

lemma digit_no_dot: "n < 10 \<Longrightarrow> digit_char n \<noteq> CHR ''.''"
  by (auto simp: digit_char_def dest!: arg_cong [where f = "of_char :: char \<Rightarrow> nat"])

text \<open>The text of one list of columns.\<close>

definition columns_text :: "columns \<Rightarrow> string" where
  "columns_text cols = show_nat (c_kind cols) @ concat (c_cols cols)"

lemma columns_text_inject:
  assumes "T \<in> set tables" "valid_columns T a" "valid_columns T b" "columns_text a = columns_text b"
  shows "a = b"
  using assms concat_names_inject [OF tables_code_names [OF assms(1)], of "c_cols a" "c_cols b"]
  by (cases a; cases b) (simp add: columns_text_def valid_columns_def show_digit digit_inject)

lemma columns_text_no_dot: "T \<in> set tables \<Longrightarrow> valid_columns T a \<Longrightarrow> CHR ''.'' \<notin> set (columns_text a)"
  using no_dot_concat [OF tables_code_names, of T "c_cols a"] digit_no_dot [of "c_kind a"]
  by (auto simp: columns_text_def valid_columns_def show_digit simp del: set_concat)

lemma makeCacheKey_text: "makeCacheKey cols nz = columns_text cols @ (if nz = [] then [] else CHR ''.'' # concat nz)"
  by (simp add: makeCacheKey_def columns_text_def)

lemma makeCacheKey_inject:
  assumes T: "T \<in> set tables" and a: "valid_columns T a" "set m \<subseteq> set (t_all T)" and b: "valid_columns T b" "set n \<subseteq> set (t_all T)"
    and eq: "makeCacheKey a m = makeCacheKey b n"
  shows "a = b \<and> m = n"
proof -
  note nd = columns_text_no_dot [OF T a(1)] columns_text_no_dot [OF T b(1)]
  have "columns_text a = columns_text b \<and> m = n"
  proof (cases "m = [] \<or> n = []")
    case True
    then show ?thesis
      using eq nd by (cases "m = []"; cases "n = []") (simp_all add: makeCacheKey_text, (metis in_set_conv_decomp)+)
  next
    case False
    then have "columns_text a = columns_text b \<and> concat m = concat n"
      using eq split_at_dot [OF nd] by (simp add: makeCacheKey_text)
    then show ?thesis using concat_names_inject [OF tables_code_names [OF T]] a(2) b(2) by blast
  qed
  then show ?thesis using columns_text_inject [OF T a(1) b(1)] by simp
qed

lemma upsert_key_text:
  "upsert_key u conflict ucols icols nz =
     (if u then CHR ''t'' else CHR ''f'') # CHR ''.'' # concat conflict @ CHR ''.'' # columns_text ucols @ CHR ''.''
     # columns_text icols @ CHR ''.'' # concat nz"
  by (simp add: upsert_key_def columns_text_def)

lemma upsert_key_inject:
  assumes T: "T \<in> set tables" and a: "valid_upsert (T, u, c, ua, ia, m)" and b: "valid_upsert (T, v, d, ub, ib, n)"
    and eq: "upsert_key u c ua ia m = upsert_key v d ub ib n"
  shows "u = v \<and> c = d \<and> ua = ub \<and> ia = ib \<and> m = n"
proof -
  have ok: "valid_columns T ua" "valid_columns T ub" "valid_columns T ia" "valid_columns T ib"
    "set c \<subseteq> set (t_all T)" "set d \<subseteq> set (t_all T)" "set m \<subseteq> set (t_all T)" "set n \<subseteq> set (t_all T)"
    using a b by (simp_all add: valid_upsert_def)
  note nd = columns_text_no_dot [OF T] and nc = no_dot_concat [OF tables_code_names [OF T]]
  have u: "u = v" and rest: "concat c @ CHR ''.'' # columns_text ua @ CHR ''.'' # columns_text ia @ CHR ''.'' # concat m =
      concat d @ CHR ''.'' # columns_text ub @ CHR ''.'' # columns_text ib @ CHR ''.'' # concat n"
    using eq by (auto simp: upsert_key_text split: if_splits)
  from split_at_dot [OF nc nc rest] ok have c: "concat c = concat d" and
    rest2: "columns_text ua @ CHR ''.'' # columns_text ia @ CHR ''.'' # concat m =
      columns_text ub @ CHR ''.'' # columns_text ib @ CHR ''.'' # concat n" by blast+
  from split_at_dot [OF nd nd rest2] ok have ua: "columns_text ua = columns_text ub" and
    rest3: "columns_text ia @ CHR ''.'' # concat m = columns_text ib @ CHR ''.'' # concat n" by blast+
  from split_at_dot [OF nd nd rest3] ok have ia: "columns_text ia = columns_text ib" and m: "concat m = concat n" by blast+
  show ?thesis
    using u c m ua ia ok columns_text_inject [OF T] concat_names_inject [OF tables_code_names [OF T]] by blast
qed

subsection \<open>Caches that agree with what they stand for\<close>

definition cache_agrees :: "('k \<Rightarrow> bool) \<Rightarrow> ('k \<Rightarrow> 'key) \<Rightarrow> ('k \<Rightarrow> 'c res) \<Rightarrow> ('key \<Rightarrow> 'c option) \<Rightarrow> bool" where
  "cache_agrees valid key build m \<longleftrightarrow> (\<forall>k c. valid k \<longrightarrow> m (key k) = Some c \<longrightarrow> build k = Inr c)"

text \<open>What a cache relies on: requests with one key are one request.\<close>

locale keyed_build =
  fixes valid :: "'k \<Rightarrow> bool" and key :: "'k \<Rightarrow> 'key" and build :: "'k \<Rightarrow> 'c res"
  assumes key_inject: "valid a \<Longrightarrow> valid b \<Longrightarrow> key a = key b \<Longrightarrow> a = b"
begin

lemma agrees_empty: "cache_agrees valid key build (\<lambda>_. None)"
  by (simp add: cache_agrees_def)

lemma lookup_or_build:
  "cache_agrees valid key build m \<Longrightarrow> valid k \<Longrightarrow> (case m (key k) of None \<Rightarrow> build k | Some c \<Rightarrow> Inr c) = build k"
  by (auto simp: cache_agrees_def split: option.splits)

lemma agrees_put:
  assumes "cache_agrees valid key build m" "valid k" "build k = Inr c"
  shows "cache_agrees valid key build (m(key k := Some c))"
  using assms key_inject [OF _ assms(2)] by (auto simp: cache_agrees_def)

end

interpretation inserts: keyed_build valid_insert insert_key "insert_builder B" for B
  by unfold_locales
    (clarsimp simp: valid_insert_def insert_key_def, metis tables_named makeCacheKey_inject)

interpretation updates: keyed_build valid_update update_key "update_builder B" for B
proof unfold_locales
  fix a b assume "valid_update a" "valid_update b" "update_key a = update_key b"
  then show "a = b"
    using tables_named makeCacheKey_inject [of "fst a" "snd a" "[]" "snd b" "[]"]
    by (cases a; cases b) (auto simp: valid_update_def update_key_def)
qed

interpretation upserts: keyed_build valid_upsert upsert_request_key "upsert_builder B" for B
proof unfold_locales
  fix a b assume ab: "valid_upsert a" "valid_upsert b" "upsert_request_key a = upsert_request_key b"
  obtain T u c ua ia m where a: "a = (T, u, c, ua, ia, m)" by (cases a)
  obtain T' v d ub ib n where b: "b = (T', v, d, ub, ib, n)" by (cases b)
  have "T \<in> set tables" "T' = T"
    using ab tables_named by (auto simp: a b valid_upsert_def upsert_request_key_def)
  then show "a = b"
    using ab upsert_key_inject [of T u c ua ia m v d ub ib n] by (simp add: a b upsert_request_key_def)
qed

subsection \<open>Programs that cannot observe the caches\<close>

definition forget :: "'d store \<Rightarrow> 'd store" where
  "forget s = s\<lparr>st_inserts := (\<lambda>_. None), st_updates := (\<lambda>_. None), st_upserts := (\<lambda>_. None)\<rparr>"

definition caches_ok :: "'d boil \<Rightarrow> 'd store \<Rightarrow> bool" where
  "caches_ok B s \<longleftrightarrow> cache_agrees valid_insert insert_key (insert_builder B) (st_inserts s)
     \<and> cache_agrees valid_update update_key (update_builder B) (st_updates s)
     \<and> cache_agrees valid_upsert upsert_request_key (upsert_builder B) (st_upserts s)"

text \<open>From two stores that differ in their caches only, it gives the same result and stores that again differ in their caches only.\<close>

definition blind :: "'d boil \<Rightarrow> ('d store, 'a) prog \<Rightarrow> bool" where
  "blind B m \<longleftrightarrow> (\<forall>s s'. caches_ok B s \<longrightarrow> caches_ok B s' \<longrightarrow> forget s = forget s' \<longrightarrow>
     fst (m s) = fst (m s') \<and> forget (snd (m s)) = forget (snd (m s')) \<and> caches_ok B (snd (m s)))"

named_theorems blind_intros

lemma caches_ok_forget [simp]: "caches_ok B (forget s)" "forget (forget s) = forget s"
  by (simp_all add: caches_ok_def forget_def inserts.agrees_empty updates.agrees_empty upserts.agrees_empty)

lemma forget_fields [simp]:
  "st_db (forget s) = st_db s" "st_heap (forget s) = st_heap s" "st_next (forget s) = st_next s"
  by (simp_all add: forget_def)

lemma forget_eq: "forget s = forget s' \<longleftrightarrow> st_db s = st_db s' \<and> st_heap s = st_heap s' \<and> st_next s = st_next s'"
  by (cases s; cases s') (simp add: forget_def)

lemma blindD:
  assumes "blind B m" "caches_ok B s" "caches_ok B s'" "forget s = forget s'"
  shows "fst (m s) = fst (m s')" "forget (snd (m s)) = forget (snd (m s'))" "caches_ok B (snd (m s))" "caches_ok B (snd (m s'))"
  using assms unfolding blind_def by (metis, metis, metis, metis)

lemma blind_simple [blind_intros]: "blind B (pret x)" "blind B (pfail e)" "blind B (plift r)"
  by (simp_all add: blind_def)

lemma blind_pget [blind_intros]: "(\<And>s. f s = f (forget s)) \<Longrightarrow> blind B (pget f)"
  by (simp add: blind_def) metis

lemma blind_pthen [blind_intros]:
  assumes m: "blind B m" and f: "\<And>x. blind B (f x)"
  shows "blind B (pthen m f)"
  unfolding blind_def
proof (intro allI impI)
  fix s s' assume s: "caches_ok B s" "caches_ok B s'" "forget s = forget s'"
  obtain r t where m1: "m s = (r, t)" by fastforce
  obtain r' t' where m2: "m s' = (r', t')" by fastforce
  have same: "r = r'" "forget t = forget t'" "caches_ok B t" "caches_ok B t'"
    using blindD [OF m s] by (simp_all add: m1 m2)
  show "fst (pthen m f s) = fst (pthen m f s') \<and> forget (snd (pthen m f s)) = forget (snd (pthen m f s')) \<and> caches_ok B (snd (pthen m f s))"
    using same blindD [OF f same(3,4,2)] by (cases r') (simp_all add: pthen_def m1 m2)
qed

lemma blind_pwrap [blind_intros]: "blind B m \<Longrightarrow> blind B (pwrap h m)"
  unfolding blind_def pwrap_def
  by (intro allI impI, drule spec, drule spec, drule mp, assumption, drule mp, assumption, drule mp, assumption)
     (auto split: prod.splits sum.splits)

lemma blind_peach [blind_intros]: "(\<And>x. x \<in> set xs \<Longrightarrow> blind B (f x)) \<Longrightarrow> blind B (peach f xs)"
  by (induction xs) (auto intro!: blind_intros)

text \<open>A change that leaves the caches alone and does not look at them.\<close>

definition no_caches :: "('d store \<Rightarrow> 'd store) \<Rightarrow> bool" where
  "no_caches g \<longleftrightarrow> (\<forall>s. forget (g s) = forget (g (forget s)) \<and> st_inserts (g s) = st_inserts s
     \<and> st_updates (g s) = st_updates s \<and> st_upserts (g s) = st_upserts s)"

lemma caches_ok_same:
  "st_inserts t = st_inserts s \<Longrightarrow> st_updates t = st_updates s \<Longrightarrow> st_upserts t = st_upserts s \<Longrightarrow> caches_ok B t = caches_ok B s"
  by (simp add: caches_ok_def)

lemma blind_pmod [blind_intros]: "no_caches g \<Longrightarrow> blind B (pmod g)"
  unfolding blind_def no_caches_def by simp (metis caches_ok_same)

lemma no_caches_set_obj [simp]: "no_caches (set_obj p f)"
  by (simp add: no_caches_def set_obj_def forget_def)

lemma no_caches_stamp [simp]: "no_caches (stamp E T p)"
  by (simp add: no_caches_def stamp_def set_obj_def forget_def cols_of_def)

lemma cols_of_forget [simp]: "cols_of p (forget s) = cols_of p s"
  by (rule ext) (simp add: cols_of_def)

lemma blind_db_call [blind_intros]: "blind B (db_call f)"
  unfolding blind_def db_call_def
  by (auto simp: forget_eq caches_ok_def split: prod.splits)

lemma blind_run_returning [blind_intros]: "blind B (run_returning B' ignored c p)"
  unfolding blind_def
proof (intro allI impI)
  fix s s' :: "'a store" assume s: "caches_ok B s" "caches_ok B s'" "forget s = forget s'"
  have "cols_of p s = cols_of p s'" "st_db s = st_db s'" "st_heap s = st_heap s'" "st_next s = st_next s'"
    using s(3) by (auto simp: cols_of_def forget_eq)
  then show "fst (run_returning B' ignored c p s) = fst (run_returning B' ignored c p s') \<and>
    forget (snd (run_returning B' ignored c p s)) = forget (snd (run_returning B' ignored c p s')) \<and>
    caches_ok B (snd (run_returning B' ignored c p s))"
    using s(1,2) unfolding run_returning_def db_call_def set_obj_def forget_eq caches_ok_def Let_def
    by (auto split: prod.splits sum.splits)
qed

lemma blind_exec_affected [blind_intros]: "blind B (exec_affected a b f)"
  unfolding exec_affected_def by (intro blind_intros)

text \<open>The lookup in a cache that agrees answers what building would, and what is stored agrees again.\<close>

lemma through_cache_built:
  assumes "(case get s k of None \<Rightarrow> build | Some c \<Rightarrow> Inr c) = build"
  shows "through_cache get put k build issue s =
     pthen (plift build) (\<lambda>c. pthen (issue c) (\<lambda>x.
       pthen (if get s k = None then pmod (put k c) else pret ()) (\<lambda>_. pret x))) s"
  using assms by (cases "get s k") (simp_all add: through_cache_def)

lemma blind_through_cache:
  assumes got: "\<And>s. caches_ok B s \<Longrightarrow> (case get s k of None \<Rightarrow> build | Some c \<Rightarrow> Inr c) = build"
    and put: "\<And>c s. build = Inr c \<Longrightarrow> caches_ok B s \<Longrightarrow> caches_ok B (put k c s)"
    and gone: "\<And>c s. forget (put k c s) = forget s"
    and issue: "\<And>c. blind B (issue c)"
  shows "blind B (through_cache get put k build issue)"
  unfolding blind_def
proof (intro allI impI)
  fix s s' assume s: "caches_ok B s" "caches_ok B s'" "forget s = forget s'"
  note b1 = through_cache_built [where get = get and k = k and put = put and issue = issue, OF got [OF s(1)]]
    and b2 = through_cache_built [where get = get and k = k and put = put and issue = issue, OF got [OF s(2)]]
  show "fst (through_cache get put k build issue s) = fst (through_cache get put k build issue s')
    \<and> forget (snd (through_cache get put k build issue s)) = forget (snd (through_cache get put k build issue s'))
    \<and> caches_ok B (snd (through_cache get put k build issue s))"
  proof (cases build)
    case (Inl e)
    then show ?thesis using s b1 b2 by simp
  next
    case (Inr c)
    obtain r t where i1: "issue c s = (r, t)" by fastforce
    obtain r' t' where i2: "issue c s' = (r', t')" by fastforce
    have same: "r = r'" "forget t = forget t'" "caches_ok B t" "caches_ok B t'"
      using blindD [OF issue s, of c] by (simp_all add: i1 i2)
    then show ?thesis using b1 b2 put [OF Inr] gone Inr
      by (cases r') (simp_all add: i1 i2 pthen_def)
  qed
qed

lemma keyed_applied:
  "insert_key (T, cols, nz) = (t_name T, makeCacheKey cols nz)" "insert_builder B (T, cols, nz) = build_insert B T cols nz"
  "update_key (T, cols) = (t_name T, makeCacheKey cols [])" "update_builder B (T, cols) = build_update B T cols"
  "upsert_request_key (T, u, conflict, ucols, icols, nz) = (t_name T, upsert_key u conflict ucols icols nz)"
  "upsert_builder B (T, u, conflict, ucols, icols, nz) = build_upsert B T u conflict ucols icols nz"
  by (simp_all add: insert_key_def insert_builder_def update_key_def update_builder_def upsert_request_key_def upsert_builder_def)

lemma forget_puts [simp]: "forget (put_insert k ci s) = forget s" "forget (put_update k cu s) = forget s" "forget (put_upsert k ci s) = forget s"
  by (simp_all add: forget_def put_insert_def put_update_def put_upsert_def)

lemma blind_insert_cache [blind_intros]:
  assumes "valid_insert (T, cols, nz)" "\<And>c. blind B (issue c)"
  shows "blind B (through_cache st_inserts put_insert (t_name T, makeCacheKey cols nz) (build_insert B T cols nz) issue)"
  using inserts.lookup_or_build [OF _ assms(1), of B, unfolded keyed_applied] inserts.agrees_put [OF _ assms(1), of B, unfolded keyed_applied] assms(2)
  by (intro blind_through_cache) (simp_all add: caches_ok_def put_insert_def forget_eq)

lemma blind_update_cache [blind_intros]:
  assumes "valid_update (T, cols)" "\<And>c. blind B (issue c)"
  shows "blind B (through_cache st_updates put_update (t_name T, makeCacheKey cols []) (build_update B T cols) issue)"
  using updates.lookup_or_build [OF _ assms(1), of B, unfolded keyed_applied] updates.agrees_put [OF _ assms(1), of B, unfolded keyed_applied] assms(2)
  by (intro blind_through_cache) (simp_all add: caches_ok_def put_update_def forget_eq)

lemma blind_upsert_cache [blind_intros]:
  assumes "valid_upsert (T, u, conflict, ucols, icols, nz)" "\<And>c. blind B (issue c)"
  shows "blind B (through_cache st_upserts put_upsert (t_name T, upsert_key u conflict ucols icols nz)
     (build_upsert B T u conflict ucols icols nz) issue)"
  using upserts.lookup_or_build [OF _ assms(1), of B, unfolded keyed_applied] upserts.agrees_put [OF _ assms(1), of B, unfolded keyed_applied] assms(2)
  by (intro blind_through_cache) (simp_all add: caches_ok_def put_upsert_def forget_eq)

subsection \<open>The operations\<close>

text \<open>
  What the library promises of the columns with a default that are not zero, and hooks that do not look at the
  caches themselves.
\<close>

definition nonzero_law :: "'d boil \<Rightarrow> bool" where
  "nonzero_law B \<longleftrightarrow> (\<forall>ds f. set (bl_nonzero B ds f) \<subseteq> set ds)"

definition hooks_blind :: "'d boil \<Rightarrow> 'd hooks \<Rightarrow> bool" where
  "hooks_blind B H \<longleftrightarrow> (\<forall>t hp h p. h \<in> set (H t hp) \<longrightarrow> blind B (h p))"

lemma hooks_blind_none [simp]: "hooks_blind B no_hooks"
  by (simp add: hooks_blind_def no_hooks_def)

lemma blind_do_hooks [blind_intros]: "hooks_blind B H \<Longrightarrow> blind B (do_hooks E H T hp p)"
  unfolding do_hooks_def hooks_blind_def by (auto intro!: blind_intros)

text \<open>What is built may depend on a value read from the objects, as long as every value gives a blind program.\<close>

lemma blind_pget_then:
  assumes "\<And>s. P (f s)" "\<And>s. f s = f (forget s)" "\<And>x. P x \<Longrightarrow> blind B (g x)"
  shows "blind B (pthen (pget f) g)"
  unfolding blind_def
proof (intro allI impI)
  fix s s' assume s: "caches_ok B s" "caches_ok B s'" "forget s = forget s'"
  then have "f s = f s'" by (metis assms(2))
  then show "fst (pthen (pget f) g s) = fst (pthen (pget f) g s') \<and>
    forget (snd (pthen (pget f) g s)) = forget (snd (pthen (pget f) g s')) \<and> caches_ok B (snd (pthen (pget f) g s))"
    using blindD [OF assms(3) [OF assms(1)] s] by simp
qed

lemma blind_if [blind_intros]: "(b \<Longrightarrow> blind B m) \<Longrightarrow> (\<not> b \<Longrightarrow> blind B m') \<Longrightarrow> blind B (if b then m else m')"
  by simp

lemma nonzero_valid:
  "nonzero_law B \<Longrightarrow> T \<in> set tables \<Longrightarrow> set (bl_nonzero B (t_def T) f) \<subseteq> set (t_all T)"
  using tables_defaults by (fastforce simp: nonzero_law_def)

lemma blind_with_nonzero:
  assumes "nonzero_law B" "T \<in> set tables" "\<And>nz. set nz \<subseteq> set (t_all T) \<Longrightarrow> blind B (g nz)"
  shows "blind B (pthen (pget (\<lambda>s. bl_nonzero B (t_def T) (cols_of p s))) g)"
  using assms by (intro blind_pget_then [where P = "\<lambda>nz. set nz \<subseteq> set (t_all T)"]) (simp_all add: nonzero_valid)

lemma pk_values_forget [simp]: "pk_values T ps (forget s) = pk_values T ps s"
  by (simp add: pk_values_def)

lemma blind_Insert:
  assumes "T \<in> set tables" "valid_columns T cols" "nonzero_law B" "hooks_blind B H"
  shows "blind B (Insert B E H T recv cols)"
proof (cases recv)
  case (Some p)
  show ?thesis unfolding Insert_def Some option.case
    by (rule blind_with_nonzero blind_intros no_caches_stamp assms | simp add: valid_insert_def assms)+
qed (simp add: Insert_def blind_intros)

lemma blind_Update:
  assumes "T \<in> set tables" "valid_columns T cols" "hooks_blind B H"
  shows "blind B (Update B E H T p cols)"
  unfolding Update_def by (rule blind_intros assms | simp add: valid_update_def assms)+

lemma blind_Upsert:
  assumes "T \<in> set tables" "valid_columns T ucols" "valid_columns T icols" "set conflict \<subseteq> set (t_all T)"
    "nonzero_law B" "hooks_blind B H"
  shows "blind B (Upsert B E H T recv u conflict ucols icols)"
proof (cases recv)
  case (Some p)
  show ?thesis unfolding Upsert_def Some option.case
    by (rule blind_with_nonzero blind_intros no_caches_stamp assms | simp add: valid_upsert_def assms)+
qed (simp add: Upsert_def blind_intros)

lemma blind_Delete:
  assumes "hooks_blind B H"
  shows "blind B (Delete B E H T recv)"
proof (cases recv)
  case (Some p)
  show ?thesis unfolding Delete_def Some option.case by (rule blind_intros assms | simp)+
qed (simp add: Delete_def blind_intros)

lemma blind_slice_DeleteAll:
  assumes "hooks_blind B H"
  shows "blind B (slice_DeleteAll B E H T ps)"
  unfolding slice_DeleteAll_def by (rule blind_intros assms | simp only: pk_values_forget)+

lemma blind_slice_UpdateAll: "blind B (slice_UpdateAll B T ps cols)"
  unfolding slice_UpdateAll_def by (rule blind_intros | simp only: pk_values_forget)+

subsection \<open>Whole runs\<close>

datatype model_call =
    CallInsert info "addr option" columns
  | CallUpdate info addr columns
  | CallUpdateAll info "addr list" "(string \<times> val) list"
  | CallUpsert info "addr option" bool "string list" columns columns
  | CallDelete info "addr option"
  | CallDeleteAll info "addr list"

fun run_model_call :: "'d boil \<Rightarrow> context_env \<Rightarrow> 'd hooks \<Rightarrow> model_call \<Rightarrow> ('d store, int64) prog" where
  "run_model_call B E H (CallInsert T recv cols) = pthen (Insert B E H T recv cols) (\<lambda>_. pret 0)"
| "run_model_call B E H (CallUpdate T p cols) = Update B E H T p cols"
| "run_model_call B E H (CallUpdateAll T ps cols) = slice_UpdateAll B T ps cols"
| "run_model_call B E H (CallUpsert T recv u conflict ucols icols) = pthen (Upsert B E H T recv u conflict ucols icols) (\<lambda>_. pret 0)"
| "run_model_call B E H (CallDelete T recv) = Delete B E H T recv"
| "run_model_call B E H (CallDeleteAll T ps) = slice_DeleteAll B E H T ps"

text \<open>The columns a call names are columns of its table.\<close>

fun valid_call :: "model_call \<Rightarrow> bool" where
  "valid_call (CallInsert T recv cols) \<longleftrightarrow> T \<in> set tables \<and> valid_columns T cols"
| "valid_call (CallUpdate T p cols) \<longleftrightarrow> T \<in> set tables \<and> valid_columns T cols"
| "valid_call (CallUpsert T recv u conflict ucols icols) \<longleftrightarrow>
     T \<in> set tables \<and> valid_columns T ucols \<and> valid_columns T icols \<and> set conflict \<subseteq> set (t_all T)"
| "valid_call _ \<longleftrightarrow> True"

text \<open>A run answers every call; the reference empties the caches before each of them.\<close>

fun run_calls :: "'d boil \<Rightarrow> context_env \<Rightarrow> 'd hooks \<Rightarrow> model_call list \<Rightarrow> 'd store \<Rightarrow> int64 res list \<times> 'd store" where
  "run_calls B E H [] s = ([], s)"
| "run_calls B E H (c # cs) s =
     (case run_model_call B E H c s of (r, t) \<Rightarrow> (case run_calls B E H cs t of (rs, u) \<Rightarrow> (r # rs, u)))"

fun run_calls_uncached :: "'d boil \<Rightarrow> context_env \<Rightarrow> 'd hooks \<Rightarrow> model_call list \<Rightarrow> 'd store \<Rightarrow> int64 res list \<times> 'd store" where
  "run_calls_uncached B E H [] s = ([], s)"
| "run_calls_uncached B E H (c # cs) s =
     (case run_model_call B E H c (forget s) of (r, t) \<Rightarrow> (case run_calls_uncached B E H cs t of (rs, u) \<Rightarrow> (r # rs, u)))"

lemma blind_run_model_call:
  "valid_call c \<Longrightarrow> nonzero_law B \<Longrightarrow> hooks_blind B H \<Longrightarrow> blind B (run_model_call B E H c)"
  by (cases c) (auto intro!: blind_pthen blind_simple blind_Insert blind_Update blind_Upsert blind_Delete blind_slice_DeleteAll blind_slice_UpdateAll)

lemma runs_agree:
  assumes "\<forall>c \<in> set calls. valid_call c" "nonzero_law B" "hooks_blind B H"
    "caches_ok B s" "caches_ok B s'" "forget s = forget s'"
  shows "fst (run_calls B E H calls s) = fst (run_calls_uncached B E H calls s') \<and>
    forget (snd (run_calls B E H calls s)) = forget (snd (run_calls_uncached B E H calls s'))"
  using assms
proof (induction calls arbitrary: s s')
  case (Cons c calls)
  obtain r t where rt: "run_model_call B E H c s = (r, t)" by fastforce
  obtain r' t' where rt': "run_model_call B E H c (forget s') = (r', t')" by fastforce
  have "r = r'" "forget t = forget t'" "caches_ok B t" "caches_ok B t'"
    using blindD [OF blind_run_model_call, of c B H s "forget s'" E] Cons.prems rt rt' by simp_all
  then show ?case using Cons.IH [of t t'] Cons.prems by (auto simp: rt rt' split: prod.splits)
qed simp

text \<open>C27: the statement caches of the generated code cannot be observed. Any sequence of inserts, updates, upserts
  and deletes on the ten tables, started with empty caches, gives the same answers and leaves the same
  database and the same objects as one in which every call starts with empty caches.\<close>

theorem caches_unobservable:
  assumes "\<forall>c \<in> set calls. valid_call c" "nonzero_law B" "hooks_blind B H"
  shows "fst (run_calls B E H calls (forget s)) = fst (run_calls_uncached B E H calls (forget s)) \<and>
    st_db (snd (run_calls B E H calls (forget s))) = st_db (snd (run_calls_uncached B E H calls (forget s))) \<and>
    st_heap (snd (run_calls B E H calls (forget s))) = st_heap (snd (run_calls_uncached B E H calls (forget s)))"
  using runs_agree [OF assms, of "forget s" "forget s" E] by (simp add: forget_eq)

subsection \<open>A concrete library\<close>

text \<open>
  A library that keeps every promise, over a driver given by what it does with a statement, and with an object
  in the store: for trying the theorems out.
\<close>

definition val_zero :: "val \<Rightarrow> bool" where
  "val_zero v = (case v of VInt i \<Rightarrow> i = 0 | VStr x \<Rightarrow> x = [] | VBytes x \<Rightarrow> x = [] | VBool b \<Rightarrow> \<not> b | VTime t \<Rightarrow> t = zero_time
     | VRef r \<Rightarrow> ref_string r = [] | VMode m \<Rightarrow> m = 0)"

definition sample_boil ::
  "(string \<Rightarrow> val list \<Rightarrow> 'd \<Rightarrow> val list res \<times> 'd) \<Rightarrow> (string \<Rightarrow> val list \<Rightarrow> 'd \<Rightarrow> int64 res res \<times> 'd) \<Rightarrow>
   (result_set \<Rightarrow> info \<Rightarrow> ('d store, addr list) prog) \<Rightarrow> 'd boil" where
  "sample_boil answer execute bind =
     \<lparr>bl_insert_set = (\<lambda>cols all defs nodefs nz.
        let wl = (if c_kind cols = 1 then remdups (nodefs @ nz) else c_cols cols) in (wl, filter (\<lambda>c. c \<notin> set wl) (remdups defs))),
      bl_update_set = (\<lambda>cols all pk. if c_kind cols = 1 then filter (\<lambda>c. c \<notin> set pk) all else c_cols cols),
      bl_is_whitelist = (\<lambda>cols. c_kind cols = 2), bl_infer = \<lparr>c_kind = 1, c_cols = []\<rparr>,
      bl_nonzero = (\<lambda>ds f. filter (\<lambda>c. \<not> val_zero (f c)) ds), bl_complement = (\<lambda>xs ys. filter (\<lambda>x. x \<notin> set ys) xs),
      bl_placeholders = (\<lambda>n. join_with '','' (replicate n ''?'')),
      bl_set_names = (\<lambda>cs. join_with '','' (map (\<lambda>c. quoted c @ ''=?'') cs)),
      bl_where = (\<lambda>cs. join_with '' AND '' (map (\<lambda>c. quoted c @ ''=?'') cs)),
      bl_where_repeated = (\<lambda>cs n. join_with '' OR '' (replicate n (join_with '' AND '' (map (\<lambda>c. quoted c @ ''=?'') cs)))),
      bl_quote = quoted, bl_mapping = (\<lambda>T cs. Inr cs), bl_selected = (\<lambda>q. []), bl_exec = execute, bl_row = answer,
      bl_row_bool = (\<lambda>q vs d. (Inr True, d)), bl_row_int = (\<lambda>q d. (Inr 0, d)), bl_exec_query = (\<lambda>q d. (Inr (Inr 0), d)),
      bl_open = (\<lambda>q d. (Inr \<lparr>rs_scans = [], rs_step_err = (\<lambda>_. None), rs_close_err = None, rs_final_err = None\<rparr>, d)),
      bl_bind_one = (\<lambda>q p. pret ()), bl_bind_all = (\<lambda>q T. pret []), bl_bind_set = bind,
      bl_embedded_one = (\<lambda>T t. None), bl_embedded_many = (\<lambda>T t. None), bl_type_name = (\<lambda>t. [])\<rparr>"

definition sample_store :: "'d \<Rightarrow> obj list \<Rightarrow> 'd store" where
  "sample_store d objs =
     \<lparr>st_db = d, st_heap = (\<lambda>p. if p < length objs then objs ! p else \<lparr>o_cols = (\<lambda>_. VInt 0), o_rels = None\<rparr>), st_next = length objs,
      st_inserts = (\<lambda>_. None), st_updates = (\<lambda>_. None), st_upserts = (\<lambda>_. None)\<rparr>"

definition sample_env :: context_env where
  "sample_env = \<lparr>e_skip_hooks = False, e_skip_times = False, e_now = 1700000000 * second\<rparr>"

lemma sample_boil_laws:
  "nonzero_law (sample_boil answer execute bind)" "forget (sample_store d objs) = sample_store d objs"
  by (auto simp: nonzero_law_def sample_boil_def forget_def sample_store_def)

definition counting_boil :: "nat boil" where
  "counting_boil = sample_boil (\<lambda>q vs n. (Inr [VInt (int n)], n + 1)) (\<lambda>q vs n. (Inr (Inr 1), n + 1)) (\<lambda>results T. pret [])"

theorem caches_unobservable_witness:
  "let calls = [CallInsert Invite_info (Some 0) \<lparr>c_kind = 1, c_cols = []\<rparr>,
                CallInsert Invite_info (Some 0) \<lparr>c_kind = 2, c_cols = [''hashed_token'', ''active'']\<rparr>,
                CallUpdate Invite_info 0 \<lparr>c_kind = 2, c_cols = [''active'']\<rparr>, CallDelete Invite_info (Some 0)];
       s = sample_store 0 [new_obj Invite_info]
   in (\<forall>c \<in> set calls. valid_call c) \<and>
      fst (run_calls counting_boil sample_env no_hooks calls s) = fst (run_calls_uncached counting_boil sample_env no_hooks calls s)"
  using caches_unobservable
    [of "[CallInsert Invite_info (Some 0) \<lparr>c_kind = 1, c_cols = []\<rparr>,
          CallInsert Invite_info (Some 0) \<lparr>c_kind = 2, c_cols = [''hashed_token'', ''active'']\<rparr>,
          CallUpdate Invite_info 0 \<lparr>c_kind = 2, c_cols = [''active'']\<rparr>, CallDelete Invite_info (Some 0)]"
        counting_boil no_hooks sample_env "sample_store 0 [new_obj Invite_info]"]
  by (simp add: sample_boil_laws counting_boil_def valid_columns_def Invite_info_simps tables_def)

end
