(* ===== verification/ModelAlias.thy ===== *)
theory ModelAlias
  imports ModelInfos
begin

text \<open>The struct \<open>Alias\<close> and its methods, \<open>roomdb/sqlite/models/aliases.go\<close>: those of \<open>Boil\<close> and \<open>BoilRels\<close> for its table.\<close>

subsection \<open>Columns and conditions\<close>

definition Alias_Columns :: "(string \<times> string) list" where
  "Alias_Columns = 
     [(''ID'', ''id''), (''Name'', ''name''), (''MemberID'', ''member_id''), (''Signature'', ''signature'')]"

definition Alias_TableColumns :: "(string \<times> string) list" where
  "Alias_TableColumns = map (\<lambda>(field, c). (field, table_column Alias_info c)) Alias_Columns"

definition whereHelper_bytes :: "cmp_op \<Rightarrow> string \<Rightarrow> bytes \<Rightarrow> qmod" where
  "whereHelper_bytes cmp field x = where_op cmp field (VBytes x)"

definition Alias_Where :: "(string \<times> string) list" where
  "Alias_Where = map (\<lambda>(field, c). (field, where_field Alias_info c)) Alias_Columns"

subsection \<open>Related objects\<close>

definition Alias_Rels :: "string list" where
  "Alias_Rels = [''Member'']"

definition Alias_NewStruct :: "string \<Rightarrow> addr list" where
  "Alias_NewStruct = NewStruct"

definition Alias_GetMember :: "(string \<Rightarrow> addr list) option \<Rightarrow> addr list" where
  "Alias_GetMember r = get_rel ''Member'' r"

subsection \<open>Hooks\<close>

definition Alias_doAfterSelectHooks :: "context_env \<Rightarrow> 'd hooks \<Rightarrow> addr \<Rightarrow> ('d store, unit) prog" where
  "Alias_doAfterSelectHooks E H p = do_hooks E H Alias_info AfterSelectHook p"

definition Alias_doBeforeInsertHooks :: "context_env \<Rightarrow> 'd hooks \<Rightarrow> addr \<Rightarrow> ('d store, unit) prog" where
  "Alias_doBeforeInsertHooks E H p = do_hooks E H Alias_info BeforeInsertHook p"

definition Alias_doAfterInsertHooks :: "context_env \<Rightarrow> 'd hooks \<Rightarrow> addr \<Rightarrow> ('d store, unit) prog" where
  "Alias_doAfterInsertHooks E H p = do_hooks E H Alias_info AfterInsertHook p"

definition Alias_doBeforeUpdateHooks :: "context_env \<Rightarrow> 'd hooks \<Rightarrow> addr \<Rightarrow> ('d store, unit) prog" where
  "Alias_doBeforeUpdateHooks E H p = do_hooks E H Alias_info BeforeUpdateHook p"

definition Alias_doAfterUpdateHooks :: "context_env \<Rightarrow> 'd hooks \<Rightarrow> addr \<Rightarrow> ('d store, unit) prog" where
  "Alias_doAfterUpdateHooks E H p = do_hooks E H Alias_info AfterUpdateHook p"

definition Alias_doBeforeDeleteHooks :: "context_env \<Rightarrow> 'd hooks \<Rightarrow> addr \<Rightarrow> ('d store, unit) prog" where
  "Alias_doBeforeDeleteHooks E H p = do_hooks E H Alias_info BeforeDeleteHook p"

definition Alias_doAfterDeleteHooks :: "context_env \<Rightarrow> 'd hooks \<Rightarrow> addr \<Rightarrow> ('d store, unit) prog" where
  "Alias_doAfterDeleteHooks E H p = do_hooks E H Alias_info AfterDeleteHook p"

definition Alias_doBeforeUpsertHooks :: "context_env \<Rightarrow> 'd hooks \<Rightarrow> addr \<Rightarrow> ('d store, unit) prog" where
  "Alias_doBeforeUpsertHooks E H p = do_hooks E H Alias_info BeforeUpsertHook p"

definition Alias_doAfterUpsertHooks :: "context_env \<Rightarrow> 'd hooks \<Rightarrow> addr \<Rightarrow> ('d store, unit) prog" where
  "Alias_doAfterUpsertHooks E H p = do_hooks E H Alias_info AfterUpsertHook p"

definition AddAliasHook :: "hook_point \<Rightarrow> 'd hook \<Rightarrow> 'd hooks \<Rightarrow> 'd hooks" where
  "AddAliasHook hp hook H = add_hook Alias_info hp hook H"

subsection \<open>Queries\<close>

definition Alias_query :: "'d boil \<Rightarrow> qmod list \<Rightarrow> query_mods" where
  "Alias_query B mods = table_query B Alias_info mods"

definition Alias_One :: "'d boil \<Rightarrow> context_env \<Rightarrow> 'd hooks \<Rightarrow> query_mods \<Rightarrow> ('d store, addr) prog" where
  "Alias_One B E H q = query_One B E H Alias_info q"

definition Alias_All :: "'d boil \<Rightarrow> context_env \<Rightarrow> 'd hooks \<Rightarrow> query_mods \<Rightarrow> ('d store, addr list) prog" where
  "Alias_All B E H q = query_All B E H Alias_info q"

definition Alias_Count :: "'d boil \<Rightarrow> query_mods \<Rightarrow> ('d store, int64) prog" where
  "Alias_Count B q = query_Count B Alias_info q"

definition Alias_query_Exists :: "'d boil \<Rightarrow> query_mods \<Rightarrow> ('d store, bool) prog" where
  "Alias_query_Exists B q = query_Exists B Alias_info q"

definition FindAlias :: "'d boil \<Rightarrow> context_env \<Rightarrow> 'd hooks \<Rightarrow> int64 \<Rightarrow> string list \<Rightarrow> ('d store, addr) prog" where
  "FindAlias B E H iD selectCols = Find B E H Alias_info iD selectCols"

definition Alias_Reload :: "'d boil \<Rightarrow> context_env \<Rightarrow> 'd hooks \<Rightarrow> addr \<Rightarrow> ('d store, unit) prog" where
  "Alias_Reload B E H p = Reload B E H Alias_info p"

definition Alias_slice_ReloadAll :: "'d boil \<Rightarrow> addr list \<Rightarrow> ('d store, addr list) prog" where
  "Alias_slice_ReloadAll B ps = slice_ReloadAll B Alias_info ps"

definition AliasExists :: "'d boil \<Rightarrow> int64 \<Rightarrow> ('d store, bool) prog" where
  "AliasExists B iD = row_Exists B Alias_info iD"

definition Alias_Exists :: "'d boil \<Rightarrow> addr \<Rightarrow> ('d store, bool) prog" where
  "Alias_Exists B p = obj_Exists B Alias_info p"

subsection \<open>Statements\<close>

definition Alias_Insert :: "'d boil \<Rightarrow> context_env \<Rightarrow> 'd hooks \<Rightarrow> addr option \<Rightarrow> columns \<Rightarrow> ('d store, unit) prog" where
  "Alias_Insert B E H recv cols = Insert B E H Alias_info recv cols"

definition Alias_Update :: "'d boil \<Rightarrow> context_env \<Rightarrow> 'd hooks \<Rightarrow> addr \<Rightarrow> columns \<Rightarrow> ('d store, int64) prog" where
  "Alias_Update B E H p cols = Update B E H Alias_info p cols"

definition Alias_UpdateAll :: "'d boil \<Rightarrow> query_mods \<Rightarrow> (string \<times> val) list \<Rightarrow> ('d store, int64) prog" where
  "Alias_UpdateAll B q cols = query_UpdateAll B Alias_info q cols"

definition Alias_slice_UpdateAll :: "'d boil \<Rightarrow> addr list \<Rightarrow> (string \<times> val) list \<Rightarrow> ('d store, int64) prog" where
  "Alias_slice_UpdateAll B ps cols = slice_UpdateAll B Alias_info ps cols"

definition Alias_Upsert :: "'d boil \<Rightarrow> context_env \<Rightarrow> 'd hooks \<Rightarrow> addr option \<Rightarrow> bool \<Rightarrow> string list \<Rightarrow> columns \<Rightarrow> columns \<Rightarrow> ('d store, unit) prog" where
  "Alias_Upsert B E H recv updateOnConflict conflictColumns updateColumns insertColumns = 
     Upsert B E H Alias_info recv updateOnConflict conflictColumns updateColumns insertColumns"

definition Alias_Delete :: "'d boil \<Rightarrow> context_env \<Rightarrow> 'd hooks \<Rightarrow> addr option \<Rightarrow> ('d store, int64) prog" where
  "Alias_Delete B E H recv = Delete B E H Alias_info recv"

definition Alias_DeleteAll :: "'d boil \<Rightarrow> query_mods option \<Rightarrow> ('d store, int64) prog" where
  "Alias_DeleteAll B recv = query_DeleteAll B Alias_info recv"

definition Alias_slice_DeleteAll :: "'d boil \<Rightarrow> context_env \<Rightarrow> 'd hooks \<Rightarrow> addr list \<Rightarrow> ('d store, int64) prog" where
  "Alias_slice_DeleteAll B E H ps = slice_DeleteAll B E H Alias_info ps"

subsection \<open>Relations\<close>

definition Alias_Member_rel :: "relation" where
  "Alias_Member_rel = 
     \<lparr>r_local = Alias_info, r_foreign = Member_info, r_lcol = ''member_id'', r_fcol = ''id'',
      r_field = ''Member'', r_back = ''Aliases'', r_many = True\<rparr>"

definition Alias_Member :: "'d boil \<Rightarrow> addr \<Rightarrow> qmod list \<Rightarrow> 'd store \<Rightarrow> query_mods" where
  "Alias_Member B p mods s = one_related B Alias_Member_rel p mods s"

definition Alias_LoadMember :: "'d boil \<Rightarrow> context_env \<Rightarrow> 'd hooks \<Rightarrow> bool \<Rightarrow> load_target \<Rightarrow> qmod list \<Rightarrow> ('d store, unit) prog" where
  "Alias_LoadMember B E H singular maybe mods = load_one B E H Alias_Member_rel singular maybe mods"

definition Alias_SetMember :: "'d boil \<Rightarrow> context_env \<Rightarrow> 'd hooks \<Rightarrow> addr \<Rightarrow> bool \<Rightarrow> addr \<Rightarrow> ('d store, unit) prog" where
  "Alias_SetMember B E H p ins related = set_one B E H Alias_Member_rel p ins related"

end
