(* ===== verification/ModelInvite.thy ===== *)
theory ModelInvite
  imports ModelInfos
begin

text \<open>The struct \<open>Invite\<close> and its methods, \<open>roomdb/sqlite/models/invites.go\<close>: those of \<open>Boil\<close> and \<open>BoilRels\<close> for its table.\<close>

subsection \<open>Columns and conditions\<close>

definition Invite_Columns :: "(string \<times> string) list" where
  "Invite_Columns = 
     [(''ID'', ''id''), (''HashedToken'', ''hashed_token''), (''CreatedBy'', ''created_by''), (''CreatedAt'', ''created_at''), (''Active'', ''active'')]"

definition Invite_TableColumns :: "(string \<times> string) list" where
  "Invite_TableColumns = map (\<lambda>(field, c). (field, table_column Invite_info c)) Invite_Columns"

definition Invite_Where :: "(string \<times> string) list" where
  "Invite_Where = map (\<lambda>(field, c). (field, where_field Invite_info c)) Invite_Columns"

subsection \<open>Related objects\<close>

definition Invite_Rels :: "string list" where
  "Invite_Rels = [''CreatedByMember'']"

definition Invite_NewStruct :: "string \<Rightarrow> addr list" where
  "Invite_NewStruct = NewStruct"

definition Invite_GetCreatedByMember :: "(string \<Rightarrow> addr list) option \<Rightarrow> addr list" where
  "Invite_GetCreatedByMember r = get_rel ''CreatedByMember'' r"

subsection \<open>Hooks\<close>

definition Invite_doAfterSelectHooks :: "context_env \<Rightarrow> 'd hooks \<Rightarrow> addr \<Rightarrow> ('d store, unit) prog" where
  "Invite_doAfterSelectHooks E H p = do_hooks E H Invite_info AfterSelectHook p"

definition Invite_doBeforeInsertHooks :: "context_env \<Rightarrow> 'd hooks \<Rightarrow> addr \<Rightarrow> ('d store, unit) prog" where
  "Invite_doBeforeInsertHooks E H p = do_hooks E H Invite_info BeforeInsertHook p"

definition Invite_doAfterInsertHooks :: "context_env \<Rightarrow> 'd hooks \<Rightarrow> addr \<Rightarrow> ('d store, unit) prog" where
  "Invite_doAfterInsertHooks E H p = do_hooks E H Invite_info AfterInsertHook p"

definition Invite_doBeforeUpdateHooks :: "context_env \<Rightarrow> 'd hooks \<Rightarrow> addr \<Rightarrow> ('d store, unit) prog" where
  "Invite_doBeforeUpdateHooks E H p = do_hooks E H Invite_info BeforeUpdateHook p"

definition Invite_doAfterUpdateHooks :: "context_env \<Rightarrow> 'd hooks \<Rightarrow> addr \<Rightarrow> ('d store, unit) prog" where
  "Invite_doAfterUpdateHooks E H p = do_hooks E H Invite_info AfterUpdateHook p"

definition Invite_doBeforeDeleteHooks :: "context_env \<Rightarrow> 'd hooks \<Rightarrow> addr \<Rightarrow> ('d store, unit) prog" where
  "Invite_doBeforeDeleteHooks E H p = do_hooks E H Invite_info BeforeDeleteHook p"

definition Invite_doAfterDeleteHooks :: "context_env \<Rightarrow> 'd hooks \<Rightarrow> addr \<Rightarrow> ('d store, unit) prog" where
  "Invite_doAfterDeleteHooks E H p = do_hooks E H Invite_info AfterDeleteHook p"

definition Invite_doBeforeUpsertHooks :: "context_env \<Rightarrow> 'd hooks \<Rightarrow> addr \<Rightarrow> ('d store, unit) prog" where
  "Invite_doBeforeUpsertHooks E H p = do_hooks E H Invite_info BeforeUpsertHook p"

definition Invite_doAfterUpsertHooks :: "context_env \<Rightarrow> 'd hooks \<Rightarrow> addr \<Rightarrow> ('d store, unit) prog" where
  "Invite_doAfterUpsertHooks E H p = do_hooks E H Invite_info AfterUpsertHook p"

definition AddInviteHook :: "hook_point \<Rightarrow> 'd hook \<Rightarrow> 'd hooks \<Rightarrow> 'd hooks" where
  "AddInviteHook hp hook H = add_hook Invite_info hp hook H"

subsection \<open>Queries\<close>

definition Invite_query :: "'d boil \<Rightarrow> qmod list \<Rightarrow> query_mods" where
  "Invite_query B mods = table_query B Invite_info mods"

definition Invite_One :: "'d boil \<Rightarrow> context_env \<Rightarrow> 'd hooks \<Rightarrow> query_mods \<Rightarrow> ('d store, addr) prog" where
  "Invite_One B E H q = query_One B E H Invite_info q"

definition Invite_All :: "'d boil \<Rightarrow> context_env \<Rightarrow> 'd hooks \<Rightarrow> query_mods \<Rightarrow> ('d store, addr list) prog" where
  "Invite_All B E H q = query_All B E H Invite_info q"

definition Invite_Count :: "'d boil \<Rightarrow> query_mods \<Rightarrow> ('d store, int64) prog" where
  "Invite_Count B q = query_Count B Invite_info q"

definition Invite_query_Exists :: "'d boil \<Rightarrow> query_mods \<Rightarrow> ('d store, bool) prog" where
  "Invite_query_Exists B q = query_Exists B Invite_info q"

definition FindInvite :: "'d boil \<Rightarrow> context_env \<Rightarrow> 'd hooks \<Rightarrow> int64 \<Rightarrow> string list \<Rightarrow> ('d store, addr) prog" where
  "FindInvite B E H iD selectCols = Find B E H Invite_info iD selectCols"

definition Invite_Reload :: "'d boil \<Rightarrow> context_env \<Rightarrow> 'd hooks \<Rightarrow> addr \<Rightarrow> ('d store, unit) prog" where
  "Invite_Reload B E H p = Reload B E H Invite_info p"

definition Invite_slice_ReloadAll :: "'d boil \<Rightarrow> addr list \<Rightarrow> ('d store, addr list) prog" where
  "Invite_slice_ReloadAll B ps = slice_ReloadAll B Invite_info ps"

definition InviteExists :: "'d boil \<Rightarrow> int64 \<Rightarrow> ('d store, bool) prog" where
  "InviteExists B iD = row_Exists B Invite_info iD"

definition Invite_Exists :: "'d boil \<Rightarrow> addr \<Rightarrow> ('d store, bool) prog" where
  "Invite_Exists B p = obj_Exists B Invite_info p"

subsection \<open>Statements\<close>

definition Invite_Insert :: "'d boil \<Rightarrow> context_env \<Rightarrow> 'd hooks \<Rightarrow> addr option \<Rightarrow> columns \<Rightarrow> ('d store, unit) prog" where
  "Invite_Insert B E H recv cols = Insert B E H Invite_info recv cols"

definition Invite_Update :: "'d boil \<Rightarrow> context_env \<Rightarrow> 'd hooks \<Rightarrow> addr \<Rightarrow> columns \<Rightarrow> ('d store, int64) prog" where
  "Invite_Update B E H p cols = Update B E H Invite_info p cols"

definition Invite_UpdateAll :: "'d boil \<Rightarrow> query_mods \<Rightarrow> (string \<times> val) list \<Rightarrow> ('d store, int64) prog" where
  "Invite_UpdateAll B q cols = query_UpdateAll B Invite_info q cols"

definition Invite_slice_UpdateAll :: "'d boil \<Rightarrow> addr list \<Rightarrow> (string \<times> val) list \<Rightarrow> ('d store, int64) prog" where
  "Invite_slice_UpdateAll B ps cols = slice_UpdateAll B Invite_info ps cols"

definition Invite_Upsert :: "'d boil \<Rightarrow> context_env \<Rightarrow> 'd hooks \<Rightarrow> addr option \<Rightarrow> bool \<Rightarrow> string list \<Rightarrow> columns \<Rightarrow> columns \<Rightarrow> ('d store, unit) prog" where
  "Invite_Upsert B E H recv updateOnConflict conflictColumns updateColumns insertColumns = 
     Upsert B E H Invite_info recv updateOnConflict conflictColumns updateColumns insertColumns"

definition Invite_Delete :: "'d boil \<Rightarrow> context_env \<Rightarrow> 'd hooks \<Rightarrow> addr option \<Rightarrow> ('d store, int64) prog" where
  "Invite_Delete B E H recv = Delete B E H Invite_info recv"

definition Invite_DeleteAll :: "'d boil \<Rightarrow> query_mods option \<Rightarrow> ('d store, int64) prog" where
  "Invite_DeleteAll B recv = query_DeleteAll B Invite_info recv"

definition Invite_slice_DeleteAll :: "'d boil \<Rightarrow> context_env \<Rightarrow> 'd hooks \<Rightarrow> addr list \<Rightarrow> ('d store, int64) prog" where
  "Invite_slice_DeleteAll B E H ps = slice_DeleteAll B E H Invite_info ps"

subsection \<open>Relations\<close>

definition Invite_CreatedByMember_rel :: "relation" where
  "Invite_CreatedByMember_rel = 
     \<lparr>r_local = Invite_info, r_foreign = Member_info, r_lcol = ''created_by'', r_fcol = ''id'',
      r_field = ''CreatedByMember'', r_back = ''CreatedByInvites'', r_many = True\<rparr>"

definition Invite_CreatedByMember :: "'d boil \<Rightarrow> addr \<Rightarrow> qmod list \<Rightarrow> 'd store \<Rightarrow> query_mods" where
  "Invite_CreatedByMember B p mods s = one_related B Invite_CreatedByMember_rel p mods s"

definition Invite_LoadCreatedByMember :: "'d boil \<Rightarrow> context_env \<Rightarrow> 'd hooks \<Rightarrow> bool \<Rightarrow> load_target \<Rightarrow> qmod list \<Rightarrow> ('d store, unit) prog" where
  "Invite_LoadCreatedByMember B E H singular maybe mods = load_one B E H Invite_CreatedByMember_rel singular maybe mods"

definition Invite_SetCreatedByMember :: "'d boil \<Rightarrow> context_env \<Rightarrow> 'd hooks \<Rightarrow> addr \<Rightarrow> bool \<Rightarrow> addr \<Rightarrow> ('d store, unit) prog" where
  "Invite_SetCreatedByMember B E H p ins related = set_one B E H Invite_CreatedByMember_rel p ins related"

end
