(* ===== verification/ModelSession.thy ===== *)
theory ModelSession
  imports ModelInfos
begin

text \<open>The struct \<open>SIWSSBSession\<close> and its methods, \<open>roomdb/sqlite/models/SIWSSB_sessions.go\<close>: those of \<open>Boil\<close> and \<open>BoilRels\<close> for its table.\<close>

subsection \<open>Columns and conditions\<close>

definition SIWSSBSession_Columns :: "(string \<times> string) list" where
  "SIWSSBSession_Columns = 
     [(''ID'', ''id''), (''Token'', ''token''), (''MemberID'', ''member_id''), (''CreatedAt'', ''created_at'')]"

definition SIWSSBSession_TableColumns :: "(string \<times> string) list" where
  "SIWSSBSession_TableColumns = map (\<lambda>(field, c). (field, table_column SIWSSBSession_info c)) SIWSSBSession_Columns"

definition whereHelperint64 :: "cmp_op \<Rightarrow> string \<Rightarrow> int64 \<Rightarrow> qmod" where
  "whereHelperint64 cmp field x = where_op cmp field (VInt x)"

definition whereHelperint64_IN :: "string \<Rightarrow> int64 list \<Rightarrow> qmod" where
  "whereHelperint64_IN field xs = where_IN field (map VInt xs)"

definition whereHelperint64_NIN :: "string \<Rightarrow> int64 list \<Rightarrow> qmod" where
  "whereHelperint64_NIN field xs = where_NIN field (map VInt xs)"

definition whereHelperstring :: "cmp_op \<Rightarrow> string \<Rightarrow> string \<Rightarrow> qmod" where
  "whereHelperstring cmp field x = where_op cmp field (VStr x)"

definition whereHelperstring_IN :: "string \<Rightarrow> string list \<Rightarrow> qmod" where
  "whereHelperstring_IN field xs = where_IN field (map VStr xs)"

definition whereHelperstring_NIN :: "string \<Rightarrow> string list \<Rightarrow> qmod" where
  "whereHelperstring_NIN field xs = where_NIN field (map VStr xs)"

definition whereHelpertime_Time :: "cmp_op \<Rightarrow> string \<Rightarrow> time \<Rightarrow> qmod" where
  "whereHelpertime_Time cmp field x = where_op cmp field (VTime x)"

definition SIWSSBSession_Where :: "(string \<times> string) list" where
  "SIWSSBSession_Where = map (\<lambda>(field, c). (field, where_field SIWSSBSession_info c)) SIWSSBSession_Columns"

subsection \<open>Related objects\<close>

definition SIWSSBSession_Rels :: "string list" where
  "SIWSSBSession_Rels = [''Member'']"

definition SIWSSBSession_NewStruct :: "string \<Rightarrow> addr list" where
  "SIWSSBSession_NewStruct = NewStruct"

definition SIWSSBSession_GetMember :: "(string \<Rightarrow> addr list) option \<Rightarrow> addr list" where
  "SIWSSBSession_GetMember r = get_rel ''Member'' r"

subsection \<open>Hooks\<close>

definition SIWSSBSession_doAfterSelectHooks :: "context_env \<Rightarrow> 'd hooks \<Rightarrow> addr \<Rightarrow> ('d store, unit) prog" where
  "SIWSSBSession_doAfterSelectHooks E H p = do_hooks E H SIWSSBSession_info AfterSelectHook p"

definition SIWSSBSession_doBeforeInsertHooks :: "context_env \<Rightarrow> 'd hooks \<Rightarrow> addr \<Rightarrow> ('d store, unit) prog" where
  "SIWSSBSession_doBeforeInsertHooks E H p = do_hooks E H SIWSSBSession_info BeforeInsertHook p"

definition SIWSSBSession_doAfterInsertHooks :: "context_env \<Rightarrow> 'd hooks \<Rightarrow> addr \<Rightarrow> ('d store, unit) prog" where
  "SIWSSBSession_doAfterInsertHooks E H p = do_hooks E H SIWSSBSession_info AfterInsertHook p"

definition SIWSSBSession_doBeforeUpdateHooks :: "context_env \<Rightarrow> 'd hooks \<Rightarrow> addr \<Rightarrow> ('d store, unit) prog" where
  "SIWSSBSession_doBeforeUpdateHooks E H p = do_hooks E H SIWSSBSession_info BeforeUpdateHook p"

definition SIWSSBSession_doAfterUpdateHooks :: "context_env \<Rightarrow> 'd hooks \<Rightarrow> addr \<Rightarrow> ('d store, unit) prog" where
  "SIWSSBSession_doAfterUpdateHooks E H p = do_hooks E H SIWSSBSession_info AfterUpdateHook p"

definition SIWSSBSession_doBeforeDeleteHooks :: "context_env \<Rightarrow> 'd hooks \<Rightarrow> addr \<Rightarrow> ('d store, unit) prog" where
  "SIWSSBSession_doBeforeDeleteHooks E H p = do_hooks E H SIWSSBSession_info BeforeDeleteHook p"

definition SIWSSBSession_doAfterDeleteHooks :: "context_env \<Rightarrow> 'd hooks \<Rightarrow> addr \<Rightarrow> ('d store, unit) prog" where
  "SIWSSBSession_doAfterDeleteHooks E H p = do_hooks E H SIWSSBSession_info AfterDeleteHook p"

definition SIWSSBSession_doBeforeUpsertHooks :: "context_env \<Rightarrow> 'd hooks \<Rightarrow> addr \<Rightarrow> ('d store, unit) prog" where
  "SIWSSBSession_doBeforeUpsertHooks E H p = do_hooks E H SIWSSBSession_info BeforeUpsertHook p"

definition SIWSSBSession_doAfterUpsertHooks :: "context_env \<Rightarrow> 'd hooks \<Rightarrow> addr \<Rightarrow> ('d store, unit) prog" where
  "SIWSSBSession_doAfterUpsertHooks E H p = do_hooks E H SIWSSBSession_info AfterUpsertHook p"

definition AddSIWSSBSessionHook :: "hook_point \<Rightarrow> 'd hook \<Rightarrow> 'd hooks \<Rightarrow> 'd hooks" where
  "AddSIWSSBSessionHook hp hook H = add_hook SIWSSBSession_info hp hook H"

subsection \<open>Queries\<close>

definition SIWSSBSession_query :: "'d boil \<Rightarrow> qmod list \<Rightarrow> query_mods" where
  "SIWSSBSession_query B mods = table_query B SIWSSBSession_info mods"

definition SIWSSBSession_One :: "'d boil \<Rightarrow> context_env \<Rightarrow> 'd hooks \<Rightarrow> query_mods \<Rightarrow> ('d store, addr) prog" where
  "SIWSSBSession_One B E H q = query_One B E H SIWSSBSession_info q"

definition SIWSSBSession_All :: "'d boil \<Rightarrow> context_env \<Rightarrow> 'd hooks \<Rightarrow> query_mods \<Rightarrow> ('d store, addr list) prog" where
  "SIWSSBSession_All B E H q = query_All B E H SIWSSBSession_info q"

definition SIWSSBSession_Count :: "'d boil \<Rightarrow> query_mods \<Rightarrow> ('d store, int64) prog" where
  "SIWSSBSession_Count B q = query_Count B SIWSSBSession_info q"

definition SIWSSBSession_query_Exists :: "'d boil \<Rightarrow> query_mods \<Rightarrow> ('d store, bool) prog" where
  "SIWSSBSession_query_Exists B q = query_Exists B SIWSSBSession_info q"

definition FindSIWSSBSession :: "'d boil \<Rightarrow> context_env \<Rightarrow> 'd hooks \<Rightarrow> int64 \<Rightarrow> string list \<Rightarrow> ('d store, addr) prog" where
  "FindSIWSSBSession B E H iD selectCols = Find B E H SIWSSBSession_info iD selectCols"

definition SIWSSBSession_Reload :: "'d boil \<Rightarrow> context_env \<Rightarrow> 'd hooks \<Rightarrow> addr \<Rightarrow> ('d store, unit) prog" where
  "SIWSSBSession_Reload B E H p = Reload B E H SIWSSBSession_info p"

definition SIWSSBSession_slice_ReloadAll :: "'d boil \<Rightarrow> addr list \<Rightarrow> ('d store, addr list) prog" where
  "SIWSSBSession_slice_ReloadAll B ps = slice_ReloadAll B SIWSSBSession_info ps"

definition SIWSSBSessionExists :: "'d boil \<Rightarrow> int64 \<Rightarrow> ('d store, bool) prog" where
  "SIWSSBSessionExists B iD = row_Exists B SIWSSBSession_info iD"

definition SIWSSBSession_Exists :: "'d boil \<Rightarrow> addr \<Rightarrow> ('d store, bool) prog" where
  "SIWSSBSession_Exists B p = obj_Exists B SIWSSBSession_info p"

subsection \<open>Statements\<close>

definition SIWSSBSession_Insert :: "'d boil \<Rightarrow> context_env \<Rightarrow> 'd hooks \<Rightarrow> addr option \<Rightarrow> columns \<Rightarrow> ('d store, unit) prog" where
  "SIWSSBSession_Insert B E H recv cols = Insert B E H SIWSSBSession_info recv cols"

definition SIWSSBSession_Update :: "'d boil \<Rightarrow> context_env \<Rightarrow> 'd hooks \<Rightarrow> addr \<Rightarrow> columns \<Rightarrow> ('d store, int64) prog" where
  "SIWSSBSession_Update B E H p cols = Update B E H SIWSSBSession_info p cols"

definition SIWSSBSession_UpdateAll :: "'d boil \<Rightarrow> query_mods \<Rightarrow> (string \<times> val) list \<Rightarrow> ('d store, int64) prog" where
  "SIWSSBSession_UpdateAll B q cols = query_UpdateAll B SIWSSBSession_info q cols"

definition SIWSSBSession_slice_UpdateAll :: "'d boil \<Rightarrow> addr list \<Rightarrow> (string \<times> val) list \<Rightarrow> ('d store, int64) prog" where
  "SIWSSBSession_slice_UpdateAll B ps cols = slice_UpdateAll B SIWSSBSession_info ps cols"

definition SIWSSBSession_Upsert :: "'d boil \<Rightarrow> context_env \<Rightarrow> 'd hooks \<Rightarrow> addr option \<Rightarrow> bool \<Rightarrow> string list \<Rightarrow> columns \<Rightarrow> columns \<Rightarrow> ('d store, unit) prog" where
  "SIWSSBSession_Upsert B E H recv updateOnConflict conflictColumns updateColumns insertColumns = 
     Upsert B E H SIWSSBSession_info recv updateOnConflict conflictColumns updateColumns insertColumns"

definition SIWSSBSession_Delete :: "'d boil \<Rightarrow> context_env \<Rightarrow> 'd hooks \<Rightarrow> addr option \<Rightarrow> ('d store, int64) prog" where
  "SIWSSBSession_Delete B E H recv = Delete B E H SIWSSBSession_info recv"

definition SIWSSBSession_DeleteAll :: "'d boil \<Rightarrow> query_mods option \<Rightarrow> ('d store, int64) prog" where
  "SIWSSBSession_DeleteAll B recv = query_DeleteAll B SIWSSBSession_info recv"

definition SIWSSBSession_slice_DeleteAll :: "'d boil \<Rightarrow> context_env \<Rightarrow> 'd hooks \<Rightarrow> addr list \<Rightarrow> ('d store, int64) prog" where
  "SIWSSBSession_slice_DeleteAll B E H ps = slice_DeleteAll B E H SIWSSBSession_info ps"

subsection \<open>Relations\<close>

definition SIWSSBSession_Member_rel :: "relation" where
  "SIWSSBSession_Member_rel = 
     \<lparr>r_local = SIWSSBSession_info, r_foreign = Member_info, r_lcol = ''member_id'', r_fcol = ''id'',
      r_field = ''Member'', r_back = ''SIWSSBSessions'', r_many = True\<rparr>"

definition SIWSSBSession_Member :: "'d boil \<Rightarrow> addr \<Rightarrow> qmod list \<Rightarrow> 'd store \<Rightarrow> query_mods" where
  "SIWSSBSession_Member B p mods s = one_related B SIWSSBSession_Member_rel p mods s"

definition SIWSSBSession_LoadMember :: "'d boil \<Rightarrow> context_env \<Rightarrow> 'd hooks \<Rightarrow> bool \<Rightarrow> load_target \<Rightarrow> qmod list \<Rightarrow> ('d store, unit) prog" where
  "SIWSSBSession_LoadMember B E H singular maybe mods = load_one B E H SIWSSBSession_Member_rel singular maybe mods"

definition SIWSSBSession_SetMember :: "'d boil \<Rightarrow> context_env \<Rightarrow> 'd hooks \<Rightarrow> addr \<Rightarrow> bool \<Rightarrow> addr \<Rightarrow> ('d store, unit) prog" where
  "SIWSSBSession_SetMember B E H p ins related = set_one B E H SIWSSBSession_Member_rel p ins related"

end
