(* ===== verification/ModelMember.thy ===== *)
theory ModelMember
  imports ModelInfos
begin

text \<open>The struct \<open>Member\<close> and its methods, \<open>roomdb/sqlite/models/members.go\<close>: those of \<open>Boil\<close> and \<open>BoilRels\<close> for its table.\<close>

subsection \<open>Columns and conditions\<close>

definition Member_Columns :: "(string \<times> string) list" where
  "Member_Columns = 
     [(''ID'', ''id''), (''Role'', ''role''), (''PubKey'', ''pub_key'')]"

definition Member_TableColumns :: "(string \<times> string) list" where
  "Member_TableColumns = map (\<lambda>(field, c). (field, table_column Member_info c)) Member_Columns"

definition Member_Where :: "(string \<times> string) list" where
  "Member_Where = map (\<lambda>(field, c). (field, where_field Member_info c)) Member_Columns"

subsection \<open>Related objects\<close>

definition Member_Rels :: "string list" where
  "Member_Rels = [''FallbackPassword'', ''SIWSSBSessions'', ''Aliases'', ''ForMemberFallbackResetTokens'', ''CreatedByFallbackResetTokens'', ''CreatedByInvites'']"

definition Member_NewStruct :: "string \<Rightarrow> addr list" where
  "Member_NewStruct = NewStruct"

definition Member_GetFallbackPassword :: "(string \<Rightarrow> addr list) option \<Rightarrow> addr list" where
  "Member_GetFallbackPassword r = get_rel ''FallbackPassword'' r"

definition Member_GetSIWSSBSessions :: "(string \<Rightarrow> addr list) option \<Rightarrow> addr list" where
  "Member_GetSIWSSBSessions r = get_rel ''SIWSSBSessions'' r"

definition Member_GetAliases :: "(string \<Rightarrow> addr list) option \<Rightarrow> addr list" where
  "Member_GetAliases r = get_rel ''Aliases'' r"

definition Member_GetForMemberFallbackResetTokens :: "(string \<Rightarrow> addr list) option \<Rightarrow> addr list" where
  "Member_GetForMemberFallbackResetTokens r = get_rel ''ForMemberFallbackResetTokens'' r"

definition Member_GetCreatedByFallbackResetTokens :: "(string \<Rightarrow> addr list) option \<Rightarrow> addr list" where
  "Member_GetCreatedByFallbackResetTokens r = get_rel ''CreatedByFallbackResetTokens'' r"

definition Member_GetCreatedByInvites :: "(string \<Rightarrow> addr list) option \<Rightarrow> addr list" where
  "Member_GetCreatedByInvites r = get_rel ''CreatedByInvites'' r"

subsection \<open>Hooks\<close>

definition Member_doAfterSelectHooks :: "context_env \<Rightarrow> 'd hooks \<Rightarrow> addr \<Rightarrow> ('d store, unit) prog" where
  "Member_doAfterSelectHooks E H p = do_hooks E H Member_info AfterSelectHook p"

definition Member_doBeforeInsertHooks :: "context_env \<Rightarrow> 'd hooks \<Rightarrow> addr \<Rightarrow> ('d store, unit) prog" where
  "Member_doBeforeInsertHooks E H p = do_hooks E H Member_info BeforeInsertHook p"

definition Member_doAfterInsertHooks :: "context_env \<Rightarrow> 'd hooks \<Rightarrow> addr \<Rightarrow> ('d store, unit) prog" where
  "Member_doAfterInsertHooks E H p = do_hooks E H Member_info AfterInsertHook p"

definition Member_doBeforeUpdateHooks :: "context_env \<Rightarrow> 'd hooks \<Rightarrow> addr \<Rightarrow> ('d store, unit) prog" where
  "Member_doBeforeUpdateHooks E H p = do_hooks E H Member_info BeforeUpdateHook p"

definition Member_doAfterUpdateHooks :: "context_env \<Rightarrow> 'd hooks \<Rightarrow> addr \<Rightarrow> ('d store, unit) prog" where
  "Member_doAfterUpdateHooks E H p = do_hooks E H Member_info AfterUpdateHook p"

definition Member_doBeforeDeleteHooks :: "context_env \<Rightarrow> 'd hooks \<Rightarrow> addr \<Rightarrow> ('d store, unit) prog" where
  "Member_doBeforeDeleteHooks E H p = do_hooks E H Member_info BeforeDeleteHook p"

definition Member_doAfterDeleteHooks :: "context_env \<Rightarrow> 'd hooks \<Rightarrow> addr \<Rightarrow> ('d store, unit) prog" where
  "Member_doAfterDeleteHooks E H p = do_hooks E H Member_info AfterDeleteHook p"

definition Member_doBeforeUpsertHooks :: "context_env \<Rightarrow> 'd hooks \<Rightarrow> addr \<Rightarrow> ('d store, unit) prog" where
  "Member_doBeforeUpsertHooks E H p = do_hooks E H Member_info BeforeUpsertHook p"

definition Member_doAfterUpsertHooks :: "context_env \<Rightarrow> 'd hooks \<Rightarrow> addr \<Rightarrow> ('d store, unit) prog" where
  "Member_doAfterUpsertHooks E H p = do_hooks E H Member_info AfterUpsertHook p"

definition AddMemberHook :: "hook_point \<Rightarrow> 'd hook \<Rightarrow> 'd hooks \<Rightarrow> 'd hooks" where
  "AddMemberHook hp hook H = add_hook Member_info hp hook H"

subsection \<open>Queries\<close>

definition Member_query :: "'d boil \<Rightarrow> qmod list \<Rightarrow> query_mods" where
  "Member_query B mods = table_query B Member_info mods"

definition Member_One :: "'d boil \<Rightarrow> context_env \<Rightarrow> 'd hooks \<Rightarrow> query_mods \<Rightarrow> ('d store, addr) prog" where
  "Member_One B E H q = query_One B E H Member_info q"

definition Member_All :: "'d boil \<Rightarrow> context_env \<Rightarrow> 'd hooks \<Rightarrow> query_mods \<Rightarrow> ('d store, addr list) prog" where
  "Member_All B E H q = query_All B E H Member_info q"

definition Member_Count :: "'d boil \<Rightarrow> query_mods \<Rightarrow> ('d store, int64) prog" where
  "Member_Count B q = query_Count B Member_info q"

definition Member_query_Exists :: "'d boil \<Rightarrow> query_mods \<Rightarrow> ('d store, bool) prog" where
  "Member_query_Exists B q = query_Exists B Member_info q"

definition FindMember :: "'d boil \<Rightarrow> context_env \<Rightarrow> 'd hooks \<Rightarrow> int64 \<Rightarrow> string list \<Rightarrow> ('d store, addr) prog" where
  "FindMember B E H iD selectCols = Find B E H Member_info iD selectCols"

definition Member_Reload :: "'d boil \<Rightarrow> context_env \<Rightarrow> 'd hooks \<Rightarrow> addr \<Rightarrow> ('d store, unit) prog" where
  "Member_Reload B E H p = Reload B E H Member_info p"

definition Member_slice_ReloadAll :: "'d boil \<Rightarrow> addr list \<Rightarrow> ('d store, addr list) prog" where
  "Member_slice_ReloadAll B ps = slice_ReloadAll B Member_info ps"

definition MemberExists :: "'d boil \<Rightarrow> int64 \<Rightarrow> ('d store, bool) prog" where
  "MemberExists B iD = row_Exists B Member_info iD"

definition Member_Exists :: "'d boil \<Rightarrow> addr \<Rightarrow> ('d store, bool) prog" where
  "Member_Exists B p = obj_Exists B Member_info p"

subsection \<open>Statements\<close>

definition Member_Insert :: "'d boil \<Rightarrow> context_env \<Rightarrow> 'd hooks \<Rightarrow> addr option \<Rightarrow> columns \<Rightarrow> ('d store, unit) prog" where
  "Member_Insert B E H recv cols = Insert B E H Member_info recv cols"

definition Member_Update :: "'d boil \<Rightarrow> context_env \<Rightarrow> 'd hooks \<Rightarrow> addr \<Rightarrow> columns \<Rightarrow> ('d store, int64) prog" where
  "Member_Update B E H p cols = Update B E H Member_info p cols"

definition Member_UpdateAll :: "'d boil \<Rightarrow> query_mods \<Rightarrow> (string \<times> val) list \<Rightarrow> ('d store, int64) prog" where
  "Member_UpdateAll B q cols = query_UpdateAll B Member_info q cols"

definition Member_slice_UpdateAll :: "'d boil \<Rightarrow> addr list \<Rightarrow> (string \<times> val) list \<Rightarrow> ('d store, int64) prog" where
  "Member_slice_UpdateAll B ps cols = slice_UpdateAll B Member_info ps cols"

definition Member_Upsert :: "'d boil \<Rightarrow> context_env \<Rightarrow> 'd hooks \<Rightarrow> addr option \<Rightarrow> bool \<Rightarrow> string list \<Rightarrow> columns \<Rightarrow> columns \<Rightarrow> ('d store, unit) prog" where
  "Member_Upsert B E H recv updateOnConflict conflictColumns updateColumns insertColumns = 
     Upsert B E H Member_info recv updateOnConflict conflictColumns updateColumns insertColumns"

definition Member_Delete :: "'d boil \<Rightarrow> context_env \<Rightarrow> 'd hooks \<Rightarrow> addr option \<Rightarrow> ('d store, int64) prog" where
  "Member_Delete B E H recv = Delete B E H Member_info recv"

definition Member_DeleteAll :: "'d boil \<Rightarrow> query_mods option \<Rightarrow> ('d store, int64) prog" where
  "Member_DeleteAll B recv = query_DeleteAll B Member_info recv"

definition Member_slice_DeleteAll :: "'d boil \<Rightarrow> context_env \<Rightarrow> 'd hooks \<Rightarrow> addr list \<Rightarrow> ('d store, int64) prog" where
  "Member_slice_DeleteAll B E H ps = slice_DeleteAll B E H Member_info ps"

subsection \<open>Relations\<close>

definition Member_FallbackPassword_rel :: "relation" where
  "Member_FallbackPassword_rel = 
     \<lparr>r_local = Member_info, r_foreign = FallbackPassword_info, r_lcol = ''id'', r_fcol = ''member_id'',
      r_field = ''FallbackPassword'', r_back = ''Member'', r_many = False\<rparr>"

definition Member_FallbackPassword :: "'d boil \<Rightarrow> addr \<Rightarrow> qmod list \<Rightarrow> 'd store \<Rightarrow> query_mods" where
  "Member_FallbackPassword B p mods s = one_related B Member_FallbackPassword_rel p mods s"

definition Member_LoadFallbackPassword :: "'d boil \<Rightarrow> context_env \<Rightarrow> 'd hooks \<Rightarrow> bool \<Rightarrow> load_target \<Rightarrow> qmod list \<Rightarrow> ('d store, unit) prog" where
  "Member_LoadFallbackPassword B E H singular maybe mods = load_one B E H Member_FallbackPassword_rel singular maybe mods"

definition Member_SetFallbackPassword :: "'d boil \<Rightarrow> context_env \<Rightarrow> 'd hooks \<Rightarrow> addr \<Rightarrow> bool \<Rightarrow> addr \<Rightarrow> ('d store, unit) prog" where
  "Member_SetFallbackPassword B E H p ins related = set_foreign B E H Member_FallbackPassword_rel p ins related"

definition Member_SIWSSBSessions_rel :: "relation" where
  "Member_SIWSSBSessions_rel = 
     \<lparr>r_local = Member_info, r_foreign = SIWSSBSession_info, r_lcol = ''id'', r_fcol = ''member_id'',
      r_field = ''SIWSSBSessions'', r_back = ''Member'', r_many = False\<rparr>"

definition Member_SIWSSBSessions :: "'d boil \<Rightarrow> addr \<Rightarrow> qmod list \<Rightarrow> 'd store \<Rightarrow> query_mods" where
  "Member_SIWSSBSessions B p mods s = all_related B Member_SIWSSBSessions_rel p mods s"

definition Member_LoadSIWSSBSessions :: "'d boil \<Rightarrow> context_env \<Rightarrow> 'd hooks \<Rightarrow> bool \<Rightarrow> load_target \<Rightarrow> qmod list \<Rightarrow> ('d store, unit) prog" where
  "Member_LoadSIWSSBSessions B E H singular maybe mods = load_many B E H Member_SIWSSBSessions_rel singular maybe mods"

definition Member_AddSIWSSBSessions :: "'d boil \<Rightarrow> context_env \<Rightarrow> 'd hooks \<Rightarrow> addr \<Rightarrow> bool \<Rightarrow> addr list \<Rightarrow> ('d store, unit) prog" where
  "Member_AddSIWSSBSessions B E H p ins related = add_foreign B E H Member_SIWSSBSessions_rel p ins related"

definition Member_Aliases_rel :: "relation" where
  "Member_Aliases_rel = 
     \<lparr>r_local = Member_info, r_foreign = Alias_info, r_lcol = ''id'', r_fcol = ''member_id'',
      r_field = ''Aliases'', r_back = ''Member'', r_many = False\<rparr>"

definition Member_Aliases :: "'d boil \<Rightarrow> addr \<Rightarrow> qmod list \<Rightarrow> 'd store \<Rightarrow> query_mods" where
  "Member_Aliases B p mods s = all_related B Member_Aliases_rel p mods s"

definition Member_LoadAliases :: "'d boil \<Rightarrow> context_env \<Rightarrow> 'd hooks \<Rightarrow> bool \<Rightarrow> load_target \<Rightarrow> qmod list \<Rightarrow> ('d store, unit) prog" where
  "Member_LoadAliases B E H singular maybe mods = load_many B E H Member_Aliases_rel singular maybe mods"

definition Member_AddAliases :: "'d boil \<Rightarrow> context_env \<Rightarrow> 'd hooks \<Rightarrow> addr \<Rightarrow> bool \<Rightarrow> addr list \<Rightarrow> ('d store, unit) prog" where
  "Member_AddAliases B E H p ins related = add_foreign B E H Member_Aliases_rel p ins related"

definition Member_ForMemberFallbackResetTokens_rel :: "relation" where
  "Member_ForMemberFallbackResetTokens_rel = 
     \<lparr>r_local = Member_info, r_foreign = FallbackResetToken_info, r_lcol = ''id'', r_fcol = ''for_member'',
      r_field = ''ForMemberFallbackResetTokens'', r_back = ''ForMemberMember'', r_many = False\<rparr>"

definition Member_ForMemberFallbackResetTokens :: "'d boil \<Rightarrow> addr \<Rightarrow> qmod list \<Rightarrow> 'd store \<Rightarrow> query_mods" where
  "Member_ForMemberFallbackResetTokens B p mods s = all_related B Member_ForMemberFallbackResetTokens_rel p mods s"

definition Member_LoadForMemberFallbackResetTokens :: "'d boil \<Rightarrow> context_env \<Rightarrow> 'd hooks \<Rightarrow> bool \<Rightarrow> load_target \<Rightarrow> qmod list \<Rightarrow> ('d store, unit) prog" where
  "Member_LoadForMemberFallbackResetTokens B E H singular maybe mods = load_many B E H Member_ForMemberFallbackResetTokens_rel singular maybe mods"

definition Member_AddForMemberFallbackResetTokens :: "'d boil \<Rightarrow> context_env \<Rightarrow> 'd hooks \<Rightarrow> addr \<Rightarrow> bool \<Rightarrow> addr list \<Rightarrow> ('d store, unit) prog" where
  "Member_AddForMemberFallbackResetTokens B E H p ins related = add_foreign B E H Member_ForMemberFallbackResetTokens_rel p ins related"

definition Member_CreatedByFallbackResetTokens_rel :: "relation" where
  "Member_CreatedByFallbackResetTokens_rel = 
     \<lparr>r_local = Member_info, r_foreign = FallbackResetToken_info, r_lcol = ''id'', r_fcol = ''created_by'',
      r_field = ''CreatedByFallbackResetTokens'', r_back = ''CreatedByMember'', r_many = False\<rparr>"

definition Member_CreatedByFallbackResetTokens :: "'d boil \<Rightarrow> addr \<Rightarrow> qmod list \<Rightarrow> 'd store \<Rightarrow> query_mods" where
  "Member_CreatedByFallbackResetTokens B p mods s = all_related B Member_CreatedByFallbackResetTokens_rel p mods s"

definition Member_LoadCreatedByFallbackResetTokens :: "'d boil \<Rightarrow> context_env \<Rightarrow> 'd hooks \<Rightarrow> bool \<Rightarrow> load_target \<Rightarrow> qmod list \<Rightarrow> ('d store, unit) prog" where
  "Member_LoadCreatedByFallbackResetTokens B E H singular maybe mods = load_many B E H Member_CreatedByFallbackResetTokens_rel singular maybe mods"

definition Member_AddCreatedByFallbackResetTokens :: "'d boil \<Rightarrow> context_env \<Rightarrow> 'd hooks \<Rightarrow> addr \<Rightarrow> bool \<Rightarrow> addr list \<Rightarrow> ('d store, unit) prog" where
  "Member_AddCreatedByFallbackResetTokens B E H p ins related = add_foreign B E H Member_CreatedByFallbackResetTokens_rel p ins related"

definition Member_CreatedByInvites_rel :: "relation" where
  "Member_CreatedByInvites_rel = 
     \<lparr>r_local = Member_info, r_foreign = Invite_info, r_lcol = ''id'', r_fcol = ''created_by'',
      r_field = ''CreatedByInvites'', r_back = ''CreatedByMember'', r_many = False\<rparr>"

definition Member_CreatedByInvites :: "'d boil \<Rightarrow> addr \<Rightarrow> qmod list \<Rightarrow> 'd store \<Rightarrow> query_mods" where
  "Member_CreatedByInvites B p mods s = all_related B Member_CreatedByInvites_rel p mods s"

definition Member_LoadCreatedByInvites :: "'d boil \<Rightarrow> context_env \<Rightarrow> 'd hooks \<Rightarrow> bool \<Rightarrow> load_target \<Rightarrow> qmod list \<Rightarrow> ('d store, unit) prog" where
  "Member_LoadCreatedByInvites B E H singular maybe mods = load_many B E H Member_CreatedByInvites_rel singular maybe mods"

definition Member_AddCreatedByInvites :: "'d boil \<Rightarrow> context_env \<Rightarrow> 'd hooks \<Rightarrow> addr \<Rightarrow> bool \<Rightarrow> addr list \<Rightarrow> ('d store, unit) prog" where
  "Member_AddCreatedByInvites B E H p ins related = add_foreign B E H Member_CreatedByInvites_rel p ins related"

end
