(* ===== verification/BoilRefine.thy ===== *)
theory BoilRefine
  imports BoilCache ModelAlias ModelInvite ModelSession ModelMember Invites Sessions Denied
begin

text \<open>
  The statements the access code sends are the statements of \<open>Database\<close>. What SQL means is stated for the
  texts the code builds, whatever order their columns come in: the meaning of an insert fills the columns
  that are left out with the defaults of the migrations.
\<close>

subsection \<open>The meaning of an insert\<close>

text \<open>\<open>f\<close> gives the columns that are in the statement. \<open>now\<close> is the time of the database, which it keeps in seconds.\<close>

definition with_default :: "val \<Rightarrow> val option \<Rightarrow> val" where
  "with_default d v = (case v of None \<Rightarrow> d | Some x \<Rightarrow> x)"

definition mismatch :: "db \<Rightarrow> (int64 \<times> db) res" where
  "mismatch d = Inl driver_error"

definition sql_insert_alias :: "(string \<Rightarrow> val option) \<Rightarrow> db \<Rightarrow> (int64 \<times> db) res" where
  "sql_insert_alias f =
     (case (f ''name'', f ''member_id'', f ''signature'') of
        (Some (VStr n), Some (VInt m), Some (VBytes g)) \<Rightarrow> insert_alias \<lparr>al_name = n, al_member = m, al_signature = g\<rparr>
      | _ \<Rightarrow> mismatch)"

definition sql_insert_member :: "(string \<Rightarrow> val option) \<Rightarrow> db \<Rightarrow> (int64 \<times> db) res" where
  "sql_insert_member f =
     (case (f ''role'', f ''pub_key'') of
        (Some (VInt r), Some (VRef k)) \<Rightarrow> insert_member \<lparr>mb_role = word_of_int r, mb_pub_key = k\<rparr>
      | _ \<Rightarrow> mismatch)"

definition sql_insert_invite :: "time \<Rightarrow> (string \<Rightarrow> val option) \<Rightarrow> db \<Rightarrow> (int64 \<times> db) res" where
  "sql_insert_invite now f =
     (case (f ''hashed_token'', f ''created_by'', with_default (VTime (current_timestamp now)) (f ''created_at''),
            with_default (VBool True) (f ''active'')) of
        (Some (VStr h), Some (VInt b), VTime t, VBool a) \<Rightarrow>
          insert_invite \<lparr>iv_hash = h, iv_by = b, iv_at = t, iv_active = a\<rparr>
      | _ \<Rightarrow> mismatch)"

definition sql_insert_session :: "time \<Rightarrow> (string \<Rightarrow> val option) \<Rightarrow> db \<Rightarrow> (int64 \<times> db) res" where
  "sql_insert_session now f =
     (case (f ''token'', f ''member_id'', with_default (VTime (current_timestamp now)) (f ''created_at'')) of
        (Some (VStr k), Some (VInt m), VTime t) \<Rightarrow> insert_session \<lparr>ss_token = k, ss_member = m, ss_at = t\<rparr>
      | _ \<Rightarrow> mismatch)"

definition sql_insert_denied :: "time \<Rightarrow> (string \<Rightarrow> val option) \<Rightarrow> db \<Rightarrow> (int64 \<times> db) res" where
  "sql_insert_denied now f =
     (case (f ''pub_key'', f ''comment'', with_default (VTime (current_timestamp now)) (f ''created_at'')) of
        (Some (VRef k), Some (VStr c), VTime t) \<Rightarrow> insert_denied \<lparr>dn_pub_key = k, dn_comment = c, dn_at = t\<rparr>
      | _ \<Rightarrow> mismatch)"

definition sql_insert_password :: "(string \<Rightarrow> val option) \<Rightarrow> db \<Rightarrow> (int64 \<times> db) res" where
  "sql_insert_password f =
     (case (f ''password_hash'', f ''member_id'') of
        (Some (VBytes h), Some (VInt m)) \<Rightarrow> insert_password \<lparr>pw_hash = h, pw_member = m\<rparr>
      | _ \<Rightarrow> mismatch)"

definition sql_insert_reset :: "time \<Rightarrow> (string \<Rightarrow> val option) \<Rightarrow> db \<Rightarrow> (int64 \<times> db) res" where
  "sql_insert_reset now f =
     (case (f ''hashed_token'', f ''created_by'', with_default (VTime (current_timestamp now)) (f ''created_at''),
            f ''for_member'', with_default (VBool True) (f ''active'')) of
        (Some (VStr h), Some (VInt b), VTime t, Some (VInt m), VBool a) \<Rightarrow>
          insert_reset \<lparr>rs_hash = h, rs_by = b, rs_at = t, rs_for = m, rs_active = a\<rparr>
      | _ \<Rightarrow> mismatch)"

definition sql_insert_notice :: "(string \<Rightarrow> val option) \<Rightarrow> db \<Rightarrow> (int64 \<times> db) res" where
  "sql_insert_notice f =
     (case (f ''title'', f ''content'', f ''language'') of
        (Some (VStr t), Some (VStr c), Some (VStr l)) \<Rightarrow>
          insert_notice \<lparr>nr_title = t, nr_content = c, nr_language = l\<rparr>
      | _ \<Rightarrow> mismatch)"

definition sql_insert :: "string \<Rightarrow> time \<Rightarrow> (string \<Rightarrow> val option) \<Rightarrow> db \<Rightarrow> (int64 \<times> db) res" where
  "sql_insert tbl now f =
     (if tbl = ''aliases'' then sql_insert_alias f
      else if tbl = ''members'' then sql_insert_member f
      else if tbl = ''invites'' then sql_insert_invite now f
      else if tbl = ''SIWSSB_sessions'' then sql_insert_session now f
      else if tbl = ''denied_keys'' then sql_insert_denied now f
      else if tbl = ''fallback_passwords'' then sql_insert_password f
      else if tbl = ''fallback_reset_tokens'' then sql_insert_reset now f
      else if tbl = ''notices'' then sql_insert_notice f
      else mismatch)"

text \<open>The values of the columns after \<open>RETURNING\<close>.\<close>

definition sql_returned :: "time \<Rightarrow> (string \<Rightarrow> val option) \<Rightarrow> int64 \<Rightarrow> string \<Rightarrow> val" where
  "sql_returned now f i c =
     (if c = ''id'' then VInt i
      else with_default (if c = ''created_at'' then VTime (current_timestamp now) else VBool True) (f c))"

subsection \<open>What the library promises\<close>

text \<open>
  The documented meaning of the sets of columns: an inferred insert has the columns without a default and those
  whose value is not the zero value and returns the other ones that have a default; a whitelist is what it says.
\<close>

definition column_laws :: "'d boil \<Rightarrow> bool" where
  "column_laws B \<longleftrightarrow>
     (\<forall>xs ys. bl_complement B xs ys = filter (\<lambda>x. x \<notin> set ys) xs)
     \<and> (\<forall>T cs. set cs \<subseteq> set (t_all T) \<longrightarrow> bl_mapping B T cs = Inr cs)
     \<and> (\<forall>ds f. bl_nonzero B ds f = filter (\<lambda>c. \<not> val_zero (f c)) ds)"

definition infer_law :: "'d boil \<Rightarrow> info \<Rightarrow> bool" where
  "infer_law B T \<longleftrightarrow> c_kind (bl_infer B) < 10 \<and> c_cols (bl_infer B) = [] \<and>
     (\<forall>nz. set nz \<subseteq> set (t_def T) \<longrightarrow>
        (let sets = bl_insert_set B (bl_infer B) (t_all T) (t_def T) (t_nodef T) nz in
         distinct (fst sets) \<and> set (fst sets) = set (t_nodef T) \<union> set nz
         \<and> distinct (snd sets) \<and> set (snd sets) = set (t_def T) - set (fst sets)))"

definition whitelist_law :: "'d boil \<Rightarrow> info \<Rightarrow> columns \<Rightarrow> bool" where
  "whitelist_law B T cols \<longleftrightarrow> bl_is_whitelist B cols \<and> valid_columns T cols \<and> distinct (c_cols cols)
     \<and> (\<forall>nz. set nz \<subseteq> set (t_def T) \<longrightarrow>
          (let sets = bl_insert_set B cols (t_all T) (t_def T) (t_nodef T) nz in
           fst sets = c_cols cols \<and> distinct (snd sets) \<and> set (snd sets) = set (t_def T) - set (c_cols cols)))
     \<and> bl_update_set B cols (t_all T) (t_pk T) = c_cols cols"

text \<open>The driver runs the text of an insert with these columns as SQL says.\<close>

definition speaks_insert :: "db conn boil \<Rightarrow> time \<Rightarrow> string \<Rightarrow> string list \<Rightarrow> string list \<Rightarrow> bool" where
  "speaks_insert B now tbl wl returns \<longleftrightarrow> (\<forall>vals. length vals = length wl \<longrightarrow>
     bl_row B (insert_text B tbl wl returns) vals =
       stmt (\<lambda>d. map_res (\<lambda>(i, d'). (map (sql_returned now (map_of (zip wl vals)) i) returns, d'))
                   (sql_insert tbl now (map_of (zip wl vals)) d)))"

text \<open>The columns and the returned columns of an insert.\<close>

definition insert_lists :: "'d boil \<Rightarrow> info \<Rightarrow> columns \<Rightarrow> string list \<Rightarrow> string list \<times> string list" where
  "insert_lists B T cols nz =
     (let sets = bl_insert_set B cols (t_all T) (t_def T) (t_nodef T) nz in (bl_complement B (fst sets) (t_gen T), snd sets))"

subsection \<open>An insert is its statement\<close>

definition given :: "string list \<Rightarrow> (string \<Rightarrow> val) \<Rightarrow> string \<Rightarrow> val option" where
  "given wl f c = (if List.member wl c then Some (f c) else None)"

lemma map_of_given: "map_of (zip wl (map f wl)) = given wl f"
  by (rule ext) (simp add: given_def map_of_zip_map)

lemma pret_pair: "pret x = Pair (Inr x)"
  by (rule ext) simp

lemma no_hooks_run [simp]: "do_hooks E no_hooks T hp p = pret ()"
  by (rule ext) (simp add: do_hooks_def no_hooks_def)

lemma scan_into_other: "c \<notin> set cs \<Longrightarrow> o_cols (scan_into cs vs ob) c = o_cols ob c"
  by (induction cs vs ob rule: scan_into.induct) (simp_all add: set_col_def)

lemma scan_into_col:
  "distinct cs \<Longrightarrow> c \<in> set cs \<Longrightarrow> o_cols (scan_into cs (map g cs) ob) c = g c"
proof (induction cs arbitrary: ob)
  case (Cons a cs)
  then show ?case by (cases "c = a") (auto simp: scan_into_other set_col_def)
qed simp

lemma stamp_simps [simp]: "st_db (stamp E T p s) = st_db s" "caches_ok B (stamp E T p s) = caches_ok B s"
  by (simp_all add: stamp_def set_obj_def caches_ok_def)

lemma through_cache_run:
  assumes "(case get s k of None \<Rightarrow> build | Some c \<Rightarrow> Inr c) = build" "build = Inr c"
  shows "through_cache get put k build issue s =
    (case issue c s of (Inl e, t) \<Rightarrow> (Inl e, t) | (Inr x, t) \<Rightarrow> (Inr x, if get s k = None then put k c t else t))"
  using through_cache_built [of build get s k put issue, OF assms(1)]
  by (auto simp: assms(2) pthen_def split: prod.splits sum.splits)

lemma Insert_cached:
  assumes "caches_ok B s" "valid_insert (T, cols, nz)" "build_insert B T cols nz = Inr c"
    and nz: "nz = bl_nonzero B (t_def T) (cols_of p (stamp E T p s))"
  shows "\<exists>g. (\<forall>t. forget (g t) = forget t) \<and> Insert B E no_hooks T (Some p) cols s =
    (case run_returning B (\<lambda>_. False) c p (stamp E T p s) of
       (Inl e, t) \<Rightarrow> (Inl (Wrapped (''models: unable to insert into '' @ t_name T) e), t)
     | (Inr _, t) \<Rightarrow> (Inr (), g t))"
proof -
  let ?s = "stamp E T p s" and ?k = "(t_name T, makeCacheKey cols nz)"
  have found: "(case st_inserts ?s ?k of None \<Rightarrow> build_insert B T cols nz | Some c \<Rightarrow> Inr c) = build_insert B T cols nz"
    using inserts.lookup_or_build [OF _ assms(2), of B "st_inserts ?s", unfolded keyed_applied] stamp_simps(2) [of B E T p s] assms(1)
    by (simp add: caches_ok_def)
  let ?g = "\<lambda>t. if st_inserts ?s ?k = None then put_insert ?k c t else t"
  let ?issue = "\<lambda>c. pwrap (wrap_msg (''models: unable to insert into '' @ t_name T)) (run_returning B (\<lambda>_. False) c p)"
  have "Insert B E no_hooks T (Some p) cols s = pthen (through_cache st_inserts put_insert ?k (build_insert B T cols nz) ?issue) (\<lambda>_. pret ()) ?s"
    by (simp add: Insert_def nz [symmetric])
  also have "\<dots> = (case run_returning B (\<lambda>_. False) c p ?s of
       (Inl e, t) \<Rightarrow> (Inl (Wrapped (''models: unable to insert into '' @ t_name T) e), t)
     | (Inr _, t) \<Rightarrow> (Inr (), ?g t))"
    unfolding pthen_def through_cache_run [where get = st_inserts and put = put_insert and k = ?k, OF found assms(3)]
    by (auto simp: pwrap_def wrap_msg_def split: prod.splits sum.splits)
  finally have "Insert B E no_hooks T (Some p) cols s = (case run_returning B (\<lambda>_. False) c p ?s of
       (Inl e, t) \<Rightarrow> (Inl (Wrapped (''models: unable to insert into '' @ t_name T) e), t)
     | (Inr _, t) \<Rightarrow> (Inr (), ?g t))" .
  then show ?thesis by (intro exI [of _ ?g]) simp
qed

lemma Insert_refines:
  assumes "column_laws B" "caches_ok B s" "valid_insert (T, cols, nz)"
    and nz: "nz = bl_nonzero B (t_def T) (cols_of p (stamp E T p s))"
    and lists: "insert_lists B T cols nz = (wl, returns)" "set wl \<subseteq> set (t_all T)" "set returns \<subseteq> set (t_all T)"
      "distinct returns" "''id'' \<in> set returns"
    and speaks: "speaks_insert B now (t_name T) wl returns"
  shows "(case exec (''models: unable to insert into '' @ t_name T)
                (sql_insert (t_name T) now (given wl (cols_of p (stamp E T p s)))) (st_db s) of
            (Inl e, d) \<Rightarrow> fst (Insert B E no_hooks T (Some p) cols s) = Inl e \<and> st_db (snd (Insert B E no_hooks T (Some p) cols s)) = d
          | (Inr i, d) \<Rightarrow> fst (Insert B E no_hooks T (Some p) cols s) = Inr () \<and> st_db (snd (Insert B E no_hooks T (Some p) cols s)) = d
              \<and> cols_of p (snd (Insert B E no_hooks T (Some p) cols s)) ''id'' = VInt i)"
proof -
  let ?s = "stamp E T p s"
  let ?f = "given wl (cols_of p ?s)"
  define c where "c = \<lparr>ic_query = insert_text B (t_name T) wl returns, ic_values = wl, ic_returns = returns\<rparr>"
  have "returns \<noteq> []" using lists(5) by auto
  then have built: "build_insert B T cols nz = Inr c"
    using assms(1) lists(1-3) by (simp add: build_insert_def insert_lists_def Let_def column_laws_def c_def)
  obtain g where g: "\<And>t. forget (g t) = forget t" "Insert B E no_hooks T (Some p) cols s =
    (case run_returning B (\<lambda>_. False) c p ?s of
       (Inl e, t) \<Rightarrow> (Inl (Wrapped (''models: unable to insert into '' @ t_name T) e), t)
     | (Inr _, t) \<Rightarrow> (Inr (), g t))"
    using Insert_cached [OF assms(2,3) built nz] by blast
  have row: "bl_row B (insert_text B (t_name T) wl returns) (map (cols_of p ?s) wl) (st_db s) =
    stmt (\<lambda>d. map_res (\<lambda>(i, d'). (map (sql_returned now ?f i) returns, d')) (sql_insert (t_name T) now ?f d)) (st_db s)"
    using speaks by (simp add: speaks_insert_def map_of_given)
  have ident: "o_cols (scan_into returns (map (sql_returned now ?f i) returns) ob) ''id'' = VInt i" for i ob
    using scan_into_col [OF lists(4,5)] by (simp add: sql_returned_def)
  have after: "st_db (g t) = st_db t" "cols_of p (g t) = cols_of p t" for t
    using g(1) [of t] by (simp_all add: forget_eq cols_of_def)
  show ?thesis
    using \<open>returns \<noteq> []\<close> row
    by (auto simp: g(2) run_returning_def c_def db_call_def stmt_def exec_def on_error_def after ident set_obj_def
        cols_of_def [of _ "_\<lparr>st_heap := _\<rparr>"] split: sum.splits prod.splits)
qed

subsection \<open>The tables of the services\<close>

text \<open>The two answers to compare: of the access code on a store, and of a statement on the database in it.\<close>

definition same_answer :: "(unit res \<times> db conn store) \<Rightarrow> (int64 res \<times> db conn) \<Rightarrow> addr \<Rightarrow> bool" where
  "same_answer got want p \<longleftrightarrow> fst got = map_res (\<lambda>_. ()) (fst want) \<and> st_db (snd got) = snd want
     \<and> (\<forall>i. fst want = Inr i \<longrightarrow> cols_of p (snd got) ''id'' = VInt i)"

lemma same_answerI:
  "(case want of
      (Inl e, d) \<Rightarrow> fst got = Inl e \<and> st_db (snd got) = d
    | (Inr i, d) \<Rightarrow> fst got = Inr () \<and> st_db (snd got) = d \<and> cols_of p (snd got) ''id'' = VInt i) \<Longrightarrow>
   same_answer got want p"
  by (auto simp: same_answer_def split: prod.splits sum.splits)

text \<open>With an inferred list of columns, and with a whitelist.\<close>

lemma Insert_infer:
  assumes laws: "column_laws B" "infer_law B T" "caches_ok B s" and T: "T \<in> set tables"
    and nz: "nz = filter (\<lambda>c. \<not> val_zero (cols_of p (stamp E T p s) c)) (t_def T)" and id: "''id'' \<in> set (t_def T) - set nz"
    and lists: "insert_lists B T (bl_infer B) nz = (wl, returns)"
    and speaks: "speaks_insert B now (t_name T) wl returns"
  shows "same_answer (Insert B E no_hooks T (Some p) (bl_infer B) s)
    (exec (''models: unable to insert into '' @ t_name T) (sql_insert (t_name T) now (given wl (cols_of p (stamp E T p s)))) (st_db s)) p"
    "set wl = (set (t_nodef T) \<union> set nz) - set (t_gen T)"
proof -
  have sub: "set nz \<subseteq> set (t_def T)" by (auto simp: nz)
  then have sets: "set wl = (set (t_nodef T) \<union> set nz) - set (t_gen T)" "distinct returns" "set returns = set (t_def T) - (set (t_nodef T) \<union> set nz)"
    using laws(1,2) lists by (auto simp: infer_law_def column_laws_def insert_lists_def Let_def)
  then show "set wl = (set (t_nodef T) \<union> set nz) - set (t_gen T)" by simp
  have all: "set (t_nodef T) \<union> set (t_def T) \<subseteq> set (t_all T)" "''id'' \<notin> set (t_nodef T)"
    using T by (auto simp: tables_def info_defs)
  show "same_answer (Insert B E no_hooks T (Some p) (bl_infer B) s)
    (exec (''models: unable to insert into '' @ t_name T) (sql_insert (t_name T) now (given wl (cols_of p (stamp E T p s)))) (st_db s)) p"
  proof (rule same_answerI, rule Insert_refines [OF laws(1,3) _ _ lists _ _ sets(2) _ speaks])
    show "valid_insert (T, bl_infer B, nz)"
      using T laws(2) sub all(1) by (auto simp: valid_insert_def valid_columns_def infer_law_def)
    show "nz = bl_nonzero B (t_def T) (cols_of p (stamp E T p s))"
      using laws(1) by (simp add: nz column_laws_def)
    show "set wl \<subseteq> set (t_all T)" "set returns \<subseteq> set (t_all T)" "''id'' \<in> set returns"
      using sets all sub id by auto
  qed
qed

lemma Insert_whitelist:
  assumes laws: "column_laws B" "whitelist_law B T cols" "caches_ok B s" and T: "T \<in> set tables"
    and nz: "nz = filter (\<lambda>c. \<not> val_zero (cols_of p (stamp E T p s) c)) (t_def T)" and id: "''id'' \<notin> set (c_cols cols)"
    and lists: "insert_lists B T cols nz = (wl, returns)"
    and speaks: "speaks_insert B now (t_name T) wl returns"
  shows "same_answer (Insert B E no_hooks T (Some p) cols s)
    (exec (''models: unable to insert into '' @ t_name T) (sql_insert (t_name T) now (given wl (cols_of p (stamp E T p s)))) (st_db s)) p"
    "set wl = set (c_cols cols) - set (t_gen T)"
proof -
  have sub: "set nz \<subseteq> set (t_def T)" by (auto simp: nz)
  then have sets: "set wl = set (c_cols cols) - set (t_gen T)" "distinct returns" "set returns = set (t_def T) - set (c_cols cols)"
    using laws(1,2) lists by (auto simp: whitelist_law_def column_laws_def insert_lists_def Let_def)
  then show "set wl = set (c_cols cols) - set (t_gen T)" by simp
  have all: "set (t_def T) \<subseteq> set (t_all T)" "''id'' \<in> set (t_def T)"
    using T by (auto simp: tables_def info_defs)
  show "same_answer (Insert B E no_hooks T (Some p) cols s)
    (exec (''models: unable to insert into '' @ t_name T) (sql_insert (t_name T) now (given wl (cols_of p (stamp E T p s)))) (st_db s)) p"
  proof (rule same_answerI, rule Insert_refines [OF laws(1,3) _ _ lists _ _ sets(2) _ speaks])
    show "valid_insert (T, cols, nz)"
      using T laws(2) sub all(1) by (auto simp: valid_insert_def whitelist_law_def)
    show "nz = bl_nonzero B (t_def T) (cols_of p (stamp E T p s))"
      using laws(1) by (simp add: nz column_laws_def)
    show "set wl \<subseteq> set (t_all T)" "set returns \<subseteq> set (t_all T)" "''id'' \<in> set returns"
      using sets all sub id laws(2) by (auto simp: whitelist_law_def valid_columns_def)
  qed
qed

lemma given_in: "given wl f c = (if c \<in> set wl then Some (f c) else None)"
  by (simp add: given_def)

lemma in_tables [simp]:
  "SIWSSBSession_info \<in> set tables" "Alias_info \<in> set tables" "Config_info \<in> set tables" "DeniedKey_info \<in> set tables"
  "FallbackPassword_info \<in> set tables" "FallbackResetToken_info \<in> set tables" "Invite_info \<in> set tables"
  "Member_info \<in> set tables" "Notice_info \<in> set tables" "Pin_info \<in> set tables"
  by (simp_all add: tables_def)

lemma stamp_off: "\<not> t_stamped T \<Longrightarrow> stamp E T p s = s"
  by (simp add: stamp_def)

lemma stamp_now:
  "t_stamped T \<Longrightarrow> \<not> e_skip_times E \<Longrightarrow> cols_of p s ''created_at'' = VTime zero_time \<Longrightarrow>
   cols_of p (stamp E T p s) = (cols_of p s)(''created_at'' := VTime (e_now E))"
  by (simp add: stamp_def set_obj_def set_col_def cols_of_def [abs_def])

subsection \<open>An update is its statement\<close>

text \<open>\<open>sql\<close> is what the statement means, given the columns that are set and the key; it answers the number of rows.\<close>

definition speaks_update :: "db conn boil \<Rightarrow> info \<Rightarrow> string list \<Rightarrow> ((string \<Rightarrow> val option) \<Rightarrow> int64 \<Rightarrow> db \<Rightarrow> (int64 \<times> db) res) \<Rightarrow> bool" where
  "speaks_update B T wl sql \<longleftrightarrow> (\<forall>vals i. length vals = length wl \<longrightarrow>
     bl_exec B (update_text B T wl) (vals @ [VInt i]) =
       stmt (\<lambda>d. map_res (\<lambda>(n, d'). (Inr n, d')) (sql (map_of (zip wl vals)) i d)))"

lemma Update_whitelist:
  assumes laws: "column_laws B" "whitelist_law B T cols" "caches_ok B s" and T: "T \<in> set tables"
    and id: "''id'' \<notin> set (c_cols cols)" "c_cols cols \<noteq> []" "cols_of p s ''id'' = VInt i"
    and speaks: "speaks_update B T (c_cols cols) sql"
  shows "fst (Update B E no_hooks T p cols s) =
      fst (exec (''models: unable to update '' @ t_name T @ '' row'') (sql (given (c_cols cols) (cols_of p s)) i) (st_db s)) \<and>
    st_db (snd (Update B E no_hooks T p cols s)) =
      snd (exec (''models: unable to update '' @ t_name T @ '' row'') (sql (given (c_cols cols) (cols_of p s)) i) (st_db s))"
proof -
  let ?k = "(t_name T, makeCacheKey cols [])"
  define c where "c = \<lparr>uc_query = update_text B T (c_cols cols), uc_values = c_cols cols @ [''id'']\<rparr>"
  have gen: "t_gen T = [''id'']" "t_pk T = [''id'']" "''id'' \<in> set (t_all T)"
    using T by (auto simp: tables_def info_defs)
  have "filter (\<lambda>x. x \<noteq> ''id'') (c_cols cols) = c_cols cols" using id(1) by (induction "c_cols cols") (auto simp: filter_id_conv)
  then have built: "build_update B T cols = Inr c"
    using laws(1,2) gen id(2) by (auto simp: build_update_def whitelist_law_def valid_columns_def column_laws_def c_def Let_def)
  have "valid_update (T, cols)" using T laws(2) by (simp add: valid_update_def whitelist_law_def)
  then have found: "(case st_updates s ?k of None \<Rightarrow> build_update B T cols | Some c \<Rightarrow> Inr c) = build_update B T cols"
    using updates.lookup_or_build [of B "st_updates s" "(T, cols)", unfolded keyed_applied] laws(3) by (simp add: caches_ok_def)
  let ?issue = "\<lambda>c. pthen (pget (\<lambda>s. map (cols_of p s) (uc_values c))) (\<lambda>vals.
     exec_affected (''models: unable to update '' @ t_name T @ '' row'')
       (''models: failed to get rows affected by update for '' @ t_name T) (bl_exec B (uc_query c) vals))"
  have run: "Update B E no_hooks T p cols s = pthen (through_cache st_updates put_update ?k (build_update B T cols) ?issue) (\<lambda>n. pret n) s"
    by (simp add: Update_def pret_pair [symmetric] del: prog_simps)
  have row: "bl_exec B (update_text B T (c_cols cols)) (map (cols_of p s) (c_cols cols) @ [VInt i]) (st_db s) =
    stmt (\<lambda>d. map_res (\<lambda>(n, d'). (Inr n, d')) (sql (given (c_cols cols) (cols_of p s)) i d)) (st_db s)"
    using speaks by (simp add: speaks_update_def map_of_given)
  have kept: "st_db (put_update k c t) = st_db t" for k t by (simp add: put_update_def)
  show ?thesis
    unfolding run pthen_def [of "through_cache _ _ _ _ _"] through_cache_run [where get = st_updates and put = put_update and k = ?k, OF found built]
    using row id(3)
    by (auto simp: c_def exec_affected_def pthen_def [of "pwrap _ _"] pwrap_def db_call_def stmt_def exec_def on_error_def wrap_msg_def
        kept [unfolded c_def] split: sum.splits prod.splits)
qed

subsection \<open>The statements of the services\<close>

text \<open>A driver that runs one insert, and the objects and the data the theorems are tried on.\<close>

definition insert_driver :: "string \<Rightarrow> time \<Rightarrow> string list \<Rightarrow> string list \<Rightarrow> string \<Rightarrow> val list \<Rightarrow> db conn \<Rightarrow> val list res \<times> db conn" where
  "insert_driver tbl now wl returns text vals =
     stmt (\<lambda>d. map_res (\<lambda>(i, d'). (map (sql_returned now (map_of (zip wl vals)) i) returns, d'))
                 (sql_insert tbl now (map_of (zip wl vals)) d))"

definition no_update :: "string \<Rightarrow> val list \<Rightarrow> db conn \<Rightarrow> int64 res res \<times> db conn" where
  "no_update text vals c = (Inl driver_error, c)"

definition insert_boil :: "string \<Rightarrow> string list \<Rightarrow> string list \<Rightarrow> db conn boil" where
  "insert_boil tbl wl returns = sample_boil (insert_driver tbl 0 wl returns) no_update (\<lambda>results T. pret [])"

definition boil_conn :: "db conn" where
  "boil_conn = start_conn\<lparr>data := initial_db\<lparr>members := add_row \<lparr>mb_role = RoleMember, mb_pub_key = FeedRef ''@a''\<rparr> empty_table\<rparr>\<rparr>"

definition alias_object :: obj where
  "alias_object = new_obj Alias_info\<lparr>o_cols := Alias_zero(''name'' := VStr ''alice'', ''member_id'' := VInt 1, ''signature'' := VBytes ''sig'')\<rparr>"

definition invite_object :: "lib \<Rightarrow> bytes \<Rightarrow> obj" where
  "invite_object L tok = new_obj Invite_info\<lparr>o_cols := Invite_zero(''hashed_token'' := VStr (token_hash L tok), ''created_by'' := VInt 1)\<rparr>"

definition session_object :: obj where
  "session_object = new_obj SIWSSBSession_info\<lparr>o_cols := SIWSSBSession_zero(''token'' := VStr ''tok'', ''member_id'' := VInt 1)\<rparr>"

definition member_object :: obj where
  "member_object = new_obj Member_info\<lparr>o_cols := Member_zero(''id'' := VInt 1, ''role'' := VInt 3, ''pub_key'' := VRef (FeedRef ''@a''))\<rparr>"

lemma sample_column_laws: "column_laws (sample_boil answer execute bind)"
  by (simp add: column_laws_def sample_boil_def)

lemma sample_infer_law: "infer_law (sample_boil answer execute bind) T"
  by (auto simp: infer_law_def sample_boil_def Let_def)

lemma sample_whitelist_law:
  "valid_columns T \<lparr>c_kind = 2, c_cols = cs\<rparr> \<Longrightarrow> distinct cs \<Longrightarrow>
   whitelist_law (sample_boil answer execute bind) T \<lparr>c_kind = 2, c_cols = cs\<rparr>"
  by (auto simp: whitelist_law_def sample_boil_def Let_def)

lemma sample_caches_ok: "caches_ok B (sample_store d objs)"
  by (simp add: caches_ok_def sample_store_def inserts.agrees_empty updates.agrees_empty upserts.agrees_empty)

lemma sample_store_db [simp]: "st_db (sample_store d objs) = d"
  by (simp add: sample_store_def)

lemma sample_cols: "cols_of p (sample_store d objs) = (if p < length objs then o_cols (objs ! p) else (\<lambda>_. VInt 0))"
  by (simp add: cols_of_def sample_store_def)

lemma insert_boil_speaks: "speaks_insert (insert_boil tbl wl returns) 0 tbl wl returns"
  by (simp add: speaks_insert_def insert_boil_def sample_boil_def insert_driver_def)

lemma insert_boil_laws:
  "column_laws (insert_boil tbl wl returns)" "infer_law (insert_boil tbl wl returns) T"
  "valid_columns T \<lparr>c_kind = 2, c_cols = cs\<rparr> \<Longrightarrow> distinct cs \<Longrightarrow> whitelist_law (insert_boil tbl wl returns) T \<lparr>c_kind = 2, c_cols = cs\<rparr>"
  by (simp_all add: insert_boil_def sample_column_laws sample_infer_law sample_whitelist_law)

lemma insert_boil_lists:
  "insert_lists (insert_boil tbl wl returns) T cols nz =
     (let cs = (if c_kind cols = 1 then remdups (t_nodef T @ nz) else c_cols cols)
      in (filter (\<lambda>c. c \<notin> set (t_gen T)) cs, filter (\<lambda>c. c \<notin> set cs) (remdups (t_def T))))"
  "bl_infer (insert_boil tbl wl returns) = \<lparr>c_kind = 1, c_cols = []\<rparr>"
  by (simp_all add: insert_lists_def insert_boil_def sample_boil_def Let_def)

lemmas insert_trial = insert_boil_speaks insert_boil_laws insert_boil_lists sample_caches_ok sample_cols





text \<open>
  With a whitelist of the token and the member, as the sign-in service asks for, the generated insert of a
  session sends these two columns only; the time is the one the database writes, in seconds. It is the
  statement \<open>insert_session_row\<close>, whatever the object has in its other columns.
\<close>

lemma Session_Insert_whitelist:
  assumes "column_laws B" "whitelist_law B SIWSSBSession_info cols" "c_cols cols = [''token'', ''member_id'']" "caches_ok B s"
    and "cols_of p s ''token'' = VStr tok" "cols_of p s ''member_id'' = VInt m"
    and "\<And>nz. insert_lists B SIWSSBSession_info cols nz = (wl, returns)" "speaks_insert B now ''SIWSSB_sessions'' wl returns"
  shows "same_answer (SIWSSBSession_Insert B E no_hooks (Some p) cols s) (insert_session_row now m tok (st_db s)) p"
proof -
  note run = Insert_whitelist [OF assms(1,2,4) _ refl, of p E wl returns now]
  have "set wl = {''token'', ''member_id''}"
    using run(2) assms(3,7,8) by (auto simp: SIWSSBSession_info_simps)
  moreover have "cols_of p (stamp E SIWSSBSession_info p s) c = cols_of p s c" if "c \<noteq> ''created_at''" for c
    using that by (simp add: stamp_def set_obj_def set_col_def cols_of_def)
  ultimately show ?thesis
    using run(1) assms(3,5-8)
    by (simp add: SIWSSBSession_Insert_def sql_insert_def sql_insert_session_def given_in insert_session_row_def with_default_def
        SIWSSBSession_info_simps)
qed

lemma Session_Insert_whitelist_witness:
  "same_answer
     (SIWSSBSession_Insert (insert_boil ''SIWSSB_sessions'' [''token'', ''member_id''] [''id'', ''created_at'']) sample_env no_hooks (Some 0)
        \<lparr>c_kind = 2, c_cols = [''token'', ''member_id'']\<rparr> (sample_store boil_conn [session_object]))
     (insert_session_row 0 1 ''tok'' boil_conn) 0"
  using Session_Insert_whitelist [of "insert_boil ''SIWSSB_sessions'' [''token'', ''member_id''] [''id'', ''created_at'']"
      "\<lparr>c_kind = 2, c_cols = [''token'', ''member_id'']\<rparr>" "sample_store boil_conn [session_object]" 0 "''tok''" 1
      "[''token'', ''member_id'']" "[''id'', ''created_at'']" 0 sample_env]
  by (simp add: insert_trial session_object_def SIWSSBSession_zero_def valid_columns_def SIWSSBSession_info_simps)

text \<open>The meaning of an update of the role, with the number of rows it changes.\<close>

definition sql_update_role :: "(string \<Rightarrow> val option) \<Rightarrow> int64 \<Rightarrow> db \<Rightarrow> (int64 \<times> db) res" where
  "sql_update_role f i d =
     (case f ''role'' of
        Some (VInt r) \<Rightarrow> map_res (\<lambda>(u, d'). (if has_id i (members d) then 1 else 0, d')) (update_member_role i (word_of_int r) d)
      | _ \<Rightarrow> mismatch d)"

definition same_change :: "(int64 res \<times> db conn store) \<Rightarrow> (unit res \<times> db conn) \<Rightarrow> bool" where
  "same_change got want \<longleftrightarrow> map_res (\<lambda>_. ()) (fst got) = fst want \<and> st_db (snd got) = snd want"

lemma exec_map:
  "exec msg (\<lambda>d. map_res (\<lambda>(u, d'). (g d, d')) (F d)) c = (map_res (\<lambda>_. g (data c)) (fst (exec msg F c)), snd (exec msg F c))"
  by (auto simp: exec_def on_error_def stmt_def split: sum.splits prod.splits)

lemma map_res_all: "map_res (\<lambda>_. ()) (map_res f (r :: unit res)) = r"
  by (cases r) simp_all

text \<open>
  The update by which the member service changes a role touches nothing but the role of that row: whatever
  the object holds in its other columns, the generated update with the whitelist \<open>role\<close> is the statement
  \<open>update_member_role\<close>.
\<close>

lemma Member_Update_role:
  assumes "column_laws B" "whitelist_law B Member_info cols" "c_cols cols = [''role'']" "caches_ok B s"
    and "cols_of p s ''id'' = VInt i" "cols_of p s ''role'' = VInt r"
    and "speaks_update B Member_info [''role''] sql_update_role"
  shows "same_change (Member_Update B E no_hooks p cols s)
    (exec ''models: unable to update members row'' (update_member_role i (word_of_int r)) (st_db s))"
proof -
  have "sql_update_role (given [''role''] (cols_of p s)) i =
    (\<lambda>d. map_res (\<lambda>(u, d'). (if has_id i (members d) then 1 else 0, d')) (update_member_role i (word_of_int r) d))"
    using assms(6) by (intro ext) (simp add: sql_update_role_def given_def)
  then show ?thesis
    using Update_whitelist [OF assms(1,2,4) _ _ _ assms(5), of sql_update_role E] assms(3,7)
    by (simp only: Member_info_simps Member_Update_def same_change_def exec_map in_tables fst_conv snd_conv) (simp add: map_res_all)
qed

definition role_driver :: "string \<Rightarrow> val list \<Rightarrow> db conn \<Rightarrow> int64 res res \<times> db conn" where
  "role_driver text vals =
     (case vals of
        [v, VInt i] \<Rightarrow> stmt (\<lambda>d. map_res (\<lambda>(n, d'). (Inr n, d')) (sql_update_role (map_of [(''role'', v)]) i d))
      | _ \<Rightarrow> (\<lambda>c. (Inl driver_error, c)))"

definition role_boil :: "db conn boil" where
  "role_boil = sample_boil (insert_driver [] 0 [] []) role_driver (\<lambda>results T. pret [])"

lemma role_boil_laws:
  "column_laws role_boil" "whitelist_law role_boil Member_info \<lparr>c_kind = 2, c_cols = [''role'']\<rparr>"
  by (simp_all add: role_boil_def sample_column_laws sample_whitelist_law valid_columns_def Member_info_simps)

lemma role_boil_speaks: "speaks_update role_boil Member_info [''role''] sql_update_role"
  by (auto simp: speaks_update_def role_boil_def sample_boil_def role_driver_def length_Suc_conv)

lemma Member_Update_role_witness:
  "same_change (Member_Update role_boil sample_env no_hooks 0 \<lparr>c_kind = 2, c_cols = [''role'']\<rparr> (sample_store boil_conn [member_object]))
     (exec ''models: unable to update members row'' (update_member_role 1 (word_of_int 3)) boil_conn)"
  using Member_Update_role [OF role_boil_laws, of "sample_store boil_conn [member_object]" 0 1 3 sample_env]
  by (simp add: sample_cols sample_caches_ok role_boil_speaks member_object_def Member_zero_def)

end
