(* ===== verification/ModelPin.thy ===== *)
theory ModelPin
  imports ModelInfos
begin

text \<open>The struct \<open>Pin\<close> and its methods, \<open>roomdb/sqlite/models/pins.go\<close>: those of \<open>Boil\<close> and \<open>BoilRels\<close> for its table.\<close>

subsection \<open>Columns and conditions\<close>

definition Pin_Columns :: "(string \<times> string) list" where
  "Pin_Columns = 
     [(''ID'', ''id''), (''Name'', ''name'')]"

definition Pin_TableColumns :: "(string \<times> string) list" where
  "Pin_TableColumns = map (\<lambda>(field, c). (field, table_column Pin_info c)) Pin_Columns"

definition Pin_Where :: "(string \<times> string) list" where
  "Pin_Where = map (\<lambda>(field, c). (field, where_field Pin_info c)) Pin_Columns"

subsection \<open>Related objects\<close>

definition Pin_Rels :: "string list" where
  "Pin_Rels = [''Notices'']"

definition Pin_NewStruct :: "string \<Rightarrow> addr list" where
  "Pin_NewStruct = NewStruct"

definition Pin_GetNotices :: "(string \<Rightarrow> addr list) option \<Rightarrow> addr list" where
  "Pin_GetNotices r = get_rel ''Notices'' r"

subsection \<open>Hooks\<close>

definition Pin_doAfterSelectHooks :: "context_env \<Rightarrow> 'd hooks \<Rightarrow> addr \<Rightarrow> ('d store, unit) prog" where
  "Pin_doAfterSelectHooks E H p = do_hooks E H Pin_info AfterSelectHook p"

definition Pin_doBeforeInsertHooks :: "context_env \<Rightarrow> 'd hooks \<Rightarrow> addr \<Rightarrow> ('d store, unit) prog" where
  "Pin_doBeforeInsertHooks E H p = do_hooks E H Pin_info BeforeInsertHook p"

definition Pin_doAfterInsertHooks :: "context_env \<Rightarrow> 'd hooks \<Rightarrow> addr \<Rightarrow> ('d store, unit) prog" where
  "Pin_doAfterInsertHooks E H p = do_hooks E H Pin_info AfterInsertHook p"

definition Pin_doBeforeUpdateHooks :: "context_env \<Rightarrow> 'd hooks \<Rightarrow> addr \<Rightarrow> ('d store, unit) prog" where
  "Pin_doBeforeUpdateHooks E H p = do_hooks E H Pin_info BeforeUpdateHook p"

definition Pin_doAfterUpdateHooks :: "context_env \<Rightarrow> 'd hooks \<Rightarrow> addr \<Rightarrow> ('d store, unit) prog" where
  "Pin_doAfterUpdateHooks E H p = do_hooks E H Pin_info AfterUpdateHook p"

definition Pin_doBeforeDeleteHooks :: "context_env \<Rightarrow> 'd hooks \<Rightarrow> addr \<Rightarrow> ('d store, unit) prog" where
  "Pin_doBeforeDeleteHooks E H p = do_hooks E H Pin_info BeforeDeleteHook p"

definition Pin_doAfterDeleteHooks :: "context_env \<Rightarrow> 'd hooks \<Rightarrow> addr \<Rightarrow> ('d store, unit) prog" where
  "Pin_doAfterDeleteHooks E H p = do_hooks E H Pin_info AfterDeleteHook p"

definition Pin_doBeforeUpsertHooks :: "context_env \<Rightarrow> 'd hooks \<Rightarrow> addr \<Rightarrow> ('d store, unit) prog" where
  "Pin_doBeforeUpsertHooks E H p = do_hooks E H Pin_info BeforeUpsertHook p"

definition Pin_doAfterUpsertHooks :: "context_env \<Rightarrow> 'd hooks \<Rightarrow> addr \<Rightarrow> ('d store, unit) prog" where
  "Pin_doAfterUpsertHooks E H p = do_hooks E H Pin_info AfterUpsertHook p"

definition AddPinHook :: "hook_point \<Rightarrow> 'd hook \<Rightarrow> 'd hooks \<Rightarrow> 'd hooks" where
  "AddPinHook hp hook H = add_hook Pin_info hp hook H"

subsection \<open>Queries\<close>

definition Pin_query :: "'d boil \<Rightarrow> qmod list \<Rightarrow> query_mods" where
  "Pin_query B mods = table_query B Pin_info mods"

definition Pin_One :: "'d boil \<Rightarrow> context_env \<Rightarrow> 'd hooks \<Rightarrow> query_mods \<Rightarrow> ('d store, addr) prog" where
  "Pin_One B E H q = query_One B E H Pin_info q"

definition Pin_All :: "'d boil \<Rightarrow> context_env \<Rightarrow> 'd hooks \<Rightarrow> query_mods \<Rightarrow> ('d store, addr list) prog" where
  "Pin_All B E H q = query_All B E H Pin_info q"

definition Pin_Count :: "'d boil \<Rightarrow> query_mods \<Rightarrow> ('d store, int64) prog" where
  "Pin_Count B q = query_Count B Pin_info q"

definition Pin_query_Exists :: "'d boil \<Rightarrow> query_mods \<Rightarrow> ('d store, bool) prog" where
  "Pin_query_Exists B q = query_Exists B Pin_info q"

definition FindPin :: "'d boil \<Rightarrow> context_env \<Rightarrow> 'd hooks \<Rightarrow> int64 \<Rightarrow> string list \<Rightarrow> ('d store, addr) prog" where
  "FindPin B E H iD selectCols = Find B E H Pin_info iD selectCols"

definition Pin_Reload :: "'d boil \<Rightarrow> context_env \<Rightarrow> 'd hooks \<Rightarrow> addr \<Rightarrow> ('d store, unit) prog" where
  "Pin_Reload B E H p = Reload B E H Pin_info p"

definition Pin_slice_ReloadAll :: "'d boil \<Rightarrow> addr list \<Rightarrow> ('d store, addr list) prog" where
  "Pin_slice_ReloadAll B ps = slice_ReloadAll B Pin_info ps"

definition PinExists :: "'d boil \<Rightarrow> int64 \<Rightarrow> ('d store, bool) prog" where
  "PinExists B iD = row_Exists B Pin_info iD"

definition Pin_Exists :: "'d boil \<Rightarrow> addr \<Rightarrow> ('d store, bool) prog" where
  "Pin_Exists B p = obj_Exists B Pin_info p"

subsection \<open>Statements\<close>

definition Pin_Insert :: "'d boil \<Rightarrow> context_env \<Rightarrow> 'd hooks \<Rightarrow> addr option \<Rightarrow> columns \<Rightarrow> ('d store, unit) prog" where
  "Pin_Insert B E H recv cols = Insert B E H Pin_info recv cols"

definition Pin_Update :: "'d boil \<Rightarrow> context_env \<Rightarrow> 'd hooks \<Rightarrow> addr \<Rightarrow> columns \<Rightarrow> ('d store, int64) prog" where
  "Pin_Update B E H p cols = Update B E H Pin_info p cols"

definition Pin_UpdateAll :: "'d boil \<Rightarrow> query_mods \<Rightarrow> (string \<times> val) list \<Rightarrow> ('d store, int64) prog" where
  "Pin_UpdateAll B q cols = query_UpdateAll B Pin_info q cols"

definition Pin_slice_UpdateAll :: "'d boil \<Rightarrow> addr list \<Rightarrow> (string \<times> val) list \<Rightarrow> ('d store, int64) prog" where
  "Pin_slice_UpdateAll B ps cols = slice_UpdateAll B Pin_info ps cols"

definition Pin_Upsert :: "'d boil \<Rightarrow> context_env \<Rightarrow> 'd hooks \<Rightarrow> addr option \<Rightarrow> bool \<Rightarrow> string list \<Rightarrow> columns \<Rightarrow> columns \<Rightarrow> ('d store, unit) prog" where
  "Pin_Upsert B E H recv updateOnConflict conflictColumns updateColumns insertColumns = 
     Upsert B E H Pin_info recv updateOnConflict conflictColumns updateColumns insertColumns"

definition Pin_Delete :: "'d boil \<Rightarrow> context_env \<Rightarrow> 'd hooks \<Rightarrow> addr option \<Rightarrow> ('d store, int64) prog" where
  "Pin_Delete B E H recv = Delete B E H Pin_info recv"

definition Pin_DeleteAll :: "'d boil \<Rightarrow> query_mods option \<Rightarrow> ('d store, int64) prog" where
  "Pin_DeleteAll B recv = query_DeleteAll B Pin_info recv"

definition Pin_slice_DeleteAll :: "'d boil \<Rightarrow> context_env \<Rightarrow> 'd hooks \<Rightarrow> addr list \<Rightarrow> ('d store, int64) prog" where
  "Pin_slice_DeleteAll B E H ps = slice_DeleteAll B E H Pin_info ps"

subsection \<open>Relations\<close>

definition Pin_Notices_rel :: "joined" where
  "Pin_Notices_rel = 
     \<lparr>j_local = Pin_info, j_foreign = Notice_info, j_field = ''Notices'', j_back = ''Pins'',
      j_table = ''pin_notices'', j_lcol = ''pin_id'', j_fcol = ''notice_id''\<rparr>"

definition Pin_Notices :: "'d boil \<Rightarrow> addr \<Rightarrow> qmod list \<Rightarrow> 'd store \<Rightarrow> query_mods" where
  "Pin_Notices B p mods s = joined_related B Pin_Notices_rel p mods s"

definition Pin_LoadNotices :: "'d boil \<Rightarrow> context_env \<Rightarrow> 'd hooks \<Rightarrow> bool \<Rightarrow> load_target \<Rightarrow> qmod list \<Rightarrow> ('d store, unit) prog" where
  "Pin_LoadNotices B E H singular maybe mods = load_joined B E H Pin_Notices_rel singular maybe mods"

definition Pin_AddNotices :: "'d boil \<Rightarrow> context_env \<Rightarrow> 'd hooks \<Rightarrow> addr \<Rightarrow> bool \<Rightarrow> addr list \<Rightarrow> ('d store, unit) prog" where
  "Pin_AddNotices B E H p ins related = add_joined B E H Pin_Notices_rel p ins related"

definition Pin_SetNotices :: "'d boil \<Rightarrow> context_env \<Rightarrow> 'd hooks \<Rightarrow> addr \<Rightarrow> bool \<Rightarrow> addr list \<Rightarrow> ('d store, unit) prog" where
  "Pin_SetNotices B E H p ins related = set_joined B E H Pin_Notices_rel p ins related"

definition Pin_RemoveNotices :: "'d boil \<Rightarrow> addr \<Rightarrow> addr list \<Rightarrow> ('d store, unit) prog" where
  "Pin_RemoveNotices B p related = remove_joined B Pin_Notices_rel p related"

definition removeNoticesFromPinsSlice :: "addr \<Rightarrow> addr list \<Rightarrow> ('d store, unit) prog" where
  "removeNoticesFromPinsSlice p related = remove_from_backs Pin_Notices_rel p related"

end
