(* ===== verification/BoilLoad.thy ===== *)
theory BoilLoad
  imports BoilCache ModelMember ModelPin "HOL-Library.Multiset"
begin

text \<open>
  What eager loading and the removal of related rows leave in the objects: every loaded row is found under the one
  row it refers to, in the order of the answer, and nothing else changes; a removed row is gone from the slice,
  whatever the removal does to the order.
\<close>

subsection \<open>Objects and their related objects\<close>

definition rels_at :: "'d store \<Rightarrow> addr \<Rightarrow> string \<Rightarrow> addr list" where
  "rels_at s p field = get_rel field (o_rels (st_heap s p))"

definition has_rels :: "'d store \<Rightarrow> addr \<Rightarrow> bool" where
  "has_rels s p \<longleftrightarrow> o_rels (st_heap s p) \<noteq> None"

text \<open>The columns of all objects, the database and the caches are left alone.\<close>

definition same_data :: "'d store \<Rightarrow> 'd store \<Rightarrow> bool" where
  "same_data s s' \<longleftrightarrow> (\<forall>x. o_cols (st_heap s' x) = o_cols (st_heap s x)) \<and> st_db s' = st_db s \<and> st_next s' = st_next s"

lemma same_data_refl [simp]: "same_data s s"
  by (simp add: same_data_def)

lemma same_data_trans: "same_data s t \<Longrightarrow> same_data t u \<Longrightarrow> same_data s u"
  by (simp add: same_data_def)

lemma cols_same: "same_data s s' \<Longrightarrow> cols_of p s' = cols_of p s"
  by (simp add: same_data_def cols_of_def)

lemma matching_same: "same_data s s' \<Longrightarrow> matching R s' = matching R s"
  by (intro ext) (simp add: matching_def cols_same)

lemma ensure_rels_facts [simp]:
  "same_data s (ensure_rels p s)" "has_rels (ensure_rels p s) x \<longleftrightarrow> x = p \<or> has_rels s x"
  "rels_at (ensure_rels p s) x g = rels_at s x g"
  by (auto simp: ensure_rels_def same_data_def has_rels_def rels_at_def set_obj_def get_rel_def NewStruct_def)

lemma put_rel_ok:
  assumes "has_rels s p"
  shows "\<exists>t. put_rel p field f s = (Inr (), t) \<and> same_data s t \<and> (\<forall>x. has_rels t x = has_rels s x)
    \<and> (\<forall>x g. rels_at t x g = (if x = p \<and> g = field then f (rels_at s p field) else rels_at s x g))"
  using assms by (auto simp: put_rel_def has_rels_def same_data_def rels_at_def set_obj_def get_rel_def)

lemma give_rel_ok:
  "\<exists>t. give_rel p field f s = (Inr (), t) \<and> same_data s t \<and> (\<forall>x. has_rels t x \<longleftrightarrow> x = p \<or> has_rels s x)
    \<and> (\<forall>x g. rels_at t x g = (if x = p \<and> g = field then f (rels_at s p field) else rels_at s x g))"
  using put_rel_ok [of "ensure_rels p s" p field f] same_data_trans [OF ensure_rels_facts(1)]
  by (fastforce simp: give_rel_def)

subsection \<open>The loop over the loaded rows\<close>

definition owner_of :: "relation \<Rightarrow> 'd store \<Rightarrow> addr list \<Rightarrow> addr \<Rightarrow> addr option" where
  "owner_of R s ps foreign = List.find (\<lambda>local. matching R s local foreign) ps"

lemma owner_in: "owner_of R s ps f = Some p \<Longrightarrow> p \<in> set ps \<and> matching R s p f"
  by (auto simp: owner_of_def dest: find_SomeD)

lemma attach_ok:
  assumes rels: "\<forall>p \<in> set ps. has_rels s p" and f: "f \<notin> set ps"
  shows "\<exists>t. attach R ps f s = (Inr (), t) \<and> same_data s t \<and> (\<forall>p \<in> set ps. has_rels t p)
    \<and> (\<forall>p \<in> set ps. rels_at t p (r_field R) = rels_at s p (r_field R) @ (if owner_of R s ps f = Some p then [f] else []))
    \<and> (\<forall>p. owner_of R s ps f = Some p \<longrightarrow> rels_at t f (r_back R) = [p])
    \<and> (\<forall>x g. x \<notin> set ps \<longrightarrow> x \<noteq> f \<longrightarrow> rels_at t x g = rels_at s x g)"
proof (cases "owner_of R s ps f")
  case None
  then show ?thesis using rels by (simp add: attach_def owner_of_def)
next
  case (Some p)
  then have p: "p \<in> set ps" "p \<noteq> f" using owner_in [OF Some] f by auto
  obtain u where u: "put_rel p (r_field R) (\<lambda>xs. xs @ [f]) s = (Inr (), u)" "same_data s u" "\<forall>x. has_rels u x = has_rels s x"
    "\<forall>x g. rels_at u x g = (if x = p \<and> g = r_field R then rels_at s p (r_field R) @ [f] else rels_at s x g)"
    using put_rel_ok [of s p "r_field R" "\<lambda>xs. xs @ [f]"] rels p(1) by blast
  obtain t where t: "give_rel f (r_back R) (\<lambda>_. [p]) u = (Inr (), t)" "same_data u t" "\<forall>x. has_rels t x \<longleftrightarrow> x = f \<or> has_rels u x"
    "\<forall>x g. rels_at t x g = (if x = f \<and> g = r_back R then [p] else rels_at u x g)"
    using give_rel_ok [of f "r_back R" "\<lambda>_. [p]" u] by blast
  have "attach R ps f s = (Inr (), t)"
    using Some u(1) t(1) by (simp add: attach_def owner_of_def pthen_def)
  with same_data_trans [OF u(2) t(2)] show ?thesis
    using Some p f rels u(3,4) t(3,4) by (intro exI [of _ t]) auto
qed

lemma attach_all:
  assumes "\<forall>p \<in> set ps. has_rels s p" "set fs \<inter> set ps = {}" "distinct fs"
  shows "\<exists>t. peach (attach R ps) fs s = (Inr (), t) \<and> same_data s t
    \<and> (\<forall>p \<in> set ps. rels_at t p (r_field R) = rels_at s p (r_field R) @ filter (\<lambda>f. owner_of R s ps f = Some p) fs)
    \<and> (\<forall>f \<in> set fs. \<forall>p. owner_of R s ps f = Some p \<longrightarrow> rels_at t f (r_back R) = [p])
    \<and> (\<forall>x g. x \<notin> set ps \<longrightarrow> x \<notin> set fs \<longrightarrow> rels_at t x g = rels_at s x g)"
  using assms
proof (induction fs arbitrary: s)
  case Nil
  then show ?case by simp
next
  case (Cons f fs)
  then have "f \<notin> set ps" by auto
  with attach_ok [OF Cons.prems(1)]
  obtain u where u: "attach R ps f s = (Inr (), u)" "same_data s u" "\<forall>p \<in> set ps. has_rels u p"
    "\<forall>p \<in> set ps. rels_at u p (r_field R) = rels_at s p (r_field R) @ (if owner_of R s ps f = Some p then [f] else [])"
    "\<forall>p. owner_of R s ps f = Some p \<longrightarrow> rels_at u f (r_back R) = [p]"
    "\<forall>x g. x \<notin> set ps \<longrightarrow> x \<noteq> f \<longrightarrow> rels_at u x g = rels_at s x g" by blast
  have own: "owner_of R u ps = owner_of R s ps"
    by (intro ext) (simp add: owner_of_def matching_same [OF u(2)])
  from Cons.IH [OF u(3), unfolded own] Cons.prems(2,3)
  obtain t where t: "peach (attach R ps) fs u = (Inr (), t)" "same_data u t"
    "\<forall>p \<in> set ps. rels_at t p (r_field R) = rels_at u p (r_field R) @ filter (\<lambda>f. owner_of R s ps f = Some p) fs"
    "\<forall>f \<in> set fs. \<forall>p. owner_of R s ps f = Some p \<longrightarrow> rels_at t f (r_back R) = [p]"
    "\<forall>x g. x \<notin> set ps \<longrightarrow> x \<notin> set fs \<longrightarrow> rels_at t x g = rels_at u x g"
    by auto
  have "rels_at t f (r_back R) = rels_at u f (r_back R)"
    using t(5) \<open>f \<notin> set ps\<close> Cons.prems(3) by simp
  moreover have "peach (attach R ps) (f # fs) s = (Inr (), t)"
    using u(1) t(1) by (simp add: pthen_def)
  ultimately show ?case
    using same_data_trans [OF u(2) t(2)] t(3-5) u(4-6) \<open>f \<notin> set ps\<close> by (intro exI [of _ t]) auto
qed

subsection \<open>Loading for many owners\<close>

lemma owner_args_ok:
  assumes "distinct (args @ map (\<lambda>p. cols_of p s col) ps)"
  shows "\<exists>t. owner_args col ps args s = (args @ map (\<lambda>p. cols_of p s col) ps, t) \<and> same_data s t
    \<and> (\<forall>x. has_rels t x \<longleftrightarrow> x \<in> set ps \<or> has_rels s x) \<and> (\<forall>x g. rels_at t x g = rels_at s x g)"
  using assms
proof (induction ps arbitrary: args s)
  case Nil
  then show ?case by simp
next
  case (Cons p ps)
  let ?s = "ensure_rels p s"
  have same: "cols_of x ?s = cols_of x s" for x by (rule cols_same) simp
  have new: "\<not> List.member args (cols_of p s col)" using Cons.prems by simp
  from Cons.IH [of "args @ [cols_of p s col]" ?s] Cons.prems obtain t where
    "owner_args col ps (args @ [cols_of p s col]) ?s = (args @ [cols_of p s col] @ map (\<lambda>p. cols_of p s col) ps, t)"
    "same_data ?s t" "\<forall>x. has_rels t x \<longleftrightarrow> x \<in> set ps \<or> has_rels ?s x" "\<forall>x g. rels_at t x g = rels_at ?s x g"
    by (auto simp: same)
  then show ?case
    using same_data_trans [OF ensure_rels_facts(1)] new by (intro exI [of _ t]) (auto simp: same Let_def)
qed

text \<open>The owners with their \<open>R\<close>, and the answer of the query for them.\<close>

definition owners_ready :: "string \<Rightarrow> addr list \<Rightarrow> 'd store \<Rightarrow> 'd store" where
  "owners_ready col ps s = snd (owner_args col ps [] s)"

text \<open>Binding makes new objects, one for each row, and leaves the others alone.\<close>

definition binds_fresh :: "'d boil \<Rightarrow> bool" where
  "binds_fresh B \<longleftrightarrow> (\<forall>results T s fs s'. bl_bind_set B results T s = (Inr fs, s') \<longrightarrow>
     distinct fs \<and> (\<forall>f \<in> set fs. st_next s \<le> f) \<and> (\<forall>p < st_next s. st_heap s' p = st_heap s p))"

lemma load_many_ok:
  fixes R :: relation
  assumes ps: "ps \<noteq> []" "\<forall>p \<in> set ps. p < st_next s" "distinct (map (\<lambda>p. cols_of p s (r_lcol R)) ps)"
    and law: "binds_fresh B"
    and opened: "bl_open B (related_query R (map (\<lambda>p. cols_of p s (r_lcol R)) ps) mods) (st_db s) = (Inr results, d)"
    and bound: "bl_bind_set B results (r_foreign R) ((owners_ready (r_lcol R) ps s)\<lparr>st_db := d\<rparr>) = (Inr fs, u)"
    and fine: "rs_close_err results = None" "rs_final_err results = None"
  shows "\<exists>t. load_many B E no_hooks R False (LoadMany ps) mods s = (Inr (), t) \<and> same_data u t
    \<and> (\<forall>p \<in> set ps. rels_at t p (r_field R) = rels_at s p (r_field R) @ filter (\<lambda>f. cols_of f u (r_fcol R) = cols_of p s (r_lcol R)) fs)
    \<and> (\<forall>f \<in> set fs. \<forall>p \<in> set ps. cols_of f u (r_fcol R) = cols_of p s (r_lcol R) \<longrightarrow> rels_at t f (r_back R) = [p])
    \<and> (\<forall>x g. x \<notin> set ps \<longrightarrow> x < st_next s \<longrightarrow> rels_at t x g = rels_at s x g)"
proof -
  obtain r where r: "owner_args (r_lcol R) ps [] s = (map (\<lambda>p. cols_of p s (r_lcol R)) ps, r)" "same_data s r"
    "\<forall>x. has_rels r x \<longleftrightarrow> x \<in> set ps \<or> has_rels s x" "\<forall>x g. rels_at r x g = rels_at s x g"
    using owner_args_ok [of "[]" s "r_lcol R" ps] ps(3) by auto
  have ready: "owners_ready (r_lcol R) ps s = r" by (simp add: owners_ready_def r(1))
  have old: "distinct fs" "\<forall>f \<in> set fs. st_next s \<le> f" "\<forall>p < st_next s. st_heap u p = st_heap r p"
    using law [unfolded binds_fresh_def, rule_format, OF bound] r(2) by (simp_all add: ready same_data_def)
  have key: "cols_of p u = cols_of p s" if "p < st_next s" for p
    using old(3) r(2) that by (simp add: cols_of_def same_data_def)
  have rels: "rels_at u x g = rels_at s x g" if "x < st_next s" for x g
    using old(3) r(4) that by (simp add: rels_at_def)
  have "\<forall>p \<in> set ps. has_rels u p" using old(3) r(3) ps(2) by (simp add: has_rels_def)
  moreover have "set fs \<inter> set ps = {}" using old(2) ps(2) by (auto simp: leD)
  moreover note attach_all [of ps u fs R] old(1)
  ultimately obtain t where t: "peach (attach R ps) fs u = (Inr (), t)" "same_data u t"
    "\<forall>p \<in> set ps. rels_at t p (r_field R) = rels_at u p (r_field R) @ filter (\<lambda>f. owner_of R u ps f = Some p) fs"
    "\<forall>f \<in> set fs. \<forall>p. owner_of R u ps f = Some p \<longrightarrow> rels_at t f (r_back R) = [p]"
    "\<forall>x g. x \<notin> set ps \<longrightarrow> x \<notin> set fs \<longrightarrow> rels_at t x g = rels_at u x g" by auto
  have own: "owner_of R u ps f = Some p \<longleftrightarrow> cols_of f u (r_fcol R) = cols_of p s (r_lcol R)" if p: "p \<in> set ps" for f p
  proof -
    have "matching R u q f \<longleftrightarrow> cols_of q s (r_lcol R) = cols_of f u (r_fcol R)" if "q \<in> set ps" for q
      using key ps(2) that by (simp add: matching_def)
    note match = this
    show ?thesis
    proof (cases "owner_of R u ps f")
      case None
      then have "\<not> matching R u p f" using p by (simp add: owner_of_def find_None_conv)
      then show ?thesis using None match [OF p] by auto
    next
      case (Some q)
      then have q: "q \<in> set ps" "cols_of q s (r_lcol R) = cols_of f u (r_fcol R)"
        using owner_in [OF Some] match by blast+
      have "cols_of q s (r_lcol R) = cols_of p s (r_lcol R) \<Longrightarrow> q = p"
        using ps(3) p q(1) by (simp add: distinct_map inj_on_def)
      then show ?thesis using Some q(2) by auto
    qed
  qed
  have "load_many B E no_hooks R False (LoadMany ps) mods s = peach (attach R ps) fs u"
    using ps(1) opened bound fine
    by (simp add: load_many_def load_owners_def load_args_def pthen_def r(1) ready fetch_related_def pwrap_def db_call_def
        check_err_def select_hooks_def no_hooks_def r(2) [unfolded same_data_def])
  with t rels own ps(2) old(2) show ?thesis
    by (intro exI [of _ t]) (auto simp: leD cong: filter_cong)
qed

subsection \<open>Taking related rows out\<close>

lemma first_index_Some: "first_index P xs = Some i \<Longrightarrow> i < length xs \<and> P (xs ! i)"
  by (induction xs arbitrary: i) (auto split: if_splits)

lemma first_index_None: "first_index P xs = None \<longleftrightarrow> (\<forall>x \<in> set xs. \<not> P x)"
  by (induction xs) auto

lemma mset_swap_out:
  assumes "i < length xs"
  shows "mset (swap_out i xs) = mset xs - {#xs ! i#}"
proof (cases xs rule: rev_cases)
  case (snoc ys z)
  show ?thesis
  proof (cases "i < length ys")
    case True
    then have "ys ! i \<in># mset ys" by simp
    then show ?thesis using True by (auto simp: snoc swap_out_def nth_append list_update_append mset_update)
  next
    case False
    then have "i = length ys" using assms by (simp add: snoc)
    then show ?thesis by (simp add: snoc swap_out_def)
  qed
qed (use assms in simp)

lemma mset_take_out: "mset (take_out (\<lambda>x. r = x) xs) = mset xs - {#r#}"
proof (cases "first_index (\<lambda>x. r = x) xs")
  case None
  then have "r \<notin># mset xs" by (auto simp: first_index_None)
  then show ?thesis using None by (simp add: take_out_def diff_single_trivial)
next
  case (Some i)
  then show ?thesis using first_index_Some [OF Some] mset_swap_out [of i xs] by (simp add: take_out_def)
qed

lemma mset_take_out_all: "mset (foldl (\<lambda>xs r. take_out (\<lambda>x. r = x) xs) xs rs) = mset xs - mset rs"
  by (induction rs arbitrary: xs) (simp_all add: mset_take_out)

lemma take_out_empty [simp]: "take_out P [] = []"
  by (simp add: take_out_def)

lemma clear_back_facts:
  "same_data s (clear_back J p rel s)" "has_rels (clear_back J p rel s) x = has_rels s x"
  "rels_at (clear_back J p rel s) x g =
     (if x = rel \<and> g = j_back J then take_out (\<lambda>ri. id_of p s = id_of ri s) (rels_at s rel (j_back J)) else rels_at s x g)"
  by (auto simp: clear_back_def same_data_def has_rels_def rels_at_def set_obj_def get_rel_def split: option.splits)

lemma id_of_same: "same_data s t \<Longrightarrow> id_of x t = id_of x s"
  by (simp add: id_of_def cols_same)

lemma remove_from_backs_ok:
  "\<exists>t. remove_from_backs J p related s = (Inr (), t) \<and> same_data s t \<and> (\<forall>x. has_rels t x = has_rels s x)
    \<and> (\<forall>x g. x \<notin> set related \<or> g \<noteq> j_back J \<longrightarrow> rels_at t x g = rels_at s x g)
    \<and> (distinct related \<longrightarrow> (\<forall>rel \<in> set related.
         rels_at t rel (j_back J) = take_out (\<lambda>ri. id_of p s = id_of ri s) (rels_at s rel (j_back J))))"
proof (induction related arbitrary: s)
  case Nil
  then show ?case by (simp add: remove_from_backs_def)
next
  case (Cons r related)
  let ?s = "clear_back J p r s"
  note facts = clear_back_facts [where s = s and J = J and p = p and rel = r]
  from Cons.IH [of ?s] obtain t where "remove_from_backs J p related ?s = (Inr (), t)" "same_data ?s t" "\<forall>x. has_rels t x = has_rels ?s x"
    "\<forall>x g. x \<notin> set related \<or> g \<noteq> j_back J \<longrightarrow> rels_at t x g = rels_at ?s x g"
    "distinct related \<longrightarrow> (\<forall>rel \<in> set related.
       rels_at t rel (j_back J) = take_out (\<lambda>ri. id_of p ?s = id_of ri ?s) (rels_at ?s rel (j_back J)))" by blast
  moreover have "remove_from_backs J p (r # related) s = remove_from_backs J p related ?s"
    by (simp add: remove_from_backs_def)
  ultimately show ?case
    using same_data_trans [OF facts(1)] id_of_same [OF facts(1)] by (intro exI [of _ t]) (auto simp: facts)
qed

lemma exec_pairs_ok: "exec_pairs B msg text args s = (Inr (), t) \<Longrightarrow> \<exists>d. t = s\<lparr>st_db := d\<rparr>"
  by (auto simp: exec_pairs_def pthen_def pwrap_def db_call_def split: prod.splits sum.splits)

lemma db_update_facts [simp]:
  "rels_at (s\<lparr>st_db := d\<rparr>) = rels_at s" "has_rels (s\<lparr>st_db := d\<rparr>) = has_rels s" "id_of x (s\<lparr>st_db := d\<rparr>) = id_of x s"
  by (simp_all add: rels_at_def has_rels_def id_of_def cols_of_def fun_eq_iff)

lemma drop_related_rels:
  "rels_at (drop_related J p related s) x g =
     (if x = p \<and> g = j_field J then foldl (\<lambda>xs rel. take_out (\<lambda>ri. rel = ri) xs) (rels_at s p (j_field J)) related else rels_at s x g)"
proof -
  have empty: "foldl (\<lambda>xs rel. take_out (\<lambda>ri. rel = ri) xs) [] related = ([] :: addr list)"
    by (induction related) simp_all
  show ?thesis by (auto simp: drop_related_def rels_at_def set_obj_def get_rel_def empty split: option.splits)
qed

lemma remove_joined_steps:
  assumes "remove_joined B J p related s = (Inr (), t)" "related \<noteq> []"
  shows "\<exists>d u. remove_from_backs J p related (s\<lparr>st_db := d\<rparr>) = (Inr (), u) \<and> t = drop_related J p related u"
  using assms
  by (auto simp: remove_joined_def pthen_def split: prod.splits sum.splits dest!: exec_pairs_ok)

lemma remove_joined_ok:
  assumes removed: "remove_joined B J p related s = (Inr (), t)" and p: "p \<notin> set related"
  shows "mset (rels_at t p (j_field J)) = mset (rels_at s p (j_field J)) - mset related \<and>
    (distinct related \<longrightarrow> (\<forall>rel \<in> set related.
       rels_at t rel (j_back J) = take_out (\<lambda>ri. id_of p s = id_of ri s) (rels_at s rel (j_back J))))"
proof (cases "related = []")
  case True
  then show ?thesis using removed by (simp add: remove_joined_def)
next
  case False
  then obtain d u where u: "remove_from_backs J p related (s\<lparr>st_db := d\<rparr>) = (Inr (), u)" "t = drop_related J p related u"
    using remove_joined_steps [OF removed] by blast
  have cleared: "\<forall>x g. x \<notin> set related \<or> g \<noteq> j_back J \<longrightarrow> rels_at u x g = rels_at s x g"
    "distinct related \<longrightarrow> (\<forall>rel \<in> set related.
       rels_at u rel (j_back J) = take_out (\<lambda>ri. id_of p s = id_of ri s) (rels_at s rel (j_back J)))"
    using remove_from_backs_ok [of J p related "s\<lparr>st_db := d\<rparr>"] u(1) by auto
  then show ?thesis using p by (auto simp: u(2) drop_related_rels mset_take_out_all)
qed

subsection \<open>Members with their aliases, pins with their notices\<close>

text \<open>C28: loading the aliases of many members sorts the rows of one query under their owners. The query asks for the
  ids of the members; afterwards each member has, after what it had, exactly the loaded aliases whose
  \<open>member_id\<close> is its id, in the order of the answer, each of these aliases points back to that member, and no
  other object has changed its relations. No column of any object changes.\<close>

theorem LoadAliases_sorts:
  assumes "ps \<noteq> []" "\<forall>p \<in> set ps. p < st_next s" "distinct (map (\<lambda>p. cols_of p s ''id'') ps)" "binds_fresh B"
    and "bl_open B (related_query Member_Aliases_rel (map (\<lambda>p. cols_of p s ''id'') ps) mods) (st_db s) = (Inr results, d)"
    and "bl_bind_set B results Alias_info ((owners_ready ''id'' ps s)\<lparr>st_db := d\<rparr>) = (Inr fs, u)"
    and "rs_close_err results = None" "rs_final_err results = None"
  shows "\<exists>t. Member_LoadAliases B E no_hooks False (LoadMany ps) mods s = (Inr (), t)
    \<and> (\<forall>p \<in> set ps. rels_at t p ''Aliases'' = rels_at s p ''Aliases'' @ filter (\<lambda>f. cols_of f u ''member_id'' = cols_of p s ''id'') fs)
    \<and> (\<forall>f \<in> set fs. \<forall>p \<in> set ps. cols_of f u ''member_id'' = cols_of p s ''id'' \<longrightarrow> rels_at t f ''Member'' = [p])
    \<and> (\<forall>x g. x \<notin> set ps \<longrightarrow> x < st_next s \<longrightarrow> rels_at t x g = rels_at s x g) \<and> (\<forall>x. cols_of x t = cols_of x u)"
proof -
  have rel: "r_lcol Member_Aliases_rel = ''id''" "r_fcol Member_Aliases_rel = ''member_id''" "r_field Member_Aliases_rel = ''Aliases''"
    "r_back Member_Aliases_rel = ''Member''" "r_foreign Member_Aliases_rel = Alias_info"
    by (simp_all add: Member_Aliases_rel_def)
  obtain t where t: "load_many B E no_hooks Member_Aliases_rel False (LoadMany ps) mods s = (Inr (), t)" "same_data u t"
    "\<forall>p \<in> set ps. rels_at t p ''Aliases'' = rels_at s p ''Aliases'' @ filter (\<lambda>f. cols_of f u ''member_id'' = cols_of p s ''id'') fs"
    "\<forall>f \<in> set fs. \<forall>p \<in> set ps. cols_of f u ''member_id'' = cols_of p s ''id'' \<longrightarrow> rels_at t f ''Member'' = [p]"
    "\<forall>x g. x \<notin> set ps \<longrightarrow> x < st_next s \<longrightarrow> rels_at t x g = rels_at s x g"
    using load_many_ok [of ps s Member_Aliases_rel B mods results d fs u E, unfolded rel, OF assms] by blast
  show ?thesis
    unfolding Member_LoadAliases_def by (intro exI [of _ t] conjI t allI cols_same [OF t(2)])
qed

definition two_aliases :: "result_set \<Rightarrow> info \<Rightarrow> (unit store, addr list) prog" where
  "two_aliases results T =
     pthen (alloc (new_obj T\<lparr>o_cols := (t_zero T)(''member_id'' := VInt 7)\<rparr>)) (\<lambda>a.
     pthen (alloc (new_obj T\<lparr>o_cols := (t_zero T)(''member_id'' := VInt 5)\<rparr>)) (\<lambda>b. pret [a, b]))"

definition alias_boil :: "unit boil" where
  "alias_boil = sample_boil (\<lambda>q vs d. (Inr [], d)) (\<lambda>q vs d. (Inr (Inr 0), d)) two_aliases"

definition member_pair :: "unit store" where
  "member_pair = sample_store () [new_obj Member_info\<lparr>o_cols := (\<lambda>_. VInt 5)\<rparr>, new_obj Member_info\<lparr>o_cols := (\<lambda>_. VInt 7)\<rparr>]"

lemma alias_boil_fresh: "binds_fresh alias_boil"
  by (auto simp: binds_fresh_def alias_boil_def sample_boil_def two_aliases_def alloc_def pthen_def)

theorem LoadAliases_sorts_witness:
  "\<exists>t. Member_LoadAliases alias_boil sample_env no_hooks False (LoadMany [0, 1]) [] member_pair = (Inr (), t)
     \<and> rels_at t 0 ''Aliases'' = [3] \<and> rels_at t 1 ''Aliases'' = [2]"
proof -
  let ?ready = "(owners_ready ''id'' [0, 1] member_pair)\<lparr>st_db := ()\<rparr>"
  have ids: "cols_of 0 member_pair = (\<lambda>_. VInt 5)" "cols_of 1 member_pair = (\<lambda>_. VInt 7)" "st_next member_pair = 2"
    "rels_at member_pair 0 ''Aliases'' = []" "rels_at member_pair 1 ''Aliases'' = []"
    by (simp_all add: member_pair_def sample_store_def cols_of_def rels_at_def get_rel_def new_obj_def)
  have nx: "st_next ?ready = 2"
    by (simp add: owners_ready_def ensure_rels_def set_obj_def ids(3) Let_def)
  obtain u where u: "bl_bind_set alias_boil results Alias_info ?ready = (Inr [2, 3], u)"
    "cols_of 2 u ''member_id'' = VInt 7" "cols_of 3 u ''member_id'' = VInt 5" for results
    using nx by (auto simp: alias_boil_def sample_boil_def two_aliases_def alloc_def pthen_def cols_of_def numeral_eq_Suc)
  show ?thesis
    using LoadAliases_sorts [of "[0, 1]" member_pair alias_boil "[]"
        "\<lparr>rs_scans = [], rs_step_err = (\<lambda>_. None), rs_close_err = None, rs_final_err = None\<rparr>" "()" "[2, 3]" u sample_env] u ids alias_boil_fresh
    by (auto simp: alias_boil_def sample_boil_def)
qed

text \<open>C29: removing notices from a pin takes out of the pin's slice exactly these notices, once each, whatever the
  removal does to the order of the others; and every removed notice has lost its first pin with that id.\<close>

theorem RemoveNotices_takes_out:
  assumes "fst (Pin_RemoveNotices B p related s) = Inr ()" "p \<notin> set related" "distinct related"
  shows "mset (rels_at (snd (Pin_RemoveNotices B p related s)) p ''Notices'') = mset (rels_at s p ''Notices'') - mset related \<and>
    (\<forall>notice \<in> set related. rels_at (snd (Pin_RemoveNotices B p related s)) notice ''Pins'' =
       take_out (\<lambda>pin. id_of p s = id_of pin s) (rels_at s notice ''Pins''))"
proof -
  obtain t where t: "Pin_RemoveNotices B p related s = (Inr (), t)" using assms(1) by (metis prod.collapse)
  then show ?thesis
    using remove_joined_ok [of B Pin_Notices_rel p related s t] assms(2,3)
    by (simp add: Pin_RemoveNotices_def Pin_Notices_rel_def)
qed

definition pinned :: "unit store" where
  "pinned = sample_store ()
     [new_obj Pin_info\<lparr>o_rels := Some (NewStruct(''Notices'' := [1, 2, 3]))\<rparr>, new_obj Notice_info\<lparr>o_rels := Some (NewStruct(''Pins'' := [0]))\<rparr>,
      new_obj Notice_info\<lparr>o_rels := Some (NewStruct(''Pins'' := [0]))\<rparr>, new_obj Notice_info]"

theorem RemoveNotices_takes_out_witness:
  "mset (rels_at (snd (Pin_RemoveNotices alias_boil 0 [1] pinned)) 0 ''Notices'') = {#2, 3#} \<and>
   rels_at (snd (Pin_RemoveNotices alias_boil 0 [1] pinned)) 1 ''Pins'' = []"
proof -
  have run: "fst (Pin_RemoveNotices alias_boil 0 [1] pinned) = Inr ()"
    by (simp add: Pin_RemoveNotices_def remove_joined_def exec_pairs_def pthen_def pwrap_def db_call_def alias_boil_def sample_boil_def
        remove_from_backs_def)
  have now: "rels_at pinned 0 ''Notices'' = [1, 2, 3]" "rels_at pinned 1 ''Pins'' = [0]"
    by (simp_all add: pinned_def sample_store_def rels_at_def get_rel_def new_obj_def)
  show ?thesis
    using RemoveNotices_takes_out [OF run] by (simp add: now take_out_def swap_out_def del: One_nat_def)
qed

text \<open>
  \<open>SetNotices\<close> empties the slice of the pin, but the notices that were in it keep the pin in theirs: the back references it
  clears are those of the new notices.
\<close>

lemma SetNotices_keeps_back:
  assumes "Pin_SetNotices B E H p False [] s = (Inr (), t)" "notice \<noteq> p"
  shows "rels_at t p ''Notices'' = [] \<and> rels_at t notice ''Pins'' = rels_at s notice ''Pins''"
  using assms
  by (auto simp: Pin_SetNotices_def set_joined_def add_joined_def Pin_Notices_rel_def remove_from_backs_def pthen_def give_rel_def put_rel_def
      ensure_rels_def rels_at_def set_obj_def get_rel_def NewStruct_def split: prod.splits sum.splits option.splits if_splits dest!: exec_pairs_ok)

end
