(* ===== verification/ModelConfig.thy ===== *)
theory ModelConfig
  imports ModelInfos
begin

text \<open>The struct \<open>Config\<close> and its methods, \<open>roomdb/sqlite/models/config.go\<close>: those of \<open>Boil\<close> and \<open>BoilRels\<close> for its table.\<close>

subsection \<open>Columns and conditions\<close>

definition Config_Columns :: "(string \<times> string) list" where
  "Config_Columns = 
     [(''ID'', ''id''), (''PrivacyMode'', ''privacyMode''), (''DefaultLanguage'', ''defaultLanguage''), (''UseSubdomainForAliases'', ''use_subdomain_for_aliases'')]"

definition Config_TableColumns :: "(string \<times> string) list" where
  "Config_TableColumns = map (\<lambda>(field, c). (field, table_column Config_info c)) Config_Columns"

definition whereHelperPrivacyMode :: "cmp_op \<Rightarrow> string \<Rightarrow> privacy_mode \<Rightarrow> qmod" where
  "whereHelperPrivacyMode cmp field x = where_op cmp field (VMode x)"

definition whereHelperbool :: "cmp_op \<Rightarrow> string \<Rightarrow> bool \<Rightarrow> qmod" where
  "whereHelperbool cmp field x = where_op cmp field (VBool x)"

definition Config_Where :: "(string \<times> string) list" where
  "Config_Where = map (\<lambda>(field, c). (field, where_field Config_info c)) Config_Columns"

subsection \<open>Related objects\<close>

definition Config_Rels :: "string list" where
  "Config_Rels = []"

definition Config_NewStruct :: "string \<Rightarrow> addr list" where
  "Config_NewStruct = NewStruct"

subsection \<open>Hooks\<close>

definition Config_doAfterSelectHooks :: "context_env \<Rightarrow> 'd hooks \<Rightarrow> addr \<Rightarrow> ('d store, unit) prog" where
  "Config_doAfterSelectHooks E H p = do_hooks E H Config_info AfterSelectHook p"

definition Config_doBeforeInsertHooks :: "context_env \<Rightarrow> 'd hooks \<Rightarrow> addr \<Rightarrow> ('d store, unit) prog" where
  "Config_doBeforeInsertHooks E H p = do_hooks E H Config_info BeforeInsertHook p"

definition Config_doAfterInsertHooks :: "context_env \<Rightarrow> 'd hooks \<Rightarrow> addr \<Rightarrow> ('d store, unit) prog" where
  "Config_doAfterInsertHooks E H p = do_hooks E H Config_info AfterInsertHook p"

definition Config_doBeforeUpdateHooks :: "context_env \<Rightarrow> 'd hooks \<Rightarrow> addr \<Rightarrow> ('d store, unit) prog" where
  "Config_doBeforeUpdateHooks E H p = do_hooks E H Config_info BeforeUpdateHook p"

definition Config_doAfterUpdateHooks :: "context_env \<Rightarrow> 'd hooks \<Rightarrow> addr \<Rightarrow> ('d store, unit) prog" where
  "Config_doAfterUpdateHooks E H p = do_hooks E H Config_info AfterUpdateHook p"

definition Config_doBeforeDeleteHooks :: "context_env \<Rightarrow> 'd hooks \<Rightarrow> addr \<Rightarrow> ('d store, unit) prog" where
  "Config_doBeforeDeleteHooks E H p = do_hooks E H Config_info BeforeDeleteHook p"

definition Config_doAfterDeleteHooks :: "context_env \<Rightarrow> 'd hooks \<Rightarrow> addr \<Rightarrow> ('d store, unit) prog" where
  "Config_doAfterDeleteHooks E H p = do_hooks E H Config_info AfterDeleteHook p"

definition Config_doBeforeUpsertHooks :: "context_env \<Rightarrow> 'd hooks \<Rightarrow> addr \<Rightarrow> ('d store, unit) prog" where
  "Config_doBeforeUpsertHooks E H p = do_hooks E H Config_info BeforeUpsertHook p"

definition Config_doAfterUpsertHooks :: "context_env \<Rightarrow> 'd hooks \<Rightarrow> addr \<Rightarrow> ('d store, unit) prog" where
  "Config_doAfterUpsertHooks E H p = do_hooks E H Config_info AfterUpsertHook p"

definition AddConfigHook :: "hook_point \<Rightarrow> 'd hook \<Rightarrow> 'd hooks \<Rightarrow> 'd hooks" where
  "AddConfigHook hp hook H = add_hook Config_info hp hook H"

subsection \<open>Queries\<close>

definition Config_query :: "'d boil \<Rightarrow> qmod list \<Rightarrow> query_mods" where
  "Config_query B mods = table_query B Config_info mods"

definition Config_One :: "'d boil \<Rightarrow> context_env \<Rightarrow> 'd hooks \<Rightarrow> query_mods \<Rightarrow> ('d store, addr) prog" where
  "Config_One B E H q = query_One B E H Config_info q"

definition Config_All :: "'d boil \<Rightarrow> context_env \<Rightarrow> 'd hooks \<Rightarrow> query_mods \<Rightarrow> ('d store, addr list) prog" where
  "Config_All B E H q = query_All B E H Config_info q"

definition Config_Count :: "'d boil \<Rightarrow> query_mods \<Rightarrow> ('d store, int64) prog" where
  "Config_Count B q = query_Count B Config_info q"

definition Config_query_Exists :: "'d boil \<Rightarrow> query_mods \<Rightarrow> ('d store, bool) prog" where
  "Config_query_Exists B q = query_Exists B Config_info q"

definition FindConfig :: "'d boil \<Rightarrow> context_env \<Rightarrow> 'd hooks \<Rightarrow> int64 \<Rightarrow> string list \<Rightarrow> ('d store, addr) prog" where
  "FindConfig B E H iD selectCols = Find B E H Config_info iD selectCols"

definition Config_Reload :: "'d boil \<Rightarrow> context_env \<Rightarrow> 'd hooks \<Rightarrow> addr \<Rightarrow> ('d store, unit) prog" where
  "Config_Reload B E H p = Reload B E H Config_info p"

definition Config_slice_ReloadAll :: "'d boil \<Rightarrow> addr list \<Rightarrow> ('d store, addr list) prog" where
  "Config_slice_ReloadAll B ps = slice_ReloadAll B Config_info ps"

definition ConfigExists :: "'d boil \<Rightarrow> int64 \<Rightarrow> ('d store, bool) prog" where
  "ConfigExists B iD = row_Exists B Config_info iD"

definition Config_Exists :: "'d boil \<Rightarrow> addr \<Rightarrow> ('d store, bool) prog" where
  "Config_Exists B p = obj_Exists B Config_info p"

subsection \<open>Statements\<close>

definition Config_Insert :: "'d boil \<Rightarrow> context_env \<Rightarrow> 'd hooks \<Rightarrow> addr option \<Rightarrow> columns \<Rightarrow> ('d store, unit) prog" where
  "Config_Insert B E H recv cols = Insert B E H Config_info recv cols"

definition Config_Update :: "'d boil \<Rightarrow> context_env \<Rightarrow> 'd hooks \<Rightarrow> addr \<Rightarrow> columns \<Rightarrow> ('d store, int64) prog" where
  "Config_Update B E H p cols = Update B E H Config_info p cols"

definition Config_UpdateAll :: "'d boil \<Rightarrow> query_mods \<Rightarrow> (string \<times> val) list \<Rightarrow> ('d store, int64) prog" where
  "Config_UpdateAll B q cols = query_UpdateAll B Config_info q cols"

definition Config_slice_UpdateAll :: "'d boil \<Rightarrow> addr list \<Rightarrow> (string \<times> val) list \<Rightarrow> ('d store, int64) prog" where
  "Config_slice_UpdateAll B ps cols = slice_UpdateAll B Config_info ps cols"

definition Config_Upsert :: "'d boil \<Rightarrow> context_env \<Rightarrow> 'd hooks \<Rightarrow> addr option \<Rightarrow> bool \<Rightarrow> string list \<Rightarrow> columns \<Rightarrow> columns \<Rightarrow> ('d store, unit) prog" where
  "Config_Upsert B E H recv updateOnConflict conflictColumns updateColumns insertColumns = 
     Upsert B E H Config_info recv updateOnConflict conflictColumns updateColumns insertColumns"

definition Config_Delete :: "'d boil \<Rightarrow> context_env \<Rightarrow> 'd hooks \<Rightarrow> addr option \<Rightarrow> ('d store, int64) prog" where
  "Config_Delete B E H recv = Delete B E H Config_info recv"

definition Config_DeleteAll :: "'d boil \<Rightarrow> query_mods option \<Rightarrow> ('d store, int64) prog" where
  "Config_DeleteAll B recv = query_DeleteAll B Config_info recv"

definition Config_slice_DeleteAll :: "'d boil \<Rightarrow> context_env \<Rightarrow> 'd hooks \<Rightarrow> addr list \<Rightarrow> ('d store, int64) prog" where
  "Config_slice_DeleteAll B E H ps = slice_DeleteAll B E H Config_info ps"

end
