(* ===== verification/ModelDeniedKey.thy ===== *)
theory ModelDeniedKey
  imports ModelInfos
begin

text \<open>The struct \<open>DeniedKey\<close> and its methods, \<open>roomdb/sqlite/models/denied_keys.go\<close>: those of \<open>Boil\<close> and \<open>BoilRels\<close> for its table.\<close>

subsection \<open>Columns and conditions\<close>

definition DeniedKey_Columns :: "(string \<times> string) list" where
  "DeniedKey_Columns = 
     [(''ID'', ''id''), (''PubKey'', ''pub_key''), (''Comment'', ''comment''), (''CreatedAt'', ''created_at'')]"

definition DeniedKey_TableColumns :: "(string \<times> string) list" where
  "DeniedKey_TableColumns = map (\<lambda>(field, c). (field, table_column DeniedKey_info c)) DeniedKey_Columns"

definition whereHelperDBFeedRef :: "cmp_op \<Rightarrow> string \<Rightarrow> feed_ref \<Rightarrow> qmod" where
  "whereHelperDBFeedRef cmp field x = where_op cmp field (VRef x)"

definition DeniedKey_Where :: "(string \<times> string) list" where
  "DeniedKey_Where = map (\<lambda>(field, c). (field, where_field DeniedKey_info c)) DeniedKey_Columns"

subsection \<open>Related objects\<close>

definition DeniedKey_Rels :: "string list" where
  "DeniedKey_Rels = []"

definition DeniedKey_NewStruct :: "string \<Rightarrow> addr list" where
  "DeniedKey_NewStruct = NewStruct"

subsection \<open>Hooks\<close>

definition DeniedKey_doAfterSelectHooks :: "context_env \<Rightarrow> 'd hooks \<Rightarrow> addr \<Rightarrow> ('d store, unit) prog" where
  "DeniedKey_doAfterSelectHooks E H p = do_hooks E H DeniedKey_info AfterSelectHook p"

definition DeniedKey_doBeforeInsertHooks :: "context_env \<Rightarrow> 'd hooks \<Rightarrow> addr \<Rightarrow> ('d store, unit) prog" where
  "DeniedKey_doBeforeInsertHooks E H p = do_hooks E H DeniedKey_info BeforeInsertHook p"

definition DeniedKey_doAfterInsertHooks :: "context_env \<Rightarrow> 'd hooks \<Rightarrow> addr \<Rightarrow> ('d store, unit) prog" where
  "DeniedKey_doAfterInsertHooks E H p = do_hooks E H DeniedKey_info AfterInsertHook p"

definition DeniedKey_doBeforeUpdateHooks :: "context_env \<Rightarrow> 'd hooks \<Rightarrow> addr \<Rightarrow> ('d store, unit) prog" where
  "DeniedKey_doBeforeUpdateHooks E H p = do_hooks E H DeniedKey_info BeforeUpdateHook p"

definition DeniedKey_doAfterUpdateHooks :: "context_env \<Rightarrow> 'd hooks \<Rightarrow> addr \<Rightarrow> ('d store, unit) prog" where
  "DeniedKey_doAfterUpdateHooks E H p = do_hooks E H DeniedKey_info AfterUpdateHook p"

definition DeniedKey_doBeforeDeleteHooks :: "context_env \<Rightarrow> 'd hooks \<Rightarrow> addr \<Rightarrow> ('d store, unit) prog" where
  "DeniedKey_doBeforeDeleteHooks E H p = do_hooks E H DeniedKey_info BeforeDeleteHook p"

definition DeniedKey_doAfterDeleteHooks :: "context_env \<Rightarrow> 'd hooks \<Rightarrow> addr \<Rightarrow> ('d store, unit) prog" where
  "DeniedKey_doAfterDeleteHooks E H p = do_hooks E H DeniedKey_info AfterDeleteHook p"

definition DeniedKey_doBeforeUpsertHooks :: "context_env \<Rightarrow> 'd hooks \<Rightarrow> addr \<Rightarrow> ('d store, unit) prog" where
  "DeniedKey_doBeforeUpsertHooks E H p = do_hooks E H DeniedKey_info BeforeUpsertHook p"

definition DeniedKey_doAfterUpsertHooks :: "context_env \<Rightarrow> 'd hooks \<Rightarrow> addr \<Rightarrow> ('d store, unit) prog" where
  "DeniedKey_doAfterUpsertHooks E H p = do_hooks E H DeniedKey_info AfterUpsertHook p"

definition AddDeniedKeyHook :: "hook_point \<Rightarrow> 'd hook \<Rightarrow> 'd hooks \<Rightarrow> 'd hooks" where
  "AddDeniedKeyHook hp hook H = add_hook DeniedKey_info hp hook H"

subsection \<open>Queries\<close>

definition DeniedKey_query :: "'d boil \<Rightarrow> qmod list \<Rightarrow> query_mods" where
  "DeniedKey_query B mods = table_query B DeniedKey_info mods"

definition DeniedKey_One :: "'d boil \<Rightarrow> context_env \<Rightarrow> 'd hooks \<Rightarrow> query_mods \<Rightarrow> ('d store, addr) prog" where
  "DeniedKey_One B E H q = query_One B E H DeniedKey_info q"

definition DeniedKey_All :: "'d boil \<Rightarrow> context_env \<Rightarrow> 'd hooks \<Rightarrow> query_mods \<Rightarrow> ('d store, addr list) prog" where
  "DeniedKey_All B E H q = query_All B E H DeniedKey_info q"

definition DeniedKey_Count :: "'d boil \<Rightarrow> query_mods \<Rightarrow> ('d store, int64) prog" where
  "DeniedKey_Count B q = query_Count B DeniedKey_info q"

definition DeniedKey_query_Exists :: "'d boil \<Rightarrow> query_mods \<Rightarrow> ('d store, bool) prog" where
  "DeniedKey_query_Exists B q = query_Exists B DeniedKey_info q"

definition FindDeniedKey :: "'d boil \<Rightarrow> context_env \<Rightarrow> 'd hooks \<Rightarrow> int64 \<Rightarrow> string list \<Rightarrow> ('d store, addr) prog" where
  "FindDeniedKey B E H iD selectCols = Find B E H DeniedKey_info iD selectCols"

definition DeniedKey_Reload :: "'d boil \<Rightarrow> context_env \<Rightarrow> 'd hooks \<Rightarrow> addr \<Rightarrow> ('d store, unit) prog" where
  "DeniedKey_Reload B E H p = Reload B E H DeniedKey_info p"

definition DeniedKey_slice_ReloadAll :: "'d boil \<Rightarrow> addr list \<Rightarrow> ('d store, addr list) prog" where
  "DeniedKey_slice_ReloadAll B ps = slice_ReloadAll B DeniedKey_info ps"

definition DeniedKeyExists :: "'d boil \<Rightarrow> int64 \<Rightarrow> ('d store, bool) prog" where
  "DeniedKeyExists B iD = row_Exists B DeniedKey_info iD"

definition DeniedKey_Exists :: "'d boil \<Rightarrow> addr \<Rightarrow> ('d store, bool) prog" where
  "DeniedKey_Exists B p = obj_Exists B DeniedKey_info p"

subsection \<open>Statements\<close>

definition DeniedKey_Insert :: "'d boil \<Rightarrow> context_env \<Rightarrow> 'd hooks \<Rightarrow> addr option \<Rightarrow> columns \<Rightarrow> ('d store, unit) prog" where
  "DeniedKey_Insert B E H recv cols = Insert B E H DeniedKey_info recv cols"

definition DeniedKey_Update :: "'d boil \<Rightarrow> context_env \<Rightarrow> 'd hooks \<Rightarrow> addr \<Rightarrow> columns \<Rightarrow> ('d store, int64) prog" where
  "DeniedKey_Update B E H p cols = Update B E H DeniedKey_info p cols"

definition DeniedKey_UpdateAll :: "'d boil \<Rightarrow> query_mods \<Rightarrow> (string \<times> val) list \<Rightarrow> ('d store, int64) prog" where
  "DeniedKey_UpdateAll B q cols = query_UpdateAll B DeniedKey_info q cols"

definition DeniedKey_slice_UpdateAll :: "'d boil \<Rightarrow> addr list \<Rightarrow> (string \<times> val) list \<Rightarrow> ('d store, int64) prog" where
  "DeniedKey_slice_UpdateAll B ps cols = slice_UpdateAll B DeniedKey_info ps cols"

definition DeniedKey_Upsert :: "'d boil \<Rightarrow> context_env \<Rightarrow> 'd hooks \<Rightarrow> addr option \<Rightarrow> bool \<Rightarrow> string list \<Rightarrow> columns \<Rightarrow> columns \<Rightarrow> ('d store, unit) prog" where
  "DeniedKey_Upsert B E H recv updateOnConflict conflictColumns updateColumns insertColumns = 
     Upsert B E H DeniedKey_info recv updateOnConflict conflictColumns updateColumns insertColumns"

definition DeniedKey_Delete :: "'d boil \<Rightarrow> context_env \<Rightarrow> 'd hooks \<Rightarrow> addr option \<Rightarrow> ('d store, int64) prog" where
  "DeniedKey_Delete B E H recv = Delete B E H DeniedKey_info recv"

definition DeniedKey_DeleteAll :: "'d boil \<Rightarrow> query_mods option \<Rightarrow> ('d store, int64) prog" where
  "DeniedKey_DeleteAll B recv = query_DeleteAll B DeniedKey_info recv"

definition DeniedKey_slice_DeleteAll :: "'d boil \<Rightarrow> context_env \<Rightarrow> 'd hooks \<Rightarrow> addr list \<Rightarrow> ('d store, int64) prog" where
  "DeniedKey_slice_DeleteAll B E H ps = slice_DeleteAll B E H DeniedKey_info ps"

end
