(* ===== verification/ModelPassword.thy ===== *)
theory ModelPassword
  imports ModelInfos
begin

text \<open>The struct \<open>FallbackPassword\<close> and its methods, \<open>roomdb/sqlite/models/fallback_passwords.go\<close>: those of \<open>Boil\<close> and \<open>BoilRels\<close> for its table.\<close>

subsection \<open>Columns and conditions\<close>

definition FallbackPassword_Columns :: "(string \<times> string) list" where
  "FallbackPassword_Columns = 
     [(''ID'', ''id''), (''PasswordHash'', ''password_hash''), (''MemberID'', ''member_id'')]"

definition FallbackPassword_TableColumns :: "(string \<times> string) list" where
  "FallbackPassword_TableColumns = map (\<lambda>(field, c). (field, table_column FallbackPassword_info c)) FallbackPassword_Columns"

definition FallbackPassword_Where :: "(string \<times> string) list" where
  "FallbackPassword_Where = map (\<lambda>(field, c). (field, where_field FallbackPassword_info c)) FallbackPassword_Columns"

subsection \<open>Related objects\<close>

definition FallbackPassword_Rels :: "string list" where
  "FallbackPassword_Rels = [''Member'']"

definition FallbackPassword_NewStruct :: "string \<Rightarrow> addr list" where
  "FallbackPassword_NewStruct = NewStruct"

definition FallbackPassword_GetMember :: "(string \<Rightarrow> addr list) option \<Rightarrow> addr list" where
  "FallbackPassword_GetMember r = get_rel ''Member'' r"

subsection \<open>Hooks\<close>

definition FallbackPassword_doAfterSelectHooks :: "context_env \<Rightarrow> 'd hooks \<Rightarrow> addr \<Rightarrow> ('d store, unit) prog" where
  "FallbackPassword_doAfterSelectHooks E H p = do_hooks E H FallbackPassword_info AfterSelectHook p"

definition FallbackPassword_doBeforeInsertHooks :: "context_env \<Rightarrow> 'd hooks \<Rightarrow> addr \<Rightarrow> ('d store, unit) prog" where
  "FallbackPassword_doBeforeInsertHooks E H p = do_hooks E H FallbackPassword_info BeforeInsertHook p"

definition FallbackPassword_doAfterInsertHooks :: "context_env \<Rightarrow> 'd hooks \<Rightarrow> addr \<Rightarrow> ('d store, unit) prog" where
  "FallbackPassword_doAfterInsertHooks E H p = do_hooks E H FallbackPassword_info AfterInsertHook p"

definition FallbackPassword_doBeforeUpdateHooks :: "context_env \<Rightarrow> 'd hooks \<Rightarrow> addr \<Rightarrow> ('d store, unit) prog" where
  "FallbackPassword_doBeforeUpdateHooks E H p = do_hooks E H FallbackPassword_info BeforeUpdateHook p"

definition FallbackPassword_doAfterUpdateHooks :: "context_env \<Rightarrow> 'd hooks \<Rightarrow> addr \<Rightarrow> ('d store, unit) prog" where
  "FallbackPassword_doAfterUpdateHooks E H p = do_hooks E H FallbackPassword_info AfterUpdateHook p"

definition FallbackPassword_doBeforeDeleteHooks :: "context_env \<Rightarrow> 'd hooks \<Rightarrow> addr \<Rightarrow> ('d store, unit) prog" where
  "FallbackPassword_doBeforeDeleteHooks E H p = do_hooks E H FallbackPassword_info BeforeDeleteHook p"

definition FallbackPassword_doAfterDeleteHooks :: "context_env \<Rightarrow> 'd hooks \<Rightarrow> addr \<Rightarrow> ('d store, unit) prog" where
  "FallbackPassword_doAfterDeleteHooks E H p = do_hooks E H FallbackPassword_info AfterDeleteHook p"

definition FallbackPassword_doBeforeUpsertHooks :: "context_env \<Rightarrow> 'd hooks \<Rightarrow> addr \<Rightarrow> ('d store, unit) prog" where
  "FallbackPassword_doBeforeUpsertHooks E H p = do_hooks E H FallbackPassword_info BeforeUpsertHook p"

definition FallbackPassword_doAfterUpsertHooks :: "context_env \<Rightarrow> 'd hooks \<Rightarrow> addr \<Rightarrow> ('d store, unit) prog" where
  "FallbackPassword_doAfterUpsertHooks E H p = do_hooks E H FallbackPassword_info AfterUpsertHook p"

definition AddFallbackPasswordHook :: "hook_point \<Rightarrow> 'd hook \<Rightarrow> 'd hooks \<Rightarrow> 'd hooks" where
  "AddFallbackPasswordHook hp hook H = add_hook FallbackPassword_info hp hook H"

subsection \<open>Queries\<close>

definition FallbackPassword_query :: "'d boil \<Rightarrow> qmod list \<Rightarrow> query_mods" where
  "FallbackPassword_query B mods = table_query B FallbackPassword_info mods"

definition FallbackPassword_One :: "'d boil \<Rightarrow> context_env \<Rightarrow> 'd hooks \<Rightarrow> query_mods \<Rightarrow> ('d store, addr) prog" where
  "FallbackPassword_One B E H q = query_One B E H FallbackPassword_info q"

definition FallbackPassword_All :: "'d boil \<Rightarrow> context_env \<Rightarrow> 'd hooks \<Rightarrow> query_mods \<Rightarrow> ('d store, addr list) prog" where
  "FallbackPassword_All B E H q = query_All B E H FallbackPassword_info q"

definition FallbackPassword_Count :: "'d boil \<Rightarrow> query_mods \<Rightarrow> ('d store, int64) prog" where
  "FallbackPassword_Count B q = query_Count B FallbackPassword_info q"

definition FallbackPassword_query_Exists :: "'d boil \<Rightarrow> query_mods \<Rightarrow> ('d store, bool) prog" where
  "FallbackPassword_query_Exists B q = query_Exists B FallbackPassword_info q"

definition FindFallbackPassword :: "'d boil \<Rightarrow> context_env \<Rightarrow> 'd hooks \<Rightarrow> int64 \<Rightarrow> string list \<Rightarrow> ('d store, addr) prog" where
  "FindFallbackPassword B E H iD selectCols = Find B E H FallbackPassword_info iD selectCols"

definition FallbackPassword_Reload :: "'d boil \<Rightarrow> context_env \<Rightarrow> 'd hooks \<Rightarrow> addr \<Rightarrow> ('d store, unit) prog" where
  "FallbackPassword_Reload B E H p = Reload B E H FallbackPassword_info p"

definition FallbackPassword_slice_ReloadAll :: "'d boil \<Rightarrow> addr list \<Rightarrow> ('d store, addr list) prog" where
  "FallbackPassword_slice_ReloadAll B ps = slice_ReloadAll B FallbackPassword_info ps"

definition FallbackPasswordExists :: "'d boil \<Rightarrow> int64 \<Rightarrow> ('d store, bool) prog" where
  "FallbackPasswordExists B iD = row_Exists B FallbackPassword_info iD"

definition FallbackPassword_Exists :: "'d boil \<Rightarrow> addr \<Rightarrow> ('d store, bool) prog" where
  "FallbackPassword_Exists B p = obj_Exists B FallbackPassword_info p"

subsection \<open>Statements\<close>

definition FallbackPassword_Insert :: "'d boil \<Rightarrow> context_env \<Rightarrow> 'd hooks \<Rightarrow> addr option \<Rightarrow> columns \<Rightarrow> ('d store, unit) prog" where
  "FallbackPassword_Insert B E H recv cols = Insert B E H FallbackPassword_info recv cols"

definition FallbackPassword_Update :: "'d boil \<Rightarrow> context_env \<Rightarrow> 'd hooks \<Rightarrow> addr \<Rightarrow> columns \<Rightarrow> ('d store, int64) prog" where
  "FallbackPassword_Update B E H p cols = Update B E H FallbackPassword_info p cols"

definition FallbackPassword_UpdateAll :: "'d boil \<Rightarrow> query_mods \<Rightarrow> (string \<times> val) list \<Rightarrow> ('d store, int64) prog" where
  "FallbackPassword_UpdateAll B q cols = query_UpdateAll B FallbackPassword_info q cols"

definition FallbackPassword_slice_UpdateAll :: "'d boil \<Rightarrow> addr list \<Rightarrow> (string \<times> val) list \<Rightarrow> ('d store, int64) prog" where
  "FallbackPassword_slice_UpdateAll B ps cols = slice_UpdateAll B FallbackPassword_info ps cols"

definition FallbackPassword_Upsert :: "'d boil \<Rightarrow> context_env \<Rightarrow> 'd hooks \<Rightarrow> addr option \<Rightarrow> bool \<Rightarrow> string list \<Rightarrow> columns \<Rightarrow> columns \<Rightarrow> ('d store, unit) prog" where
  "FallbackPassword_Upsert B E H recv updateOnConflict conflictColumns updateColumns insertColumns = 
     Upsert B E H FallbackPassword_info recv updateOnConflict conflictColumns updateColumns insertColumns"

definition FallbackPassword_Delete :: "'d boil \<Rightarrow> context_env \<Rightarrow> 'd hooks \<Rightarrow> addr option \<Rightarrow> ('d store, int64) prog" where
  "FallbackPassword_Delete B E H recv = Delete B E H FallbackPassword_info recv"

definition FallbackPassword_DeleteAll :: "'d boil \<Rightarrow> query_mods option \<Rightarrow> ('d store, int64) prog" where
  "FallbackPassword_DeleteAll B recv = query_DeleteAll B FallbackPassword_info recv"

definition FallbackPassword_slice_DeleteAll :: "'d boil \<Rightarrow> context_env \<Rightarrow> 'd hooks \<Rightarrow> addr list \<Rightarrow> ('d store, int64) prog" where
  "FallbackPassword_slice_DeleteAll B E H ps = slice_DeleteAll B E H FallbackPassword_info ps"

subsection \<open>Relations\<close>

definition FallbackPassword_Member_rel :: "relation" where
  "FallbackPassword_Member_rel = 
     \<lparr>r_local = FallbackPassword_info, r_foreign = Member_info, r_lcol = ''member_id'', r_fcol = ''id'',
      r_field = ''Member'', r_back = ''FallbackPassword'', r_many = False\<rparr>"

definition FallbackPassword_Member :: "'d boil \<Rightarrow> addr \<Rightarrow> qmod list \<Rightarrow> 'd store \<Rightarrow> query_mods" where
  "FallbackPassword_Member B p mods s = one_related B FallbackPassword_Member_rel p mods s"

definition FallbackPassword_LoadMember :: "'d boil \<Rightarrow> context_env \<Rightarrow> 'd hooks \<Rightarrow> bool \<Rightarrow> load_target \<Rightarrow> qmod list \<Rightarrow> ('d store, unit) prog" where
  "FallbackPassword_LoadMember B E H singular maybe mods = load_one B E H FallbackPassword_Member_rel singular maybe mods"

definition FallbackPassword_SetMember :: "'d boil \<Rightarrow> context_env \<Rightarrow> 'd hooks \<Rightarrow> addr \<Rightarrow> bool \<Rightarrow> addr \<Rightarrow> ('d store, unit) prog" where
  "FallbackPassword_SetMember B E H p ins related = set_one B E H FallbackPassword_Member_rel p ins related"

end
