(* ===== verification/ModelResetToken.thy ===== *)
theory ModelResetToken
  imports ModelInfos
begin

text \<open>The struct \<open>FallbackResetToken\<close> and its methods, \<open>roomdb/sqlite/models/fallback_reset_tokens.go\<close>: those of \<open>Boil\<close> and \<open>BoilRels\<close> for its table.\<close>

subsection \<open>Columns and conditions\<close>

definition FallbackResetToken_Columns :: "(string \<times> string) list" where
  "FallbackResetToken_Columns = 
     [(''ID'', ''id''), (''HashedToken'', ''hashed_token''), (''CreatedBy'', ''created_by''), (''CreatedAt'', ''created_at''), (''ForMember'', ''for_member''), (''Active'', ''active'')]"

definition FallbackResetToken_TableColumns :: "(string \<times> string) list" where
  "FallbackResetToken_TableColumns = map (\<lambda>(field, c). (field, table_column FallbackResetToken_info c)) FallbackResetToken_Columns"

definition FallbackResetToken_Where :: "(string \<times> string) list" where
  "FallbackResetToken_Where = map (\<lambda>(field, c). (field, where_field FallbackResetToken_info c)) FallbackResetToken_Columns"

subsection \<open>Related objects\<close>

definition FallbackResetToken_Rels :: "string list" where
  "FallbackResetToken_Rels = [''ForMemberMember'', ''CreatedByMember'']"

definition FallbackResetToken_NewStruct :: "string \<Rightarrow> addr list" where
  "FallbackResetToken_NewStruct = NewStruct"

definition FallbackResetToken_GetForMemberMember :: "(string \<Rightarrow> addr list) option \<Rightarrow> addr list" where
  "FallbackResetToken_GetForMemberMember r = get_rel ''ForMemberMember'' r"

definition FallbackResetToken_GetCreatedByMember :: "(string \<Rightarrow> addr list) option \<Rightarrow> addr list" where
  "FallbackResetToken_GetCreatedByMember r = get_rel ''CreatedByMember'' r"

subsection \<open>Hooks\<close>

definition FallbackResetToken_doAfterSelectHooks :: "context_env \<Rightarrow> 'd hooks \<Rightarrow> addr \<Rightarrow> ('d store, unit) prog" where
  "FallbackResetToken_doAfterSelectHooks E H p = do_hooks E H FallbackResetToken_info AfterSelectHook p"

definition FallbackResetToken_doBeforeInsertHooks :: "context_env \<Rightarrow> 'd hooks \<Rightarrow> addr \<Rightarrow> ('d store, unit) prog" where
  "FallbackResetToken_doBeforeInsertHooks E H p = do_hooks E H FallbackResetToken_info BeforeInsertHook p"

definition FallbackResetToken_doAfterInsertHooks :: "context_env \<Rightarrow> 'd hooks \<Rightarrow> addr \<Rightarrow> ('d store, unit) prog" where
  "FallbackResetToken_doAfterInsertHooks E H p = do_hooks E H FallbackResetToken_info AfterInsertHook p"

definition FallbackResetToken_doBeforeUpdateHooks :: "context_env \<Rightarrow> 'd hooks \<Rightarrow> addr \<Rightarrow> ('d store, unit) prog" where
  "FallbackResetToken_doBeforeUpdateHooks E H p = do_hooks E H FallbackResetToken_info BeforeUpdateHook p"

definition FallbackResetToken_doAfterUpdateHooks :: "context_env \<Rightarrow> 'd hooks \<Rightarrow> addr \<Rightarrow> ('d store, unit) prog" where
  "FallbackResetToken_doAfterUpdateHooks E H p = do_hooks E H FallbackResetToken_info AfterUpdateHook p"

definition FallbackResetToken_doBeforeDeleteHooks :: "context_env \<Rightarrow> 'd hooks \<Rightarrow> addr \<Rightarrow> ('d store, unit) prog" where
  "FallbackResetToken_doBeforeDeleteHooks E H p = do_hooks E H FallbackResetToken_info BeforeDeleteHook p"

definition FallbackResetToken_doAfterDeleteHooks :: "context_env \<Rightarrow> 'd hooks \<Rightarrow> addr \<Rightarrow> ('d store, unit) prog" where
  "FallbackResetToken_doAfterDeleteHooks E H p = do_hooks E H FallbackResetToken_info AfterDeleteHook p"

definition FallbackResetToken_doBeforeUpsertHooks :: "context_env \<Rightarrow> 'd hooks \<Rightarrow> addr \<Rightarrow> ('d store, unit) prog" where
  "FallbackResetToken_doBeforeUpsertHooks E H p = do_hooks E H FallbackResetToken_info BeforeUpsertHook p"

definition FallbackResetToken_doAfterUpsertHooks :: "context_env \<Rightarrow> 'd hooks \<Rightarrow> addr \<Rightarrow> ('d store, unit) prog" where
  "FallbackResetToken_doAfterUpsertHooks E H p = do_hooks E H FallbackResetToken_info AfterUpsertHook p"

definition AddFallbackResetTokenHook :: "hook_point \<Rightarrow> 'd hook \<Rightarrow> 'd hooks \<Rightarrow> 'd hooks" where
  "AddFallbackResetTokenHook hp hook H = add_hook FallbackResetToken_info hp hook H"

subsection \<open>Queries\<close>

definition FallbackResetToken_query :: "'d boil \<Rightarrow> qmod list \<Rightarrow> query_mods" where
  "FallbackResetToken_query B mods = table_query B FallbackResetToken_info mods"

definition FallbackResetToken_One :: "'d boil \<Rightarrow> context_env \<Rightarrow> 'd hooks \<Rightarrow> query_mods \<Rightarrow> ('d store, addr) prog" where
  "FallbackResetToken_One B E H q = query_One B E H FallbackResetToken_info q"

definition FallbackResetToken_All :: "'d boil \<Rightarrow> context_env \<Rightarrow> 'd hooks \<Rightarrow> query_mods \<Rightarrow> ('d store, addr list) prog" where
  "FallbackResetToken_All B E H q = query_All B E H FallbackResetToken_info q"

definition FallbackResetToken_Count :: "'d boil \<Rightarrow> query_mods \<Rightarrow> ('d store, int64) prog" where
  "FallbackResetToken_Count B q = query_Count B FallbackResetToken_info q"

definition FallbackResetToken_query_Exists :: "'d boil \<Rightarrow> query_mods \<Rightarrow> ('d store, bool) prog" where
  "FallbackResetToken_query_Exists B q = query_Exists B FallbackResetToken_info q"

definition FindFallbackResetToken :: "'d boil \<Rightarrow> context_env \<Rightarrow> 'd hooks \<Rightarrow> int64 \<Rightarrow> string list \<Rightarrow> ('d store, addr) prog" where
  "FindFallbackResetToken B E H iD selectCols = Find B E H FallbackResetToken_info iD selectCols"

definition FallbackResetToken_Reload :: "'d boil \<Rightarrow> context_env \<Rightarrow> 'd hooks \<Rightarrow> addr \<Rightarrow> ('d store, unit) prog" where
  "FallbackResetToken_Reload B E H p = Reload B E H FallbackResetToken_info p"

definition FallbackResetToken_slice_ReloadAll :: "'d boil \<Rightarrow> addr list \<Rightarrow> ('d store, addr list) prog" where
  "FallbackResetToken_slice_ReloadAll B ps = slice_ReloadAll B FallbackResetToken_info ps"

definition FallbackResetTokenExists :: "'d boil \<Rightarrow> int64 \<Rightarrow> ('d store, bool) prog" where
  "FallbackResetTokenExists B iD = row_Exists B FallbackResetToken_info iD"

definition FallbackResetToken_Exists :: "'d boil \<Rightarrow> addr \<Rightarrow> ('d store, bool) prog" where
  "FallbackResetToken_Exists B p = obj_Exists B FallbackResetToken_info p"

subsection \<open>Statements\<close>

definition FallbackResetToken_Insert :: "'d boil \<Rightarrow> context_env \<Rightarrow> 'd hooks \<Rightarrow> addr option \<Rightarrow> columns \<Rightarrow> ('d store, unit) prog" where
  "FallbackResetToken_Insert B E H recv cols = Insert B E H FallbackResetToken_info recv cols"

definition FallbackResetToken_Update :: "'d boil \<Rightarrow> context_env \<Rightarrow> 'd hooks \<Rightarrow> addr \<Rightarrow> columns \<Rightarrow> ('d store, int64) prog" where
  "FallbackResetToken_Update B E H p cols = Update B E H FallbackResetToken_info p cols"

definition FallbackResetToken_UpdateAll :: "'d boil \<Rightarrow> query_mods \<Rightarrow> (string \<times> val) list \<Rightarrow> ('d store, int64) prog" where
  "FallbackResetToken_UpdateAll B q cols = query_UpdateAll B FallbackResetToken_info q cols"

definition FallbackResetToken_slice_UpdateAll :: "'d boil \<Rightarrow> addr list \<Rightarrow> (string \<times> val) list \<Rightarrow> ('d store, int64) prog" where
  "FallbackResetToken_slice_UpdateAll B ps cols = slice_UpdateAll B FallbackResetToken_info ps cols"

definition FallbackResetToken_Upsert :: "'d boil \<Rightarrow> context_env \<Rightarrow> 'd hooks \<Rightarrow> addr option \<Rightarrow> bool \<Rightarrow> string list \<Rightarrow> columns \<Rightarrow> columns \<Rightarrow> ('d store, unit) prog" where
  "FallbackResetToken_Upsert B E H recv updateOnConflict conflictColumns updateColumns insertColumns = 
     Upsert B E H FallbackResetToken_info recv updateOnConflict conflictColumns updateColumns insertColumns"

definition FallbackResetToken_Delete :: "'d boil \<Rightarrow> context_env \<Rightarrow> 'd hooks \<Rightarrow> addr option \<Rightarrow> ('d store, int64) prog" where
  "FallbackResetToken_Delete B E H recv = Delete B E H FallbackResetToken_info recv"

definition FallbackResetToken_DeleteAll :: "'d boil \<Rightarrow> query_mods option \<Rightarrow> ('d store, int64) prog" where
  "FallbackResetToken_DeleteAll B recv = query_DeleteAll B FallbackResetToken_info recv"

definition FallbackResetToken_slice_DeleteAll :: "'d boil \<Rightarrow> context_env \<Rightarrow> 'd hooks \<Rightarrow> addr list \<Rightarrow> ('d store, int64) prog" where
  "FallbackResetToken_slice_DeleteAll B E H ps = slice_DeleteAll B E H FallbackResetToken_info ps"

subsection \<open>Relations\<close>

definition FallbackResetToken_ForMemberMember_rel :: "relation" where
  "FallbackResetToken_ForMemberMember_rel = 
     \<lparr>r_local = FallbackResetToken_info, r_foreign = Member_info, r_lcol = ''for_member'', r_fcol = ''id'',
      r_field = ''ForMemberMember'', r_back = ''ForMemberFallbackResetTokens'', r_many = True\<rparr>"

definition FallbackResetToken_ForMemberMember :: "'d boil \<Rightarrow> addr \<Rightarrow> qmod list \<Rightarrow> 'd store \<Rightarrow> query_mods" where
  "FallbackResetToken_ForMemberMember B p mods s = one_related B FallbackResetToken_ForMemberMember_rel p mods s"

definition FallbackResetToken_LoadForMemberMember :: "'d boil \<Rightarrow> context_env \<Rightarrow> 'd hooks \<Rightarrow> bool \<Rightarrow> load_target \<Rightarrow> qmod list \<Rightarrow> ('d store, unit) prog" where
  "FallbackResetToken_LoadForMemberMember B E H singular maybe mods = load_one B E H FallbackResetToken_ForMemberMember_rel singular maybe mods"

definition FallbackResetToken_SetForMemberMember :: "'d boil \<Rightarrow> context_env \<Rightarrow> 'd hooks \<Rightarrow> addr \<Rightarrow> bool \<Rightarrow> addr \<Rightarrow> ('d store, unit) prog" where
  "FallbackResetToken_SetForMemberMember B E H p ins related = set_one B E H FallbackResetToken_ForMemberMember_rel p ins related"

definition FallbackResetToken_CreatedByMember_rel :: "relation" where
  "FallbackResetToken_CreatedByMember_rel = 
     \<lparr>r_local = FallbackResetToken_info, r_foreign = Member_info, r_lcol = ''created_by'', r_fcol = ''id'',
      r_field = ''CreatedByMember'', r_back = ''CreatedByFallbackResetTokens'', r_many = True\<rparr>"

definition FallbackResetToken_CreatedByMember :: "'d boil \<Rightarrow> addr \<Rightarrow> qmod list \<Rightarrow> 'd store \<Rightarrow> query_mods" where
  "FallbackResetToken_CreatedByMember B p mods s = one_related B FallbackResetToken_CreatedByMember_rel p mods s"

definition FallbackResetToken_LoadCreatedByMember :: "'d boil \<Rightarrow> context_env \<Rightarrow> 'd hooks \<Rightarrow> bool \<Rightarrow> load_target \<Rightarrow> qmod list \<Rightarrow> ('d store, unit) prog" where
  "FallbackResetToken_LoadCreatedByMember B E H singular maybe mods = load_one B E H FallbackResetToken_CreatedByMember_rel singular maybe mods"

definition FallbackResetToken_SetCreatedByMember :: "'d boil \<Rightarrow> context_env \<Rightarrow> 'd hooks \<Rightarrow> addr \<Rightarrow> bool \<Rightarrow> addr \<Rightarrow> ('d store, unit) prog" where
  "FallbackResetToken_SetCreatedByMember B E H p ins related = set_one B E H FallbackResetToken_CreatedByMember_rel p ins related"

end
