(* ===== verification/ModelNotice.thy ===== *)
theory ModelNotice
  imports ModelInfos
begin

text \<open>The struct \<open>Notice\<close> and its methods, \<open>roomdb/sqlite/models/notices.go\<close>: those of \<open>Boil\<close> and \<open>BoilRels\<close> for its table.\<close>

subsection \<open>Columns and conditions\<close>

definition Notice_Columns :: "(string \<times> string) list" where
  "Notice_Columns = 
     [(''ID'', ''id''), (''Title'', ''title''), (''Content'', ''content''), (''Language'', ''language'')]"

definition Notice_TableColumns :: "(string \<times> string) list" where
  "Notice_TableColumns = map (\<lambda>(field, c). (field, table_column Notice_info c)) Notice_Columns"

definition Notice_Where :: "(string \<times> string) list" where
  "Notice_Where = map (\<lambda>(field, c). (field, where_field Notice_info c)) Notice_Columns"

subsection \<open>Related objects\<close>

definition Notice_Rels :: "string list" where
  "Notice_Rels = [''Pins'']"

definition Notice_NewStruct :: "string \<Rightarrow> addr list" where
  "Notice_NewStruct = NewStruct"

definition Notice_GetPins :: "(string \<Rightarrow> addr list) option \<Rightarrow> addr list" where
  "Notice_GetPins r = get_rel ''Pins'' r"

subsection \<open>Hooks\<close>

definition Notice_doAfterSelectHooks :: "context_env \<Rightarrow> 'd hooks \<Rightarrow> addr \<Rightarrow> ('d store, unit) prog" where
  "Notice_doAfterSelectHooks E H p = do_hooks E H Notice_info AfterSelectHook p"

definition Notice_doBeforeInsertHooks :: "context_env \<Rightarrow> 'd hooks \<Rightarrow> addr \<Rightarrow> ('d store, unit) prog" where
  "Notice_doBeforeInsertHooks E H p = do_hooks E H Notice_info BeforeInsertHook p"

definition Notice_doAfterInsertHooks :: "context_env \<Rightarrow> 'd hooks \<Rightarrow> addr \<Rightarrow> ('d store, unit) prog" where
  "Notice_doAfterInsertHooks E H p = do_hooks E H Notice_info AfterInsertHook p"

definition Notice_doBeforeUpdateHooks :: "context_env \<Rightarrow> 'd hooks \<Rightarrow> addr \<Rightarrow> ('d store, unit) prog" where
  "Notice_doBeforeUpdateHooks E H p = do_hooks E H Notice_info BeforeUpdateHook p"

definition Notice_doAfterUpdateHooks :: "context_env \<Rightarrow> 'd hooks \<Rightarrow> addr \<Rightarrow> ('d store, unit) prog" where
  "Notice_doAfterUpdateHooks E H p = do_hooks E H Notice_info AfterUpdateHook p"

definition Notice_doBeforeDeleteHooks :: "context_env \<Rightarrow> 'd hooks \<Rightarrow> addr \<Rightarrow> ('d store, unit) prog" where
  "Notice_doBeforeDeleteHooks E H p = do_hooks E H Notice_info BeforeDeleteHook p"

definition Notice_doAfterDeleteHooks :: "context_env \<Rightarrow> 'd hooks \<Rightarrow> addr \<Rightarrow> ('d store, unit) prog" where
  "Notice_doAfterDeleteHooks E H p = do_hooks E H Notice_info AfterDeleteHook p"

definition Notice_doBeforeUpsertHooks :: "context_env \<Rightarrow> 'd hooks \<Rightarrow> addr \<Rightarrow> ('d store, unit) prog" where
  "Notice_doBeforeUpsertHooks E H p = do_hooks E H Notice_info BeforeUpsertHook p"

definition Notice_doAfterUpsertHooks :: "context_env \<Rightarrow> 'd hooks \<Rightarrow> addr \<Rightarrow> ('d store, unit) prog" where
  "Notice_doAfterUpsertHooks E H p = do_hooks E H Notice_info AfterUpsertHook p"

definition AddNoticeHook :: "hook_point \<Rightarrow> 'd hook \<Rightarrow> 'd hooks \<Rightarrow> 'd hooks" where
  "AddNoticeHook hp hook H = add_hook Notice_info hp hook H"

subsection \<open>Queries\<close>

definition Notice_query :: "'d boil \<Rightarrow> qmod list \<Rightarrow> query_mods" where
  "Notice_query B mods = table_query B Notice_info mods"

definition Notice_One :: "'d boil \<Rightarrow> context_env \<Rightarrow> 'd hooks \<Rightarrow> query_mods \<Rightarrow> ('d store, addr) prog" where
  "Notice_One B E H q = query_One B E H Notice_info q"

definition Notice_All :: "'d boil \<Rightarrow> context_env \<Rightarrow> 'd hooks \<Rightarrow> query_mods \<Rightarrow> ('d store, addr list) prog" where
  "Notice_All B E H q = query_All B E H Notice_info q"

definition Notice_Count :: "'d boil \<Rightarrow> query_mods \<Rightarrow> ('d store, int64) prog" where
  "Notice_Count B q = query_Count B Notice_info q"

definition Notice_query_Exists :: "'d boil \<Rightarrow> query_mods \<Rightarrow> ('d store, bool) prog" where
  "Notice_query_Exists B q = query_Exists B Notice_info q"

definition FindNotice :: "'d boil \<Rightarrow> context_env \<Rightarrow> 'd hooks \<Rightarrow> int64 \<Rightarrow> string list \<Rightarrow> ('d store, addr) prog" where
  "FindNotice B E H iD selectCols = Find B E H Notice_info iD selectCols"

definition Notice_Reload :: "'d boil \<Rightarrow> context_env \<Rightarrow> 'd hooks \<Rightarrow> addr \<Rightarrow> ('d store, unit) prog" where
  "Notice_Reload B E H p = Reload B E H Notice_info p"

definition Notice_slice_ReloadAll :: "'d boil \<Rightarrow> addr list \<Rightarrow> ('d store, addr list) prog" where
  "Notice_slice_ReloadAll B ps = slice_ReloadAll B Notice_info ps"

definition NoticeExists :: "'d boil \<Rightarrow> int64 \<Rightarrow> ('d store, bool) prog" where
  "NoticeExists B iD = row_Exists B Notice_info iD"

definition Notice_Exists :: "'d boil \<Rightarrow> addr \<Rightarrow> ('d store, bool) prog" where
  "Notice_Exists B p = obj_Exists B Notice_info p"

subsection \<open>Statements\<close>

definition Notice_Insert :: "'d boil \<Rightarrow> context_env \<Rightarrow> 'd hooks \<Rightarrow> addr option \<Rightarrow> columns \<Rightarrow> ('d store, unit) prog" where
  "Notice_Insert B E H recv cols = Insert B E H Notice_info recv cols"

definition Notice_Update :: "'d boil \<Rightarrow> context_env \<Rightarrow> 'd hooks \<Rightarrow> addr \<Rightarrow> columns \<Rightarrow> ('d store, int64) prog" where
  "Notice_Update B E H p cols = Update B E H Notice_info p cols"

definition Notice_UpdateAll :: "'d boil \<Rightarrow> query_mods \<Rightarrow> (string \<times> val) list \<Rightarrow> ('d store, int64) prog" where
  "Notice_UpdateAll B q cols = query_UpdateAll B Notice_info q cols"

definition Notice_slice_UpdateAll :: "'d boil \<Rightarrow> addr list \<Rightarrow> (string \<times> val) list \<Rightarrow> ('d store, int64) prog" where
  "Notice_slice_UpdateAll B ps cols = slice_UpdateAll B Notice_info ps cols"

definition Notice_Upsert :: "'d boil \<Rightarrow> context_env \<Rightarrow> 'd hooks \<Rightarrow> addr option \<Rightarrow> bool \<Rightarrow> string list \<Rightarrow> columns \<Rightarrow> columns \<Rightarrow> ('d store, unit) prog" where
  "Notice_Upsert B E H recv updateOnConflict conflictColumns updateColumns insertColumns = 
     Upsert B E H Notice_info recv updateOnConflict conflictColumns updateColumns insertColumns"

definition Notice_Delete :: "'d boil \<Rightarrow> context_env \<Rightarrow> 'd hooks \<Rightarrow> addr option \<Rightarrow> ('d store, int64) prog" where
  "Notice_Delete B E H recv = Delete B E H Notice_info recv"

definition Notice_DeleteAll :: "'d boil \<Rightarrow> query_mods option \<Rightarrow> ('d store, int64) prog" where
  "Notice_DeleteAll B recv = query_DeleteAll B Notice_info recv"

definition Notice_slice_DeleteAll :: "'d boil \<Rightarrow> context_env \<Rightarrow> 'd hooks \<Rightarrow> addr list \<Rightarrow> ('d store, int64) prog" where
  "Notice_slice_DeleteAll B E H ps = slice_DeleteAll B E H Notice_info ps"

subsection \<open>Relations\<close>

definition Notice_Pins_rel :: "joined" where
  "Notice_Pins_rel = 
     \<lparr>j_local = Notice_info, j_foreign = Pin_info, j_field = ''Pins'', j_back = ''Notices'',
      j_table = ''pin_notices'', j_lcol = ''notice_id'', j_fcol = ''pin_id''\<rparr>"

definition Notice_Pins :: "'d boil \<Rightarrow> addr \<Rightarrow> qmod list \<Rightarrow> 'd store \<Rightarrow> query_mods" where
  "Notice_Pins B p mods s = joined_related B Notice_Pins_rel p mods s"

definition Notice_LoadPins :: "'d boil \<Rightarrow> context_env \<Rightarrow> 'd hooks \<Rightarrow> bool \<Rightarrow> load_target \<Rightarrow> qmod list \<Rightarrow> ('d store, unit) prog" where
  "Notice_LoadPins B E H singular maybe mods = load_joined B E H Notice_Pins_rel singular maybe mods"

definition Notice_AddPins :: "'d boil \<Rightarrow> context_env \<Rightarrow> 'd hooks \<Rightarrow> addr \<Rightarrow> bool \<Rightarrow> addr list \<Rightarrow> ('d store, unit) prog" where
  "Notice_AddPins B E H p ins related = add_joined B E H Notice_Pins_rel p ins related"

definition Notice_SetPins :: "'d boil \<Rightarrow> context_env \<Rightarrow> 'd hooks \<Rightarrow> addr \<Rightarrow> bool \<Rightarrow> addr list \<Rightarrow> ('d store, unit) prog" where
  "Notice_SetPins B E H p ins related = set_joined B E H Notice_Pins_rel p ins related"

definition Notice_RemovePins :: "'d boil \<Rightarrow> addr \<Rightarrow> addr list \<Rightarrow> ('d store, unit) prog" where
  "Notice_RemovePins B p related = remove_joined B Notice_Pins_rel p related"

definition removePinsFromNoticesSlice :: "addr \<Rightarrow> addr list \<Rightarrow> ('d store, unit) prog" where
  "removePinsFromNoticesSlice p related = remove_from_backs Notice_Pins_rel p related"

end
